(* ===== verification/Prelude.thy ===== *)
theory Prelude
  imports Complex_Main "HOL-Library.Product_Lexorder"
begin

text \<open>
  Shared vocabulary of the development: errors as values of a sum type, the operations of
  Python's \<open>str\<close> that the modelled code calls, insertion-ordered dictionaries as
  association lists, and tables of rows that are looked up and rewritten by key (the way the
  SQL statements of the task store address them).

  Strings are lists of \<open>char\<close>; a \<open>char\<close> is read as a code point below 256, so
  white space and line boundaries are those of Python restricted to that range.
\<close>

named_theorems res_simps \<open>unfolding of the error monad\<close>
named_theorems py_simps \<open>evaluation of the Python primitives\<close>
named_theorems table_simps \<open>lookups in updated tables\<close>

section \<open>Errors as values\<close>

fun ebind :: "'e + 'a \<Rightarrow> ('a \<Rightarrow> 'e + 'b) \<Rightarrow> 'e + 'b" where
  "ebind (Inl e) f = Inl e"
| "ebind (Inr x) f = f x"

definition check_that :: "bool \<Rightarrow> 'e \<Rightarrow> 'e + unit" where
  "check_that b e = (if b then Inr () else Inl e)"

text \<open>A \<open>for\<close> loop whose body raises or continues.\<close>

fun eforeach :: "('a \<Rightarrow> 'e + unit) \<Rightarrow> 'a list \<Rightarrow> 'e + unit" where
  "eforeach f [] = Inr ()"
| "eforeach f (x # xs) = ebind (f x) (\<lambda>_. eforeach f xs)"

lemma ebind_eq_Inr [res_simps]:
  "ebind r f = Inr y \<longleftrightarrow> (\<exists>x. r = Inr x \<and> f x = Inr y)"
  by (cases r) auto

lemma ebind_eq_Inl [res_simps]:
  "ebind r f = Inl e \<longleftrightarrow> r = Inl e \<or> (\<exists>x. r = Inr x \<and> f x = Inl e)"
  by (cases r) auto

lemma check_that_Inr [res_simps]: "check_that b e = Inr u \<longleftrightarrow> b"
  by (auto simp: check_that_def)

lemma check_that_Inl [res_simps]: "check_that b e = Inl e' \<longleftrightarrow> \<not> b \<and> e' = e"
  by (auto simp: check_that_def)

lemma eforeach_Inr [res_simps]:
  "eforeach f xs = Inr u \<longleftrightarrow> (\<forall>x \<in> set xs. f x = Inr ())"
  by (induction xs) (auto simp: res_simps)

lemma eforeach_Inl_member:
  "eforeach f xs = Inl e \<Longrightarrow> \<exists>x \<in> set xs. f x = Inl e"
  by (induction xs) (auto simp: res_simps)

lemma sum_cases_Inr [res_simps]: "(\<forall>e. r \<noteq> Inl e) \<longleftrightarrow> (\<exists>x. r = Inr x)"
  by (cases r) auto

section \<open>Strings\<close>

type_synonym str = string

definition code :: "char \<Rightarrow> nat" where
  "code c = of_char c"

definition py_isspace :: "char \<Rightarrow> bool" where
  "py_isspace c = (let n = code c in
     (9 \<le> n \<and> n \<le> 13) \<or> (28 \<le> n \<and> n \<le> 32) \<or> n = 133 \<or> n = 160)"

definition py_isdigit :: "char \<Rightarrow> bool" where
  "py_isdigit c = (48 \<le> code c \<and> code c \<le> 57)"

definition lstrip :: "str \<Rightarrow> str" where
  "lstrip s = dropWhile py_isspace s"

definition rstrip :: "str \<Rightarrow> str" where
  "rstrip s = rev (dropWhile py_isspace (rev s))"

definition strip :: "str \<Rightarrow> str" where
  "strip s = rstrip (lstrip s)"

definition startswith :: "str \<Rightarrow> str \<Rightarrow> bool" where
  "startswith s p = (take (length p) s = p)"

definition endswith :: "str \<Rightarrow> str \<Rightarrow> bool" where
  "endswith s p = (length p \<le> length s \<and> drop (length s - length p) s = p)"

text \<open>\<open>str.lower\<close> on code points below 256.\<close>

definition lower_char :: "char \<Rightarrow> char" where
  "lower_char c = (let n = code c in
     if (65 \<le> n \<and> n \<le> 90) \<or> (192 \<le> n \<and> n \<le> 222 \<and> n \<noteq> 215)
     then char_of (n + 32) else c)"

definition lower :: "str \<Rightarrow> str" where
  "lower s = map lower_char s"

text \<open>\<open>str.split\<close> on a one-character separator: never the empty list.\<close>

fun split_on :: "char \<Rightarrow> str \<Rightarrow> str list" where
  "split_on c [] = [[]]"
| "split_on c (x # xs) =
     (if x = c then [] # split_on c xs
      else (case split_on c xs of [] \<Rightarrow> [[x]] | p # ps \<Rightarrow> (x # p) # ps))"

text \<open>The line boundaries of \<open>str.splitlines\<close>; \<open>\r\n\<close> is one of them.\<close>

definition is_linebreak :: "char \<Rightarrow> bool" where
  "is_linebreak c = (let n = code c in
     (10 \<le> n \<and> n \<le> 13) \<or> (28 \<le> n \<and> n \<le> 30) \<or> n = 133)"

fun splitlines_acc :: "str \<Rightarrow> str \<Rightarrow> str list" where
  "splitlines_acc acc [] = (if acc = [] then [] else [rev acc])"
| "splitlines_acc acc [c] = (if is_linebreak c then [rev acc] else [rev (c # acc)])"
| "splitlines_acc acc (c # d # cs) =
     (if code c = 13 \<and> code d = 10 then rev acc # splitlines_acc [] cs
      else if is_linebreak c then rev acc # splitlines_acc [] (d # cs)
      else splitlines_acc (c # acc) (d # cs))"

definition splitlines :: "str \<Rightarrow> str list" where
  "splitlines s = splitlines_acc [] s"

definition newline :: char where
  "newline = CHR 0x0A"

lemma code_char_of [py_simps, simp]: "n < 256 \<Longrightarrow> code (char_of n) = n"
  by (simp add: code_def)

lemma code_newline [simp]: "code newline = 10"
  by (simp add: code_def newline_def)

lemma is_linebreak_newline [simp]: "is_linebreak newline"
  by (simp add: is_linebreak_def)

lemma lstrip_idem [simp]: "lstrip (lstrip s) = lstrip s"
  by (simp add: lstrip_def)

lemma rstrip_idem [simp]: "rstrip (rstrip s) = rstrip s"
  by (simp add: rstrip_def)

lemma hd_rstrip: "rstrip t = [] \<or> hd (rstrip t) = hd t"
proof -
  have "t = rstrip t @ rev (takeWhile py_isspace (rev t))"
    unfolding rstrip_def by (metis rev_append rev_rev_ident takeWhile_dropWhile_id)
  then show ?thesis by (metis hd_append2)
qed

lemma lstrip_id: "s = [] \<or> \<not> py_isspace (hd s) \<Longrightarrow> lstrip s = s"
  by (cases s) (auto simp: lstrip_def)

lemma strip_Nil [simp]: "strip [] = []"
  by (simp add: strip_def lstrip_def rstrip_def)

lemma strip_idem [simp]: "strip (strip s) = strip s"
proof -
  have "lstrip s = [] \<or> \<not> py_isspace (hd (lstrip s))"
    unfolding lstrip_def using hd_dropWhile by blast
  then have "lstrip (rstrip (lstrip s)) = rstrip (lstrip s)"
    using hd_rstrip [of "lstrip s"] by (intro lstrip_id) (auto simp: rstrip_def)
  then show ?thesis by (simp add: strip_def)
qed
lemma split_on_not_Nil [simp]: "split_on c s \<noteq> []"
  by (induction s) (auto split: list.splits)

text \<open>Splitting a text written line by line gives the lines back.\<close>

definition plain_line :: "str \<Rightarrow> bool" where
  "plain_line s = list_all (\<lambda>c. \<not> is_linebreak c) s"

definition unlines :: "str list \<Rightarrow> str" where
  "unlines ls = concat (map (\<lambda>l. l @ [newline]) ls)"

lemma code_10_newline: "code c = 10 \<longleftrightarrow> c = newline"
  by (metis code_newline code_def of_char_eq_iff)

lemma not_cr_plain: "\<not> is_linebreak c \<Longrightarrow> code c \<noteq> 13 \<and> code c \<noteq> 10"
  by (auto simp: is_linebreak_def Let_def)


lemma splitlines_acc_plain:
  "plain_line l \<Longrightarrow>
   splitlines_acc acc (l @ newline # r) = (rev acc @ l) # splitlines_acc [] r"
proof (induction l arbitrary: acc)
  case Nil
  show ?case by (cases r) (auto simp: code_10_newline)
next
  case (Cons c l)
  then have c: "\<not> is_linebreak c" and l: "plain_line l"
    by (auto simp: plain_line_def)
  obtain d ds where d: "l @ newline # r = d # ds"
    by (cases l) auto
  from c have "code c \<noteq> 13" using not_cr_plain by blast
  with c d have "splitlines_acc acc ((c # l) @ newline # r)
      = splitlines_acc (c # acc) (l @ newline # r)"
    by simp
  also have "\<dots> = (rev (c # acc) @ l) # splitlines_acc [] r"
    using Cons.IH [OF l] .
  finally show ?case by simp
qed

lemma splitlines_unlines:
  "list_all plain_line ls \<Longrightarrow> splitlines (unlines ls) = ls"
  by (induction ls) (auto simp: splitlines_def unlines_def splitlines_acc_plain)

lemma startswith_append [simp]: "startswith (p @ s) p"
  by (simp add: startswith_def)

lemma startswith_Cons [simp]: "startswith (c # s) (d # p) \<longleftrightarrow> c = d \<and> startswith s p"
  by (auto simp: startswith_def)

lemma startswith_Nil [simp]: "startswith s []"
  by (simp add: startswith_def)

lemma startswith_empty [simp]: "startswith [] p \<longleftrightarrow> p = []"
  by (auto simp: startswith_def)

lemma plain_line_Cons [simp]: "plain_line (c # s) \<longleftrightarrow> \<not> is_linebreak c \<and> plain_line s"
  by (simp add: plain_line_def)

lemma plain_line_Nil [simp]: "plain_line []"
  by (simp add: plain_line_def)

lemma plain_line_append [simp]: "plain_line (s @ t) \<longleftrightarrow> plain_line s \<and> plain_line t"
  by (simp add: plain_line_def)

section \<open>Decimal numerals\<close>

definition digit_char :: "nat \<Rightarrow> char" where
  "digit_char d = char_of (48 + d)"

fun nat_str :: "nat \<Rightarrow> str" where
  "nat_str n = (if n < 10 then [digit_char n] else nat_str (n div 10) @ [digit_char (n mod 10)])"

declare nat_str.simps [simp del]

definition digits_value :: "str \<Rightarrow> nat" where
  "digits_value ds = foldl (\<lambda>n c. 10 * n + (code c - 48)) 0 ds"

lemma code_digit_char [simp]: "d < 10 \<Longrightarrow> code (digit_char d) = 48 + d"
  by (simp add: digit_char_def)

lemma py_isdigit_digit_char [simp]: "d < 10 \<Longrightarrow> py_isdigit (digit_char d)"
  by (simp add: py_isdigit_def)

lemma nat_str_digits: "list_all py_isdigit (nat_str n)"
proof (induction n rule: nat_str.induct)
  case (1 n)
  then show ?case by (subst nat_str.simps) auto
qed

lemma nat_str_not_Nil [simp]: "nat_str n \<noteq> []"
  by (subst nat_str.simps) simp

lemma digits_value_nat_str [simp]: "digits_value (nat_str n) = n"
proof (induction n rule: nat_str.induct)
  case (1 n)
  show ?case
  proof (cases "n < 10")
    case True
    then show ?thesis by (subst nat_str.simps) (simp add: digits_value_def)
  next
    case False
    with 1 have "digits_value (nat_str (n div 10)) = n div 10" by simp
    with False show ?thesis by (subst nat_str.simps) (simp add: digits_value_def)
  qed
qed

lemma digit_not_linebreak: "py_isdigit c \<Longrightarrow> \<not> is_linebreak c"
  by (auto simp: py_isdigit_def is_linebreak_def Let_def)

lemma plain_line_nat_str [simp]: "plain_line (nat_str n)"
  using nat_str_digits [of n] by (auto simp: plain_line_def list_all_iff digit_not_linebreak)

section \<open>Lists without repetition\<close>

text \<open>\<open>dict.fromkeys\<close>: the first occurrence of every name, in order.\<close>

fun dedup :: "'a list \<Rightarrow> 'a list" where
  "dedup [] = []"
| "dedup (x # xs) = x # dedup (filter (\<lambda>y. y \<noteq> x) xs)"

section \<open>Stateful code that may raise\<close>

text \<open>
  A method that reads and writes a store and may raise: it returns either the exception or
  its value, and the store as it is at that moment. What was committed before an exception
  stays; a transaction puts the store back.
\<close>

type_synonym ('s, 'e, 'a) prog = "'s \<Rightarrow> ('e + 'a) \<times> 's"

definition ret :: "'a \<Rightarrow> ('s, 'e, 'a) prog" where
  "ret x s = (Inr x, s)"

definition raise :: "'e \<Rightarrow> ('s, 'e, 'a) prog" where
  "raise e s = (Inl e, s)"

definition seq :: "('s, 'e, 'a) prog \<Rightarrow> ('a \<Rightarrow> ('s, 'e, 'b) prog) \<Rightarrow> ('s, 'e, 'b) prog" where
  "seq m f s = (case m s of (Inl e, s') \<Rightarrow> (Inl e, s') | (Inr x, s') \<Rightarrow> f x s')"

definition andthen :: "('s, 'e, unit) prog \<Rightarrow> ('s, 'e, 'b) prog \<Rightarrow> ('s, 'e, 'b) prog" where
  "andthen m n = seq m (\<lambda>_. n)"

definition reads :: "('s \<Rightarrow> 'a) \<Rightarrow> ('s, 'e, 'a) prog" where
  "reads f s = (Inr (f s), s)"

definition modifies :: "('s \<Rightarrow> 's) \<Rightarrow> ('s, 'e, unit) prog" where
  "modifies f s = (Inr (), f s)"

definition guard :: "bool \<Rightarrow> 'e \<Rightarrow> ('s, 'e, unit) prog" where
  "guard b e = (if b then ret () else raise e)"

definition transaction :: "('s, 'e, 'a) prog \<Rightarrow> ('s, 'e, 'a) prog" where
  "transaction m s = (case m s of (Inl e, s') \<Rightarrow> (Inl e, s) | (Inr x, s') \<Rightarrow> (Inr x, s'))"

fun foreach :: "('a \<Rightarrow> ('s, 'e, unit) prog) \<Rightarrow> 'a list \<Rightarrow> ('s, 'e, unit) prog" where
  "foreach f [] = ret ()"
| "foreach f (x # xs) = andthen (f x) (foreach f xs)"

text \<open>A loop that collects the values of the rounds that produce one.\<close>

fun collect :: "('a \<Rightarrow> ('s, 'e, 'b option) prog) \<Rightarrow> 'a list \<Rightarrow> ('s, 'e, 'b list) prog" where
  "collect f [] = ret []"
| "collect f (x # xs) = seq (f x) (\<lambda>r. seq (collect f xs) (\<lambda>rs.
     ret (case r of None \<Rightarrow> rs | Some y \<Rightarrow> y # rs)))"

lemma ret_run [res_simps]: "ret x s = (r, s') \<longleftrightarrow> r = Inr x \<and> s' = s"
  by (auto simp: ret_def)

lemma raise_run [res_simps]: "raise e s = (r, s') \<longleftrightarrow> r = Inl e \<and> s' = s"
  by (auto simp: raise_def)

lemma reads_run [res_simps]: "reads f s = (r, s') \<longleftrightarrow> r = Inr (f s) \<and> s' = s"
  by (auto simp: reads_def)

lemma modifies_run [res_simps]: "modifies f s = (r, s') \<longleftrightarrow> r = Inr () \<and> s' = f s"
  by (auto simp: modifies_def)

lemma seq_Inr [res_simps]:
  "seq m f s = (Inr y, s'') \<longleftrightarrow> (\<exists>x s'. m s = (Inr x, s') \<and> f x s' = (Inr y, s''))"
  by (auto simp: seq_def split: prod.splits sum.splits)

lemma seq_Inl [res_simps]:
  "seq m f s = (Inl e, s'') \<longleftrightarrow>
     m s = (Inl e, s'') \<or> (\<exists>x s'. m s = (Inr x, s') \<and> f x s' = (Inl e, s''))"
  by (auto simp: seq_def split: prod.splits sum.splits)

lemma andthen_Inr [res_simps]:
  "andthen m n s = (Inr y, s'') \<longleftrightarrow> (\<exists>s'. m s = (Inr (), s') \<and> n s' = (Inr y, s''))"
  by (auto simp: andthen_def res_simps)

lemma andthen_Inl [res_simps]:
  "andthen m n s = (Inl e, s'') \<longleftrightarrow>
     m s = (Inl e, s'') \<or> (\<exists>s'. m s = (Inr (), s') \<and> n s' = (Inl e, s''))"
  by (auto simp: andthen_def res_simps)

lemma guard_run [res_simps]:
  "guard b e s = (Inr u, s') \<longleftrightarrow> b \<and> s' = s"
  "guard b e s = (Inl e', s') \<longleftrightarrow> \<not> b \<and> e' = e \<and> s' = s"
  by (auto simp: guard_def ret_def raise_def)

lemma transaction_Inr [res_simps]:
  "transaction m s = (Inr x, s') \<longleftrightarrow> m s = (Inr x, s')"
  by (auto simp: transaction_def split: prod.splits sum.splits)

lemma transaction_Inl [res_simps]:
  "transaction m s = (Inl e, s') \<longleftrightarrow> s' = s \<and> (\<exists>s''. m s = (Inl e, s''))"
  by (auto simp: transaction_def split: prod.splits sum.splits)

lemma andthen_run: "m d = (Inr (), d') \<Longrightarrow> andthen m n d = n d'"
  by (simp add: andthen_def seq_def)

lemma seq_run: "m d = (Inr x, d') \<Longrightarrow> seq m f d = f x d'"
  by (simp add: seq_def)

lemma seq_reads [simp]: "seq (reads g) f d = f (g d) d"
  by (simp add: seq_def reads_def)

lemma andthen_eq: "andthen m n d = (case m d of (Inl e, s) \<Rightarrow> (Inl e, s) | (Inr x, s) \<Rightarrow> n s)"
  by (simp add: andthen_def seq_def)

text \<open>Properties of every run, successful or not.\<close>

definition keeps :: "('s \<Rightarrow> bool) \<Rightarrow> ('s, 'e, 'a) prog \<Rightarrow> bool" where
  "keeps P m \<longleftrightarrow> (\<forall>s. P s \<longrightarrow> P (snd (m s)))"

named_theorems keeps_intros \<open>preservation of an invariant by the program constructs\<close>

lemma keepsI: "(\<And>s. P s \<Longrightarrow> P (snd (m s))) \<Longrightarrow> keeps P m"
  by (simp add: keeps_def)

lemma keepsD: "keeps P m \<Longrightarrow> P s \<Longrightarrow> m s = (r, s') \<Longrightarrow> P s'"
  unfolding keeps_def by (metis snd_conv)

lemma keeps_ret [keeps_intros]: "keeps P (ret x)"
  by (simp add: keeps_def ret_def)

lemma keeps_raise [keeps_intros]: "keeps P (raise e)"
  by (simp add: keeps_def raise_def)

lemma keeps_reads [keeps_intros]: "keeps P (reads f)"
  by (simp add: keeps_def reads_def)

lemma keeps_guard [keeps_intros]: "keeps P (guard b e)"
  by (simp add: guard_def keeps_ret keeps_raise)

lemma keeps_modifies: "(\<And>s. P s \<Longrightarrow> P (f s)) \<Longrightarrow> keeps P (modifies f)"
  by (simp add: keeps_def modifies_def)

lemma keeps_seq [keeps_intros]: "keeps P m \<Longrightarrow> (\<And>x. keeps P (f x)) \<Longrightarrow> keeps P (seq m f)"
  unfolding keeps_def seq_def by (auto split: prod.splits sum.splits)

lemma keeps_andthen [keeps_intros]: "keeps P m \<Longrightarrow> keeps P n \<Longrightarrow> keeps P (andthen m n)"
  by (simp add: andthen_def keeps_seq)

lemma keeps_transaction [keeps_intros]: "keeps P m \<Longrightarrow> keeps P (transaction m)"
  unfolding keeps_def transaction_def by (auto split: prod.splits sum.splits)

lemma keeps_foreach [keeps_intros]: "(\<And>x. keeps P (f x)) \<Longrightarrow> keeps P (foreach f xs)"
  by (induction xs) (auto intro: keeps_intros)

lemma keeps_collect [keeps_intros]: "(\<And>x. keeps P (f x)) \<Longrightarrow> keeps P (collect f xs)"
  by (induction xs) (auto intro!: keeps_intros split: option.splits)

lemma keeps_if [keeps_intros]:
  "(b \<Longrightarrow> keeps P m) \<Longrightarrow> (\<not> b \<Longrightarrow> keeps P n) \<Longrightarrow> keeps P (if b then m else n)"
  by simp

lemma keeps_option [keeps_intros]:
  "keeps P m \<Longrightarrow> (\<And>x. keeps P (f x)) \<Longrightarrow> keeps P (case v of None \<Rightarrow> m | Some x \<Rightarrow> f x)"
  by (simp split: option.splits)

section \<open>Tables\<close>

text \<open>
  A table is the list of its rows, oldest first. \<open>SELECT ... WHERE key=?\<close> finds the row,
  \<open>UPDATE ... WHERE key=?\<close> rewrites it in place.
\<close>

definition find_row :: "('r \<Rightarrow> 'k) \<Rightarrow> 'k \<Rightarrow> 'r list \<Rightarrow> 'r option" where
  "find_row key k rows = List.find (\<lambda>r. key r = k) rows"

definition update_rows :: "('r \<Rightarrow> bool) \<Rightarrow> ('r \<Rightarrow> 'r) \<Rightarrow> 'r list \<Rightarrow> 'r list" where
  "update_rows p f rows = map (\<lambda>r. if p r then f r else r) rows"

abbreviation update_row :: "('r \<Rightarrow> 'k) \<Rightarrow> 'k \<Rightarrow> ('r \<Rightarrow> 'r) \<Rightarrow> 'r list \<Rightarrow> 'r list" where
  "update_row key k f rows \<equiv> update_rows (\<lambda>r. key r = k) f rows"

lemma find_row_Nil [table_simps]: "find_row key k [] = None"
  by (simp add: find_row_def)

lemma find_row_Cons [table_simps]:
  "find_row key k (r # rows) = (if key r = k then Some r else find_row key k rows)"
  by (simp add: find_row_def)

lemma find_row_append [table_simps]:
  "find_row key k (rows @ rows') = (case find_row key k rows of
     None \<Rightarrow> find_row key k rows' | Some r \<Rightarrow> Some r)"
  by (induction rows) (auto simp: table_simps)

lemma find_row_Some: "find_row key k rows = Some r \<Longrightarrow> key r = k \<and> r \<in> set rows"
  by (auto simp: find_row_def find_Some_iff)

lemma find_row_None: "find_row key k rows = None \<longleftrightarrow> k \<notin> key ` set rows"
  by (auto simp: find_row_def find_None_iff)

lemma find_row_member:
  "distinct (map key rows) \<Longrightarrow> r \<in> set rows \<Longrightarrow> find_row key (key r) rows = Some r"
  by (induction rows) (auto simp: table_simps)

lemma keys_update_rows:
  "(\<And>r. key (f r) = key r) \<Longrightarrow> map key (update_rows p f rows) = map key rows"
  by (simp add: update_rows_def)

lemma set_update_rows:
  "set (update_rows p f rows) = (\<lambda>r. if p r then f r else r) ` set rows"
  by (simp add: update_rows_def)

lemma length_update_rows [simp]: "length (update_rows p f rows) = length rows"
  by (simp add: update_rows_def)

lemma update_rows_Nil [table_simps]: "update_rows p f [] = []"
  by (simp add: update_rows_def)

lemma update_rows_Cons [table_simps]:
  "update_rows p f (r # rows) = (if p r then f r else r) # update_rows p f rows"
  by (simp add: update_rows_def)

lemma find_update_rows [table_simps]:
  "(\<And>r. key (f r) = key r) \<Longrightarrow>
   find_row key k (update_rows p f rows)
     = map_option (\<lambda>r. if p r then f r else r) (find_row key k rows)"
  by (induction rows) (auto simp: table_simps)

lemma update_rows_id: "(\<And>r. r \<in> set rows \<Longrightarrow> \<not> p r) \<Longrightarrow> update_rows p f rows = rows"
  by (induction rows) (auto simp: table_simps)

lemma keys_update_row:
  "(\<And>r. key r = k \<Longrightarrow> key (f r) = k) \<Longrightarrow> map key (update_row key k f rows) = map key rows"
  by (simp add: update_rows_def)

end
