(* ===== verification/PyValue.thy ===== *)
theory PyValue
  imports Prelude
begin

text \<open>
  The values that Python code reads out of JSON columns and evidence dictionaries, with the
  primitives the sources apply to them: truth value, \<open>isinstance\<close>, \<open>dict.get\<close>,
  \<open>dict.update\<close>. A dictionary is an association list in insertion order with distinct
  keys; a float is an exact rational (NaN and the infinities do not occur in JSON read by the
  modelled code).
\<close>

datatype pyval =
    PNone
  | PBool bool
  | PInt int
  | PFloat rat
  | PStr str
  | PList "pyval list"
  | PDict "(str \<times> pyval) list"

type_synonym pydict = "(str \<times> pyval) list"

text \<open>Python's truth value.\<close>

fun truthy :: "pyval \<Rightarrow> bool" where
  "truthy PNone = False"
| "truthy (PBool b) = b"
| "truthy (PInt n) = (n \<noteq> 0)"
| "truthy (PFloat q) = (q \<noteq> 0)"
| "truthy (PStr s) = (s \<noteq> [])"
| "truthy (PList xs) = (xs \<noteq> [])"
| "truthy (PDict d) = (d \<noteq> [])"

fun is_list :: "pyval \<Rightarrow> bool" where
  "is_list (PList _) = True"
| "is_list _ = False"

fun is_dict :: "pyval \<Rightarrow> bool" where
  "is_dict (PDict _) = True"
| "is_dict _ = False"

text \<open>\<open>isinstance(v, (int, float))\<close>: Booleans are integers in Python.\<close>

fun is_number :: "pyval \<Rightarrow> bool" where
  "is_number (PBool _) = True"
| "is_number (PInt _) = True"
| "is_number (PFloat _) = True"
| "is_number _ = False"

fun as_list :: "pyval \<Rightarrow> pyval list" where
  "as_list (PList xs) = xs"
| "as_list _ = []"

fun as_dict :: "pyval \<Rightarrow> pydict" where
  "as_dict (PDict d) = d"
| "as_dict _ = []"

text \<open>\<open>int(v)\<close> on numbers truncates towards zero.\<close>

definition truncate :: "rat \<Rightarrow> int" where
  "truncate q = (if 0 \<le> q then \<lfloor>q\<rfloor> else \<lceil>q\<rceil>)"

fun int_of :: "pyval \<Rightarrow> int" where
  "int_of (PBool b) = (if b then 1 else 0)"
| "int_of (PInt n) = n"
| "int_of (PFloat q) = truncate q"
| "int_of _ = 0"

fun num_of :: "pyval \<Rightarrow> rat" where
  "num_of (PBool b) = (if b then 1 else 0)"
| "num_of (PInt n) = of_int n"
| "num_of (PFloat q) = q"
| "num_of _ = 0"

text \<open>The text of an integer, and \<open>int(v)\<close> with \<open>None\<close> where it raises.\<close>

definition int_str :: "int \<Rightarrow> str" where
  "int_str n = (if n < 0 then CHR ''-'' # nat_str (nat (- n)) else nat_str (nat n))"

definition int_text :: "str \<Rightarrow> int option" where
  "int_text s = (let t = strip s;
       sign = (case t of c # _ \<Rightarrow> if c = CHR ''-'' then -1 else 1 | [] \<Rightarrow> 1);
       ds = (case t of c # cs \<Rightarrow> if c \<in> set ''+-'' then cs else t | [] \<Rightarrow> []);
       groups = split_on (CHR ''_'') ds in
     if list_all (\<lambda>g. g \<noteq> [] \<and> list_all py_isdigit g) groups
     then Some (sign * int (digits_value (concat groups))) else None)"

definition py_int :: "pyval \<Rightarrow> int option" where
  "py_int v = (case v of PStr s \<Rightarrow> int_text s | PNone \<Rightarrow> None | PList _ \<Rightarrow> None | PDict _ \<Rightarrow> None
     | _ \<Rightarrow> Some (int_of v))"

text \<open>\<open>sep.join(parts)\<close>.\<close>

fun join_with :: "str \<Rightarrow> str list \<Rightarrow> str" where
  "join_with sep [] = []"
| "join_with sep [x] = x"
| "join_with sep (x # y # xs) = x @ sep @ join_with sep (y # xs)"

section \<open>Dictionaries\<close>

text \<open>\<open>d.get(k)\<close>: \<open>None\<close> for a missing key.\<close>

definition get :: "pydict \<Rightarrow> str \<Rightarrow> pyval" where
  "get d k = (case map_of d k of None \<Rightarrow> PNone | Some v \<Rightarrow> v)"

definition has_key :: "pydict \<Rightarrow> str \<Rightarrow> bool" where
  "has_key d k = (k \<in> set (map fst d))"

text \<open>Assignment keeps the position of a key that is there and appends one that is not.\<close>

fun dict_set :: "str \<Rightarrow> 'v \<Rightarrow> (str \<times> 'v) list \<Rightarrow> (str \<times> 'v) list" where
  "dict_set k v [] = [(k, v)]"
| "dict_set k v ((k', v') # d) = (if k = k' then (k, v) # d else (k', v') # dict_set k v d)"

definition dict_update :: "(str \<times> 'v) list \<Rightarrow> (str \<times> 'v) list \<Rightarrow> (str \<times> 'v) list" where
  "dict_update d e = foldl (\<lambda>d (k, v). dict_set k v d) d e"

definition keys_of :: "(str \<times> 'v) list \<Rightarrow> str list" where
  "keys_of d = map fst d"

lemma map_of_dict_set [table_simps]: "map_of (dict_set k v d) = (map_of d)(k \<mapsto> v)"
  by (induction d) auto

lemma keys_dict_set:
  "map fst (dict_set k v d) = (if k \<in> set (map fst d) then map fst d else map fst d @ [k])"
proof (induction d)
  case Nil
  show ?case by simp
next
  case (Cons p d)
  then show ?case by (cases p) (simp del: set_map)
qed

lemma distinct_dict_set: "distinct (map fst d) \<Longrightarrow> distinct (map fst (dict_set k v d))"
  by (simp add: keys_dict_set del: set_map)

lemma map_of_dict_update [table_simps]:
  "map_of (dict_update d e) = map_of d ++ map_of (rev e)"
  unfolding dict_update_def
  by (induction e arbitrary: d) (auto simp: map_of_dict_set fun_upd_def map_add_def fun_eq_iff
      split: option.splits)

lemma distinct_dict_update:
  "distinct (map fst d) \<Longrightarrow> distinct (map fst (dict_update d e))"
  unfolding dict_update_def by (induction e arbitrary: d) (auto intro: distinct_dict_set)

lemma get_dict_set [table_simps]: "get (dict_set k v d) k' = (if k' = k then v else get d k')"
  by (simp add: get_def map_of_dict_set)

section \<open>Reading a dictionary\<close>

text \<open>\<open>str(v)\<close>, with \<open>shown\<close> for the values that are not strings.\<close>

definition shown_as :: "(pyval \<Rightarrow> str) \<Rightarrow> pyval \<Rightarrow> str" where
  "shown_as shown v = (case v of PStr s \<Rightarrow> s | _ \<Rightarrow> shown v)"

text \<open>\<open>state.get(key) or {}\<close>, which must then be a dictionary.\<close>

definition sub_dict :: "pydict \<Rightarrow> str \<Rightarrow> pydict option" where
  "sub_dict state key = (case get state key of
     PDict d \<Rightarrow> Some d | v \<Rightarrow> if truthy v then None else Some [])"

text \<open>\<open>str(state.get(key) or default)\<close>.\<close>

definition text_in :: "(pyval \<Rightarrow> str) \<Rightarrow> pydict \<Rightarrow> str \<Rightarrow> str \<Rightarrow> str" where
  "text_in shown st key missing =
     (if truthy (get st key) then shown_as shown (get st key) else missing)"

text \<open>\<open>list(state.get(key) or [])\<close>.\<close>

definition state_list :: "pydict \<Rightarrow> str \<Rightarrow> pyval list option" where
  "state_list st key = (case get st key of
     PList xs \<Rightarrow> Some xs | v \<Rightarrow> if truthy v then None else Some [])"

fun all_texts :: "pyval list \<Rightarrow> str list option" where
  "all_texts [] = Some []"
| "all_texts (PStr s # vs) = map_option (Cons s) (all_texts vs)"
| "all_texts _ = None"

text \<open>\<open>list(state.get(key) or [])\<close> whose members are used as strings.\<close>

definition texts_in :: "pydict \<Rightarrow> str \<Rightarrow> str list option" where
  "texts_in st key = Option.bind (state_list st key) all_texts"

text \<open>\<open>int(state.get(key) or 0)\<close> and \<open>float(d.get(key, 0.0) or 0.0)\<close>.\<close>

definition int_or_zero :: "pydict \<Rightarrow> str \<Rightarrow> int option" where
  "int_or_zero st key = (if truthy (get st key) then py_int (get st key) else Some 0)"

definition float_or_zero :: "pydict \<Rightarrow> str \<Rightarrow> rat option" where
  "float_or_zero d key = (if \<not> truthy (get d key) then Some 0
     else if is_number (get d key) then Some (num_of (get d key)) else None)"

definition get_or :: "pydict \<Rightarrow> str \<Rightarrow> pyval \<Rightarrow> pyval" where
  "get_or d key missing = (if has_key d key then get d key else missing)"

fun text_of :: "pyval \<Rightarrow> str option" where
  "text_of (PStr s) = Some s"
| "text_of _ = None"

fun all_ints :: "pyval list \<Rightarrow> int list option" where
  "all_ints [] = Some []"
| "all_ints (PInt n # vs) = map_option (Cons n) (all_ints vs)"
| "all_ints _ = None"

definition list_of :: "pyval \<Rightarrow> pyval list option" where
  "list_of v = (case v of PList xs \<Rightarrow> Some xs | _ \<Rightarrow> None)"

fun all_some :: "'a option list \<Rightarrow> 'a list option" where
  "all_some [] = Some []"
| "all_some (None # xs) = None"
| "all_some (Some x # xs) = map_option (Cons x) (all_some xs)"

text \<open>\<open>for x in v or ()\<close>: the elements, characters or keys, or an exception.\<close>

definition iterated :: "pyval \<Rightarrow> pyval list option" where
  "iterated v = (case v of PList xs \<Rightarrow> Some xs
     | PStr s \<Rightarrow> Some (map (\<lambda>c. PStr [c]) s)
     | PDict d \<Rightarrow> Some (map (\<lambda>(k, x). PStr k) d)
     | _ \<Rightarrow> if truthy v then None else Some [])"

lemma all_some_iff: "all_some xs = Some ys \<longleftrightarrow> xs = map Some ys"
  by (induction xs arbitrary: ys rule: all_some.induct) (auto simp: Cons_eq_map_conv)

lemma all_some_map_Some [simp]: "all_some (map (\<lambda>x. Some (f x)) xs) = Some (map f xs)"
  by (induction xs) simp_all

section \<open>Texts\<close>

text \<open>\<open>s[-n:]\<close> for a positive \<open>n\<close>, the part of a text before a separator, and \<open>part in text\<close>.\<close>

definition last_chars :: "nat \<Rightarrow> str \<Rightarrow> str" where
  "last_chars n s = drop (length s - n) s"

fun text_before :: "str \<Rightarrow> str \<Rightarrow> str" where
  "text_before sep [] = []"
| "text_before sep (c # cs) = (if startswith (c # cs) sep then [] else c # text_before sep cs)"

fun contains :: "str \<Rightarrow> str \<Rightarrow> bool" where
  "contains [] part = (part = [])"
| "contains (c # cs) part = (startswith (c # cs) part \<or> contains cs part)"

text \<open>\<open>re.sub("[^...]+", c, s)\<close>: every maximal run of characters outside a class becomes one \<open>c\<close>.\<close>

fun squeeze :: "(char \<Rightarrow> bool) \<Rightarrow> char \<Rightarrow> bool \<Rightarrow> str \<Rightarrow> str" where
  "squeeze keep c in_run [] = []"
| "squeeze keep c in_run (x # xs) =
     (if keep x then x # squeeze keep c False xs
      else if in_run then squeeze keep c True xs else c # squeeze keep c True xs)"

text \<open>\<open>s.strip(chars)\<close>.\<close>

definition strip_chars :: "str \<Rightarrow> str \<Rightarrow> str" where
  "strip_chars cs s = rev (dropWhile (\<lambda>d. d \<in> set cs) (rev (dropWhile (\<lambda>d. d \<in> set cs) s)))"

text \<open>\<open>[A-Za-z0-9]\<close> and \<open>[A-Za-z0-9_.-]\<close>.\<close>

definition is_alnum :: "char \<Rightarrow> bool" where
  "is_alnum c = (let n = code c in (48 \<le> n \<and> n \<le> 57) \<or> (65 \<le> n \<and> n \<le> 90) \<or> (97 \<le> n \<and> n \<le> 122))"

definition name_char :: "char \<Rightarrow> bool" where
  "name_char c = (is_alnum c \<or> c \<in> set ''_.-'')"

section \<open>Rounding\<close>

text \<open>\<open>round(q, 4)\<close>: to the nearest multiple of 1/10000, halves to the even one.\<close>

definition round_half_even :: "rat \<Rightarrow> int" where
  "round_half_even q = (let n = \<lfloor>q\<rfloor>; r = q - of_int n in
     if r < 1/2 then n else if 1/2 < r then n + 1 else if even n then n else n + 1)"

definition round4 :: "rat \<Rightarrow> rat" where
  "round4 q = of_int (round_half_even (q * 10000)) / 10000"

lemma round_half_even_bounds:
  "of_int (round_half_even q) \<le> q + 1/2" "q - 1/2 \<le> of_int (round_half_even q)"
proof -
  have q: "of_int \<lfloor>q\<rfloor> \<le> q" "q < of_int \<lfloor>q\<rfloor> + 1" by linarith+
  show "of_int (round_half_even q) \<le> q + 1/2"
    unfolding round_half_even_def Let_def using q by (simp only: of_int_add of_int_1 split: if_split) linarith
  show "q - 1/2 \<le> of_int (round_half_even q)"
    unfolding round_half_even_def Let_def using q by (simp only: of_int_add of_int_1 split: if_split) linarith
qed

lemma round_half_even_int [simp]: "round_half_even (of_int n) = n"
  by (simp add: round_half_even_def)

lemma round4_close: "\<bar>round4 q - q\<bar> \<le> 1/20000"
  using round_half_even_bounds [of "q * 10000"] by (simp add: round4_def abs_if field_simps)

lemma round_half_even_mono:
  assumes "p \<le> q"
  shows "round_half_even p \<le> round_half_even q"
proof (cases "\<lfloor>p\<rfloor> = \<lfloor>q\<rfloor>")
  case True
  then show ?thesis using assms unfolding round_half_even_def Let_def by simp
next
  case False
  with floor_mono [OF assms] have "\<lfloor>p\<rfloor> + 1 \<le> \<lfloor>q\<rfloor>" by simp
  moreover have "round_half_even p \<le> \<lfloor>p\<rfloor> + 1" "\<lfloor>q\<rfloor> \<le> round_half_even q"
    by (simp_all add: round_half_even_def Let_def)
  ultimately show ?thesis by linarith
qed

lemma round4_mono: "p \<le> q \<Longrightarrow> round4 p \<le> round4 q"
  by (simp add: round4_def divide_right_mono round_half_even_mono)

lemma round4_fixed [simp]: "round4 0 = 0" "round4 100 = 100"
  using round_half_even_int [of 0] round_half_even_int [of 1000000] by (simp_all add: round4_def)

end
