(* ===== verification/DiffLines.thy ===== *)
theory DiffLines
  imports Prelude
begin

text \<open>
  \<open>uta_enforce_core/diff.py\<close>: which lines of the new file a unified diff adds
  (\<open>parse_added_diff_lines\<close>) and which changed paths are production Python
  (\<open>is_production_python_path\<close>). The diff text itself comes from \<open>git diff\<close> and is
  the argument. \<open>hunk_header\<close> is the regular expression \<open>HUNK_RE\<close>; no two ways of
  matching it exist (a digit run is followed by a character that is no digit), so the
  deterministic matcher below finds a match exactly when \<open>re.match\<close> does.
\<close>

section \<open>The hunk header\<close>

text \<open>Drop a literal prefix, or a non-empty run of digits.\<close>

definition eat :: "str \<Rightarrow> str \<Rightarrow> str option" where
  "eat p s = (if startswith s p then Some (drop (length p) s) else None)"

definition eat_digits :: "str \<Rightarrow> (str \<times> str) option" where
  "eat_digits s = (let ds = takeWhile py_isdigit s in
     if ds = [] then None else Some (ds, dropWhile py_isdigit s))"

text \<open>The optional group \<open>(?:,\d+)?\<close>.\<close>

definition eat_count :: "str \<Rightarrow> str" where
  "eat_count s = (case eat '','' s of
       None \<Rightarrow> s
     | Some r \<Rightarrow> (case eat_digits r of None \<Rightarrow> s | Some (_, r') \<Rightarrow> r'))"

definition hunk_header :: "str \<Rightarrow> nat option" where
  "hunk_header s =
     Option.bind (eat ''@@ -'' s) (\<lambda>s.
     Option.bind (eat_digits s) (\<lambda>(_, s).
     Option.bind (eat '' +'' (eat_count s)) (\<lambda>s.
     Option.bind (eat_digits s) (\<lambda>(ds, s).
     Option.bind (eat '' @@'' (eat_count s)) (\<lambda>_. Some (digits_value ds))))))"

section \<open>The lines a diff adds\<close>

record diff_state =
  added :: "nat set"
  current_line :: "nat option"

definition diff_line :: "diff_state \<Rightarrow> str \<Rightarrow> diff_state" where
  "diff_line st raw =
     (case hunk_header raw of
        Some n \<Rightarrow> st\<lparr>current_line := Some n\<rparr>
      | None \<Rightarrow>
         (case current_line st of
            None \<Rightarrow> st
          | Some k \<Rightarrow>
              if startswith raw ''+'' \<and> \<not> startswith raw ''+++''
              then st\<lparr>added := insert k (added st), current_line := Some (Suc k)\<rparr>
              else if startswith raw ''-'' \<and> \<not> startswith raw ''---'' then st
              else st\<lparr>current_line := Some (Suc k)\<rparr>))"

definition parse_added_diff_lines :: "str \<Rightarrow> nat set" where
  "parse_added_diff_lines text =
     added (foldl diff_line \<lparr>added = {}, current_line = None\<rparr> (splitlines text))"

section \<open>Production paths\<close>

definition test_or_tool_dirs :: "str list" where
  "test_or_tool_dirs = [''doc'', ''docs'', ''tests'', ''test'', ''.venv'', ''venv'', ''.tox'',
     ''.nox'', ''site-packages'', ''__pycache__'']"

definition slash :: "str \<Rightarrow> str" where
  "slash s = map (\<lambda>c. if c = CHR 0x5C then CHR ''/'' else c) s"

definition is_production_python_path :: "str \<Rightarrow> bool" where
  "is_production_python_path path =
     (let normalized = slash (strip path); parts = split_on (CHR ''/'') normalized in
      if \<not> endswith normalized ''.py'' then False
      else if list_ex (\<lambda>part. part \<in> set test_or_tool_dirs) parts then False
      else (let name = last parts in name \<noteq> ''__init__.py'' \<and> \<not> startswith name ''test_''))"

section \<open>Diffs as git writes them\<close>

text \<open>
  The reference reading of a unified diff: a hunk says at which line of the new file it
  starts and lists kept, deleted and added lines.
\<close>

datatype diff_item = Keep str | Del str | Add str

record hunk =
  old_start :: nat
  new_start :: nat
  new_count :: nat
  items :: "diff_item list"

fun render_item :: "diff_item \<Rightarrow> str" where
  "render_item (Keep t) = CHR '' '' # t"
| "render_item (Del t) = CHR ''-'' # t"
| "render_item (Add t) = CHR ''+'' # t"

definition render_header :: "hunk \<Rightarrow> str" where
  "render_header h = ''@@ -'' @ nat_str (old_start h) @ '' +'' @ nat_str (new_start h) @ '',''
     @ nat_str (new_count h) @ '' @@''"

definition render_hunk :: "hunk \<Rightarrow> str list" where
  "render_hunk h = render_header h # map render_item (items h)"

fun added_from :: "nat \<Rightarrow> diff_item list \<Rightarrow> nat set" where
  "added_from k [] = {}"
| "added_from k (Keep t # is) = added_from (Suc k) is"
| "added_from k (Del t # is) = added_from k is"
| "added_from k (Add t # is) = insert k (added_from (Suc k) is)"

definition hunk_added :: "hunk \<Rightarrow> nat set" where
  "hunk_added h = added_from (new_start h) (items h)"

text \<open>The marker that git writes after a last line that has no line end.\<close>

definition no_newline_marker :: str where
  "no_newline_marker = CHR 0x5C # '' No newline at end of file''"

text \<open>
  The lines the parser reads as git meant them: one line each, and no added text that starts
  with \<open>++\<close>, no deleted text that starts with \<open>--\<close>.
\<close>

fun plain_item :: "diff_item \<Rightarrow> bool" where
  "plain_item (Keep t) = plain_line t"
| "plain_item (Del t) = (plain_line t \<and> \<not> startswith t ''--'')"
| "plain_item (Add t) = (plain_line t \<and> \<not> startswith t ''++'')"

section \<open>The header of a rendered hunk\<close>

lemma eat_append [simp]: "eat p (p @ s) = Some s"
  by (simp add: eat_def)

lemma takeWhile_digits:
  "list_all P ds \<Longrightarrow> s = [] \<or> \<not> P (hd s) \<Longrightarrow> takeWhile P (ds @ s) = ds"
  by (induction ds) (auto simp: takeWhile_eq_Nil_iff)

lemma dropWhile_digits:
  "list_all P ds \<Longrightarrow> s = [] \<or> \<not> P (hd s) \<Longrightarrow> dropWhile P (ds @ s) = s"
  by (induction ds) (auto simp: dropWhile_eq_self_iff)

lemma eat_digits_nat_str:
  "s = [] \<or> \<not> py_isdigit (hd s) \<Longrightarrow> eat_digits (nat_str n @ s) = Some (nat_str n, s)"
  by (simp add: eat_digits_def takeWhile_digits dropWhile_digits nat_str_digits)

lemma eat_Cons [simp]: "eat (c # p) (d # s) = (if c = d then eat p s else None)"
  by (auto simp: eat_def)

lemma eat_Nil [simp]: "eat [] s = Some s"
  by (simp add: eat_def)

lemma hunk_header_render [simp]: "hunk_header (render_header h) = Some (new_start h)"
  by (simp add: hunk_header_def render_header_def eat_count_def eat_digits_nat_str
      py_isdigit_def code_def)

lemma hunk_header_not_at: "c \<noteq> CHR ''@'' \<Longrightarrow> hunk_header (c # s) = None"
  by (simp add: hunk_header_def)

lemma plain_line_render_header [simp]: "plain_line (render_header h)"
  by (simp add: render_header_def is_linebreak_def code_def)

lemma plain_line_render_item [simp]: "plain_item i \<Longrightarrow> plain_line (render_item i)"
  by (cases i) (auto simp: is_linebreak_def code_def)

section \<open>Parsing what git renders\<close>

lemma diff_line_item:
  "diff_line \<lparr>added = A, current_line = Some k\<rparr> (CHR '' '' # t)
     = \<lparr>added = A, current_line = Some (Suc k)\<rparr>"
  "\<not> startswith t ''--'' \<Longrightarrow> diff_line \<lparr>added = A, current_line = Some k\<rparr> (CHR ''-'' # t)
     = \<lparr>added = A, current_line = Some k\<rparr>"
  "\<not> startswith t ''++'' \<Longrightarrow> diff_line \<lparr>added = A, current_line = Some k\<rparr> (CHR ''+'' # t)
     = \<lparr>added = insert k A, current_line = Some (Suc k)\<rparr>"
  by (simp_all add: diff_line_def hunk_header_not_at)

lemma added_from_fold:
  "list_all plain_item is \<Longrightarrow>
   \<exists>k'. foldl diff_line \<lparr>added = A, current_line = Some k\<rparr> (map render_item is)
     = \<lparr>added = A \<union> added_from k is, current_line = Some k'\<rparr>"
proof (induction "is" arbitrary: A k)
  case Nil
  show ?case by simp
next
  case (Cons i "is")
  then have i: "plain_item i" and "is": "list_all plain_item is" by auto
  show ?case
    using Cons.IH [OF "is", of A k] Cons.IH [OF "is", of A "Suc k"]
      Cons.IH [OF "is", of "insert k A" "Suc k"]
    by (cases i) (use i in \<open>simp_all add: diff_line_item\<close>)
qed

lemma hunk_fold:
  assumes "list_all plain_item (items h)"
  shows "\<exists>k'. foldl diff_line \<lparr>added = A, current_line = c\<rparr> (render_hunk h)
     = \<lparr>added = A \<union> hunk_added h, current_line = Some k'\<rparr>"
proof -
  have "diff_line \<lparr>added = A, current_line = c\<rparr> (render_header h)
      = \<lparr>added = A, current_line = Some (new_start h)\<rparr>"
    by (simp add: diff_line_def)
  then show ?thesis
    using added_from_fold [OF assms, of A "new_start h"]
    by (simp add: render_hunk_def hunk_added_def)
qed

lemma hunks_fold:
  "\<forall>h \<in> set hs. list_all plain_item (items h) \<Longrightarrow>
   added (foldl diff_line \<lparr>added = A, current_line = c\<rparr> (concat (map render_hunk hs)))
     = A \<union> (\<Union>h \<in> set hs. hunk_added h)"
proof (induction hs arbitrary: A c)
  case Nil
  show ?case by simp
next
  case (Cons h hs)
  then obtain k' where "foldl diff_line \<lparr>added = A, current_line = c\<rparr> (render_hunk h)
      = \<lparr>added = A \<union> hunk_added h, current_line = Some k'\<rparr>"
    using hunk_fold [of h A c] by auto
  with Cons show ?case by (simp add: Un_assoc)
qed

lemma preamble_fold:
  "\<forall>p \<in> set ps. hunk_header p = None \<Longrightarrow>
   foldl diff_line \<lparr>added = A, current_line = None\<rparr> ps
     = \<lparr>added = A, current_line = None\<rparr>"
  by (induction ps) (auto simp: diff_line_def)

lemma plain_lines_of_hunks:
  "\<forall>h \<in> set hs. list_all plain_item (items h) \<Longrightarrow>
   list_all plain_line (concat (map render_hunk hs))"
  by (auto simp: list_all_iff render_hunk_def)

lemma parse_lines:
  "list_all plain_line ls \<Longrightarrow> parse_added_diff_lines (unlines ls)
     = added (foldl diff_line \<lparr>added = {}, current_line = None\<rparr> ls)"
  by (simp add: parse_added_diff_lines_def splitlines_unlines)

section \<open>Properties\<close>

text \<open>
  for every diff that git writes (a preamble of file headers, then hunks of kept, deleted
  and added lines), the parser returns exactly the line numbers of the new file that the
  hunks add, as long as no added text starts with \<open>++\<close> and no deleted text with \<open>--\<close>.
\<close>

theorem parse_rendered_diff:
  assumes "\<forall>p \<in> set ps. plain_line p \<and> hunk_header p = None"
    and "\<forall>h \<in> set hs. list_all plain_item (items h)"
  shows "parse_added_diff_lines (unlines (ps @ concat (map render_hunk hs)))
     = (\<Union>h \<in> set hs. hunk_added h)"
  using assms plain_lines_of_hunks [of hs]
  by (simp add: parse_lines list_all_iff [of plain_line ps] preamble_fold hunks_fold)

theorem parse_rendered_diff_witness:
  "parse_added_diff_lines (unlines ([''diff --git a/m.py b/m.py'', ''--- a/m.py'', ''+++ b/m.py'']
     @ concat (map render_hunk
         [\<lparr>old_start = 3, new_start = 3, new_count = 2,
           items = [Del ''x = 1'', Add ''x = 2'', Add ''y = 3'']\<rparr>])))
   = (\<Union>h \<in> set [\<lparr>old_start = 3, new_start = 3, new_count = 2,
           items = [Del ''x = 1'', Add ''x = 2'', Add ''y = 3'']\<rparr>]. hunk_added h)
   \<and> hunk_added \<lparr>old_start = 3, new_start = 3, new_count = 2,
           items = [Del ''x = 1'', Add ''x = 2'', Add ''y = 3'']\<rparr> = {3, 4}"
  by (rule conjI, rule parse_rendered_diff)
    (auto simp: is_linebreak_def code_def hunk_header_def hunk_added_def eat_def startswith_def)

text \<open>
  the marker \<open>No newline at end of file\<close>, which git writes between the deleted and
  the added last line of a file, is counted as a line of the new file: the line that
  replaces line \<open>n\<close> is reported as line \<open>n + 1\<close>.
\<close>

theorem no_newline_marker_shifts:
  assumes "plain_line t" and "\<not> startswith t ''--''"
    and "plain_line u" and "\<not> startswith u ''++''"
    and "new_start h = n" and "items h = []"
  shows "parse_added_diff_lines (unlines
      (render_hunk h @ [CHR ''-'' # t, no_newline_marker, CHR ''+'' # u]))
    = {Suc n}"
  using assms
  by (simp add: no_newline_marker_def parse_lines render_hunk_def is_linebreak_def code_def diff_line_def
      hunk_header_not_at)

theorem no_newline_marker_shifts_witness:
  "parse_added_diff_lines (unlines
      (render_hunk \<lparr>old_start = 7, new_start = 7, new_count = 1, items = []\<rparr>
        @ [CHR ''-'' # ''x = 1'', no_newline_marker, CHR ''+'' # ''x = 2'']))
    = {Suc 7}"
  by (rule no_newline_marker_shifts) (simp_all add: is_linebreak_def code_def startswith_def)

text \<open>
  a deleted line whose text starts with \<open>--\<close> (an SQL comment in a string, say) is taken
  for a file header and counted as a line of the new file, so the line added in its place is
  reported one too high.
\<close>

theorem deleted_dashes_shift:
  assumes "plain_line t" and "plain_line u" and "\<not> startswith u ''++''"
    and "items h = [Del (''--'' @ t), Add u]"
  shows "parse_added_diff_lines (unlines (render_hunk h)) = {Suc (new_start h)}
    \<and> hunk_added h = {new_start h}"
  using assms
  by (simp_all add: parse_lines render_hunk_def is_linebreak_def code_def diff_line_def
      hunk_header_not_at hunk_added_def)

theorem deleted_dashes_shift_witness:
  "parse_added_diff_lines (unlines (render_hunk \<lparr>old_start = 2, new_start = 2, new_count = 1,
      items = [Del (''--'' @ '' old''), Add ''new'']\<rparr>)) = {Suc 2}"
  using deleted_dashes_shift [of "'' old''" "''new''" "\<lparr>old_start = 2, new_start = 2, new_count = 1,
      items = [Del (''--'' @ '' old''), Add ''new'']\<rparr>"]
  by (simp add: is_linebreak_def code_def startswith_def)

end
