(* ===== verification/TaskStore.thy ===== *)
theory TaskStore
  imports PyValue
begin

text \<open>
  The task store: \<open>uta/tasks/models.py\<close> (statuses), \<open>storage/\<close> (the SQL of the task,
  scheduler, control, heartbeat and event tables), \<open>progress_store.py\<close> and the engine
  snapshot check of \<open>generation_engine.py\<close>.

  A table is the list of its rows in order of their automatic ids, so \<open>ORDER BY id\<close> is
  list order and a further \<open>ORDER BY\<close> is a stable sort. \<open>now\<close> is the value of
  \<open>now_iso()\<close>, which orders like the number of seconds it stands for. A JSON column is the
  parsed value, \<open>None\<close> where \<open>json.loads\<close> raises. Columns that no modelled operation
  reads (token counts, report paths, estimates) are left out of the rows.
\<close>

section \<open>Statuses\<close>

datatype repo_status = CREATED | QUEUED | RUNNING | STOP_REQUESTED | STOPPED | COMPLETED | FAILED
  | CANCELLED | POISONED | BUDGET_EXCEEDED

datatype class_status = CPending | CCreated | CQueued | CRunning | CStopped | CGenerated | CPass
  | CFail | CMutationFail | CBudgetExceeded | CProviderError | CProviderRateLimited | CPushFailed
  | CUnsafeDiff | CLlmStalled | CCancelled

definition terminal_repo_statuses :: "repo_status list" where
  "terminal_repo_statuses = [COMPLETED, FAILED, CANCELLED, POISONED, BUDGET_EXCEEDED]"

definition terminal_class_statuses :: "class_status list" where
  "terminal_class_statuses = [CPass, CFail, CMutationFail, CBudgetExceeded, CProviderError,
     CProviderRateLimited, CPushFailed, CUnsafeDiff, CLlmStalled, CCancelled]"

section \<open>Rows\<close>

record repo_task =
  rt_id :: nat
  rt_path :: str
  rt_slug :: str
  rt_module :: "str option"
  rt_selection :: "pyval option"
  rt_language :: str
  rt_branch_id :: "nat option"
  rt_branch :: "str option"
  rt_base_ref :: "str option"
  rt_priority :: int
  rt_status :: repo_status
  rt_stage :: "str option"
  rt_detail :: "str option"
  rt_config :: "pyval option"
  rt_rdc_context :: "pyval option"
  rt_total :: nat
  rt_completed :: nat
  rt_passed :: nat
  rt_failed :: nat
  rt_progress_count :: nat
  rt_progress_bytes :: nat
  rt_progress_truncated :: bool
  rt_created :: nat
  rt_updated :: nat
  rt_started :: "nat option"
  rt_finished :: "nat option"
  rt_stop_requested :: "nat option"
  rt_resume_count :: nat
  rt_last_error :: "str option"
  rt_error :: "str option"

record class_task =
  ct_id :: nat
  ct_repo :: nat
  ct_fqn :: str
  ct_language :: str
  ct_target :: "str option"
  ct_source :: "str option"
  ct_symbol :: "str option"
  ct_granularity :: "str option"
  ct_display :: "str option"
  ct_module :: "str option"
  ct_priority :: int
  ct_status :: class_status
  ct_current_stage :: "str option"
  ct_detail :: "str option"
  ct_batch_key :: "str option"
  ct_stage :: "str option"
  ct_created :: nat
  ct_updated :: nat
  ct_started :: "nat option"
  ct_finished :: "nat option"
  ct_last_error :: "str option"
  ct_error :: "str option"

datatype severity = INFO | WARNING | ERROR

record task_event =
  ev_id :: nat
  ev_repo :: "nat option"
  ev_class :: "nat option"
  ev_type :: str
  ev_severity :: severity
  ev_stage :: "str option"
  ev_message :: str
  ev_payload :: pyval
  ev_ts :: nat

datatype control_action = Stop | Cancel | OtherAction str

record control_row =
  tc_id :: nat
  tc_repo :: nat
  tc_class :: "nat option"
  tc_action :: control_action
  tc_reason :: "str option"
  tc_acknowledged :: "nat option"
  tc_created :: nat

record heartbeat_row =
  hb_runner :: str
  hb_repo :: "nat option"
  hb_pid :: nat
  hb_host :: str
  hb_status :: str
  hb_message :: "str option"
  hb_started :: "nat option"
  hb_at :: "nat option"
  hb_config :: "str option"
  hb_created :: nat
  hb_updated :: nat

record branch_row =
  rb_id :: nat
  rb_path :: str
  rb_slug :: str
  rb_base_ref :: str
  rb_profile :: str
  rb_name :: str
  rb_active :: bool
  rb_created :: nat
  rb_updated :: nat
  rb_last_task :: "nat option"

record db =
  branches :: "branch_row list"
  repo_tasks :: "repo_task list"
  class_tasks :: "class_task list"
  task_events :: "task_event list"
  controls :: "control_row list"
  heartbeats :: "heartbeat_row list"
  next_branch :: nat
  next_repo :: nat
  next_class :: nat
  next_event :: nat
  next_control :: nat

text \<open>What the store raises.\<close>

datatype task_error = IntegrityError | KeyError | ValueError str | RuntimeError str
  | LegacyGenerationTaskError str

type_synonym 'a task_prog = "(db, task_error, 'a) prog"

section \<open>The engine a task was created for\<close>

definition engine_version_key :: str where
  "engine_version_key = ''generation_engine_version''"

definition cycle_compatibility_key :: str where
  "cycle_compatibility_key = ''generation_cycle_v2_enabled''"

definition durable_engine_version :: int where
  "durable_engine_version = 2"

definition durable_generation_snapshot :: "pydict option \<Rightarrow> task_error + pydict" where
  "durable_generation_snapshot snapshot =
     (let supplied = (case snapshot of None \<Rightarrow> [] | Some d \<Rightarrow> d) in
      if has_key supplied cycle_compatibility_key
           \<and> get supplied cycle_compatibility_key \<noteq> PBool True
      then Inl (ValueError ''new task generation engine compatibility must be true'')
      else if has_key supplied engine_version_key
           \<and> get supplied engine_version_key \<noteq> PInt durable_engine_version
      then Inl (ValueError ''new task generation engine version must be integer 2'')
      else Inr (dict_set engine_version_key (PInt durable_engine_version)
             (dict_set cycle_compatibility_key (PBool True) supplied)))"

definition classify_generation_snapshot :: "pyval option \<Rightarrow> str option" where
  "classify_generation_snapshot raw =
     (case raw of
        None \<Rightarrow> Some ''malformed_config_snapshot_json''
      | Some v \<Rightarrow>
         (case v of
            PDict snapshot \<Rightarrow>
              if \<not> has_key snapshot engine_version_key
              then Some ''missing_generation_engine_version''
              else (case get snapshot engine_version_key of
                      PInt version \<Rightarrow>
                        if version \<noteq> durable_engine_version
                        then Some ''unsupported_generation_engine_version'' else None
                    | _ \<Rightarrow> Some ''invalid_generation_engine_version_type'')
          | _ \<Rightarrow> Some ''config_snapshot_not_object''))"

definition require_durable_generation_task :: "repo_task \<Rightarrow> task_error + unit" where
  "require_durable_generation_task task =
     (case classify_generation_snapshot (rt_config task) of
        None \<Rightarrow> Inr ()
      | Some reason \<Rightarrow> Inl (LegacyGenerationTaskError reason))"

definition durable_task :: "repo_task \<Rightarrow> bool" where
  "durable_task task = (classify_generation_snapshot (rt_config task) = None)"

section \<open>Reading and updating tasks\<close>

definition lift_error :: "'e + 'a \<Rightarrow> ('s, 'e, 'a) prog" where
  "lift_error r s = (r, s)"

definition get_repo_task :: "nat \<Rightarrow> db \<Rightarrow> repo_task option" where
  "get_repo_task task_id d = find_row rt_id task_id (repo_tasks d)"

definition get_class_task :: "nat \<Rightarrow> db \<Rightarrow> class_task option" where
  "get_class_task class_task_id d = find_row ct_id class_task_id (class_tasks d)"

definition find_class_task :: "nat \<Rightarrow> str \<Rightarrow> db \<Rightarrow> class_task option" where
  "find_class_task repo_task_id class_fqn d =
     find_row (\<lambda>r. (ct_repo r, ct_fqn r)) (repo_task_id, class_fqn) (class_tasks d)"

definition list_class_tasks :: "nat \<Rightarrow> db \<Rightarrow> class_task list" where
  "list_class_tasks repo_task_id d =
     sort_key ct_priority (filter (\<lambda>r. ct_repo r = repo_task_id) (class_tasks d))"

definition count_task_failures :: "nat \<Rightarrow> db \<Rightarrow> nat" where
  "count_task_failures task_id d =
     length (filter (\<lambda>e. ev_repo e = Some task_id \<and> ev_type e = ''task_failed'') (task_events d))"

definition reactivating :: "repo_status \<Rightarrow> bool" where
  "reactivating s = (s \<in> set [CREATED, QUEUED, RUNNING, STOP_REQUESTED, STOPPED])"

definition assign_repo_row ::
  "nat \<Rightarrow> repo_status option \<Rightarrow> (repo_task \<Rightarrow> repo_task) \<Rightarrow> repo_task \<Rightarrow> repo_task" where
  "assign_repo_row now status f r =
     (case status of None \<Rightarrow> f r | Some s \<Rightarrow> (f r)\<lparr>rt_status := s\<rparr>)\<lparr>rt_updated := now\<rparr>"

definition update_repo_task ::
  "nat \<Rightarrow> nat \<Rightarrow> repo_status option \<Rightarrow> (repo_task \<Rightarrow> repo_task) \<Rightarrow> unit task_prog" where
  "update_repo_task now task_id status f = transaction (
     seq (reads (get_repo_task task_id)) (\<lambda>row.
     andthen
       (case (status, row) of
          (Some s, Some r) \<Rightarrow>
            if reactivating s then lift_error (require_durable_generation_task r) else ret ()
        | _ \<Rightarrow> ret ())
       (modifies (\<lambda>d. d\<lparr>repo_tasks :=
          update_row rt_id task_id (assign_repo_row now status f) (repo_tasks d)\<rparr>))))"

definition update_class_task :: "nat \<Rightarrow> nat \<Rightarrow> (class_task \<Rightarrow> class_task) \<Rightarrow> unit task_prog" where
  "update_class_task now class_task_id f = transaction (
     modifies (\<lambda>d. d\<lparr>class_tasks :=
       update_row ct_id class_task_id (\<lambda>r. (f r)\<lparr>ct_updated := now\<rparr>) (class_tasks d)\<rparr>))"

section \<open>Counting the targets of a task\<close>

record class_counts =
  class_count :: nat
  completed_classes :: nat
  passed_classes :: nat
  failed_classes :: nat

definition unfinished_class_statuses :: "class_status list" where
  "unfinished_class_statuses = [CPass, CCreated, CPending, CQueued, CRunning, CStopped, CGenerated]"

definition aggregate_repo_task :: "nat \<Rightarrow> db \<Rightarrow> class_counts" where
  "aggregate_repo_task task_id d =
     (let rows = filter (\<lambda>r. ct_repo r = task_id) (class_tasks d);
          count = (\<lambda>p. length (filter (\<lambda>r. p (ct_status r)) rows)) in
      \<lparr>class_count = length rows,
       completed_classes = count (\<lambda>s. s \<in> set terminal_class_statuses),
       passed_classes = count (\<lambda>s. s = CPass),
       failed_classes = count (\<lambda>s. s \<notin> set unfinished_class_statuses)\<rparr>)"

definition refresh_repo_counts :: "nat \<Rightarrow> nat \<Rightarrow> unit task_prog" where
  "refresh_repo_counts now task_id =
     seq (reads (aggregate_repo_task task_id)) (\<lambda>a.
     update_repo_task now task_id None (\<lambda>r. r\<lparr>rt_total := class_count a,
       rt_completed := completed_classes a, rt_passed := passed_classes a,
       rt_failed := failed_classes a\<rparr>))"

section \<open>Events\<close>

text \<open>Foreign keys are enforced: an event names an existing task and target, or none.\<close>

definition event_refs_ok :: "db \<Rightarrow> nat option \<Rightarrow> nat option \<Rightarrow> bool" where
  "event_refs_ok d rid cid =
     ((case rid of None \<Rightarrow> True | Some r \<Rightarrow> get_repo_task r d \<noteq> None)
      \<and> (case cid of None \<Rightarrow> True | Some c \<Rightarrow> get_class_task c d \<noteq> None))"

definition insert_event ::
  "nat \<Rightarrow> nat option \<Rightarrow> nat option \<Rightarrow> str \<Rightarrow> str \<Rightarrow> str option \<Rightarrow> severity \<Rightarrow> pydict
    \<Rightarrow> db \<Rightarrow> db" where
  "insert_event now rid cid event_type message stage severity payload d =
     d\<lparr>task_events := task_events d @
         [\<lparr>ev_id = next_event d, ev_repo = rid, ev_class = cid, ev_type = event_type,
           ev_severity = severity, ev_stage = stage, ev_message = message,
           ev_payload = PDict payload, ev_ts = now\<rparr>],
       next_event := Suc (next_event d)\<rparr>"

definition add_event ::
  "nat \<Rightarrow> nat option \<Rightarrow> nat option \<Rightarrow> str \<Rightarrow> str \<Rightarrow> str option \<Rightarrow> severity \<Rightarrow> pydict
    \<Rightarrow> unit task_prog" where
  "add_event now rid cid event_type message stage severity payload d =
     (if event_refs_ok d rid cid
      then (Inr (), insert_event now rid cid event_type message stage severity payload d)
      else (Inl IntegrityError, d))"

definition events_of :: "nat \<Rightarrow> db \<Rightarrow> task_event list" where
  "events_of task_id d = filter (\<lambda>e. ev_repo e = Some task_id) (task_events d)"

text \<open>\<open>LIMIT\<close>: \<open>None\<close> is passed to SQLite as \<open>-1\<close>, which is no limit.\<close>

definition latest_events :: "nat \<Rightarrow> nat option \<Rightarrow> db \<Rightarrow> task_event list" where
  "latest_events task_id limit d =
     (case limit of None \<Rightarrow> rev (events_of task_id d)
      | Some n \<Rightarrow> take n (rev (events_of task_id d)))"

definition events_since :: "nat \<Rightarrow> int \<Rightarrow> int \<Rightarrow> db \<Rightarrow> task_event list" where
  "events_since task_id after_id limit d =
     (let cursor = max after_id 0; bounded_limit = min (max limit 1) 5000 in
      take (nat bounded_limit) (filter (\<lambda>e. cursor < int (ev_id e)) (events_of task_id d)))"

definition prune_progress_events :: "nat \<Rightarrow> nat task_prog" where
  "prune_progress_events before = transaction (\<lambda>d.
     (let old = (\<lambda>e. ev_type e = ''agent_progress'' \<and> ev_ts e \<le> before) in
      (Inr (length (filter old (task_events d))),
       d\<lparr>task_events := filter (\<lambda>e. \<not> old e) (task_events d)\<rparr>)))"

definition workflow_disposition_counts :: "nat \<Rightarrow> db \<Rightarrow> (str \<times> nat) list" where
  "workflow_disposition_counts task_id d =
     map (\<lambda>t. (drop 9 t, length (filter (\<lambda>e. ev_type e = t) (events_of task_id d))))
       [''workflow_started'', ''workflow_resumed'', ''workflow_reused_completed'']"

section \<open>Bounded progress\<close>

record progress_item =
  pi_type :: "str option"
  pi_severity :: severity
  pi_stage :: "str option"
  pi_message :: str
  pi_payload :: pydict
  pi_size :: nat

text \<open>
  The prefix of events that fits under both caps. \<open>pi_size\<close> is the length of the encoded
  payload, which the code computes with \<open>json.dumps\<close> before the transaction.
\<close>

fun admit_progress ::
  "nat \<Rightarrow> nat \<Rightarrow> nat \<Rightarrow> nat \<Rightarrow> progress_item list \<Rightarrow> progress_item list" where
  "admit_progress rows bytes max_rows max_bytes [] = []"
| "admit_progress rows bytes max_rows max_bytes (i # is) =
     (if max_rows < rows + 1 then []
      else if max_bytes < bytes + pi_size i then []
      else i # admit_progress (rows + 1) (bytes + pi_size i) max_rows max_bytes is)"

record progress_result =
  admitted_events :: nat
  admitted_bytes :: nat
  progress_cut :: bool

definition append_progress_event_batch ::
  "nat \<Rightarrow> nat \<Rightarrow> progress_item list \<Rightarrow> int \<Rightarrow> int \<Rightarrow> progress_result task_prog" where
  "append_progress_event_batch now task_id events max_events max_serialized_bytes =
     (let marker = list_ex (\<lambda>i. pi_type i = Some ''progress_truncated'') events;
          prepared = filter (\<lambda>i. pi_type i \<noteq> Some ''progress_truncated'') events;
          max_rows = nat max_events; max_bytes = nat max_serialized_bytes in
      transaction (\<lambda>d.
        (case get_repo_task task_id d of
           None \<Rightarrow> (Inl KeyError, d)
         | Some task \<Rightarrow>
            (let admitted = admit_progress (rt_progress_count task) (rt_progress_bytes task)
                   max_rows max_bytes prepared;
                 bytes = sum_list (map pi_size admitted);
                 dropped = (length admitted < length prepared);
                 truncated = (marker \<or> dropped);
                 won_marker = (truncated \<and> \<not> rt_progress_truncated task);
                 d1 = foldl (\<lambda>d i. insert_event now (Some task_id) None ''agent_progress''
                        (if pi_message i = [] then ''Agent progress'' else pi_message i) (pi_stage i) (pi_severity i) (pi_payload i) d) d admitted;
                 d2 = (if won_marker
                       then insert_event now (Some task_id) None ''progress_truncated''
                         ''Some agent progress updates were omitted'' None WARNING
                         [(''maxEvents'', PInt (int max_rows)),
                          (''maxSerializedBytes'', PInt (int max_bytes))] d1
                       else d1);
                 d3 = d2\<lparr>repo_tasks := update_row rt_id task_id (\<lambda>r. r\<lparr>
                        rt_progress_count := rt_progress_count r + length admitted,
                        rt_progress_bytes := rt_progress_bytes r + bytes,
                        rt_progress_truncated := (won_marker \<or> rt_progress_truncated r),
                        rt_updated := now\<rparr>) (repo_tasks d2)\<rparr>
             in (Inr \<lparr>admitted_events = length admitted, admitted_bytes = bytes,
                   progress_cut = truncated\<rparr>, d3)))))"

section \<open>Terminal states\<close>

text \<open>
  \<open>task_fields\<close> are the further columns a caller sets; every caller passes the two error
  columns or nothing, so \<open>finished_at\<close> is always \<open>now\<close>.
\<close>

definition last_terminal_event :: "nat \<Rightarrow> db \<Rightarrow> nat option" where
  "last_terminal_event task_id d =
     (case filter (\<lambda>e. ev_type e = ''task_terminal'') (rev (events_of task_id d)) of
        [] \<Rightarrow> None | e # _ \<Rightarrow> Some (ev_id e))"

fun repo_status_name :: "repo_status \<Rightarrow> str" where
  "repo_status_name CREATED = ''CREATED''"
| "repo_status_name QUEUED = ''QUEUED''"
| "repo_status_name RUNNING = ''RUNNING''"
| "repo_status_name STOP_REQUESTED = ''STOP_REQUESTED''"
| "repo_status_name STOPPED = ''STOPPED''"
| "repo_status_name COMPLETED = ''COMPLETED''"
| "repo_status_name FAILED = ''FAILED''"
| "repo_status_name CANCELLED = ''CANCELLED''"
| "repo_status_name POISONED = ''POISONED''"
| "repo_status_name BUDGET_EXCEEDED = ''BUDGET_EXCEEDED''"

definition finish_row :: "nat \<Rightarrow> repo_status \<Rightarrow> str \<Rightarrow> str \<Rightarrow> (repo_task \<Rightarrow> repo_task) \<Rightarrow> repo_task \<Rightarrow> repo_task"
  where
  "finish_row now status message stage task_fields r =
     (task_fields r)\<lparr>rt_status := status, rt_stage := Some stage, rt_detail := Some message,
        rt_finished := Some now, rt_updated := now\<rparr>"

definition finish_task_with_terminal_event ::
  "nat \<Rightarrow> nat \<Rightarrow> repo_status \<Rightarrow> str \<Rightarrow> str \<Rightarrow> severity \<Rightarrow> pydict \<Rightarrow> (repo_task \<Rightarrow> repo_task)
    \<Rightarrow> str list \<Rightarrow> nat task_prog" where
  "finish_task_with_terminal_event now task_id status message stage severity payload task_fields
       summary_types =
     (if status \<notin> set terminal_repo_statuses
      then raise (ValueError (''non-terminal task status: '' @ repo_status_name status))
      else transaction (\<lambda>d.
        (case get_repo_task task_id d of
           None \<Rightarrow> (Inl KeyError, d)
         | Some prior \<Rightarrow>
            (let prior_terminal = (if rt_status prior = status
                                   then last_terminal_event task_id d else None);
                 d1 = d\<lparr>repo_tasks := update_row rt_id task_id
                        (finish_row now status message stage task_fields) (repo_tasks d)\<rparr>
             in (case prior_terminal of
                   Some ev \<Rightarrow> (Inr ev, d1)
                 | None \<Rightarrow>
                    (let d2 = foldl (\<lambda>d t. insert_event now (Some task_id) None t message
                                (Some stage) severity payload d) d1 summary_types
                     in (Inr (next_event d2),
                         insert_event now (Some task_id) None ''task_terminal'' message
                           (Some stage) severity
                           (dict_set ''status'' (PStr (repo_status_name status)) payload) d2)))))))"

section \<open>Claiming work\<close>

definition claimable :: "bool \<Rightarrow> nat list \<Rightarrow> repo_task \<Rightarrow> bool" where
  "claimable include_failed excluded r =
     ((rt_status r \<in> set [CREATED, QUEUED] \<or> (include_failed \<and> rt_status r = FAILED))
      \<and> rt_id r \<notin> set excluded)"

definition claim_order :: "bool \<Rightarrow> nat list \<Rightarrow> db \<Rightarrow> repo_task list" where
  "claim_order include_failed excluded d =
     sort_key (\<lambda>r. (rt_priority r, rt_created r))
       (filter (claimable include_failed excluded) (repo_tasks d))"

text \<open>The tasks a claim looks at: \<open>LIMIT 20\<close>.\<close>

definition claim_window :: "bool \<Rightarrow> nat list \<Rightarrow> db \<Rightarrow> repo_task list" where
  "claim_window include_failed excluded d = take 20 (claim_order include_failed excluded d)"

definition active_status :: "repo_status \<Rightarrow> bool" where
  "active_status s = (s \<in> set [RUNNING, STOP_REQUESTED])"

definition repo_busy :: "repo_task \<Rightarrow> db \<Rightarrow> bool" where
  "repo_busy row d = list_ex (\<lambda>r. rt_path r = rt_path row \<and> active_status (rt_status r)
     \<and> rt_id r \<noteq> rt_id row) (repo_tasks d)"

definition claim_row :: "nat \<Rightarrow> repo_task \<Rightarrow> repo_task" where
  "claim_row now r = r\<lparr>rt_status := RUNNING,
     rt_started := (case rt_started r of None \<Rightarrow> Some now | Some t \<Rightarrow> Some t),
     rt_updated := now, rt_stage := Some ''acquired''\<rparr>"

fun acquire_first :: "nat \<Rightarrow> bool \<Rightarrow> repo_task list \<Rightarrow> repo_task option task_prog" where
  "acquire_first now allow_same_repo [] = ret None"
| "acquire_first now allow_same_repo (row # rows) =
     andthen (lift_error (require_durable_generation_task row))
       (seq (reads (repo_busy row)) (\<lambda>active.
          if \<not> allow_same_repo \<and> active then acquire_first now allow_same_repo rows
          else andthen
            (modifies (\<lambda>d. d\<lparr>repo_tasks :=
               update_row rt_id (rt_id row) (claim_row now) (repo_tasks d)\<rparr>))
            (reads (get_repo_task (rt_id row)))))"

definition acquire_next_task ::
  "nat \<Rightarrow> bool \<Rightarrow> bool \<Rightarrow> nat list \<Rightarrow> repo_task option task_prog" where
  "acquire_next_task now allow_same_repo include_failed excluded = transaction (
     seq (reads (claim_window include_failed excluded)) (acquire_first now allow_same_repo))"

section \<open>Heartbeats and controls\<close>

definition new_heartbeat ::
  "nat \<Rightarrow> str \<Rightarrow> nat option \<Rightarrow> nat \<Rightarrow> str \<Rightarrow> str \<Rightarrow> str option \<Rightarrow> str option \<Rightarrow> heartbeat_row" where
  "new_heartbeat now runner rid pid host status message config =
     \<lparr>hb_runner = runner, hb_repo = rid, hb_pid = pid, hb_host = host, hb_status = status,
      hb_message = message, hb_started = Some now, hb_at = Some now, hb_config = config,
      hb_created = now, hb_updated = now\<rparr>"

text \<open>\<open>INSERT ... ON CONFLICT(runner_id) DO UPDATE\<close> keeps the creation and start times.\<close>

definition upsert_heartbeat ::
  "nat \<Rightarrow> str \<Rightarrow> nat option \<Rightarrow> nat \<Rightarrow> str \<Rightarrow> str \<Rightarrow> str option \<Rightarrow> str option \<Rightarrow> unit task_prog" where
  "upsert_heartbeat now runner rid pid host status message config =
     modifies (\<lambda>d. (let new = new_heartbeat now runner rid pid host status message config in
       d\<lparr>heartbeats :=
         (case find_row hb_runner runner (heartbeats d) of
            None \<Rightarrow> heartbeats d @ [new]
          | Some _ \<Rightarrow> update_row hb_runner runner
              (\<lambda>r. new\<lparr>hb_started := hb_started r, hb_created := hb_created r\<rparr>) (heartbeats d))\<rparr>))"

definition heartbeat_time :: "heartbeat_row \<Rightarrow> nat" where
  "heartbeat_time r = (case hb_at r of Some t \<Rightarrow> t | None \<Rightarrow> hb_updated r)"

text \<open>The last heartbeat of the runner that works on a task (ties: the row found first).\<close>

definition latest_running_heartbeat :: "nat \<Rightarrow> db \<Rightarrow> heartbeat_row option" where
  "latest_running_heartbeat task_id d =
     (case sort_key (\<lambda>r. - int (heartbeat_time r))
         (filter (\<lambda>r. hb_repo r = Some task_id \<and> hb_status r = ''RUNNING'') (heartbeats d)) of
        [] \<Rightarrow> None | r # _ \<Rightarrow> Some r)"

definition request_control ::
  "nat \<Rightarrow> nat \<Rightarrow> control_action \<Rightarrow> str option \<Rightarrow> unit task_prog" where
  "request_control now task_id action reason d =
     (if get_repo_task task_id d = None then (Inl IntegrityError, d)
      else (Inr (), d\<lparr>controls := controls d @
              [\<lparr>tc_id = next_control d, tc_repo = task_id, tc_class = None, tc_action = action,
                tc_reason = reason, tc_acknowledged = None, tc_created = now\<rparr>],
            next_control := Suc (next_control d)\<rparr>))"

definition open_controls :: "nat \<Rightarrow> db \<Rightarrow> control_row list" where
  "open_controls task_id d =
     filter (\<lambda>c. tc_repo c = task_id \<and> tc_acknowledged c = None) (controls d)"

definition latest_control :: "nat \<Rightarrow> db \<Rightarrow> control_row option" where
  "latest_control task_id d =
     (case rev (open_controls task_id d) of [] \<Rightarrow> None | c # _ \<Rightarrow> Some c)"

definition acknowledge_controls :: "nat \<Rightarrow> nat \<Rightarrow> control_action option \<Rightarrow> unit task_prog" where
  "acknowledge_controls now task_id action = modifies (\<lambda>d. d\<lparr>controls :=
     update_rows (\<lambda>c. tc_repo c = task_id \<and> tc_acknowledged c = None
         \<and> (case action of None \<Rightarrow> True | Some a \<Rightarrow> tc_action c = a))
       (\<lambda>c. c\<lparr>tc_acknowledged := Some now\<rparr>) (controls d)\<rparr>)"

section \<open>Branches\<close>

definition branch_taken :: "str \<Rightarrow> str \<Rightarrow> db \<Rightarrow> bool" where
  "branch_taken path name d = list_ex (\<lambda>b. rb_path b = path \<and> rb_name b = name) (branches d)"

text \<open>
  The \<open>while\<close> loop that counts a suffix up until the name is free. One round per branch of
  the store is enough (\<open>free_branch_fresh\<close>), so the fuel never runs out.
\<close>

fun free_branch :: "nat \<Rightarrow> str \<Rightarrow> str \<Rightarrow> nat \<Rightarrow> str \<Rightarrow> db \<Rightarrow> str option" where
  "free_branch 0 path base suffix name d = None"
| "free_branch (Suc fuel) path base suffix name d =
     (if branch_taken path name d
      then free_branch fuel path base (Suc suffix) (base @ ''-'' @ nat_str suffix) d
      else Some name)"

definition branch_fuel :: "db \<Rightarrow> nat" where
  "branch_fuel d = Suc (length (branches d))"

definition create_or_reuse_branch ::
  "nat \<Rightarrow> str \<Rightarrow> str \<Rightarrow> str \<Rightarrow> str \<Rightarrow> str \<Rightarrow> str option \<Rightarrow> bool \<Rightarrow> branch_row option task_prog"
  where
  "create_or_reuse_branch now date path slug base_ref profile branch_name new_branch =
     transaction (\<lambda>d.
       (let existing = sort_key (\<lambda>b. - int (rb_updated b))
              (rev (filter (\<lambda>b. rb_path b = path \<and> rb_base_ref b = base_ref
                  \<and> rb_profile b = profile \<and> rb_active b) (branches d)));
            no_name = (branch_name = None \<or> branch_name = Some []) in
        if no_name \<and> \<not> new_branch \<and> existing \<noteq> [] then (Inr (Some (hd existing)), d)
        else
          (let base = ''uta/'' @ slug @ ''/'' @ date;
               name = (if no_name then free_branch (branch_fuel d) path base 2 base d
                       else branch_name) in
           (case name of
              None \<Rightarrow> (Inr None, d)
            | Some n \<Rightarrow>
               (let key = (\<lambda>b. (rb_path b, rb_base_ref b, rb_profile b, rb_name b));
                    row = \<lparr>rb_id = next_branch d, rb_path = path, rb_slug = slug,
                      rb_base_ref = base_ref, rb_profile = profile, rb_name = n,
                      rb_active = True, rb_created = now, rb_updated = now,
                      rb_last_task = None\<rparr> in
                (case find_row key (path, base_ref, profile, n) (branches d) of
                   Some b \<Rightarrow> (Inr (Some b), d)
                 | None \<Rightarrow> (Inr (Some row), d\<lparr>branches := branches d @ [row],
                     next_branch := Suc (next_branch d)\<rparr>)))))))"

section \<open>Creating tasks and targets\<close>

record task_fields =
  tf_path :: str
  tf_slug :: str
  tf_module :: "str option"
  tf_selection :: pyval
  tf_language :: str
  tf_branch_id :: "nat option"
  tf_branch :: "str option"
  tf_base_ref :: "str option"
  tf_priority :: int
  tf_status :: repo_status
  tf_config :: "pydict option"
  tf_rdc_context :: pyval
  tf_total :: nat

text \<open>\<open>json_dumps\<close> writes an empty object for \<open>None\<close>; the column then reads back as it.\<close>

definition json_column :: "pyval \<Rightarrow> pyval option" where
  "json_column v = Some (if v = PNone then PDict [] else v)"

definition new_repo_task :: "nat \<Rightarrow> nat \<Rightarrow> task_fields \<Rightarrow> pydict \<Rightarrow> repo_task" where
  "new_repo_task now task_id f config =
     \<lparr>rt_id = task_id, rt_path = tf_path f, rt_slug = tf_slug f, rt_module = tf_module f,
      rt_selection = json_column (tf_selection f), rt_language = tf_language f,
      rt_branch_id = tf_branch_id f, rt_branch = tf_branch f, rt_base_ref = tf_base_ref f,
      rt_priority = tf_priority f, rt_status = tf_status f, rt_stage = None, rt_detail = None,
      rt_config = Some (PDict config), rt_rdc_context = json_column (tf_rdc_context f),
      rt_total = tf_total f, rt_completed = 0, rt_passed = 0, rt_failed = 0,
      rt_progress_count = 0, rt_progress_bytes = 0, rt_progress_truncated = False,
      rt_created = now, rt_updated = now, rt_started = None, rt_finished = None,
      rt_stop_requested = None, rt_resume_count = 0, rt_last_error = None, rt_error = None\<rparr>"

definition create_repo_task :: "nat \<Rightarrow> task_fields \<Rightarrow> nat task_prog" where
  "create_repo_task now f = seq (lift_error (durable_generation_snapshot (tf_config f))) (\<lambda>config.
     transaction (\<lambda>d.
       (if (case tf_branch_id f of None \<Rightarrow> False
            | Some b \<Rightarrow> find_row rb_id b (branches d) = None)
        then (Inl IntegrityError, d)
        else (Inr (next_repo d),
          d\<lparr>repo_tasks := repo_tasks d @ [new_repo_task now (next_repo d) f config],
            next_repo := Suc (next_repo d),
            branches := (case tf_branch_id f of None \<Rightarrow> branches d
              | Some b \<Rightarrow> update_row rb_id b
                  (\<lambda>r. r\<lparr>rb_last_task := Some (next_repo d), rb_updated := now\<rparr>) (branches d))\<rparr>))))"

record target_fields =
  gf_language :: str
  gf_target :: "str option"
  gf_source :: "str option"
  gf_symbol :: "str option"
  gf_granularity :: "str option"
  gf_display :: "str option"
  gf_module :: "str option"
  gf_priority :: int

text \<open>Python's \<open>x or y\<close> on optional strings, and \<open>COALESCE(NULLIF(x, ''), y)\<close>.\<close>

definition or_else :: "str option \<Rightarrow> str option \<Rightarrow> str option" where
  "or_else x y = (if x = None \<or> x = Some [] then y else x)"

definition storage_symbol :: "str \<Rightarrow> str \<Rightarrow> str \<Rightarrow> str option \<Rightarrow> str option" where
  "storage_symbol language granularity class_fqn symbol =
     (if symbol \<noteq> None \<and> symbol \<noteq> Some [] then symbol
      else if (language = [] \<or> language = ''java'') \<and> (granularity = [] \<or> granularity = ''class'')
      then Some class_fqn else None)"

definition new_class_task ::
  "nat \<Rightarrow> nat \<Rightarrow> nat \<Rightarrow> str \<Rightarrow> target_fields \<Rightarrow> class_task" where
  "new_class_task now cid repo_task_id class_fqn g =
     (let target = or_else (gf_target g) (Some class_fqn);
          granularity = or_else (gf_granularity g) (Some ''class'');
          display = or_else (gf_display g) (Some class_fqn) in
      \<lparr>ct_id = cid, ct_repo = repo_task_id, ct_fqn = class_fqn,
       ct_language = (if gf_language g = [] then ''java'' else gf_language g),
       ct_target = target, ct_source = gf_source g,
       ct_symbol = storage_symbol (gf_language g) (the granularity) class_fqn (gf_symbol g),
       ct_granularity = granularity, ct_display = display, ct_module = gf_module g,
       ct_priority = gf_priority g, ct_status = CCreated, ct_current_stage = None,
       ct_detail = None, ct_batch_key = None, ct_stage = None, ct_created = now,
       ct_updated = now, ct_started = None, ct_finished = None, ct_last_error = None,
       ct_error = None\<rparr>)"

text \<open>
  \<open>INSERT OR IGNORE\<close> keeps a row that is already there; the following \<open>UPDATE\<close> fills
  only the columns that are empty. Foreign keys are checked even with \<open>OR IGNORE\<close>.
\<close>

definition fill_class_task :: "class_task \<Rightarrow> class_task \<Rightarrow> class_task" where
  "fill_class_task new r = r\<lparr>
     ct_language := (if ct_language r = [] then ct_language new else ct_language r),
     ct_target := or_else (ct_target r) (ct_target new),
     ct_source := (case ct_source r of None \<Rightarrow> ct_source new | Some s \<Rightarrow> Some s),
     ct_symbol := or_else (ct_symbol r) (ct_symbol new),
     ct_granularity := or_else (ct_granularity r) (ct_granularity new),
     ct_display := or_else (ct_display r) (ct_display new)\<rparr>"

definition create_class_task ::
  "nat \<Rightarrow> nat \<Rightarrow> str \<Rightarrow> target_fields \<Rightarrow> nat task_prog" where
  "create_class_task now repo_task_id class_fqn g = transaction (\<lambda>d.
     (let new = new_class_task now (next_class d) repo_task_id class_fqn g in
      (case find_class_task repo_task_id class_fqn d of
         Some r \<Rightarrow> (Inr (ct_id r), d\<lparr>class_tasks := update_rows
             (\<lambda>r. (ct_repo r, ct_fqn r) = (repo_task_id, class_fqn)) (fill_class_task new)
             (class_tasks d)\<rparr>)
       | None \<Rightarrow>
           if get_repo_task repo_task_id d = None then (Inl IntegrityError, d)
           else (Inr (next_class d), d\<lparr>class_tasks := class_tasks d @ [new],
                   next_class := Suc (next_class d)\<rparr>))))"

end
