(* ===== verification/TaskInvariant.thy ===== *)
theory TaskInvariant
  imports TaskStore
begin

text \<open>
  Integrity of the task store: automatic ids grow and are never reused, targets, events and
  controls point at rows that exist, a task has one target of a name, a runner one heartbeat.
  Every operation of \<open>TaskStore\<close> keeps it, whether it returns or raises.
\<close>

section \<open>Tables with automatic ids\<close>

definition auto_ids :: "('r \<Rightarrow> nat) \<Rightarrow> nat \<Rightarrow> 'r list \<Rightarrow> bool" where
  "auto_ids key next rows \<longleftrightarrow> sorted_wrt (<) (map key rows) \<and> (\<forall>r \<in> set rows. key r < next)"

lemma auto_ids_Nil [simp]: "auto_ids key n []"
  by (simp add: auto_ids_def)

lemma auto_ids_append [intro]:
  "auto_ids key n rows \<Longrightarrow> key r = n \<Longrightarrow> auto_ids key (Suc n) (rows @ [r])"
  by (auto simp: auto_ids_def sorted_wrt_append less_Suc_eq)

lemma auto_ids_keys: "auto_ids key n rows \<longleftrightarrow>
    sorted_wrt (<) (map key rows) \<and> (\<forall>k \<in> set (map key rows). k < n)"
  by (simp add: auto_ids_def)

lemma auto_ids_update [simp]:
  "(\<And>r. key (f r) = key r) \<Longrightarrow> auto_ids key n (update_rows p f rows) = auto_ids key n rows"
  by (simp only: auto_ids_keys keys_update_rows)

lemma auto_ids_filter [intro]: "auto_ids key n rows \<Longrightarrow> auto_ids key n (filter p rows)"
  by (auto simp: auto_ids_def sorted_wrt_map intro: sorted_wrt_filter)

lemma auto_ids_distinct: "auto_ids key n rows \<Longrightarrow> distinct (map key rows)"
  by (simp add: auto_ids_def strict_sorted_iff)

section \<open>The invariant\<close>

definition repo_ids :: "db \<Rightarrow> nat set" where
  "repo_ids d = rt_id ` set (repo_tasks d)"

definition class_ids :: "db \<Rightarrow> nat set" where
  "class_ids d = ct_id ` set (class_tasks d)"

definition event_ok :: "db \<Rightarrow> task_event \<Rightarrow> bool" where
  "event_ok d e \<longleftrightarrow> (\<forall>r. ev_repo e = Some r \<longrightarrow> r \<in> repo_ids d)
     \<and> (\<forall>c. ev_class e = Some c \<longrightarrow> c \<in> class_ids d)"

definition wf_tasks :: "db \<Rightarrow> bool" where
  "wf_tasks d \<longleftrightarrow> auto_ids rt_id (next_repo d) (repo_tasks d)"

definition wf_classes :: "db \<Rightarrow> bool" where
  "wf_classes d \<longleftrightarrow> auto_ids ct_id (next_class d) (class_tasks d)
     \<and> distinct (map (\<lambda>r. (ct_repo r, ct_fqn r)) (class_tasks d))
     \<and> (\<forall>r \<in> set (class_tasks d). ct_repo r \<in> repo_ids d)"

definition wf_events :: "db \<Rightarrow> bool" where
  "wf_events d \<longleftrightarrow> auto_ids ev_id (next_event d) (task_events d)
     \<and> (\<forall>e \<in> set (task_events d). event_ok d e)"

definition wf_controls :: "db \<Rightarrow> bool" where
  "wf_controls d \<longleftrightarrow> auto_ids tc_id (next_control d) (controls d)
     \<and> (\<forall>c \<in> set (controls d). tc_repo c \<in> repo_ids d)"

definition wf_db :: "db \<Rightarrow> bool" where
  "wf_db d \<longleftrightarrow> wf_tasks d \<and> wf_classes d \<and> wf_events d \<and> wf_controls d
     \<and> distinct (map hb_runner (heartbeats d)) \<and> auto_ids rb_id (next_branch d) (branches d)"

lemmas wf_parts = wf_tasks_def wf_classes_def wf_events_def wf_controls_def event_ok_def

lemma get_repo_task_in: "get_repo_task t d = Some r \<Longrightarrow> t \<in> repo_ids d"
  by (auto simp: get_repo_task_def repo_ids_def dest!: find_row_Some)

lemma get_repo_task_None: "get_repo_task t d = None \<longleftrightarrow> t \<notin> repo_ids d"
  by (simp add: get_repo_task_def repo_ids_def find_row_None)

lemma get_class_task_None: "get_class_task c d = None \<longleftrightarrow> c \<notin> class_ids d"
  by (simp add: get_class_task_def class_ids_def find_row_None)

lemma wf_task_distinct: "wf_db d \<Longrightarrow> distinct (map rt_id (repo_tasks d))"
  by (auto simp: wf_db_def wf_tasks_def dest: auto_ids_distinct)

lemma get_repo_task_member: "wf_db d \<Longrightarrow> r \<in> set (repo_tasks d) \<Longrightarrow> get_repo_task (rt_id r) d = Some r"
  unfolding get_repo_task_def by (rule find_row_member [OF wf_task_distinct])

section \<open>Rewriting one table\<close>

lemma wf_set_tasks:
  assumes "wf_db d" and "\<And>r. rt_id (f r) = rt_id r"
  shows "wf_db (d\<lparr>repo_tasks := update_rows p f (repo_tasks d)\<rparr>)"
proof -
  have "rt_id ` set (update_rows p f (repo_tasks d)) = rt_id ` set (repo_tasks d)"
    using assms(2) by (metis keys_update_rows list.set_map)
  with assms show ?thesis
    by (simp add: wf_db_def wf_parts repo_ids_def class_ids_def)
qed

lemma wf_set_classes:
  assumes "wf_db d"
    and "\<And>r. ct_id (f r) = ct_id r" "\<And>r. ct_repo (f r) = ct_repo r" "\<And>r. ct_fqn (f r) = ct_fqn r"
  shows "wf_db (d\<lparr>class_tasks := update_rows p f (class_tasks d)\<rparr>)"
proof -
  have "ct_id ` set (update_rows p f (class_tasks d)) = ct_id ` set (class_tasks d)"
    using assms(2) by (metis keys_update_rows list.set_map)
  moreover have "\<forall>r \<in> set (update_rows p f (class_tasks d)). ct_repo r \<in> rt_id ` set (repo_tasks d)"
    using assms by (auto simp: set_update_rows wf_db_def wf_classes_def repo_ids_def)
  ultimately show ?thesis using assms
    by (simp add: wf_db_def wf_parts repo_ids_def class_ids_def keys_update_rows)
qed

lemma wf_insert_event [intro]:
  assumes "wf_db d" and "event_refs_ok d rid cid"
  shows "wf_db (insert_event now rid cid t m st sev p d)"
  using assms
  by (auto simp: wf_db_def wf_parts repo_ids_def class_ids_def insert_event_def event_refs_ok_def
      get_repo_task_None get_class_task_None split: option.splits)

lemma event_refs_insert [simp]:
  "event_refs_ok (insert_event now rid cid t m st sev p d) = event_refs_ok d"
  by (auto simp: fun_eq_iff event_refs_ok_def insert_event_def get_repo_task_def get_class_task_def
      split: option.splits)

lemma event_refs_fold [simp]:
  "event_refs_ok (foldl (\<lambda>d x. insert_event now r c (t x) (m x) (st x) (sev x) (p x) d) d xs)
     = event_refs_ok d"
  by (induction xs arbitrary: d) auto

lemma wf_insert_events:
  "wf_db d \<Longrightarrow> event_refs_ok d r c \<Longrightarrow>
   wf_db (foldl (\<lambda>d x. insert_event now r c (t x) (m x) (st x) (sev x) (p x) d) d xs)"
proof (induction xs arbitrary: d)
  case Nil
  then show ?case by simp
next
  case (Cons x xs)
  then show ?case by (simp add: wf_insert_event)
qed

lemma event_refs_of_task: "get_repo_task t d = Some x \<Longrightarrow> event_refs_ok d (Some t) None"
  by (simp add: event_refs_ok_def)

section \<open>Every operation keeps it\<close>

named_theorems wf_keeps \<open>operations that keep the store well-formed\<close>

lemma keeps_lift [keeps_intros]: "keeps P (lift_error r)"
  by (simp add: keeps_def lift_error_def)

lemma assign_repo_row_id: "rt_id (f r) = rt_id r \<Longrightarrow> rt_id (assign_repo_row now s f r) = rt_id r"
  by (simp add: assign_repo_row_def split: option.splits)

lemma keeps_update_repo_task [wf_keeps]:
  "(\<And>r. rt_id (f r) = rt_id r) \<Longrightarrow> keeps wf_db (update_repo_task now t s f)"
  unfolding update_repo_task_def
  by (intro keeps_intros keeps_modifies)
    (auto intro!: keeps_intros wf_set_tasks assign_repo_row_id split: option.splits)

lemma keeps_update_class_task [wf_keeps]:
  "(\<And>r. ct_id (f r) = ct_id r \<and> ct_repo (f r) = ct_repo r \<and> ct_fqn (f r) = ct_fqn r) \<Longrightarrow>
   keeps wf_db (update_class_task now c f)"
  unfolding update_class_task_def
  by (intro keeps_intros keeps_modifies wf_set_classes) auto

lemma keeps_refresh [wf_keeps]: "keeps wf_db (refresh_repo_counts now t)"
  unfolding refresh_repo_counts_def by (intro keeps_intros wf_keeps) simp

lemma keeps_add_event [wf_keeps]: "keeps wf_db (add_event now r c t m st sev p)"
  by (rule keepsI) (auto simp: add_event_def)

lemma keeps_prune [wf_keeps]: "keeps wf_db (prune_progress_events b)"
  unfolding prune_progress_events_def
  by (intro keeps_intros keepsI)
    (auto simp: Let_def wf_db_def wf_parts repo_ids_def class_ids_def)

lemma keeps_append_progress [wf_keeps]:
  "keeps wf_db (append_progress_event_batch now t es m b)"
  unfolding append_progress_event_batch_def Let_def
  by (intro keeps_intros keepsI)
    (auto intro!: wf_set_tasks wf_insert_events wf_insert_event dest: event_refs_of_task
      split: option.splits)

lemma refs_set_tasks [simp]:
  "(\<And>r. rt_id (f r) = rt_id r) \<Longrightarrow>
   event_refs_ok (d\<lparr>repo_tasks := update_rows p f (repo_tasks d)\<rparr>) = event_refs_ok d"
  by (auto simp: fun_eq_iff event_refs_ok_def get_repo_task_def get_class_task_def table_simps
      split: option.splits)

lemma keeps_finish [wf_keeps]:
  assumes "\<And>r. rt_id (f r) = rt_id r"
  shows "keeps wf_db (finish_task_with_terminal_event now t s m st sev p f ts)"
proof -
  have "rt_id (finish_row now s m st f r) = rt_id r" for r
    by (simp add: finish_row_def assms)
  then show ?thesis
    unfolding finish_task_with_terminal_event_def Let_def
    by (intro keeps_intros keepsI)
      (auto intro!: wf_set_tasks wf_insert_events wf_insert_event dest: event_refs_of_task
        split: option.splits)
qed

lemma keeps_acquire_first: "keeps wf_db (acquire_first now a rows)"
  by (induction rows)
    (auto intro!: keeps_intros keeps_modifies wf_set_tasks simp: claim_row_def)

lemma keeps_acquire [wf_keeps]: "keeps wf_db (acquire_next_task now a i ex)"
  unfolding acquire_next_task_def by (intro keeps_intros keeps_acquire_first)

lemma keeps_heartbeat [wf_keeps]: "keeps wf_db (upsert_heartbeat now r rid p h st m c)"
  unfolding upsert_heartbeat_def
  by (intro keeps_modifies)
    (auto simp: Let_def wf_db_def wf_parts repo_ids_def class_ids_def find_row_None
      keys_update_row new_heartbeat_def split: option.splits)

lemma keeps_request_control [wf_keeps]: "keeps wf_db (request_control now t a r)"
  by (rule keepsI) (auto simp: request_control_def wf_db_def wf_parts repo_ids_def class_ids_def
      dest!: get_repo_task_in)

lemma keeps_acknowledge [wf_keeps]: "keeps wf_db (acknowledge_controls now t a)"
  unfolding acknowledge_controls_def
  by (intro keeps_modifies)
    (auto simp: wf_db_def wf_parts repo_ids_def class_ids_def set_update_rows)

lemma keeps_branch [wf_keeps]: "keeps wf_db (create_or_reuse_branch now dt p s b pr n nb)"
  unfolding create_or_reuse_branch_def Let_def
  by (intro keeps_intros keepsI)
    (auto simp: wf_db_def wf_parts repo_ids_def class_ids_def split: option.splits)

lemma keeps_create_repo_task [wf_keeps]: "keeps wf_db (create_repo_task now f)"
  unfolding create_repo_task_def
  by (intro keeps_intros keepsI)
    (auto simp: wf_db_def wf_parts repo_ids_def class_ids_def new_repo_task_def
      split: option.splits)

lemma wf_add_class:
  assumes "wf_db d" and "find_class_task t c d = None" and "get_repo_task t d = Some y"
  shows "wf_db (d\<lparr>class_tasks := class_tasks d @ [new_class_task now (next_class d) t c g],
     next_class := Suc (next_class d)\<rparr>)"
proof -
  have "(t, c) \<notin> (\<lambda>r. (ct_repo r, ct_fqn r)) ` set (class_tasks d)"
    using assms(2) by (simp add: find_class_task_def find_row_None)
  with assms(1) get_repo_task_in [OF assms(3)] show ?thesis
    by (auto simp: wf_db_def wf_parts repo_ids_def class_ids_def new_class_task_def Let_def)
qed

lemma keeps_create_class_task [wf_keeps]: "keeps wf_db (create_class_task now t c g)"
  unfolding create_class_task_def Let_def
  by (intro keeps_intros keepsI)
    (auto intro!: wf_set_classes wf_add_class simp: fill_class_task_def split: option.splits)
end
