(* ===== verification/TaskLifecycle.thy ===== *)
theory TaskLifecycle
  imports TaskInvariant
begin

text \<open>
  The lifecycle of a task: \<open>uta/tasks/lifecycle/state.py\<close> (transitions), \<open>recovery.py\<close>
  (resume, orphan recovery, preemption, duplicate repair tasks), \<open>stages.py\<close> (stage events)
  and \<open>scheduler.py\<close>. Every method is a program over the store: the calls it makes, in
  order, with what it raises. \<open>quarantine_threshold\<close> comes from the settings and is a
  parameter.
\<close>

section \<open>Transitions\<close>

definition start_task :: "nat \<Rightarrow> nat \<Rightarrow> unit task_prog" where
  "start_task now task_id =
     andthen (update_repo_task now task_id (Some QUEUED) (\<lambda>r. r\<lparr>rt_stage := Some ''queued'',
         rt_started := None, rt_finished := None, rt_last_error := None, rt_error := None\<rparr>))
       (add_event now (Some task_id) None ''task_queued'' ''Task queued for daemon execution''
          (Some ''queued'') INFO [])"

text \<open>Python's \<open>detail or default\<close> on an optional string.\<close>

definition text_or :: "str option \<Rightarrow> str \<Rightarrow> str" where
  "text_or x y = (case x of None \<Rightarrow> y | Some s \<Rightarrow> if s = [] then y else s)"

definition mark_running :: "nat \<Rightarrow> nat \<Rightarrow> str \<Rightarrow> str option \<Rightarrow> unit task_prog" where
  "mark_running now task_id stage detail =
     seq (reads (get_repo_task task_id)) (\<lambda>row.
     (let started = (case row of None \<Rightarrow> now
            | Some r \<Rightarrow> (case rt_started r of None \<Rightarrow> now | Some t \<Rightarrow> t)) in
      andthen (update_repo_task now task_id (Some RUNNING) (\<lambda>r. r\<lparr>rt_stage := Some stage,
          rt_detail := detail, rt_started := Some started, rt_finished := None,
          rt_last_error := None, rt_error := None\<rparr>))
        (add_event now (Some task_id) None ''task_running'' (text_or detail ''Task running'')
          (Some stage) INFO [])))"

definition stop_task :: "nat \<Rightarrow> nat \<Rightarrow> str option \<Rightarrow> unit task_prog" where
  "stop_task now task_id reason =
     andthen (request_control now task_id Stop reason)
    (andthen (update_repo_task now task_id (Some STOP_REQUESTED)
        (\<lambda>r. r\<lparr>rt_stop_requested := Some now, rt_detail := reason\<rparr>))
      (add_event now (Some task_id) None ''task_stopped'' (text_or reason ''Stop requested'')
         None WARNING []))"

definition mark_stopped :: "nat \<Rightarrow> nat \<Rightarrow> str option \<Rightarrow> str \<Rightarrow> unit task_prog" where
  "mark_stopped now task_id reason stage =
     andthen (acknowledge_controls now task_id (Some Stop))
    (andthen (update_repo_task now task_id (Some STOPPED) (\<lambda>r. r\<lparr>rt_stage := Some stage,
        rt_detail := reason, rt_finished := Some now, rt_last_error := reason,
        rt_error := reason\<rparr>))
      (add_event now (Some task_id) None ''task_stopped''
         (text_or reason ''Task stopped cooperatively'') (Some stage) WARNING []))"

definition check_stop_requested :: "nat \<Rightarrow> db \<Rightarrow> str option" where
  "check_stop_requested task_id d =
     (case get_repo_task task_id d of
        Some task \<Rightarrow>
          if rt_status task = STOP_REQUESTED
          then Some (text_or (rt_detail task) ''stop requested'')
          else (case latest_control task_id d of
                  Some c \<Rightarrow>
                    (case tc_action c of
                       Stop \<Rightarrow> Some (text_or (tc_reason c) ''stop requested'')
                     | Cancel \<Rightarrow> Some (text_or (tc_reason c) ''cancel requested'')
                     | OtherAction a \<Rightarrow> None)
                | None \<Rightarrow> None)
      | None \<Rightarrow>
          (case latest_control task_id d of
             Some c \<Rightarrow>
               (case tc_action c of
                  Stop \<Rightarrow> Some (text_or (tc_reason c) ''stop requested'')
                | Cancel \<Rightarrow> Some (text_or (tc_reason c) ''cancel requested'')
                | OtherAction a \<Rightarrow> None)
           | None \<Rightarrow> None))"

definition cancellable :: "class_status \<Rightarrow> bool" where
  "cancellable s = (s \<in> set [CCreated, CPending, CQueued, CRunning, CStopped])"

definition cancel_class :: "nat \<Rightarrow> str option \<Rightarrow> class_task \<Rightarrow> unit task_prog" where
  "cancel_class now reason row =
     (if cancellable (ct_status row)
      then update_class_task now (ct_id row) (\<lambda>r. r\<lparr>ct_status := CCancelled,
        ct_stage := Some ''cancelled'', ct_current_stage := Some ''cancelled'',
        ct_finished := Some now, ct_last_error := reason, ct_error := reason\<rparr>)
      else ret ())"

definition cancel_task :: "nat \<Rightarrow> nat \<Rightarrow> str option \<Rightarrow> unit task_prog" where
  "cancel_task now task_id reason =
     andthen (request_control now task_id Cancel reason)
    (andthen (seq (reads (list_class_tasks task_id)) (foreach (cancel_class now reason)))
      (seq (finish_task_with_terminal_event now task_id CANCELLED
              (text_or reason ''Task cancelled'') ''cancelled'' WARNING [] (\<lambda>r. r)
              [''task_cancelled''])
        (\<lambda>_. ret ())))"

text \<open>The two error columns that a failed end of a task sets.\<close>

definition error_fields :: "str \<Rightarrow> repo_task \<Rightarrow> repo_task" where
  "error_fields message r = r\<lparr>rt_last_error := Some message, rt_error := Some message\<rparr>"

section \<open>Resuming\<close>

definition resumable :: "bool \<Rightarrow> bool \<Rightarrow> class_status \<Rightarrow> bool" where
  "resumable force_rerun_failed force_rerun_all s =
     (s \<in> set [CCreated, CPending, CQueued, CRunning, CStopped]
      \<or> (force_rerun_failed \<and> s \<in> set terminal_class_statuses \<and> s \<notin> set [CPass, CCancelled])
      \<or> (force_rerun_all \<and> s \<in> set terminal_class_statuses))"

definition requeue_class :: "nat \<Rightarrow> class_task \<Rightarrow> unit task_prog" where
  "requeue_class now row = update_class_task now (ct_id row) (\<lambda>r. r\<lparr>ct_status := CQueued,
     ct_stage := Some ''queued'', ct_current_stage := Some ''queued'', ct_finished := None,
     ct_last_error := None, ct_error := None\<rparr>)"

definition resume_class :: "nat \<Rightarrow> bool \<Rightarrow> bool \<Rightarrow> class_task \<Rightarrow> unit task_prog" where
  "resume_class now force_rerun_failed force_rerun_all row =
     (if resumable force_rerun_failed force_rerun_all (ct_status row)
      then requeue_class now row else ret ())"

definition resume_row :: "nat \<Rightarrow> repo_task \<Rightarrow> repo_task" where
  "resume_row count r = r\<lparr>rt_stop_requested := None, rt_finished := None,
     rt_resume_count := Suc count, rt_stage := Some ''queued'',
     rt_detail := Some ''resume requested'', rt_last_error := None, rt_error := None\<rparr>"

definition resume_task :: "nat \<Rightarrow> nat \<Rightarrow> bool \<Rightarrow> bool \<Rightarrow> unit task_prog" where
  "resume_task now task_id force_rerun_failed force_rerun_all =
     seq (reads (get_repo_task task_id)) (\<lambda>found.
     (case found of
        None \<Rightarrow> raise KeyError
      | Some row \<Rightarrow>
         andthen (lift_error (require_durable_generation_task row))
         (if rt_status row = STOP_REQUESTED
          then andthen
            (add_event now (Some task_id) None ''task_resume_blocked''
               (''Cannot resume task while stop is still pending: ''
                 @ text_or (rt_detail row) ''stop requested'') (Some ''queued'') WARNING [])
            (raise (RuntimeError ''stop is still pending; wait for STOPPED before resuming''))
          else
            andthen (update_repo_task now task_id (Some QUEUED) (resume_row (rt_resume_count row)))
           (andthen (acknowledge_controls now task_id None)
           (andthen (seq (reads (list_class_tasks task_id))
               (foreach (resume_class now force_rerun_failed force_rerun_all)))
           (andthen (refresh_repo_counts now task_id)
             (add_event now (Some task_id) None ''task_resumed'' ''Task resumed and queued''
               (Some ''queued'') INFO
               [(''force_rerun_failed'', PBool force_rerun_failed),
                (''force_rerun_all'', PBool force_rerun_all)])))))))"

section \<open>Preemption\<close>

text \<open>\<open>ORDER BY started_at ASC, id ASC\<close>; SQLite sorts a missing start time first.\<close>

definition start_order :: "repo_task \<Rightarrow> int" where
  "start_order r = (case rt_started r of None \<Rightarrow> -1 | Some t \<Rightarrow> int t)"

definition preemptable :: "repo_task \<Rightarrow> repo_task \<Rightarrow> bool" where
  "preemptable urgent r = (rt_path r = rt_path urgent \<and> rt_status r = RUNNING
     \<and> rt_id r \<noteq> rt_id urgent \<and> 100 \<le> rt_priority r)"

definition preemption_payload :: "nat \<Rightarrow> nat \<Rightarrow> pydict" where
  "preemption_payload urgent_id preempted_id =
     [(''preempted_by_task_id'', PInt (int urgent_id)),
      (''preempted_task_id'', PInt (int preempted_id))]"

definition preempt_one :: "nat \<Rightarrow> nat \<Rightarrow> repo_task \<Rightarrow> nat option task_prog" where
  "preempt_one now urgent_id row =
     (let reason = ''preempted by urgent RDC repair task '' @ nat_str urgent_id;
          payload = preemption_payload urgent_id (rt_id row) in
      andthen (stop_task now (rt_id row) (Some reason))
     (andthen (add_event now (Some (rt_id row)) None ''task_preempted'' reason
         (Some ''preempted'') WARNING payload)
     (andthen (add_event now (Some urgent_id) None ''task_preempting''
         (''Requested stop for batch task '' @ nat_str (rt_id row)) (Some ''preempted'') INFO payload)
       (ret (Some (rt_id row))))))"

definition preempt_running_same_repo_for_urgent :: "nat \<Rightarrow> nat \<Rightarrow> nat list task_prog" where
  "preempt_running_same_repo_for_urgent now urgent_id =
     seq (reads (get_repo_task urgent_id)) (\<lambda>found.
     (case found of
        None \<Rightarrow> raise KeyError
      | Some urgent \<Rightarrow>
          seq (reads (\<lambda>d. sort_key start_order (filter (preemptable urgent) (repo_tasks d))))
            (collect (preempt_one now urgent_id))))"

definition preempted_by :: "nat \<Rightarrow> task_event \<Rightarrow> bool" where
  "preempted_by urgent_id e =
     (int_of (get (as_dict (ev_payload e)) ''preempted_by_task_id'') = int urgent_id)"

text \<open>
  \<open>int(payload.get(k) or 0)\<close> with the payload that \<open>preempt_one\<close> wrote; the row's
  \<open>repo_task_id\<close> is the preempted task.
\<close>

definition resume_preempted :: "nat \<Rightarrow> nat \<Rightarrow> task_event \<Rightarrow> nat option task_prog" where
  "resume_preempted now urgent_id e =
     (if \<not> preempted_by urgent_id e then ret None
      else (case ev_repo e of
         None \<Rightarrow> ret None
       | Some preempted_id \<Rightarrow>
          seq (reads (get_repo_task preempted_id)) (\<lambda>found.
          (case found of
             None \<Rightarrow> ret None
           | Some task \<Rightarrow>
               if rt_status task \<noteq> STOPPED then ret None
               else andthen (resume_task now preempted_id False False)
                   (andthen (add_event now (Some urgent_id) None ''preempted_task_resumed''
                      (''Resumed preempted batch task '' @ nat_str preempted_id)
                      (Some ''finished'') INFO [(''preempted_task_id'', PInt (int preempted_id))])
                     (ret (Some preempted_id)))))))"

definition resume_preempted_tasks :: "nat \<Rightarrow> nat \<Rightarrow> nat list task_prog" where
  "resume_preempted_tasks now urgent_id =
     seq (reads (\<lambda>d. filter (\<lambda>e. ev_type e = ''task_preempted'') (task_events d)))
       (collect (resume_preempted now urgent_id))"

section \<open>Ends of a task\<close>

definition mark_failed :: "nat \<Rightarrow> nat \<Rightarrow> nat \<Rightarrow> str \<Rightarrow> str \<Rightarrow> unit task_prog" where
  "mark_failed now quarantine_threshold task_id message stage =
     seq (reads (count_task_failures task_id)) (\<lambda>failures.
     (let poison = (0 < quarantine_threshold \<and> quarantine_threshold \<le> failures + 1);
          terminal_message = (if poison
            then ''Auto-quarantined after '' @ nat_str quarantine_threshold @ '' failures. Last: ''
              @ message
            else message) in
      seq (finish_task_with_terminal_event now task_id (if poison then POISONED else FAILED)
             terminal_message (if poison then ''quarantined'' else stage) ERROR []
             (error_fields terminal_message)
             (if poison then [''task_failed'', ''task_poisoned''] else [''task_failed'']))
        (\<lambda>_. seq (resume_preempted_tasks now task_id) (\<lambda>_. ret ()))))"

definition mark_completed :: "nat \<Rightarrow> nat \<Rightarrow> str \<Rightarrow> unit task_prog" where
  "mark_completed now task_id message =
     seq (finish_task_with_terminal_event now task_id COMPLETED message ''finished'' INFO []
            (\<lambda>r. r) [''task_completed''])
       (\<lambda>_. seq (resume_preempted_tasks now task_id) (\<lambda>_. ret ()))"

definition mark_poisoned :: "nat \<Rightarrow> nat \<Rightarrow> str \<Rightarrow> unit task_prog" where
  "mark_poisoned now task_id message =
     seq (finish_task_with_terminal_event now task_id POISONED message ''quarantined'' ERROR []
            (error_fields message) [''task_poisoned''])
       (\<lambda>_. ret ())"

definition mark_budget_exceeded :: "nat \<Rightarrow> nat \<Rightarrow> str \<Rightarrow> unit task_prog" where
  "mark_budget_exceeded now task_id message =
     seq (finish_task_with_terminal_event now task_id BUDGET_EXCEEDED message ''budget_exceeded''
            ERROR [] (error_fields message) [''task_budget_exceeded''])
       (\<lambda>_. seq (resume_preempted_tasks now task_id) (\<lambda>_. ret ()))"

definition unblock :: "nat \<Rightarrow> nat \<Rightarrow> unit task_prog" where
  "unblock now task_id =
     seq (reads (get_repo_task task_id)) (\<lambda>found.
     (case found of
        None \<Rightarrow> raise (ValueError ''not found'')
      | Some task \<Rightarrow>
         andthen (lift_error (require_durable_generation_task task))
        (andthen (guard (rt_status task \<in> set [POISONED, BUDGET_EXCEEDED, FAILED])
           (ValueError ''only POISONED/BUDGET_EXCEEDED/FAILED can be unblocked''))
        (andthen (update_repo_task now task_id (Some QUEUED) (\<lambda>r. r\<lparr>rt_stage := Some ''unblocked'',
            rt_detail := Some (''Unblocked from '' @ repo_status_name (rt_status task)),
            rt_finished := None, rt_error := None\<rparr>))
        (andthen (acknowledge_controls now task_id None)
          (add_event now (Some task_id) None ''task_unblocked''
            (''Unblocked from '' @ repo_status_name (rt_status task)) (Some ''unblocked'') INFO []))))))"

section \<open>Recovering interrupted tasks\<close>

definition requeue_running_class :: "nat \<Rightarrow> str \<Rightarrow> class_task \<Rightarrow> unit task_prog" where
  "requeue_running_class now detail row =
     (if ct_status row = CRunning
      then update_class_task now (ct_id row) (\<lambda>r. r\<lparr>ct_status := CQueued,
        ct_stage := Some ''queued'', ct_current_stage := Some ''queued'',
        ct_detail := Some detail, ct_finished := None, ct_last_error := None, ct_error := None\<rparr>)
      else ret ())"

definition requeue_row :: "str \<Rightarrow> repo_task \<Rightarrow> repo_task" where
  "requeue_row detail r = r\<lparr>rt_stage := Some ''queued'', rt_detail := Some detail,
     rt_finished := None, rt_stop_requested := None, rt_last_error := None, rt_error := None\<rparr>"

text \<open>The body that both recoveries share: the task, its running targets, the event, the counts.\<close>

definition requeue_task :: "nat \<Rightarrow> str \<Rightarrow> str \<Rightarrow> pydict \<Rightarrow> nat \<Rightarrow> nat option task_prog" where
  "requeue_task now detail event_type payload task_id =
     andthen (update_repo_task now task_id (Some QUEUED) (requeue_row detail))
    (andthen (seq (reads (list_class_tasks task_id)) (foreach (requeue_running_class now detail)))
    (andthen (add_event now (Some task_id) None event_type detail (Some ''queued'') WARNING payload)
    (andthen (refresh_repo_counts now task_id)
      (ret (Some task_id)))))"

text \<open>
  A heartbeat is stale when its time lies the threshold back. Timestamps are numbers here, so
  the branch for a text that is no date does not arise.
\<close>

definition is_stale_heartbeat :: "heartbeat_row \<Rightarrow> nat \<Rightarrow> nat \<Rightarrow> bool" where
  "is_stale_heartbeat heartbeat threshold_seconds now =
     (int threshold_seconds \<le> int now - int (heartbeat_time heartbeat))"

definition orphan_payload :: "nat \<Rightarrow> heartbeat_row option \<Rightarrow> pydict" where
  "orphan_payload threshold heartbeat =
     [(''stale_after_seconds'', PInt (int threshold)),
      (''heartbeat_runner_id'', (case heartbeat of None \<Rightarrow> PNone | Some h \<Rightarrow> PStr (hb_runner h))),
      (''heartbeat_at'', (case heartbeat of None \<Rightarrow> PNone
         | Some h \<Rightarrow> PInt (int (heartbeat_time h))))]"

definition requeue_orphan :: "nat \<Rightarrow> nat list \<Rightarrow> nat \<Rightarrow> repo_task \<Rightarrow> nat option task_prog" where
  "requeue_orphan now active threshold task =
     (if rt_id task \<in> set active then ret None
      else seq (reads (latest_running_heartbeat (rt_id task))) (\<lambda>heartbeat.
        if (case heartbeat of None \<Rightarrow> False | Some h \<Rightarrow> \<not> is_stale_heartbeat h threshold now)
        then ret None
        else requeue_task now ''requeued after stale runner heartbeat'' ''orphaned_task_requeued''
               (orphan_payload threshold heartbeat) (rt_id task)))"

definition requeue_orphaned_running_tasks :: "nat \<Rightarrow> nat list \<Rightarrow> nat \<Rightarrow> nat list task_prog" where
  "requeue_orphaned_running_tasks now active stale_after_seconds =
     seq (reads (\<lambda>d. filter (\<lambda>r. rt_status r = RUNNING) (repo_tasks d)))
       (collect (requeue_orphan now active (max 1 stale_after_seconds)))"

definition requeue_shutdown :: "nat \<Rightarrow> str \<Rightarrow> nat \<Rightarrow> nat option task_prog" where
  "requeue_shutdown now reason task_id =
     seq (reads (get_repo_task task_id)) (\<lambda>found.
     (case found of
        None \<Rightarrow> ret None
      | Some task \<Rightarrow>
          if rt_status task \<noteq> RUNNING then ret None
          else requeue_task now (''requeued after daemon shutdown: '' @ reason)
                 ''daemon_shutdown_requeued'' [(''reason'', PStr reason)] task_id))"

definition requeue_daemon_shutdown_tasks :: "nat \<Rightarrow> nat list \<Rightarrow> str \<Rightarrow> nat list task_prog" where
  "requeue_daemon_shutdown_tasks now active reason =
     collect (requeue_shutdown now reason) (sorted_list_of_set (set active))"

section \<open>Priorities\<close>

definition reprioritize_task :: "nat \<Rightarrow> nat \<Rightarrow> int \<Rightarrow> str \<Rightarrow> unit task_prog" where
  "reprioritize_task now task_id priority shown =
     andthen (update_repo_task now task_id None (\<lambda>r. r\<lparr>rt_priority := priority\<rparr>))
       (add_event now (Some task_id) None ''task_reprioritized'' (''Priority set to '' @ shown)
          None INFO [])"

definition reprioritize_class :: "nat \<Rightarrow> nat \<Rightarrow> int \<Rightarrow> str \<Rightarrow> unit task_prog" where
  "reprioritize_class now class_task_id priority shown =
     seq (reads (get_class_task class_task_id)) (\<lambda>found.
     (case found of
        None \<Rightarrow> raise KeyError
      | Some row \<Rightarrow>
         andthen (update_class_task now class_task_id (\<lambda>r. r\<lparr>ct_priority := priority\<rparr>))
           (add_event now (Some (ct_repo row)) (Some class_task_id) ''class_reprioritized''
             (''Class priority set to '' @ shown) None INFO [])))"

section \<open>Scheduler\<close>

text \<open>
  \<open>TaskScheduler.acquire_next\<close>: claim, log, heartbeat. \<open>runner\<close>, \<open>pid\<close> and \<open>host\<close> are the
  scheduler's own process.
\<close>

definition acquire_next ::
  "nat \<Rightarrow> str \<Rightarrow> nat \<Rightarrow> str \<Rightarrow> bool \<Rightarrow> bool \<Rightarrow> bool \<Rightarrow> nat list \<Rightarrow> repo_task option task_prog" where
  "acquire_next now runner pid host allow_same_repo include_failed record_idle excluded =
     seq (acquire_next_task now allow_same_repo include_failed excluded) (\<lambda>task.
     (case task of
        Some t \<Rightarrow>
          andthen (add_event now (Some (rt_id t)) None ''scheduler_selected''
                     (''Acquired by '' @ runner) (Some ''acquired'') INFO [])
         (andthen (upsert_heartbeat now runner (Some (rt_id t)) pid host ''RUNNING''
                     (Some ''task acquired'') None)
            (ret (Some t)))
      | None \<Rightarrow>
          andthen (if record_idle
                   then upsert_heartbeat now runner None pid host ''IDLE''
                     (Some ''no queued task'') None
                   else ret ())
            (ret None)))"

section \<open>Stages\<close>

definition opt_entry :: "str \<Rightarrow> str option \<Rightarrow> pydict" where
  "opt_entry k v = (case v of None \<Rightarrow> [] | Some s \<Rightarrow> if s = [] then [] else [(k, PStr s)])"

text \<open>\<open>TargetIdentity\<close> of a row and its \<open>as_selection\<close> (\<open>uta/shared/targets.py\<close>).\<close>

definition row_target_id :: "class_task \<Rightarrow> str" where
  "row_target_id row = text_or (ct_target row) (ct_fqn row)"

definition row_selection :: "class_task \<Rightarrow> pyval" where
  "row_selection row = PDict (
     [(''language'', PStr (ct_language row)), (''target_id'', PStr (row_target_id row)),
      (''display_name'', PStr (text_or (ct_display row) (ct_fqn row))),
      (''granularity'', PStr (text_or (ct_granularity row) ''class''))]
     @ opt_entry ''source_path'' (ct_source row) @ opt_entry ''symbol'' (ct_symbol row))"

fun coerce_rows :: "(str \<times> str) list \<Rightarrow> class_task list \<Rightarrow> class_task list" where
  "coerce_rows seen [] = []"
| "coerce_rows seen (r # rs) =
     (let key = (ct_language r, row_target_id r) in
      if key \<in> set seen then coerce_rows seen rs else r # coerce_rows (key # seen) rs)"

definition target_event_payload :: "nat \<Rightarrow> str list \<Rightarrow> db \<Rightarrow> pydict" where
  "target_event_payload repo_task_id storage_keys d =
     (let keys = dedup storage_keys in
      if keys = [] then [(''class_fqns'', PList [])]
      else
        (let rows = List.map_filter (\<lambda>key. find_class_task repo_task_id key d) keys in
         if rows = [] then [(''class_fqns'', PList (map PStr keys))]
         else
           (let targets = coerce_rows [] rows in
            dict_set ''class_fqns'' (PList (map PStr keys))
              [(''targets'', PList (map row_selection targets)),
               (''target_ids'', PList (map (\<lambda>r. PStr (row_target_id r)) targets))])))"

definition stage_class ::
  "nat \<Rightarrow> nat \<Rightarrow> str \<Rightarrow> str option \<Rightarrow> str \<Rightarrow> nat option task_prog" where
  "stage_class now repo_task_id stage detail class_fqn =
     seq (reads (find_class_task repo_task_id class_fqn)) (\<lambda>found.
     (case found of
        None \<Rightarrow> ret None
      | Some row \<Rightarrow>
          if ct_status row \<in> set terminal_class_statuses then ret None
          else andthen (update_class_task now (ct_id row) (\<lambda>r. r\<lparr>ct_current_stage := Some stage,
                  ct_detail := detail, ct_stage := Some stage, ct_status := CRunning,
                  ct_started := (case ct_started row of None \<Rightarrow> Some now
                                 | Some _ \<Rightarrow> ct_started r)\<rparr>))
                (ret (Some (ct_id row)))))"

definition record_stage ::
  "nat \<Rightarrow> nat \<Rightarrow> str \<Rightarrow> str option \<Rightarrow> str list \<Rightarrow> unit task_prog" where
  "record_stage now repo_task_id stage detail class_fqns =
     andthen (update_repo_task now repo_task_id None
                (\<lambda>r. r\<lparr>rt_stage := Some stage, rt_detail := detail\<rparr>))
       (seq (collect (stage_class now repo_task_id stage detail) (dedup class_fqns))
         (\<lambda>updated. seq (reads (target_event_payload repo_task_id class_fqns)) (\<lambda>payload.
            add_event now (Some repo_task_id)
              (case updated of [c] \<Rightarrow> Some c | _ \<Rightarrow> None) ''stage_started''
              (text_or detail stage) (Some stage) INFO payload)))"

definition record_stage_completed ::
  "nat \<Rightarrow> nat \<Rightarrow> str \<Rightarrow> str option \<Rightarrow> str list \<Rightarrow> nat option \<Rightarrow> unit task_prog" where
  "record_stage_completed now repo_task_id stage detail class_fqns class_task_id =
     seq (reads (\<lambda>d. (case class_task_id of
            Some c \<Rightarrow> Some c
          | None \<Rightarrow> (case dedup class_fqns of
                [fqn] \<Rightarrow> map_option ct_id (find_class_task repo_task_id fqn d)
              | _ \<Rightarrow> None)))) (\<lambda>cid.
     seq (reads (target_event_payload repo_task_id class_fqns)) (\<lambda>payload.
       add_event now (Some repo_task_id) cid ''stage_completed'' (text_or detail stage)
         (Some stage) INFO payload))"

end
