(* ===== verification/TaskRuns.thy ===== *)
theory TaskRuns
  imports TaskLifecycle
begin

text \<open>
  Runs of the task store: every lifecycle call keeps the store well-formed, so it is
  well-formed in every state that calls can reach from the empty database.
\<close>

section \<open>Every call keeps the store well-formed\<close>

lemma keeps_foreach_rows [keeps_intros]:
  "keeps P m \<Longrightarrow> (\<And>x. keeps P (f x)) \<Longrightarrow> keeps P (seq m (foreach f))"
  for m :: "('s, 'e, 'a list) prog"
  by (intro keeps_intros)

lemma keeps_start [wf_keeps]: "keeps wf_db (start_task now t)"
  unfolding start_task_def by (intro keeps_intros wf_keeps) simp

lemma keeps_mark_running [wf_keeps]: "keeps wf_db (mark_running now t s d)"
  unfolding mark_running_def Let_def by (intro keeps_intros wf_keeps) simp

lemma keeps_stop [wf_keeps]: "keeps wf_db (stop_task now t r)"
  unfolding stop_task_def by (intro keeps_intros wf_keeps) simp

lemma keeps_mark_stopped [wf_keeps]: "keeps wf_db (mark_stopped now t r s)"
  unfolding mark_stopped_def by (intro keeps_intros wf_keeps) simp

lemma keeps_cancel [wf_keeps]: "keeps wf_db (cancel_task now t r)"
  unfolding cancel_task_def cancel_class_def by (intro keeps_intros wf_keeps) auto

lemma keeps_resume [wf_keeps]: "keeps wf_db (resume_task now t f a)"
  unfolding resume_task_def resume_class_def requeue_class_def
  by (intro keeps_intros wf_keeps) (auto simp: resume_row_def)

lemma keeps_preempt [wf_keeps]: "keeps wf_db (preempt_running_same_repo_for_urgent now u)"
  unfolding preempt_running_same_repo_for_urgent_def preempt_one_def Let_def
  by (intro keeps_intros wf_keeps)

lemma keeps_resume_preempted [wf_keeps]: "keeps wf_db (resume_preempted_tasks now u)"
  unfolding resume_preempted_tasks_def resume_preempted_def
  by (intro keeps_intros wf_keeps)

lemma error_fields_id [simp]: "rt_id (error_fields m r) = rt_id r"
  by (simp add: error_fields_def)

lemma keeps_mark_failed [wf_keeps]: "keeps wf_db (mark_failed now q t m s)"
  unfolding mark_failed_def Let_def by (intro keeps_intros wf_keeps) auto

lemma keeps_mark_completed [wf_keeps]: "keeps wf_db (mark_completed now t m)"
  unfolding mark_completed_def by (intro keeps_intros wf_keeps) auto

lemma keeps_mark_poisoned [wf_keeps]: "keeps wf_db (mark_poisoned now t m)"
  unfolding mark_poisoned_def by (intro keeps_intros wf_keeps) auto

lemma keeps_mark_budget [wf_keeps]: "keeps wf_db (mark_budget_exceeded now t m)"
  unfolding mark_budget_exceeded_def by (intro keeps_intros wf_keeps) auto

lemma keeps_unblock [wf_keeps]: "keeps wf_db (unblock now t)"
  unfolding unblock_def by (intro keeps_intros wf_keeps) auto

lemma keeps_requeue_task [wf_keeps]: "keeps wf_db (requeue_task now d e p t)"
  unfolding requeue_task_def requeue_running_class_def
  by (intro keeps_intros wf_keeps) (auto simp: requeue_row_def)

lemma keeps_requeue_orphaned [wf_keeps]: "keeps wf_db (requeue_orphaned_running_tasks now a s)"
  unfolding requeue_orphaned_running_tasks_def requeue_orphan_def
  by (intro keeps_intros wf_keeps)

lemma keeps_requeue_shutdown [wf_keeps]: "keeps wf_db (requeue_daemon_shutdown_tasks now a r)"
  unfolding requeue_daemon_shutdown_tasks_def requeue_shutdown_def
  by (intro keeps_intros wf_keeps)

lemma keeps_reprioritize [wf_keeps]:
  "keeps wf_db (reprioritize_task now t p s)" "keeps wf_db (reprioritize_class now c p s)"
  unfolding reprioritize_task_def reprioritize_class_def
  by (intro keeps_intros wf_keeps; simp)+

lemma keeps_acquire_next [wf_keeps]: "keeps wf_db (acquire_next now r p h a i re ex)"
  unfolding acquire_next_def by (intro keeps_intros wf_keeps)

lemma keeps_record_stage [wf_keeps]: "keeps wf_db (record_stage now t s d cs)"
  unfolding record_stage_def stage_class_def by (intro keeps_intros wf_keeps) auto

lemma keeps_record_stage_completed [wf_keeps]: "keeps wf_db (record_stage_completed now t s d cs c)"
  unfolding record_stage_completed_def by (intro keeps_intros wf_keeps)

section \<open>Runs\<close>

text \<open>The calls the daemon, the command line and the workers make on the store.\<close>

datatype call =
    CallCreateTask task_fields
  | CallCreateTarget nat str target_fields
  | CallStart nat
  | CallMarkRunning nat str "str option"
  | CallStop nat "str option"
  | CallMarkStopped nat "str option" str
  | CallCancel nat "str option"
  | CallResume nat bool bool
  | CallPreempt nat
  | CallFail nat nat str str
  | CallComplete nat str
  | CallPoison nat str
  | CallBudget nat str
  | CallUnblock nat
  | CallOrphans "nat list" nat
  | CallShutdown "nat list" str
  | CallReprioritize nat int str
  | CallReprioritizeClass nat int str
  | CallAcquire str nat str bool bool bool "nat list"
  | CallStage nat str "str option" "str list"
  | CallStageDone nat str "str option" "str list" "nat option"
  | CallProgress nat "progress_item list" int int
  | CallPrune nat

text \<open>The store after a call, whether it returned or raised.\<close>

fun after_call :: "nat \<Rightarrow> call \<Rightarrow> db \<Rightarrow> db" where
  "after_call now (CallCreateTask f) d = snd (create_repo_task now f d)"
| "after_call now (CallCreateTarget t c g) d = snd (create_class_task now t c g d)"
| "after_call now (CallStart t) d = snd (start_task now t d)"
| "after_call now (CallMarkRunning t s x) d = snd (mark_running now t s x d)"
| "after_call now (CallStop t r) d = snd (stop_task now t r d)"
| "after_call now (CallMarkStopped t r s) d = snd (mark_stopped now t r s d)"
| "after_call now (CallCancel t r) d = snd (cancel_task now t r d)"
| "after_call now (CallResume t f a) d = snd (resume_task now t f a d)"
| "after_call now (CallPreempt t) d = snd (preempt_running_same_repo_for_urgent now t d)"
| "after_call now (CallFail q t m s) d = snd (mark_failed now q t m s d)"
| "after_call now (CallComplete t m) d = snd (mark_completed now t m d)"
| "after_call now (CallPoison t m) d = snd (mark_poisoned now t m d)"
| "after_call now (CallBudget t m) d = snd (mark_budget_exceeded now t m d)"
| "after_call now (CallUnblock t) d = snd (unblock now t d)"
| "after_call now (CallOrphans a s) d = snd (requeue_orphaned_running_tasks now a s d)"
| "after_call now (CallShutdown a r) d = snd (requeue_daemon_shutdown_tasks now a r d)"
| "after_call now (CallReprioritize t p s) d = snd (reprioritize_task now t p s d)"
| "after_call now (CallReprioritizeClass c p s) d = snd (reprioritize_class now c p s d)"
| "after_call now (CallAcquire r p h a i re ex) d = snd (acquire_next now r p h a i re ex d)"
| "after_call now (CallStage t s x cs) d = snd (record_stage now t s x cs d)"
| "after_call now (CallStageDone t s x cs c) d = snd (record_stage_completed now t s x cs c d)"
| "after_call now (CallProgress t es m b) d = snd (append_progress_event_batch now t es m b d)"
| "after_call now (CallPrune b) d = snd (prune_progress_events b d)"

definition empty_db :: db where
  "empty_db = \<lparr>branches = [], repo_tasks = [], class_tasks = [], task_events = [], controls = [],
     heartbeats = [], next_branch = 1, next_repo = 1, next_class = 1, next_event = 1,
     next_control = 1\<rparr>"

inductive reachable :: "db \<Rightarrow> bool" where
  reachable_empty: "reachable empty_db"
| reachable_call: "reachable d \<Longrightarrow> reachable (after_call now c d)"

lemma after_call_wf: "wf_db d \<Longrightarrow> wf_db (after_call now c d)"
  by (cases c) (auto intro: keepsD [OF _ _ surjective_pairing] wf_keeps)

lemma wf_empty: "wf_db empty_db"
  by (simp add: empty_db_def wf_db_def wf_parts)

section \<open>A sample store\<close>

text \<open>One running task, twenty queued for the same checkout and one queued for another.\<close>

definition crowd_fields :: task_fields where
  "crowd_fields = \<lparr>tf_path = ''/a'', tf_slug = ''a'', tf_module = None, tf_selection = PNone,
     tf_language = ''java'', tf_branch_id = None, tf_branch = None, tf_base_ref = None,
     tf_priority = 100, tf_status = QUEUED, tf_config = None, tf_rdc_context = PNone, tf_total = 0\<rparr>"

definition crowd_task :: "nat \<Rightarrow> repo_task" where
  "crowd_task i = (new_repo_task 0 i crowd_fields [(engine_version_key, PInt 2)])
     \<lparr>rt_status := (if i = 1 then RUNNING else QUEUED), rt_path := (if i = 22 then ''/b'' else ''/a'')\<rparr>"

definition crowded_db :: db where
  "crowded_db = empty_db\<lparr>repo_tasks := map crowd_task (1 # [2..<22] @ [22]), next_repo := 23\<rparr>"

lemma crowd_task_simps [simp]:
  "rt_id (crowd_task i) = i" "rt_status (crowd_task i) = (if i = 1 then RUNNING else QUEUED)"
  "rt_path (crowd_task i) = (if i = 22 then ''/b'' else ''/a'')"
  "rt_priority (crowd_task i) = 100" "rt_created (crowd_task i) = 0"
  "durable_task (crowd_task i)"
  by (simp_all add: crowd_task_def crowd_fields_def new_repo_task_def durable_task_def
      classify_generation_snapshot_def durable_engine_version_def py_simps has_key_def get_def)

lemma wf_crowded: "wf_db crowded_db"
  by (auto simp: crowded_db_def empty_db_def wf_db_def wf_parts auto_ids_def comp_def)

lemma crowded_get [simp]: "get_repo_task 1 crowded_db = Some (crowd_task 1)"
  "get_repo_task (Suc 0) crowded_db = Some (crowd_task 1)"
  by (simp_all add: get_repo_task_def crowded_db_def table_simps)



end
