(* ===== verification/LifecycleFacts.thy ===== *)
theory LifecycleFacts
  imports TaskRuns
begin

text \<open>
  What the lifecycle calls do: closing a task, stopping and resuming it, cancelling it,
  claiming work, recovering orphans. The loops over the targets of a task are shown to be
  one bulk update.
\<close>

section \<open>What the building blocks do\<close>

lemma update_rows_cong:
  "(\<And>r. r \<in> set rows \<Longrightarrow> p r = q r) \<Longrightarrow> (\<And>r. r \<in> set rows \<Longrightarrow> q r \<Longrightarrow> f r = g r) \<Longrightarrow>
   update_rows p f rows = update_rows q g rows"
  by (auto simp: update_rows_def)

lemma update_rows_twice:
  "(\<And>r. p r \<Longrightarrow> \<not> q (f r)) \<Longrightarrow> (\<And>r. p r \<Longrightarrow> \<not> q r) \<Longrightarrow>
   update_rows q f (update_rows p f rows) = update_rows (\<lambda>r. p r \<or> q r) f rows"
  by (auto simp: update_rows_def)

definition may_assign :: "repo_status option \<Rightarrow> repo_task option \<Rightarrow> bool" where
  "may_assign s r = (\<forall>x y. s = Some x \<longrightarrow> r = Some y \<longrightarrow> reactivating x \<longrightarrow> durable_task y)"

lemma may_assign_simps [simp]:
  "may_assign None r" "may_assign s None"
  "may_assign (Some x) (Some y) \<longleftrightarrow> (reactivating x \<longrightarrow> durable_task y)"
  by (auto simp: may_assign_def)

lemma require_durable_Inr [simp]: "require_durable_generation_task r = Inr u \<longleftrightarrow> durable_task r"
  by (auto simp: require_durable_generation_task_def durable_task_def split: option.splits)

lemma require_durable_cases:
  "require_durable_generation_task r = (if durable_task r then Inr () else
     Inl (LegacyGenerationTaskError (the (classify_generation_snapshot (rt_config r)))))"
  by (auto simp: require_durable_generation_task_def durable_task_def split: option.splits)

lemma update_repo_task_run:
  "may_assign s (get_repo_task t d) \<Longrightarrow> update_repo_task now t s f d
     = (Inr (), d\<lparr>repo_tasks := update_row rt_id t (assign_repo_row now s f) (repo_tasks d)\<rparr>)"
  by (auto simp: update_repo_task_def transaction_def seq_def reads_def andthen_def lift_error_def
      modifies_def ret_def require_durable_cases split: option.splits)

lemma update_class_task_run:
  "update_class_task now c f d = (Inr (), d\<lparr>class_tasks :=
     update_row ct_id c (\<lambda>r. (f r)\<lparr>ct_updated := now\<rparr>) (class_tasks d)\<rparr>)"
  by (simp add: update_class_task_def transaction_def modifies_def)

lemma add_event_run:
  "event_refs_ok d r c \<Longrightarrow> add_event now r c t m st sev p d
     = (Inr (), insert_event now r c t m st sev p d)"
  by (simp add: add_event_def)

section \<open>Loops over the targets of a task\<close>

lemma foreach_update_classes:
  assumes "\<And>r. ct_id (f r) = ct_id r" and "distinct (map ct_id rows)"
  shows "foreach (\<lambda>row. if p row then update_class_task now (ct_id row) f else ret ()) rows d
    = (Inr (), d\<lparr>class_tasks := update_rows (\<lambda>r. \<exists>row \<in> set rows. p row \<and> ct_id row = ct_id r)
        (\<lambda>r. (f r)\<lparr>ct_updated := now\<rparr>) (class_tasks d)\<rparr>)"
  using assms(2)
proof (induction rows arbitrary: d)
  case Nil
  show ?case by (simp add: ret_def update_rows_def)
next
  case (Cons row rows)
  then have IH: "\<And>d. foreach (\<lambda>row. if p row then update_class_task now (ct_id row) f else ret ()) rows d
    = (Inr (), d\<lparr>class_tasks := update_rows (\<lambda>r. \<exists>row \<in> set rows. p row \<and> ct_id row = ct_id r)
        (\<lambda>r. (f r)\<lparr>ct_updated := now\<rparr>) (class_tasks d)\<rparr>)"
    and new: "\<And>r. r \<in> set rows \<Longrightarrow> ct_id r \<noteq> ct_id row"
    by (auto simp: image_iff)
  show ?case
  proof (cases "p row")
    case True
    then have "foreach (\<lambda>row. if p row then update_class_task now (ct_id row) f else ret ()) (row # rows) d
      = (Inr (), d\<lparr>class_tasks := update_rows (\<lambda>r. \<exists>row \<in> set rows. p row \<and> ct_id row = ct_id r)
          (\<lambda>r. (f r)\<lparr>ct_updated := now\<rparr>)
          (update_row ct_id (ct_id row) (\<lambda>r. (f r)\<lparr>ct_updated := now\<rparr>) (class_tasks d))\<rparr>)"
      by (simp add: andthen_run [OF update_class_task_run] IH)
    also have "update_rows (\<lambda>r. \<exists>row \<in> set rows. p row \<and> ct_id row = ct_id r)
          (\<lambda>r. (f r)\<lparr>ct_updated := now\<rparr>)
          (update_row ct_id (ct_id row) (\<lambda>r. (f r)\<lparr>ct_updated := now\<rparr>) (class_tasks d))
        = update_rows (\<lambda>r. ct_id r = ct_id row \<or> (\<exists>row \<in> set rows. p row \<and> ct_id row = ct_id r))
          (\<lambda>r. (f r)\<lparr>ct_updated := now\<rparr>) (class_tasks d)"
      by (rule update_rows_twice) (use new assms(1) in auto)
    finally show ?thesis using True by (simp add: eq_commute)
  next
    case False
    then show ?thesis by (simp add: andthen_run [of "ret ()"] ret_def IH)
  qed
qed

lemma class_ids_distinct: "wf_db d \<Longrightarrow> distinct (map ct_id (class_tasks d))"
  by (auto simp: wf_db_def wf_classes_def dest: auto_ids_distinct)

lemma set_list_class_tasks [simp]:
  "set (list_class_tasks t d) = {r \<in> set (class_tasks d). ct_repo r = t}"
  by (auto simp: list_class_tasks_def)

lemma distinct_list_class_tasks: "wf_db d \<Longrightarrow> distinct (map ct_id (list_class_tasks t d))"
proof -
  assume "wf_db d"
  then have "distinct (map ct_id (class_tasks d))" by (rule class_ids_distinct)
  then have "inj_on ct_id (set (class_tasks d))" "distinct (class_tasks d)"
    by (auto simp: distinct_map)
  then show ?thesis by (auto simp: list_class_tasks_def distinct_map inj_on_def)
qed

text \<open>Looping over the targets rewrites, at once, every target of the task that is eligible.\<close>

lemma class_loop:
  assumes "wf_db d" and "\<And>r. ct_id (f r) = ct_id r"
    and "g = (\<lambda>row. if p row then update_class_task now (ct_id row) f else ret ())"
  shows "foreach g (list_class_tasks t d) d
    = (Inr (), d\<lparr>class_tasks := update_rows (\<lambda>r. ct_repo r = t \<and> p r)
        (\<lambda>r. (f r)\<lparr>ct_updated := now\<rparr>) (class_tasks d)\<rparr>)"
proof -
  have same: "row = r" if "row \<in> set (class_tasks d)" "r \<in> set (class_tasks d)"
    "ct_id row = ct_id r" for row r
    using class_ids_distinct [OF assms(1)] that by (auto simp: distinct_map inj_on_def)
  have "update_rows (\<lambda>r. \<exists>row \<in> set (list_class_tasks t d). p row \<and> ct_id row = ct_id r)
        (\<lambda>r. (f r)\<lparr>ct_updated := now\<rparr>) (class_tasks d)
      = update_rows (\<lambda>r. ct_repo r = t \<and> p r) (\<lambda>r. (f r)\<lparr>ct_updated := now\<rparr>) (class_tasks d)"
    by (rule update_rows_cong) (auto dest: same)
  then show ?thesis
    unfolding assms(3)
    by (simp add: foreach_update_classes [of f, OF assms(2) distinct_list_class_tasks [OF assms(1)]]
        del: set_list_class_tasks)
qed

section \<open>Closing a task\<close>

lemma insert_event_tables [simp]:
  "repo_tasks (insert_event now r c t m st sev p d) = repo_tasks d"
  "class_tasks (insert_event now r c t m st sev p d) = class_tasks d"
  "controls (insert_event now r c t m st sev p d) = controls d"
  "heartbeats (insert_event now r c t m st sev p d) = heartbeats d"
  "branches (insert_event now r c t m st sev p d) = branches d"
  by (simp_all add: insert_event_def)

lemma get_repo_insert_event [simp]:
  "get_repo_task i (insert_event now r c t m st sev p d) = get_repo_task i d"
  "get_class_task i (insert_event now r c t m st sev p d) = get_class_task i d"
  by (simp_all add: get_repo_task_def get_class_task_def)

lemma insert_events_tables [simp]:
  fixes now r c t m st sev p
  defines "lg \<equiv> \<lambda>d x. insert_event now (r x) (c x) (t x) (m x) (st x) (sev x) (p x) d"
  shows "repo_tasks (foldl lg d xs) = repo_tasks d"
    "class_tasks (foldl lg d xs) = class_tasks d"
    "controls (foldl lg d xs) = controls d"
    "heartbeats (foldl lg d xs) = heartbeats d"
  unfolding lg_def by (induction xs arbitrary: d) simp_all

lemma last_terminal_insert:
  "last_terminal_event i (insert_event now (Some i) c ''task_terminal'' m st sev p d)
     = Some (next_event d)"
  by (simp add: last_terminal_event_def events_of_def insert_event_def)

lemma get_repo_task_update:
  "(\<And>r. rt_id (f r) = rt_id r) \<Longrightarrow>
   get_repo_task i (d\<lparr>repo_tasks := update_rows p f (repo_tasks d)\<rparr>)
     = map_option (\<lambda>r. if p r then f r else r) (get_repo_task i d)"
  by (simp add: get_repo_task_def table_simps)

lemma get_repo_task_id: "get_repo_task i d = Some r \<Longrightarrow> rt_id r = i"
  by (auto simp: get_repo_task_def dest: find_row_Some)

lemma last_terminal_repo_update [simp]:
  "last_terminal_event i (d\<lparr>repo_tasks := x\<rparr>) = last_terminal_event i d"
  by (simp add: last_terminal_event_def events_of_def)

lemma get_repo_tables: "repo_tasks d = repo_tasks d' \<Longrightarrow> get_repo_task i d = get_repo_task i d'"
  by (simp add: get_repo_task_def)

text \<open>What a successful close leaves behind.\<close>

definition closed_row :: "nat \<Rightarrow> nat \<Rightarrow> repo_status \<Rightarrow> str \<Rightarrow> str \<Rightarrow> (repo_task \<Rightarrow> repo_task) \<Rightarrow> db \<Rightarrow> db"
  where
  "closed_row now t s m st f d =
     d\<lparr>repo_tasks := update_row rt_id t (finish_row now s m st f) (repo_tasks d)\<rparr>"

lemma finish_again:
  "get_repo_task t d = Some prior \<Longrightarrow> s \<in> set terminal_repo_statuses \<Longrightarrow> rt_status prior = s \<Longrightarrow>
   last_terminal_event t d = Some ev \<Longrightarrow>
   finish_task_with_terminal_event now t s m st sev p f ts d = (Inr ev, closed_row now t s m st f d)"
  by (simp add: finish_task_with_terminal_event_def transaction_def Let_def closed_row_def)

lemma finish_first:
  "get_repo_task t d = Some prior \<Longrightarrow> s \<in> set terminal_repo_statuses \<Longrightarrow>
   rt_status prior \<noteq> s \<or> last_terminal_event t d = None \<Longrightarrow>
   \<exists>d2. repo_tasks d2 = repo_tasks (closed_row now t s m st f d) \<and> class_tasks d2 = class_tasks d
     \<and> controls d2 = controls d \<and> heartbeats d2 = heartbeats d
     \<and> finish_task_with_terminal_event now t s m st sev p f ts d = (Inr (next_event d2),
        insert_event now (Some t) None ''task_terminal'' m (Some st) sev
          (dict_set ''status'' (PStr (repo_status_name s)) p) d2)"
  by (rule exI [of _ "foldl (\<lambda>d x. insert_event now (Some t) None x m (Some st) sev p d)
       (closed_row now t s m st f d) ts"])
    (auto simp: finish_task_with_terminal_event_def transaction_def Let_def closed_row_def)

lemma finish_effect:
  assumes "get_repo_task t d = Some prior" and "s \<in> set terminal_repo_statuses"
  obtains ev d' where "finish_task_with_terminal_event now t s m st sev p f ts d = (Inr ev, d')"
    and "repo_tasks d' = update_row rt_id t (finish_row now s m st f) (repo_tasks d)"
    and "class_tasks d' = class_tasks d" and "controls d' = controls d"
    and "heartbeats d' = heartbeats d"
    and "last_terminal_event t d' = Some ev"
proof (cases "rt_status prior = s \<and> last_terminal_event t d \<noteq> None")
  case True
  then obtain ev where "last_terminal_event t d = Some ev" by auto
  with True show thesis
    by (intro that [OF finish_again [OF assms]]) (simp_all add: closed_row_def)
next
  case False
  with finish_first [OF assms, of now m st f sev p ts] obtain d2 where
    "repo_tasks d2 = repo_tasks (closed_row now t s m st f d)" "class_tasks d2 = class_tasks d"
    "controls d2 = controls d" "heartbeats d2 = heartbeats d"
    and fin: "finish_task_with_terminal_event now t s m st sev p f ts d = (Inr (next_event d2),
        insert_event now (Some t) None ''task_terminal'' m (Some st) sev
          (dict_set ''status'' (PStr (repo_status_name s)) p) d2)"
    by auto
  then show thesis
    by (intro that [OF fin]) (simp_all add: closed_row_def last_terminal_insert)
qed

lemma finish_row_id: "(\<And>r. rt_id (f r) = rt_id r) \<Longrightarrow> rt_id (finish_row now s m st f r) = rt_id r"
  by (simp add: finish_row_def)

lemma finish_get:
  assumes "repo_tasks d' = update_row rt_id t (finish_row now s m st f) (repo_tasks d)"
    and "\<And>r. rt_id (f r) = rt_id r"
  shows "get_repo_task i d' = map_option (\<lambda>r. if rt_id r = t then finish_row now s m st f r else r)
      (get_repo_task i d)"
  using assms(1) by (simp add: get_repo_task_def table_simps finish_row_id assms(2))



section \<open>Stopping and resuming\<close>

lemma update_get_repo:
  assumes "may_assign s (get_repo_task t d)" and "\<And>r. rt_id (f r) = rt_id r"
  obtains d' where "update_repo_task now t s f d = (Inr (), d')"
    and "\<And>i. get_repo_task i d' = map_option (\<lambda>r. if rt_id r = t then assign_repo_row now s f r else r)
        (get_repo_task i d)"
    and "class_tasks d' = class_tasks d" "controls d' = controls d" "task_events d' = task_events d"
    "heartbeats d' = heartbeats d"
    and "repo_tasks d' = update_row rt_id t (assign_repo_row now s f) (repo_tasks d)"
  using assms
  by (intro that [OF update_repo_task_run [OF assms(1)]])
    (auto simp: get_repo_task_update assign_repo_row_id)

lemma event_refs_get: "event_refs_ok d (Some t) None \<longleftrightarrow> get_repo_task t d \<noteq> None"
  by (simp add: event_refs_ok_def)

lemma add_task_event:
  assumes "get_repo_task t d \<noteq> None"
  shows "add_event now (Some t) None e m st sev p d
      = (Inr (), insert_event now (Some t) None e m st sev p d)"
  using assms by (simp add: add_event_def event_refs_get)

lemma acknowledge_run:
  "acknowledge_controls now t a d = (Inr (), d\<lparr>controls :=
     update_rows (\<lambda>c. tc_repo c = t \<and> tc_acknowledged c = None
         \<and> (case a of None \<Rightarrow> True | Some x \<Rightarrow> tc_action c = x))
       (\<lambda>c. c\<lparr>tc_acknowledged := Some now\<rparr>) (controls d)\<rparr>)"
  by (simp add: acknowledge_controls_def modifies_def)

lemma acknowledged_none_open:
  "filter (\<lambda>c. tc_repo c = t \<and> tc_acknowledged c = None)
     (update_rows (\<lambda>c. tc_repo c = t \<and> tc_acknowledged c = None)
       (\<lambda>c. c\<lparr>tc_acknowledged := Some now\<rparr>) cs) = []"
  by (induction cs) (simp_all add: table_simps)

text \<open>
  After a stop request on a task of the current engine the next check of the worker
  reports the stop with the reason given, whatever status the task was in.
\<close>

theorem stop_is_seen:
  assumes "get_repo_task t d = Some row" and "durable_task row"
  shows "\<exists>d'. stop_task now t reason d = (Inr (), d')
     \<and> map_option rt_status (get_repo_task t d') = Some STOP_REQUESTED
     \<and> check_stop_requested t d' = Some (text_or reason ''stop requested'')"
proof -
  define d1 where "d1 = snd (request_control now t Stop reason d)"
  have c1: "request_control now t Stop reason d = (Inr (), d1)" "get_repo_task t d1 = Some row"
    using assms(1) by (simp_all add: d1_def request_control_def get_repo_task_def)
  obtain d2 where u: "update_repo_task now t (Some STOP_REQUESTED)
        (\<lambda>r. r\<lparr>rt_stop_requested := Some now, rt_detail := reason\<rparr>) d1 = (Inr (), d2)"
    and g: "\<And>i. get_repo_task i d2 = map_option (\<lambda>r. if rt_id r = t then
        assign_repo_row now (Some STOP_REQUESTED) (\<lambda>r. r\<lparr>rt_stop_requested := Some now, rt_detail := reason\<rparr>) r
        else r) (get_repo_task i d1)"
    by (rule update_get_repo [of "Some STOP_REQUESTED" t d1
          "\<lambda>r. r\<lparr>rt_stop_requested := Some now, rt_detail := reason\<rparr>" now]) (use assms c1 in auto)
  have g2: "get_repo_task t d2 = Some (assign_repo_row now (Some STOP_REQUESTED)
      (\<lambda>r. r\<lparr>rt_stop_requested := Some now, rt_detail := reason\<rparr>) row)"
    using g [of t] c1 get_repo_task_id [OF c1(2)] by simp
  then show ?thesis
    by (simp add: stop_task_def andthen_eq c1 u add_task_event check_stop_requested_def
        assign_repo_row_def)
qed

theorem stop_is_seen_witness:
  "\<exists>d'. stop_task 5 1 (Some ''pause'') crowded_db = (Inr (), d')
     \<and> map_option rt_status (get_repo_task 1 d') = Some STOP_REQUESTED
     \<and> check_stop_requested 1 d' = Some ''pause''"
  using stop_is_seen [OF crowded_get(1), of 5 "Some ''pause''"] by (simp add: text_or_def)

text \<open>Resuming requeues the task, drops every pending control and requeues the targets that may run.\<close>

definition requeued :: "nat \<Rightarrow> class_task \<Rightarrow> class_task" where
  "requeued now r = r\<lparr>ct_status := CQueued, ct_stage := Some ''queued'',
     ct_current_stage := Some ''queued'', ct_finished := None, ct_last_error := None,
     ct_error := None, ct_updated := now\<rparr>"

text \<open>
  C12: Resuming a task that has no pending stop queues it, acknowledges every pending
  control, so that no worker stops it again, and requeues exactly the targets that the two
  rerun flags make eligible.
\<close>

theorem resume_requeues:
  assumes "wf_db d" and "get_repo_task t d = Some row" and "durable_task row"
    and "rt_status row \<noteq> STOP_REQUESTED"
  shows "\<exists>d'. resume_task now t ff fa d = (Inr (), d')
     \<and> map_option rt_status (get_repo_task t d') = Some QUEUED
     \<and> check_stop_requested t d' = None
     \<and> class_tasks d' = update_rows (\<lambda>r. ct_repo r = t \<and> resumable ff fa (ct_status r))
          (requeued now) (class_tasks d)"
proof -
  let ?f = "resume_row (rt_resume_count row)"
  let ?g = "\<lambda>r::class_task. r\<lparr>ct_status := CQueued, ct_stage := Some ''queued'',
     ct_current_stage := Some ''queued'', ct_finished := None, ct_last_error := None, ct_error := None\<rparr>"
  obtain d1 where u: "update_repo_task now t (Some QUEUED) ?f d = (Inr (), d1)"
    and g: "\<And>i. get_repo_task i d1 = map_option (\<lambda>r. if rt_id r = t then
        assign_repo_row now (Some QUEUED) ?f r else r) (get_repo_task i d)"
    and c: "class_tasks d1 = class_tasks d"
    by (rule update_get_repo [of "Some QUEUED" t d ?f now]) (use assms in \<open>auto simp: resume_row_def\<close>)
  define d2 where "d2 = snd (acknowledge_controls now t None d1)"
  have a: "acknowledge_controls now t None d1 = (Inr (), d2)"
    by (simp add: d2_def acknowledge_run)
  have wf: "wf_db d2"
    using assms(1) u a keeps_update_repo_task [of ?f now t "Some QUEUED"]
      keeps_acknowledge [of now t None]
    by (auto simp: resume_row_def dest: keepsD)
  define d3 where "d3 = d2\<lparr>class_tasks := update_rows (\<lambda>r. ct_repo r = t \<and> resumable ff fa (ct_status r))
        (\<lambda>r. (?g r)\<lparr>ct_updated := now\<rparr>) (class_tasks d2)\<rparr>"
  have l: "foreach (resume_class now ff fa) (list_class_tasks t d2) d2 = (Inr (), d3)"
    unfolding d3_def
    by (rule class_loop [OF wf]) (auto simp: resume_class_def requeue_class_def fun_eq_iff)
  have g3: "get_repo_task t d3 = Some (assign_repo_row now (Some QUEUED) ?f row)"
    using g [of t] assms(2) get_repo_task_id [OF assms(2)]
    by (simp add: d3_def d2_def acknowledge_run get_repo_task_def)
  obtain d4 where r: "refresh_repo_counts now t d3 = (Inr (), d4)"
    and g4: "map_option rt_status (get_repo_task t d4) = Some QUEUED"
    and c4: "class_tasks d4 = class_tasks d3" "controls d4 = controls d3"
  proof -
    obtain a where a: "a = aggregate_repo_task t d3" by simp
    let ?h = "\<lambda>r. r\<lparr>rt_total := class_count a, rt_completed := completed_classes a,
       rt_passed := passed_classes a, rt_failed := failed_classes a\<rparr>"
    show thesis
      by (rule update_get_repo [of None t d3 ?h now])
        (use g3 get_repo_task_id [OF g3] in \<open>auto intro!: that simp: refresh_repo_counts_def a assign_repo_row_def\<close>)
  qed
  define d5 where "d5 = insert_event now (Some t) None ''task_resumed'' ''Task resumed and queued''
      (Some ''queued'') INFO [(''force_rerun_failed'', PBool ff), (''force_rerun_all'', PBool fa)] d4"
  have run: "resume_task now t ff fa d = (Inr (), d5)"
    using assms g4 by (auto simp: resume_task_def andthen_eq u a l r add_task_event lift_error_def
        require_durable_cases d5_def)
  have queued: "map_option rt_status (get_repo_task t d5) = Some QUEUED"
    using g4 by (simp add: d5_def)
  have "latest_control t d5 = None"
    by (simp add: d5_def latest_control_def open_controls_def c4 d3_def d2_def acknowledge_run
        acknowledged_none_open)
  with queued have "check_stop_requested t d5 = None"
    by (auto simp: check_stop_requested_def)
  moreover have "class_tasks d5 = update_rows (\<lambda>r. ct_repo r = t \<and> resumable ff fa (ct_status r))
      (requeued now) (class_tasks d)"
    by (simp add: d5_def c4 d3_def d2_def acknowledge_run c requeued_def [abs_def])
  ultimately show ?thesis using run queued by blast
qed

theorem resume_requeues_witness:
  "\<exists>d'. resume_task 5 1 False False crowded_db = (Inr (), d')
     \<and> map_option rt_status (get_repo_task 1 d') = Some QUEUED \<and> check_stop_requested 1 d' = None"
  using resume_requeues [OF wf_crowded crowded_get(1), of 5 False False] by auto

text \<open>A pending stop blocks a resume: it raises, and only an event is added.\<close>

theorem resume_blocked:
  assumes "get_repo_task t d = Some row" and "durable_task row" and "rt_status row = STOP_REQUESTED"
  shows "\<exists>d'. resume_task now t ff fa d
       = (Inl (RuntimeError ''stop is still pending; wait for STOPPED before resuming''), d')
     \<and> repo_tasks d' = repo_tasks d \<and> class_tasks d' = class_tasks d \<and> controls d' = controls d"
  using assms
  by (simp add: resume_task_def andthen_eq add_task_event lift_error_def require_durable_cases raise_def)

section \<open>Cancelling\<close>

definition cancelled_row :: "nat \<Rightarrow> str option \<Rightarrow> class_task \<Rightarrow> class_task" where
  "cancelled_row now reason r = r\<lparr>ct_status := CCancelled, ct_stage := Some ''cancelled'',
     ct_current_stage := Some ''cancelled'', ct_finished := Some now, ct_last_error := reason,
     ct_error := reason, ct_updated := now\<rparr>"

text \<open>
  Cancelling a task closes it as cancelled and marks cancelled exactly its targets that
  are created, pending, queued, running or stopped; targets in every other status, a
  generated one that waits for verification among them, keep their status.
\<close>

theorem cancel_effect:
  assumes "wf_db d" and "get_repo_task t d = Some row"
  shows "\<exists>d'. cancel_task now t reason d = (Inr (), d')
     \<and> map_option rt_status (get_repo_task t d') = Some CANCELLED
     \<and> check_stop_requested t d' \<noteq> None
     \<and> class_tasks d' = update_rows (\<lambda>r. ct_repo r = t \<and> cancellable (ct_status r))
          (cancelled_row now reason) (class_tasks d)"
proof -
  define d1 where "d1 = snd (request_control now t Cancel reason d)"
  have c1: "request_control now t Cancel reason d = (Inr (), d1)"
    using assms by (simp add: d1_def request_control_def)
  have d1: "get_repo_task t d1 = Some row" "class_tasks d1 = class_tasks d"
    using assms by (auto simp: d1_def request_control_def get_repo_task_def)
  have lc: "latest_control t d1 \<noteq> None \<and> tc_action (the (latest_control t d1)) = Cancel"
    using assms(2) by (simp add: d1_def request_control_def latest_control_def open_controls_def)
  have wf: "wf_db d1"
    using assms(1) c1 keeps_request_control [of now t Cancel reason] by (auto dest: keepsD)
  define d2 where "d2 = d1\<lparr>class_tasks := update_rows (\<lambda>r. ct_repo r = t \<and> cancellable (ct_status r))
        (cancelled_row now reason) (class_tasks d1)\<rparr>"
  have l: "foreach (cancel_class now reason) (list_class_tasks t d1) d1 = (Inr (), d2)"
    unfolding d2_def cancelled_row_def [abs_def]
    by (rule class_loop [OF wf, where p = "\<lambda>r. cancellable (ct_status r)"])
      (auto simp: cancel_class_def fun_eq_iff)
  have g2: "get_repo_task t d2 = Some row"
    using d1 by (simp add: d2_def get_repo_task_def)
  have can: "CANCELLED \<in> set terminal_repo_statuses" by (simp add: terminal_repo_statuses_def)
  obtain ev d3 where f: "finish_task_with_terminal_event now t CANCELLED (text_or reason ''Task cancelled'')
        ''cancelled'' WARNING [] (\<lambda>r. r) [''task_cancelled''] d2 = (Inr ev, d3)"
    and rows: "repo_tasks d3 = update_row rt_id t (finish_row now CANCELLED
        (text_or reason ''Task cancelled'') ''cancelled'' (\<lambda>r. r)) (repo_tasks d2)"
    and same: "class_tasks d3 = class_tasks d2" "controls d3 = controls d2"
    by (rule finish_effect [OF g2 can])
  have "get_repo_task t d3 = Some (finish_row now CANCELLED (text_or reason ''Task cancelled'')
      ''cancelled'' (\<lambda>r. r) row)"
    using finish_get [OF rows, of t] g2 get_repo_task_id [OF g2] by simp
  moreover have "latest_control t d3 = latest_control t d1"
    by (simp add: latest_control_def open_controls_def same d2_def)
  moreover have "cancel_task now t reason d = (Inr (), d3)"
    by (simp add: cancel_task_def andthen_eq c1 l seq_run [where m = "finish_task_with_terminal_event _ _ _ _ _ _ _ _ _", OF f] ret_def)
  ultimately show ?thesis
    using lc by (auto simp: same d2_def d1 check_stop_requested_def finish_row_def)
qed

theorem cancel_effect_witness:
  "\<exists>d'. cancel_task 5 1 None crowded_db = (Inr (), d')
     \<and> map_option rt_status (get_repo_task 1 d') = Some CANCELLED"
  using cancel_effect [OF wf_crowded crowded_get(1), of 5 None] by blast

section \<open>Claiming work\<close>

lemma get_claimed:
  "get_repo_task i (d\<lparr>repo_tasks := update_row rt_id k (claim_row now) (repo_tasks d)\<rparr>)
     = map_option (\<lambda>r. if rt_id r = k then claim_row now r else r) (get_repo_task i d)"
  by (rule get_repo_task_update) (simp add: claim_row_def)

definition claim_db :: "nat \<Rightarrow> nat \<Rightarrow> db \<Rightarrow> db" where
  "claim_db now i d = d\<lparr>repo_tasks := update_row rt_id i (claim_row now) (repo_tasks d)\<rparr>"

text \<open>
  What the loop over the window does: it claims the first task it may run, unless a task
  without the engine's snapshot stands before it.
\<close>

lemma acquire_first_run:
  "list_all durable_task rows \<Longrightarrow> acquire_first now allow rows d =
     (case List.find (\<lambda>r. allow \<or> \<not> repo_busy r d) rows of
        None \<Rightarrow> (Inr None, d)
      | Some r \<Rightarrow> (Inr (get_repo_task (rt_id r) (claim_db now (rt_id r) d)), claim_db now (rt_id r) d))"
  by (induction rows)
    (auto simp: ret_def andthen_eq lift_error_def require_durable_cases modifies_def reads_def
      claim_db_def)

lemma acquire_first_Some:
  "acquire_first now allow rows d = (Inr (Some t), d') \<Longrightarrow>
   \<exists>before row after. rows = before @ row # after
     \<and> (\<forall>r \<in> set before. \<not> allow \<and> repo_busy r d) \<and> (allow \<or> \<not> repo_busy row d)
     \<and> durable_task row
     \<and> d' = claim_db now (rt_id row) d \<and> get_repo_task (rt_id row) d' = Some t"
proof (induction rows)
  case Nil
  then show ?case by (simp add: ret_def)
next
  case (Cons r rows)
  then have durable: "durable_task r"
    by (auto simp: andthen_eq lift_error_def require_durable_cases split: if_splits)
  show ?case
  proof (cases "\<not> allow \<and> repo_busy r d")
    case True
    with Cons.prems durable have "acquire_first now allow rows d = (Inr (Some t), d')"
      by (simp add: andthen_eq lift_error_def require_durable_cases)
    from Cons.IH [OF this] obtain before row after where
      "rows = before @ row # after" "\<forall>r \<in> set before. \<not> allow \<and> repo_busy r d"
      "allow \<or> \<not> repo_busy row d" "durable_task row" "d' = claim_db now (rt_id row) d"
      "get_repo_task (rt_id row) d' = Some t"
      by auto
    with True show ?thesis
      by (intro exI [of _ "r # before"] exI [of _ row] exI [of _ after]) auto
  next
    case False
    with Cons.prems durable show ?thesis
      by (intro exI [of _ "[]"] exI [of _ r] exI [of _ rows])
        (auto simp: andthen_eq lift_error_def require_durable_cases modifies_def reads_def
          claim_db_def split: if_splits)
  qed
qed

lemma set_claim_window: "r \<in> set (claim_window inc ex d) \<Longrightarrow>
   r \<in> set (repo_tasks d) \<and> claimable inc ex r"
  by (auto simp: claim_window_def claim_order_def dest!: in_set_takeD)

text \<open>At most one task per checkout is running or stopping.\<close>

definition one_active_per_repo :: "db \<Rightarrow> bool" where
  "one_active_per_repo d = (\<forall>r \<in> set (repo_tasks d). \<forall>s \<in> set (repo_tasks d).
     active_status (rt_status r) \<longrightarrow> active_status (rt_status s) \<longrightarrow> rt_path r = rt_path s
       \<longrightarrow> rt_id r = rt_id s)"

lemma wf_get_repo:
  "wf_db d \<Longrightarrow> r \<in> set (repo_tasks d) \<Longrightarrow> get_repo_task (rt_id r) d = Some r"
  by (simp add: get_repo_task_def find_row_member wf_task_distinct)

lemma claim_keeps_one_active:
  assumes "one_active_per_repo d" and "row \<in> set (repo_tasks d)" and "wf_db d"
    and "\<not> repo_busy row d"
  shows "one_active_per_repo (claim_db now (rt_id row) d)"
proof -
  have eq: "r = row" if "r \<in> set (repo_tasks d)" "rt_id r = rt_id row" for r
    using wf_get_repo [OF assms(3) that(1)] wf_get_repo [OF assms(3,2)] that(2)
    by (metis option.inject)
  have idle: "rt_id r = rt_id row" if "r \<in> set (repo_tasks d)" "active_status (rt_status r)"
    "rt_path r = rt_path row" for r
    using assms(4) that unfolding repo_busy_def list_ex_iff by blast
  have active: "rt_id r = rt_id s" if "r \<in> set (repo_tasks d)" "s \<in> set (repo_tasks d)"
    "active_status (rt_status r)" "active_status (rt_status s)" "rt_path r = rt_path s" for r s
    using assms(1) that unfolding one_active_per_repo_def by blast
  have orig: "\<exists>r \<in> set (repo_tasks d). rt_id r = rt_id r' \<and> rt_path r = rt_path r'
      \<and> (rt_id r = rt_id row \<or> rt_status r = rt_status r')"
    if "r' \<in> set (repo_tasks (claim_db now (rt_id row) d))" for r'
    using that by (auto simp: claim_db_def set_update_rows claim_row_def)
  have "rt_id r' = rt_id s'"
    if h: "r' \<in> set (repo_tasks (claim_db now (rt_id row) d))"
      "s' \<in> set (repo_tasks (claim_db now (rt_id row) d))"
      "active_status (rt_status r')" "active_status (rt_status s')" "rt_path r' = rt_path s'" for r' s'
  proof -
    obtain r where r: "r \<in> set (repo_tasks d)" "rt_id r = rt_id r'" "rt_path r = rt_path r'"
      "rt_id r = rt_id row \<or> rt_status r = rt_status r'" using orig [OF h(1)] by auto
    obtain s where s: "s \<in> set (repo_tasks d)" "rt_id s = rt_id s'" "rt_path s = rt_path s'"
      "rt_id s = rt_id row \<or> rt_status s = rt_status s'" using orig [OF h(2)] by auto
    have path: "rt_path r = rt_path s" using r s h(5) by simp
    consider (none) "rt_id r \<noteq> rt_id row" "rt_id s \<noteq> rt_id row" | (left) "r = row" | (right) "s = row"
      using eq [OF r(1)] eq [OF s(1)] by blast
    then have "rt_id r = rt_id s"
    proof cases
      case none
      then show ?thesis using active [OF r(1) s(1) _ _ path] r s h by simp
    next
      case left
      then show ?thesis using idle [OF s(1)] s h path by (cases "rt_id s = rt_id row") auto
    next
      case right
      then show ?thesis using idle [OF r(1)] r h path by (cases "rt_id r = rt_id row") auto
    qed
    then show ?thesis using r s by simp
  qed
  then show ?thesis unfolding one_active_per_repo_def by blast
qed

text \<open>A store in which the first task may run.\<close>

definition quiet_db :: db where
  "quiet_db = empty_db\<lparr>repo_tasks := [crowd_task 2], next_repo := 3\<rparr>"

text \<open>
  C4: With one task per checkout, a claim takes the first task of the window that is
  claimable and whose checkout is idle, passes over busy ones only, marks it running, and
  never makes two tasks of one checkout active.
\<close>

theorem acquire_safe:
  assumes "wf_db d" and "acquire_next_task now False inc ex d = (Inr (Some t), d')"
  shows "\<exists>before row after. claim_window inc ex d = before @ row # after
      \<and> t = claim_row now row \<and> claimable inc ex row \<and> durable_task row \<and> \<not> repo_busy row d
      \<and> (\<forall>r \<in> set before. repo_busy r d)
      \<and> repo_tasks d' = update_row rt_id (rt_id t) (claim_row now) (repo_tasks d)
      \<and> (one_active_per_repo d \<longrightarrow> one_active_per_repo d')"
proof -
  from assms(2) have "acquire_first now False (claim_window inc ex d) d = (Inr (Some t), d')"
    by (simp add: acquire_next_task_def transaction_Inr)
  from acquire_first_Some [OF this] obtain before row after where
    w: "claim_window inc ex d = before @ row # after" "\<forall>r \<in> set before. repo_busy r d"
    "\<not> repo_busy row d" "durable_task row" "d' = claim_db now (rt_id row) d"
    and t: "get_repo_task (rt_id row) d' = Some t"
    by auto
  have row: "row \<in> set (repo_tasks d)" "claimable inc ex row"
    using set_claim_window [of row inc ex d] w(1) by auto
  from t have "t = claim_row now row"
    by (simp add: w claim_db_def get_claimed wf_get_repo [OF assms(1) row(1)])
  moreover have "rt_id (claim_row now row) = rt_id row" by (simp add: claim_row_def)
  ultimately show ?thesis
    using w row claim_keeps_one_active [OF _ row(1) assms(1) w(3), of now]
    by (auto simp: claim_db_def)
qed

theorem acquire_safe_witness:
  "\<exists>d'. acquire_next_task 5 False False [] quiet_db = (Inr (Some (claim_row 5 (crowd_task 2))), d')
     \<and> one_active_per_repo d'"
proof -
  have wf: "wf_db quiet_db"
    by (simp add: quiet_db_def empty_db_def wf_db_def wf_parts auto_ids_def)
  have w: "claim_window False [] quiet_db = [crowd_task 2]"
    by (simp add: quiet_db_def claim_window_def claim_order_def claimable_def)
  have b: "\<not> repo_busy (crowd_task 2) quiet_db" by (simp add: quiet_db_def repo_busy_def)
  have "acquire_next_task 5 False False [] quiet_db
      = (Inr (Some (claim_row 5 (crowd_task 2))), claim_db 5 2 quiet_db)"
  proof -
    have "acquire_first 5 False [crowd_task 2] quiet_db
        = (Inr (get_repo_task 2 (claim_db 5 2 quiet_db)), claim_db 5 2 quiet_db)"
      using acquire_first_run [of "[crowd_task 2]" 5 False quiet_db] b
      by (simp del: acquire_first.simps)
    moreover have "get_repo_task 2 (claim_db 5 2 quiet_db) = Some (claim_row 5 (crowd_task 2))"
      by (simp add: claim_db_def get_repo_task_def quiet_db_def table_simps claim_row_def)
    ultimately show ?thesis
      by (simp add: acquire_next_task_def transaction_def w del: acquire_first.simps)
  qed
  moreover have "one_active_per_repo quiet_db"
    by (simp add: quiet_db_def one_active_per_repo_def)
  ultimately show ?thesis using acquire_safe [OF wf, of 5 False "[]"] by blast
qed

lemma acquire_idle:
  assumes "list_all durable_task (claim_window inc ex d)" and "wf_db d"
  shows "acquire_next_task now False inc ex d = (Inr None, d)
     \<longleftrightarrow> (\<forall>r \<in> set (claim_window inc ex d). repo_busy r d)"
proof -
  have "get_repo_task (rt_id r) (claim_db now (rt_id r) d) \<noteq> None"
    if "r \<in> set (claim_window inc ex d)" for r
    using set_claim_window [OF that] wf_get_repo [OF assms(2)] by (simp add: claim_db_def get_claimed)
  then have got: "get_repo_task (rt_id r) (claim_db now (rt_id r) d) = Some t \<or> r \<notin> set (claim_window inc ex d)"
    if "t = the (get_repo_task (rt_id r) (claim_db now (rt_id r) d))" for r t
    using that by auto
  show ?thesis
  proof (cases "List.find (\<lambda>r. \<not> repo_busy r d) (claim_window inc ex d)")
    case None
    then have "\<forall>r \<in> set (claim_window inc ex d). repo_busy r d" by (simp add: find_None_iff)
    then show ?thesis
      by (simp add: acquire_next_task_def transaction_def acquire_first_run [OF assms(1)] None)
  next
    case (Some r)
    then have "r \<in> set (claim_window inc ex d)" "\<not> repo_busy r d"
      by (auto simp: find_Some_iff)
    with got [of _ r] Some show ?thesis
      by (auto simp: acquire_next_task_def transaction_def acquire_first_run [OF assms(1)])
  qed
qed

section \<open>A claim can overlook a task that could run\<close>

lemma crowded_window: "claim_window False [] crowded_db = map crowd_task [2..<22]"
proof -
  have all: "filter (\<lambda>i. i \<noteq> 1) [2..<22] = [2..<22]"
    by (rule filter_True) simp
  have "filter (claimable False []) (repo_tasks crowded_db) = map crowd_task ([2..<22] @ [22])"
    using all by (simp add: crowded_db_def claimable_def filter_map comp_def del: upt_rec_numeral)
  then have "claim_order False [] crowded_db = map crowd_task ([2..<22] @ [22])"
    unfolding claim_order_def by (simp only:) (rule sort_key_id_if_sorted; simp add: comp_def)
  then show ?thesis by (simp add: claim_window_def del: upt_rec_numeral)
qed

text \<open>
  A claim looks at twenty tasks only. When all of them belong to busy checkouts it finds
  no work although a later task could run.
\<close>

theorem claim_overlooks_free_repo:
  "\<exists>d task. wf_db d \<and> list_all durable_task (repo_tasks d) \<and> task \<in> set (repo_tasks d)
     \<and> claimable False [] task \<and> \<not> repo_busy task d
     \<and> acquire_next_task now False False [] d = (Inr None, d)"
proof (intro exI conjI)
  show "wf_db crowded_db" by (rule wf_crowded)
  show "list_all durable_task (repo_tasks crowded_db)"
    by (simp add: crowded_db_def list_all_iff)
  show "crowd_task 22 \<in> set (repo_tasks crowded_db)" by (simp add: crowded_db_def)
  show "claimable False [] (crowd_task 22)" by (simp add: claimable_def)
  show "\<not> repo_busy (crowd_task 22) crowded_db"
    by (auto simp: repo_busy_def crowded_db_def list_ex_iff active_status_def)
  have "list_all durable_task (claim_window False [] crowded_db)"
    by (simp add: crowded_window list_all_iff)
  moreover have "\<forall>r \<in> set (claim_window False [] crowded_db). repo_busy r crowded_db"
    unfolding crowded_window by (auto simp: repo_busy_def crowded_db_def list_ex_iff active_status_def)
  ultimately show "acquire_next_task now False False [] crowded_db = (Inr None, crowded_db)"
    using acquire_idle wf_crowded by blast
qed

lemma crowded_durable: "list_all durable_task (claim_window False [] crowded_db)"
  by (simp add: crowded_window list_all_iff)

text \<open>
  A claim finds no work exactly when the checkout of every task in its window is busy.
\<close>

theorem acquire_idle_iff:
  assumes "list_all durable_task (claim_window inc ex d)" and "wf_db d"
  shows "acquire_next_task now False inc ex d = (Inr None, d)
     \<longleftrightarrow> (\<forall>r \<in> set (claim_window inc ex d). repo_busy r d)"
  using assms by (rule acquire_idle)

theorem acquire_idle_iff_witness:
  "acquire_next_task 5 False False [] crowded_db = (Inr None, crowded_db)
     \<longleftrightarrow> (\<forall>r \<in> set (map crowd_task [2..<22]). repo_busy r crowded_db)"
  using acquire_idle_iff [OF crowded_durable wf_crowded, of 5] unfolding crowded_window .

section \<open>A stop with no worker to see it\<close>

text \<open>
  A stop request is accepted for a task in any status. A task that no worker runs stays
  in the requested stop: it can neither be resumed nor claimed nor unblocked, and it keeps
  every other task of its checkout from being claimed.
\<close>

theorem stop_strands_closed_task:
  assumes "get_repo_task t d = Some row" and "durable_task row"
  shows "\<exists>d'. stop_task now t reason d = (Inr (), d')
     \<and> (\<exists>d2. resume_task now2 t ff fa d'
          = (Inl (RuntimeError ''stop is still pending; wait for STOPPED before resuming''), d2))
     \<and> (\<forall>other. rt_path other = rt_path row \<and> rt_id other \<noteq> t \<longrightarrow> repo_busy other d')
     \<and> \<not> claimable inc ex (the (get_repo_task t d'))
     \<and> (\<exists>e. unblock now2 t d' = (Inl e, d'))"
proof -
  define d1 where "d1 = snd (request_control now t Stop reason d)"
  let ?f = "\<lambda>r. r\<lparr>rt_stop_requested := Some now, rt_detail := reason\<rparr>"
  have c1: "request_control now t Stop reason d = (Inr (), d1)" "get_repo_task t d1 = Some row"
    using assms(1) by (simp_all add: d1_def request_control_def get_repo_task_def)
  obtain d2 where u: "update_repo_task now t (Some STOP_REQUESTED) ?f d1 = (Inr (), d2)"
    and g: "\<And>i. get_repo_task i d2 = map_option (\<lambda>r. if rt_id r = t then
        assign_repo_row now (Some STOP_REQUESTED) ?f r else r) (get_repo_task i d1)"
    by (rule update_get_repo [of "Some STOP_REQUESTED" t d1 ?f now]) (use assms c1 in auto)
  define d3 where "d3 = insert_event now (Some t) None ''task_stopped''
      (text_or reason ''Stop requested'') None WARNING [] d2"
  define r2 where "r2 = assign_repo_row now (Some STOP_REQUESTED) ?f row"
  have id: "rt_id row = t" by (rule get_repo_task_id [OF assms(1)])
  have g2: "get_repo_task t d2 = Some r2"
    using g [of t] c1 id by (simp add: r2_def)
  have r2: "rt_status r2 = STOP_REQUESTED" "rt_path r2 = rt_path row" "durable_task r2" "rt_id r2 = t"
    using assms(2) id by (simp_all add: r2_def assign_repo_row_def durable_task_def)
  have run: "stop_task now t reason d = (Inr (), d3)"
    using g2 by (simp add: stop_task_def andthen_eq c1 u add_task_event d3_def)
  have g3: "get_repo_task t d3 = Some r2" using g2 by (simp add: d3_def)
  have "r2 \<in> set (repo_tasks d3)"
    using g3 by (auto simp: get_repo_task_def dest: find_row_Some)
  then have "repo_busy other d3" if "rt_path other = rt_path row" "rt_id other \<noteq> t" for other
    using that r2 by (auto simp: repo_busy_def list_ex_iff active_status_def)
  moreover have "\<exists>d4. resume_task now2 t ff fa d3
      = (Inl (RuntimeError ''stop is still pending; wait for STOPPED before resuming''), d4)"
    using resume_blocked [OF g3 r2(3,1)] by blast
  moreover have "\<exists>e. unblock now2 t d3 = (Inl e, d3)"
    using g3 r2 by (simp add: unblock_def andthen_eq lift_error_def require_durable_cases guard_def raise_def)
  ultimately show ?thesis
    using run g3 r2(1) by (auto simp: claimable_def)
qed

theorem stop_strands_closed_task_witness:
  "\<exists>d'. stop_task 5 1 None crowded_db = (Inr (), d')
     \<and> repo_busy (crowd_task 2) d' \<and> (\<exists>e. unblock 6 1 d' = (Inl e, d'))"
  using stop_strands_closed_task [OF crowded_get(1), of 5 None 6 False False False "[]"] by auto

section \<open>Recovering orphaned tasks\<close>

lemma refresh_effect:
  assumes "wf_db d"
  obtains d' where "refresh_repo_counts now t d = (Inr (), d')" and "wf_db d'"
    and "class_tasks d' = class_tasks d" and "heartbeats d' = heartbeats d" and "task_events d' = task_events d"
    and "\<And>i. map_option rt_status (get_repo_task i d') = map_option rt_status (get_repo_task i d)"
    and "\<And>i. map_option rt_config (get_repo_task i d') = map_option rt_config (get_repo_task i d)"
proof -
  let ?a = "aggregate_repo_task t d"
  let ?h = "\<lambda>r. r\<lparr>rt_total := class_count ?a, rt_completed := completed_classes ?a,
     rt_passed := passed_classes ?a, rt_failed := failed_classes ?a\<rparr>"
  obtain d' where u: "update_repo_task now t None ?h d = (Inr (), d')"
    and g: "\<And>i. get_repo_task i d' = map_option (\<lambda>r. if rt_id r = t then assign_repo_row now None ?h r else r)
        (get_repo_task i d)"
    and c: "class_tasks d' = class_tasks d" "task_events d' = task_events d" "heartbeats d' = heartbeats d"
    by (rule update_get_repo [of None t d ?h now]) auto
  have run: "refresh_repo_counts now t d = (Inr (), d')"
    using u by (simp add: refresh_repo_counts_def)
  show thesis
    by (rule that [OF run])
      (use keepsD [OF keeps_refresh assms run] c in
        \<open>auto simp: g option.map_comp comp_def assign_repo_row_def if_distrib cong: if_cong\<close>)
qed

lemma requeue_effect:
  assumes "wf_db d" and "get_repo_task t d = Some row" and "durable_task row"
  obtains d' where "requeue_task now detail ty payload t d = (Inr (Some t), d')" and "wf_db d'"
    and "heartbeats d' = heartbeats d"
    and "class_tasks d' = update_rows (\<lambda>r. ct_repo r = t \<and> ct_status r = CRunning)
        (\<lambda>r. r\<lparr>ct_status := CQueued, ct_stage := Some ''queued'', ct_current_stage := Some ''queued'',
          ct_detail := Some detail, ct_finished := None, ct_last_error := None, ct_error := None,
          ct_updated := now\<rparr>) (class_tasks d)"
    and "\<And>i. map_option rt_status (get_repo_task i d')
        = (if i = t then Some QUEUED else map_option rt_status (get_repo_task i d))"
    and "\<And>i. map_option rt_config (get_repo_task i d') = map_option rt_config (get_repo_task i d)"
proof -
  obtain d1 where u: "update_repo_task now t (Some QUEUED) (requeue_row detail) d = (Inr (), d1)"
    and g: "\<And>i. get_repo_task i d1 = map_option (\<lambda>r. if rt_id r = t then
        assign_repo_row now (Some QUEUED) (requeue_row detail) r else r) (get_repo_task i d)"
    and c1: "class_tasks d1 = class_tasks d" "heartbeats d1 = heartbeats d"
    by (rule update_get_repo [of "Some QUEUED" t d "requeue_row detail" now])
      (use assms in \<open>auto simp: requeue_row_def\<close>)
  have wf1: "wf_db d1"
    using keepsD [OF keeps_update_repo_task assms(1) u] by (simp add: requeue_row_def)
  have keep: "map_option rt_status (get_repo_task i d1)
      = (if i = t then Some QUEUED else map_option rt_status (get_repo_task i d))"
    "map_option rt_config (get_repo_task i d1) = map_option rt_config (get_repo_task i d)" for i
    using assms(2) get_repo_task_id [of i d]
    by (cases "get_repo_task i d"; auto simp: g assign_repo_row_def requeue_row_def)+
  define d2 where "d2 = d1\<lparr>class_tasks := update_rows (\<lambda>r. ct_repo r = t \<and> ct_status r = CRunning)
     (\<lambda>r. r\<lparr>ct_status := CQueued, ct_stage := Some ''queued'', ct_current_stage := Some ''queued'',
          ct_detail := Some detail, ct_finished := None, ct_last_error := None, ct_error := None,
          ct_updated := now\<rparr>) (class_tasks d1)\<rparr>"
  have l: "foreach (requeue_running_class now detail) (list_class_tasks t d1) d1 = (Inr (), d2)"
    unfolding d2_def
    by (rule class_loop [OF wf1, where p = "\<lambda>r. ct_status r = CRunning"])
      (auto simp: requeue_running_class_def fun_eq_iff)
  have g2: "get_repo_task i d2 = get_repo_task i d1" for i
    by (simp add: d2_def get_repo_task_def)
  have wf2: "wf_db d2"
    unfolding d2_def by (rule wf_set_classes [OF wf1]) simp_all
  have t2: "get_repo_task t d2 \<noteq> None"
    using keep(1) [of t] by (auto simp: g2)
  define d3 where "d3 = insert_event now (Some t) None ty detail (Some ''queued'') WARNING payload d2"
  have ev: "add_event now (Some t) None ty detail (Some ''queued'') WARNING payload d2 = (Inr (), d3)"
    unfolding d3_def by (rule add_task_event [OF t2])
  have wf3: "wf_db d3" using keepsD [OF keeps_add_event wf2 ev] .
  obtain d4 where r: "refresh_repo_counts now t d3 = (Inr (), d4)" "wf_db d4"
    "class_tasks d4 = class_tasks d3" "heartbeats d4 = heartbeats d3"
    "\<And>i. map_option rt_status (get_repo_task i d4) = map_option rt_status (get_repo_task i d3)"
    "\<And>i. map_option rt_config (get_repo_task i d4) = map_option rt_config (get_repo_task i d3)"
    by (rule refresh_effect [OF wf3]) blast
  have run: "requeue_task now detail ty payload t d = (Inr (Some t), d4)"
    by (simp add: requeue_task_def andthen_eq u l ev r(1) ret_def)
  have g4: "map_option rt_status (get_repo_task i d4)
      = (if i = t then Some QUEUED else map_option rt_status (get_repo_task i d))"
    "map_option rt_config (get_repo_task i d4) = map_option rt_config (get_repo_task i d)" for i
    by (simp_all only: r(5,6) d3_def get_repo_insert_event g2 keep)
  have c4: "heartbeats d4 = heartbeats d" "class_tasks d4 = class_tasks d2"
    by (simp_all add: r(3,4) d3_def c1) (simp add: d2_def c1)
  show thesis
    by (rule that [OF run r(2) c4(1) _ g4]) (simp add: c4(2), simp add: d2_def c1)
qed

definition orphaned :: "nat \<Rightarrow> nat list \<Rightarrow> nat \<Rightarrow> db \<Rightarrow> repo_task \<Rightarrow> bool" where
  "orphaned now active threshold d r = (rt_id r \<notin> set active
     \<and> (case latest_running_heartbeat (rt_id r) d of None \<Rightarrow> True
        | Some h \<Rightarrow> is_stale_heartbeat h threshold now))"

lemma durable_config: "durable_task r \<longleftrightarrow> classify_generation_snapshot (rt_config r) = None"
  by (simp add: durable_task_def)

lemma latest_running_cong: "heartbeats d = heartbeats d' \<Longrightarrow>
   latest_running_heartbeat i d = latest_running_heartbeat i d'"
  by (simp add: latest_running_heartbeat_def)

lemma collect_requeue:
  assumes "wf_db d" and "\<And>r. r \<in> set rows \<Longrightarrow> durable_task r"
    and "\<And>r. r \<in> set rows \<Longrightarrow> map_option rt_config (get_repo_task (rt_id r) d) = Some (rt_config r)"
  shows "\<exists>d'. collect (requeue_orphan now active threshold) rows d
      = (Inr (map rt_id (filter (orphaned now active threshold d) rows)), d')
     \<and> wf_db d' \<and> heartbeats d' = heartbeats d
     \<and> (\<forall>i. map_option rt_status (get_repo_task i d')
          = (if i \<in> rt_id ` {r \<in> set rows. orphaned now active threshold d r} then Some QUEUED
             else map_option rt_status (get_repo_task i d)))"
  using assms
proof (induction rows arbitrary: d)
  case Nil
  then show ?case by (simp add: ret_def)
next
  case (Cons r rows)
  show ?case
  proof (cases "orphaned now active threshold d r")
    case False
    then have skip: "requeue_orphan now active threshold r d = (Inr None, d)"
      by (auto simp: requeue_orphan_def orphaned_def ret_def split: option.splits)
    with Cons.IH [OF Cons.prems(1)] Cons.prems(2,3) False show ?thesis
      by (fastforce simp: seq_def skip ret_def)
  next
    case True
    obtain row where row: "get_repo_task (rt_id r) d = Some row" "durable_task row"
      using Cons.prems(2,3) [of r] by (auto simp: durable_task_def)
    obtain d1 where d1: "requeue_task now ''requeued after stale runner heartbeat''
        ''orphaned_task_requeued'' (orphan_payload threshold (latest_running_heartbeat (rt_id r) d))
        (rt_id r) d = (Inr (Some (rt_id r)), d1)" "wf_db d1" "heartbeats d1 = heartbeats d"
      "\<And>i. map_option rt_status (get_repo_task i d1)
        = (if i = rt_id r then Some QUEUED else map_option rt_status (get_repo_task i d))"
      "\<And>i. map_option rt_config (get_repo_task i d1) = map_option rt_config (get_repo_task i d)"
      by (rule requeue_effect [OF Cons.prems(1) row]) blast
    have same: "orphaned now active threshold d1 = orphaned now active threshold d"
      by (simp add: fun_eq_iff orphaned_def latest_running_cong [OF d1(3)])
    have go: "requeue_orphan now active threshold r d = (Inr (Some (rt_id r)), d1)"
      using True d1(1) by (auto simp: requeue_orphan_def orphaned_def split: option.splits)
    have "\<exists>d'. collect (requeue_orphan now active threshold) rows d1
      = (Inr (map rt_id (filter (orphaned now active threshold d1) rows)), d')
     \<and> wf_db d' \<and> heartbeats d' = heartbeats d1
     \<and> (\<forall>i. map_option rt_status (get_repo_task i d')
          = (if i \<in> rt_id ` {r \<in> set rows. orphaned now active threshold d1 r} then Some QUEUED
             else map_option rt_status (get_repo_task i d1)))"
      using Cons.prems by (intro Cons.IH d1) (simp_all add: d1)
    then obtain d' where d': "collect (requeue_orphan now active threshold) rows d1
      = (Inr (map rt_id (filter (orphaned now active threshold d) rows)), d')"
      "wf_db d'" "heartbeats d' = heartbeats d"
      "\<And>i. map_option rt_status (get_repo_task i d')
          = (if i \<in> rt_id ` {r \<in> set rows. orphaned now active threshold d r} then Some QUEUED
             else map_option rt_status (get_repo_task i d1))"
      unfolding same d1(3) by blast
    show ?thesis
      by (rule exI [of _ d']) (use True d' in \<open>auto simp: seq_def go d'(1) ret_def d1(4)\<close>)
  qed
qed

text \<open>
  C8: The recovery requeues exactly the running tasks that no worker holds and whose runner
  has no heartbeat or a stale one, returns their ids in order and leaves the status of every
  other task alone.
\<close>

theorem orphans_requeued:
  assumes "wf_db d" and "\<And>r. r \<in> set (repo_tasks d) \<Longrightarrow> rt_status r = RUNNING \<Longrightarrow> durable_task r"
  shows "\<exists>ids d'. requeue_orphaned_running_tasks now active stale d = (Inr ids, d')
     \<and> ids = map rt_id (filter (\<lambda>r. rt_status r = RUNNING \<and> orphaned now active (max 1 stale) d r)
         (repo_tasks d))
     \<and> (\<forall>i. map_option rt_status (get_repo_task i d')
          = (if i \<in> set ids then Some QUEUED else map_option rt_status (get_repo_task i d)))"
proof -
  let ?rows = "filter (\<lambda>r. rt_status r = RUNNING) (repo_tasks d)"
  have "\<exists>d'. collect (requeue_orphan now active (max 1 stale)) ?rows d
      = (Inr (map rt_id (filter (orphaned now active (max 1 stale) d) ?rows)), d')
     \<and> wf_db d' \<and> heartbeats d' = heartbeats d
     \<and> (\<forall>i. map_option rt_status (get_repo_task i d')
          = (if i \<in> rt_id ` {r \<in> set ?rows. orphaned now active (max 1 stale) d r} then Some QUEUED
             else map_option rt_status (get_repo_task i d)))"
    by (rule collect_requeue [OF assms(1)]) (use assms in \<open>auto simp: wf_get_repo\<close>)
  then obtain d' where d': "collect (requeue_orphan now active (max 1 stale)) ?rows d
      = (Inr (map rt_id (filter (orphaned now active (max 1 stale) d) ?rows)), d')"
    "\<forall>i. map_option rt_status (get_repo_task i d')
          = (if i \<in> rt_id ` {r \<in> set ?rows. orphaned now active (max 1 stale) d r} then Some QUEUED
             else map_option rt_status (get_repo_task i d))"
    by blast
  have ids: "filter (orphaned now active (max 1 stale) d) ?rows
      = filter (\<lambda>r. rt_status r = RUNNING \<and> orphaned now active (max 1 stale) d r) (repo_tasks d)"
    by simp
  have members: "set (map rt_id (filter (\<lambda>r. rt_status r = RUNNING \<and> orphaned now active (max 1 stale) d r)
      (repo_tasks d))) = rt_id ` {r \<in> set ?rows. orphaned now active (max 1 stale) d r}"
    by auto
  show ?thesis
    by (rule exI, rule exI [of _ d'], intro conjI, unfold requeue_orphaned_running_tasks_def seq_reads,
        rule d'(1)) (simp_all only: ids members d'(2) HOL.simp_thms)
qed

theorem orphans_requeued_witness:
  "\<exists>d'. requeue_orphaned_running_tasks 5 [] 60 crowded_db = (Inr [1], d')
     \<and> map_option rt_status (get_repo_task 1 d') = Some QUEUED"
proof -
  have "map rt_id (filter (\<lambda>r. rt_status r = RUNNING \<and> orphaned 5 [] (max 1 60) crowded_db r)
      (repo_tasks crowded_db)) = [1]"
    by (simp add: crowded_db_def empty_db_def orphaned_def latest_running_heartbeat_def filter_empty_conv)
  moreover have "\<exists>ids d'. requeue_orphaned_running_tasks 5 [] 60 crowded_db = (Inr ids, d')
     \<and> ids = map rt_id (filter (\<lambda>r. rt_status r = RUNNING \<and> orphaned 5 [] (max 1 60) crowded_db r)
         (repo_tasks crowded_db))
     \<and> (\<forall>i. map_option rt_status (get_repo_task i d')
          = (if i \<in> set ids then Some QUEUED else map_option rt_status (get_repo_task i crowded_db)))"
    by (rule orphans_requeued [OF wf_crowded]) (auto simp: crowded_db_def)
  ultimately show ?thesis by (metis list.set_intros(1))
qed

section \<open>Calls on one task leave the others alone\<close>

named_theorems row_keeps \<open>operations that leave the row of another task alone\<close>

lemma row_update_repo [row_keeps]:
  "i \<noteq> t \<Longrightarrow> (\<And>r. rt_id (f r) = rt_id r) \<Longrightarrow>
   keeps (\<lambda>d. get_repo_task t d = x) (update_repo_task now i s f)"
  unfolding update_repo_task_def
  by (intro keeps_intros keeps_modifies)
    (auto intro!: keeps_intros option.map_ident_strong [THEN trans] simp: get_repo_task_update assign_repo_row_id
      dest: get_repo_task_id split: option.splits)

lemma row_update_class [row_keeps]: "keeps (\<lambda>d. get_repo_task t d = x) (update_class_task now c f)"
  unfolding update_class_task_def
  by (intro keeps_intros keeps_modifies) (simp add: get_repo_task_def)

lemma row_add_event [row_keeps]:
  "keeps (\<lambda>d. get_repo_task t d = x) (add_event now r c ty m st sev p)"
  by (rule keepsI) (simp add: add_event_def)

lemma row_acknowledge [row_keeps]: "keeps (\<lambda>d. get_repo_task t d = x) (acknowledge_controls now i a)"
  by (rule keepsI) (simp add: acknowledge_run get_repo_task_def)

lemma row_refresh [row_keeps]:
  "i \<noteq> t \<Longrightarrow> keeps (\<lambda>d. get_repo_task t d = x) (refresh_repo_counts now i)"
  unfolding refresh_repo_counts_def by (intro keeps_intros row_keeps) auto

lemma row_resume [row_keeps]: "i \<noteq> t \<Longrightarrow> keeps (\<lambda>d. get_repo_task t d = x) (resume_task now i ff fa)"
  unfolding resume_task_def resume_class_def requeue_class_def
  by (intro keeps_intros row_keeps) (auto simp: resume_row_def)

lemma row_resume_preempted:
  assumes "rt_status row \<noteq> STOPPED"
  shows "keeps (\<lambda>d. get_repo_task t d = Some row) (resume_preempted_tasks now u)"
proof -
  have one: "keeps (\<lambda>d. get_repo_task t d = Some row) (resume_preempted now u e)" for e
  proof (rule keepsI)
    fix d assume g: "get_repo_task t d = Some row"
    show "get_repo_task t (snd (resume_preempted now u e d)) = Some row"
    proof (cases "preempted_by u e \<and> ev_repo e \<noteq> None \<and> ev_repo e \<noteq> Some t")
      case False
      then show ?thesis using g assms
        by (auto simp: resume_preempted_def ret_def split: option.splits)
    next
      case True
      then obtain i where "ev_repo e = Some i" "i \<noteq> t" by auto
      then have "keeps (\<lambda>d. get_repo_task t d = Some row) (resume_preempted now u e)"
        unfolding resume_preempted_def by (auto intro!: keeps_intros row_keeps)
      then show ?thesis using g by (simp add: keeps_def)
    qed
  qed
  show ?thesis
    unfolding resume_preempted_tasks_def by (intro keeps_intros one)
qed

section \<open>A task that keeps failing is quarantined\<close>

lemma snd_seq_ret: "snd (seq m (\<lambda>_. ret ()) d) = snd (m d)"
  by (simp add: seq_def ret_def split: prod.splits sum.splits)

lemma finish_keeps_status:
  assumes "get_repo_task t d = Some row" and "s \<in> set terminal_repo_statuses"
    and "\<And>r. rt_id (f r) = rt_id r"
  obtains ev d' where "finish_task_with_terminal_event now t s m st sev p f ts d = (Inr ev, d')"
    and "get_repo_task t d' = Some (finish_row now s m st f row)"
    and "last_terminal_event t d' = Some ev"
proof (rule finish_effect [OF assms(1,2), of now m st sev p f ts])
  fix ev d'
  assume "finish_task_with_terminal_event now t s m st sev p f ts d = (Inr ev, d')"
    and "repo_tasks d' = update_row rt_id t (finish_row now s m st f) (repo_tasks d)"
    and "last_terminal_event t d' = Some ev"
  then show thesis
    using that finish_get [of d' t now s m st f d t] assms(1,3) get_repo_task_id [OF assms(1)] by simp
qed

lemma terminal_members [simp]:
  "s \<in> set terminal_repo_statuses \<longleftrightarrow>
     s = COMPLETED \<or> s = FAILED \<or> s = CANCELLED \<or> s = POISONED \<or> s = BUDGET_EXCEEDED"
  by (auto simp: terminal_repo_statuses_def)

text \<open>
  A failed task is quarantined when the failures recorded for it and this one reach the
  threshold, and marked failed otherwise; resuming the tasks it had preempted does not
  change that.
\<close>

theorem failure_quarantine:
  assumes "get_repo_task t d = Some row"
  shows "map_option rt_status (get_repo_task t (snd (mark_failed now threshold t message stage d)))
    = Some (if 0 < threshold \<and> threshold \<le> count_task_failures t d + 1 then POISONED else FAILED)"
proof -
  define poison where "poison = (0 < threshold \<and> threshold \<le> count_task_failures t d + 1)"
  define msg where "msg = (if poison then ''Auto-quarantined after '' @ nat_str threshold
      @ '' failures. Last: '' @ message else message)"
  let ?s = "if poison then POISONED else FAILED"
  have "?s \<in> set terminal_repo_statuses" by simp
  then obtain ev d1 where run: "finish_task_with_terminal_event now t ?s msg
        (if poison then ''quarantined'' else stage) ERROR [] (error_fields msg)
        (if poison then [''task_failed'', ''task_poisoned''] else [''task_failed'']) d = (Inr ev, d1)"
    and g: "get_repo_task t d1 = Some (finish_row now ?s msg (if poison then ''quarantined'' else stage)
        (error_fields msg) row)"
    by (rule finish_keeps_status [OF assms, of ?s "error_fields msg"]) auto
  have "get_repo_task t (snd (resume_preempted_tasks now t d1)) = get_repo_task t d1"
    unfolding g
    by (rule row_resume_preempted [unfolded keeps_def, rule_format, OF _ g])
      (simp add: finish_row_def)
  moreover have "mark_failed now threshold t message stage d
      = seq (resume_preempted_tasks now t) (\<lambda>_. ret ()) d1"
    unfolding mark_failed_def seq_reads Let_def poison_def [symmetric] msg_def [symmetric]
    by (simp only: seq_run [of "finish_task_with_terminal_event _ _ _ _ _ _ _ _ _", OF run])
  ultimately show ?thesis
    by (simp add: g finish_row_def poison_def snd_seq_ret)
qed

theorem failure_quarantine_witness:
  "map_option rt_status (get_repo_task 1 (snd (mark_failed 5 1 1 ''boom'' ''failed'' crowded_db)))
     = Some POISONED
   \<and> map_option rt_status (get_repo_task 1 (snd (mark_failed 5 3 1 ''boom'' ''failed'' crowded_db)))
     = Some FAILED"
  using failure_quarantine [OF crowded_get(1), of 5 1 "''boom''" "''failed''"]
    failure_quarantine [OF crowded_get(1), of 5 3 "''boom''" "''failed''"]
  by (simp add: count_task_failures_def crowded_db_def empty_db_def)

end
