(* ===== verification/StoreFacts.thy ===== *)
theory StoreFacts
  imports LifecycleFacts
begin

text \<open>
  Bookkeeping of the store: the counters of a task add up, its progress stays under the caps
  and a new branch gets a name of its own.
\<close>


section \<open>Counting targets\<close>

lemma terminal_class_split:
  "s \<in> set terminal_class_statuses \<longleftrightarrow> s = CPass \<or> s \<notin> set unfinished_class_statuses"
  by (cases s) (simp_all add: terminal_class_statuses_def unfinished_class_statuses_def)

lemma length_filter_disjoint:
  "(\<And>x. x \<in> set xs \<Longrightarrow> \<not> (p x \<and> q x)) \<Longrightarrow>
   length (filter (\<lambda>x. p x \<or> q x) xs) = length (filter p xs) + length (filter q xs)"
  by (induction xs) auto

lemma aggregate_partition:
  "completed_classes (aggregate_repo_task t d)
     = passed_classes (aggregate_repo_task t d) + failed_classes (aggregate_repo_task t d)
   \<and> completed_classes (aggregate_repo_task t d) \<le> class_count (aggregate_repo_task t d)"
proof -
  have "CPass \<in> set unfinished_class_statuses" by (simp add: unfinished_class_statuses_def)
  then show ?thesis
    unfolding aggregate_repo_task_def Let_def terminal_class_split class_counts.simps
    by (intro conjI length_filter_le length_filter_disjoint) auto
qed

text \<open>
  After a refresh the completed targets of a task are the passed and the failed ones, at
  most the total, which counts its targets, and they reach the total exactly when every
  target is in a terminal status.
\<close>

theorem counts_add_up:
  assumes "get_repo_task t d = Some row" and "refresh_repo_counts now t d = (r, d')"
    and "get_repo_task t d' = Some row'"
  shows "r = Inr () \<and> rt_completed row' = rt_passed row' + rt_failed row'
     \<and> rt_completed row' \<le> rt_total row'
     \<and> rt_total row' = length (list_class_tasks t d)
     \<and> (rt_completed row' = rt_total row'
          \<longleftrightarrow> (\<forall>c \<in> set (list_class_tasks t d). ct_status c \<in> set terminal_class_statuses))"
proof -
  let ?a = "aggregate_repo_task t d"
  let ?h = "\<lambda>r. r\<lparr>rt_total := class_count ?a, rt_completed := completed_classes ?a,
     rt_passed := passed_classes ?a, rt_failed := failed_classes ?a\<rparr>"
  have "refresh_repo_counts now t d
      = (Inr (), d\<lparr>repo_tasks := update_row rt_id t (assign_repo_row now None ?h) (repo_tasks d)\<rparr>)"
    unfolding refresh_repo_counts_def seq_reads by (rule update_repo_task_run) simp
  with assms(2) have r: "r = Inr ()"
    and d': "d' = d\<lparr>repo_tasks := update_row rt_id t (assign_repo_row now None ?h) (repo_tasks d)\<rparr>"
    by auto
  have "row' = assign_repo_row now None ?h row"
    using assms(1,3) get_repo_task_id [OF assms(1)]
    by (simp add: d' get_repo_task_update assign_repo_row_id)
  moreover have "completed_classes ?a = class_count ?a
      \<longleftrightarrow> (\<forall>c \<in> set (list_class_tasks t d). ct_status c \<in> set terminal_class_statuses)"
  proof -
    let ?rows = "filter (\<lambda>r. ct_repo r = t) (class_tasks d)"
    have "length (filter p xs) = length xs \<longleftrightarrow> (\<forall>x \<in> set xs. p x)" for p and xs :: "class_task list"
      using length_filter_less [of _ xs p] by (metis filter_True less_irrefl)
    from this [of "\<lambda>r. ct_status r \<in> set terminal_class_statuses" ?rows]
    show ?thesis by (auto simp: aggregate_repo_task_def Let_def)
  qed
  moreover have "class_count ?a = length (list_class_tasks t d)"
    by (simp add: aggregate_repo_task_def Let_def list_class_tasks_def)
  ultimately show ?thesis
    using r aggregate_partition [of t d] by (simp add: assign_repo_row_def)
qed

theorem counts_add_up_witness:
  "\<exists>d' row'. refresh_repo_counts 5 1 crowded_db = (Inr (), d') \<and> get_repo_task 1 d' = Some row'
     \<and> rt_completed row' = rt_passed row' + rt_failed row' \<and> rt_total row' = 0"
proof -
  obtain d' where run: "refresh_repo_counts 5 1 crowded_db = (Inr (), d')"
    and st: "\<And>i. map_option rt_status (get_repo_task i d') = map_option rt_status (get_repo_task i crowded_db)"
    by (rule refresh_effect [OF wf_crowded, of 5 1]) blast
  obtain row' where g: "get_repo_task 1 d' = Some row'" using st [of 1] by auto
  have "length (list_class_tasks 1 crowded_db) = 0"
    by (simp add: list_class_tasks_def crowded_db_def empty_db_def)
  with counts_add_up [OF crowded_get(1) run g] run g show ?thesis by auto
qed

section \<open>Progress stays under its caps\<close>

lemma admit_progress_prefix:
  "\<exists>rest. items = admit_progress rows bytes mr mb items @ rest"
  by (induction items arbitrary: rows bytes) auto

lemma admit_progress_bounds:
  "rows \<le> mr \<Longrightarrow> bytes \<le> mb \<Longrightarrow>
   rows + length (admit_progress rows bytes mr mb items) \<le> mr
   \<and> bytes + sum_list (map pi_size (admit_progress rows bytes mr mb items)) \<le> mb"
proof (induction items arbitrary: rows bytes)
  case (Cons i items)
  then show ?case using Cons.IH [of "rows + 1" "bytes + pi_size i"]
    by (cases "mr < rows + 1 \<or> mb < bytes + pi_size i") (simp_all add: add.assoc)
qed simp

text \<open>Nothing is dropped unless the next event would break a cap.\<close>

lemma admit_progress_maximal:
  "items = admit_progress rows bytes mr mb items @ i # rest \<Longrightarrow>
   mr < rows + length (admit_progress rows bytes mr mb items) + 1
   \<or> mb < bytes + sum_list (map pi_size (admit_progress rows bytes mr mb items)) + pi_size i"
proof (induction items arbitrary: rows bytes)
  case (Cons j items)
  then show ?case using Cons.IH [of "rows + 1" "bytes + pi_size j"]
    by (auto split: if_splits)
qed simp

definition markers :: "nat \<Rightarrow> db \<Rightarrow> nat" where
  "markers t d = length (filter (\<lambda>e. ev_repo e = Some t \<and> ev_type e = ''progress_truncated'') (task_events d))"

definition progress_ok :: "nat \<Rightarrow> nat \<Rightarrow> nat \<Rightarrow> db \<Rightarrow> bool" where
  "progress_ok t max_rows max_bytes d = (case get_repo_task t d of None \<Rightarrow> True
     | Some row \<Rightarrow> rt_progress_count row \<le> max_rows \<and> rt_progress_bytes row \<le> max_bytes
         \<and> markers t d = (if rt_progress_truncated row then 1 else 0))"

lemma markers_fold_progress:
  "markers t (foldl (\<lambda>d i. insert_event now r c ''agent_progress'' (m i) (st i) (sev i) (p i) d) d xs)
     = markers t d"
  by (induction xs arbitrary: d) (simp_all add: markers_def insert_event_def)

lemma markers_insert [simp]:
  "markers t (insert_event now (Some t) c ''progress_truncated'' m st sev p d) = Suc (markers t d)"
  by (simp add: markers_def insert_event_def)

lemma markers_tables [simp]: "markers t (d\<lparr>repo_tasks := x\<rparr>) = markers t d"
  by (simp add: markers_def)

lemma get_repo_task_update_row:
  "repo_tasks d' = repo_tasks d \<Longrightarrow> (\<And>r. rt_id (f r) = rt_id r) \<Longrightarrow> get_repo_task t d = Some row \<Longrightarrow>
   get_repo_task t (d'\<lparr>repo_tasks := update_row rt_id t f (repo_tasks d')\<rparr>) = Some (f row)"
  using get_repo_task_id [of t d row] by (simp add: get_repo_task_def table_simps)



section \<open>A new branch gets a name of its own\<close>

definition branch_candidate :: "str \<Rightarrow> nat \<Rightarrow> str" where
  "branch_candidate base k = base @ ''-'' @ nat_str k"

lemma nat_str_inj: "nat_str m = nat_str n \<Longrightarrow> m = n"
  by (metis digits_value_nat_str)

lemma branch_candidate_inj: "branch_candidate base m = branch_candidate base n \<Longrightarrow> m = n"
  by (auto simp: branch_candidate_def dest: nat_str_inj)

lemma free_branch_Some:
  "free_branch fuel path base k name d = Some n \<Longrightarrow> \<not> branch_taken path n d"
  by (induction fuel arbitrary: k name) (auto split: if_splits)

lemma free_branch_None:
  "free_branch (Suc fuel) path base k name d = None \<Longrightarrow>
   branch_taken path name d \<and> (\<forall>j < fuel. branch_taken path (branch_candidate base (k + j)) d)"
proof (induction fuel arbitrary: k name)
  case 0
  then show ?case by (simp split: if_splits)
next
  case (Suc fuel)
  have taken: "branch_taken path name d"
    by (rule ccontr) (use Suc.prems in simp)
  then have rec: "free_branch (Suc fuel) path base (Suc k) (branch_candidate base k) d = None"
    using Suc.prems unfolding branch_candidate_def free_branch.simps(2) [of "Suc fuel"] by simp
  show ?case using Suc.IH [OF rec] taken by (auto simp: less_Suc_eq_0_disj)
qed

lemma taken_names: "branch_taken path n d \<longleftrightarrow> n \<in> rb_name ` {b \<in> set (branches d). rb_path b = path}"
  by (auto simp: branch_taken_def list_ex_iff)

lemma free_branch_total: "free_branch (branch_fuel d) path base 2 base d \<noteq> None"
proof
  assume "free_branch (branch_fuel d) path base 2 base d = None"
  then have taken: "branch_taken path base d"
    "\<forall>j < length (branches d). branch_taken path (branch_candidate base (2 + j)) d"
    using free_branch_None [of "length (branches d)" path base 2 base d] unfolding branch_fuel_def
    by blast+
  let ?names = "rb_name ` {b \<in> set (branches d). rb_path b = path}"
  let ?cands = "insert base ((\<lambda>j. branch_candidate base (2 + j)) ` {..<length (branches d)})"
  have "?cands \<subseteq> ?names" using taken unfolding taken_names by blast
  moreover have "card ?names \<le> length (branches d)"
  proof -
    have "card ?names \<le> card (set (map rb_name (branches d)))"
      by (rule card_mono) auto
    also have "\<dots> \<le> length (branches d)" using card_length [of "map rb_name (branches d)"] by simp
    finally show ?thesis .
  qed
  moreover have "card ?cands = Suc (length (branches d))"
  proof -
    have "inj_on (\<lambda>j. branch_candidate base (2 + j)) {..<length (branches d)}"
      by (auto simp: inj_on_def dest: branch_candidate_inj)
    moreover have "base \<notin> (\<lambda>j. branch_candidate base (2 + j)) ` {..<length (branches d)}"
      by (auto simp: branch_candidate_def)
    ultimately show ?thesis by (simp add: card_image)
  qed
  ultimately show False
    using card_mono [of ?names ?cands] by simp
qed

text \<open>
  A request without a branch name returns the newest active branch of the same checkout,
  base and profile, or creates one whose name no branch of the checkout has; the search for
  a name always ends.
\<close>

theorem branch_is_fresh:
  assumes "branch_name = None \<or> branch_name = Some []"
  shows "\<exists>b d'. create_or_reuse_branch now date path slug base_ref profile branch_name new_branch d
      = (Inr (Some b), d')
     \<and> (if new_branch \<or> \<not> (\<exists>b \<in> set (branches d). rb_path b = path \<and> rb_base_ref b = base_ref
            \<and> rb_profile b = profile \<and> rb_active b)
        then \<not> branch_taken path (rb_name b) d \<and> branches d' = branches d @ [b]
        else b \<in> set (branches d) \<and> rb_path b = path \<and> rb_base_ref b = base_ref
            \<and> rb_profile b = profile \<and> rb_active b \<and> d' = d)"
proof -
  let ?match = "\<lambda>b. rb_path b = path \<and> rb_base_ref b = base_ref \<and> rb_profile b = profile \<and> rb_active b"
  let ?old = "sort_key (\<lambda>b. - int (rb_updated b)) (rev (filter ?match (branches d)))"
  show ?thesis
  proof (cases "\<not> new_branch \<and> ?old \<noteq> []")
    case True
    then have "hd ?old \<in> set ?old" by (intro hd_in_set) simp
    then have "hd ?old \<in> set (branches d) \<and> ?match (hd ?old)" by simp
    moreover from this have "\<not> (new_branch \<or> \<not> (\<exists>b \<in> set (branches d). ?match b))"
      using True by blast
    moreover have "create_or_reuse_branch now date path slug base_ref profile branch_name new_branch d
        = (Inr (Some (hd ?old)), d)"
      unfolding create_or_reuse_branch_def transaction_def Let_def using True assms by simp
    ultimately show ?thesis by auto
  next
    case False
    obtain n where n: "free_branch (branch_fuel d) path (''uta/'' @ slug @ ''/'' @ date) 2
        (''uta/'' @ slug @ ''/'' @ date) d = Some n"
      using free_branch_total by blast
    have free: "\<not> branch_taken path n d" by (rule free_branch_Some [OF n])
    then have new: "find_row (\<lambda>b. (rb_path b, rb_base_ref b, rb_profile b, rb_name b))
        (path, base_ref, profile, n) (branches d) = None"
      by (auto simp: find_row_None branch_taken_def list_ex_iff)
    have "set ?old = {b \<in> set (branches d). ?match b}" by auto
    with False have cond: "new_branch \<or> \<not> (\<exists>b \<in> set (branches d). ?match b)" by force
    have "\<not> (\<not> new_branch \<and> ?old \<noteq> [])" by (rule False)
    then have "\<exists>row d'. create_or_reuse_branch now date path slug base_ref profile branch_name new_branch d
        = (Inr (Some row), d') \<and> rb_name row = n \<and> branches d' = branches d @ [row]"
      unfolding create_or_reuse_branch_def transaction_def Let_def
      using assms by (simp add: n [simplified] new)
    with cond free show ?thesis by auto
  qed
qed

theorem branch_is_fresh_witness:
  "\<exists>b d'. create_or_reuse_branch 5 ''2024-01-01'' ''/a'' ''a'' ''main'' ''p'' None True empty_db
      = (Inr (Some b), d') \<and> branches d' = [b]"
proof -
  have none: "branches empty_db = []" by (simp add: empty_db_def)
  obtain b d' where "create_or_reuse_branch 5 ''2024-01-01'' ''/a'' ''a'' ''main'' ''p'' None True empty_db
      = (Inr (Some b), d')" "branches d' = branches empty_db @ [b]"
    using branch_is_fresh [of None 5 "''2024-01-01''" "''/a''" "''a''" "''main''" "''p''" True empty_db]
    by fastforce
  with none show ?thesis by auto
qed

end
