(* ===== verification/OperationLedger.thy ===== *)
theory OperationLedger
  imports PyValue
begin

text \<open>
  The ledger of workflow operations: \<open>uta/tasks/storage/operation_repository.py\<close> with the
  tables of \<open>storage/schema.py\<close>. A row is claimed before the work runs and is closed with
  its evidence afterwards. The statements of a method run in one transaction; the
  \<open>CHECK\<close>, primary key and foreign key constraints of the schema raise.
\<close>

section \<open>Rows\<close>

datatype op_status = Started | Completed | Failed | Cancelled

type_synonym fingerprints = "(str \<times> str) list"

record op_row =
  op_id :: str
  op_task :: nat
  op_run :: str
  op_unit :: str
  op_phase :: str
  op_step :: str
  op_attempt :: int
  op_ordinal :: int
  op_status :: op_status
  op_input :: str
  op_workspace :: "str option"
  op_path :: "str option"
  op_sha :: "str option"
  op_outputs :: fingerprints
  op_prerequisites :: "str list"
  op_schema :: int
  op_session :: "str option"
  op_successor :: "str option"
  op_started :: nat
  op_finished :: "nat option"
  op_updated :: nat
  op_error_kind :: "str option"
  op_error :: "str option"

record cost_row =
  co_operation :: str
  co_attempt :: int
  co_cost :: "rat option"
  co_usage :: pydict

record ledger =
  known_tasks :: "nat list"
  operations :: "op_row list"
  costs :: "cost_row list"

datatype ledger_error = OperationConflict str | OperationMissing | ConstraintError

type_synonym 'a ledger_prog = "(ledger, ledger_error, 'a) prog"

text \<open>JSON objects are written with sorted keys, so two texts agree when the dictionaries do.\<close>

definition same_dict :: "('k \<times> 'v) list \<Rightarrow> ('k \<times> 'v) list \<Rightarrow> bool" where
  "same_dict a b = (list_all (\<lambda>(k, v). map_of b k = map_of a k) a
     \<and> list_all (\<lambda>(k, v). map_of a k = map_of b k) b)"

lemma same_dict_map_of: "same_dict a b \<longleftrightarrow> map_of a = map_of b"
proof
  assume same: "same_dict a b"
  show "map_of a = map_of b"
  proof
    fix k
    show "map_of a k = map_of b k"
    proof (cases "k \<in> fst ` set a \<or> k \<in> fst ` set b")
      case True
      with same show ?thesis by (force simp: same_dict_def list_all_iff)
    next
      case False
      then have "map_of a k = None" "map_of b k = None" by (auto simp: map_of_eq_None_iff)
      then show ?thesis by simp
    qed
  qed
qed (auto simp: same_dict_def list_all_iff)

lemma same_dict_refl [simp]: "same_dict a a"
  by (simp add: same_dict_map_of)

lemma same_dict_sym: "same_dict a b \<Longrightarrow> same_dict b a"
  by (simp add: same_dict_map_of)

section \<open>Reading\<close>

definition get_operation :: "str \<Rightarrow> ledger \<Rightarrow> op_row option" where
  "get_operation i s = find_row op_id i (operations s)"

text \<open>\<open>ORDER BY execution_ordinal DESC LIMIT 1\<close>.\<close>

record op_slot =
  slot_task :: nat
  slot_run :: str
  slot_unit :: str
  slot_phase :: str
  slot_step :: str
  slot_attempt :: int

definition in_slot :: "op_slot \<Rightarrow> op_row \<Rightarrow> bool" where
  "in_slot k r = (op_task r = slot_task k \<and> op_run r = slot_run k \<and> op_unit r = slot_unit k
     \<and> op_phase r = slot_phase k \<and> op_step r = slot_step k \<and> op_attempt r = slot_attempt k)"

definition latest_operation :: "op_slot \<Rightarrow> ledger \<Rightarrow> op_row option" where
  "latest_operation k s =
     (case sort_key (\<lambda>r. - op_ordinal r) (filter (in_slot k) (operations s)) of
        [] \<Rightarrow> None | r # _ \<Rightarrow> Some r)"

section \<open>Writing\<close>

definition operation_steps :: "str list" where
  "operation_steps = [''turn'', ''interpret'', ''deterministic'']"

text \<open>\<open>INSERT INTO workflow_operations\<close>: the schema's constraints, then the new row.\<close>

definition insert_operation :: "op_row \<Rightarrow> unit ledger_prog" where
  "insert_operation r s =
     (if op_step r \<in> set operation_steps \<and> 0 \<le> op_attempt r \<and> 0 \<le> op_ordinal r
         \<and> op_task r \<in> set (known_tasks s) \<and> get_operation (op_id r) s = None
      then (Inr (), s\<lparr>operations := operations s @ [r]\<rparr>)
      else (Inl ConstraintError, s))"

definition set_operation :: "str \<Rightarrow> (op_row \<Rightarrow> bool) \<Rightarrow> (op_row \<Rightarrow> op_row) \<Rightarrow> unit ledger_prog" where
  "set_operation i p f = modifies (\<lambda>s. s\<lparr>operations :=
     update_rows (\<lambda>r. op_id r = i \<and> p r) f (operations s)\<rparr>)"

definition require_operation :: "str \<Rightarrow> op_row ledger_prog" where
  "require_operation i = seq (reads (get_operation i)) (\<lambda>found.
     (case found of None \<Rightarrow> raise OperationMissing | Some r \<Rightarrow> ret r))"

text \<open>The immutable columns of a claim.\<close>

record op_claim =
  cl_id :: str
  cl_slot :: op_slot
  cl_ordinal :: int
  cl_input :: str
  cl_prerequisites :: "str list"
  cl_schema :: int

definition claimed_row :: "nat \<Rightarrow> op_claim \<Rightarrow> str option \<Rightarrow> op_row" where
  "claimed_row now c session =
     \<lparr>op_id = cl_id c, op_task = slot_task (cl_slot c), op_run = slot_run (cl_slot c),
      op_unit = slot_unit (cl_slot c), op_phase = slot_phase (cl_slot c),
      op_step = slot_step (cl_slot c), op_attempt = slot_attempt (cl_slot c),
      op_ordinal = cl_ordinal c, op_status = Started, op_input = cl_input c,
      op_workspace = None, op_path = None, op_sha = None, op_outputs = [],
      op_prerequisites = cl_prerequisites c, op_schema = cl_schema c, op_session = session,
      op_successor = None, op_started = now, op_finished = None, op_updated = now,
      op_error_kind = None, op_error = None\<rparr>"

definition same_claim :: "op_claim \<Rightarrow> str option \<Rightarrow> op_row \<Rightarrow> bool" where
  "same_claim c session r = (in_slot (cl_slot c) r \<and> op_ordinal r = cl_ordinal c
     \<and> op_input r = cl_input c \<and> op_prerequisites r = cl_prerequisites c
     \<and> op_schema r = cl_schema c \<and> op_session r = session)"

definition start_operation :: "nat \<Rightarrow> op_claim \<Rightarrow> str option \<Rightarrow> op_row ledger_prog" where
  "start_operation now c session = transaction (
     seq (reads (get_operation (cl_id c))) (\<lambda>existing.
     (case existing of
        Some r \<Rightarrow> if same_claim c session r then ret r
          else raise (OperationConflict ''conflicts with stored identity'')
      | None \<Rightarrow> andthen (insert_operation (claimed_row now c session))
          (require_operation (cl_id c)))))"

record evidence =
  ev_workspace :: str
  ev_path :: str
  ev_sha :: str
  ev_outputs :: fingerprints

definition same_evidence :: "evidence \<Rightarrow> op_row \<Rightarrow> bool" where
  "same_evidence e r = (op_workspace r = Some (ev_workspace e) \<and> op_path r = Some (ev_path e)
     \<and> op_sha r = Some (ev_sha e) \<and> same_dict (op_outputs r) (ev_outputs e))"

text \<open>SQL's \<open>COALESCE(new, old)\<close>.\<close>

definition coalesce :: "'a option \<Rightarrow> 'a option \<Rightarrow> 'a option" where
  "coalesce x y = (case x of None \<Rightarrow> y | Some v \<Rightarrow> Some v)"

definition completed_row :: "nat \<Rightarrow> evidence \<Rightarrow> str option \<Rightarrow> op_row \<Rightarrow> op_row" where
  "completed_row now e session r = r\<lparr>op_status := Completed,
     op_workspace := Some (ev_workspace e), op_path := Some (ev_path e),
     op_sha := Some (ev_sha e), op_outputs := ev_outputs e,
     op_session := coalesce session (op_session r), op_finished := Some now, op_updated := now\<rparr>"

definition complete_operation :: "nat \<Rightarrow> str \<Rightarrow> evidence \<Rightarrow> str option \<Rightarrow> op_row ledger_prog" where
  "complete_operation now i e session = transaction (
     seq (require_operation i) (\<lambda>r.
     if op_status r = Completed then
       (if same_evidence e r then
          (if session \<noteq> None \<and> op_session r \<noteq> session
           then raise (OperationConflict ''already completed with a different session'')
           else ret r)
        else raise (OperationConflict ''already completed with different evidence''))
     else if op_status r \<noteq> Started
       then raise (OperationConflict ''cannot complete from this status'')
     else andthen (set_operation i (\<lambda>r. op_status r = Started) (completed_row now e session))
       (require_operation i)))"

text \<open>What a failed or cancelled operation may leave behind.\<close>

record outcome =
  oc_error_kind :: str
  oc_error :: str
  oc_workspace :: "str option"
  oc_path :: "str option"
  oc_sha :: "str option"
  oc_outputs :: "fingerprints option"
  oc_session :: "str option"

definition same_outcome :: "outcome \<Rightarrow> op_row \<Rightarrow> bool" where
  "same_outcome out r = (op_error_kind r = Some (oc_error_kind out) \<and> op_error r = Some (oc_error out)
     \<and> op_workspace r = oc_workspace out \<and> op_path r = oc_path out \<and> op_sha r = oc_sha out
     \<and> (case oc_outputs out of None \<Rightarrow> True | Some d \<Rightarrow> same_dict (op_outputs r) d)
     \<and> (oc_session out = None \<or> op_session r = oc_session out))"

definition finished_row :: "nat \<Rightarrow> op_status \<Rightarrow> outcome \<Rightarrow> op_row \<Rightarrow> op_row" where
  "finished_row now status out r = r\<lparr>op_status := status, op_error_kind := Some (oc_error_kind out),
     op_error := Some (oc_error out), op_workspace := coalesce (oc_workspace out) (op_workspace r),
     op_path := coalesce (oc_path out) (op_path r), op_sha := coalesce (oc_sha out) (op_sha r),
     op_outputs := (case oc_outputs out of None \<Rightarrow> op_outputs r | Some d \<Rightarrow> d),
     op_session := coalesce (oc_session out) (op_session r),
     op_finished := Some now, op_updated := now\<rparr>"

definition finish_operation ::
  "nat \<Rightarrow> str \<Rightarrow> op_status \<Rightarrow> outcome \<Rightarrow> op_row ledger_prog" where
  "finish_operation now i status out = transaction (
     seq (require_operation i) (\<lambda>r.
     if op_status r = status then
       (if same_outcome out r then ret r
        else raise (OperationConflict ''has different evidence''))
     else if op_status r \<noteq> Started
       then raise (OperationConflict ''cannot become this status'')
     else andthen (set_operation i (\<lambda>r. op_status r = Started) (finished_row now status out))
       (require_operation i)))"

definition fail_operation :: "nat \<Rightarrow> str \<Rightarrow> str \<Rightarrow> str \<Rightarrow> op_row ledger_prog" where
  "fail_operation now i error_kind error = finish_operation now i Failed
     \<lparr>oc_error_kind = error_kind, oc_error = error, oc_workspace = None, oc_path = None,
      oc_sha = None, oc_outputs = None, oc_session = None\<rparr>"

definition cancel_operation :: "nat \<Rightarrow> str \<Rightarrow> outcome \<Rightarrow> op_row ledger_prog" where
  "cancel_operation now i out = finish_operation now i Cancelled out"

definition interrupted_row :: "nat \<Rightarrow> str \<Rightarrow> op_row \<Rightarrow> op_row" where
  "interrupted_row now error_kind r = r\<lparr>op_status := Failed, op_error_kind := Some error_kind,
     op_error := Some error_kind, op_finished := Some now, op_updated := now\<rparr>"

definition retry_operation :: "nat \<Rightarrow> str \<Rightarrow> op_claim \<Rightarrow> str \<Rightarrow> op_row ledger_prog" where
  "retry_operation now old_id c error_kind = transaction (
     seq (require_operation old_id) (\<lambda>old.
     if op_successor old \<noteq> None \<and> op_successor old \<noteq> Some [] then
       (if op_successor old \<noteq> Some (cl_id c)
        then raise (OperationConflict ''already has another successor'')
        else require_operation (cl_id c))
     else if op_status old \<notin> set [Started, Failed, Cancelled]
       then raise (OperationConflict ''cannot be retried from this status'')
     else
       andthen (if op_status old = Started
         then set_operation old_id (\<lambda>r. op_status r = Started) (interrupted_row now error_kind)
         else ret ())
      (andthen (insert_operation (claimed_row now c None))
      (andthen (set_operation old_id (\<lambda>r. True)
         (\<lambda>r. r\<lparr>op_successor := Some (cl_id c), op_updated := now\<rparr>))
        (require_operation (cl_id c))))))"

section \<open>Paid attempts\<close>

text \<open>One immutable fact per paid attempt; a missing cost has provenance \<open>unavailable\<close>.\<close>

definition record_cost ::
  "str \<Rightarrow> int \<Rightarrow> rat option \<Rightarrow> pydict \<Rightarrow> cost_row ledger_prog" where
  "record_cost i attempt cost usage = transaction (\<lambda>s.
     (case find_row (\<lambda>r. (co_operation r, co_attempt r)) (i, attempt) (costs s) of
        Some r \<Rightarrow> if co_cost r = cost \<and> same_dict (co_usage r) usage then (Inr r, s)
          else (Inl (OperationConflict ''already recorded''), s)
      | None \<Rightarrow>
          (let row = \<lparr>co_operation = i, co_attempt = attempt, co_cost = cost, co_usage = usage\<rparr> in
           if 0 < attempt \<and> get_operation i s \<noteq> None
           then (Inr row, s\<lparr>costs := costs s @ [row]\<rparr>)
           else (Inl ConstraintError, s))))"

definition task_costs :: "nat \<Rightarrow> ledger \<Rightarrow> cost_row list" where
  "task_costs task_id s = filter (\<lambda>c. case get_operation (co_operation c) s of
     None \<Rightarrow> False | Some r \<Rightarrow> op_task r = task_id) (costs s)"

definition cost_total :: "nat \<Rightarrow> ledger \<Rightarrow> rat option" where
  "cost_total task_id s =
     (let rows = task_costs task_id s in
      if rows = [] \<or> list_ex (\<lambda>c. co_cost c = None) rows then None
      else Some (sum_list (map (\<lambda>c. the (co_cost c)) rows)))"

text \<open>
  \<open>WorkflowCostGate.allow_attempt\<close> (\<open>uta/testgen/operations/cost_gate.py\<close>). \<open>caps\<close> gives
  the two cost columns of a task, \<open>multiplier\<close> is the setting (zero counts as 4).
\<close>

datatype gate_error = UnknownOperation | TaskMissing | BudgetExceeded str

definition currency_cap :: "rat option \<Rightarrow> rat option \<Rightarrow> rat \<Rightarrow> rat option" where
  "currency_cap explicit estimated multiplier =
     (case explicit of Some c \<Rightarrow> Some c
      | None \<Rightarrow> map_option (\<lambda>e. e * (if multiplier = 0 then 4 else multiplier)) estimated)"

definition allow_attempt ::
  "(nat \<Rightarrow> (rat option \<times> rat option) option) \<Rightarrow> rat \<Rightarrow> str \<Rightarrow> ledger \<Rightarrow> gate_error + unit" where
  "allow_attempt caps multiplier i s =
     (case get_operation i s of
        None \<Rightarrow> Inl UnknownOperation
      | Some r \<Rightarrow>
         (case caps (op_task r) of
            None \<Rightarrow> Inl TaskMissing
          | Some (explicit, estimated) \<Rightarrow>
             (case currency_cap explicit estimated multiplier of
                None \<Rightarrow> Inr ()
              | Some cap \<Rightarrow>
                 if cap \<le> 0 then Inr ()
                 else if list_ex (\<lambda>c. co_cost c = None) (task_costs (op_task r) s)
                 then Inl (BudgetExceeded ''unknown cost'')
                 else if cap \<le> sum_list (map (\<lambda>c. the (co_cost c)) (task_costs (op_task r) s))
                 then Inl (BudgetExceeded ''cap reached'')
                 else Inr ())))"

end
