(* ===== verification/OperationFacts.thy ===== *)
theory OperationFacts
  imports OperationLedger
begin

text \<open>
  What the ledger promises: a locale states the contract of a log whose closed entries are
  final, the operations and the accounting rows are interpretations of it, and the calls are
  idempotent.
\<close>


section \<open>A log whose closed entries are final\<close>

text \<open>
  The contract a recovery relies on: an entry, once there, is found under its key after every
  later call, and a closed entry is found unchanged.
\<close>

locale final_log =
  fixes lookup :: "'k \<Rightarrow> 's \<Rightarrow> 'r option"
    and closed :: "'r \<Rightarrow> bool"
    and step :: "'c \<Rightarrow> 's \<Rightarrow> 's"
  assumes closed_stays: "lookup k s = Some r \<Longrightarrow> closed r \<Longrightarrow> lookup k (step c s) = Some r"
    and entry_stays: "lookup k s \<noteq> None \<Longrightarrow> lookup k (step c s) \<noteq> None"
begin

definition run :: "'c list \<Rightarrow> 's \<Rightarrow> 's" where
  "run cs s = foldl (\<lambda>s c. step c s) s cs"

lemma run_Nil [simp]: "run [] s = s"
  by (simp add: run_def)

lemma run_Cons [simp]: "run (c # cs) s = run cs (step c s)"
  by (simp add: run_def)

lemma run_append: "run (cs @ ds) s = run ds (run cs s)"
  by (simp add: run_def)

lemma closed_forever: "lookup k s = Some r \<Longrightarrow> closed r \<Longrightarrow> lookup k (run cs s) = Some r"
  by (induction cs arbitrary: s) (auto intro: closed_stays)

lemma entry_forever: "lookup k s \<noteq> None \<Longrightarrow> lookup k (run cs s) \<noteq> None"
proof (induction cs arbitrary: s)
  case (Cons c cs)
  then show ?case using Cons.IH [OF entry_stays [OF Cons.prems]] by simp
qed simp

text \<open>Two runs that both closed an entry closed it the same way if one extends the other.\<close>

lemma closed_once:
  "lookup k (run cs s) = Some r \<Longrightarrow> closed r \<Longrightarrow> lookup k (run (cs @ ds) s) = Some r"
  by (simp add: run_append closed_forever)

end

section \<open>The ledger is such a log\<close>

datatype ledger_call =
    CallStartOp nat op_claim "str option"
  | CallCompleteOp nat str evidence "str option"
  | CallFailOp nat str str str
  | CallCancelOp nat str outcome
  | CallRetryOp nat str op_claim str
  | CallCost str int "rat option" pydict

fun after_ledger_call :: "ledger_call \<Rightarrow> ledger \<Rightarrow> ledger" where
  "after_ledger_call (CallStartOp now c session) s = snd (start_operation now c session s)"
| "after_ledger_call (CallCompleteOp now i e session) s = snd (complete_operation now i e session s)"
| "after_ledger_call (CallFailOp now i k e) s = snd (fail_operation now i k e s)"
| "after_ledger_call (CallCancelOp now i out) s = snd (cancel_operation now i out s)"
| "after_ledger_call (CallRetryOp now i c k) s = snd (retry_operation now i c k s)"
| "after_ledger_call (CallCost i n c u) s = snd (record_cost i n c u s)"

named_theorems ledger_keeps \<open>operations that leave a completed row alone\<close>

lemma get_set_operation:
  "(\<And>r. op_id (f r) = op_id r) \<Longrightarrow> get_operation j (snd (set_operation i p f s))
     = map_option (\<lambda>r. if op_id r = i \<and> p r then f r else r) (get_operation j s)"
  by (simp add: set_operation_def modifies_def get_operation_def table_simps)

lemma get_operation_id: "get_operation i s = Some r \<Longrightarrow> op_id r = i"
  by (auto simp: get_operation_def dest: find_row_Some)

lemma keeps_set_started [ledger_keeps]:
  "op_status r = Completed \<Longrightarrow> (\<And>r. op_id (f r) = op_id r) \<Longrightarrow>
   keeps (\<lambda>s. get_operation j s = Some r) (set_operation i (\<lambda>r. op_status r = Started) f)"
  by (rule keepsI) (simp add: get_set_operation)

lemma keeps_set_other [ledger_keeps]:
  "i \<noteq> j \<Longrightarrow> (\<And>r. op_id (f r) = op_id r) \<Longrightarrow>
   keeps (\<lambda>s. get_operation j s = Some r) (set_operation i p f)"
  by (rule keepsI) (auto simp: get_set_operation dest: get_operation_id)

lemma keeps_insert [ledger_keeps]: "keeps (\<lambda>s. get_operation j s = Some r) (insert_operation x)"
  by (rule keepsI) (simp add: insert_operation_def get_operation_def table_simps)

lemma keeps_require [ledger_keeps]: "keeps P (require_operation i)"
  unfolding require_operation_def by (intro keeps_intros)

lemma finished_ids [simp]:
  "op_id (completed_row now e session r) = op_id r" "op_id (finished_row now st out r) = op_id r"
  "op_id (interrupted_row now k r) = op_id r" "op_id (claimed_row now c session) = cl_id c"
  by (simp_all add: completed_row_def finished_row_def interrupted_row_def claimed_row_def)

lemma keeps_start_op [ledger_keeps]:
  "keeps (\<lambda>s. get_operation j s = Some r) (start_operation now c session)"
  unfolding start_operation_def by (intro keeps_intros ledger_keeps)

lemma keeps_complete_op [ledger_keeps]:
  "op_status r = Completed \<Longrightarrow> keeps (\<lambda>s. get_operation j s = Some r) (complete_operation now i e session)"
  unfolding complete_operation_def by (intro keeps_intros ledger_keeps) auto

lemma keeps_finish_op [ledger_keeps]:
  "op_status r = Completed \<Longrightarrow> keeps (\<lambda>s. get_operation j s = Some r) (finish_operation now i st out)"
  unfolding finish_operation_def by (intro keeps_intros ledger_keeps) auto

lemma retry_completed:
  assumes "get_operation i s = Some r" and "op_status r = Completed"
  shows "snd (retry_operation now i c k s) = s"
  using assms
  by (auto simp: retry_operation_def transaction_def require_operation_def seq_def reads_def ret_def raise_def
      split: option.splits)

lemma keeps_retry_op [ledger_keeps]:
  assumes "op_status r = Completed"
  shows "keeps (\<lambda>s. get_operation j s = Some r) (retry_operation now i c k)"
proof (cases "i = j")
  case True
  then show ?thesis using retry_completed [OF _ assms] by (intro keepsI) simp
next
  case False
  then show ?thesis
    unfolding retry_operation_def by (intro keeps_intros ledger_keeps) auto
qed

lemma keeps_cost_op [ledger_keeps]:
  "keeps (\<lambda>s. get_operation j s = Some r) (record_cost i n c u)"
  unfolding record_cost_def
  by (intro keeps_intros keepsI) (auto simp: Let_def get_operation_def split: option.splits)

lemma completed_stays:
  "get_operation i s = Some r \<Longrightarrow> op_status r = Completed \<Longrightarrow>
   get_operation i (after_ledger_call c s) = Some r"
  by (cases c)
    (auto intro: keepsD [OF _ _ surjective_pairing] ledger_keeps
      simp: fail_operation_def cancel_operation_def)

section \<open>Rows are never removed\<close>

definition has_operation :: "str \<Rightarrow> ledger \<Rightarrow> bool" where
  "has_operation i s = (get_operation i s \<noteq> None)"

named_theorems row_stays \<open>operations that remove no row\<close>

lemma stays_insert [row_stays]: "keeps (has_operation j) (insert_operation x)"
  by (rule keepsI) (auto simp: has_operation_def insert_operation_def get_operation_def table_simps
      split: option.splits)

lemma stays_set [row_stays]:
  "(\<And>r. op_id (f r) = op_id r) \<Longrightarrow> keeps (has_operation j) (set_operation i p f)"
  by (rule keepsI) (simp add: has_operation_def get_set_operation)

lemma stays_cost [row_stays]: "keeps (has_operation j) (record_cost i n c u)"
  unfolding record_cost_def has_operation_def
  by (intro keeps_intros keepsI) (auto simp: Let_def get_operation_def split: option.splits)

lemma stays_calls [row_stays]:
  "keeps (has_operation j) (start_operation now cl session)"
  "keeps (has_operation j) (complete_operation now i e session)"
  "keeps (has_operation j) (finish_operation now i st out)"
  "keeps (has_operation j) (retry_operation now i cl k)"
  unfolding start_operation_def complete_operation_def finish_operation_def retry_operation_def
  by (intro keeps_intros keeps_require row_stays; simp)+

lemma operation_stays: "has_operation i s \<Longrightarrow> has_operation i (after_ledger_call c s)"
  by (cases c)
    (auto intro: keepsD [OF _ _ surjective_pairing] row_stays
      simp: fail_operation_def cancel_operation_def)

interpretation oplog: final_log get_operation "\<lambda>r. op_status r = Completed" after_ledger_call
  by (unfold_locales, erule (1) completed_stays,
      erule operation_stays [unfolded has_operation_def])

section \<open>Paid attempts are facts\<close>

text \<open>The accounting rows are such a log too: every one of them is closed.\<close>

definition get_cost :: "str \<times> int \<Rightarrow> ledger \<Rightarrow> cost_row option" where
  "get_cost k s = find_row (\<lambda>r. (co_operation r, co_attempt r)) k (costs s)"

named_theorems cost_keeps \<open>operations that keep a recorded cost\<close>

lemma cost_insert [cost_keeps]: "keeps (\<lambda>s. get_cost k s = Some r) (insert_operation x)"
  by (rule keepsI) (simp add: insert_operation_def get_cost_def)

lemma cost_set [cost_keeps]: "keeps (\<lambda>s. get_cost k s = Some r) (set_operation i p f)"
  by (rule keepsI) (simp add: set_operation_def modifies_def get_cost_def)

lemma cost_record [cost_keeps]: "keeps (\<lambda>s. get_cost k s = Some r) (record_cost i n c u)"
  unfolding record_cost_def
  by (intro keeps_intros keepsI)
    (auto simp: Let_def get_cost_def table_simps split: option.splits)

lemma cost_calls [cost_keeps]:
  "keeps (\<lambda>s. get_cost k s = Some r) (start_operation now cl session)"
  "keeps (\<lambda>s. get_cost k s = Some r) (complete_operation now i e session)"
  "keeps (\<lambda>s. get_cost k s = Some r) (finish_operation now i st out)"
  "keeps (\<lambda>s. get_cost k s = Some r) (retry_operation now i cl kind)"
  unfolding start_operation_def complete_operation_def finish_operation_def retry_operation_def
  by (intro keeps_intros keeps_require cost_keeps)+

lemma cost_stays: "get_cost k s = Some r \<Longrightarrow> get_cost k (after_ledger_call c s) = Some r"
  by (cases c)
    (auto intro: keepsD [OF _ _ surjective_pairing] cost_keeps
      simp: fail_operation_def cancel_operation_def)

interpretation costlog: final_log get_cost "\<lambda>r. True" after_ledger_call
  by unfold_locales (auto dest: cost_stays)

section \<open>Properties of the ledger\<close>

text \<open>
  C19: Once an operation is completed, its row with the evidence is found unchanged after any
  sequence of calls on the ledger, whether they return or raise.
\<close>

theorem completed_is_final:
  assumes "get_operation i s = Some r" and "op_status r = Completed"
  shows "get_operation i (foldl (\<lambda>s c. after_ledger_call c s) s calls) = Some r"
  using oplog.closed_forever [OF assms] by (simp add: oplog.run_def)

text \<open>
  The cost and the usage recorded for a paid attempt are found unchanged after any
  sequence of calls on the ledger.
\<close>

theorem cost_is_final:
  assumes "find_row (\<lambda>r. (co_operation r, co_attempt r)) (i, n) (costs s) = Some r"
  shows "find_row (\<lambda>r. (co_operation r, co_attempt r)) (i, n)
      (costs (foldl (\<lambda>s c. after_ledger_call c s) s calls)) = Some r"
  using costlog.closed_forever [of "(i, n)" s r calls] assms by (simp add: costlog.run_def get_cost_def)

lemma require_Some: "get_operation i s = Some r \<Longrightarrow> require_operation i s = (Inr r, s)"
  by (simp add: require_operation_def ret_def)

lemma require_None: "get_operation i s = None \<Longrightarrow> require_operation i s = (Inl OperationMissing, s)"
  by (simp add: require_operation_def raise_def)

lemma start_cases:
  "start_operation now c session s = (case get_operation (cl_id c) s of
     Some r \<Rightarrow> if same_claim c session r then (Inr r, s)
       else (Inl (OperationConflict ''conflicts with stored identity''), s)
   | None \<Rightarrow> if slot_step (cl_slot c) \<in> set operation_steps \<and> 0 \<le> slot_attempt (cl_slot c)
         \<and> 0 \<le> cl_ordinal c \<and> slot_task (cl_slot c) \<in> set (known_tasks s)
       then (Inr (claimed_row now c session),
         s\<lparr>operations := operations s @ [claimed_row now c session]\<rparr>)
       else (Inl ConstraintError, s))"
  by (auto simp: start_operation_def transaction_def ret_def raise_def andthen_eq insert_operation_def
      get_operation_def require_operation_def table_simps claimed_row_def split: option.splits)

lemma claimed_same: "same_claim c session (claimed_row now c session)"
  by (simp add: same_claim_def claimed_row_def in_slot_def)

text \<open>
  Claiming an operation again with the same input returns the stored row and changes
  nothing; a claim of the same id with any other input is refused.
\<close>

theorem claim_is_idempotent:
  assumes "start_operation now c session s = (Inr r, s')"
  shows "start_operation later c session s' = (Inr r, s')
     \<and> get_operation (cl_id c) s' = Some r
     \<and> (\<forall>c2 session2. cl_id c2 = cl_id c \<longrightarrow> \<not> same_claim c2 session2 r \<longrightarrow>
          start_operation later c2 session2 s'
            = (Inl (OperationConflict ''conflicts with stored identity''), s'))"
proof -
  have "get_operation (cl_id c) s' = Some r \<and> same_claim c session r"
    using assms claimed_same [of c session now]
    by (auto simp: start_cases get_operation_def table_simps split: option.splits if_splits)
  then show ?thesis by (simp add: start_cases)
qed

lemma complete_cases:
  "complete_operation now i e session s = (case get_operation i s of
     None \<Rightarrow> (Inl OperationMissing, s)
   | Some r \<Rightarrow>
      if op_status r = Completed then
        (if \<not> same_evidence e r then (Inl (OperationConflict ''already completed with different evidence''), s)
         else if session \<noteq> None \<and> op_session r \<noteq> session
           then (Inl (OperationConflict ''already completed with a different session''), s)
         else (Inr r, s))
      else if op_status r \<noteq> Started
        then (Inl (OperationConflict ''cannot complete from this status''), s)
      else (Inr (completed_row now e session r),
        s\<lparr>operations := update_rows (\<lambda>r. op_id r = i \<and> op_status r = Started)
            (completed_row now e session) (operations s)\<rparr>))"
proof (cases "get_operation i s")
  case None
  then show ?thesis
    by (simp add: complete_operation_def transaction_def seq_def require_None)
next
  case (Some r)
  let ?s = "s\<lparr>operations := update_rows (\<lambda>r. op_id r = i \<and> op_status r = Started)
            (completed_row now e session) (operations s)\<rparr>"
  have "get_operation i ?s = Some (completed_row now e session r)" if "op_status r = Started"
    using get_set_operation [of "completed_row now e session" i i "\<lambda>r. op_status r = Started" s]
      Some that get_operation_id [OF Some] by (simp add: set_operation_def modifies_def)
  then have "require_operation i ?s = (Inr (completed_row now e session r), ?s)"
    if "op_status r = Started" using that by (simp add: require_Some)
  with Some show ?thesis
    by (auto simp: complete_operation_def transaction_def seq_def require_Some raise_def ret_def andthen_eq
        set_operation_def modifies_def)
qed

text \<open>
  A result is recorded once: recording it again changes nothing, other evidence is refused,
  and only a claimed operation can be completed.
\<close>

text \<open>
  Only a claimed operation is completed; completing it again with the same evidence
  returns the stored row and changes nothing, and other evidence is refused.
\<close>

theorem completion_is_idempotent:
  assumes "complete_operation now i e session s = (Inr r, s')"
  shows "op_status r = Completed \<and> same_evidence e r \<and> get_operation i s' = Some r
     \<and> complete_operation later i e session s' = (Inr r, s')
     \<and> (\<exists>r0. get_operation i s = Some r0 \<and> (op_status r0 = Started \<or> r0 = r \<and> s' = s))
     \<and> (\<forall>e2 session2. \<not> same_evidence e2 r \<longrightarrow> complete_operation later i e2 session2 s'
          = (Inl (OperationConflict ''already completed with different evidence''), s'))"
proof -
  obtain r0 where r0: "get_operation i s = Some r0"
    using assms by (auto simp: complete_cases split: option.splits)
  have facts: "op_status r = Completed \<and> same_evidence e r \<and> get_operation i s' = Some r
      \<and> (op_status r0 = Started \<or> r0 = r \<and> s' = s) \<and> (session \<noteq> None \<longrightarrow> op_session r = session)"
  proof (cases "op_status r0 = Started")
    case True
    then have "r = completed_row now e session r0"
      and "s' = s\<lparr>operations := update_rows (\<lambda>r. op_id r = i \<and> op_status r = Started)
            (completed_row now e session) (operations s)\<rparr>"
      using assms r0 by (auto simp: complete_cases)
    then show ?thesis
      using get_set_operation [of "completed_row now e session" i i "\<lambda>r. op_status r = Started" s]
        r0 True get_operation_id [OF r0]
      by (auto simp: set_operation_def modifies_def completed_row_def same_evidence_def coalesce_def)
  next
    case False
    then show ?thesis
      using assms r0 by (auto simp: complete_cases split: if_splits)
  qed
  then show ?thesis using r0 by (auto simp: complete_cases)
qed

lemma finish_cases:
  "finish_operation now i st out s = (case get_operation i s of
     None \<Rightarrow> (Inl OperationMissing, s)
   | Some r \<Rightarrow>
      if op_status r = st then
        (if same_outcome out r then (Inr r, s)
         else (Inl (OperationConflict ''has different evidence''), s))
      else if op_status r \<noteq> Started
        then (Inl (OperationConflict ''cannot become this status''), s)
      else (Inr (finished_row now st out r),
        s\<lparr>operations := update_rows (\<lambda>r. op_id r = i \<and> op_status r = Started)
            (finished_row now st out) (operations s)\<rparr>))"
proof (cases "get_operation i s")
  case None
  then show ?thesis
    by (simp add: finish_operation_def transaction_def seq_def require_None)
next
  case (Some r)
  let ?s = "s\<lparr>operations := update_rows (\<lambda>r. op_id r = i \<and> op_status r = Started)
            (finished_row now st out) (operations s)\<rparr>"
  have "get_operation i ?s = Some (finished_row now st out r)" if "op_status r = Started"
    using get_set_operation [of "finished_row now st out" i i "\<lambda>r. op_status r = Started" s]
      Some that get_operation_id [OF Some] by (simp add: set_operation_def modifies_def)
  then have "require_operation i ?s = (Inr (finished_row now st out r), ?s)"
    if "op_status r = Started" using that by (simp add: require_Some)
  with Some show ?thesis
    by (auto simp: finish_operation_def transaction_def seq_def require_Some raise_def ret_def andthen_eq
        set_operation_def modifies_def)
qed

definition retried :: "nat \<Rightarrow> str \<Rightarrow> op_claim \<Rightarrow> str \<Rightarrow> bool \<Rightarrow> ledger \<Rightarrow> ledger" where
  "retried now i c k running s = s\<lparr>operations := update_rows (\<lambda>r. op_id r = i)
     (\<lambda>r. r\<lparr>op_successor := Some (cl_id c), op_updated := now\<rparr>)
     ((if running then update_rows (\<lambda>r. op_id r = i \<and> op_status r = Started) (interrupted_row now k)
         (operations s) else operations s) @ [claimed_row now c None])\<rparr>"

lemma get_retried:
  assumes "get_operation (cl_id c) s = None"
  shows "get_operation j (retried now i c k running s)
    = map_option (\<lambda>r. if op_id r = i then r\<lparr>op_successor := Some (cl_id c), op_updated := now\<rparr> else r)
        (if j = cl_id c then Some (claimed_row now c None)
         else map_option (\<lambda>r. if running \<and> op_id r = i \<and> op_status r = Started
             then interrupted_row now k r else r) (get_operation j s))"
  using assms
  by (cases running)
    (auto simp: retried_def get_operation_def table_simps option.map_comp comp_def split: option.splits)

lemma retry_fresh:
  assumes old: "get_operation i s = Some old" and "op_successor old = None \<or> op_successor old = Some []"
    and "cl_id c \<noteq> i"
  shows "retry_operation now i c k s =
    (if op_status old \<notin> {Started, Failed, Cancelled}
     then (Inl (OperationConflict ''cannot be retried from this status''), s)
     else if slot_step (cl_slot c) \<in> set operation_steps \<and> 0 \<le> slot_attempt (cl_slot c)
         \<and> 0 \<le> cl_ordinal c \<and> slot_task (cl_slot c) \<in> set (known_tasks s)
         \<and> get_operation (cl_id c) s = None
     then (Inr (claimed_row now c None), retried now i c k (op_status old = Started) s)
     else (Inl ConstraintError, s))"
proof -
  define s1 where "s1 = (if op_status old = Started then s\<lparr>operations := update_rows
      (\<lambda>r. op_id r = i \<and> op_status r = Started) (interrupted_row now k) (operations s)\<rparr> else s)"
  have s1: "(if op_status old = Started
      then set_operation i (\<lambda>r. op_status r = Started) (interrupted_row now k) else ret ()) s = (Inr (), s1)"
    by (simp add: s1_def set_operation_def modifies_def ret_def)
  have k1: "known_tasks s1 = known_tasks s" by (simp add: s1_def)
  have none: "get_operation (cl_id c) s1 = None \<longleftrightarrow> get_operation (cl_id c) s = None"
    by (simp add: s1_def get_operation_def table_simps)
  define ok where "ok = (slot_step (cl_slot c) \<in> set operation_steps \<and> 0 \<le> slot_attempt (cl_slot c)
         \<and> 0 \<le> cl_ordinal c \<and> slot_task (cl_slot c) \<in> set (known_tasks s)
         \<and> get_operation (cl_id c) s = None)"
  have ins: "insert_operation (claimed_row now c None) s1
      = (if ok then (Inr (), s1\<lparr>operations := operations s1 @ [claimed_row now c None]\<rparr>)
         else (Inl ConstraintError, s1))"
    unfolding ok_def insert_operation_def by (simp add: none k1) (auto simp: claimed_row_def)
  define s3 where "s3 = retried now i c k (op_status old = Started) s"
  have s3: "set_operation i (\<lambda>r. True) (\<lambda>r. r\<lparr>op_successor := Some (cl_id c), op_updated := now\<rparr>)
      (s1\<lparr>operations := operations s1 @ [claimed_row now c None]\<rparr>) = (Inr (), s3)"
    by (simp add: s3_def retried_def s1_def set_operation_def modifies_def)
  have req: "ok \<Longrightarrow> require_operation (cl_id c) s3 = (Inr (claimed_row now c None), s3)"
    unfolding s3_def ok_def
    by (rule require_Some) (simp add: get_retried assms(3))
  have nosucc: "\<not> (op_successor old \<noteq> None \<and> op_successor old \<noteq> Some [])" using assms(2) by auto
  have "retry_operation now i c k s =
    (if op_status old \<notin> {Started, Failed, Cancelled}
     then (Inl (OperationConflict ''cannot be retried from this status''), s)
     else if ok then (Inr (claimed_row now c None), s3) else (Inl ConstraintError, s))"
  proof -
    have body: "andthen (if op_status old = Started
          then set_operation i (\<lambda>r. op_status r = Started) (interrupted_row now k) else ret ())
       (andthen (insert_operation (claimed_row now c None))
       (andthen (set_operation i (\<lambda>r. True)
          (\<lambda>r. r\<lparr>op_successor := Some (cl_id c), op_updated := now\<rparr>))
         (require_operation (cl_id c)))) s
      = (if ok then (Inr (claimed_row now c None), s3) else (Inl ConstraintError, s1))"
      by (subst andthen_eq, subst s1) (simp add: andthen_eq ins s3 req)
    show ?thesis
      unfolding retry_operation_def transaction_def seq_run [of "require_operation i", OF require_Some [OF old]] if_not_P [OF nosucc]
      by (cases "op_status old \<in> {Started, Failed, Cancelled}")
        (simp_all add: body raise_def del: not_None_eq)
  qed
  then show ?thesis by (simp only: ok_def s3_def)
qed

lemma retry_closed:
  assumes "get_operation i s = Some old" and "op_successor old = Some j" and "j \<noteq> []"
  shows "retry_operation now i c k s = (if j \<noteq> cl_id c
      then (Inl (OperationConflict ''already has another successor''), s)
      else case get_operation j s of None \<Rightarrow> (Inl OperationMissing, s) | Some r \<Rightarrow> (Inr r, s))"
  using assms
  by (auto simp: retry_operation_def transaction_def seq_def require_Some require_None raise_def
      split: option.splits)

text \<open>
  A retry closes an interrupted execution and starts one successor; repeating it returns
  that successor, and no second successor is ever started.
\<close>

theorem retry_has_one_successor:
  assumes "retry_operation now i c k s = (Inr r, s')" and "cl_id c \<noteq> []" and "cl_id c \<noteq> i"
  shows "get_operation (cl_id c) s' = Some r
     \<and> map_option op_successor (get_operation i s') = Some (Some (cl_id c))
     \<and> retry_operation later i c k s' = (Inr r, s')
     \<and> (\<forall>c2. cl_id c2 \<noteq> cl_id c \<longrightarrow> retry_operation later i c2 k s'
          = (Inl (OperationConflict ''already has another successor''), s'))
     \<and> (s' \<noteq> s \<longrightarrow> op_status r = Started \<and> map_option op_status (get_operation i s') \<noteq> Some Started)"
proof -
  obtain old where old: "get_operation i s = Some old"
    using assms(1) by (cases "get_operation i s")
      (auto simp: retry_operation_def transaction_def seq_def require_None)
  have done_: "get_operation (cl_id c) s' = Some r
     \<and> map_option op_successor (get_operation i s') = Some (Some (cl_id c))
     \<and> (s' \<noteq> s \<longrightarrow> op_status r = Started \<and> map_option op_status (get_operation i s') \<noteq> Some Started)"
  proof (cases "op_successor old = None \<or> op_successor old = Some []")
    case True
    with assms(1) retry_fresh [OF old True assms(3)] have s':
      "op_status old \<in> {Started, Failed, Cancelled}" "get_operation (cl_id c) s = None"
      "r = claimed_row now c None" "s' = retried now i c k (op_status old = Started) s"
      by (auto split: if_splits)
    then show ?thesis
      using assms(3) old get_operation_id [OF old]
      by (auto simp: get_retried interrupted_row_def) (auto simp: claimed_row_def)
  next
    case False
    then obtain j where j: "op_successor old = Some j" "j \<noteq> []" by auto
    then show ?thesis
      using assms(1) retry_closed [OF old j] old by (auto split: if_splits option.splits)
  qed
  then obtain old' where old': "get_operation i s' = Some old'" "op_successor old' = Some (cl_id c)"
    by auto
  from done_ show ?thesis
    using retry_closed [OF old' assms(2)] by simp
qed


section \<open>A sample ledger\<close>

definition sample_slot :: op_slot where
  "sample_slot = \<lparr>slot_task = 1, slot_run = ''run1'', slot_unit = ''unit1'', slot_phase = ''plan'',
     slot_step = ''interpret'', slot_attempt = 0\<rparr>"

definition sample_claim :: op_claim where
  "sample_claim = \<lparr>cl_id = ''op1'', cl_slot = sample_slot, cl_ordinal = 0, cl_input = ''f0'',
     cl_prerequisites = [], cl_schema = 1\<rparr>"

definition sample_evidence :: evidence where
  "sample_evidence = \<lparr>ev_workspace = ''f1'', ev_path = ''run1/unit1/op1.json'', ev_sha = ''s1'',
     ev_outputs = []\<rparr>"

definition sample_ledger :: ledger where
  "sample_ledger = \<lparr>known_tasks = [1], operations = [claimed_row 0 sample_claim None], costs = []\<rparr>"

lemma sample_get: "get_operation ''op1'' sample_ledger = Some (claimed_row 0 sample_claim None)"
  by (simp add: get_operation_def sample_ledger_def table_simps sample_claim_def)

theorem completed_is_final_witness:
  "get_operation ''op1'' (foldl (\<lambda>s c. after_ledger_call c s)
      (sample_ledger\<lparr>operations := [completed_row 1 sample_evidence None (claimed_row 0 sample_claim None)]\<rparr>)
      [CallFailOp 2 ''op1'' ''k'' ''e'', CallRetryOp 3 ''op1'' sample_claim ''k''])
    = Some (completed_row 1 sample_evidence None (claimed_row 0 sample_claim None))"
  by (rule completed_is_final)
    (simp_all add: get_operation_def table_simps sample_claim_def completed_row_def claimed_row_def)

theorem cost_is_final_witness:
  "find_row (\<lambda>r. (co_operation r, co_attempt r)) (''op1'', 1) (costs (foldl (\<lambda>s c. after_ledger_call c s)
      (sample_ledger\<lparr>costs := [\<lparr>co_operation = ''op1'', co_attempt = 1, co_cost = Some 2, co_usage = []\<rparr>]\<rparr>)
      [CallCost ''op1'' 1 (Some 3) []]))
    = Some \<lparr>co_operation = ''op1'', co_attempt = 1, co_cost = Some 2, co_usage = []\<rparr>"
  by (rule cost_is_final) (simp add: table_simps)

definition next_claim :: op_claim where
  "next_claim = sample_claim\<lparr>cl_id := ''op2'', cl_ordinal := 1\<rparr>"

lemma start_next: "start_operation 1 next_claim None sample_ledger
   = (Inr (claimed_row 1 next_claim None), sample_ledger\<lparr>operations :=
       operations sample_ledger @ [claimed_row 1 next_claim None]\<rparr>)"
  by (simp add: start_cases get_operation_def sample_ledger_def table_simps next_claim_def sample_claim_def
      sample_slot_def operation_steps_def)

theorem claim_is_idempotent_witness:
  "start_operation 2 next_claim None (sample_ledger\<lparr>operations :=
       operations sample_ledger @ [claimed_row 1 next_claim None]\<rparr>)
    = (Inr (claimed_row 1 next_claim None), sample_ledger\<lparr>operations :=
       operations sample_ledger @ [claimed_row 1 next_claim None]\<rparr>)"
  using claim_is_idempotent [OF start_next, of 2] by blast

theorem completion_is_idempotent_witness:
  "\<exists>r s'. complete_operation 1 ''op1'' sample_evidence None sample_ledger = (Inr r, s')
     \<and> complete_operation 2 ''op1'' sample_evidence None s' = (Inr r, s') \<and> op_status r = Completed"
proof -
  have "\<exists>r s'. complete_operation 1 ''op1'' sample_evidence None sample_ledger = (Inr r, s')"
    by (simp add: complete_cases sample_get) (simp add: claimed_row_def)
  then obtain r s' where run: "complete_operation 1 ''op1'' sample_evidence None sample_ledger = (Inr r, s')"
    by blast
  with completion_is_idempotent [OF run, of 2] show ?thesis by blast
qed

theorem retry_has_one_successor_witness:
  "\<exists>s'. retry_operation 1 ''op1'' next_claim ''crash'' sample_ledger
      = (Inr (claimed_row 1 next_claim None), s')
     \<and> retry_operation 2 ''op1'' next_claim ''crash'' s' = (Inr (claimed_row 1 next_claim None), s')"
proof -
  have ne: "cl_id next_claim \<noteq> []" "cl_id next_claim \<noteq> ''op1''"
    by (simp_all add: next_claim_def sample_claim_def)
  have run: "retry_operation 1 ''op1'' next_claim ''crash'' sample_ledger
      = (Inr (claimed_row 1 next_claim None), retried 1 ''op1'' next_claim ''crash'' True sample_ledger)"
    using retry_fresh [OF sample_get _ ne(2), of 1 "''crash''"]
    by (simp add: claimed_row_def [of 0])
      (simp add: next_claim_def sample_claim_def sample_slot_def operation_steps_def sample_ledger_def
        get_operation_def table_simps)
  show ?thesis using retry_has_one_successor [OF run ne, of 2] run by blast
qed

end
