(* ===== verification/Reconciliation.thy ===== *)
theory Reconciliation
  imports OperationFacts
begin

text \<open>
  Crash reconciliation of workflow operations: \<open>uta/testgen/operations/\<close> (\<open>models.py\<close>,
  \<open>artifact_store.py\<close>, \<open>reconciliation.py\<close>, \<open>ledger.py\<close>).

  What is not code of the repository is an argument: the record \<open>ports\<close> holds the hash of
  the operation id, \<open>str\<close> on values that are no strings, the secure artifact store of
  agent-core (reading a name with and without a digest, writing a name once, over files of
  any type) and the three callbacks that a backend passes to the ledger.
\<close>

section \<open>Identities and envelopes\<close>

record op_identity =
  id_run :: str
  id_unit :: str
  id_phase :: str
  id_step :: str
  id_attempt :: int
  id_ordinal :: int
  id_input :: str

record 'f ports =
  digest :: "str \<Rightarrow> str"
  shown :: "pyval \<Rightarrow> str"
  read_verified :: "'f \<Rightarrow> str \<Rightarrow> str \<Rightarrow> pyval option"
  read_existing :: "'f \<Rightarrow> str \<Rightarrow> (pyval \<times> str) option option"
  write_once :: "'f \<Rightarrow> str \<Rightarrow> pyval \<Rightarrow> (str \<times> 'f) option"
  workspace_now :: "str \<Rightarrow> str \<Rightarrow> str"
  outputs_now :: "str \<Rightarrow> str \<Rightarrow> fingerprints"
  edit_allowed :: "op_row \<Rightarrow> bool"
  max_replays :: nat

datatype recon_error = ArtifactInvalid str | LedgerFailed ledger_error

definition identity_fields :: "op_identity \<Rightarrow> str list" where
  "identity_fields i = [id_run i, id_unit i, id_phase i, id_step i, int_str (id_attempt i),
     int_str (id_ordinal i), id_input i]"

fun join_nul :: "str list \<Rightarrow> str" where
  "join_nul [] = []"
| "join_nul [x] = x"
| "join_nul (x # xs) = x @ CHR 0x00 # join_nul xs"

definition operation_id :: "'f ports \<Rightarrow> op_identity \<Rightarrow> str" where
  "operation_id p i = digest p (join_nul (identity_fields i))"

text \<open>The pattern of a safe path component.\<close>

definition id_first :: "char \<Rightarrow> bool" where
  "id_first c = (py_isdigit c \<or> (65 \<le> code c \<and> code c \<le> 90) \<or> (97 \<le> code c \<and> code c \<le> 122))"

definition id_rest :: "char \<Rightarrow> bool" where
  "id_rest c = (id_first c \<or> c \<in> set ''._-'')"

definition safe_identifier :: "str \<Rightarrow> bool" where
  "safe_identifier s = (case s of [] \<Rightarrow> False
     | c # cs \<Rightarrow> id_first c \<and> list_all id_rest cs \<and> length cs \<le> 127)"

definition valid_identity :: "op_identity \<Rightarrow> bool" where
  "valid_identity i = (safe_identifier (id_run i) \<and> safe_identifier (id_unit i)
     \<and> safe_identifier (id_phase i) \<and> id_step i \<in> set operation_steps
     \<and> 0 \<le> id_attempt i \<and> 0 \<le> id_ordinal i \<and> id_input i \<noteq> [])"

record envelope =
  en_identity :: op_identity
  en_kind :: str
  en_result :: pydict
  en_workspace :: str
  en_outputs :: fingerprints
  en_prerequisites :: "str list"
  en_schema :: int

definition valid_envelope :: "envelope \<Rightarrow> bool" where
  "valid_envelope e = (valid_identity (en_identity e) \<and> en_schema e = 1
     \<and> en_kind e \<in> set [''turn'', ''phase''] \<and> en_workspace e \<noteq> []
     \<and> list_all (\<lambda>(k, v). k \<noteq> [] \<and> v \<noteq> []) (en_outputs e)
     \<and> list_all (\<lambda>i. i \<noteq> []) (en_prerequisites e))"

definition identity_dict :: "op_identity \<Rightarrow> pydict" where
  "identity_dict i = [(''workflow_run_id'', PStr (id_run i)), (''unit_id'', PStr (id_unit i)),
     (''phase'', PStr (id_phase i)), (''operation_step'', PStr (id_step i)),
     (''logical_attempt'', PInt (id_attempt i)), (''execution_ordinal'', PInt (id_ordinal i)),
     (''input_fingerprint'', PStr (id_input i))]"

definition envelope_dict :: "'f ports \<Rightarrow> envelope \<Rightarrow> pydict option" where
  "envelope_dict p e = (if \<not> valid_envelope e then None else Some
     [(''envelope_schema_version'', PInt (en_schema e)),
      (''operation_id'', PStr (operation_id p (en_identity e))),
      (''identity'', PDict (identity_dict (en_identity e))),
      (''result_kind'', PStr (en_kind e)),
      (''result'', PDict (en_result e)),
      (''resulting_workspace_fingerprint'', PStr (en_workspace e)),
      (''output_fingerprints'', PDict (map (\<lambda>(k, v). (k, PStr v)) (en_outputs e))),
      (''prerequisite_operation_ids'', PList (map PStr (en_prerequisites e)))])"

text \<open>\<open>str(v)\<close>.\<close>

definition py_str :: "'f ports \<Rightarrow> pyval \<Rightarrow> str" where
  "py_str p v = (case v of PStr s \<Rightarrow> s | _ \<Rightarrow> shown p v)"

text \<open>
  \<open>OperationIdentity(**dict(...))\<close> with \<open>validate\<close>: exactly the seven fields, strings and
  integers. Every other type raises, here or in the computation of the operation id; a Boolean
  or a float in place of an integer is not modelled.
\<close>

definition identity_keys :: "str list" where
  "identity_keys = [''workflow_run_id'', ''unit_id'', ''phase'', ''operation_step'',
     ''logical_attempt'', ''execution_ordinal'', ''input_fingerprint'']"

definition str_field :: "pydict \<Rightarrow> str \<Rightarrow> str option" where
  "str_field d k = (case get d k of PStr s \<Rightarrow> Some s | _ \<Rightarrow> None)"

definition int_field :: "pydict \<Rightarrow> str \<Rightarrow> int option" where
  "int_field d k = (case get d k of PInt n \<Rightarrow> Some n | _ \<Rightarrow> None)"

definition identity_from :: "pydict \<Rightarrow> op_identity option" where
  "identity_from d =
     (if \<not> (list_all (\<lambda>k. k \<in> set identity_keys) (map fst d)
           \<and> list_all (\<lambda>k. has_key d k) identity_keys) then None
      else
        (case (map (str_field d) [''workflow_run_id'', ''unit_id'', ''phase'', ''operation_step'',
                 ''input_fingerprint''],
               map (int_field d) [''logical_attempt'', ''execution_ordinal'']) of
           ([Some r, Some u, Some p, Some s, Some f], [Some a, Some n]) \<Rightarrow>
             (let i = \<lparr>id_run = r, id_unit = u, id_phase = p, id_step = s, id_attempt = a,
                id_ordinal = n, id_input = f\<rparr> in
              if valid_identity i then Some i else None)
         | _ \<Rightarrow> None))"

text \<open>Python's \<open>list(v or ())\<close> and \<open>dict(v or {})\<close> on JSON values.\<close>

definition list_or_empty :: "pyval \<Rightarrow> pyval list option" where
  "list_or_empty v = (if \<not> truthy v then Some []
     else (case v of PList xs \<Rightarrow> Some xs | PStr s \<Rightarrow> Some (map (\<lambda>c. PStr [c]) s)
        | PDict d \<Rightarrow> Some (map (\<lambda>(k, _). PStr k) d) | _ \<Rightarrow> None))"

text \<open>\<open>dict(v)\<close> also accepts a list whose items are pairs; their keys are strings here.\<close>

definition pair_of :: "pyval \<Rightarrow> (str \<times> pyval) option" where
  "pair_of v = (case v of PList [PStr k, x] \<Rightarrow> Some (k, x)
     | PStr [a, b] \<Rightarrow> Some ([a], PStr [b])
     | PDict [(a, _), (b, _)] \<Rightarrow> Some (a, PStr b)
     | _ \<Rightarrow> None)"

definition py_dict :: "pyval \<Rightarrow> pydict option" where
  "py_dict v = (case v of PDict d \<Rightarrow> Some d
     | PList xs \<Rightarrow> if list_all (\<lambda>x. pair_of x \<noteq> None) xs
         then Some (foldl (\<lambda>d x. dict_set (fst (the (pair_of x))) (snd (the (pair_of x))) d) [] xs)
         else None
     | PStr s \<Rightarrow> if s = [] then Some [] else None
     | _ \<Rightarrow> None)"

definition dict_or_empty :: "pyval \<Rightarrow> pydict option" where
  "dict_or_empty v = (if \<not> truthy v then Some [] else py_dict v)"

definition envelope_from :: "'f ports \<Rightarrow> pyval \<Rightarrow> envelope option" where
  "envelope_from p payload =
     (case payload of PDict d \<Rightarrow>
        (case (py_dict (get d ''identity''), py_dict (get d ''result''),
               dict_or_empty (get d ''output_fingerprints''),
               list_or_empty (get d ''prerequisite_operation_ids''),
               py_int (get d ''envelope_schema_version'')) of
           (Some i, Some r, Some outs, Some pre, Some version) \<Rightarrow>
             (case identity_from i of None \<Rightarrow> None
              | Some identity \<Rightarrow>
                 if \<not> (has_key d ''result_kind'' \<and> has_key d ''resulting_workspace_fingerprint'')
                 then None
                 else
                   (let e = \<lparr>en_identity = identity, en_kind = py_str p (get d ''result_kind''),
                       en_result = r,
                       en_workspace = py_str p (get d ''resulting_workspace_fingerprint''),
                       en_outputs = map (\<lambda>(k, v). (k, py_str p v)) outs,
                       en_prerequisites = map (py_str p) pre, en_schema = version\<rparr> in
                    if valid_envelope e \<and> get d ''operation_id'' = PStr (operation_id p identity)
                    then Some e else None))
         | _ \<Rightarrow> None)
      | _ \<Rightarrow> None)"

section \<open>Artifacts\<close>

text \<open>\<open>_name\<close> validates the identity; \<open>None\<close> is an \<open>ArtifactValidationError\<close>.\<close>

definition artifact_name :: "'f ports \<Rightarrow> op_identity \<Rightarrow> str option" where
  "artifact_name p i = (if valid_identity i
     then Some (id_run i @ ''/'' @ id_unit i @ ''/'' @ operation_id p i @ ''.json'') else None)"

definition path_parts :: "str \<Rightarrow> str list" where
  "path_parts s = filter (\<lambda>x. x \<noteq> [] \<and> x \<noteq> ''.'') (split_on (CHR ''/'') s)"

definition validated_path :: "str \<Rightarrow> str option" where
  "validated_path s = (if startswith s ''/'' then None
     else (case path_parts s of
        [r, u, f] \<Rightarrow>
          if safe_identifier r \<and> safe_identifier u \<and> endswith f ''.json''
             \<and> safe_identifier (take (length f - 5) f)
          then Some (r @ ''/'' @ u @ ''/'' @ f) else None
      | _ \<Rightarrow> None))"

definition read_artifact :: "'f ports \<Rightarrow> 'f \<Rightarrow> str \<Rightarrow> str \<Rightarrow> envelope option" where
  "read_artifact p fs path sha = (case validated_path path of None \<Rightarrow> None
     | Some name \<Rightarrow> (case read_verified p fs name sha of None \<Rightarrow> None
        | Some payload \<Rightarrow> envelope_from p payload))"

text \<open>\<open>read_for_identity\<close>: \<open>None\<close> raises, \<open>Some None\<close> means there is no artifact.\<close>

definition read_for_identity ::
  "'f ports \<Rightarrow> 'f \<Rightarrow> op_identity \<Rightarrow> (envelope \<times> str) option option" where
  "read_for_identity p fs i = (case artifact_name p i of None \<Rightarrow> None
     | Some name \<Rightarrow> (case read_existing p fs name of
          None \<Rightarrow> None
        | Some None \<Rightarrow> Some None
        | Some (Some (payload, sha)) \<Rightarrow>
            (case envelope_from p payload of None \<Rightarrow> None
             | Some e \<Rightarrow> if en_identity e \<noteq> i then None else Some (Some (e, sha)))))"

definition write_artifact ::
  "'f ports \<Rightarrow> 'f \<Rightarrow> envelope \<Rightarrow> ((str \<times> str) \<times> 'f) option" where
  "write_artifact p fs e = (case envelope_dict p e of None \<Rightarrow> None
     | Some d \<Rightarrow> (case artifact_name p (en_identity e) of None \<Rightarrow> None
        | Some name \<Rightarrow> (case write_once p fs name (PDict d) of None \<Rightarrow> None
           | Some (sha, fs') \<Rightarrow> Some ((name, sha), fs'))))"

section \<open>The state of a run\<close>

text \<open>
  What the methods read from the workflow state; \<open>None\<close> where the key is missing or does not
  convert. \<open>st_attempts\<close> are the two dictionaries that may hold the attempts.
\<close>

record op_state =
  st_task :: "nat option"
  st_run :: "str option"
  st_unit :: "str option"
  st_attempts_by_phase :: "(str \<times> int) list"
  st_attempts :: "(str \<times> int) list"
  st_prerequisites :: "str list"
  st_operation :: "str option"

record 'f world =
  w_ledger :: ledger
  w_files :: 'f

type_synonym ('f, 'a) recon_prog = "('f world, recon_error, 'a) prog"

definition on_ledger :: "'a ledger_prog \<Rightarrow> ('f, 'a) recon_prog" where
  "on_ledger m w = (case m (w_ledger w) of
     (Inl e, s) \<Rightarrow> (Inl (LedgerFailed e), w\<lparr>w_ledger := s\<rparr>)
   | (Inr x, s) \<Rightarrow> (Inr x, w\<lparr>w_ledger := s\<rparr>))"

definition previous_operation :: "op_state \<Rightarrow> ledger \<Rightarrow> op_row option" where
  "previous_operation st s = (case st_operation st of None \<Rightarrow> None
     | Some i \<Rightarrow> if i = [] then None else get_operation i s)"

definition logical_attempt :: "op_state \<Rightarrow> str \<Rightarrow> int" where
  "logical_attempt st phase =
     (let d = (if st_attempts_by_phase st \<noteq> [] then st_attempts_by_phase st else st_attempts st) in
      case map_of d phase of None \<Rightarrow> 0 | Some n \<Rightarrow> n)"

definition state_parts ::
  "op_state \<Rightarrow> str \<Rightarrow> str \<Rightarrow> ledger \<Rightarrow> recon_error + op_slot \<times> str list" where
  "state_parts st phase step s =
     (case (st_task st, st_run st, st_unit st) of
        (Some t, Some r, Some u) \<Rightarrow>
          (let attempt = logical_attempt st phase;
               previous = (case previous_operation st s of
                   None \<Rightarrow> []
                 | Some row \<Rightarrow>
                     if \<not> (op_phase row = phase \<and> op_step row = step \<and> op_attempt row = attempt)
                        \<and> op_status row = Completed
                     then [op_id row] else []) in
           Inr (\<lparr>slot_task = t, slot_run = r, slot_unit = u, slot_phase = phase, slot_step = step,
                  slot_attempt = attempt\<rparr>, dedup (st_prerequisites st @ previous)))
      | _ \<Rightarrow> Inl (ArtifactInvalid ''workflow operation state needs task_id, workflow_run_id and unit_id''))"

definition row_from_state :: "op_state \<Rightarrow> str \<Rightarrow> str \<Rightarrow> ledger \<Rightarrow> recon_error + op_row" where
  "row_from_state st phase step s =
     ebind (case previous_operation st s of
         Some row \<Rightarrow> Inr (Some row)
       | None \<Rightarrow> ebind (state_parts st phase step s) (\<lambda>(k, pre). Inr (latest_operation k s)))
     (\<lambda>found. case found of
         None \<Rightarrow> Inl (ArtifactInvalid ''no active workflow operation'')
       | Some row \<Rightarrow> if op_phase row \<noteq> phase \<or> op_step row \<noteq> step
           then Inl (ArtifactInvalid ''no active workflow operation'') else Inr row)"

definition identity_for_row :: "op_row \<Rightarrow> op_identity" where
  "identity_for_row r = \<lparr>id_run = op_run r, id_unit = op_unit r, id_phase = op_phase r,
     id_step = op_step r, id_attempt = op_attempt r, id_ordinal = op_ordinal r,
     id_input = op_input r\<rparr>"

section \<open>The evidence of a row\<close>

definition given :: "str option \<Rightarrow> bool" where
  "given x = (x \<noteq> None \<and> x \<noteq> Some [])"

definition artifact_for_row ::
  "'f ports \<Rightarrow> 'f \<Rightarrow> op_row \<Rightarrow> recon_error + (envelope \<times> str \<times> str) option" where
  "artifact_for_row p fs r =
     ebind
       (if given (op_path r) \<and> given (op_sha r)
        then (case read_artifact p fs (the (op_path r)) (the (op_sha r)) of
            None \<Rightarrow> Inl (ArtifactInvalid ''operation artifact cannot be read'')
          | Some e \<Rightarrow> Inr (Some (e, the (op_path r), the (op_sha r))))
        else (case read_for_identity p fs (identity_for_row r) of
            None \<Rightarrow> Inl (ArtifactInvalid ''operation artifact cannot be read'')
          | Some None \<Rightarrow> Inr None
          | Some (Some (e, sha)) \<Rightarrow>
              Inr (Some (e, the (artifact_name p (identity_for_row r)), sha))))
     (\<lambda>found. case found of
         None \<Rightarrow> Inr None
       | Some (e, path, sha) \<Rightarrow>
           if en_identity e \<noteq> identity_for_row r
           then Inl (ArtifactInvalid ''operation artifact identity conflicts with ledger'')
           else if en_prerequisites e \<noteq> op_prerequisites r
           then Inl (ArtifactInvalid ''operation artifact prerequisites conflict with ledger'')
           else if en_kind e \<noteq> (if op_step r = ''turn'' then ''turn'' else ''phase'')
           then Inl (ArtifactInvalid ''operation artifact result kind conflicts with ledger'')
           else Inr (Some (e, path, sha)))"

text \<open>
  \<open>_validate_prerequisites\<close>: the complete chain of evidence, with the ancestors on the way to
  detect a cycle. Every step down adds a row of the ledger to the ancestors, so it ends.
\<close>

lemma eforeach_cong [fundef_cong]:
  "xs = ys \<Longrightarrow> (\<And>x. x \<in> set ys \<Longrightarrow> f x = g x) \<Longrightarrow> eforeach f xs = eforeach g ys"
proof (induction ys arbitrary: xs)
  case (Cons y ys)
  then show ?case by (cases "g y") auto
qed simp

definition prerequisite_row :: "op_row \<Rightarrow> str \<Rightarrow> ledger \<Rightarrow> op_row option" where
  "prerequisite_row r i s = (case get_operation i s of None \<Rightarrow> None
     | Some q \<Rightarrow> if op_status q = Completed \<and> op_task q = op_task r \<and> op_run q = op_run r
         \<and> op_unit q = op_unit r then Some q else None)"

lemma prerequisite_row_in: "prerequisite_row r i s = Some q \<Longrightarrow> q \<in> set (operations s) \<and> op_id q = i"
  by (auto simp: prerequisite_row_def get_operation_def dest: find_row_Some split: option.splits if_splits)

function validate_prerequisites ::
  "'f ports \<Rightarrow> 'f \<Rightarrow> ledger \<Rightarrow> str list \<Rightarrow> op_row \<Rightarrow> recon_error + unit" where
  "validate_prerequisites p fs s seen r =
     (if op_id r \<in> set seen then Inl (ArtifactInvalid ''prerequisites contain a cycle'')
      else eforeach (\<lambda>i.
        if i \<in> set (op_id r # seen) then Inl (ArtifactInvalid ''prerequisites contain a cycle'')
        else (case prerequisite_row r i s of
            None \<Rightarrow> Inl (ArtifactInvalid ''workflow prerequisite is not complete or crosses the unit'')
          | Some q \<Rightarrow>
             (case artifact_for_row p fs q of
                Inl e \<Rightarrow> Inl e
              | Inr None \<Rightarrow> Inl (ArtifactInvalid ''workflow prerequisite has no result'')
              | Inr (Some _) \<Rightarrow> validate_prerequisites p fs s (op_id r # seen) q)))
        (op_prerequisites r))"
  by pat_completeness auto

termination
proof (relation "measure (\<lambda>(p, fs, s, seen, r).
    card (insert (op_id r) (op_id ` set (operations s)) - set seen))", simp)
  fix p :: "'f ports" and fs s seen r i q a
  assume r: "op_id r \<notin> set seen" and "i \<notin> set (op_id r # seen)"
    and q: "prerequisite_row r i s = Some q"
  let ?ids = "op_id ` set (operations s)"
  have "op_id q \<in> ?ids" using prerequisite_row_in [OF q] by auto
  then have "insert (op_id q) ?ids - set (op_id r # seen) \<subset> insert (op_id r) ?ids - set seen"
    using r by auto
  then show "((p, fs, s, op_id r # seen, q), (p, fs, s, seen, r)) \<in> measure (\<lambda>(p, fs, s, seen, r).
      card (insert (op_id r) (op_id ` set (operations s)) - set seen))"
    by (simp add: psubset_card_mono)
qed

declare validate_prerequisites.simps [simp del]

section \<open>Recording\<close>

text \<open>The locator of the last session reference, or the field of older results.\<close>

definition session_locator :: "'f ports \<Rightarrow> pydict \<Rightarrow> str option option" where
  "session_locator p result =
     (case list_or_empty (get result ''session_refs'') of
        None \<Rightarrow> None
      | Some refs \<Rightarrow>
          (let legacy = (let v = get result ''session_id'' in
             if truthy v then Some (py_str p v) else None) in
           Some (if refs = [] then legacy
             else (case last refs of
                PDict d \<Rightarrow> if truthy (get d ''locator'') then Some (py_str p (get d ''locator''))
                  else legacy
              | _ \<Rightarrow> legacy))))"

definition envelope_evidence :: "envelope \<Rightarrow> str \<Rightarrow> str \<Rightarrow> evidence" where
  "envelope_evidence e path sha = \<lparr>ev_workspace = en_workspace e, ev_path = path, ev_sha = sha,
     ev_outputs = en_outputs e\<rparr>"

definition cancelled_outcome :: "envelope \<Rightarrow> str \<Rightarrow> str \<Rightarrow> str option \<Rightarrow> outcome" where
  "cancelled_outcome e path sha session = \<lparr>oc_error_kind = ''cancelled'', oc_error = ''cancelled'',
     oc_workspace = Some (en_workspace e), oc_path = Some path, oc_sha = Some sha,
     oc_outputs = Some (en_outputs e), oc_session = session\<rparr>"

text \<open>A result's \<open>session_refs\<close> that is no list raises a \<open>TypeError\<close>.\<close>

definition with_session ::
  "'f ports \<Rightarrow> pydict \<Rightarrow> (str option \<Rightarrow> ('f, 'a) recon_prog) \<Rightarrow> ('f, 'a) recon_prog" where
  "with_session p result f = (case session_locator p result of
     None \<Rightarrow> raise (ArtifactInvalid ''session references are no list'') | Some session \<Rightarrow> f session)"

definition complete_from_envelope ::
  "'f ports \<Rightarrow> nat \<Rightarrow> op_row \<Rightarrow> envelope \<Rightarrow> str \<Rightarrow> str \<Rightarrow> ('f, unit) recon_prog" where
  "complete_from_envelope p now r e path sha = with_session p (en_result e) (\<lambda>session.
     seq (on_ledger (complete_operation now (op_id r) (envelope_evidence e path sha) session))
       (\<lambda>_. ret ()))"

definition cancel_from_envelope ::
  "'f ports \<Rightarrow> nat \<Rightarrow> op_row \<Rightarrow> envelope \<Rightarrow> str \<Rightarrow> str \<Rightarrow> ('f, unit) recon_prog" where
  "cancel_from_envelope p now r e path sha = with_session p (en_result e) (\<lambda>session.
     seq (on_ledger (cancel_operation now (op_id r) (cancelled_outcome e path sha session)))
       (\<lambda>_. ret ()))"

definition store_artifact :: "'f ports \<Rightarrow> envelope \<Rightarrow> ('f, str \<times> str) recon_prog" where
  "store_artifact p e w = (case write_artifact p (w_files w) e of
     None \<Rightarrow> (Inl (ArtifactInvalid ''operation artifact cannot be written''), w)
   | Some (stored, fs) \<Rightarrow> (Inr stored, w\<lparr>w_files := fs\<rparr>))"

definition new_envelope ::
  "'f ports \<Rightarrow> op_row \<Rightarrow> str \<Rightarrow> str \<Rightarrow> str \<Rightarrow> pydict \<Rightarrow> envelope" where
  "new_envelope p r phase step kind result =
     \<lparr>en_identity = identity_for_row r, en_kind = kind, en_result = result,
      en_workspace = workspace_now p phase step, en_outputs = outputs_now p phase step,
      en_prerequisites = op_prerequisites r, en_schema = 1\<rparr>"

text \<open>\<open>result\<close> is \<open>AgentTurnResult.as_dict()\<close>, \<open>session\<close> the locator of its last session.\<close>

definition on_result ::
  "'f ports \<Rightarrow> nat \<Rightarrow> op_state \<Rightarrow> str \<Rightarrow> str \<Rightarrow> pydict \<Rightarrow> str option \<Rightarrow> ('f, unit) recon_prog" where
  "on_result p now st phase status result session =
     seq (\<lambda>w. (row_from_state st phase ''turn'' (w_ledger w), w)) (\<lambda>r.
     (let e = new_envelope p r phase ''turn'' ''turn'' result in
      seq (store_artifact p e) (\<lambda>(path, sha).
      if status = ''cancelled''
      then seq (on_ledger (cancel_operation now (op_id r) (cancelled_outcome e path sha session)))
             (\<lambda>_. ret ())
      else seq (on_ledger (complete_operation now (op_id r) (envelope_evidence e path sha) session))
             (\<lambda>_. ret ()))))"

definition reject_result ::
  "nat \<Rightarrow> op_state \<Rightarrow> str \<Rightarrow> str \<Rightarrow> ('f, unit) recon_prog" where
  "reject_result now st phase reason =
     seq (\<lambda>w. (row_from_state st phase ''turn'' (w_ledger w), w)) (\<lambda>r.
     seq (on_ledger (fail_operation now (op_id r) ''guard_rejected'' reason)) (\<lambda>_. ret ()))"

definition record_result ::
  "'f ports \<Rightarrow> nat \<Rightarrow> str \<Rightarrow> str \<Rightarrow> op_state \<Rightarrow> pydict \<Rightarrow> ('f, pydict) recon_prog" where
  "record_result p now phase step st result =
     seq (\<lambda>w. (row_from_state st phase step (w_ledger w), w)) (\<lambda>r.
     (let e = new_envelope p r phase step ''phase'' result in
      seq (store_artifact p e) (\<lambda>(path, sha).
      seq (on_ledger (complete_operation now (op_id r) (envelope_evidence e path sha) None)) (\<lambda>_.
      ret (dict_set ''execution_ordinal'' (PInt (op_ordinal r))
        (dict_set ''operation_step'' (PStr step)
          (dict_set ''operation_id'' (PStr (op_id r)) result)))))))"

section \<open>Classifying what a crash left\<close>

datatype verdict = Run | ReuseResult | AdoptResult | VerifyExistingEdit | RetryNoEffect
  | FailUnsafe | FailIndeterminate

record decision =
  dc_verdict :: verdict
  dc_operation :: str
  dc_identity :: op_identity
  dc_outputs_before :: fingerprints

definition decide_as :: "'f ports \<Rightarrow> fingerprints \<Rightarrow> verdict \<Rightarrow> op_identity \<Rightarrow> decision" where
  "decide_as p before v i = \<lparr>dc_verdict = v, dc_operation = operation_id p i, dc_identity = i,
     dc_outputs_before = before\<rparr>"

definition claim_for :: "'f ports \<Rightarrow> op_slot \<Rightarrow> op_identity \<Rightarrow> str list \<Rightarrow> op_claim" where
  "claim_for p k i pre = \<lparr>cl_id = operation_id p i, cl_slot = k, cl_ordinal = id_ordinal i,
     cl_input = id_input i, cl_prerequisites = pre, cl_schema = 1\<rparr>"

definition outputs_match :: "'f ports \<Rightarrow> op_row \<Rightarrow> envelope \<Rightarrow> bool" where
  "outputs_match p r e = same_dict (outputs_now p (op_phase r) (op_step r)) (en_outputs e)"

text \<open>The end of \<open>classify\<close>: the row is not completed and its work left no accepted result.\<close>

definition replay ::
  "'f ports \<Rightarrow> nat \<Rightarrow> fingerprints \<Rightarrow> str \<Rightarrow> op_slot \<Rightarrow> str list \<Rightarrow> op_identity \<Rightarrow> op_row
    \<Rightarrow> ('f, decision) recon_prog" where
  "replay p now before current k pre i r =
     (if current \<noteq> op_input r
      then ret (decide_as p before (if edit_allowed p r then VerifyExistingEdit else FailUnsafe) i)
      else if int (max_replays p) \<le> id_ordinal i
      then ret (decide_as p before FailIndeterminate i)
      else
        (let successor = i\<lparr>id_ordinal := id_ordinal i + 1, id_input := current\<rparr> in
         seq (on_ledger (retry_operation now (operation_id p i) (claim_for p k successor pre)
                ''crash_no_observable_effect''))
           (\<lambda>_. ret (decide_as p before RetryNoEffect successor))))"

definition classify_row ::
  "'f ports \<Rightarrow> nat \<Rightarrow> fingerprints \<Rightarrow> str \<Rightarrow> op_slot \<Rightarrow> str list \<Rightarrow> op_row
    \<Rightarrow> (envelope \<times> str \<times> str) option \<Rightarrow> ('f, decision) recon_prog" where
  "classify_row p now before current k pre r artifact =
     (let i = identity_for_row r in
      if op_status r = Completed then
        (case artifact of
           None \<Rightarrow> ret (decide_as p before FailIndeterminate i)
         | Some (e, _, _) \<Rightarrow> ret (decide_as p before
              (if current = en_workspace e \<and> outputs_match p r e then ReuseResult else FailUnsafe) i))
      else
        (case artifact of
           None \<Rightarrow> replay p now before current k pre i r
         | Some (e, path, sha) \<Rightarrow>
             if op_status r \<noteq> Started then replay p now before current k pre i r
             else if current \<noteq> en_workspace e \<or> \<not> outputs_match p r e
             then ret (decide_as p before FailIndeterminate i)
             else if en_kind e = ''turn'' \<and> get (en_result e) ''status'' = PStr ''cancelled''
             then seq (cancel_from_envelope p now r e path sha) (\<lambda>_.
                  seq (reads (\<lambda>w. get_operation (operation_id p i) (w_ledger w))) (\<lambda>found.
                  (case found of
                     None \<Rightarrow> raise (LedgerFailed OperationMissing)
                   | Some r' \<Rightarrow> replay p now before current k pre i r')))
             else seq (complete_from_envelope p now r e path sha)
                    (\<lambda>_. ret (decide_as p before AdoptResult i))))"

definition classify ::
  "'f ports \<Rightarrow> nat \<Rightarrow> str \<Rightarrow> str \<Rightarrow> op_state \<Rightarrow> ('f, decision) recon_prog" where
  "classify p now phase step st =
     seq (\<lambda>w. (state_parts st phase step (w_ledger w), w)) (\<lambda>(k, pre).
     (let before = (if step = ''interpret'' then [] else outputs_now p phase step);
          current = workspace_now p phase step in
      seq (reads (\<lambda>w. latest_operation k (w_ledger w))) (\<lambda>found.
      (case found of
         None \<Rightarrow>
           (let i = \<lparr>id_run = slot_run k, id_unit = slot_unit k, id_phase = phase, id_step = step,
                  id_attempt = slot_attempt k, id_ordinal = 0, id_input = current\<rparr> in
            seq (on_ledger (start_operation now (claim_for p k i pre) None))
              (\<lambda>_. ret (decide_as p before Run i)))
       | Some r \<Rightarrow> (\<lambda>w.
           (case artifact_for_row p (w_files w) r of
              Inl e \<Rightarrow> (Inr (decide_as p before FailIndeterminate (identity_for_row r)), w)
            | Inr artifact \<Rightarrow>
               (case validate_prerequisites p (w_files w) (w_ledger w) [] r of
                  Inl e \<Rightarrow> (Inr (decide_as p before FailIndeterminate (identity_for_row r)), w)
                | Inr _ \<Rightarrow> classify_row p now before current k pre r artifact w)))))))"

definition validate_terminal ::
  "'f ports \<Rightarrow> op_state \<Rightarrow> 'f world \<Rightarrow> recon_error + envelope" where
  "validate_terminal p st w =
     ebind (row_from_state st ''complete_generation'' ''deterministic'' (w_ledger w)) (\<lambda>r.
     ebind (check_that (op_status r = Completed)
        (ArtifactInvalid ''terminal generation operation is not completed'')) (\<lambda>_.
     ebind (artifact_for_row p (w_files w) r) (\<lambda>artifact.
     (case artifact of
        None \<Rightarrow> Inl (ArtifactInvalid ''terminal generation operation has no result artifact'')
      | Some (e, _, _) \<Rightarrow>
         ebind (validate_prerequisites p (w_files w) (w_ledger w) [] r) (\<lambda>_.
         ebind (check_that (workspace_now p ''complete_generation'' ''deterministic'' = en_workspace e)
           (ArtifactInvalid ''terminal generation workspace no longer matches its result'')) (\<lambda>_.
         ebind (check_that (outputs_match p r e)
           (ArtifactInvalid ''terminal generation outputs no longer match their result'')) (\<lambda>_.
         Inr e)))))))"

end
