(* ===== verification/ReconciliationFacts.thy ===== *)
theory ReconciliationFacts
  imports Reconciliation
begin

text \<open>
  What crash reconciliation guarantees: a reused result is completed, sound and unchanged, a
  completed operation never runs again, a chain of evidence is complete and without cycles,
  and an operation runs a bounded number of times.
\<close>


section \<open>The chain of evidence\<close>

inductive depends :: "ledger \<Rightarrow> op_row \<Rightarrow> op_row \<Rightarrow> bool" for s where
  direct: "i \<in> set (op_prerequisites r) \<Longrightarrow> get_operation i s = Some q \<Longrightarrow> depends s r q"
| further: "depends s r q \<Longrightarrow> depends s q q' \<Longrightarrow> depends s r q'"

definition sound_evidence :: "'f ports \<Rightarrow> 'f \<Rightarrow> op_row \<Rightarrow> op_row \<Rightarrow> bool" where
  "sound_evidence p fs r q = (op_status q = Completed \<and> op_task q = op_task r \<and> op_run q = op_run r
     \<and> op_unit q = op_unit r \<and> (\<exists>e. artifact_for_row p fs q = Inr (Some e)))"

lemma sound_trans: "sound_evidence p fs r q \<Longrightarrow> sound_evidence p fs q q' \<Longrightarrow> sound_evidence p fs r q'"
  by (simp add: sound_evidence_def)

lemma validate_step:
  assumes "validate_prerequisites p fs s seen r = Inr u" and "i \<in> set (op_prerequisites r)"
    and "get_operation i s = Some q"
  shows "op_id r \<notin> set seen \<and> i \<noteq> op_id r \<and> i \<notin> set seen \<and> sound_evidence p fs r q
     \<and> validate_prerequisites p fs s (op_id r # seen) q = Inr ()"
proof -
  let ?body = "\<lambda>i. if i \<in> set (op_id r # seen) then Inl (ArtifactInvalid ''prerequisites contain a cycle'')
        else (case prerequisite_row r i s of
            None \<Rightarrow> Inl (ArtifactInvalid ''workflow prerequisite is not complete or crosses the unit'')
          | Some q \<Rightarrow>
             (case artifact_for_row p fs q of
                Inl e \<Rightarrow> Inl e
              | Inr None \<Rightarrow> Inl (ArtifactInvalid ''workflow prerequisite has no result'')
              | Inr (Some _) \<Rightarrow> validate_prerequisites p fs s (op_id r # seen) q))"
  have new: "op_id r \<notin> set seen" and all: "eforeach ?body (op_prerequisites r) = Inr u"
    using assms(1) unfolding validate_prerequisites.simps [of p fs s seen r] by (auto split: if_splits)
  from all assms(2) have "?body i = Inr ()" unfolding eforeach_Inr by blast
  then show ?thesis
    using new assms(3) by (cases "prerequisite_row r i s"; cases "artifact_for_row p fs q")
      (auto simp: prerequisite_row_def sound_evidence_def split: if_splits option.splits)
qed

lemma validate_all:
  assumes "depends s r q" and "validate_prerequisites p fs s seen r = Inr u"
  shows "sound_evidence p fs r q \<and> op_id q \<noteq> op_id r \<and> op_id q \<notin> set seen
     \<and> (\<exists>seen'. set (op_id r # seen) \<subseteq> set seen' \<and> validate_prerequisites p fs s seen' q = Inr ())"
  using assms
proof (induction arbitrary: seen u)
  case (direct i r q)
  then show ?case
    using validate_step [OF direct(3,1,2)] get_operation_id [OF direct(2)] by fastforce
next
  case (further r q q')
  from further.IH(1) [OF further.prems] obtain seen' where
    q: "sound_evidence p fs r q" "set (op_id r # seen) \<subseteq> set seen'"
      "validate_prerequisites p fs s seen' q = Inr ()"
    by blast
  from further.IH(2) [OF q(3)] obtain seen'' where
    "sound_evidence p fs q q'" "op_id q' \<notin> set seen'" "set (op_id q # seen') \<subseteq> set seen''"
      "validate_prerequisites p fs s seen'' q' = Inr ()"
    by blast
  with q show ?case by (auto intro: sound_trans)
qed

text \<open>
  When the chain of prerequisites of a row validates, every operation the row depends
  on, at any distance, is completed, belongs to the same task, run and unit and has a
  readable result, and no operation of the chain depends on itself.
\<close>

theorem evidence_chain:
  assumes "validate_prerequisites p fs s [] r = Inr ()" and "depends s r q"
  shows "op_status q = Completed \<and> op_task q = op_task r \<and> op_run q = op_run r
     \<and> op_unit q = op_unit r \<and> (\<exists>e. artifact_for_row p fs q = Inr (Some e))
     \<and> op_id q \<noteq> op_id r \<and> \<not> depends s q q"
proof -
  from validate_all [OF assms(2,1)] obtain seen where
    q: "sound_evidence p fs r q" "op_id q \<noteq> op_id r" "validate_prerequisites p fs s seen q = Inr ()"
    by blast
  have "\<not> depends s q q" using validate_all [OF _ q(3)] by blast
  with q show ?thesis by (simp add: sound_evidence_def)
qed

section \<open>What a verdict means\<close>

lemma latest_in_slot:
  assumes "latest_operation k s = Some r"
  shows "in_slot k r \<and> r \<in> set (operations s)
     \<and> (\<forall>q \<in> set (operations s). in_slot k q \<longrightarrow> op_ordinal q \<le> op_ordinal r)"
proof -
  let ?rows = "sort_key (\<lambda>r. - op_ordinal r) (filter (in_slot k) (operations s))"
  obtain rest where rows: "?rows = r # rest"
    using assms by (auto simp: latest_operation_def split: list.splits)
  have "sorted (map (\<lambda>r. - op_ordinal r) (r # rest))"
    unfolding rows [symmetric] by (rule sorted_sort_key)
  then have "\<forall>q \<in> set ?rows. op_ordinal q \<le> op_ordinal r" by (auto simp: rows)
  moreover have "r \<in> set ?rows" by (simp add: rows)
  ultimately show ?thesis by auto
qed

lemma artifact_identity:
  assumes "artifact_for_row p fs r = Inr (Some (e, path, sha))"
  shows "en_identity e = identity_for_row r \<and> en_prerequisites e = op_prerequisites r
     \<and> en_kind e = (if op_step r = ''turn'' then ''turn'' else ''phase'')"
  using assms unfolding artifact_for_row_def
  by (auto simp: res_simps split: option.splits if_splits)

lemma classify_run:
  "classify p now phase step st w =
     (case state_parts st phase step (w_ledger w) of
        Inl e \<Rightarrow> (Inl e, w)
      | Inr (k, pre) \<Rightarrow>
         (let before = (if step = ''interpret'' then [] else outputs_now p phase step);
              current = workspace_now p phase step in
          (case latest_operation k (w_ledger w) of
             None \<Rightarrow>
               (let i = \<lparr>id_run = slot_run k, id_unit = slot_unit k, id_phase = phase, id_step = step,
                      id_attempt = slot_attempt k, id_ordinal = 0, id_input = current\<rparr> in
                (case on_ledger (start_operation now (claim_for p k i pre) None) w of
                   (Inl e, w') \<Rightarrow> (Inl e, w') | (Inr _, w') \<Rightarrow> (Inr (decide_as p before Run i), w')))
           | Some r \<Rightarrow>
               (case artifact_for_row p (w_files w) r of
                  Inl e \<Rightarrow> (Inr (decide_as p before FailIndeterminate (identity_for_row r)), w)
                | Inr artifact \<Rightarrow>
                   (case validate_prerequisites p (w_files w) (w_ledger w) [] r of
                      Inl e \<Rightarrow> (Inr (decide_as p before FailIndeterminate (identity_for_row r)), w)
                    | Inr _ \<Rightarrow> classify_row p now before current k pre r artifact w)))))"
  by (auto simp: classify_def seq_def reads_def Let_def ret_def split: sum.splits prod.splits option.splits)

lemma completed_verdicts:
  assumes "state_parts st phase step (w_ledger w) = Inr (k, pre)"
    and "latest_operation k (w_ledger w) = Some r" and "op_status r = Completed"
  shows "\<exists>dec. classify p now phase step st w = (Inr dec, w)
     \<and> dc_identity dec = identity_for_row r
     \<and> dc_verdict dec \<in> {ReuseResult, FailUnsafe, FailIndeterminate}
     \<and> (dc_verdict dec = ReuseResult \<longleftrightarrow>
          (\<exists>e path sha. artifact_for_row p (w_files w) r = Inr (Some (e, path, sha))
             \<and> validate_prerequisites p (w_files w) (w_ledger w) [] r = Inr ()
             \<and> workspace_now p phase step = en_workspace e
             \<and> map_of (outputs_now p (op_phase r) (op_step r)) = map_of (en_outputs e)))"
  using assms
  by (auto simp: classify_run Let_def classify_row_def decide_as_def ret_def outputs_match_def
      same_dict_map_of split: sum.splits option.splits prod.splits if_splits)

lemma replay_not_reuse:
  "replay p now before current k pre i r w = (Inr dec, w') \<Longrightarrow>
   dc_verdict dec \<in> {VerifyExistingEdit, FailUnsafe, FailIndeterminate, RetryNoEffect}"
  by (auto simp: replay_def ret_def decide_as_def Let_def seq_def split: if_splits prod.splits sum.splits)

text \<open>
  C20: A result is reused only for a completed operation whose artifact is verified, whose
  workspace and outputs are still what the artifact recorded and whose whole chain of
  prerequisites is sound; the decision writes nothing.
\<close>

theorem reuse_is_sound:
  assumes "classify p now phase step st w = (Inr dec, w')" and "dc_verdict dec = ReuseResult"
  shows "w' = w \<and> (\<exists>k pre r e path sha. state_parts st phase step (w_ledger w) = Inr (k, pre)
     \<and> latest_operation k (w_ledger w) = Some r \<and> op_status r = Completed
     \<and> artifact_for_row p (w_files w) r = Inr (Some (e, path, sha)) \<and> en_identity e = dc_identity dec
     \<and> en_workspace e = workspace_now p phase step
     \<and> map_of (en_outputs e) = map_of (outputs_now p phase step)
     \<and> (\<forall>q. depends (w_ledger w) r q \<longrightarrow> sound_evidence p (w_files w) r q))"
proof -
  obtain k pre where parts: "state_parts st phase step (w_ledger w) = Inr (k, pre)"
    using assms(1) by (auto simp: classify_run split: sum.splits)
  have slot: "slot_phase k = phase" "slot_step k = step"
    using parts by (auto simp: state_parts_def Let_def split: option.splits)
  obtain r where r: "latest_operation k (w_ledger w) = Some r"
    using assms by (auto simp: classify_run parts Let_def decide_as_def split: option.splits prod.splits sum.splits)
  have ops: "op_phase r = phase" "op_step r = step"
    using latest_in_slot [OF r] slot by (auto simp: in_slot_def)
  show ?thesis
  proof (cases "op_status r = Completed")
    case True
    from completed_verdicts [OF parts r True, of p now] assms obtain e path sha where
      e: "artifact_for_row p (w_files w) r = Inr (Some (e, path, sha))"
        "validate_prerequisites p (w_files w) (w_ledger w) [] r = Inr ()"
        "workspace_now p phase step = en_workspace e"
        "map_of (outputs_now p (op_phase r) (op_step r)) = map_of (en_outputs e)"
      and "w' = w" "dc_identity dec = identity_for_row r"
      by auto
    moreover have "sound_evidence p (w_files w) r q" if "depends (w_ledger w) r q" for q
      using validate_all [OF that e(2)] by blast
    ultimately show ?thesis
      using parts r True artifact_identity [OF e(1)] by (auto simp: ops)
  next
    case False
    have "dc_verdict dec \<noteq> ReuseResult"
    proof -
      obtain artifact where "classify_row p now (if step = ''interpret'' then [] else outputs_now p phase step)
          (workspace_now p phase step) k pre r artifact w = (Inr dec, w')"
        using assms by (auto simp: classify_run parts r Let_def decide_as_def split: sum.splits)
      then show ?thesis using False
        by (auto simp: classify_row_def Let_def ret_def decide_as_def seq_def reads_def raise_def
            dest!: replay_not_reuse split: option.splits prod.splits if_splits sum.splits)
    qed
    with assms(2) show ?thesis by simp
  qed
qed

section \<open>An operation runs a bounded number of times\<close>

definition exec_key :: "op_row \<Rightarrow> op_slot \<times> int" where
  "exec_key r = (\<lparr>slot_task = op_task r, slot_run = op_run r, slot_unit = op_unit r,
     slot_phase = op_phase r, slot_step = op_step r, slot_attempt = op_attempt r\<rparr>, op_ordinal r)"

lemma in_slot_key: "in_slot k r \<longleftrightarrow> fst (exec_key r) = k"
  by (cases k) (auto simp: in_slot_def exec_key_def)

definition exec_keys :: "ledger \<Rightarrow> (op_slot \<times> int) list" where
  "exec_keys s = map exec_key (operations s)"

lemma exec_key_rows [simp]:
  "exec_key (completed_row now e session r) = exec_key r"
  "exec_key (finished_row now st out r) = exec_key r"
  "exec_key (interrupted_row now kind r) = exec_key r"
  "exec_key (claimed_row now c session) = (cl_slot c, cl_ordinal c)"
  by (simp_all add: exec_key_def completed_row_def finished_row_def interrupted_row_def claimed_row_def)

named_theorems keys_keep \<open>operations that add no execution\<close>

lemma keys_set [keys_keep]:
  "(\<And>r. exec_key (f r) = exec_key r) \<Longrightarrow> keeps (\<lambda>s. exec_keys s = ks) (set_operation i p f)"
  by (rule keepsI) (simp add: set_operation_def modifies_def exec_keys_def keys_update_rows)

lemma keys_require [keys_keep]: "keeps P (require_operation i)"
  by (rule keeps_require)

lemma keys_complete [keys_keep]:
  "keeps (\<lambda>s. exec_keys s = ks) (complete_operation now i e session)"
  unfolding complete_operation_def by (intro keeps_intros keys_keep) auto

lemma keys_finish [keys_keep]: "keeps (\<lambda>s. exec_keys s = ks) (finish_operation now i st out)"
  unfolding finish_operation_def by (intro keeps_intros keys_keep) auto

lemma keys_cost [keys_keep]: "keeps (\<lambda>s. exec_keys s = ks) (record_cost i n c u)"
  unfolding record_cost_def
  by (intro keeps_intros keepsI) (auto simp: Let_def exec_keys_def split: option.splits)

definition grows :: "op_slot \<times> int \<Rightarrow> ledger \<Rightarrow> ledger \<Rightarrow> bool" where
  "grows x s s' = (exec_keys s' = exec_keys s \<or> exec_keys s' = exec_keys s @ [x])"

lemma start_grows: "grows (cl_slot c, cl_ordinal c) s (snd (start_operation now c session s))"
  by (auto simp: grows_def start_cases exec_keys_def split: option.splits)

lemma insert_grows: "insert_operation r s = (Inr u, s') \<Longrightarrow> exec_keys s' = exec_keys s @ [exec_key r]"
  by (auto simp: insert_operation_def exec_keys_def split: if_splits)

lemma set_same_keys:
  assumes "set_operation i p f s = (res, s')" and "\<And>r. exec_key (f r) = exec_key r"
  shows "exec_keys s' = exec_keys s"
  using keepsD [OF keys_set [of f "exec_keys s" i p, OF assms(2)] refl assms(1)] .

lemma retry_grows: "grows (cl_slot c, cl_ordinal c) s (snd (retry_operation now i c kind s))"
proof (cases "fst (retry_operation now i c kind s)")
  case (Inl e)
  then show ?thesis
    by (auto simp: grows_def retry_operation_def transaction_def split: prod.splits sum.splits)
next
  case (Inr r)
  then obtain s' where run: "retry_operation now i c kind s = (Inr r, s')"
    by (cases "retry_operation now i c kind s") auto
  show ?thesis
  proof (cases "exec_keys s' = exec_keys s")
    case False
    have succ: "exec_key (r\<lparr>op_successor := x, op_updated := n\<rparr>) = exec_key r" for r x n
      by (simp add: exec_key_def)
    have req: "require_operation j s1 = (Inr x, s2) \<Longrightarrow> s2 = s1" for j s1 x s2
      by (auto simp: require_operation_def ret_def raise_def split: option.splits)
    have mid: "exec_key (interrupted_row now kind r) = exec_key r" for r by simp
    have skip: "ret () s1 = (Inr u, s2) \<Longrightarrow> s2 = s1" for s1 s2 :: ledger and u
      by (simp add: ret_def)
    from run False have "exec_keys s' = exec_keys s @ [(cl_slot c, cl_ordinal c)]"
      unfolding retry_operation_def
      by (auto simp: transaction_Inr seq_Inr andthen_Inr raise_def split: if_splits
          dest!: req skip insert_grows set_same_keys [OF _ succ] set_same_keys [OF _ mid])
    with run show ?thesis by (simp add: grows_def)
  qed (simp add: run grows_def)
qed

lemma seq_snd:
  "P (snd (m w)) \<Longrightarrow> (\<And>x w'. m w = (Inr x, w') \<Longrightarrow> P (snd (f x w'))) \<Longrightarrow> P (snd (seq m f w))"
  by (auto simp: seq_def split: prod.splits sum.splits)

lemma snd_seq_const: "snd (seq m (\<lambda>_. ret x) w) = snd (m w)"
  by (simp add: seq_def ret_def split: prod.splits sum.splits)

definition execs_ok :: "nat \<Rightarrow> ledger \<Rightarrow> bool" where
  "execs_ok m s = (distinct (exec_keys s) \<and> (\<forall>(k, n) \<in> set (exec_keys s). 0 \<le> n \<and> n \<le> int m))"

lemma grows_ok:
  assumes "execs_ok m s" and "grows (k, n) s s'" and "(k, n) \<notin> set (exec_keys s)" and "0 \<le> n" "n \<le> int m"
  shows "execs_ok m s'"
  using assms by (auto simp: grows_def execs_ok_def)

lemma same_keys_ok: "exec_keys s' = exec_keys s \<Longrightarrow> execs_ok m s' = execs_ok m s"
  by (simp add: execs_ok_def)

lemma on_ledger_snd: "w_ledger (snd (on_ledger m w)) = snd (m (w_ledger w))"
  by (simp add: on_ledger_def split: prod.splits sum.splits)

lemma keeps_on_ledger: "keeps P m \<Longrightarrow> keeps (\<lambda>w. P (w_ledger w)) (on_ledger m)"
  by (simp add: keeps_def on_ledger_snd)

lemma keeps_same_keys:
  assumes "\<And>ks. keeps (\<lambda>s. exec_keys s = ks) m"
  shows "keeps (execs_ok m') m"
proof (rule keepsI)
  fix s assume "execs_ok m' s"
  moreover have "exec_keys (snd (m s)) = exec_keys s"
    using assms [of "exec_keys s"] unfolding keeps_def by blast
  ultimately show "execs_ok m' (snd (m s))" using same_keys_ok by blast
qed

lemmas keeps_execs = keeps_on_ledger [OF keeps_same_keys]

named_theorems execs_keep \<open>methods that start no execution\<close>

lemma execs_complete [execs_keep]:
  "keeps (\<lambda>w. execs_ok m (w_ledger w)) (on_ledger (complete_operation now i e session))"
  by (intro keeps_execs keys_keep)

lemma execs_finish [execs_keep]:
  "keeps (\<lambda>w. execs_ok m (w_ledger w)) (on_ledger (cancel_operation now i out))"
  "keeps (\<lambda>w. execs_ok m (w_ledger w)) (on_ledger (fail_operation now i k e))"
  unfolding cancel_operation_def fail_operation_def by (intro keeps_execs keys_keep)+

lemma execs_store [execs_keep]: "keeps (\<lambda>w. execs_ok m (w_ledger w)) (store_artifact p e)"
  by (rule keepsI) (simp add: store_artifact_def split: option.splits)

lemma execs_lookup [execs_keep]: "keeps (\<lambda>w. execs_ok m (w_ledger w)) (\<lambda>w. (f w, w))"
  by (rule keepsI) simp

lemma execs_session [execs_keep]:
  "(\<And>x. keeps P (f x)) \<Longrightarrow> keeps P (with_session p result f)"
  unfolding with_session_def by (intro keeps_intros)

lemma execs_record [execs_keep]:
  "keeps (\<lambda>w. execs_ok m (w_ledger w)) (record_result p now phase step st result)"
  "keeps (\<lambda>w. execs_ok m (w_ledger w)) (on_result p now st phase status result session)"
  "keeps (\<lambda>w. execs_ok m (w_ledger w)) (reject_result now st phase reason)"
  "keeps (\<lambda>w. execs_ok m (w_ledger w)) (complete_from_envelope p now r e path sha)"
  "keeps (\<lambda>w. execs_ok m (w_ledger w)) (cancel_from_envelope p now r e path sha)"
  unfolding record_result_def on_result_def reject_result_def complete_from_envelope_def
    cancel_from_envelope_def Let_def split_def
  by (intro keeps_intros execs_keep)+

lemma latest_ordinals:
  assumes "latest_operation k s = Some r" and "(k, n) \<in> set (exec_keys s)"
  shows "n \<le> op_ordinal r"
proof -
  obtain q where "q \<in> set (operations s)" "exec_key q = (k, n)"
    using assms(2) by (auto simp: exec_keys_def)
  then show ?thesis
    using latest_in_slot [OF assms(1)] by (auto simp: in_slot_key exec_key_def)
qed

lemma latest_key: "latest_operation k s = Some r \<Longrightarrow> exec_key r = (k, op_ordinal r)"
  using latest_in_slot [of k s r] by (auto simp: in_slot_key exec_key_def)

lemma latest_None: "latest_operation k s = None \<Longrightarrow> (k, n) \<notin> set (exec_keys s)"
proof
  assume "latest_operation k s = None" and "(k, n) \<in> set (exec_keys s)"
  then obtain q where "q \<in> set (operations s)" "in_slot k q"
    unfolding exec_keys_def in_slot_key by (metis (no_types) fst_conv imageE list.set_map)
  then have "q \<in> set (sort_key (\<lambda>r. - op_ordinal r) (filter (in_slot k) (operations s)))" by simp
  then have "sort_key (\<lambda>r. - op_ordinal r) (filter (in_slot k) (operations s)) \<noteq> []"
    by (metis empty_iff empty_set)
  with \<open>latest_operation k s = None\<close> show False
    by (cases "sort_key (\<lambda>r. - op_ordinal r) (filter (in_slot k) (operations s))")
      (simp_all add: latest_operation_def)
qed

lemma replay_execs:
  assumes "execs_ok (max_replays p) (w_ledger w)" and "id_ordinal i = n" and "0 \<le> n"
    and "\<And>m. (k, m) \<in> set (exec_keys (w_ledger w)) \<Longrightarrow> m \<le> n"
  shows "execs_ok (max_replays p) (w_ledger (snd (replay p now before current k pre i r w)))"
proof (cases "current \<noteq> op_input r \<or> int (max_replays p) \<le> id_ordinal i")
  case True
  then show ?thesis using assms(1) by (auto simp: replay_def ret_def)
next
  case False
  let ?c = "claim_for p k (i\<lparr>id_ordinal := id_ordinal i + 1, id_input := current\<rparr>) pre"
  have "w_ledger (snd (replay p now before current k pre i r w))
      = snd (retry_operation now (operation_id p i) ?c ''crash_no_observable_effect'' (w_ledger w))"
    using False by (simp add: replay_def Let_def snd_seq_const on_ledger_snd)
  moreover have "grows (k, n + 1) (w_ledger w)
      (snd (retry_operation now (operation_id p i) ?c ''crash_no_observable_effect'' (w_ledger w)))"
    using retry_grows [of ?c] by (simp add: claim_for_def assms(2))
  moreover have "(k, n + 1) \<notin> set (exec_keys (w_ledger w))" using assms(4) by fastforce
  ultimately show ?thesis
    using grows_ok [OF assms(1)] False assms(2,3) by simp
qed


lemma classify_row_execs:
  assumes "execs_ok (max_replays p) (w_ledger w)" and "latest_operation k (w_ledger w) = Some r"
  shows "execs_ok (max_replays p) (w_ledger (snd (classify_row p now before current k pre r artifact w)))"
proof -
  let ?i = "identity_for_row r"
  have ord: "id_ordinal ?i = op_ordinal r" by (simp add: identity_for_row_def)
  have key: "(k, op_ordinal r) \<in> set (exec_keys (w_ledger w))"
  proof -
    have "exec_key r \<in> set (exec_keys (w_ledger w))"
      using latest_in_slot [OF assms(2)] by (simp add: exec_keys_def)
    then show ?thesis by (simp add: latest_key [OF assms(2)])
  qed
  have n: "0 \<le> op_ordinal r" using assms(1) key by (auto simp: execs_ok_def)
  have rep: "execs_ok (max_replays p) (w_ledger (snd (replay p now before current k pre ?i r' w')))"
    if "exec_keys (w_ledger w') = exec_keys (w_ledger w)" for r' w'
  proof (rule replay_execs [OF _ ord n])
    show "execs_ok (max_replays p) (w_ledger w')" using same_keys_ok [OF that] assms(1) by blast
    show "m \<le> op_ordinal r" if "(k, m) \<in> set (exec_keys (w_ledger w'))" for m
      using latest_ordinals [OF assms(2)] that \<open>exec_keys (w_ledger w') = exec_keys (w_ledger w)\<close> by simp
  qed
  show ?thesis
  proof (cases "op_status r = Completed \<or> artifact = None \<or> op_status r \<noteq> Started")
    case True
    then show ?thesis using rep [OF refl] assms(1)
      by (auto simp: classify_row_def Let_def ret_def split: option.splits prod.splits)
  next
    case False
    then obtain e path sha where a: "artifact = Some (e, path, sha)" by (cases artifact) auto
    have keep: "exec_keys (w_ledger (snd (cancel_from_envelope p now r e path sha w))) = exec_keys (w_ledger w)"
    proof -
      have "keeps (\<lambda>w'. exec_keys (w_ledger w') = exec_keys (w_ledger w)) (cancel_from_envelope p now r e path sha)"
        unfolding cancel_from_envelope_def with_session_def cancel_operation_def
        by (intro keeps_intros keeps_on_ledger [of "\<lambda>s. exec_keys s = exec_keys (w_ledger w)"] keys_keep)
      then show ?thesis by (simp add: keeps_def)
    qed
    have done_: "execs_ok (max_replays p) (w_ledger (snd (complete_from_envelope p now r e path sha w)))"
      by (rule keepsD [OF execs_record(4) assms(1) surjective_pairing])
    have after: "execs_ok (max_replays p) (w_ledger w1)
        \<and> execs_ok (max_replays p) (w_ledger (snd (replay p now before current k pre ?i r' w1)))"
      if "cancel_from_envelope p now r e path sha w = (Inr u, w1)" for u w1 r'
    proof -
      have k1: "exec_keys (w_ledger w1) = exec_keys (w_ledger w)" using keep that by simp
      then show ?thesis using rep [OF k1] same_keys_ok [OF k1] assms(1) by blast
    qed
    have ok: "execs_ok (max_replays p) (w_ledger (snd (cancel_from_envelope p now r e path sha w)))"
      using same_keys_ok [OF keep] assms(1) by blast
    show ?thesis
      using False assms(1) done_ ok
      by (auto intro!: seq_snd [of "\<lambda>w. execs_ok (max_replays p) (w_ledger w)"] simp: classify_row_def Let_def a
          ret_def reads_def raise_def dest: after split: option.splits)
  qed
qed

lemma classify_execs:
  assumes "execs_ok (max_replays p) (w_ledger w)"
  shows "execs_ok (max_replays p) (w_ledger (snd (classify p now phase step st w)))"
proof (cases "state_parts st phase step (w_ledger w)")
  case (Inl e)
  then show ?thesis using assms by (simp add: classify_run)
next
  case (Inr kp)
  obtain k pre where kp: "kp = (k, pre)" by (cases kp)
  show ?thesis
  proof (cases "latest_operation k (w_ledger w)")
    case None
    let ?i = "\<lparr>id_run = slot_run k, id_unit = slot_unit k, id_phase = phase, id_step = step,
       id_attempt = slot_attempt k, id_ordinal = 0, id_input = workspace_now p phase step\<rparr>"
    have "w_ledger (snd (classify p now phase step st w))
        = snd (start_operation now (claim_for p k ?i pre) None (w_ledger w))"
      by (simp add: classify_run Inr kp None Let_def flip: on_ledger_snd split: prod.splits sum.splits)
    moreover have "grows (k, 0) (w_ledger w) (snd (start_operation now (claim_for p k ?i pre) None (w_ledger w)))"
      using start_grows [of "claim_for p k ?i pre"] by (simp add: claim_for_def)
    ultimately show ?thesis
      using grows_ok [OF assms, of k 0] latest_None [OF None] by simp
  next
    case (Some r)
    then show ?thesis
      using classify_row_execs [OF assms Some] assms
      by (simp add: classify_run Inr kp Let_def split: sum.splits)
  qed
qed

text \<open>Runs: any number of processes and crashes, with the workspace as each call finds it.\<close>

inductive recon_run :: "nat \<Rightarrow> 'f world \<Rightarrow> bool" for m where
  run_fresh: "operations (w_ledger w) = [] \<Longrightarrow> recon_run m w"
| run_classify: "recon_run m w \<Longrightarrow> max_replays p = m \<Longrightarrow>
    recon_run m (snd (classify p now phase step st w))"
| run_turn: "recon_run m w \<Longrightarrow> recon_run m (snd (on_result p now st phase status result session w))"
| run_reject: "recon_run m w \<Longrightarrow> recon_run m (snd (reject_result now st phase reason w))"
| run_record: "recon_run m w \<Longrightarrow> recon_run m (snd (record_result p now phase step st result w))"
| run_cost: "recon_run m w \<Longrightarrow> recon_run m (snd (on_ledger (record_cost i n c u) w))"

lemma recon_run_ok: "recon_run m w \<Longrightarrow> execs_ok m (w_ledger w)"
proof (induction rule: recon_run.induct)
  case (run_fresh w)
  then show ?case by (simp add: execs_ok_def exec_keys_def)
next
  case (run_classify w p now phase step st)
  then show ?case using classify_execs by blast
next
  case (run_cost w i n c u)
  show ?case
    by (rule keepsD [OF keeps_execs [OF keys_cost] run_cost.IH surjective_pairing])
next
  case (run_turn w p now st phase status result session)
  show ?case by (rule keepsD [OF execs_record(2) run_turn.IH surjective_pairing])
next
  case (run_reject w now st phase reason)
  show ?case by (rule keepsD [OF execs_record(3) run_reject.IH surjective_pairing])
next
  case (run_record w p now phase step st result)
  show ?case by (rule keepsD [OF execs_record(1) run_record.IH surjective_pairing])
qed

text \<open>
  C22: In every run of the product, with any number of crashes, a logical attempt is executed
  at most once more than the allowed number of crash replays.
\<close>

theorem executions_bounded:
  assumes "recon_run m w"
  shows "length (filter (in_slot k) (operations (w_ledger w))) \<le> m + 1
     \<and> (\<forall>r \<in> set (operations (w_ledger w)). 0 \<le> op_ordinal r \<and> op_ordinal r \<le> int m)"
proof -
  let ?rows = "filter (in_slot k) (operations (w_ledger w))"
  have ok: "execs_ok m (w_ledger w)" by (rule recon_run_ok [OF assms])
  then have dist: "distinct (map exec_key (operations (w_ledger w)))"
    and ord: "\<forall>r \<in> set (operations (w_ledger w)). 0 \<le> op_ordinal r \<and> op_ordinal r \<le> int m"
    by (auto simp: execs_ok_def exec_keys_def exec_key_def)
  from dist have "distinct (map exec_key ?rows)" by (simp add: distinct_map_filter)
  moreover have "set (map exec_key ?rows) \<subseteq> (\<lambda>n. (k, n)) ` {0..int m}"
    using ord by (force simp: in_slot_key exec_key_def)
  ultimately have "length ?rows \<le> card ((\<lambda>n. (k, n)) ` {0..int m})"
    by (metis (no_types, lifting) card_mono distinct_card finite_atLeastAtMost_int finite_imageI length_map)
  also have "\<dots> \<le> m + 1" using card_image_le [of "{0..int m}" "\<lambda>n. (k, n)"] by simp
  finally show ?thesis using ord by blast
qed

section \<open>An envelope reads back as it was written\<close>

lemma identity_roundtrip: "valid_identity i \<Longrightarrow> identity_from (identity_dict i) = Some i"
  by (cases i) (simp add: identity_from_def identity_dict_def identity_keys_def has_key_def str_field_def
      int_field_def get_def Let_def)

lemma str_values_roundtrip [simp]:
  "(\<lambda>(k, v). (k, py_str p v)) \<circ> (\<lambda>(k, v). (k, PStr v)) = (\<lambda>x. x)" "py_str p \<circ> PStr = (\<lambda>x. x)"
  by (auto simp: py_str_def)

lemma dict_or_empty_PDict [simp]: "dict_or_empty (PDict d) = Some d"
  by (simp add: dict_or_empty_def py_dict_def)

lemma list_or_empty_PList [simp]: "list_or_empty (PList xs) = Some xs"
  by (simp add: list_or_empty_def)

lemma envelope_roundtrip_lemma:
  assumes "envelope_dict p e = Some d"
  shows "envelope_from p (PDict d) = Some e \<and> valid_envelope e"
proof -
  have valid: "valid_envelope e" using assms by (auto simp: envelope_dict_def split: if_splits)
  then have i: "identity_from (identity_dict (en_identity e)) = Some (en_identity e)"
    by (simp add: valid_envelope_def identity_roundtrip)
  have schema: "en_schema e = 1" using valid by (simp add: valid_envelope_def)
  from assms valid have d: "d = [(''envelope_schema_version'', PInt (en_schema e)),
      (''operation_id'', PStr (operation_id p (en_identity e))),
      (''identity'', PDict (identity_dict (en_identity e))),
      (''result_kind'', PStr (en_kind e)),
      (''result'', PDict (en_result e)),
      (''resulting_workspace_fingerprint'', PStr (en_workspace e)),
      (''output_fingerprints'', PDict (map (\<lambda>(k, v). (k, PStr v)) (en_outputs e))),
      (''prerequisite_operation_ids'', PList (map PStr (en_prerequisites e)))]"
    by (simp add: envelope_dict_def)
  have g: "get d ''identity'' = PDict (identity_dict (en_identity e))" "get d ''result'' = PDict (en_result e)"
    "get d ''output_fingerprints'' = PDict (map (\<lambda>(k, v). (k, PStr v)) (en_outputs e))"
    "get d ''prerequisite_operation_ids'' = PList (map PStr (en_prerequisites e))"
    "get d ''envelope_schema_version'' = PInt 1" "get d ''result_kind'' = PStr (en_kind e)"
    "get d ''resulting_workspace_fingerprint'' = PStr (en_workspace e)"
    "get d ''operation_id'' = PStr (operation_id p (en_identity e))"
    "has_key d ''result_kind''" "has_key d ''resulting_workspace_fingerprint''"
    by (simp_all add: d get_def has_key_def schema)
  have kind: "py_str p (PStr x) = x" for x by (simp add: py_str_def)
  have same: "\<lparr>en_identity = en_identity e, en_kind = en_kind e, en_result = en_result e,
      en_workspace = en_workspace e, en_outputs = en_outputs e,
      en_prerequisites = en_prerequisites e, en_schema = 1\<rparr> = e"
    using schema by (cases e) simp
  show ?thesis
    using valid by (simp add: envelope_from_def g i py_dict_def py_int_def Let_def kind same)
qed

section \<open>A recorded result is reused\<close>

text \<open>
  What the secure store of agent-core documents: a written name reads back, verified by its
  digest; and the digest of an operation id is a safe file name.
\<close>

definition sound_ports :: "'f ports \<Rightarrow> bool" where
  "sound_ports p = ((\<forall>x. safe_identifier (digest p x))
     \<and> (\<forall>fs n v sha fs'. write_once p fs n v = Some (sha, fs') \<longrightarrow>
          sha \<noteq> [] \<and> read_verified p fs' n sha = Some v))"

lemma split_on_append: "c \<notin> set a \<Longrightarrow> split_on c (a @ c # b) = a # split_on c b"
  by (induction a) auto

lemma split_on_whole: "c \<notin> set a \<Longrightarrow> split_on c a = [a]"
  by (induction a) auto

lemma safe_identifier_chars: "safe_identifier s \<Longrightarrow> s \<noteq> [] \<and> CHR ''/'' \<notin> set s \<and> s \<noteq> ''.''"
  by (auto simp: safe_identifier_def id_rest_def id_first_def py_isdigit_def code_def list_all_iff
      split: list.splits)

lemma endswith_append [simp]: "endswith (a @ b) b"
  by (simp add: endswith_def)

lemma validated_name:
  assumes "safe_identifier r" and "safe_identifier u" and "safe_identifier x"
  shows "validated_path (r @ ''/'' @ u @ ''/'' @ x @ ''.json'') = Some (r @ ''/'' @ u @ ''/'' @ x @ ''.json'')"
proof -
  have parts: "path_parts (r @ ''/'' @ u @ ''/'' @ x @ ''.json'') = [r, u, x @ ''.json'']"
    using safe_identifier_chars [OF assms(1)] safe_identifier_chars [OF assms(2)]
      safe_identifier_chars [OF assms(3)]
    by (simp add: path_parts_def split_on_append split_on_whole)
  obtain c cs where "r = c # cs" "c \<noteq> CHR ''/''"
    using safe_identifier_chars [OF assms(1)] by (cases r) auto
  then have "\<not> startswith (r @ ''/'' @ u @ ''/'' @ x @ ''.json'') ''/''" by simp
  then show ?thesis
    unfolding validated_path_def parts using assms by simp
qed

lemma valid_identity_name:
  assumes "sound_ports p" and "valid_identity i"
  shows "artifact_name p i \<noteq> None \<and> validated_path (the (artifact_name p i)) = artifact_name p i
     \<and> artifact_name p i \<noteq> Some []"
  using assms validated_name [of "id_run i" "id_unit i" "operation_id p i"]
  by (simp add: artifact_name_def valid_identity_def sound_ports_def operation_id_def)

lemma written_artifact_reads:
  assumes "sound_ports p" and "write_artifact p fs e = Some ((path, sha), fs')"
  shows "read_artifact p fs' path sha = Some e \<and> path \<noteq> [] \<and> sha \<noteq> []"
proof -
  from assms(2) obtain d where d: "envelope_dict p e = Some d"
    and path: "artifact_name p (en_identity e) = Some path"
    and w: "write_once p fs path (PDict d) = Some (sha, fs')"
    by (auto simp: write_artifact_def split: option.splits)
  have "valid_identity (en_identity e)"
    using d by (auto simp: envelope_dict_def valid_envelope_def split: if_splits)
  from valid_identity_name [OF assms(1) this] path have "validated_path path = Some path" "path \<noteq> []"
    by auto
  moreover have "read_verified p fs' path sha = Some (PDict d)" "sha \<noteq> []"
    using assms(1) w unfolding sound_ports_def by blast+
  ultimately show ?thesis
    using envelope_roundtrip_lemma [OF d] by (simp add: read_artifact_def)
qed


lemma classify_row_verdicts:
  assumes "classify_row p now before current k pre r artifact w = (Inr dec, w')"
  shows "dc_verdict dec \<noteq> Run"
  using assms
  by (auto simp: classify_row_def Let_def ret_def decide_as_def seq_def reads_def raise_def
      dest!: replay_not_reuse split: option.splits prod.splits if_splits sum.splits)

definition first_claim :: "'f ports \<Rightarrow> str \<Rightarrow> str \<Rightarrow> op_slot \<Rightarrow> op_identity" where
  "first_claim p phase step k = \<lparr>id_run = slot_run k, id_unit = slot_unit k, id_phase = phase,
     id_step = step, id_attempt = slot_attempt k, id_ordinal = 0,
     id_input = workspace_now p phase step\<rparr>"

lemma run_means_fresh:
  assumes "classify p now phase step st w = (Inr dec, w')" and "dc_verdict dec = Run"
    and "state_parts st phase step (w_ledger w) = Inr (k, pre)"
  shows "latest_operation k (w_ledger w) = None \<and> dc_identity dec = first_claim p phase step k
     \<and> dc_operation dec = operation_id p (first_claim p phase step k)
     \<and> w_files w' = w_files w
     \<and> (\<exists>r. start_operation now (claim_for p k (first_claim p phase step k) pre) None (w_ledger w)
          = (Inr r, w_ledger w'))"
proof (cases "latest_operation k (w_ledger w)")
  case (Some r)
  then have False
    using assms classify_row_verdicts
    by (fastforce simp: classify_run Let_def decide_as_def split: sum.splits)
  then show ?thesis ..
next
  case None
  then show ?thesis
    using assms(1,3)
    by (auto simp: classify_run Let_def decide_as_def on_ledger_def first_claim_def
        split: prod.splits sum.splits)
qed

lemma start_fresh_row:
  assumes "start_operation now c None s = (Inr r, s')" and "latest_operation (cl_slot c) s = None"
  shows "r = claimed_row now c None \<and> s' = s\<lparr>operations := operations s @ [r]\<rparr>
     \<and> get_operation (cl_id c) s = None"
proof (cases "get_operation (cl_id c) s")
  case None
  then show ?thesis using assms(1) by (auto simp: start_cases split: if_splits)
next
  case (Some q)
  then have "same_claim c None q" using assms(1) by (auto simp: start_cases split: if_splits)
  moreover have "q \<in> set (operations s)" using Some by (auto simp: get_operation_def dest: find_row_Some)
  ultimately have "(cl_slot c, cl_ordinal c) \<in> set (exec_keys s)"
    by (force simp: same_claim_def in_slot_key exec_keys_def exec_key_def)
  with latest_None [OF assms(2)] show ?thesis by blast
qed

lemma filter_none_latest:
  assumes "latest_operation k s = None"
  shows "filter (in_slot k) (operations s) = []"
proof -
  have "\<not> in_slot k r" if "r \<in> set (operations s)" for r
    using latest_None [OF assms, of "op_ordinal r"] that
    by (force simp: exec_keys_def in_slot_key exec_key_def)
  then show ?thesis by (simp add: filter_empty_conv)
qed

text \<open>The row that a recorded result leaves in a slot that was free.\<close>

lemma completed_fresh:
  assumes "s1 = s\<lparr>operations := operations s @ [r]\<rparr>" and "get_operation (op_id r) s = None"
    and "in_slot k r" and "latest_operation k s = None" and "op_status r = Started"
    and "complete_operation now (op_id r) e None s1 = (res, s2)"
  shows "latest_operation k s2 = Some (completed_row now e None r)"
proof -
  have g: "get_operation (op_id r) s1 = Some r"
    using assms(1,2) by (simp add: get_operation_def table_simps)
  have old: "update_rows (\<lambda>q. op_id q = op_id r \<and> op_status q = Started) (completed_row now e None) (operations s)
      = operations s"
  proof (rule update_rows_id)
    fix q assume "q \<in> set (operations s)"
    with assms(2) have "op_id q \<noteq> op_id r" unfolding get_operation_def find_row_None by (metis image_eqI)
    then show "\<not> (op_id q = op_id r \<and> op_status q = Started)" by blast
  qed
  have "operations s2 = operations s @ [completed_row now e None r]"
  proof -
    have "s2 = s1\<lparr>operations := update_rows (\<lambda>q. op_id q = op_id r \<and> op_status q = Started)
        (completed_row now e None) (operations s1)\<rparr>"
      using assms(6) by (simp add: complete_cases g assms(5))
    moreover have "operations s1 = operations s @ [r]" by (simp add: assms(1))
    ultimately show ?thesis
      using old assms(5) by (simp add: update_rows_def)
  qed
  moreover have "in_slot k (completed_row now e None r)"
    using assms(3) by (simp add: in_slot_key)
  ultimately show ?thesis
    by (simp add: latest_operation_def filter_none_latest [OF assms(4)])
qed


text \<open>
  The envelope that is written for an operation is read back as the same envelope, with
  its operation id checked against its identity.
\<close>

theorem envelope_roundtrip:
  assumes "envelope_dict p e = Some d"
  shows "envelope_from p (PDict d) = Some e \<and> valid_envelope e"
  using assms by (rule envelope_roundtrip_lemma)

text \<open>
  For a completed operation the classification reuses the result or fails, and reuses it
  exactly when artifact, chain, workspace and outputs all still match; it never runs or
  retries it and writes nothing.
\<close>

theorem completed_never_runs_again:
  assumes "state_parts st phase step (w_ledger w) = Inr (k, pre)"
    and "latest_operation k (w_ledger w) = Some r" and "op_status r = Completed"
  shows "\<exists>dec. classify p now phase step st w = (Inr dec, w)
     \<and> dc_identity dec = identity_for_row r
     \<and> dc_verdict dec \<in> {ReuseResult, FailUnsafe, FailIndeterminate}
     \<and> (dc_verdict dec = ReuseResult \<longleftrightarrow>
          (\<exists>e path sha. artifact_for_row p (w_files w) r = Inr (Some (e, path, sha))
             \<and> validate_prerequisites p (w_files w) (w_ledger w) [] r = Inr ()
             \<and> workspace_now p phase step = en_workspace e
             \<and> map_of (outputs_now p (op_phase r) (op_step r)) = map_of (en_outputs e)))"
  using assms by (rule completed_verdicts)
section \<open>A sample workspace\<close>

definition sample_ports :: "(str \<times> pyval) list ports" where
  "sample_ports = \<lparr>digest = (\<lambda>x. ''d''), shown = (\<lambda>v. ''?''),
     read_verified = (\<lambda>fs n sha. map_of fs n),
     read_existing = (\<lambda>fs n. Some (map_option (\<lambda>v. (v, ''s'')) (map_of fs n))),
     write_once = (\<lambda>fs n v. Some (''s'', (n, v) # fs)),
     workspace_now = (\<lambda>ph st. ''f1''), outputs_now = (\<lambda>ph st. []), edit_allowed = (\<lambda>r. False),
     max_replays = 1\<rparr>"

lemma sample_sound: "sound_ports sample_ports"
  by (simp add: sound_ports_def sample_ports_def safe_identifier_def id_first_def code_def)

definition sample_state :: op_state where
  "sample_state = \<lparr>st_task = Some 1, st_run = Some ''run1'', st_unit = Some ''unit1'',
     st_attempts_by_phase = [], st_attempts = [], st_prerequisites = [], st_operation = None\<rparr>"

definition empty_world :: "(str \<times> pyval) list world" where
  "empty_world = \<lparr>w_ledger = \<lparr>known_tasks = [1], operations = [], costs = []\<rparr>, w_files = []\<rparr>"

lemma sample_parts: "state_parts sample_state ''plan'' ''interpret'' s = Inr (sample_slot, [])"
  by (simp add: state_parts_def sample_state_def sample_slot_def previous_operation_def logical_attempt_def Let_def)

definition sample_identity :: op_identity where
  "sample_identity = first_claim sample_ports ''plan'' ''interpret'' sample_slot"

lemma sample_run:
  "classify sample_ports 1 ''plan'' ''interpret'' sample_state empty_world
    = (Inr (decide_as sample_ports [] Run sample_identity),
       empty_world\<lparr>w_ledger := (w_ledger empty_world)\<lparr>operations :=
         [claimed_row 1 (claim_for sample_ports sample_slot sample_identity []) None]\<rparr>\<rparr>)"
  by (simp add: classify_run sample_parts Let_def latest_operation_def empty_world_def on_ledger_def start_cases
      get_operation_def table_simps sample_identity_def first_claim_def)
    (simp add: claim_for_def sample_slot_def operation_steps_def)


definition claimed_world :: "(str \<times> pyval) list world" where
  "claimed_world = empty_world\<lparr>w_ledger := (w_ledger empty_world)\<lparr>operations :=
     [claimed_row 1 (claim_for sample_ports sample_slot sample_identity []) None]\<rparr>\<rparr>"

definition sample_row :: op_row where
  "sample_row = claimed_row 1 (claim_for sample_ports sample_slot sample_identity []) None"

lemma sample_row_simps [simp]: "op_id sample_row = ''d''" "op_phase sample_row = ''plan''"
  "op_step sample_row = ''interpret''" "op_status sample_row = Started" "op_prerequisites sample_row = []"
  "op_ordinal sample_row = 0" "identity_for_row sample_row = sample_identity"
  by (simp_all add: sample_row_def claimed_row_def claim_for_def sample_slot_def operation_id_def
      sample_ports_def sample_identity_def first_claim_def identity_for_row_def)

lemma claimed_ops: "operations (w_ledger claimed_world) = [sample_row]" "w_files claimed_world = []"
  by (simp_all add: claimed_world_def empty_world_def sample_row_def)

definition sample_envelope :: "pydict \<Rightarrow> envelope" where
  "sample_envelope result = new_envelope sample_ports sample_row ''plan'' ''interpret'' ''phase'' result"

lemma sample_envelope_valid: "valid_envelope (sample_envelope result)"
  by (simp add: sample_envelope_def valid_envelope_def new_envelope_def valid_identity_def sample_identity_def
      first_claim_def sample_slot_def sample_ports_def safe_identifier_def id_first_def id_rest_def code_def
      py_isdigit_def operation_steps_def)

lemma sample_write: "\<exists>d. write_artifact sample_ports [] (sample_envelope result)
    = Some ((''run1/unit1/d.json'', ''s''), [(''run1/unit1/d.json'', PDict d)])
   \<and> envelope_dict sample_ports (sample_envelope result) = Some d"
proof -
  have v: "valid_identity sample_identity"
    using sample_envelope_valid [of result]
    by (simp add: valid_envelope_def sample_envelope_def new_envelope_def)
  have "artifact_name sample_ports (en_identity (sample_envelope result)) = Some ''run1/unit1/d.json''"
    using v by (simp add: artifact_name_def sample_envelope_def new_envelope_def operation_id_def sample_ports_def)
      (simp add: sample_identity_def first_claim_def sample_slot_def)
  then show ?thesis
    using sample_envelope_valid [of result]
    by (simp add: write_artifact_def envelope_dict_def) (simp add: sample_ports_def)
qed

lemma sample_record:
  "\<exists>out w2. record_result sample_ports 2 ''plan'' ''interpret''
      (sample_state\<lparr>st_operation := Some ''d''\<rparr>) result claimed_world = (Inr out, w2)"
proof -
  have g: "get_operation ''d'' (w_ledger claimed_world) = Some sample_row"
    by (simp add: get_operation_def claimed_ops table_simps)
  have r: "row_from_state (sample_state\<lparr>st_operation := Some ''d''\<rparr>) ''plan'' ''interpret''
      (w_ledger claimed_world) = Inr sample_row"
    by (simp add: row_from_state_def previous_operation_def g)
  obtain d where w: "write_artifact sample_ports [] (sample_envelope result)
    = Some ((''run1/unit1/d.json'', ''s''), [(''run1/unit1/d.json'', PDict d)])"
    using sample_write by blast
  show ?thesis
    unfolding record_result_def
    by (simp add: seq_def r Let_def store_artifact_def sample_envelope_def [symmetric] claimed_ops w on_ledger_def
        complete_cases g ret_def)
qed

lemma sample_run': "classify sample_ports 1 ''plan'' ''interpret'' sample_state empty_world
    = (Inr (decide_as sample_ports [] Run sample_identity), claimed_world)"
  using sample_run by (simp add: claimed_world_def)


section \<open>A finished operation and one that builds on it\<close>

definition done_row :: op_row where
  "done_row = completed_row 2 (envelope_evidence (sample_envelope []) ''run1/unit1/d.json'' ''s'') None sample_row"

definition done_world :: "(str \<times> pyval) list world" where
  "done_world = \<lparr>w_ledger = \<lparr>known_tasks = [1], operations = [done_row], costs = []\<rparr>,
     w_files = [(''run1/unit1/d.json'', PDict (the (envelope_dict sample_ports (sample_envelope []))))]\<rparr>"

lemma done_row_simps [simp]: "op_id done_row = ''d''" "op_status done_row = Completed"
  "op_prerequisites done_row = []" "op_phase done_row = ''plan''" "op_step done_row = ''interpret''"
  "identity_for_row done_row = sample_identity" "op_path done_row = Some ''run1/unit1/d.json''"
  "op_sha done_row = Some ''s''" "op_task done_row = 1" "op_run done_row = ''run1''" "op_unit done_row = ''unit1''"
  "op_attempt done_row = 0"
  using sample_row_simps(1-5,7)
  by (simp_all add: done_row_def completed_row_def envelope_evidence_def identity_for_row_def)
    (simp_all add: sample_row_def claimed_row_def claim_for_def sample_slot_def)

lemma done_artifact: "artifact_for_row sample_ports (w_files done_world) done_row
    = Inr (Some (sample_envelope [], ''run1/unit1/d.json'', ''s''))"
proof -
  obtain d where d: "write_artifact sample_ports [] (sample_envelope [])
    = Some ((''run1/unit1/d.json'', ''s''), [(''run1/unit1/d.json'', PDict d)])"
    "envelope_dict sample_ports (sample_envelope []) = Some d"
    using sample_write by blast
  from written_artifact_reads [OF sample_sound d(1)] show ?thesis
    by (simp add: artifact_for_row_def given_def done_world_def d(2))
      (simp add: sample_envelope_def new_envelope_def)
qed

lemma done_latest: "latest_operation sample_slot (w_ledger done_world) = Some done_row"
  by (simp add: latest_operation_def done_world_def in_slot_def) (simp add: sample_slot_def)

theorem completed_never_runs_again_witness:
  "\<exists>dec. classify sample_ports 5 ''plan'' ''interpret'' sample_state done_world = (Inr dec, done_world)
     \<and> dc_verdict dec \<in> {ReuseResult, FailUnsafe, FailIndeterminate}"
  using completed_never_runs_again [OF sample_parts done_latest, of sample_ports 5] by auto

lemma done_reused: "\<exists>dec. classify sample_ports 5 ''plan'' ''interpret'' sample_state done_world = (Inr dec, done_world)
     \<and> dc_verdict dec = ReuseResult"
proof -
  have "validate_prerequisites sample_ports (w_files done_world) (w_ledger done_world) [] done_row = Inr ()"
    by (simp add: validate_prerequisites.simps [of _ "w_files done_world"])
  with completed_verdicts [OF sample_parts done_latest, of sample_ports 5] done_artifact show ?thesis
    by (auto simp: sample_envelope_def new_envelope_def)
qed

theorem reuse_is_sound_witness:
  "\<exists>dec (e::envelope). classify sample_ports 5 ''plan'' ''interpret'' sample_state done_world = (Inr dec, done_world)
     \<and> en_identity e = dc_identity dec \<and> en_workspace e = workspace_now sample_ports ''plan'' ''interpret''"
proof -
  obtain dec where dec: "classify sample_ports 5 ''plan'' ''interpret'' sample_state done_world = (Inr dec, done_world)"
    "dc_verdict dec = ReuseResult" using done_reused by blast
  from reuse_is_sound [OF dec] obtain e :: envelope where "en_identity e = dc_identity dec"
    "en_workspace e = workspace_now sample_ports ''plan'' ''interpret''"
    by blast
  with dec(1) show ?thesis by blast
qed

definition later_row :: op_row where
  "later_row = done_row\<lparr>op_id := ''z'', op_phase := ''generate'', op_prerequisites := [''d'']\<rparr>"

theorem evidence_chain_witness:
  "op_status done_row = Completed \<and> op_id done_row \<noteq> op_id later_row
     \<and> \<not> depends (w_ledger done_world) done_row done_row"
proof -
  have g: "get_operation ''d'' (w_ledger done_world) = Some done_row"
    by (simp add: get_operation_def done_world_def table_simps)
  have "validate_prerequisites sample_ports (w_files done_world) (w_ledger done_world) [''z''] done_row = Inr ()"
    by (simp add: validate_prerequisites.simps [of _ "w_files done_world"])
  moreover have "prerequisite_row later_row ''d'' (w_ledger done_world) = Some done_row"
    by (simp add: prerequisite_row_def g later_row_def)
  ultimately have "validate_prerequisites sample_ports (w_files done_world) (w_ledger done_world) [] later_row = Inr ()"
    by (simp add: validate_prerequisites.simps [of _ "w_files done_world" _ "[]"] done_artifact)
      (simp add: later_row_def done_artifact)
  moreover have "depends (w_ledger done_world) later_row done_row"
    by (rule direct [of "''d''"]) (simp_all add: later_row_def g)
  ultimately show ?thesis using evidence_chain [of sample_ports "w_files done_world" "w_ledger done_world" later_row done_row]
    by blast
qed

theorem executions_bounded_witness:
  "length (filter (in_slot sample_slot) (operations (w_ledger claimed_world))) \<le> 1 + 1"
proof -
  have "recon_run 1 (snd (classify sample_ports 1 ''plan'' ''interpret'' sample_state empty_world))"
    by (intro run_classify run_fresh) (simp_all add: empty_world_def sample_ports_def)
  then have "recon_run 1 claimed_world" unfolding sample_run' snd_conv .
  from executions_bounded [OF this, of sample_slot] show ?thesis by blast
qed

theorem envelope_roundtrip_witness:
  "\<exists>d. envelope_dict sample_ports (sample_envelope []) = Some d
     \<and> envelope_from sample_ports (PDict d) = Some (sample_envelope [])"
proof -
  obtain d where d: "envelope_dict sample_ports (sample_envelope []) = Some d"
    using sample_write by blast
  with envelope_roundtrip [OF d] show ?thesis by blast
qed

end
