(* ===== verification/MutationBatching.thy ===== *)
theory MutationBatching
  imports PyValue "HOL-Library.List_Lexorder" "HOL-Library.Multiset"
begin

text \<open>
  Partitioning of mutation work into batches:
  \<open>tools/python-enforcement/uta_enforce_core/mutation_batching.py\<close>. A symbol is its list of
  code points, because the separator of class and method lies above the range of \<open>char\<close>; the
  order of \<open>str\<close> is the lexicographic order of code points.
\<close>

section \<open>Units and batches\<close>

type_synonym symbol = "nat list"

definition class_name_separator :: nat where
  "class_name_separator = 449"

record mutation_unit =
  mu_symbol :: symbol
  mu_bytes :: int
  mu_lines :: "int list"
  mu_priority :: int

record batch_plan =
  bp_index :: nat
  bp_symbols :: "symbol list"
  bp_lines :: "int list"
  bp_bytes :: int

record partition_result =
  pr_batches :: "batch_plan list"
  pr_signature :: str
  pr_over_cap :: "int list"
  pr_over_count :: "int list"

definition estimated_generated_bytes :: "int \<Rightarrow> nat \<Rightarrow> int" where
  "estimated_generated_bytes unit_bytes n_lines = (int n_lines + 1) * max 0 unit_bytes"

record bin =
  bin_used :: int
  bin_symbols :: "symbol list"
  bin_lines :: "int list"

definition unit_order :: "mutation_unit \<Rightarrow> int \<times> symbol" where
  "unit_order u = (- mu_priority u, mu_symbol u)"

text \<open>The cap on an oversized unit: the lines kept and the lines dropped.\<close>

definition cap_lines :: "int \<Rightarrow> mutation_unit \<Rightarrow> int list \<times> int list" where
  "cap_lines budget u =
     (let lines = sort (mu_lines u) in
      if 0 < mu_bytes u \<and> 0 < budget then
        (let max_lines_fit = budget div mu_bytes u - 1 in
         if max_lines_fit < int (length lines)
         then (let keep_n = nat (max 1 max_lines_fit) in (take keep_n lines, drop keep_n lines))
         else (lines, []))
      else (lines, []))"

text \<open>The first bin with room takes the unit.\<close>

fun place :: "int \<Rightarrow> int \<Rightarrow> symbol \<Rightarrow> int list \<Rightarrow> bin list \<Rightarrow> bin list option" where
  "place budget est symbol lines [] = None"
| "place budget est symbol lines (b # bs) =
     (if bin_used b + est \<le> budget
      then Some (b\<lparr>bin_used := bin_used b + est, bin_symbols := bin_symbols b @ [symbol],
             bin_lines := bin_lines b @ lines\<rparr> # bs)
      else map_option ((#) b) (place budget est symbol lines bs))"

record packing =
  pk_bins :: "bin list"
  pk_over_cap :: "int list"
  pk_over_count :: "int list"

definition pack_unit :: "int \<Rightarrow> nat \<Rightarrow> packing \<Rightarrow> mutation_unit \<Rightarrow> packing" where
  "pack_unit budget max_batches s u =
     (if mu_lines u = [] then s
      else
        (let kept = fst (cap_lines budget u);
             est = estimated_generated_bytes (mu_bytes u) (length kept);
             s1 = s\<lparr>pk_over_cap := pk_over_cap s @ snd (cap_lines budget u)\<rparr> in
         (case (if est \<le> budget then place budget est (mu_symbol u) kept (pk_bins s) else None) of
            Some bins \<Rightarrow> s1\<lparr>pk_bins := bins\<rparr>
          | None \<Rightarrow>
             if length (pk_bins s) < max_batches
             then s1\<lparr>pk_bins := pk_bins s @
                    [\<lparr>bin_used = est, bin_symbols = [mu_symbol u], bin_lines = kept\<rparr>]\<rparr>
             else s1\<lparr>pk_over_count := pk_over_count s @ kept\<rparr>)))"

definition pack_units :: "int \<Rightarrow> nat \<Rightarrow> mutation_unit list \<Rightarrow> packing" where
  "pack_units budget max_batches units =
     foldl (pack_unit budget max_batches) \<lparr>pk_bins = [], pk_over_cap = [], pk_over_count = []\<rparr>
       (sort_key unit_order units)"

definition smallest_line :: "bin \<Rightarrow> int" where
  "smallest_line b = Min (set (bin_lines b))"

definition batch_of :: "nat \<Rightarrow> bin \<Rightarrow> batch_plan" where
  "batch_of i b = \<lparr>bp_index = i, bp_symbols = bin_symbols b, bp_lines = sort (bin_lines b),
     bp_bytes = bin_used b\<rparr>"

text \<open>\<open>_signature\<close>: the hash is an argument.\<close>

definition batches_signature :: "(str \<Rightarrow> str) \<Rightarrow> batch_plan list \<Rightarrow> str" where
  "batches_signature sha256 bs = take 16 (sha256 (join_with ''|''
     (map (\<lambda>b. join_with '','' (map int_str (bp_lines b))) bs)))"

definition partition_units_into_batches ::
  "(str \<Rightarrow> str) \<Rightarrow> mutation_unit list \<Rightarrow> int \<Rightarrow> int \<Rightarrow> partition_result" where
  "partition_units_into_batches sha256 units budget max_batches =
     (let s = pack_units budget (nat (max 1 max_batches)) units;
          ordered = sort_key smallest_line (filter (\<lambda>b. bin_lines b \<noteq> []) (pk_bins s));
          batches = map (\<lambda>(i, b). batch_of i b) (enumerate 0 ordered) in
      \<lparr>pr_batches = batches, pr_signature = batches_signature sha256 batches,
       pr_over_cap = sort (pk_over_cap s), pr_over_count = sort (pk_over_count s)\<rparr>)"

section \<open>Units of a source file\<close>

text \<open>
  The statements of a module as \<open>ast.parse\<close> returns them, which is an argument (\<open>None\<close> when
  it raises \<open>SyntaxError\<close>): functions with their span, classes with their body.
\<close>

datatype member = MethodDef str nat nat | OtherMember
datatype statement = FunctionDef str nat nat | ClassDef str "member list" | OtherStatement

definition utf8_len :: "str \<Rightarrow> nat" where
  "utf8_len s = sum_list (map (\<lambda>c. if code c < 128 then 1 else 2) s)"

text \<open>\<open>str.splitlines(keepends=True)\<close>.\<close>

fun splitlines_keep :: "str \<Rightarrow> str \<Rightarrow> str list" where
  "splitlines_keep acc [] = (if acc = [] then [] else [rev acc])"
| "splitlines_keep acc [c] = [rev (c # acc)]"
| "splitlines_keep acc (c # d # cs) =
     (if code c = 13 \<and> code d = 10 then rev (d # c # acc) # splitlines_keep [] cs
      else if is_linebreak c then rev (c # acc) # splitlines_keep [] (d # cs)
      else splitlines_keep (c # acc) (d # cs))"

definition line_bytes :: "str \<Rightarrow> nat list" where
  "line_bytes source = 0 # map utf8_len (splitlines_keep [] source)"

definition unit_bytes :: "nat list \<Rightarrow> nat \<Rightarrow> nat \<Rightarrow> nat" where
  "unit_bytes lb start end_line =
     sum_list (map (\<lambda>i. lb ! i) (filter (\<lambda>i. 1 \<le> i \<and> i < length lb) [start..<end_line + 1]))"

text \<open>\<open>_record\<close>: every line of the span, later spans overwriting earlier ones.\<close>

definition record_span ::
  "nat list \<Rightarrow> symbol \<Rightarrow> nat \<Rightarrow> nat \<Rightarrow> (nat \<times> symbol \<times> nat) list \<Rightarrow> (nat \<times> symbol \<times> nat) list" where
  "record_span lb symbol start end_line m =
     (if start = 0 then m
      else map (\<lambda>line. (line, symbol, unit_bytes lb start end_line)) [start..<end_line + 1] @ m)"

definition symbol_text :: "str \<Rightarrow> symbol" where
  "symbol_text s = map code s"

fun record_statement :: "nat list \<Rightarrow> (nat \<times> symbol \<times> nat) list \<Rightarrow> statement \<Rightarrow> (nat \<times> symbol \<times> nat) list" where
  "record_statement lb m (FunctionDef name a b) = record_span lb (symbol_text name) a b m"
| "record_statement lb m (ClassDef name body) = foldl (\<lambda>m x. case x of
       MethodDef method a b \<Rightarrow>
         record_span lb (symbol_text name @ class_name_separator # symbol_text method) a b m
     | OtherMember \<Rightarrow> m) m body"
| "record_statement lb m OtherStatement = m"

definition unit_by_line :: "str \<Rightarrow> statement list \<Rightarrow> nat \<Rightarrow> (symbol \<times> nat) option" where
  "unit_by_line source body = map_of (foldl (record_statement (line_bytes source)) [] body)"

definition located :: "(nat \<Rightarrow> (symbol \<times> nat) option) \<Rightarrow> (int \<times> int) list \<Rightarrow> (symbol \<times> nat \<times> int \<times> int) list"
  where
  "located lookup selected = List.map_filter (\<lambda>(line, priority).
     if line < 0 then None
     else map_option (\<lambda>(s, n). (s, n, line, priority)) (lookup (nat line))) selected"

definition unit_of :: "(symbol \<times> nat \<times> int \<times> int) list \<Rightarrow> symbol \<Rightarrow> mutation_unit" where
  "unit_of ls s =
     (let mine = filter (\<lambda>(t, _). t = s) ls in
      \<lparr>mu_symbol = s, mu_bytes = (case rev mine of [] \<Rightarrow> 0 | (_, n, _) # _ \<Rightarrow> int n),
       mu_lines = sorted_list_of_set ((\<lambda>(_, _, l, _). l) ` set mine),
       mu_priority = foldl (\<lambda>p (_, _, _, q). max p q) 0 mine\<rparr>)"

definition mutation_units_from_source ::
  "(str \<Rightarrow> statement list option) \<Rightarrow> str \<Rightarrow> (int \<times> int) list \<Rightarrow> mutation_unit list" where
  "mutation_units_from_source ast_parse source selected =
     (case ast_parse source of
        None \<Rightarrow> []
      | Some body \<Rightarrow>
         (let ls = located (unit_by_line source body) selected in
          map (unit_of ls) (sorted_list_of_set (fst ` set ls))))"

section \<open>The policy of one batch\<close>

definition policy_line_list_fields :: "str list" where
  "policy_line_list_fields = [''selected'', ''selectedLineRepresentatives'', ''selectedBeforeCap'',
     ''hardCapSelected'', ''omittedByCapOpportunities'', ''omittedByRepresentativeOpportunities'',
     ''omittedByHardCapOpportunities'', ''omittedByOnePerLineOpportunities'', ''suppressed'']"

definition int_or_minus :: "pyval \<Rightarrow> int" where
  "int_or_minus v = (case py_int v of None \<Rightarrow> -1 | Some n \<Rightarrow> n)"

definition policy_payload_line :: "pyval \<Rightarrow> int" where
  "policy_payload_line item = (case item of
     PDict d \<Rightarrow>
       if has_key d ''line'' then int_or_minus (get d ''line'')
       else (case get d ''opportunity'' of
          PDict e \<Rightarrow> if has_key e ''line'' then int_or_minus (get e ''line'') else -1
        | _ \<Rightarrow> -1)
   | _ \<Rightarrow> -1)"

definition restrict_payloads :: "pydict \<Rightarrow> int set \<Rightarrow> str \<Rightarrow> pydict \<Rightarrow> pydict" where
  "restrict_payloads policy lines k d = (case get policy k of
     PList xs \<Rightarrow> dict_set k (PList (filter (\<lambda>x. policy_payload_line x \<in> lines) xs)) d
   | _ \<Rightarrow> d)"

text \<open>\<open>sorted(int(x) for x in value if int(x) in line_set)\<close>: \<open>None\<close> when an \<open>int\<close> raises.\<close>

definition restrict_lines :: "pydict \<Rightarrow> int set \<Rightarrow> str \<Rightarrow> pydict \<Rightarrow> pydict option" where
  "restrict_lines policy lines k d = (case get policy k of
     PList xs \<Rightarrow> if list_ex (\<lambda>x. py_int x = None) xs then None
       else Some (dict_set k (PList (map PInt (sort (filter (\<lambda>n. n \<in> lines)
         (map (\<lambda>x. the (py_int x)) xs))))) d)
   | _ \<Rightarrow> Some d)"

definition restrict_by_line :: "pydict \<Rightarrow> int set \<Rightarrow> str \<Rightarrow> pydict \<Rightarrow> pydict option" where
  "restrict_by_line policy lines k d = (case get policy k of
     PDict e \<Rightarrow> if list_ex (\<lambda>(x, _). int_text x = None) e then None
       else Some (dict_set k (PDict (filter (\<lambda>(x, _). the (int_text x) \<in> lines) e)) d)
   | _ \<Rightarrow> Some d)"

definition filter_generation_policy_to_lines :: "pydict \<Rightarrow> int list \<Rightarrow> pydict option" where
  "filter_generation_policy_to_lines policy lines =
     (let ls = set lines;
          d0 = foldl (\<lambda>d k. restrict_payloads policy ls k d) policy policy_line_list_fields;
          then_with = (\<lambda>f k r. Option.bind r (f policy ls k)) in
      then_with restrict_by_line ''opportunityIdByLine''
        (then_with restrict_by_line ''operatorByLine''
          (then_with restrict_lines ''allowedLines''
            (then_with restrict_lines ''selectedLines'' (Some d0)))))"

text \<open>\<open>int(item["line"])\<close> and \<open>int(item.get("operatorPriority", 0) or 0)\<close>.\<close>

definition policy_pair :: "pydict \<Rightarrow> (int \<times> int) option" where
  "policy_pair d = (case (py_int (get d ''line''),
       if truthy (get d ''operatorPriority'') then py_int (get d ''operatorPriority'') else Some 0) of
     (Some l, Some p) \<Rightarrow> Some (l, p) | _ \<Rightarrow> None)"

fun policy_pairs :: "pyval list \<Rightarrow> (int \<times> int) list option" where
  "policy_pairs [] = Some []"
| "policy_pairs (PDict d # xs) =
     (if has_key d ''line'' then
        (case (policy_pair d, policy_pairs xs) of
           (Some p, Some ps) \<Rightarrow> Some (p # ps) | _ \<Rightarrow> None)
      else policy_pairs xs)"
| "policy_pairs (_ # xs) = policy_pairs xs"

definition mutation_units_from_generation_policy ::
  "(str \<Rightarrow> statement list option) \<Rightarrow> str \<Rightarrow> pyval list \<Rightarrow> mutation_unit list option" where
  "mutation_units_from_generation_policy ast_parse source_text selected =
     map_option (mutation_units_from_source ast_parse source_text) (policy_pairs selected)"

end
