(* ===== verification/BatchingFacts.thy ===== *)
theory BatchingFacts
  imports MutationBatching
begin

text \<open>
  The partition loses no line, keeps every batch under its budget and every unit in one
  batch, and every selected line of a file belongs to one unit.
\<close>


section \<open>Nothing is lost, no batch is too big\<close>

definition bins_lines :: "bin list \<Rightarrow> int multiset" where
  "bins_lines bs = (\<Sum>b \<leftarrow> bs. mset (bin_lines b))"

definition all_lines :: "packing \<Rightarrow> int multiset" where
  "all_lines s = bins_lines (pk_bins s) + mset (pk_over_cap s) + mset (pk_over_count s)"

lemma bins_lines_simps [simp]:
  "bins_lines [] = {#}" "bins_lines (b # bs) = mset (bin_lines b) + bins_lines bs"
  "bins_lines (bs @ cs) = bins_lines bs + bins_lines cs"
  by (simp_all add: bins_lines_def)

lemma cap_lines_split: "mset (fst (cap_lines budget u)) + mset (snd (cap_lines budget u)) = mset (mu_lines u)"
  by (simp add: cap_lines_def Let_def flip: mset_append)

lemma place_lines:
  "place budget est symbol lines bs = Some bs' \<Longrightarrow> bins_lines bs' = bins_lines bs + mset lines"
  by (induction bs arbitrary: bs') (auto split: if_splits)

lemma pack_unit_lines: "all_lines (pack_unit budget n s u) = all_lines s + mset (mu_lines u)"
  using cap_lines_split [of budget u]
  by (auto simp: pack_unit_def Let_def all_lines_def ac_simps dest!: place_lines split: option.splits)

lemma fold_pack_lines:
  "all_lines (foldl (pack_unit budget n) s us) = all_lines s + (\<Sum>u \<leftarrow> us. mset (mu_lines u))"
  by (induction us arbitrary: s) (simp_all add: pack_unit_lines ac_simps)

definition bin_ok :: "int \<Rightarrow> bin \<Rightarrow> bool" where
  "bin_ok budget b = (bin_lines b \<noteq> [] \<and> (bin_used b \<le> budget
     \<or> length (bin_symbols b) = 1 \<and> length (bin_lines b) = 1))"

lemma sort_empty [simp]: "sort xs = [] \<longleftrightarrow> xs = []" for xs :: "int list"
  by (metis length_0_conv length_sort)

lemma capped_fits:
  assumes "0 < budget" and "mu_lines u \<noteq> []"
  shows "fst (cap_lines budget u) \<noteq> [] \<and>
    (estimated_generated_bytes (mu_bytes u) (length (fst (cap_lines budget u))) \<le> budget
     \<or> length (fst (cap_lines budget u)) = 1)"
proof (cases "0 < mu_bytes u")
  case False
  with assms show ?thesis
    by (auto simp: cap_lines_def Let_def estimated_generated_bytes_def)
next
  case True
  let ?fit = "budget div mu_bytes u - 1" and ?n = "length (mu_lines u)"
  have fits: "(int k + 1) * mu_bytes u \<le> budget" if "int k \<le> ?fit" for k
  proof -
    have "(int k + 1) * mu_bytes u \<le> (budget div mu_bytes u) * mu_bytes u"
      by (rule mult_right_mono) (use that True in auto)
    also have "\<dots> \<le> budget" using minus_mod_eq_div_mult [of budget "mu_bytes u"] pos_mod_sign [OF True, of budget] by linarith
    finally show ?thesis .
  qed
  have ne: "mu_lines u \<noteq> []" "sort (mu_lines u) \<noteq> []" using assms(2) by simp_all
  show ?thesis
  proof (cases "?fit < int ?n")
    case cap: True
    show ?thesis
    proof (cases "1 \<le> ?fit")
      case one: True
      then have "length (take (nat (max 1 ?fit)) (sort (mu_lines u))) = nat ?fit"
        using cap by simp
      then show ?thesis
        using True assms cap one ne fits [of "nat ?fit"]
        by (simp add: cap_lines_def Let_def estimated_generated_bytes_def)
    next
      case False
      then have "max 1 ?fit = 1" by simp
      then show ?thesis
        using True assms cap ne le_antisym [of "length (mu_lines u)" "Suc 0"]
        by (cases "mu_lines u") (simp_all add: cap_lines_def Let_def min_def)
    qed
  next
    case False
    then show ?thesis
      using True assms ne fits [of ?n] by (simp add: cap_lines_def Let_def estimated_generated_bytes_def)
  qed
qed

lemma place_bins:
  "place budget est symbol lines bs = Some bs' \<Longrightarrow>
   length bs' = length bs \<and> mset (concat (map bin_symbols bs')) = mset (concat (map bin_symbols bs)) + {#symbol#}
   \<and> ((\<forall>b \<in> set bs. bin_ok budget b) \<longrightarrow> (\<forall>b \<in> set bs'. bin_ok budget b))"
  by (induction bs arbitrary: bs') (auto simp: bin_ok_def split: if_splits)

definition packing_ok :: "int \<Rightarrow> nat \<Rightarrow> symbol multiset \<Rightarrow> packing \<Rightarrow> bool" where
  "packing_ok budget n syms s = (length (pk_bins s) \<le> n \<and> (\<forall>b \<in> set (pk_bins s). bin_ok budget b)
     \<and> mset (concat (map bin_symbols (pk_bins s))) \<subseteq># syms)"

lemma pack_unit_ok:
  assumes "0 < budget" and "packing_ok budget n syms s"
  shows "packing_ok budget n (add_mset (mu_symbol u) syms) (pack_unit budget n s u)"
proof (cases "mu_lines u = []")
  case True
  with assms show ?thesis
    by (auto simp: packing_ok_def pack_unit_def intro: subset_mset.order_trans)
next
  case False
  note fit = capped_fits [OF assms(1) False]
  show ?thesis
    using assms fit False
    by (auto simp: packing_ok_def pack_unit_def Let_def bin_ok_def [of _ "\<lparr>bin_used = _, bin_symbols = _, bin_lines = _\<rparr>"]
      intro: subset_mset.order_trans mset_subset_eq_mono_add dest!: place_bins split: option.splits)
qed


lemma distinct_mset_sub:
  assumes "mset xs \<subseteq># mset ys" and "distinct ys"
  shows "distinct xs"
proof -
  have "count (mset xs) a \<le> count (mset ys) a" for a by (rule mset_subset_eq_count [OF assms(1)])
  moreover have "count (mset ys) a \<le> 1" for a using assms(2) by (simp add: distinct_count_atmost_1)
  ultimately have "count (mset xs) a \<le> 1" for a using le_trans by blast
  then have "count (mset xs) a = (if a \<in> set xs then 1 else 0)" for a
    by (metis One_nat_def count_greater_zero_iff count_mset_0_iff le_antisym not_less_eq_eq set_mset_mset Suc_leI)
  then show ?thesis unfolding distinct_count_atmost_1 by blast
qed

lemma fold_pack_ok:
  "0 < budget \<Longrightarrow> packing_ok budget n syms s \<Longrightarrow>
   packing_ok budget n (syms + mset (map mu_symbol us)) (foldl (pack_unit budget n) s us)"
proof (induction us arbitrary: s syms)
  case (Cons u us)
  from Cons.IH [OF Cons.prems(1) pack_unit_ok [OF Cons.prems]] show ?case by simp
qed simp

lemma pack_units_ok:
  "0 < budget \<Longrightarrow> packing_ok budget n (mset (map mu_symbol us)) (pack_units budget n us)"
  using fold_pack_ok [of budget n "{#}" "\<lparr>pk_bins = [], pk_over_cap = [], pk_over_count = []\<rparr>" "sort_key unit_order us"]
  by (simp add: pack_units_def packing_ok_def)

lemma pack_units_lines: "all_lines (pack_units budget n us) = (\<Sum>u \<leftarrow> us. mset (mu_lines u))"
proof -
  have sum: "(\<Sum>u \<leftarrow> ys. mset (mu_lines u)) = \<Sum>\<^sub># (image_mset (\<lambda>u. mset (mu_lines u)) (mset ys))" for ys
    by (induction ys) simp_all
  have "(\<Sum>u \<leftarrow> sort_key unit_order us. mset (mu_lines u)) = (\<Sum>u \<leftarrow> us. mset (mu_lines u))"
    unfolding sum by simp
  then show ?thesis
    by (simp add: pack_units_def fold_pack_lines) (simp add: all_lines_def)
qed

definition ordered_bins :: "packing \<Rightarrow> bin list" where
  "ordered_bins s = sort_key smallest_line (filter (\<lambda>b. bin_lines b \<noteq> []) (pk_bins s))"

lemma partition_batches:
  "pr_batches (partition_units_into_batches h us budget m)
     = map (\<lambda>(i, b). batch_of i b) (enumerate 0 (ordered_bins (pack_units budget (nat (max 1 m)) us)))"
  by (simp add: partition_units_into_batches_def Let_def ordered_bins_def)

lemma enumerate_batches:
  "map bp_lines (map (\<lambda>(i, b). batch_of i b) (enumerate k bs)) = map (\<lambda>b. sort (bin_lines b)) bs"
  "map bp_symbols (map (\<lambda>(i, b). batch_of i b) (enumerate k bs)) = map bin_symbols bs"
  "map bp_bytes (map (\<lambda>(i, b). batch_of i b) (enumerate k bs)) = map bin_used bs"
  by (induction bs arbitrary: k) (simp_all add: batch_of_def)

lemma enumerate_index:
  "map bp_index (map (\<lambda>(i, b). batch_of i b) (enumerate k bs)) = [k..<k + length bs]"
proof -
  have "bp_index \<circ> (\<lambda>(i, b). batch_of i b) = fst" by (auto simp: batch_of_def)
  then show ?thesis by (simp add: map_fst_enumerate)
qed

lemma bins_lines_mset: "bins_lines bs = (\<Sum>b \<in># mset bs. mset (bin_lines b))"
  by (simp add: bins_lines_def sum_mset_sum_list [symmetric])

lemma bins_lines_filter: "bins_lines (filter (\<lambda>b. bin_lines b \<noteq> []) bs) = bins_lines bs"
  by (induction bs) auto

lemma bins_lines_sorted: "mset (concat (map (\<lambda>b. sort (bin_lines b)) bs)) = bins_lines bs"
  by (induction bs) auto

text \<open>
  C32: Every selected line of every unit ends up exactly once in a batch, among the lines cut
  by the byte cap or among the lines dropped for the batch count.
\<close>

theorem partition_loses_nothing:
  "mset (concat (map bp_lines (pr_batches (partition_units_into_batches h units budget max_batches))))
     + mset (pr_over_cap (partition_units_into_batches h units budget max_batches))
     + mset (pr_over_count (partition_units_into_batches h units budget max_batches))
   = (\<Sum>u \<leftarrow> units. mset (mu_lines u))"
proof -
  let ?s = "pack_units budget (nat (max 1 max_batches)) units"
  have "mset (concat (map bp_lines (pr_batches (partition_units_into_batches h units budget max_batches))))
      = bins_lines (pk_bins ?s)"
    unfolding partition_batches enumerate_batches bins_lines_sorted
    by (simp add: ordered_bins_def bins_lines_mset) (simp flip: bins_lines_mset mset_filter add: bins_lines_filter)
  then show ?thesis
    using pack_units_lines [of budget "nat (max 1 max_batches)" units]
    by (simp add: partition_units_into_batches_def Let_def all_lines_def)
qed




section \<open>Units of a file\<close>

lemma located_lines: "(s, n, l, p) \<in> set (located lookup selected) \<longleftrightarrow>
   (l, p) \<in> set selected \<and> 0 \<le> l \<and> lookup (nat l) = Some (s, n)"
  by (force simp: located_def List.map_filter_def split: if_splits)

lemma foldl_max_ge:
  fixes xs :: "(symbol \<times> nat \<times> int \<times> int) list"
  shows "k \<le> foldl (\<lambda>p (_, _, _, q). max p q) k xs
     \<and> ((a, b, c, q) \<in> set xs \<longrightarrow> q \<le> foldl (\<lambda>p (_, _, _, q). max p q) k xs)"
proof (induction xs arbitrary: k)
  case (Cons x xs)
  obtain a' b' c' q' where x: "x = (a', b', c', q')" by (cases x)
  show ?case using Cons.IH [of "max k q'"] by (auto simp: x)
qed simp

lemma unit_of_simps [simp]:
  "mu_symbol (unit_of ls s) = s" "sorted (mu_lines (unit_of ls s))" "distinct (mu_lines (unit_of ls s))"
  by (simp_all add: unit_of_def Let_def)

lemma unit_lines: "l \<in> set (mu_lines (unit_of ls s)) \<longleftrightarrow> (\<exists>n p. (s, n, l, p) \<in> set ls)"
  by (auto simp: unit_of_def Let_def image_iff)

lemma unit_priority: "(s, n, l, p) \<in> set ls \<Longrightarrow> p \<le> mu_priority (unit_of ls s)"
  using foldl_max_ge [of 0 "filter (\<lambda>(t, _). t = s) ls" s n l p] by (simp add: unit_of_def Let_def)

text \<open>
  The units built from a source file have distinct symbols; a unit owns exactly the
  selected lines inside its functions, sorted and without repetition, and has at least the
  priority of each of them.
\<close>

theorem units_own_their_lines:
  assumes "ast_parse source = Some body" and "u \<in> set (mutation_units_from_source ast_parse source selected)"
  shows "mu_lines u \<noteq> [] \<and> sorted (mu_lines u) \<and> distinct (mu_lines u)
     \<and> (\<forall>l. l \<in> set (mu_lines u) \<longleftrightarrow> 0 \<le> l \<and> (\<exists>p. (l, p) \<in> set selected)
          \<and> map_option fst (unit_by_line source body (nat l)) = Some (mu_symbol u))
     \<and> (\<forall>l p. (l, p) \<in> set selected \<and> l \<in> set (mu_lines u) \<longrightarrow> p \<le> mu_priority u)
     \<and> (\<forall>v \<in> set (mutation_units_from_source ast_parse source selected).
          mu_symbol v = mu_symbol u \<longrightarrow> v = u)"
proof -
  let ?ls = "located (unit_by_line source body) selected"
  have units: "mutation_units_from_source ast_parse source selected
      = map (unit_of ?ls) (sorted_list_of_set (fst ` set ?ls))"
    by (simp add: mutation_units_from_source_def assms Let_def)
  with assms(2) obtain s where s: "s \<in> fst ` set ?ls" "u = unit_of ?ls s" by auto
  have own: "l \<in> set (mu_lines u) \<longleftrightarrow> 0 \<le> l \<and> (\<exists>p. (l, p) \<in> set selected)
      \<and> map_option fst (unit_by_line source body (nat l)) = Some s" for l
    unfolding s unit_lines located_lines by auto
  have "mu_lines u \<noteq> []"
  proof -
    obtain n l p where "(s, n, l, p) \<in> set ?ls" using s(1) by auto
    then have "l \<in> set (mu_lines u)" unfolding s unit_lines by blast
    then show ?thesis by auto
  qed
  moreover have "p \<le> mu_priority u" if lp: "(l, p) \<in> set selected" "l \<in> set (mu_lines u)" for l p
  proof -
    from lp(2) own have "0 \<le> l" "map_option fst (unit_by_line source body (nat l)) = Some s" by auto
    then obtain n where "unit_by_line source body (nat l) = Some (s, n)" by auto
    with lp \<open>0 \<le> l\<close> have "(s, n, l, p) \<in> set ?ls" by (simp add: located_lines)
    then show ?thesis unfolding s by (rule unit_priority)
  qed
  ultimately show ?thesis using own by (auto simp: s units)
qed

theorem units_own_their_lines_witness:
  "\<exists>u \<in> set (mutation_units_from_source (\<lambda>_. Some [FunctionDef ''f'' 1 2]) ''abc'' [(1, 5), (9, 1)]).
     mu_symbol u = [102] \<and> mu_lines u \<noteq> []"
proof -
  let ?p = "\<lambda>_. Some [FunctionDef ''f'' 1 2]" and ?ls = "located (unit_by_line ''abc'' [FunctionDef ''f'' 1 2]) [(1, 5), (9, 1)]"
  have "([102], unit_bytes (line_bytes ''abc'') 1 2, 1, 5) \<in> set ?ls"
    by (simp add: located_lines unit_by_line_def record_span_def symbol_text_def code_def upt_rec)
  then have "unit_of ?ls [102] \<in> set (mutation_units_from_source ?p ''abc'' [(1, 5), (9, 1)])"
    by (force simp: mutation_units_from_source_def Let_def)
  with units_own_their_lines [OF refl this] show ?thesis by (metis unit_of_simps(1))
qed

end
