(* ===== verification/GenerationBatches.thy ===== *)
theory GenerationBatches
  imports TaskInvariant
begin

text \<open>
  The units of work of a generation task: \<open>uta/testgen/batches.py\<close>, the store port that
  calls it (\<open>app/persistence.py\<close>) and the selection of the next unit with the guard on reused
  units (\<open>testgen/graph/durable_cycle.py\<close>). The hash, the fresh run id (\<open>uuid4().hex\<close>) and the
  invocation of the checkpointed child graph, which belongs to agent-core, are arguments.
\<close>

section \<open>Identity of a unit\<close>

datatype batch_error = BatchIdentity str | BatchTask task_error | NoSuchTask

type_synonym 'a batch_prog = "(db, batch_error, 'a) prog"

text \<open>
  The statuses this module calls terminal. The set of the source also names \<open>SKIPPED\<close>, which
  is no status of a target.
\<close>

definition terminal_batch_statuses :: "class_status list" where
  "terminal_batch_statuses = [CPass, CFail, CMutationFail]"

record stable_batch =
  sb_task :: nat
  sb_run :: str
  sb_unit :: str
  sb_targets :: "str list"
  sb_members :: "nat list"

definition id_start :: "char \<Rightarrow> bool" where
  "id_start c = ((65 \<le> code c \<and> code c \<le> 90) \<or> (97 \<le> code c \<and> code c \<le> 122)
     \<or> (48 \<le> code c \<and> code c \<le> 57))"

definition id_part :: "char \<Rightarrow> bool" where
  "id_part c = (id_start c \<or> c \<in> set ''._-'')"

text \<open>\<open>^[A-Za-z0-9][A-Za-z0-9._-]{0,127}$\<close> matched against the whole text.\<close>

fun safe_batch_id :: "str \<Rightarrow> bool" where
  "safe_batch_id [] = False"
| "safe_batch_id (c # cs) = (id_start c \<and> list_all id_part cs \<and> length cs \<le> 127)"

definition validate_identifier :: "str \<Rightarrow> batch_error + unit" where
  "validate_identifier value =
     check_that (safe_batch_id value) (BatchIdentity ''ID is not safe'')"

definition target_name :: "class_task \<Rightarrow> str" where
  "target_name r = (case ct_target r of None \<Rightarrow> ct_fqn r | Some t \<Rightarrow> if t = [] then ct_fqn r else t)"

definition row_key :: "class_task \<Rightarrow> str" where
  "row_key r = (case ct_batch_key r of None \<Rightarrow> [] | Some k \<Rightarrow> k)"

text \<open>\<open>rows[start : start + size]\<close> for \<open>start\<close> in \<open>range(0, len(rows), size)\<close>.\<close>

function chunks :: "nat \<Rightarrow> 'a list \<Rightarrow> 'a list list" where
  "chunks n xs = (if xs = [] \<or> n = 0 then [] else take n xs # chunks n (drop n xs))"
  by pat_completeness auto
termination by (relation "measure (\<lambda>(n, xs). length xs)") auto

declare chunks.simps [simp del]

definition pad4 :: "str \<Rightarrow> str" where
  "pad4 s = replicate (4 - length s) (CHR ''0'') @ s"

definition unit_id :: "(str \<Rightarrow> str) \<Rightarrow> nat \<Rightarrow> class_task list \<Rightarrow> str" where
  "unit_id sha256 index members = ''unit-'' @ pad4 (nat_str index) @ ''-''
     @ take 12 (sha256 (join_with [char_of (0::nat)] (map target_name members)))"

section \<open>Reconstruction from the stored keys\<close>

text \<open>
  The loop over the rows. \<open>rc_units\<close> is the dictionary \<open>members\<close> in insertion order, which is
  also the list \<open>order\<close>: a unit is inserted exactly when it is appended there.
\<close>

record rc_state =
  rc_run :: "str option"
  rc_units :: "(str \<times> class_task list) list"
  rc_closed :: "str list"
  rc_previous :: "str option"

definition open_unit :: "str \<Rightarrow> rc_state \<Rightarrow> batch_error + rc_state" where
  "open_unit unit s =
     (if rc_previous s = Some unit then Inr s
      else if unit \<in> set (rc_closed s)
      then Inl (BatchIdentity ''persisted generation batch is not contiguous'')
      else Inr (s\<lparr>rc_closed := (case rc_previous s of None \<Rightarrow> rc_closed s
                   | Some p \<Rightarrow> p # rc_closed s),
                 rc_units := rc_units s @ [(unit, [])], rc_previous := Some unit\<rparr>))"

definition add_member :: "str \<Rightarrow> class_task \<Rightarrow> rc_state \<Rightarrow> rc_state" where
  "add_member unit row s = s\<lparr>rc_units :=
     map (\<lambda>(u, rows). if u = unit then (u, rows @ [row]) else (u, rows)) (rc_units s)\<rparr>"

definition malformed :: batch_error where
  "malformed = BatchIdentity ''malformed generation batch key''"

definition rc_row :: "rc_state \<Rightarrow> class_task \<Rightarrow> batch_error + rc_state" where
  "rc_row s row = (case split_on (CHR ''/'') (row_key row) of
     [row_run, unit] \<Rightarrow>
       if \<not> safe_batch_id row_run \<or> \<not> safe_batch_id unit then Inl malformed
       else if rc_run s \<noteq> None \<and> rc_run s \<noteq> Some row_run
       then Inl (BatchIdentity ''persisted generation batch keys contain multiple workflow runs'')
       else ebind (open_unit unit (s\<lparr>rc_run := Some row_run\<rparr>))
              (\<lambda>s. Inr (add_member unit row s))
   | _ \<Rightarrow> Inl malformed)"

fun rc_rows :: "rc_state \<Rightarrow> class_task list \<Rightarrow> batch_error + rc_state" where
  "rc_rows s [] = Inr s"
| "rc_rows s (r # rows) = ebind (rc_row s r) (\<lambda>s. rc_rows s rows)"

definition rc_empty :: rc_state where
  "rc_empty = \<lparr>rc_run = None, rc_units = [], rc_closed = [], rc_previous = None\<rparr>"

definition batch_of_unit :: "nat \<Rightarrow> str \<Rightarrow> str \<times> class_task list \<Rightarrow> stable_batch" where
  "batch_of_unit task run u = \<lparr>sb_task = task, sb_run = run, sb_unit = fst u,
     sb_targets = map target_name (snd u), sb_members = map ct_id (snd u)\<rparr>"

text \<open>\<open>assert run_id is not None\<close> holds as the caller passes rows; \<open>None\<close> would raise.\<close>

definition reconstruct :: "nat \<Rightarrow> class_task list \<Rightarrow> batch_error + stable_batch list" where
  "reconstruct task rows = ebind (rc_rows rc_empty rows) (\<lambda>s. case rc_run s of
     None \<Rightarrow> Inl (BatchIdentity ''assert run_id is not None'')
   | Some run \<Rightarrow> Inr (map (batch_of_unit task run) (rc_units s)))"

section \<open>Assigning the units\<close>

definition set_key :: "nat \<Rightarrow> str \<Rightarrow> class_task list \<Rightarrow> class_task \<Rightarrow> class_task list" where
  "set_key now key rows r =
     update_row ct_id (ct_id r) (\<lambda>c. c\<lparr>ct_batch_key := Some key, ct_updated := now\<rparr>) rows"

definition set_unit ::
  "(str \<Rightarrow> str) \<Rightarrow> nat \<Rightarrow> str \<Rightarrow> class_task list \<Rightarrow> nat \<times> class_task list \<Rightarrow> class_task list" where
  "set_unit sha256 now run rows im =
     foldl (set_key now (run @ ''/'' @ unit_id sha256 (fst im) (snd im))) rows (snd im)"

definition assign_units ::
  "(str \<Rightarrow> str) \<Rightarrow> nat \<Rightarrow> str \<Rightarrow> nat \<Rightarrow> class_task list \<Rightarrow> unit batch_prog" where
  "assign_units sha256 now run n rows = modifies (\<lambda>d. d\<lparr>class_tasks :=
     foldl (set_unit sha256 now run) (class_tasks d) (enumerate 1 (chunks n rows))\<rparr>)"

definition lift_batch :: "batch_error + 'a \<Rightarrow> 'a batch_prog" where
  "lift_batch r d = (r, d)"

definition keyed :: "class_task \<Rightarrow> bool" where
  "keyed r = (row_key r \<noteq> [])"

definition run_or :: "str option \<Rightarrow> str \<Rightarrow> str" where
  "run_or run fresh = (case run of None \<Rightarrow> fresh | Some r \<Rightarrow> if r = [] then fresh else r)"

definition assigned_rows ::
  "(str \<Rightarrow> str) \<Rightarrow> str \<Rightarrow> nat \<Rightarrow> nat \<Rightarrow> nat \<Rightarrow> class_task list \<Rightarrow> class_task list batch_prog" where
  "assigned_rows sha256 run now task n rows =
     (if list_ex keyed rows then ret rows
      else andthen (lift_batch (validate_identifier run))
          (andthen (assign_units sha256 now run n rows)
            (reads (list_class_tasks task))))"

definition ensure_stable_generation_batches ::
  "(str \<Rightarrow> str) \<Rightarrow> str \<Rightarrow> nat \<Rightarrow> nat \<Rightarrow> str list \<Rightarrow> int \<Rightarrow> str option \<Rightarrow> stable_batch list batch_prog"
  where
  "ensure_stable_generation_batches sha256 fresh now task requested n run =
     andthen (guard (distinct requested)
       (BatchIdentity ''the ordered target list contains duplicates''))
     (andthen (guard (1 \<le> n) (BatchIdentity ''batch_size must be at least one''))
     (transaction (seq (reads (list_class_tasks task)) (\<lambda>rows.
        andthen (guard (map target_name rows = requested)
          (BatchIdentity ''generation batching requires the exact full ordered target list''))
        (if rows = [] then ret []
         else andthen (guard (\<not> (list_ex keyed rows \<and> \<not> list_all keyed rows))
             (BatchIdentity ''batch keys are mixed between present and missing''))
           (seq (assigned_rows sha256 (run_or run fresh) now task (nat n) rows) (\<lambda>rows.
            seq (lift_batch (reconstruct task rows)) (\<lambda>batches.
              if run \<noteq> None \<and> batches \<noteq> [] \<and> sb_run (hd batches) \<noteq> the run
              then raise (BatchIdentity ''requested workflow run does not match persisted batch keys'')
              else ret batches))))))))"

text \<open>The port expands a subsequence of the stored targets, which a resume passes, to all of them.\<close>

definition effective_targets :: "str list \<Rightarrow> str list \<Rightarrow> str list" where
  "effective_targets persisted requested =
     (if requested \<noteq> [] \<and> filter (\<lambda>t. t \<in> set requested) persisted = requested
      then persisted else requested)"

definition ensure_stable_batches ::
  "(str \<Rightarrow> str) \<Rightarrow> str \<Rightarrow> nat \<Rightarrow> nat \<Rightarrow> str list \<Rightarrow> int \<Rightarrow> str option \<Rightarrow> stable_batch list batch_prog"
  where
  "ensure_stable_batches sha256 fresh now task requested n run =
     seq (reads (\<lambda>d. map target_name (list_class_tasks task d))) (\<lambda>persisted.
       ensure_stable_generation_batches sha256 fresh now task
         (effective_targets persisted requested) n run)"

section \<open>Selecting the next unit\<close>

definition unfinished_member :: "nat \<Rightarrow> db \<Rightarrow> nat \<Rightarrow> bool" where
  "unfinished_member task d c = (case find_row ct_id c (list_class_tasks task d) of
     None \<Rightarrow> True | Some r \<Rightarrow> ct_status r \<notin> set terminal_batch_statuses)"

definition open_batch :: "db \<Rightarrow> nat \<Rightarrow> stable_batch \<Rightarrow> bool" where
  "open_batch d task b = list_ex (unfinished_member task d) (sb_members b)"

definition first_non_terminal_batch :: "stable_batch list \<Rightarrow> stable_batch option batch_prog" where
  "first_non_terminal_batch bs =
     (case dedup (map sb_task bs) of
        [] \<Rightarrow> ret None
      | [task] \<Rightarrow> reads (\<lambda>d. List.find (open_batch d task) bs)
      | _ \<Rightarrow> raise (BatchIdentity ''stable batches cross product tasks''))"

definition guard_reused_unit :: "stable_batch \<Rightarrow> str \<Rightarrow> unit batch_prog" where
  "guard_reused_unit b disposition =
     (if disposition \<noteq> ''reused_completed'' then ret ()
      else seq (first_non_terminal_batch [b]) (\<lambda>found.
        guard (found = None)
          (BatchIdentity ''unit is complete in its checkpoint but its class rows are unfinished'')))"

definition lift_task :: "'a task_prog \<Rightarrow> 'a batch_prog" where
  "lift_task m d = (case m d of (Inl e, d') \<Rightarrow> (Inl (BatchTask e), d') | (Inr x, d') \<Rightarrow> (Inr x, d'))"

text \<open>
  One pass of \<open>run_durable_generation_cycle\<close>: \<open>None\<close> when every unit is finished, else the unit
  that was run. \<open>invoke\<close> returns the disposition and the phase the child graph ended in; the run
  id of an ephemeral prompt scope is the argument \<open>run\<close>.
\<close>

definition run_unit ::
  "(str \<Rightarrow> str) \<Rightarrow> (stable_batch \<Rightarrow> (str \<times> str) batch_prog) \<Rightarrow> str \<Rightarrow> nat \<Rightarrow> nat \<Rightarrow> str list \<Rightarrow> int \<Rightarrow> str option
    \<Rightarrow> stable_batch option batch_prog" where
  "run_unit sha256 invoke fresh now task candidates per_run run =
     seq (reads (get_repo_task task)) (\<lambda>found. case found of
        None \<Rightarrow> raise NoSuchTask
      | Some row \<Rightarrow>
         andthen (lift_task (lift_error (require_durable_generation_task row)))
        (seq (ensure_stable_batches sha256 fresh now task candidates
                (max 1 (if per_run = 0 then 1 else per_run)) run) (\<lambda>bs.
         seq (first_non_terminal_batch bs) (\<lambda>next. case next of
            None \<Rightarrow> ret None
          | Some b \<Rightarrow>
             seq (invoke b) (\<lambda>(disposition, phase).
             andthen (guard_reused_unit b disposition)
            (andthen (lift_task (add_event now (Some task) None (''workflow_'' @ disposition)
                (''Generation workflow '' @ disposition @ '': '' @ sb_unit b)
                (Some (if phase = [] then ''complete_generation'' else phase)) INFO
                [(''workflowRunId'', PStr (sb_run b)), (''unitId'', PStr (sb_unit b)),
                 (''disposition'', PStr disposition)]))
              (ret (Some b))))))))"

end
