(* ===== verification/GenerationBatchFacts.thy ===== *)
theory GenerationBatchFacts
  imports GenerationBatches TaskRuns
begin

text \<open>
  What the units of a task promise: membership is decided once and recovered from the stored
  keys, a first assignment cuts the targets into consecutive units, and a unit that is finished
  in its checkpoint but open in the store stops the task.
\<close>

section \<open>Assignment changes nothing but keys\<close>

definition strip_key :: "class_task \<Rightarrow> class_task" where
  "strip_key c = c\<lparr>ct_batch_key := None, ct_updated := 0\<rparr>"

lemma strip_key_fields [simp]:
  "ct_id (strip_key c) = ct_id c" "ct_repo (strip_key c) = ct_repo c"
  "ct_priority (strip_key c) = ct_priority c" "target_name (strip_key c) = target_name c"
  "ct_status (strip_key c) = ct_status c"
  by (simp_all add: strip_key_def target_name_def split: option.split)

lemma sort_key_map:
  "(\<And>x. k (h x) = k x) \<Longrightarrow> sort_key k (map h xs) = map h (sort_key k xs)"
proof (induction xs)
  case (Cons x xs)
  have "insort_key k (h x) (map h ys) = map h (insort_key k x ys)" for ys
    by (induction ys) (simp_all add: Cons.prems)
  with Cons show ?case by simp
qed simp

lemma list_class_tasks_map:
  assumes "\<And>c. ct_priority (h c) = ct_priority c" "\<And>c. ct_repo (h c) = ct_repo c"
    and "class_tasks d' = map h (class_tasks d)"
  shows "list_class_tasks t d' = map h (list_class_tasks t d)"
  using assms by (simp add: list_class_tasks_def filter_map o_def sort_key_map)

lemma list_class_tasks_strip:
  assumes "map strip_key (class_tasks d') = map strip_key (class_tasks d)"
  shows "map strip_key (list_class_tasks t d') = map strip_key (list_class_tasks t d)"
proof -
  have "map strip_key (list_class_tasks t d)
      = sort_key ct_priority (filter (\<lambda>r. ct_repo r = t) (map strip_key (class_tasks d)))" for d
    by (simp add: list_class_tasks_def filter_map o_def sort_key_map)
  with assms show ?thesis by simp
qed

definition keyed_as :: "nat \<Rightarrow> str \<Rightarrow> class_task \<Rightarrow> class_task" where
  "keyed_as now key c = c\<lparr>ct_batch_key := Some key, ct_updated := now\<rparr>"

lemma keyed_as_fields [simp]:
  "ct_id (keyed_as now k c) = ct_id c" "ct_priority (keyed_as now k c) = ct_priority c"
  "ct_repo (keyed_as now k c) = ct_repo c" "target_name (keyed_as now k c) = target_name c"
  "row_key (keyed_as now k c) = k" "strip_key (keyed_as now k c) = strip_key c"
  "ct_status (keyed_as now k c) = ct_status c"
  by (simp_all add: keyed_as_def target_name_def row_key_def strip_key_def split: option.split)

lemma foldl_set_key:
  "foldl (set_key now key) rows ms
     = map (\<lambda>c. if ct_id c \<in> ct_id ` set ms then keyed_as now key c else c) rows"
proof (induction ms arbitrary: rows)
  case (Cons m ms)
  have "keyed_as now key (keyed_as now key c) = keyed_as now key c" for c
    by (simp add: keyed_as_def)
  with Cons show ?case
    by (auto simp: set_key_def update_rows_def keyed_as_def [symmetric])
qed simp

definition unit_key :: "(str \<Rightarrow> str) \<Rightarrow> str \<Rightarrow> nat \<times> class_task list \<Rightarrow> str" where
  "unit_key sha256 run im = run @ ''/'' @ unit_id sha256 (fst im) (snd im)"

definition rekey :: "(str \<Rightarrow> str) \<Rightarrow> nat \<Rightarrow> str \<Rightarrow> (nat \<times> class_task list) list \<Rightarrow> class_task \<Rightarrow> class_task"
  where
  "rekey sha256 now run ims c = foldl (\<lambda>c im. if ct_id c \<in> ct_id ` set (snd im)
     then keyed_as now (unit_key sha256 run im) c else c) c ims"

lemma foldl_set_unit:
  "foldl (set_unit sha256 now run) rows ims = map (rekey sha256 now run ims) rows"
proof (induction ims arbitrary: rows)
  case Nil
  then show ?case by (simp add: rekey_def)
next
  case (Cons im ims)
  have "set_unit sha256 now run rows im
      = map (\<lambda>c. if ct_id c \<in> ct_id ` set (snd im) then keyed_as now (unit_key sha256 run im) c
          else c) rows"
    by (simp add: set_unit_def foldl_set_key unit_key_def)
  with Cons show ?case by (simp add: rekey_def o_def)
qed

lemma rekey_fields [simp]:
  "ct_id (rekey sha256 now run ims c) = ct_id c"
  "ct_priority (rekey sha256 now run ims c) = ct_priority c"
  "ct_repo (rekey sha256 now run ims c) = ct_repo c"
  "strip_key (rekey sha256 now run ims c) = strip_key c"
  unfolding rekey_def by (induction ims arbitrary: c) simp_all

lemma assign_units_run:
  "assign_units sha256 now run n rows d = (Inr (), d\<lparr>class_tasks :=
     map (rekey sha256 now run (enumerate 1 (chunks n rows))) (class_tasks d)\<rparr>)"
  by (simp add: assign_units_def modifies_def foldl_set_unit)

lemma assigned_rows_Inr:
  assumes "assigned_rows sha256 run now t n (list_class_tasks t d) d = (Inr rows, d')"
  shows "rows = list_class_tasks t d' \<and> map strip_key (class_tasks d') = map strip_key (class_tasks d)"
  using assms
  by (auto simp: assigned_rows_def res_simps lift_batch_def assign_units_run split: if_splits)

lemma ensure_Inr:
  assumes "ensure_stable_generation_batches sha256 fresh now t req n run d = (Inr bs, d')"
  shows "distinct req \<and> 1 \<le> n \<and> map target_name (list_class_tasks t d) = req
     \<and> map strip_key (class_tasks d') = map strip_key (class_tasks d)
     \<and> (if req = [] then bs = [] else reconstruct t (list_class_tasks t d') = Inr bs)"
proof -
  let ?rows = "list_class_tasks t d"
  from assms have pre: "distinct req" "1 \<le> n" "map target_name ?rows = req"
    by (auto simp: ensure_stable_generation_batches_def res_simps transaction_def split: prod.splits sum.splits)
  show ?thesis
  proof (cases "?rows = []")
    case True
    with assms pre show ?thesis
      by (auto simp: ensure_stable_generation_batches_def res_simps)
  next
    case False
    with assms pre obtain rows d1 where
      a: "assigned_rows sha256 (run_or run fresh) now t (nat n) ?rows d = (Inr rows, d1)"
      and r: "reconstruct t rows = Inr bs" and d: "d' = d1"
      by (auto simp: ensure_stable_generation_batches_def res_simps lift_batch_def split: if_splits)
    with assigned_rows_Inr [OF a] pre False show ?thesis by auto
  qed
qed

section \<open>Reconstruction reads keys, names and ids only\<close>

definition canon :: "class_task \<Rightarrow> class_task" where
  "canon r = undefined\<lparr>ct_id := ct_id r, ct_fqn := target_name r, ct_target := None,
     ct_batch_key := Some (row_key r)\<rparr>"

lemma canon_fields [simp]:
  "ct_id (canon r) = ct_id r" "target_name (canon r) = target_name r" "row_key (canon r) = row_key r"
  by (simp_all add: canon_def target_name_def row_key_def)

lemma canon_eq:
  "map (\<lambda>r. (ct_id r, target_name r, row_key r)) rows = map (\<lambda>r. (ct_id r, target_name r, row_key r)) rows'
    \<Longrightarrow> map canon rows = map canon rows'"
proof (induction rows arbitrary: rows')
  case (Cons r rows)
  then obtain r' rest where [simp]: "rows' = r' # rest" by (cases rows') auto
  have "canon r = canon r'" using Cons.prems by (simp add: canon_def)
  with Cons show ?case by simp
qed simp

definition map_state :: "(class_task \<Rightarrow> class_task) \<Rightarrow> rc_state \<Rightarrow> rc_state" where
  "map_state h s = s\<lparr>rc_units := map (\<lambda>(u, rows). (u, map h rows)) (rc_units s)\<rparr>"

lemma open_unit_map:
  "open_unit u (map_state h s) = map_sum id (map_state h) (open_unit u s)"
  by (simp add: open_unit_def map_state_def split: option.split)

lemma add_member_map: "add_member u (h r) (map_state h s) = map_state h (add_member u r s)"
  by (simp add: add_member_def map_state_def o_def case_prod_beta if_distrib)

lemma map_state_run: "map_state h s\<lparr>rc_run := x\<rparr> = map_state h (s\<lparr>rc_run := x\<rparr>)"
  by (simp add: map_state_def)

lemma rc_row_map:
  assumes "row_key (h r) = row_key r"
  shows "rc_row (map_state h s) (h r) = map_sum id (map_state h) (rc_row s r)"
proof -
  have run: "rc_run (map_state h s) = rc_run s" by (simp add: map_state_def)
  have "ebind (open_unit u (map_state h s\<lparr>rc_run := x\<rparr>)) (\<lambda>s. Inr (add_member u (h r) s))
      = map_sum id (map_state h) (ebind (open_unit u (s\<lparr>rc_run := x\<rparr>)) (\<lambda>s. Inr (add_member u r s)))"
    for u x
    by (cases "open_unit u (s\<lparr>rc_run := x\<rparr>)") (simp_all add: map_state_run open_unit_map add_member_map)
  then show ?thesis
    by (auto simp: rc_row_def assms run Let_def split: list.split)
qed

lemma rc_rows_map:
  assumes "\<And>r. row_key (h r) = row_key r"
  shows "rc_rows (map_state h s) (map h rows) = map_sum id (map_state h) (rc_rows s rows)"
proof (induction rows arbitrary: s)
  case (Cons r rows)
  show ?case
    by (cases "rc_row s r") (simp_all add: rc_row_map [of h r, OF assms] Cons)
qed simp

lemma reconstruct_canon: "reconstruct t (map canon rows) = reconstruct t rows"
proof -
  have e: "map_state canon rc_empty = rc_empty" by (simp add: map_state_def rc_empty_def)
  have b: "batch_of_unit t run (u, map canon rs) = batch_of_unit t run (u, rs)" for run u rs
    by (simp add: batch_of_unit_def)
  have r: "rc_rows rc_empty (map canon rows) = map_sum id (map_state canon) (rc_rows rc_empty rows)"
    using rc_rows_map [of canon rc_empty rows] by (simp add: e)
  have u: "rc_run (map_state canon s) = rc_run s"
      "map (batch_of_unit t run) (rc_units (map_state canon s)) = map (batch_of_unit t run) (rc_units s)"
    for s run by (simp_all add: map_state_def o_def b case_prod_beta)
  show ?thesis
    by (cases "rc_rows rc_empty rows") (simp_all add: reconstruct_def r u split: option.split)
qed

lemma reconstruct_same:
  assumes "map (\<lambda>r. (ct_id r, target_name r, row_key r)) rows
      = map (\<lambda>r. (ct_id r, target_name r, row_key r)) rows'"
  shows "reconstruct t rows = reconstruct t rows'"
proof -
  have "reconstruct t rows = reconstruct t (map canon rows)" by (rule reconstruct_canon [symmetric])
  also have "\<dots> = reconstruct t (map canon rows')" by (simp only: canon_eq [OF assms])
  finally show ?thesis by (simp only: reconstruct_canon)
qed

lemma reconstruct_keyed: "reconstruct t rows = Inr bs \<Longrightarrow> list_all keyed rows"
proof -
  have "rc_rows s rows = Inr s' \<Longrightarrow> list_all keyed rows" for s s'
  proof (induction rows arbitrary: s)
    case (Cons r rows)
    then obtain s1 where "rc_row s r = Inr s1" "rc_rows s1 rows = Inr s'" by (auto simp: res_simps)
    moreover from this have "keyed r" by (auto simp: keyed_def rc_row_def)
    ultimately show ?case using Cons.IH by simp
  qed simp
  then show "reconstruct t rows = Inr bs \<Longrightarrow> ?thesis" by (auto simp: reconstruct_def res_simps)
qed

text \<open>
  C27: Once a task has its units, every later pass recovers them from the stored keys and
  writes nothing: whatever statuses the targets have by then, whatever batch size, hash or
  fresh run id the pass brings, and whatever non-empty part of the targets a resume asks
  for.
\<close>

theorem batches_are_stable:
  assumes "ensure_stable_generation_batches sha256 fresh now t req n run d = (Inr bs, d')"
    and "map (\<lambda>r. (ct_id r, target_name r, row_key r)) (list_class_tasks t d2)
       = map (\<lambda>r. (ct_id r, target_name r, row_key r)) (list_class_tasks t d')"
    and "1 \<le> n2" and "filter keep req \<noteq> []"
  shows "ensure_stable_batches sha' fresh' now' t (filter keep req) n2 None d2 = (Inr bs, d2)"
proof -
  have ne: "req \<noteq> []" using assms(4) by auto
  with ensure_Inr [OF assms(1)] have d1: "distinct req"
    and strip: "map strip_key (class_tasks d') = map strip_key (class_tasks d)"
    and names: "map target_name (list_class_tasks t d) = req"
    and rec: "reconstruct t (list_class_tasks t d') = Inr bs" by simp_all
  let ?rows = "list_class_tasks t d2"
  have "map target_name (map strip_key (list_class_tasks t d'))
      = map target_name (map strip_key (list_class_tasks t d))"
    by (simp only: list_class_tasks_strip [OF strip])
  then have "map target_name (list_class_tasks t d') = req" using names by (simp add: o_def)
  moreover have "map (fst \<circ> snd) (map (\<lambda>r. (ct_id r, target_name r, row_key r)) ?rows)
      = map (fst \<circ> snd) (map (\<lambda>r. (ct_id r, target_name r, row_key r)) (list_class_tasks t d'))"
    by (simp only: assms(2))
  ultimately have names2: "map target_name ?rows = req" by (simp add: o_def)
  then have ne2: "?rows \<noteq> []" using ne by auto
  have rec2: "reconstruct t ?rows = Inr bs" using reconstruct_same [OF assms(2)] rec by simp
  then have keys: "list_all keyed ?rows" by (rule reconstruct_keyed)
  then have key: "list_ex keyed ?rows" using ne2 by (cases ?rows) auto
  have "filter (\<lambda>x. x \<in> set (filter keep req)) req = filter keep req"
    by (rule filter_cong) auto
  then have eff: "effective_targets req (filter keep req) = req"
    using assms(4) by (simp add: effective_targets_def)
  show ?thesis
    by (simp add: ensure_stable_batches_def names2 eff ensure_stable_generation_batches_def
        guard_def d1 assms(3) andthen_def seq_def ret_def transaction_def reads_def ne2 keys key
        assigned_rows_def lift_batch_def rec2)
qed

section \<open>A first assignment\<close>

lemma chunks_Nil [simp]: "chunks n [] = []"
  by (subst chunks.simps) simp

lemma chunks_step: "xs \<noteq> [] \<Longrightarrow> 0 < n \<Longrightarrow> chunks n xs = take n xs # chunks n (drop n xs)"
  by (subst chunks.simps) simp

lemma concat_chunks: "0 < n \<Longrightarrow> concat (chunks n xs) = xs"
proof (induction n xs rule: chunks.induct)
  case (1 n xs)
  then show ?case by (cases "xs = []") (simp_all add: chunks_step)
qed

lemma chunks_map: "0 < n \<Longrightarrow> chunks n (map f xs) = map (map f) (chunks n xs)"
proof (induction n xs rule: chunks.induct)
  case (1 n xs)
  then show ?case by (cases "xs = []") (simp_all add: chunks_step take_map drop_map)
qed

lemma chunks_nonempty: "0 < n \<Longrightarrow> [] \<notin> set (chunks n xs)"
proof (induction n xs rule: chunks.induct)
  case (1 n xs)
  then show ?case by (cases "xs = []") (simp_all add: chunks_step)
qed

lemma length_chunks: "0 < n \<Longrightarrow> length (chunks n xs) \<le> length xs"
proof (induction n xs rule: chunks.induct)
  case (1 n xs)
  show ?case
  proof (cases "xs = []")
    case False
    with 1 have "length (chunks n (drop n xs)) \<le> length xs - n" by simp
    also have "\<dots> < length xs" using False 1(2) by simp
    finally show ?thesis using False 1(2) by (simp add: chunks_step)
  qed simp
qed

lemma rekey_other:
  "(\<And>im. im \<in> set ims \<Longrightarrow> ct_id c \<notin> ct_id ` set (snd im)) \<Longrightarrow> rekey sha256 now run ims c = c"
  by (induction ims) (simp_all add: rekey_def)

lemma rekey_Cons: "rekey sha256 now run (im # ims) c
    = rekey sha256 now run ims (if ct_id c \<in> ct_id ` set (snd im)
        then keyed_as now (unit_key sha256 run im) c else c)"
  by (simp add: rekey_def)

lemma rekey_groups:
  assumes "distinct (map ct_id (concat (map snd ims)))"
  shows "map (rekey sha256 now run ims) (concat (map snd ims))
    = concat (map (\<lambda>im. map (keyed_as now (unit_key sha256 run im)) (snd im)) ims)"
  using assms
proof (induction ims)
  case (Cons im ims)
  let ?rest = "concat (map snd ims)"
  from Cons.prems have d: "distinct (map ct_id ?rest)"
    and disj: "ct_id ` set (snd im) \<inter> ct_id ` set ?rest = {}" by auto
  have own: "rekey sha256 now run (im # ims) c = keyed_as now (unit_key sha256 run im) c"
    if c: "c \<in> set (snd im)" for c
  proof -
    have i: "ct_id c \<in> ct_id ` set (snd im)" using c by simp
    have "ct_id c \<notin> ct_id ` set (snd im')" if "im' \<in> set ims" for im'
    proof
      assume "ct_id c \<in> ct_id ` set (snd im')"
      then have "ct_id c \<in> ct_id ` set ?rest" using that by force
      with i disj show False by blast
    qed
    then show ?thesis using i by (simp add: rekey_Cons rekey_other)
  qed
  have other: "rekey sha256 now run (im # ims) c = rekey sha256 now run ims c"
    if "c \<in> set ?rest" for c
  proof -
    have "ct_id c \<notin> ct_id ` set (snd im)" using that disj by blast
    then show ?thesis by (simp add: rekey_Cons)
  qed
  have "map (rekey sha256 now run (im # ims)) (snd im)
      = map (keyed_as now (unit_key sha256 run im)) (snd im)"
    by (rule map_cong [OF refl own])
  moreover have "map (rekey sha256 now run (im # ims)) ?rest = map (rekey sha256 now run ims) ?rest"
    by (rule map_cong [OF refl other])
  ultimately show ?case using Cons.IH [OF d] by simp
qed simp

section \<open>Names of units\<close>

lemma split_on_no: "c \<notin> set s \<Longrightarrow> split_on c s = [s]"
  by (induction s) auto

lemma split_on_one: "c \<notin> set s \<Longrightarrow> c \<notin> set u \<Longrightarrow> split_on c (s @ c # u) = [s, u]"
  by (induction s) (auto simp: split_on_no)

lemma safe_no_slash: "safe_batch_id s \<Longrightarrow> CHR ''/'' \<notin> set s"
proof
  assume s: "safe_batch_id s" and "CHR ''/'' \<in> set s"
  then obtain c where "c \<in> set s" "c = CHR ''/''" by blast
  with s have "id_part c" by (cases s) (auto simp: list_all_iff id_part_def)
  with \<open>c = CHR ''/''\<close> show False by (simp add: id_part_def id_start_def code_def)
qed

lemma length_nat_str: "n < 10 ^ k \<Longrightarrow> length (nat_str n) \<le> max 1 k"
proof (induction n arbitrary: k rule: nat_str.induct)
  case (1 n)
  show ?case
  proof (cases "n < 10")
    case True
    then show ?thesis by (subst nat_str.simps) simp
  next
    case False
    with 1(2) obtain j where k: "k = Suc j" by (cases k) auto
    with 1(2) have lt: "n div 10 < 10 ^ j" by (simp add: div_less_iff_less_mult mult.commute)
    have "j \<noteq> 0" using lt False by (auto intro: ccontr)
    with 1(1) [OF False lt] False k show ?thesis by (subst nat_str.simps) simp
  qed
qed

lemma digits_zeros: "digits_value (replicate m (CHR ''0'') @ s) = digits_value s"
  by (induction m) (simp_all add: digits_value_def code_def)

lemma dash_not_in_pad: "CHR ''-'' \<notin> set (pad4 (nat_str i))"
proof -
  have "\<not> py_isdigit (CHR ''-'')" by (simp add: py_isdigit_def code_def)
  then show ?thesis using nat_str_digits [of i] by (auto simp: pad4_def list_all_iff)
qed

lemma before_dash: "CHR ''-'' \<notin> set s \<Longrightarrow> takeWhile (\<lambda>c. c \<noteq> CHR ''-'') (s @ CHR ''-'' # x) = s"
  by (induction s) auto

lemma unit_id_index: "unit_id sha256 i ms = unit_id sha256 j ms' \<Longrightarrow> i = j"
proof -
  assume "unit_id sha256 i ms = unit_id sha256 j ms'"
  then have "pad4 (nat_str i) @ CHR ''-'' # take 12 (sha256 (join_with [char_of (0::nat)] (map target_name ms)))
      = pad4 (nat_str j) @ CHR ''-'' # take 12 (sha256 (join_with [char_of (0::nat)] (map target_name ms')))"
    by (simp add: unit_id_def)
  then have "takeWhile (\<lambda>c. c \<noteq> CHR ''-'') (pad4 (nat_str i) @ CHR ''-''
        # take 12 (sha256 (join_with [char_of (0::nat)] (map target_name ms))))
      = takeWhile (\<lambda>c. c \<noteq> CHR ''-'') (pad4 (nat_str j) @ CHR ''-''
        # take 12 (sha256 (join_with [char_of (0::nat)] (map target_name ms'))))"
    by (rule arg_cong)
  then have "pad4 (nat_str i) = pad4 (nat_str j)"
    by (simp only: before_dash [OF dash_not_in_pad])
  then have "digits_value (pad4 (nat_str i)) = digits_value (pad4 (nat_str j))" by simp
  then show "i = j" by (simp add: pad4_def digits_zeros)
qed

definition hex_digit :: "char \<Rightarrow> bool" where
  "hex_digit c = (py_isdigit c \<or> c \<in> set ''abcdef'')"

lemma hex_id_part: "hex_digit c \<Longrightarrow> id_part c"
proof -
  have "py_isdigit c \<Longrightarrow> id_start c" by (simp add: py_isdigit_def id_start_def)
  moreover have "\<forall>c \<in> set ''abcdef''. id_start c" by (simp add: id_start_def code_def)
  ultimately show "hex_digit c \<Longrightarrow> id_part c" by (auto simp only: hex_digit_def id_part_def)
qed

lemma unit_id_safe:
  assumes "\<And>x. list_all hex_digit (sha256 x)" and "i < 10 ^ 100"
  shows "safe_batch_id (unit_id sha256 i ms)"
proof -
  let ?h = "take 12 (sha256 (join_with [char_of (0::nat)] (map target_name ms)))"
  have h: "list_all id_part ?h"
    using assms(1) [of "join_with [char_of (0::nat)] (map target_name ms)"]
    by (auto simp: list_all_iff dest!: in_set_takeD intro: hex_id_part)
  have digit: "py_isdigit c \<Longrightarrow> id_part c" for c
    by (rule hex_id_part) (simp add: hex_digit_def)
  have p: "list_all id_part (pad4 (nat_str i))"
    using nat_str_digits [of i] digit
    by (auto simp: pad4_def list_all_iff id_part_def id_start_def code_def)
  have "length (nat_str i) \<le> 100" using length_nat_str [OF assms(2)] by simp
  then have "length (pad4 (nat_str i)) \<le> 100" by (simp add: pad4_def)
  then show ?thesis using h p by (simp add: unit_id_def id_start_def id_part_def code_def)
qed

section \<open>Reconstructing consecutive units\<close>

lemma rc_rows_append: "rc_rows s (xs @ ys) = ebind (rc_rows s xs) (\<lambda>s. rc_rows s ys)"
proof (induction xs arbitrary: s)
  case (Cons x xs)
  show ?case by (cases "rc_row s x") (simp_all add: Cons)
qed simp

definition in_unit :: "str \<Rightarrow> str \<Rightarrow> class_task \<Rightarrow> bool" where
  "in_unit run unit r \<longleftrightarrow> row_key r = run @ CHR ''/'' # unit"

definition seen :: "rc_state \<Rightarrow> str set" where
  "seen s = fst ` set (rc_units s) \<union> set (rc_closed s) \<union> set_option (rc_previous s)"

lemma rc_row_in_unit:
  assumes "in_unit run unit r" "safe_batch_id run" "safe_batch_id unit"
    "rc_run s = None \<or> rc_run s = Some run"
  shows "rc_row s r = ebind (open_unit unit (s\<lparr>rc_run := Some run\<rparr>)) (\<lambda>s. Inr (add_member unit r s))"
  using assms by (auto simp: rc_row_def in_unit_def split_on_one safe_no_slash)

lemma rc_rows_continue:
  assumes "list_all (in_unit run unit) ms" "safe_batch_id run" "safe_batch_id unit"
    "rc_run s = Some run" "rc_previous s = Some unit" "rc_units s = us @ [(unit, xs)]"
    "unit \<notin> fst ` set us"
  shows "rc_rows s ms = Inr (s\<lparr>rc_units := us @ [(unit, xs @ ms)]\<rparr>)"
  using assms
proof (induction ms arbitrary: s xs)
  case Nil
  then show ?case by (cases s) simp
next
  case (Cons m ms)
  have "map (\<lambda>(u, rows). if u = unit then (u, rows @ [m]) else (u, rows)) us = us"
    using Cons.prems(7) by (induction us) auto
  then have m: "rc_row s m = Inr (s\<lparr>rc_units := us @ [(unit, xs @ [m])]\<rparr>)"
    using Cons.prems
    by (subst rc_row_in_unit [of run unit]) (cases s; simp add: open_unit_def add_member_def)+
  have "rc_rows (s\<lparr>rc_units := us @ [(unit, xs @ [m])]\<rparr>) ms
      = Inr (s\<lparr>rc_units := us @ [(unit, xs @ [m])]\<rparr>\<lparr>rc_units := us @ [(unit, (xs @ [m]) @ ms)]\<rparr>)"
    by (rule Cons.IH) (use Cons.prems in simp_all)
  then show ?case by (simp add: m)
qed

lemma rc_rows_unit:
  assumes "list_all (in_unit run unit) ms" "ms \<noteq> []" "safe_batch_id run" "safe_batch_id unit"
    "rc_run s = None \<or> rc_run s = Some run" "unit \<notin> seen s"
  shows "\<exists>s'. rc_rows s ms = Inr s' \<and> rc_run s' = Some run \<and> rc_units s' = rc_units s @ [(unit, ms)]
     \<and> seen s' = insert unit (seen s)"
proof -
  obtain m rest where ms: "ms = m # rest" using assms(2) by (cases ms) auto
  let ?s1 = "s\<lparr>rc_run := Some run, rc_closed := (case rc_previous s of None \<Rightarrow> rc_closed s
      | Some p \<Rightarrow> p # rc_closed s), rc_units := rc_units s @ [(unit, [m])], rc_previous := Some unit\<rparr>"
  have new: "unit \<notin> fst ` set (rc_units s)" "unit \<notin> set (rc_closed s)" "rc_previous s \<noteq> Some unit"
    using assms(6) by (auto simp: seen_def)
  have "map (\<lambda>(u, rows). if u = unit then (u, rows @ [m]) else (u, rows)) us = us"
    if "unit \<notin> fst ` set us" for us using that by (induction us) auto
  from this [OF new(1)] have first: "rc_row s m = Inr ?s1"
    using assms ms new by (subst rc_row_in_unit [of run unit])
      (auto simp: open_unit_def add_member_def split: option.splits)
  have "rc_rows ?s1 rest = Inr (?s1\<lparr>rc_units := rc_units s @ [(unit, [m] @ rest)]\<rparr>)"
    by (rule rc_rows_continue) (use assms ms new in auto)
  with first have "rc_rows s ms = Inr (?s1\<lparr>rc_units := rc_units s @ [(unit, ms)]\<rparr>)"
    by (simp add: ms)
  then show ?thesis by (auto simp: seen_def split: option.splits)
qed

lemma rc_rows_groups:
  assumes "\<And>u ms. (u, ms) \<in> set gs \<Longrightarrow> list_all (in_unit run u) ms \<and> ms \<noteq> [] \<and> safe_batch_id u"
    and "safe_batch_id run" "rc_run s = None \<or> rc_run s = Some run"
    and "distinct (map fst gs)" "seen s \<inter> fst ` set gs = {}"
  shows "\<exists>s'. rc_rows s (concat (map snd gs)) = Inr s' \<and> rc_units s' = rc_units s @ gs
     \<and> (gs \<noteq> [] \<longrightarrow> rc_run s' = Some run)"
  using assms
proof (induction gs arbitrary: s)
  case (Cons g gs)
  obtain u ms where g: "g = (u, ms)" by fastforce
  with Cons.prems have "list_all (in_unit run u) ms" "ms \<noteq> []" "safe_batch_id u" "u \<notin> seen s" by auto
  from rc_rows_unit [OF this(1,2) Cons.prems(2) this(3) Cons.prems(3) this(4)] obtain s1 where
    s1: "rc_rows s ms = Inr s1" "rc_run s1 = Some run" "rc_units s1 = rc_units s @ [(u, ms)]"
    "seen s1 = insert u (seen s)" by blast
  have "\<exists>s'. rc_rows s1 (concat (map snd gs)) = Inr s' \<and> rc_units s' = rc_units s1 @ gs
     \<and> (gs \<noteq> [] \<longrightarrow> rc_run s' = Some run)"
    by (rule Cons.IH) (use Cons.prems s1 g in auto)
  then obtain s' where s': "rc_rows s1 (concat (map snd gs)) = Inr s'"
    "rc_units s' = rc_units s1 @ gs" "gs \<noteq> [] \<longrightarrow> rc_run s' = Some run" by blast
  have "rc_run s' = Some run" using s' s1 by (cases gs) auto
  then show ?case using s' s1 by (simp add: g rc_rows_append)
qed simp

lemma reconstruct_groups:
  assumes "\<And>u ms. (u, ms) \<in> set gs \<Longrightarrow> list_all (in_unit run u) ms \<and> ms \<noteq> [] \<and> safe_batch_id u"
    and "safe_batch_id run" "distinct (map fst gs)" "gs \<noteq> []"
  shows "reconstruct t (concat (map snd gs)) = Inr (map (batch_of_unit t run) gs)"
proof -
  have "\<exists>s'. rc_rows rc_empty (concat (map snd gs)) = Inr s' \<and> rc_units s' = rc_units rc_empty @ gs
     \<and> (gs \<noteq> [] \<longrightarrow> rc_run s' = Some run)"
    by (rule rc_rows_groups) (use assms in \<open>auto simp: rc_empty_def seen_def\<close>)
  then obtain s' where "rc_rows rc_empty (concat (map snd gs)) = Inr s'"
    "rc_units s' = rc_units rc_empty @ gs" "gs \<noteq> [] \<longrightarrow> rc_run s' = Some run" by blast
  with assms(4) show ?thesis by (simp add: reconstruct_def rc_empty_def)
qed


lemma row_ids_distinct: "wf_db d \<Longrightarrow> distinct (map ct_id (class_tasks d))"
  by (auto simp: wf_db_def wf_classes_def dest: auto_ids_distinct)

lemma listed_ids_distinct: "wf_db d \<Longrightarrow> distinct (map ct_id (list_class_tasks t d))"
  using row_ids_distinct [of d]
  by (auto simp: list_class_tasks_def distinct_map intro: inj_on_subset)

definition hex_digest :: "(str \<Rightarrow> str) \<Rightarrow> bool" where
  "hex_digest sha256 \<longleftrightarrow> (\<forall>x. list_all hex_digit (sha256 x))"

definition unit_group :: "(str \<Rightarrow> str) \<Rightarrow> nat \<Rightarrow> str \<Rightarrow> nat \<times> class_task list \<Rightarrow> str \<times> class_task list" where
  "unit_group sha256 now run im = (unit_id sha256 (fst im) (snd im),
     map (keyed_as now (unit_key sha256 run im)) (snd im))"

lemma reconstruct_assigned:
  assumes wf: "wf_db d" and ne: "list_class_tasks t d \<noteq> []" and n: "0 < n"
    and hex: "hex_digest sha256" and run: "safe_batch_id run"
    and few: "length (list_class_tasks t d) < 10 ^ 100"
    and d': "d' = d\<lparr>class_tasks := map (rekey sha256 now run (enumerate 1 (chunks n (list_class_tasks t d))))
        (class_tasks d)\<rparr>"
  shows "reconstruct t (list_class_tasks t d') = Inr (map (batch_of_unit t run \<circ> unit_group sha256 now run)
      (enumerate 1 (chunks n (list_class_tasks t d))))"
proof -
  let ?rows = "list_class_tasks t d" and ?ims = "enumerate 1 (chunks n (list_class_tasks t d))"
  let ?gs = "map (unit_group sha256 now run) ?ims"
  have cat: "concat (map snd ?ims) = ?rows" by (simp add: concat_chunks n)
  have "list_class_tasks t d' = map (rekey sha256 now run ?ims) ?rows"
    by (rule list_class_tasks_map) (simp_all add: d')
  also have "\<dots> = concat (map (\<lambda>im. map (keyed_as now (unit_key sha256 run im)) (snd im)) ?ims)"
    using rekey_groups [of ?ims] listed_ids_distinct [OF wf] unfolding cat by blast
  also have "\<dots> = concat (map snd ?gs)" by (simp add: unit_group_def o_def)
  finally have rows: "list_class_tasks t d' = concat (map snd ?gs)" .
  have good: "list_all (in_unit run u) ms \<and> ms \<noteq> [] \<and> safe_batch_id u" if "(u, ms) \<in> set ?gs" for u ms
  proof -
    from that obtain i xs where im: "(i, xs) \<in> set ?ims" and g: "(u, ms) = unit_group sha256 now run (i, xs)"
      by auto
    from im have xs: "xs \<in> set (chunks n ?rows)" and i: "i < 1 + length (chunks n ?rows)"
      by (auto simp: in_set_enumerate_eq)
    have "i < 10 ^ 100" using i few length_chunks [OF n, of ?rows] by linarith
    with hex have "safe_batch_id (unit_id sha256 i xs)" by (intro unit_id_safe) (simp add: hex_digest_def)
    moreover have "xs \<noteq> []" using xs chunks_nonempty [OF n] by metis
    ultimately show ?thesis using g by (auto simp: unit_group_def in_unit_def unit_key_def list_all_iff)
  qed
  have dist: "distinct (map fst ?gs)"
  proof -
    have d: "distinct (map fst ?ims)" by (simp only: map_fst_enumerate distinct_upt)
    then have inj: "inj_on fst (set ?ims)" and dd: "distinct ?ims" by (simp_all only: distinct_map)
    have m: "map fst ?gs = map (\<lambda>im. unit_id sha256 (fst im) (snd im)) ?ims"
      by (simp add: unit_group_def)
    have "inj_on (\<lambda>im. unit_id sha256 (fst im) (snd im)) (set ?ims)"
      using inj by (auto simp only: inj_on_def dest!: unit_id_index)
    with dd show ?thesis unfolding m distinct_map by simp
  qed
  have "?gs \<noteq> []" using ne n by (simp add: chunks_step)
  from reconstruct_groups [OF good run dist this] rows show ?thesis by (simp add: o_def)
qed


lemma batch_of_unit_fields [simp]:
  "sb_run (batch_of_unit t run g) = run" "sb_task (batch_of_unit t run g) = t"
  "sb_targets (batch_of_unit t run g) = map target_name (snd g)"
  "sb_members (batch_of_unit t run g) = map ct_id (snd g)"
  by (simp_all add: batch_of_unit_def)

lemma map_enumerate_snd: "map (\<lambda>x. f (snd x)) (enumerate k xs) = map f xs"
proof -
  have "map (\<lambda>x. f (snd x)) (enumerate k xs) = map f (map snd (enumerate k xs))"
    by (simp only: map_map o_def)
  then show ?thesis by (simp only: map_snd_enumerate)
qed

lemma fresh_run:
  assumes wf: "wf_db d" and ne: "list_class_tasks t d \<noteq> []" and n: "1 \<le> n"
    and none: "\<not> list_ex keyed (list_class_tasks t d)"
    and dist: "distinct (map target_name (list_class_tasks t d))"
    and hex: "hex_digest sha256" and run: "safe_batch_id (run_or run fresh)" "run \<noteq> Some []"
    and few: "length (list_class_tasks t d) < 10 ^ 100"
  shows "ensure_stable_generation_batches sha256 fresh now t (map target_name (list_class_tasks t d)) n run d
    = (Inr (map (batch_of_unit t (run_or run fresh) \<circ> unit_group sha256 now (run_or run fresh))
          (enumerate 1 (chunks (nat n) (list_class_tasks t d)))),
       d\<lparr>class_tasks := map (rekey sha256 now (run_or run fresh)
          (enumerate 1 (chunks (nat n) (list_class_tasks t d)))) (class_tasks d)\<rparr>)"
proof -
  let ?r = "run_or run fresh" and ?rows = "list_class_tasks t d"
  let ?ims = "enumerate 1 (chunks (nat n) ?rows)"
  let ?d = "d\<lparr>class_tasks := map (rekey sha256 now ?r ?ims) (class_tasks d)\<rparr>"
  let ?bs = "map (batch_of_unit t ?r \<circ> unit_group sha256 now ?r) ?ims"
  have n0: "0 < nat n" using n by simp
  have a: "assigned_rows sha256 ?r now t (nat n) ?rows d = (Inr (list_class_tasks t ?d), ?d)"
    by (simp add: assigned_rows_def none andthen_def seq_def lift_batch_def validate_identifier_def
        check_that_def run assign_units_run reads_def)
  have r: "reconstruct t (list_class_tasks t ?d) = Inr ?bs"
    by (rule reconstruct_assigned [OF wf ne n0 hex run(1) few refl])
  have same: "\<not> (run \<noteq> None \<and> ?bs \<noteq> [] \<and> sb_run (hd ?bs) \<noteq> the run)"
  proof -
    have "map (batch_of_unit t ?r \<circ> g) xs \<noteq> [] \<Longrightarrow> sb_run (hd (map (batch_of_unit t ?r \<circ> g) xs)) = ?r"
      for g and xs :: "(nat \<times> class_task list) list" by (cases xs) simp_all
    moreover have "run \<noteq> None \<Longrightarrow> the run = ?r" using run(2) by (auto simp: run_or_def split: if_splits)
    ultimately show ?thesis by metis
  qed
  show ?thesis
    using same
    by (simp add: ensure_stable_generation_batches_def guard_def dist n andthen_def seq_def ret_def
        transaction_def reads_def ne none a lift_batch_def r del: One_nat_def) blast
qed

text \<open>
  The first pass over a task with no keys cuts its targets, in their order, into
  consecutive units of the batch size (the last may be shorter), all of one run; it changes
  nothing but the keys and the time of update. The hash yields hexadecimal digits, as
  hashlib documents, and the run id is safe.
\<close>

theorem fresh_units_partition:
  assumes "wf_db d" and "list_class_tasks t d = rows" "rows \<noteq> []" and "1 \<le> n"
    and "\<forall>r \<in> set rows. row_key r = []" and "distinct (map target_name rows)"
    and "hex_digest sha256" and "safe_batch_id (run_or run fresh)" "run \<noteq> Some []"
    and "length rows < 10 ^ 100"
  shows "\<exists>bs d'. ensure_stable_generation_batches sha256 fresh now t (map target_name rows) n run d = (Inr bs, d')
     \<and> map sb_targets bs = chunks (nat n) (map target_name rows)
     \<and> map sb_members bs = chunks (nat n) (map ct_id rows)
     \<and> concat (map sb_targets bs) = map target_name rows
     \<and> (\<forall>b \<in> set bs. sb_task b = t \<and> sb_run b = run_or run fresh)
     \<and> (\<exists>cs. d' = d\<lparr>class_tasks := cs\<rparr> \<and> map strip_key cs = map strip_key (class_tasks d))"
proof -
  let ?r = "run_or run fresh" and ?ims = "enumerate 1 (chunks (nat n) rows)"
  let ?bs = "map (batch_of_unit t ?r \<circ> unit_group sha256 now ?r) ?ims"
  have n0: "0 < nat n" using assms(4) by simp
  have none: "\<not> list_ex keyed rows" using assms(5) by (auto simp: list_ex_iff keyed_def)
  from fresh_run [OF assms(1), of t n sha256 run fresh now] assms none
  have run: "ensure_stable_generation_batches sha256 fresh now t (map target_name rows) n run d
      = (Inr ?bs, d\<lparr>class_tasks := map (rekey sha256 now ?r ?ims) (class_tasks d)\<rparr>)" by simp
  have "map sb_targets ?bs = map (map target_name) (chunks (nat n) rows)"
    by (simp add: unit_group_def o_def map_enumerate_snd)
  then have t: "map sb_targets ?bs = chunks (nat n) (map target_name rows)"
    by (simp only: chunks_map [OF n0])
  have "map sb_members ?bs = map (map ct_id) (chunks (nat n) rows)"
    by (simp add: unit_group_def o_def map_enumerate_snd)
  then have m: "map sb_members ?bs = chunks (nat n) (map ct_id rows)"
    by (simp only: chunks_map [OF n0])
  have "concat (map sb_targets ?bs) = map target_name rows" by (simp only: t concat_chunks [OF n0])
  with run t m show ?thesis by fastforce
qed


section \<open>Selecting the next unit\<close>

lemma find_split: "List.find P xs = Some x \<longleftrightarrow>
    (\<exists>us vs. xs = us @ x # vs \<and> P x \<and> (\<forall>u \<in> set us. \<not> P u))"
proof
  assume "List.find P xs = Some x"
  then show "\<exists>us vs. xs = us @ x # vs \<and> P x \<and> (\<forall>u \<in> set us. \<not> P u)"
  proof (induction xs)
    case (Cons y xs)
    show ?case
    proof (cases "P y")
      case True
      with Cons.prems show ?thesis by (intro exI [of _ "[]"] exI [of _ xs]) auto
    next
      case False
      with Cons obtain us vs where "xs = us @ x # vs" "P x" "\<forall>u \<in> set us. \<not> P u" by auto
      with False show ?thesis by (intro exI [of _ "y # us"] exI [of _ vs]) auto
    qed
  qed simp
next
  assume "\<exists>us vs. xs = us @ x # vs \<and> P x \<and> (\<forall>u \<in> set us. \<not> P u)"
  then obtain us vs where "xs = us @ x # vs" "P x" "\<forall>u \<in> set us. \<not> P u" by blast
  then show "List.find P xs = Some x" by (induction us arbitrary: xs) auto
qed

lemma find_first: "P x \<Longrightarrow> (\<forall>u \<in> set us. \<not> P u) \<Longrightarrow> List.find P (us @ x # vs) = Some x"
  by (induction us) auto

lemma one_task:
  assumes "\<forall>b \<in> set bs. sb_task b = t" and "bs \<noteq> []"
  shows "dedup (map sb_task bs) = [t]"
proof -
  obtain b rest where b: "bs = b # rest" using assms(2) by (cases bs) auto
  have "filter (\<lambda>y. y \<noteq> t) (map sb_task rest) = []"
    using assms(1) b by (simp add: filter_empty_conv)
  then show ?thesis using assms(1) b by simp
qed

lemma first_non_terminal_run:
  assumes "\<forall>b \<in> set bs. sb_task b = t"
  shows "first_non_terminal_batch bs d = (Inr (List.find (open_batch d t) bs), d)"
proof (cases "bs = []")
  case True
  then show ?thesis by (simp add: first_non_terminal_batch_def ret_def)
next
  case False
  then show ?thesis by (simp add: first_non_terminal_batch_def one_task [OF assms] reads_def)
qed

lemma reconstruct_task: "reconstruct t rows = Inr bs \<Longrightarrow> b \<in> set bs \<Longrightarrow> sb_task b = t"
  by (auto simp: reconstruct_def res_simps split: option.splits)

lemma ensure_task:
  assumes "ensure_stable_batches sha256 fresh now t req n run d = (Inr bs, d')"
  shows "\<forall>b \<in> set bs. sb_task b = t"
proof -
  from assms have "ensure_stable_generation_batches sha256 fresh now t
      (effective_targets (map target_name (list_class_tasks t d)) req) n run d = (Inr bs, d')"
    by (simp add: ensure_stable_batches_def)
  from ensure_Inr [OF this] show ?thesis by (auto split: if_splits dest: reconstruct_task)
qed

text \<open>A target whose row is closed for the store but open for the units.\<close>

definition closed_but_open :: "class_task \<Rightarrow> bool" where
  "closed_but_open r \<longleftrightarrow> ct_status r \<in> set terminal_class_statuses
     \<and> ct_status r \<notin> set terminal_batch_statuses"

lemma closed_unit_is_open:
  assumes "wf_db d" and "r \<in> set (list_class_tasks t d)" and "closed_but_open r"
    and "ct_id r \<in> set (sb_members b)"
  shows "open_batch d t b"
proof -
  have "find_row ct_id (ct_id r) (list_class_tasks t d) = Some r"
    by (rule find_row_member [OF listed_ids_distinct [OF assms(1)] assms(2)])
  then have "unfinished_member t d (ct_id r)"
    using assms(3) by (simp add: unfinished_member_def closed_but_open_def)
  with assms(4) show ?thesis by (auto simp: open_batch_def list_ex_iff)
qed

text \<open>
  A target that the store calls terminal but the units do not (cancelled, unsafe diff,
  push failed, budget exceeded, a provider error) keeps its unit selected; once the
  checkpointed child graph reports that unit as already complete, every pass over the task
  raises, so the units after it are never run.
\<close>

theorem closed_target_stops_the_task:
  assumes wf: "wf_db d" and row: "get_repo_task t d = Some row" "durable_task row"
    and units: "ensure_stable_batches sha256 fresh now t candidates (max 1 (if per_run = 0 then 1 else per_run))
        run d = (Inr (before @ b # after), d)"
    and before: "\<forall>u \<in> set before. \<not> open_batch d t u"
    and closed: "r \<in> set (list_class_tasks t d)" "closed_but_open r" "ct_id r \<in> set (sb_members b)"
    and reused: "invoke b d = (Inr (''reused_completed'', phase), d)"
  shows "\<exists>e. run_unit sha256 invoke fresh now t candidates per_run run d = (Inl (BatchIdentity e), d)"
proof -
  let ?bs = "before @ b # after"
  have open_b: "open_batch d t b" by (rule closed_unit_is_open [OF wf closed])
  have tasks: "\<forall>u \<in> set ?bs. sb_task u = t" by (rule ensure_task [OF units])
  have "first_non_terminal_batch ?bs d = (Inr (Some b), d)"
    using first_non_terminal_run [OF tasks, of d] find_first [of "open_batch d t", OF open_b before] by simp
  moreover have "first_non_terminal_batch [b] d = (Inr (Some b), d)"
    using first_non_terminal_run [of "[b]" t d] tasks open_b by simp
  moreover have "require_durable_generation_task row = Inr ()"
    using row(2) by (simp add: require_durable_generation_task_def durable_task_def)
  ultimately show ?thesis
    by (simp add: run_unit_def row(1) andthen_def seq_def lift_task_def lift_error_def units reused
        guard_reused_unit_def guard_def raise_def reads_def split del: if_split)
qed


section \<open>The units cover the task\<close>

definition rc_ok :: "rc_state \<Rightarrow> bool" where
  "rc_ok s \<longleftrightarrow> distinct (map fst (rc_units s)) \<and> (case rc_previous s of
     None \<Rightarrow> rc_units s = [] \<and> rc_closed s = []
   | Some p \<Rightarrow> (\<exists>us xs. rc_units s = us @ [(p, xs)] \<and> fst ` set us = set (rc_closed s)))"

lemma add_member_last:
  assumes "rc_units s = us @ [(u, xs)]" and "u \<notin> fst ` set us"
  shows "add_member u r s = s\<lparr>rc_units := us @ [(u, xs @ [r])]\<rparr>"
proof -
  have "map (\<lambda>(v, rows). if v = u then (v, rows @ [r]) else (v, rows)) us = us"
    using assms(2) by (induction us) auto
  then show ?thesis by (simp add: add_member_def assms(1))
qed

lemma open_unit_ok:
  assumes "rc_ok s" and "open_unit u s = Inr s'"
  shows "\<exists>us xs. rc_units s' = us @ [(u, xs)] \<and> u \<notin> fst ` set us \<and> distinct (map fst us)
     \<and> rc_previous s' = Some u \<and> fst ` set us = set (rc_closed s')
     \<and> concat (map snd (rc_units s')) = concat (map snd (rc_units s))"
proof (cases "rc_previous s = Some u")
  case True
  with assms(1) have d: "distinct (map fst (rc_units s))"
    and "\<exists>us xs. rc_units s = us @ [(u, xs)] \<and> fst ` set us = set (rc_closed s)"
    by (simp_all add: rc_ok_def)
  then obtain us xs where u: "rc_units s = us @ [(u, xs)]" "fst ` set us = set (rc_closed s)" by blast
  have "s' = s" using assms(2) True by (simp add: open_unit_def)
  with u d True show ?thesis by (intro exI [of _ us] exI [of _ xs]) simp
next
  case False
  with assms(2) have new: "u \<notin> set (rc_closed s)"
    and s': "s' = s\<lparr>rc_closed := (case rc_previous s of None \<Rightarrow> rc_closed s | Some p \<Rightarrow> p # rc_closed s),
        rc_units := rc_units s @ [(u, [])], rc_previous := Some u\<rparr>"
    by (auto simp: open_unit_def split: if_splits)
  show ?thesis
  proof (cases "rc_previous s")
    case None
    with assms(1) s' show ?thesis by (auto simp: rc_ok_def)
  next
    case (Some p)
    with assms(1) have d: "distinct (map fst (rc_units s))"
      and "\<exists>us xs. rc_units s = us @ [(p, xs)] \<and> fst ` set us = set (rc_closed s)"
      by (simp_all add: rc_ok_def)
    then obtain us xs where u: "rc_units s = us @ [(p, xs)]" "fst ` set us = set (rc_closed s)" by blast
    with d Some s' new False show ?thesis
      by (intro exI [of _ "us @ [(p, xs)]"] exI [of _ "[]"]) auto
  qed
qed

lemma rc_row_ok:
  assumes "rc_ok s" and "rc_row s r = Inr s'"
  shows "rc_ok s' \<and> concat (map snd (rc_units s')) = concat (map snd (rc_units s)) @ [r]"
proof -
  from assms(2) obtain run u s1 where o: "open_unit u (s\<lparr>rc_run := Some run\<rparr>) = Inr s1"
    and s': "s' = add_member u r s1"
    by (auto simp: rc_row_def res_simps split: list.splits if_splits)
  have "rc_ok (s\<lparr>rc_run := Some run\<rparr>)" using assms(1) by (simp add: rc_ok_def split: option.splits)
  from open_unit_ok [OF this o] obtain us xs where u: "rc_units s1 = us @ [(u, xs)]" "u \<notin> fst ` set us"
    "distinct (map fst us)" "rc_previous s1 = Some u" "fst ` set us = set (rc_closed s1)"
    "concat (map snd (rc_units s1)) = concat (map snd (rc_units s))" by auto
  have "s' = s1\<lparr>rc_units := us @ [(u, xs @ [r])]\<rparr>" using add_member_last [OF u(1,2)] s' by simp
  with u show ?thesis by (auto simp: rc_ok_def)
qed

lemma rc_rows_ok:
  "rc_rows s rows = Inr s' \<Longrightarrow> rc_ok s
    \<Longrightarrow> rc_ok s' \<and> concat (map snd (rc_units s')) = concat (map snd (rc_units s)) @ rows"
proof (induction rows arbitrary: s)
  case (Cons r rows)
  then obtain s1 where s1: "rc_row s r = Inr s1" "rc_rows s1 rows = Inr s'" by (auto simp: res_simps)
  from rc_row_ok [OF Cons.prems(2) s1(1)] Cons.IH [OF s1(2)] show ?case by simp
qed simp

lemma reconstruct_covers:
  assumes "reconstruct t rows = Inr bs"
  shows "concat (map sb_members bs) = map ct_id rows \<and> concat (map sb_targets bs) = map target_name rows"
proof -
  from assms obtain s run where s: "rc_rows rc_empty rows = Inr s"
    and bs: "bs = map (batch_of_unit t run) (rc_units s)"
    by (auto simp: reconstruct_def res_simps split: option.splits)
  have "rc_ok rc_empty" by (simp add: rc_ok_def rc_empty_def)
  from rc_rows_ok [OF s this] have "rows = concat (map snd (rc_units s))" by (simp add: rc_empty_def)
  then show ?thesis by (simp add: bs map_concat o_def)
qed

text \<open>
  The next unit is the first one that has a target which did not end in PASS, FAIL or
  MUTATION_FAIL; there is none exactly when every target of the task ended in one of these.
\<close>

theorem next_unit_is_first_unfinished:
  assumes wf: "wf_db d'" and run: "ensure_stable_generation_batches sha256 fresh now t req n run d = (Inr bs, d')"
  shows "\<exists>found. first_non_terminal_batch bs d' = (Inr found, d')
     \<and> (found = None \<longleftrightarrow> (\<forall>r \<in> set (list_class_tasks t d'). ct_status r \<in> set terminal_batch_statuses))
     \<and> (\<forall>b. found = Some b \<longrightarrow> (\<exists>before after. bs = before @ b # after
          \<and> (\<exists>r \<in> set (list_class_tasks t d'). ct_id r \<in> set (sb_members b) \<and> ct_status r \<notin> set terminal_batch_statuses)
          \<and> (\<forall>u \<in> set before. \<forall>r \<in> set (list_class_tasks t d'). ct_id r \<in> set (sb_members u)
                \<longrightarrow> ct_status r \<in> set terminal_batch_statuses)))"
proof -
  let ?rows = "list_class_tasks t d'"
  have names: "map target_name (list_class_tasks t d) = req" and
    strip: "map strip_key (list_class_tasks t d') = map strip_key (list_class_tasks t d)"
    using ensure_Inr [OF run] by (auto intro: list_class_tasks_strip)
  have cover: "concat (map sb_members bs) = map ct_id ?rows" and tasks: "\<forall>b \<in> set bs. sb_task b = t"
    using ensure_Inr [OF run] names strip
    by (auto split: if_splits dest: reconstruct_covers reconstruct_task)
  have member: "find_row ct_id (ct_id r) ?rows = Some r" if "r \<in> set ?rows" for r
    by (rule find_row_member [OF listed_ids_distinct [OF wf] that])
  have sub: "c \<in> ct_id ` set ?rows" if "b \<in> set bs" "c \<in> set (sb_members b)" for b c
  proof -
    have "c \<in> set (concat (map sb_members bs))" using that by auto
    then show ?thesis unfolding cover by simp
  qed
  have open_iff: "open_batch d' t b \<longleftrightarrow> (\<exists>r \<in> set ?rows. ct_id r \<in> set (sb_members b)
      \<and> ct_status r \<notin> set terminal_batch_statuses)" if "b \<in> set bs" for b
  proof
    assume "open_batch d' t b"
    then obtain c where c: "c \<in> set (sb_members b)" "unfinished_member t d' c"
      by (auto simp: open_batch_def list_ex_iff)
    with sub [OF that c(1)] obtain r where "r \<in> set ?rows" "ct_id r = c" by auto
    with c member show "\<exists>r \<in> set ?rows. ct_id r \<in> set (sb_members b) \<and> ct_status r \<notin> set terminal_batch_statuses"
      by (auto simp: unfinished_member_def)
  next
    assume "\<exists>r \<in> set ?rows. ct_id r \<in> set (sb_members b) \<and> ct_status r \<notin> set terminal_batch_statuses"
    then obtain r where r: "r \<in> set ?rows" "ct_id r \<in> set (sb_members b)" "ct_status r \<notin> set terminal_batch_statuses"
      by blast
    then have "unfinished_member t d' (ct_id r)" by (simp add: unfinished_member_def member)
    with r(2) show "open_batch d' t b" by (auto simp: open_batch_def list_ex_iff)
  qed
  have all: "(\<forall>b \<in> set bs. \<not> open_batch d' t b) \<longleftrightarrow> (\<forall>r \<in> set ?rows. ct_status r \<in> set terminal_batch_statuses)"
  proof -
    have "\<exists>b \<in> set bs. ct_id r \<in> set (sb_members b)" if "r \<in> set ?rows" for r
    proof -
      have "ct_id r \<in> set (concat (map sb_members bs))" unfolding cover using that by simp
      then show ?thesis by auto
    qed
    then show ?thesis using open_iff by blast
  qed
  have none: "List.find (open_batch d' t) bs = None \<longleftrightarrow> (\<forall>b \<in> set bs. \<not> open_batch d' t b)"
    by (auto simp: find_None_iff)
  have some: "\<exists>before after. bs = before @ b # after
      \<and> (\<exists>r \<in> set ?rows. ct_id r \<in> set (sb_members b) \<and> ct_status r \<notin> set terminal_batch_statuses)
      \<and> (\<forall>u \<in> set before. \<forall>r \<in> set ?rows. ct_id r \<in> set (sb_members u) \<longrightarrow> ct_status r \<in> set terminal_batch_statuses)"
    if found: "List.find (open_batch d' t) bs = Some b" for b
  proof -
    from found obtain us vs where bs: "bs = us @ b # vs" and b: "open_batch d' t b"
      and us: "\<forall>u \<in> set us. \<not> open_batch d' t u" by (auto simp: find_split)
    from bs have "b \<in> set bs" "set us \<subseteq> set bs" by auto
    with open_iff b us bs show ?thesis by blast
  qed
  show ?thesis
    by (intro exI conjI, rule first_non_terminal_run [OF tasks]) (use none all some in blast)+
qed


section \<open>Witnesses\<close>

definition plain_target :: target_fields where
  "plain_target = \<lparr>gf_language = ''java'', gf_target = None, gf_source = None, gf_symbol = None,
     gf_granularity = None, gf_display = None, gf_module = None, gf_priority = 100\<rparr>"

definition unit_row :: "nat \<Rightarrow> str \<Rightarrow> str option \<Rightarrow> class_status \<Rightarrow> class_task" where
  "unit_row i name key status = (new_class_task 0 i 1 name plain_target)
     \<lparr>ct_batch_key := key, ct_status := status\<rparr>"

lemma unit_row_simps [simp]:
  "ct_id (unit_row i n k s) = i" "ct_repo (unit_row i n k s) = 1" "ct_fqn (unit_row i n k s) = n"
  "ct_priority (unit_row i n k s) = 100" "ct_status (unit_row i n k s) = s"
  "row_key (unit_row i n k s) = (case k of None \<Rightarrow> [] | Some k \<Rightarrow> k)"
  "n \<noteq> [] \<Longrightarrow> target_name (unit_row i n k s) = n"
  by (simp_all add: unit_row_def new_class_task_def plain_target_def Let_def row_key_def target_name_def
      or_else_def)

definition unit_db :: "class_task list \<Rightarrow> db" where
  "unit_db rows = empty_db\<lparr>repo_tasks := [crowd_task 1], next_repo := 2, class_tasks := rows,
     next_class := 4\<rparr>"

definition fresh_rows :: "class_task list" where
  "fresh_rows = [unit_row 1 ''A'' None CQueued, unit_row 2 ''B'' None CQueued, unit_row 3 ''C'' None CQueued]"

definition keyed_rows :: "class_task list" where
  "keyed_rows = [unit_row 1 ''A'' (Some ''r/u1'') CUnsafeDiff, unit_row 2 ''B'' (Some ''r/u1'') CPass,
     unit_row 3 ''C'' (Some ''r/u2'') CQueued]"

definition keyed_units :: "stable_batch list" where
  "keyed_units = [\<lparr>sb_task = 1, sb_run = ''r'', sb_unit = ''u1'', sb_targets = [''A'', ''B''], sb_members = [1, 2]\<rparr>,
     \<lparr>sb_task = 1, sb_run = ''r'', sb_unit = ''u2'', sb_targets = [''C''], sb_members = [3]\<rparr>]"

lemma unit_db_rows [simp]:
  "list_class_tasks 1 (unit_db fresh_rows) = fresh_rows"
  "list_class_tasks 1 (unit_db keyed_rows) = keyed_rows"
  "list_class_tasks (Suc 0) (unit_db fresh_rows) = fresh_rows"
  "list_class_tasks (Suc 0) (unit_db keyed_rows) = keyed_rows"
  by (simp_all add: list_class_tasks_def unit_db_def fresh_rows_def keyed_rows_def)

lemma unit_db_wf: "wf_db (unit_db fresh_rows)" "wf_db (unit_db keyed_rows)"
  by (auto simp: unit_db_def empty_db_def wf_db_def wf_parts auto_ids_def fresh_rows_def keyed_rows_def
      repo_ids_def class_ids_def)

lemma keyed_reconstruct: "reconstruct 1 keyed_rows = Inr keyed_units"
  by (simp add: keyed_rows_def reconstruct_def rc_row_def rc_empty_def open_unit_def add_member_def
      id_start_def id_part_def code_def batch_of_unit_def keyed_units_def)

lemma keyed_ensure:
  "ensure_stable_generation_batches sha256 fresh now 1 [''A'', ''B'', ''C''] 2 None (unit_db keyed_rows)
    = (Inr keyed_units, unit_db keyed_rows)"
proof -
  have names: "map target_name keyed_rows = [''A'', ''B'', ''C'']" by (simp add: keyed_rows_def)
  have keys: "list_all keyed keyed_rows" "list_ex keyed keyed_rows" "keyed_rows \<noteq> []"
    by (simp_all add: keyed_rows_def keyed_def)
  show ?thesis
    using keyed_reconstruct
    by (simp add: ensure_stable_generation_batches_def guard_def andthen_def seq_def ret_def
        transaction_def reads_def names keys assigned_rows_def lift_batch_def)
qed

theorem batches_are_stable_witness:
  "ensure_stable_batches (\<lambda>x. ''00'') ''q'' 9 1 [''B'', ''C''] 50 None (unit_db keyed_rows)
    = (Inr keyed_units, unit_db keyed_rows)"
  using batches_are_stable [OF keyed_ensure [of "\<lambda>x. ''00''" "''q''" 5] refl, of 50 "\<lambda>x. x \<noteq> ''A''"]
  by simp

theorem fresh_units_partition_witness:
  "\<exists>bs d'. ensure_stable_generation_batches (\<lambda>x. ''00'') ''r'' 5 1 [''A'', ''B'', ''C''] 2 None (unit_db fresh_rows)
       = (Inr bs, d') \<and> map sb_targets bs = [[''A'', ''B''], [''C'']] \<and> map sb_members bs = [[1, 2], [3]]"
proof -
  have names: "map target_name fresh_rows = [''A'', ''B'', ''C'']" "map ct_id fresh_rows = [1, 2, 3]"
    by (simp_all add: fresh_rows_def)
  have c: "chunks 2 [''A'', ''B'', ''C''] = [[''A'', ''B''], [''C'']]" "chunks 2 [1, 2, 3::nat] = [[1, 2], [3]]"
    by (simp_all add: chunks_step)
  have "hex_digest (\<lambda>x. ''00'')" by (simp add: hex_digest_def hex_digit_def py_isdigit_def code_def)
  moreover have "safe_batch_id (run_or None ''r'')" by (simp add: run_or_def id_start_def code_def)
  moreover have "\<forall>r \<in> set fresh_rows. row_key r = []" by (simp add: fresh_rows_def)
  moreover have "fresh_rows \<noteq> []" "length fresh_rows = 3" "distinct (map target_name fresh_rows)"
    by (simp_all add: fresh_rows_def)
  ultimately have "\<exists>bs d'. ensure_stable_generation_batches (\<lambda>x. ''00'') ''r'' 5 1 (map target_name fresh_rows) 2 None
      (unit_db fresh_rows) = (Inr bs, d')
     \<and> map sb_targets bs = chunks (nat 2) (map target_name fresh_rows)
     \<and> map sb_members bs = chunks (nat 2) (map ct_id fresh_rows)
     \<and> concat (map sb_targets bs) = map target_name fresh_rows
     \<and> (\<forall>b \<in> set bs. sb_task b = 1 \<and> sb_run b = run_or None ''r'')
     \<and> (\<exists>cs. d' = (unit_db fresh_rows)\<lparr>class_tasks := cs\<rparr>
          \<and> map strip_key cs = map strip_key (class_tasks (unit_db fresh_rows)))"
    by (intro fresh_units_partition unit_db_wf unit_db_rows) simp_all
  moreover have "nat 2 = 2" by simp
  ultimately have "\<exists>bs d'. ensure_stable_generation_batches (\<lambda>x. ''00'') ''r'' 5 1 [''A'', ''B'', ''C''] 2 None
      (unit_db fresh_rows) = (Inr bs, d') \<and> map sb_targets bs = chunks 2 [''A'', ''B'', ''C'']
     \<and> map sb_members bs = chunks 2 [1, 2, 3]" unfolding names by metis
  then show ?thesis by (simp only: c)
qed

theorem next_unit_is_first_unfinished_witness:
  "\<exists>b before after. first_non_terminal_batch keyed_units (unit_db keyed_rows) = (Inr (Some b), unit_db keyed_rows)
    \<and> keyed_units = before @ b # after"
proof -
  have "\<exists>r \<in> set (list_class_tasks 1 (unit_db keyed_rows)). ct_status r \<notin> set terminal_batch_statuses"
    unfolding unit_db_rows by (simp add: keyed_rows_def terminal_batch_statuses_def)
  with next_unit_is_first_unfinished [OF unit_db_wf(2) keyed_ensure [of "\<lambda>x. x" "''q''" 0]]
  show ?thesis by blast
qed

theorem closed_target_stops_the_task_witness:
  "\<exists>e. run_unit (\<lambda>x. ''00'') (\<lambda>b. ret (''reused_completed'', [])) ''q'' 5 1 [''A'', ''B'', ''C''] 2 None
     (unit_db keyed_rows) = (Inl (BatchIdentity e), unit_db keyed_rows)"
proof (rule closed_target_stops_the_task [where before = "[]" and b = "hd keyed_units"
      and after = "tl keyed_units" and r = "hd keyed_rows"])
  show "wf_db (unit_db keyed_rows)" by (rule unit_db_wf)
  show "get_repo_task 1 (unit_db keyed_rows) = Some (crowd_task 1)"
    by (simp add: get_repo_task_def unit_db_def table_simps)
  show "durable_task (crowd_task 1)" by simp
  have names: "map target_name keyed_rows = [''A'', ''B'', ''C'']" by (simp add: keyed_rows_def)
  show "ensure_stable_batches (\<lambda>x. ''00'') ''q'' 5 1 [''A'', ''B'', ''C''] (max 1 (if (2::int) = 0 then 1 else 2)) None
      (unit_db keyed_rows) = (Inr ([] @ hd keyed_units # tl keyed_units), unit_db keyed_rows)"
    using keyed_ensure by (simp add: ensure_stable_batches_def names effective_targets_def keyed_units_def)
  show "closed_but_open (hd keyed_rows)"
    by (simp add: closed_but_open_def keyed_rows_def terminal_class_statuses_def terminal_batch_statuses_def)
  show "hd keyed_rows \<in> set (list_class_tasks 1 (unit_db keyed_rows))"
    unfolding unit_db_rows by (simp add: keyed_rows_def)
qed (simp_all add: keyed_rows_def keyed_units_def ret_def)

end
