(* ===== verification/RepairProgress.thy ===== *)
theory RepairProgress
  imports PyValue
begin

text \<open>
  When a score-driven repair loop goes on: \<open>uta/testgen/repair_progress.py\<close> and
  \<open>uta/language/repair_attempts.py\<close>. A state, a phase result and its evidence are
  dictionaries; \<open>None\<close> stands for an exception (\<open>int\<close> of something that is no number, a method
  of a value that is no dictionary). \<open>shown\<close> is \<open>str\<close> on values that are not strings. Scores
  are exact rationals, so the addition of the epsilon does not round.
\<close>

section \<open>Reading the state\<close>

text \<open>\<open>int((state.get(key) or {}).get(phase, default))\<close>.\<close>

definition phase_count :: "pydict \<Rightarrow> str \<Rightarrow> str \<Rightarrow> int \<Rightarrow> int option" where
  "phase_count state key phase missing = Option.bind (sub_dict state key) (\<lambda>d.
     if has_key d phase then py_int (get d phase) else Some missing)"

section \<open>Scores\<close>

definition improvement_epsilon :: rat where
  "improvement_epsilon = 1 / 20"

type_synonym score_map = "(str \<times> rat) list"

text \<open>\<open>_scores\<close> drops what is no number; Booleans are none here.\<close>

definition score_of :: "pyval \<Rightarrow> rat option" where
  "score_of v = (case v of PInt n \<Rightarrow> Some (of_int n) | PFloat q \<Rightarrow> Some q | _ \<Rightarrow> None)"

definition scores_in :: "pyval \<Rightarrow> score_map" where
  "scores_in v = (case v of
     PDict d \<Rightarrow> List.map_filter (\<lambda>(t, x). map_option (Pair t) (score_of x)) d
   | _ \<Rightarrow> [])"

definition score_dict :: "score_map \<Rightarrow> pyval" where
  "score_dict m = PDict (map (\<lambda>(t, q). (t, PFloat q)) m)"

section \<open>One more round?\<close>

datatype repair_kind = KCompile | KCoverage | KMutation

fun kind_value :: "repair_kind \<Rightarrow> str" where
  "kind_value KCompile = ''compile''"
| "kind_value KCoverage = ''coverage''"
| "kind_value KMutation = ''mutation''"

definition score_driven_kinds :: "repair_kind list" where
  "score_driven_kinds = [KCoverage, KMutation]"

definition score_driven_phase :: "str \<Rightarrow> repair_kind option" where
  "score_driven_phase phase = List.find (\<lambda>k. phase = ''measure_'' @ kind_value k) score_driven_kinds"

definition default_hard_cap :: int where
  "default_hard_cap = 6"

record progress_decision =
  pd_repair :: bool
  pd_reason :: str
  pd_best :: score_map
  pd_improved :: "str list"
  pd_streak :: int

fun judge_scores :: "score_map \<Rightarrow> score_map \<Rightarrow> str list \<Rightarrow> score_map \<times> str list" where
  "judge_scores [] best improved = (best, improved)"
| "judge_scores ((t, s) # ts) best improved =
     (case map_of best t of
        None \<Rightarrow> judge_scores ts (dict_set t s best) (improved @ [t])
      | Some b \<Rightarrow> judge_scores ts (dict_set t (max s b) best)
          (if b + improvement_epsilon < s then improved @ [t] else improved))"

definition decide_repair_progress ::
  "repair_kind \<Rightarrow> score_map \<Rightarrow> score_map \<Rightarrow> int \<Rightarrow> int \<Rightarrow> int \<Rightarrow> progress_decision" where
  "decide_repair_progress kind scores previous_best attempts hard_cap previous_no_progress =
     (let (best, improved) = judge_scores scores previous_best [];
          streak = (if improved \<noteq> [] then 0
                    else previous_no_progress + (if scores \<noteq> [] \<and> 0 < attempts then 1 else 0)) in
      if hard_cap \<le> attempts
      then \<lparr>pd_repair = False, pd_reason = kind_value kind @ ''_repair_attempts_exhausted'',
            pd_best = best, pd_improved = improved, pd_streak = streak\<rparr>
      else if improved = [] \<and> scores \<noteq> [] \<and> 2 \<le> streak
      then \<lparr>pd_repair = False, pd_reason = kind_value kind @ ''_repair_no_progress'',
            pd_best = best, pd_improved = improved, pd_streak = streak\<rparr>
      else \<lparr>pd_repair = True, pd_reason = [], pd_best = best, pd_improved = improved,
            pd_streak = streak\<rparr>)"

definition repair_phase_for :: "repair_kind \<Rightarrow> str" where
  "repair_phase_for kind = ''fix_'' @ kind_value kind"

definition repair_round_available :: "pydict \<Rightarrow> str \<Rightarrow> bool option" where
  "repair_round_available state phase = (case score_driven_phase phase of
     None \<Rightarrow> Some True
   | Some kind \<Rightarrow>
       Option.bind (phase_count state ''attempts_by_phase'' (repair_phase_for kind) 0) (\<lambda>attempts.
       Option.bind (phase_count state ''max_attempts_by_phase'' (repair_phase_for kind)
           default_hard_cap) (\<lambda>cap. Some (attempts < cap))))"

definition best_scores_for :: "pydict \<Rightarrow> str \<Rightarrow> score_map" where
  "best_scores_for state phase = (case get state ''best_scores_by_phase'' of
     PDict d \<Rightarrow> scores_in (get d phase) | _ \<Rightarrow> [])"

definition merged_best_scores :: "pydict \<Rightarrow> str \<Rightarrow> score_map \<Rightarrow> pydict" where
  "merged_best_scores state phase best = dict_set phase (score_dict best)
     (case get state ''best_scores_by_phase'' of
        PDict d \<Rightarrow> map (\<lambda>(name, v). (name, score_dict (scores_in v))) d | _ \<Rightarrow> [])"

section \<open>Applying the policy to a phase result\<close>

text \<open>
  \<open>((state.get("turn_result") or {}).get("usage") or {}).get("main_model")\<close>.
\<close>

definition main_model :: "pydict \<Rightarrow> pyval option" where
  "main_model state = Option.bind (sub_dict state ''turn_result'') (\<lambda>r.
     map_option (\<lambda>u. get u ''main_model'') (sub_dict r ''usage''))"

text \<open>The kind an evidence declares (a string; a list there would raise), among the values of the kinds.\<close>

definition declared_kind :: "pydict \<Rightarrow> repair_kind option" where
  "declared_kind evidence = List.find (\<lambda>k. get evidence ''repair_kind'' = PStr (kind_value k))
     score_driven_kinds"

definition kind_of_phase :: "str \<Rightarrow> pydict \<Rightarrow> repair_kind option" where
  "kind_of_phase phase evidence = (case score_driven_phase phase of
     None \<Rightarrow> declared_kind evidence | Some k \<Rightarrow> Some k)"

definition judged_evidence :: "pydict \<Rightarrow> int \<Rightarrow> int \<Rightarrow> progress_decision \<Rightarrow> bool \<Rightarrow> pydict" where
  "judged_evidence evidence attempts hard_cap dec refused =
     (let e = dict_update evidence
        [(''attempt'', PInt attempts), (''max_attempts'', PInt hard_cap),
         (''best_scores'', score_dict (pd_best dec)),
         (''improved_targets'', PList (map PStr (pd_improved dec))),
         (''no_progress_turns'', PInt (pd_streak dec))] in
      if refused then dict_set ''failure_reason'' (PStr (pd_reason dec)) e else e)"

definition judged_projection ::
  "str \<Rightarrow> pydict \<Rightarrow> pydict \<Rightarrow> str \<Rightarrow> str \<Rightarrow> pydict \<Rightarrow> pydict \<Rightarrow> progress_decision \<Rightarrow> bool \<Rightarrow> pyval
    \<Rightarrow> pydict" where
  "judged_projection feedback state projection history outcome evidence streaks dec scored model =
     dict_update projection
       [(''phase_outcome'', PStr outcome),
        (''effort_strategy'', PStr (if outcome = ''repair'' \<and> pd_streak dec \<noteq> 0 \<and> scored
            then ''higher'' else ''default'')),
        (''model_id'', model),
        (''evidence'', PDict evidence),
        (''best_scores_by_phase'', PDict (merged_best_scores state history (pd_best dec))),
        (''no_progress_by_phase'', PDict (dict_set history
            (PInt (if outcome = ''passed'' then 0 else pd_streak dec)) streaks)),
        (''repair_feedback'', PStr (if outcome = ''repair'' \<and> pd_streak dec \<noteq> 0 \<and> scored
            then feedback else []))]"

text \<open>
  \<open>feedback\<close> is the fixed advice the source writes out. The attempts are counted under the
  repair phase; the history of a combined gate is kept per kind.
\<close>

definition apply_repair_progress ::
  "(pyval \<Rightarrow> str) \<Rightarrow> str \<Rightarrow> str \<Rightarrow> pydict \<Rightarrow> pydict \<Rightarrow> pydict option" where
  "apply_repair_progress shown feedback phase state projection =
     (let evidence = as_dict (get projection ''evidence'');
          outcome = get projection ''phase_outcome'' in
      (case kind_of_phase phase evidence of
         None \<Rightarrow> Some projection
       | Some kind \<Rightarrow>
          if outcome \<noteq> PStr ''passed'' \<and> outcome \<noteq> PStr ''repair'' then Some projection
          else
            (let named = truthy (get evidence ''repair_phase'');
                 repair_phase = (if named then shown_as shown (get evidence ''repair_phase'')
                                 else repair_phase_for kind);
                 history = (if named then repair_phase @ '':'' @ kind_value kind else repair_phase);
                 scores = scores_in (get evidence ''scores_by_target'') in
             Option.bind (phase_count state ''attempts_by_phase'' repair_phase 0) (\<lambda>attempts.
             Option.bind (phase_count state ''max_attempts_by_phase'' repair_phase default_hard_cap) (\<lambda>cap.
             Option.bind (phase_count state ''no_progress_by_phase'' history 0) (\<lambda>flat.
             Option.bind (sub_dict state ''no_progress_by_phase'') (\<lambda>streaks.
               (let dec = decide_repair_progress kind scores (best_scores_for state history)
                            attempts cap flat;
                    refused = (outcome = PStr ''repair'' \<and> \<not> pd_repair dec);
                    final = (if refused then ''failed''
                             else if outcome = PStr ''repair'' then ''repair'' else ''passed'') in
                map_option (judged_projection feedback state projection history final
                    (judged_evidence evidence attempts cap dec refused) streaks dec (scores \<noteq> []))
                  (if final = ''repair'' \<and> pd_streak dec \<noteq> 0 then main_model state else Some PNone)))))))))"

section \<open>What a repair invalidates\<close>

definition invalidated_by_repair :: "str list" where
  "invalidated_by_repair = [''verify_compile'', ''verify_tests'', ''measure_coverage'',
     ''measure_mutation'', ''delegated_quality_gate_verify'']"

definition advance_one :: "str \<Rightarrow> pydict \<Rightarrow> pydict option" where
  "advance_one phase attempts =
     map_option (\<lambda>n. dict_set phase (PInt (n + 1)) attempts)
       (if has_key attempts phase then py_int (get attempts phase) else Some 0)"

fun advance_all :: "str list \<Rightarrow> pydict \<Rightarrow> pydict option" where
  "advance_all [] attempts = Some attempts"
| "advance_all (p # ps) attempts = Option.bind (advance_one p attempts) (advance_all ps)"

definition advance_verification_attempts :: "pydict \<Rightarrow> pydict option" where
  "advance_verification_attempts = advance_all invalidated_by_repair"

end
