(* ===== verification/RepairFacts.thy ===== *)
theory RepairFacts
  imports RepairProgress
begin

text \<open>
  What the repair policy promises: the decision of one round, and that a loop of rounds ends
  by lack of progress alone, whatever the ceiling.
\<close>

section \<open>One decision\<close>

definition improves :: "score_map \<Rightarrow> str \<Rightarrow> rat \<Rightarrow> bool" where
  "improves best t s \<longleftrightarrow> (case map_of best t of None \<Rightarrow> True | Some b \<Rightarrow> b + improvement_epsilon < s)"

definition joined_score :: "rat option \<Rightarrow> rat option \<Rightarrow> rat option" where
  "joined_score new old = (case new of None \<Rightarrow> old
     | Some s \<Rightarrow> (case old of None \<Rightarrow> Some s | Some b \<Rightarrow> Some (max s b)))"

lemma judge_scores_best:
  assumes "distinct (map fst ts)"
  shows "map_of (fst (judge_scores ts best imp)) t = joined_score (map_of ts t) (map_of best t)"
  using assms
proof (induction ts best imp rule: judge_scores.induct)
  case (1 best improved)
  then show ?case by (simp add: joined_score_def)
next
  case (2 u s ts best improved)
  from 2(3) have new: "map_of ts u = None" and d: "distinct (map fst ts)"
    by (simp_all add: map_of_eq_None_iff)
  show ?case
  proof (cases "map_of best u")
    case None
    with 2(1) [OF None d] new show ?thesis by (simp add: table_simps joined_score_def)
  next
    case (Some b)
    with 2(2) [OF Some d] new show ?thesis
      by (simp add: table_simps joined_score_def)
  qed
qed

lemma judge_scores_improved:
  assumes "distinct (map fst ts)"
  shows "snd (judge_scores ts best imp) = imp @ map fst (filter (\<lambda>(t, s). improves best t s) ts)"
  using assms
proof (induction ts best imp rule: judge_scores.induct)
  case (2 u s ts best improved)
  from 2(3) have new: "u \<notin> fst ` set ts" and d: "distinct (map fst ts)" by simp_all
  have same: "filter (\<lambda>(t, x). improves (dict_set u v best) t x) ts = filter (\<lambda>(t, x). improves best t x) ts" for v
    by (rule filter_cong) (use new in \<open>auto simp: improves_def table_simps image_def split: option.splits\<close>)
  show ?case
  proof (cases "map_of best u")
    case None
    have "improves best u s" by (simp add: improves_def None)
    with 2(1) [OF None d] None show ?thesis by (simp add: same)
  next
    case (Some b)
    have "improves best u s \<longleftrightarrow> b + improvement_epsilon < s" by (simp add: improves_def Some)
    with 2(2) [OF Some d] Some show ?thesis by (simp add: same)
  qed
qed simp

lemmas judged = judge_scores_best judge_scores_improved

lemma decide_fields:
  assumes "distinct (map fst scores)"
  shows "map_of (pd_best (decide_repair_progress k scores prev a cap f)) t
      = joined_score (map_of scores t) (map_of prev t)"
    and "pd_improved (decide_repair_progress k scores prev a cap f)
      = map fst (filter (\<lambda>(t, s). improves prev t s) scores)"
    and "pd_streak (decide_repair_progress k scores prev a cap f)
      = (if pd_improved (decide_repair_progress k scores prev a cap f) \<noteq> [] then 0
         else f + (if scores \<noteq> [] \<and> 0 < a then 1 else 0))"
    and "pd_repair (decide_repair_progress k scores prev a cap f) \<longleftrightarrow> a < cap
      \<and> (scores \<noteq> [] \<longrightarrow> pd_improved (decide_repair_progress k scores prev a cap f) \<noteq> []
          \<or> pd_streak (decide_repair_progress k scores prev a cap f) < 2)"
proof -
  obtain best imp where j: "judge_scores scores prev [] = (best, imp)" by fastforce
  have b: "map_of best t = joined_score (map_of scores t) (map_of prev t)" for t
    using judge_scores_best [OF assms, of prev "[]" t] j by simp
  have i: "imp = map fst (filter (\<lambda>(t, s). improves prev t s) scores)"
    using judge_scores_improved [OF assms, of prev "[]"] j by simp
  have fields: "pd_best (decide_repair_progress k scores prev a cap f) = best"
    "pd_improved (decide_repair_progress k scores prev a cap f) = imp"
    "pd_streak (decide_repair_progress k scores prev a cap f)
      = (if imp \<noteq> [] then 0 else f + (if scores \<noteq> [] \<and> 0 < a then 1 else 0))"
    by (simp_all add: decide_repair_progress_def j Let_def)
  show "map_of (pd_best (decide_repair_progress k scores prev a cap f)) t
      = joined_score (map_of scores t) (map_of prev t)" by (simp add: fields b)
  show "pd_improved (decide_repair_progress k scores prev a cap f)
      = map fst (filter (\<lambda>(t, s). improves prev t s) scores)" by (simp only: fields i)
  show "pd_streak (decide_repair_progress k scores prev a cap f)
      = (if pd_improved (decide_repair_progress k scores prev a cap f) \<noteq> [] then 0
         else f + (if scores \<noteq> [] \<and> 0 < a then 1 else 0))" by (simp only: fields)
  show "pd_repair (decide_repair_progress k scores prev a cap f) \<longleftrightarrow> a < cap
      \<and> (scores \<noteq> [] \<longrightarrow> pd_improved (decide_repair_progress k scores prev a cap f) \<noteq> []
          \<or> pd_streak (decide_repair_progress k scores prev a cap f) < 2)"
    unfolding fields by (simp add: decide_repair_progress_def j Let_def)
qed

section \<open>A loop of rounds\<close>

text \<open>
  The measurements of a loop in which every one is granted a repair, each turn adding one to
  the attempts.
\<close>

fun granted :: "repair_kind \<Rightarrow> int \<Rightarrow> score_map list \<Rightarrow> score_map \<Rightarrow> int \<Rightarrow> int \<Rightarrow> bool" where
  "granted k cap [] best a f = True"
| "granted k cap (m # ms) best a f =
     (let dec = decide_repair_progress k m best a cap f in
      pd_repair dec \<and> granted k cap ms (pd_best dec) (a + 1) (pd_streak dec))"

text \<open>Steps of the epsilon that are left to a full score, a first score counting one more.\<close>

definition steps_left :: "rat \<Rightarrow> nat" where
  "steps_left q = nat \<lfloor>(100 - q) * 20\<rfloor>"

lemma steps_left_first: "0 \<le> s \<Longrightarrow> steps_left s < 2001"
proof -
  assume "0 \<le> s"
  then have "\<lfloor>(100 - s) * 20\<rfloor> \<le> \<lfloor>(2000::rat)\<rfloor>" by (intro floor_mono) simp
  then show ?thesis unfolding steps_left_def by linarith
qed

definition room :: "rat option \<Rightarrow> nat" where
  "room b = (case b of None \<Rightarrow> 2001 | Some q \<Rightarrow> steps_left q)"

definition rooms :: "str set \<Rightarrow> score_map \<Rightarrow> nat" where
  "rooms T best = (\<Sum>t \<in> T. room (map_of best t))"

definition percentages :: "str set \<Rightarrow> score_map \<Rightarrow> bool" where
  "percentages T m \<longleftrightarrow> m \<noteq> [] \<and> distinct (map fst m) \<and> fst ` set m \<subseteq> T
     \<and> (\<forall>(t, s) \<in> set m. 0 \<le> s \<and> s \<le> 100)"

lemma room_joined: "room (joined_score new old) \<le> room old"
  if "new \<noteq> None \<Longrightarrow> 0 \<le> the new"
proof (cases new)
  case (Some s)
  with that have s: "0 \<le> s" by simp
  show ?thesis
  proof (cases old)
    case None
    then show ?thesis using Some steps_left_first [OF s] by (simp add: joined_score_def room_def)
  next
    case (Some b)
    have "\<lfloor>(100 - max s b) * 20\<rfloor> \<le> \<lfloor>(100 - b) * 20\<rfloor>" by (rule floor_mono) simp
    with Some \<open>new = Some s\<close> show ?thesis by (simp add: joined_score_def room_def steps_left_def nat_mono)
  qed
qed (simp add: joined_score_def)

lemma room_improved:
  assumes "improves best t s" and "0 \<le> s" "s \<le> 100"
  shows "room (joined_score (Some s) (map_of best t)) < room (map_of best t)"
proof (cases "map_of best t")
  case None
  then show ?thesis using steps_left_first [OF assms(2)] by (simp add: joined_score_def room_def)
next
  case (Some b)
  with assms have gap: "b + 1 / 20 < s" by (simp add: improves_def improvement_epsilon_def)
  have "(100 - s) * 20 \<le> (100 - b) * 20 - 1" using gap by simp
  then have "\<lfloor>(100 - s) * 20\<rfloor> \<le> \<lfloor>(100 - b) * 20 - 1\<rfloor>" by (rule floor_mono)
  moreover have "0 \<le> \<lfloor>(100 - s) * 20\<rfloor>" using assms by simp
  ultimately have "steps_left s < steps_left b" unfolding steps_left_def by linarith
  moreover have "max s b = s" using gap by (simp add: max_def)
  ultimately show ?thesis using Some by (simp add: joined_score_def room_def)
qed

lemma rooms_step:
  assumes T: "finite T" and m: "percentages T m"
  shows "rooms T (pd_best (decide_repair_progress k m best a cap f)) \<le> rooms T best"
    and "pd_improved (decide_repair_progress k m best a cap f) \<noteq> [] \<Longrightarrow>
      rooms T (pd_best (decide_repair_progress k m best a cap f)) < rooms T best"
proof -
  have d: "distinct (map fst m)" using m by (simp add: percentages_def)
  have range: "map_of m t = Some s \<Longrightarrow> 0 \<le> s \<and> s \<le> 100" for t s
    using m by (auto simp: percentages_def dest!: map_of_SomeD)
  have best: "map_of (pd_best (decide_repair_progress k m best a cap f)) t
      = joined_score (map_of m t) (map_of best t)" for t by (rule decide_fields(1) [OF d])
  have le: "room (joined_score (map_of m t) (map_of best t)) \<le> room (map_of best t)" for t
    by (rule room_joined) (use range in auto)
  show "rooms T (pd_best (decide_repair_progress k m best a cap f)) \<le> rooms T best"
    unfolding rooms_def best by (rule sum_mono) (rule le)
  assume "pd_improved (decide_repair_progress k m best a cap f) \<noteq> []"
  then obtain t s where ts: "(t, s) \<in> set m" "improves best t s"
    by (auto simp: decide_fields(2) [OF d] filter_empty_conv)
  have ms: "map_of m t = Some s" using ts(1) d by simp
  have "t \<in> T" using ts(1) m by (auto simp: percentages_def)
  moreover have "room (joined_score (map_of m t) (map_of best t)) < room (map_of best t)"
    unfolding ms by (rule room_improved [OF ts(2)]) (use range [OF ms] in auto)
  ultimately show "rooms T (pd_best (decide_repair_progress k m best a cap f)) < rooms T best"
    unfolding rooms_def best by (intro sum_strict_mono_ex1 [OF T]) (use le in auto)
qed

lemma granted_rooms:
  assumes "finite T" and "\<forall>m \<in> set ms. percentages T m" and "0 < a" "0 \<le> f" "f \<le> 1"
    and "granted k cap ms best a f"
  shows "int (length ms) \<le> 2 * int (rooms T best) + 1 - f"
  using assms(2-)
proof (induction ms arbitrary: best a f)
  case (Cons m ms)
  let ?dec = "decide_repair_progress k m best a cap f"
  have m: "percentages T m" and d: "distinct (map fst m)" and ne: "m \<noteq> []"
    using Cons.prems(1) by (simp_all add: percentages_def)
  from Cons.prems(5) have g: "pd_repair ?dec" "granted k cap ms (pd_best ?dec) (a + 1) (pd_streak ?dec)"
    by (simp_all add: Let_def)
  show ?case
  proof (cases "pd_improved ?dec = []")
    case False
    then have f: "pd_streak ?dec = 0" using decide_fields(3) [OF d, of k best a cap f] by simp
    have "int (length ms) \<le> 2 * int (rooms T (pd_best ?dec)) + 1 - pd_streak ?dec"
      by (rule Cons.IH [of "a + 1" "pd_streak ?dec" "pd_best ?dec"]) (use Cons.prems g f in auto)
    moreover have "rooms T (pd_best ?dec) < rooms T best" by (rule rooms_step(2) [OF assms(1) m False])
    ultimately show ?thesis using f Cons.prems(4) by simp
  next
    case True
    then have f: "pd_streak ?dec = f + 1"
      using decide_fields(3) [OF d, of k best a cap f] ne Cons.prems(2) by simp
    moreover have "pd_streak ?dec < 2"
      using decide_fields(4) [OF d, of k best a cap f] g(1) ne True by simp
    ultimately have f0: "f = 0" using Cons.prems(3) by simp
    have "int (length ms) \<le> 2 * int (rooms T (pd_best ?dec)) + 1 - pd_streak ?dec"
      by (rule Cons.IH [of "a + 1" "pd_streak ?dec" "pd_best ?dec"]) (use Cons.prems g f f0 in auto)
    moreover have "rooms T (pd_best ?dec) \<le> rooms T best" by (rule rooms_step(1) [OF assms(1) m])
    ultimately show ?thesis using f f0 by simp
  qed
qed (use assms in simp)

lemma granted_cap: "granted k cap ms best a f \<Longrightarrow> (\<forall>m \<in> set ms. distinct (map fst m)) \<Longrightarrow>
    int (length ms) \<le> max 0 (cap - a)"
proof (induction ms arbitrary: best a f)
  case (Cons m ms)
  let ?dec = "decide_repair_progress k m best a cap f"
  have d: "distinct (map fst m)" using Cons.prems(2) by simp
  from Cons.prems(1) have "pd_repair ?dec" "granted k cap ms (pd_best ?dec) (a + 1) (pd_streak ?dec)"
    by (simp_all add: Let_def)
  with Cons.IH [of "pd_best ?dec" "a + 1" "pd_streak ?dec"] Cons.prems(2) decide_fields(4) [OF d, of k best a cap f]
  show ?case by auto
qed simp

text \<open>
  C35: A score-driven repair loop ends without its ceiling: when every measurement has a
  score between 0 and 100 for some of finitely many targets and each is granted a repair
  turn, the number of turns is at most 4002 times the number of targets, and never above the
  ceiling.
\<close>

theorem progress_ends_the_loop:
  assumes "finite T" and "\<forall>m \<in> set ms. percentages T m" and "granted k cap ms [] 0 0"
  shows "int (length ms) \<le> max 0 cap \<and> length ms \<le> 4002 * card T"
proof (cases ms)
  case (Cons m rest)
  let ?dec = "decide_repair_progress k m [] 0 cap 0"
  have m: "percentages T m" and d: "distinct (map fst m)" and ne: "m \<noteq> []"
    using assms(2) Cons by (simp_all add: percentages_def)
  have imp: "pd_improved ?dec \<noteq> []"
    using ne by (simp add: decide_fields(2) [OF d] improves_def case_prod_beta)
  then have f: "pd_streak ?dec = 0" using decide_fields(3) [OF d, of k "[]" 0 cap 0] by simp
  have "granted k cap rest (pd_best ?dec) (0 + 1) (pd_streak ?dec)"
    using assms(3) Cons by (simp add: Let_def)
  then have "int (length rest) \<le> 2 * int (rooms T (pd_best ?dec)) + 1 - 0"
    using granted_rooms [OF assms(1), of rest 1 0 k cap "pd_best ?dec"] assms(2) Cons f by simp
  moreover have "rooms T (pd_best ?dec) < rooms T []" by (rule rooms_step(2) [OF assms(1) m imp])
  moreover have "rooms T [] = 2001 * card T" by (simp add: rooms_def room_def)
  ultimately have "length ms \<le> 4002 * card T" using Cons by simp
  moreover have "int (length ms) \<le> max 0 (cap - 0)"
    by (rule granted_cap [OF assms(3)]) (use assms(2) in \<open>auto simp: percentages_def\<close>)
  ultimately show ?thesis by simp
qed simp

section \<open>The policy on a phase result\<close>

lemma scores_in_score_dict [simp]: "scores_in (score_dict m) = m"
  by (induction m) (auto simp: scores_in_def score_dict_def score_of_def List.map_filter_simps)

lemma get_update_last:
  "map_of (rev e) k = Some v \<Longrightarrow> get (dict_update d e) k = v"
  by (simp add: get_def map_of_dict_update map_add_def)

lemma judged_fields:
  "get (judged_projection feedback state projection history outcome evidence streaks dec scored model) ''phase_outcome''
     = PStr outcome"
  "get (judged_projection feedback state projection history outcome evidence streaks dec scored model) ''evidence''
     = PDict evidence"
  "get (judged_projection feedback state projection history outcome evidence streaks dec scored model)
     ''best_scores_by_phase'' = PDict (merged_best_scores state history (pd_best dec))"
  by (simp_all add: judged_projection_def get_update_last)

lemma map_of_map_snd: "map_of (map (\<lambda>(x, v). (x, f v)) d) k = map_option f (map_of d k)"
  by (induction d) auto

lemma best_scores_merged:
  assumes "get st ''best_scores_by_phase'' = PDict (merged_best_scores state history best)"
  shows "best_scores_for st p = (if p = history then best else best_scores_for state p)"
proof -
  have none: "scores_in PNone = []" by (simp add: scores_in_def)
  have "scores_in (get (map (\<lambda>(name, v). (name, score_dict (scores_in v))) d) p) = scores_in (get d p)" for d
    by (simp add: get_def map_of_map_snd none split: option.split)
  then show ?thesis
    using assms by (auto simp: best_scores_for_def merged_best_scores_def get_dict_set
        none get_def [of "[]"] split: pyval.split)
qed

lemma distinct_scores_in: "distinct (map fst d) \<Longrightarrow> distinct (map fst (scores_in (PDict d)))"
proof -
  have sub: "fst ` set (List.map_filter (\<lambda>(t, x). map_option (Pair t) (score_of x)) d) \<subseteq> fst ` set d" for d
    by (induction d) (auto simp: List.map_filter_simps split: option.splits)
  show "distinct (map fst d) \<Longrightarrow> ?thesis"
  proof (induction d)
    case (Cons p d)
    with sub [of d] show ?case
      by (cases p) (auto simp: scores_in_def List.map_filter_simps split: option.splits)
  qed (simp add: scores_in_def List.map_filter_simps)
qed

text \<open>
  A measurement that asks for repair gets it exactly when attempts remain and a target
  improved by more than the epsilon on its best score, or nothing was measured, or this is
  not yet the second flat round; otherwise it becomes a failure with the reason. The best
  scores of the phase become the pointwise maximum with the new ones and those of other
  phases stay.
\<close>

theorem round_is_judged_on_progress:
  assumes phase: "score_driven_phase phase = Some kind" and res: "get result ''phase_outcome'' = PStr ''repair''"
    and ev: "get result ''evidence'' = PDict evidence" "\<not> truthy (get evidence ''repair_phase'')"
    and scores: "get evidence ''scores_by_target'' = PDict scored" "distinct (map fst scored)"
    and a: "phase_count state ''attempts_by_phase'' (repair_phase_for kind) 0 = Some attempts"
    and c: "phase_count state ''max_attempts_by_phase'' (repair_phase_for kind) default_hard_cap = Some cap"
    and f: "phase_count state ''no_progress_by_phase'' (repair_phase_for kind) 0 = Some flat"
    and m: "main_model state \<noteq> None"
  shows "\<exists>out best. apply_repair_progress shown feedback phase state result = Some out
     \<and> (get out ''phase_outcome'' = PStr ''repair'' \<longleftrightarrow> attempts < cap
          \<and> (scores_in (PDict scored) = [] \<or> flat + (if 0 < attempts then 1 else 0) < 2
             \<or> (\<exists>(t, s) \<in> set (scores_in (PDict scored)). improves (best_scores_for state (repair_phase_for kind)) t s)))
     \<and> (get out ''phase_outcome'' \<noteq> PStr ''repair'' \<longrightarrow> get out ''phase_outcome'' = PStr ''failed''
          \<and> get (as_dict (get out ''evidence'')) ''failure_reason'' = PStr (kind_value kind @
              (if cap \<le> attempts then ''_repair_attempts_exhausted'' else ''_repair_no_progress'')))
     \<and> best_scores_for out (repair_phase_for kind) = best
     \<and> (\<forall>t. map_of best t = joined_score (map_of (scores_in (PDict scored)) t)
          (map_of (best_scores_for state (repair_phase_for kind)) t))
     \<and> (\<forall>p. p \<noteq> repair_phase_for kind \<longrightarrow> best_scores_for out p = best_scores_for state p)"
proof -
  let ?h = "repair_phase_for kind" and ?s = "scores_in (PDict scored)"
  let ?dec = "decide_repair_progress kind ?s (best_scores_for state ?h) attempts cap flat"
  have d: "distinct (map fst ?s)" by (rule distinct_scores_in [OF scores(2)])
  obtain streaks where streaks: "sub_dict state ''no_progress_by_phase'' = Some streaks"
    using f by (auto simp: phase_count_def bind_eq_Some_conv)
  let ?refused = "\<not> pd_repair ?dec" and ?final = "if pd_repair ?dec then ''repair'' else ''failed''"
  have "\<exists>model. (if b then main_model state else Some PNone) = Some model" for b using m by auto
  then obtain model where
    model: "(if ?final = ''repair'' \<and> pd_streak ?dec \<noteq> 0 then main_model state else Some PNone) = Some model"
    by blast
  let ?out = "judged_projection feedback state result ?h ?final
      (judged_evidence evidence attempts cap ?dec ?refused) streaks ?dec (?s \<noteq> []) model"
  have run: "apply_repair_progress shown feedback phase state result = Some ?out"
    using model by (simp add: apply_repair_progress_def kind_of_phase_def phase res ev scores a c f streaks Let_def
        split: if_splits)
  have repair: "pd_repair ?dec \<longleftrightarrow> attempts < cap \<and> (?s = [] \<or> flat + (if 0 < attempts then 1 else 0) < 2
      \<or> (\<exists>(t, s) \<in> set ?s. improves (best_scores_for state ?h) t s))"
  proof -
    have "pd_improved ?dec = [] \<longleftrightarrow> \<not> (\<exists>(t, s) \<in> set ?s. improves (best_scores_for state ?h) t s)"
      by (auto simp: decide_fields(2) [OF d] filter_empty_conv)
    then show ?thesis
      using decide_fields(3,4) [OF d, of kind "best_scores_for state ?h" attempts cap flat] by auto
  qed
  have reason: "\<not> pd_repair ?dec \<Longrightarrow> pd_reason ?dec = kind_value kind @
      (if cap \<le> attempts then ''_repair_attempts_exhausted'' else ''_repair_no_progress'')"
    by (auto simp: decide_repair_progress_def Let_def split: prod.splits if_splits)
  have why: "get (judged_evidence evidence attempts cap ?dec True) ''failure_reason''
      = PStr (pd_reason ?dec)" by (simp add: judged_evidence_def Let_def get_dict_set)
  have best: "best_scores_for ?out p = (if p = ?h then pd_best ?dec else best_scores_for state p)" for p
    by (rule best_scores_merged) (rule judged_fields(3))
  show ?thesis
    by (intro exI [of _ ?out] exI [of _ "pd_best ?dec"] conjI run)
      (auto simp: judged_fields repair [symmetric] why reason best decide_fields(1) [OF d])
qed

theorem progress_ends_the_loop_witness:
  "int (length [[(''A'', 40)], [(''A'', 58::rat)]]) \<le> max 0 6 \<and> length [[(''A'', 40)], [(''A'', 58::rat)]] \<le> 4002 * card {''A''}"
  by (rule progress_ends_the_loop [where k = KCoverage])
    (simp_all add: percentages_def decide_repair_progress_def improvement_epsilon_def)

theorem round_is_judged_on_progress_witness:
  "\<exists>out. apply_repair_progress (\<lambda>v. []) ''retry'' ''measure_coverage''
      [(''attempts_by_phase'', PDict [(''fix_coverage'', PInt 2)]),
       (''no_progress_by_phase'', PDict [(''fix_coverage'', PInt 1)]),
       (''best_scores_by_phase'', PDict [(''fix_coverage'', PDict [(''A'', PFloat 60)])])]
      [(''phase_outcome'', PStr ''repair''), (''evidence'', PDict [(''scores_by_target'', PDict [(''A'', PInt 60)])])]
     = Some out \<and> get out ''phase_outcome'' = PStr ''failed''"
proof -
  let ?st = "[(''attempts_by_phase'', PDict [(''fix_coverage'', PInt 2)]),
       (''no_progress_by_phase'', PDict [(''fix_coverage'', PInt 1)]),
       (''best_scores_by_phase'', PDict [(''fix_coverage'', PDict [(''A'', PFloat 60)])])]"
  have kind: "score_driven_phase ''measure_coverage'' = Some KCoverage"
    by (simp add: score_driven_phase_def score_driven_kinds_def)
  have counts: "phase_count ?st ''attempts_by_phase'' (repair_phase_for KCoverage) 0 = Some 2"
    "phase_count ?st ''max_attempts_by_phase'' (repair_phase_for KCoverage) default_hard_cap = Some 6"
    "phase_count ?st ''no_progress_by_phase'' (repair_phase_for KCoverage) 0 = Some 1" "main_model ?st \<noteq> None"
    by (simp_all add: phase_count_def sub_dict_def get_def has_key_def py_int_def repair_phase_for_def
        default_hard_cap_def main_model_def)
  have best: "best_scores_for ?st (repair_phase_for KCoverage) = [(''A'', 60)]"
    by (simp add: best_scores_for_def scores_in_def get_def repair_phase_for_def score_of_def List.map_filter_simps)
  have s: "scores_in (PDict [(''A'', PInt 60)]) = [(''A'', 60)]"
    by (simp add: scores_in_def score_of_def List.map_filter_simps)
  have no: "\<not> improves [(''A'', 60)] ''A'' 60" by (simp add: improves_def improvement_epsilon_def)
  have "get [(''phase_outcome'', PStr ''repair''), (''evidence'', PDict [(''scores_by_target'', PDict [(''A'', PInt 60)])])]
      ''phase_outcome'' = PStr ''repair''" by (simp add: get_def)
  from round_is_judged_on_progress [OF kind this _ _ _ _ counts, of "[(''scores_by_target'', PDict [(''A'', PInt 60)])]"
      "[(''A'', PInt 60)]" "\<lambda>v. []" "''retry''"] no
  show ?thesis unfolding best s by (simp add: get_def) blast
qed

end
