(* ===== verification/GenerationCycle.thy ===== *)
theory GenerationCycle
  imports RepairProgress
begin

text \<open>
  The generation cycle of one unit: the topology of \<open>testgen/graph/generation-cycle.yaml\<close> and
  the nodes and selectors of \<open>testgen/graph/cycle.py\<close>. The state is a dictionary. The language
  backend, the operation ledger, the prompt store, the agent turn and the merging of a node's
  update into the state, which the graph engine does, are arguments; a port may read and
  write a world and may raise.
\<close>

section \<open>Phases and nodes\<close>

datatype phase = PrecheckTests | PlanTests | GenerateTests | VerifyCompile | FixCompile
  | VerifyTests | FixTests | MeasureCoverage | FixCoverage | MeasureMutation | FixMutation
  | DelegatedVerify | DelegatedGate | ReviewEquivalents | CompleteGeneration

fun phase_label :: "phase \<Rightarrow> str" where
  "phase_label PrecheckTests = ''precheck_existing_tests''"
| "phase_label PlanTests = ''plan_tests''"
| "phase_label GenerateTests = ''generate_tests''"
| "phase_label VerifyCompile = ''verify_compile''"
| "phase_label FixCompile = ''fix_compile''"
| "phase_label VerifyTests = ''verify_tests''"
| "phase_label FixTests = ''fix_tests''"
| "phase_label MeasureCoverage = ''measure_coverage''"
| "phase_label FixCoverage = ''fix_coverage''"
| "phase_label MeasureMutation = ''measure_mutation''"
| "phase_label FixMutation = ''fix_mutation''"
| "phase_label DelegatedVerify = ''delegated_quality_gate_verify''"
| "phase_label DelegatedGate = ''delegated_quality_gate''"
| "phase_label ReviewEquivalents = ''review_equivalent_mutants''"
| "phase_label CompleteGeneration = ''complete_generation''"

text \<open>
  The node of a phase: a deterministic phase has \<open>Reconcile\<close>, \<open>Run\<close> and \<open>Rehydrate\<close>, a model-driven
  one the other seven.
\<close>

datatype part = Reconcile | Run | Rehydrate
  | TurnReconcile | Prompt | Turn | TurnRehydrate | InterpretReconcile | Interpret | ResultRehydrate

datatype node = Node phase part | PauseGeneration | TerminateGeneration | EndNode

definition model_driven :: "phase \<Rightarrow> bool" where
  "model_driven ph = (ph \<in> set [PlanTests, GenerateTests, FixCompile, FixTests, FixCoverage,
     FixMutation, DelegatedGate, ReviewEquivalents])"

text \<open>The first node of a phase.\<close>

definition enter :: "phase \<Rightarrow> node" where
  "enter ph = Node ph (if model_driven ph then TurnReconcile else Reconcile)"

section \<open>Selectors\<close>

definition reconciliation_outcome :: "(pyval \<Rightarrow> str) \<Rightarrow> pydict \<Rightarrow> str" where
  "reconciliation_outcome shown st = text_in shown st ''reconciliation'' ''run''"

definition rehydration_outcome :: "(pyval \<Rightarrow> str) \<Rightarrow> pydict \<Rightarrow> str" where
  "rehydration_outcome shown st = text_in shown st ''rehydration'' ''unavailable''"

definition turn_cancelled :: "(pyval \<Rightarrow> str) \<Rightarrow> pydict \<Rightarrow> bool" where
  "turn_cancelled shown st = (shown_as shown (get st ''turn_status'') = ''cancelled'')"

definition phase_outcome :: "(pyval \<Rightarrow> str) \<Rightarrow> pydict \<Rightarrow> str" where
  "phase_outcome shown st = text_in shown st ''phase_outcome'' ''failed''"

definition resume_phase :: "(pyval \<Rightarrow> str) \<Rightarrow> pydict \<Rightarrow> str" where
  "resume_phase shown st = text_in shown st ''current_phase'' ''complete_generation''"

section \<open>Routes\<close>

text \<open>Where an edit that is already there is verified; the other phases cannot adopt one.\<close>

fun existing_edit :: "phase \<Rightarrow> node" where
  "existing_edit GenerateTests = enter VerifyCompile"
| "existing_edit FixCompile = enter VerifyCompile"
| "existing_edit FixTests = enter VerifyTests"
| "existing_edit FixCoverage = enter VerifyTests"
| "existing_edit FixMutation = enter VerifyTests"
| "existing_edit DelegatedGate = enter VerifyTests"
| "existing_edit _ = TerminateGeneration"

definition may_run :: "str \<Rightarrow> bool" where
  "may_run r = (r = ''run'' \<or> r = ''retry_no_effect'')"

definition may_reuse :: "str \<Rightarrow> bool" where
  "may_reuse r = (r = ''reuse_result'' \<or> r = ''adopt_result'')"

definition reconciled :: "phase \<Rightarrow> part \<Rightarrow> part \<Rightarrow> str \<Rightarrow> node" where
  "reconciled ph run reuse r =
     (if may_run r then Node ph run
      else if may_reuse r then Node ph reuse
      else if r = ''verify_existing_edit'' then existing_edit ph
      else TerminateGeneration)"

definition follow :: "str \<Rightarrow> (str \<times> phase) list \<Rightarrow> node" where
  "follow outcome options = (case map_of options outcome of
     Some ph \<Rightarrow> enter ph | None \<Rightarrow> enter CompleteGeneration)"

text \<open>The branch after the result of a phase; every route not listed leads to completion.\<close>

fun result_routes :: "phase \<Rightarrow> (str \<times> phase) list" where
  "result_routes PrecheckTests = [(''proceed'', PlanTests), (''plan_skipped'', GenerateTests),
     (''existing_repair'', VerifyCompile), (''delegated_repair'', DelegatedVerify)]"
| "result_routes PlanTests = [(''passed'', GenerateTests), (''retry'', PlanTests)]"
| "result_routes GenerateTests = [(''passed'', VerifyCompile), (''retry'', GenerateTests)]"
| "result_routes VerifyCompile = [(''passed'', VerifyTests), (''repair'', FixCompile),
     (''skipped'', VerifyTests)]"
| "result_routes FixCompile = [(''passed'', VerifyCompile), (''retry'', FixCompile)]"
| "result_routes VerifyTests = [(''passed'', MeasureCoverage), (''delegated'', DelegatedVerify),
     (''repair'', FixTests)]"
| "result_routes FixTests = [(''passed'', VerifyTests), (''retry'', FixTests)]"
| "result_routes MeasureCoverage = [(''passed'', MeasureMutation), (''repair'', FixCoverage),
     (''continue'', MeasureMutation), (''skipped'', MeasureMutation)]"
| "result_routes FixCoverage = [(''passed'', VerifyTests), (''retry'', FixCoverage)]"
| "result_routes MeasureMutation = [(''review_equivalence'', ReviewEquivalents),
     (''passed'', DelegatedVerify), (''repair'', FixMutation), (''tests_failed'', FixTests),
     (''skipped'', DelegatedVerify)]"
| "result_routes FixMutation = [(''passed'', VerifyTests), (''retry'', FixMutation)]"
| "result_routes DelegatedVerify = [(''review_equivalence'', ReviewEquivalents),
     (''repair'', DelegatedGate)]"
| "result_routes DelegatedGate = [(''passed'', VerifyTests), (''retry'', DelegatedGate)]"
| "result_routes ReviewEquivalents = []"
| "result_routes CompleteGeneration = []"

definition resumable_phases :: "phase list" where
  "resumable_phases = [PrecheckTests, PlanTests, GenerateTests, VerifyCompile, FixCompile,
     VerifyTests, FixTests, MeasureCoverage, FixCoverage, MeasureMutation, FixMutation,
     DelegatedGate, ReviewEquivalents]"

definition route :: "(pyval \<Rightarrow> str) \<Rightarrow> node \<Rightarrow> pydict \<Rightarrow> node" where
  "route shown n st = (case n of
     Node ph part \<Rightarrow>
       (case part of
          Reconcile \<Rightarrow> reconciled ph Run Rehydrate (reconciliation_outcome shown st)
        | TurnReconcile \<Rightarrow> reconciled ph Prompt TurnRehydrate (reconciliation_outcome shown st)
        | InterpretReconcile \<Rightarrow>
            reconciled ph Interpret ResultRehydrate (reconciliation_outcome shown st)
        | Prompt \<Rightarrow> Node ph Turn
        | Turn \<Rightarrow> if turn_cancelled shown st then PauseGeneration else Node ph InterpretReconcile
        | TurnRehydrate \<Rightarrow> if rehydration_outcome shown st = ''ready'' then Node ph InterpretReconcile
            else enter CompleteGeneration
        | _ \<Rightarrow> if ph = CompleteGeneration then EndNode
            else follow (phase_outcome shown st) (result_routes ph))
   | PauseGeneration \<Rightarrow>
       follow (resume_phase shown st) (map (\<lambda>ph. (phase_label ph, ph)) resumable_phases)
   | TerminateGeneration \<Rightarrow> EndNode
   | EndNode \<Rightarrow> EndNode)"

section \<open>Nodes\<close>

datatype cycle_error = GenerationPaused str | PromptScopeError | PythonError | BackendError str

type_synonym ('w, 'a) cycle_prog = "('w, cycle_error, 'a) prog"

record prompt_scope =
  ps_managed :: bool
  ps_task :: int
  ps_run :: str

record 'w cycle_ports =
  cp_shown :: "pyval \<Rightarrow> str"
  cp_feedback :: str
  cp_merge :: "pydict \<Rightarrow> pydict \<Rightarrow> pydict"
  cp_classify :: "str \<Rightarrow> str \<Rightarrow> pydict \<Rightarrow> ('w, pyval) cycle_prog"
  cp_render :: "str \<Rightarrow> pydict \<Rightarrow> ('w, str) cycle_prog"
  cp_scope :: prompt_scope
  cp_materialize :: "str \<Rightarrow> str \<Rightarrow> str \<Rightarrow> ('w, str \<times> str \<times> str) cycle_prog"
  cp_turn :: "str \<Rightarrow> pydict \<Rightarrow> ('w, pydict) cycle_prog"
  cp_turn_event :: "str \<Rightarrow> pydict \<Rightarrow> pyval \<Rightarrow> ('w, unit) cycle_prog"
  cp_interpret :: "str \<Rightarrow> pydict \<Rightarrow> pyval \<Rightarrow> ('w, pydict) cycle_prog"
  cp_run_phase :: "str \<Rightarrow> pydict \<Rightarrow> ('w, pydict) cycle_prog"
  cp_review :: "str \<Rightarrow> pydict \<Rightarrow> pydict \<Rightarrow> ('w, pydict) cycle_prog"
  cp_record :: "str \<Rightarrow> str \<Rightarrow> pydict \<Rightarrow> pydict \<Rightarrow> ('w, pydict) cycle_prog"
  cp_rehydrate :: "str \<Rightarrow> str \<Rightarrow> pydict \<Rightarrow> ('w, pydict) cycle_prog"
  cp_cancelled :: "('w \<Rightarrow> bool) option"

definition or_python_error :: "'a option \<Rightarrow> ('w, 'a) cycle_prog" where
  "or_python_error x = (case x of None \<Rightarrow> raise PythonError | Some v \<Rightarrow> ret v)"

text \<open>
  A decision is a dictionary with its evidence, or only the label. The node adds the label
  and the phase to the evidence.
\<close>

fun decision_outcome :: "(pyval \<Rightarrow> str) \<Rightarrow> pyval \<Rightarrow> str" where
  "decision_outcome shown (PDict d) = text_in shown d ''outcome'' ''fail_indeterminate''"
| "decision_outcome shown v = shown_as shown v"

fun decision_evidence :: "pyval \<Rightarrow> pydict" where
  "decision_evidence (PDict d) = filter (\<lambda>(k, _). k \<noteq> ''outcome'') d"
| "decision_evidence _ = []"

definition reconcile_node :: "'w cycle_ports \<Rightarrow> str \<Rightarrow> str \<Rightarrow> pydict \<Rightarrow> ('w, pydict) cycle_prog" where
  "reconcile_node p phase step st = seq (cp_classify p phase step st) (\<lambda>decision.
     ret (dict_update (decision_evidence decision)
       [(''reconciliation'', PStr (decision_outcome (cp_shown p) decision)),
        (''current_phase'', PStr phase)]))"

text \<open>
  The task of the state must be the task of the prompt scope. The metadata written beside the
  prompt is not modelled.
\<close>

definition prompt_node :: "'w cycle_ports \<Rightarrow> str \<Rightarrow> pydict \<Rightarrow> ('w, pydict) cycle_prog" where
  "prompt_node p phase st = seq (cp_render p phase st) (\<lambda>body.
     seq (or_python_error (py_int (get st ''task_id''))) (\<lambda>task.
     (let run = shown_as (cp_shown p) (get st ''workflow_run_id'');
          unit_id = shown_as (cp_shown p) (get st ''unit_id'');
          operation = shown_as (cp_shown p) (get st ''operation_id'');
          feedback = get st ''repair_feedback'';
          text = (if truthy feedback
            then body @ [newline, newline] @ ''Corrective repair feedback:'' @ [newline]
              @ shown_as (cp_shown p) feedback
            else body) in
      if \<not> ps_managed (cp_scope p) \<or> ps_task (cp_scope p) \<noteq> task \<or> ps_run (cp_scope p) \<noteq> run
      then raise PromptScopeError
      else seq (cp_materialize p unit_id operation text) (\<lambda>(prompt, inputs, manifest).
        ret [(''prompt_file'', PStr prompt), (''prompt_inputs_file'', PStr inputs),
             (''prompt_manifest_file'', PStr manifest), (''current_phase'', PStr phase)]))))"

text \<open>\<open>history.append({"phase": phase, **dict(turn)})\<close> when the turn is a dictionary.\<close>

definition turn_history :: "str \<Rightarrow> pydict \<Rightarrow> pyval list option" where
  "turn_history phase st = map_option (\<lambda>history. case get st ''turn_result'' of
       PDict turn \<Rightarrow> history @ [PDict (dict_update [(''phase'', PStr phase)] turn)]
     | _ \<Rightarrow> history) (state_list st ''turn_history'')"

definition interpret_node :: "'w cycle_ports \<Rightarrow> str \<Rightarrow> pydict \<Rightarrow> ('w, pydict) cycle_prog" where
  "interpret_node p phase st =
     (let turn = get st ''turn_result'' in
      andthen (cp_turn_event p phase st turn)
     (seq (cp_interpret p phase st turn) (\<lambda>result.
      seq (or_python_error (turn_history phase st)) (\<lambda>history.
      seq (cp_record p phase ''interpret'' st (dict_set ''turn_history'' (PList history) result)) (\<lambda>projection.
      seq (or_python_error (sub_dict st ''phase_results'')) (\<lambda>results.
        ret (dict_update projection
          [(''phase_results'', PDict (dict_set phase
              (PDict (filter (\<lambda>(k, _). k \<noteq> ''turn_history'') projection)) results)),
           (''turn_history'', PList history), (''current_phase'', PStr phase)])))))))"

definition operation_node :: "'w cycle_ports \<Rightarrow> str \<Rightarrow> pydict \<Rightarrow> ('w, pydict) cycle_prog" where
  "operation_node p phase st =
     seq (cp_run_phase p phase st) (\<lambda>result.
     seq (or_python_error (apply_repair_progress (cp_shown p) (cp_feedback p) phase st result)) (\<lambda>judged.
     seq (cp_review p phase st judged) (\<lambda>reviewed.
     seq (cp_record p phase ''deterministic'' st reviewed) (\<lambda>projection.
     seq (or_python_error (sub_dict st ''phase_results'')) (\<lambda>results.
       ret (dict_update projection
         [(''phase_results'', PDict (dict_set phase (PDict projection) results)),
          (''current_phase'', PStr phase)]))))))"

definition rehydrate_node :: "'w cycle_ports \<Rightarrow> str \<Rightarrow> str \<Rightarrow> pydict \<Rightarrow> ('w, pydict) cycle_prog" where
  "rehydrate_node p phase step st = seq (cp_rehydrate p phase step st) (\<lambda>restored.
     ret (dict_set ''current_phase'' (PStr phase) restored))"

definition pause_node :: "'w cycle_ports \<Rightarrow> pydict \<Rightarrow> ('w, pydict) cycle_prog" where
  "pause_node p st =
     (let phase = text_in (cp_shown p) st ''current_phase'' ''generation'' in
      seq (reads (\<lambda>w. case cp_cancelled p of None \<Rightarrow> True | Some c \<Rightarrow> c w)) (\<lambda>stop.
        if stop then raise (GenerationPaused phase) else ret [(''current_phase'', PStr phase)]))"

definition terminate_node :: "'w cycle_ports \<Rightarrow> pydict \<Rightarrow> ('w, pydict) cycle_prog" where
  "terminate_node p st =
     (let reason = text_in (cp_shown p) st ''reconciliation'' ''unknown_generation_outcome'' in
      ret [(''phase_outcome'', PStr ''failed''), (''terminal_reason'', PStr reason),
           (''error'', PStr (text_in (cp_shown p) st ''error'' (''generation stopped: '' @ reason))),
           (''stopped_early'', PBool True)])"

definition run_node :: "'w cycle_ports \<Rightarrow> node \<Rightarrow> pydict \<Rightarrow> ('w, pydict) cycle_prog" where
  "run_node p n st = (case n of
     Node ph part \<Rightarrow>
       (case part of
          Reconcile \<Rightarrow> reconcile_node p (phase_label ph) ''deterministic'' st
        | Run \<Rightarrow> operation_node p (phase_label ph) st
        | Rehydrate \<Rightarrow> rehydrate_node p (phase_label ph) ''deterministic'' st
        | TurnReconcile \<Rightarrow> reconcile_node p (phase_label ph) ''turn'' st
        | Prompt \<Rightarrow> prompt_node p (phase_label ph) st
        | Turn \<Rightarrow> cp_turn p (phase_label ph) st
        | TurnRehydrate \<Rightarrow> rehydrate_node p (phase_label ph) ''turn'' st
        | InterpretReconcile \<Rightarrow> reconcile_node p (phase_label ph) ''interpret'' st
        | Interpret \<Rightarrow> interpret_node p (phase_label ph) st
        | ResultRehydrate \<Rightarrow> rehydrate_node p (phase_label ph) ''interpret'' st)
   | PauseGeneration \<Rightarrow> pause_node p st
   | TerminateGeneration \<Rightarrow> terminate_node p st
   | EndNode \<Rightarrow> ret [])"

section \<open>A run of the cycle\<close>

type_synonym 'w cycle_config = "node \<times> pydict \<times> 'w"

inductive cycle_step :: "'w cycle_ports \<Rightarrow> 'w cycle_config \<Rightarrow> 'w cycle_config \<Rightarrow> bool" for p where
  cycle_stepI: "n \<noteq> EndNode \<Longrightarrow> run_node p n st w = (Inr u, w') \<Longrightarrow> st' = cp_merge p st u
    \<Longrightarrow> n' = route (cp_shown p) n st' \<Longrightarrow> cycle_step p (n, st, w) (n', st', w')"

inductive_cases cycle_stepE: "cycle_step p (n, st, w) c"

text \<open>A run of \<open>k\<close> steps.\<close>

fun cycle_steps :: "'w cycle_ports \<Rightarrow> nat \<Rightarrow> 'w cycle_config \<Rightarrow> 'w cycle_config \<Rightarrow> bool" where
  "cycle_steps p 0 c c' = (c' = c)"
| "cycle_steps p (Suc k) c c' = (\<exists>c1. cycle_step p c c1 \<and> cycle_steps p k c1 c')"

definition cycle_start :: "pydict \<Rightarrow> 'w \<Rightarrow> 'w cycle_config" where
  "cycle_start st w = (enter PrecheckTests, st, w)"

end
