(* ===== verification/DictFacts.thy ===== *)
theory DictFacts
  imports PyValue
begin

text \<open>How reading a dictionary evaluates, for literal dictionaries and after assignments.\<close>

lemma get_dict_update: "get (dict_update d e) k
    = (case map_of (rev e) k of None \<Rightarrow> get d k | Some v \<Rightarrow> v)"
  by (simp add: get_def map_of_dict_update map_add_def split: option.split)

lemma has_key_map_of: "has_key d k \<longleftrightarrow> map_of d k \<noteq> None"
  by (simp add: has_key_def map_of_eq_None_iff)

lemma has_key_update: "has_key (dict_update d e) k \<longleftrightarrow> has_key d k \<or> has_key e k"
  by (simp add: has_key_map_of map_of_dict_update map_of_eq_None_iff del: not_None_eq) blast

lemma has_key_set [simp]: "has_key (dict_set k' v d) k \<longleftrightarrow> k = k' \<or> has_key d k"
  by (auto simp: has_key_map_of map_of_dict_set)

lemma has_key_Nil [simp]: "\<not> has_key [] k"
  by (simp add: has_key_def)

lemma has_key_Cons [simp]: "has_key ((k', v) # d) k \<longleftrightarrow> k = k' \<or> has_key d k"
  by (auto simp: has_key_def)

lemma get_Nil [simp]: "get [] k = PNone"
  by (simp add: get_def)

lemma get_Cons [simp]: "get ((k', v) # d) k = (if k = k' then v else get d k)"
  by (simp add: get_def)

lemma get_has_key: "get d k \<noteq> PNone \<Longrightarrow> has_key d k"
  by (auto simp: get_def has_key_map_of split: option.splits)

end
