(* ===== verification/CycleBounds.thy ===== *)
theory CycleBounds
  imports GenerationCycle DictFacts
begin

text \<open>
  Why a unit's cycle ends: what it needs of a language backend is the interface
  \<open>repairing_backend\<close>; the measure combines the remaining attempts of the model-driven phases
  with the position in the topology.
\<close>

section \<open>Remaining attempts\<close>

definition budgeted :: "phase list" where
  "budgeted = [PlanTests, GenerateTests, FixCompile, FixTests, FixCoverage, FixMutation, DelegatedGate]"

text \<open>The maximum a phase assumes when the state names none.\<close>

fun assumed_maximum :: "phase \<Rightarrow> int" where
  "assumed_maximum PlanTests = 1"
| "assumed_maximum GenerateTests = 1"
| "assumed_maximum FixCompile = 3"
| "assumed_maximum FixTests = 3"
| "assumed_maximum _ = 6"

definition left :: "phase \<Rightarrow> pydict \<Rightarrow> nat" where
  "left ph st = (case (phase_count st ''attempts_by_phase'' (phase_label ph) 0,
       phase_count st ''max_attempts_by_phase'' (phase_label ph) (assumed_maximum ph)) of
     (Some a, Some m) \<Rightarrow> nat (m - a) | _ \<Rightarrow> 0)"

definition attempts_left :: "pydict \<Rightarrow> nat" where
  "attempts_left st = sum_list (map (\<lambda>ph. left ph st) budgeted)"

definition is_fix :: "phase \<Rightarrow> bool" where
  "is_fix ph = (ph \<in> set [FixCompile, FixTests, FixCoverage, FixMutation, DelegatedGate])"

text \<open>The repair phase a verification asks for.\<close>

fun repair_of :: "phase \<Rightarrow> phase option" where
  "repair_of VerifyCompile = Some FixCompile"
| "repair_of VerifyTests = Some FixTests"
| "repair_of MeasureCoverage = Some FixCoverage"
| "repair_of MeasureMutation = Some FixMutation"
| "repair_of DelegatedVerify = Some DelegatedGate"
| "repair_of _ = None"

definition keeps_counters :: "pydict \<Rightarrow> bool" where
  "keeps_counters r = (\<not> has_key r ''attempts_by_phase'' \<and> \<not> has_key r ''max_attempts_by_phase'')"

text \<open>The state after an update, as far as the counters go.\<close>

definition same_counters :: "pydict \<Rightarrow> pydict \<Rightarrow> bool" where
  "same_counters st st' = (get st' ''attempts_by_phase'' = get st ''attempts_by_phase''
     \<and> get st' ''max_attempts_by_phase'' = get st ''max_attempts_by_phase'')"

lemma left_same: "same_counters st st' \<Longrightarrow> left ph st' = left ph st"
  by (simp add: left_def phase_count_def sub_dict_def same_counters_def)

lemma attempts_left_same: "same_counters st st' \<Longrightarrow> attempts_left st' = attempts_left st"
  by (simp add: attempts_left_def left_same)

section \<open>What the cycle needs of a backend\<close>

locale repairing_backend =
  fixes shown :: "pyval \<Rightarrow> str" and feedback :: str
    and run :: "str \<Rightarrow> pydict \<Rightarrow> ('w, pydict) cycle_prog"
    and interp :: "str \<Rightarrow> pydict \<Rightarrow> pyval \<Rightarrow> ('w, pydict) cycle_prog"
  assumes run_outcome: "run (phase_label ph) st w = (Inr r, w') \<Longrightarrow> ph \<noteq> CompleteGeneration
      \<Longrightarrow> keeps_counters r \<and> (\<exists>s. get r ''phase_outcome'' = PStr s)"
    and repair_affordable: "run (phase_label ph) st w = (Inr r, w')
      \<Longrightarrow> apply_repair_progress shown feedback (phase_label ph) st r = Some j
      \<Longrightarrow> get j ''phase_outcome'' = PStr ''repair'' \<Longrightarrow> repair_of ph = Some fix_phase
      \<Longrightarrow> 0 < left fix_phase st"
    and interp_outcome: "interp (phase_label ph) st turn w = (Inr r, w') \<Longrightarrow> ph \<in> set budgeted
      \<Longrightarrow> \<not> has_key r ''max_attempts_by_phase'' \<and> (\<exists>s. get r ''phase_outcome'' = PStr s)"
    and interp_spends: "interp (phase_label ph) st turn w = (Inr r, w') \<Longrightarrow> ph \<in> set budgeted
      \<Longrightarrow> get st' ''max_attempts_by_phase'' = get st ''max_attempts_by_phase''
      \<Longrightarrow> get st' ''attempts_by_phase'' = (if has_key r ''attempts_by_phase''
            then get r ''attempts_by_phase'' else get st ''attempts_by_phase'')
      \<Longrightarrow> attempts_left st' \<le> attempts_left st
        \<and> (is_fix ph \<longrightarrow> get r ''phase_outcome'' \<noteq> PStr ''retry''
             \<and> (0 < left ph st \<longrightarrow> attempts_left st' < attempts_left st))
        \<and> (get r ''phase_outcome'' = PStr ''retry'' \<longrightarrow> attempts_left st' < attempts_left st)"

section \<open>An uninterrupted unit\<close>

text \<open>
  Updates are merged key by key (the graph engine's last-value channels), no operation of the
  unit was started before, a pause stops the run, recording a result keeps its outcome and its
  counters, and the review of equivalent mutants decides no counter.
\<close>

definition fresh_decision :: "str \<Rightarrow> bool" where
  "fresh_decision s = (s \<notin> set [''reuse_result'', ''adopt_result'', ''verify_existing_edit''])"

definition counter_keys :: "str list" where
  "counter_keys = [''attempts_by_phase'', ''max_attempts_by_phase'']"

definition last_value_merge :: "'w cycle_ports \<Rightarrow> bool" where
  "last_value_merge p \<longleftrightarrow>
     (\<forall>st u k. get (cp_merge p st u) k = (if has_key u k then get u k else get st k))"

definition fresh_ledger :: "'w cycle_ports \<Rightarrow> bool" where
  "fresh_ledger p \<longleftrightarrow> (\<forall>ph step st w v w'. cp_classify p ph step st w = (Inr v, w')
     \<longrightarrow> fresh_decision (decision_outcome (cp_shown p) v) \<and> keeps_counters (decision_evidence v))"

definition same_at_counters :: "pydict \<Rightarrow> pydict \<Rightarrow> bool" where
  "same_at_counters r r' \<longleftrightarrow> (\<forall>k \<in> set counter_keys. has_key r' k = has_key r k \<and> get r' k = get r k)"

definition record_keeps :: "'w cycle_ports \<Rightarrow> bool" where
  "record_keeps p \<longleftrightarrow> (\<forall>ph step st r w r' w'. cp_record p ph step st r w = (Inr r', w')
     \<longrightarrow> get r' ''phase_outcome'' = get r ''phase_outcome'' \<and> same_at_counters r r')"

definition review_keeps :: "'w cycle_ports \<Rightarrow> bool" where
  "review_keeps p \<longleftrightarrow> (\<forall>ph st r w r' w'. cp_review p ph st r w = (Inr r', w')
     \<longrightarrow> (get r' ''phase_outcome'' = get r ''phase_outcome''
          \<or> get r' ''phase_outcome'' = PStr ''review_equivalence'') \<and> same_at_counters r r')"

definition turns_keep :: "'w cycle_ports \<Rightarrow> bool" where
  "turns_keep p \<longleftrightarrow> (\<forall>ph st w u w'. cp_turn p ph st w = (Inr u, w') \<longrightarrow> keeps_counters u)
     \<and> (\<forall>st turn w r w'. cp_interpret p (phase_label ReviewEquivalents) st turn w = (Inr r, w')
          \<longrightarrow> keeps_counters r)"

definition uninterrupted :: "'w cycle_ports \<Rightarrow> bool" where
  "uninterrupted p \<longleftrightarrow> last_value_merge p \<and> fresh_ledger p \<and> turns_keep p \<and> record_keeps p
     \<and> review_keeps p \<and> cp_cancelled p = None"

text \<open>The mutation tool never finds the suite red: no way back from mutation to test repair.\<close>

definition green_suite :: "'w cycle_ports \<Rightarrow> bool" where
  "green_suite p \<longleftrightarrow> (\<forall>st w r w'. cp_run_phase p ''measure_mutation'' st w = (Inr r, w')
     \<longrightarrow> get r ''phase_outcome'' \<noteq> PStr ''tests_failed'')"

section \<open>The measure\<close>

fun base_rank :: "phase \<Rightarrow> nat" where
  "base_rank CompleteGeneration = 1"
| "base_rank ReviewEquivalents = 3"
| "base_rank DelegatedVerify = 13"
| "base_rank MeasureMutation = 15"
| "base_rank MeasureCoverage = 17"
| "base_rank VerifyTests = 19"
| "base_rank VerifyCompile = 21"
| "base_rank GenerateTests = 23"
| "base_rank PlanTests = 28"
| "base_rank PrecheckTests = 33"
| "base_rank _ = 8"

fun part_rank :: "part \<Rightarrow> nat" where
  "part_rank Reconcile = 1"
| "part_rank Run = 0"
| "part_rank Rehydrate = 0"
| "part_rank TurnReconcile = 4"
| "part_rank Prompt = 3"
| "part_rank Turn = 2"
| "part_rank TurnRehydrate = 2"
| "part_rank InterpretReconcile = 1"
| "part_rank Interpret = 0"
| "part_rank ResultRehydrate = 0"

fun node_rank :: "node \<Rightarrow> nat" where
  "node_rank (Node ph part) = base_rank ph + part_rank part"
| "node_rank PauseGeneration = 1"
| "node_rank TerminateGeneration = 1"
| "node_rank EndNode = 0"

definition work_left :: "node \<Rightarrow> pydict \<Rightarrow> nat" where
  "work_left n st = (if n = EndNode then 0 else 15 * attempts_left st + node_rank n)"

text \<open>A node has the parts of its kind of phase, and a repair is only entered with attempts left.\<close>

fun on_track :: "node \<Rightarrow> pydict \<Rightarrow> bool" where
  "on_track (Node ph part) st \<longleftrightarrow>
     (if model_driven ph then part \<in> set [TurnReconcile, Prompt, Turn, InterpretReconcile, Interpret]
      else part = Reconcile \<or> part = Run) \<and> (is_fix ph \<longrightarrow> 0 < left ph st)"
| "on_track n st \<longleftrightarrow> True"

section \<open>One step\<close>

lemma uninterrupted_classify:
  "uninterrupted p \<Longrightarrow> cp_classify p ph step st w = (Inr v, w') \<Longrightarrow>
    fresh_decision (decision_outcome (cp_shown p) v) \<and> keeps_counters (decision_evidence v)"
  unfolding uninterrupted_def fresh_ledger_def by (elim conjE) blast

lemma merged_get: "uninterrupted p \<Longrightarrow>
    get (cp_merge p st u) k = (if has_key u k then get u k else get st k)"
  by (simp add: uninterrupted_def last_value_merge_def)

lemma merged_same: "uninterrupted p \<Longrightarrow> keeps_counters u \<Longrightarrow> same_counters st (cp_merge p st u)"
  by (simp add: same_counters_def merged_get keeps_counters_def)

lemma reconciled_fresh:
  "fresh_decision r \<Longrightarrow> reconciled ph run reuse r \<in> {Node ph run, TerminateGeneration}"
  by (auto simp: reconciled_def fresh_decision_def may_reuse_def)

lemma text_in_PStr: "get st k = PStr s \<Longrightarrow> text_in shown st k missing = (if s = [] then missing else s)"
  by (simp add: text_in_def shown_as_def)

lemma reconcile_node_run:
  assumes "uninterrupted p" "reconcile_node p ph step st w = (Inr u, w')"
  shows "keeps_counters u \<and> fresh_decision (reconciliation_outcome (cp_shown p) (cp_merge p st u))"
proof -
  from assms(2) obtain v where v: "cp_classify p ph step st w = (Inr v, w')"
    and u: "u = dict_update (decision_evidence v)
       [(''reconciliation'', PStr (decision_outcome (cp_shown p) v)), (''current_phase'', PStr ph)]"
    by (auto simp: reconcile_node_def res_simps)
  from assms(1) v have f: "fresh_decision (decision_outcome (cp_shown p) v)"
    and k: "keeps_counters (decision_evidence v)"
    by (simp_all add: uninterrupted_classify)
  have g: "get (cp_merge p st u) ''reconciliation'' = PStr (decision_outcome (cp_shown p) v)"
    using assms(1) by (simp add: merged_get u get_dict_update has_key_update)
  have "fresh_decision (reconciliation_outcome (cp_shown p) (cp_merge p st u))"
    using f unfolding reconciliation_outcome_def text_in_PStr [OF g]
    by (auto simp: fresh_decision_def)
  moreover have "keeps_counters u"
    using k by (simp add: u keeps_counters_def has_key_update)
  ultimately show ?thesis by simp
qed

lemma prompt_node_run: "prompt_node p ph st w = (Inr u, w') \<Longrightarrow> keeps_counters u"
  by (auto simp: prompt_node_def res_simps or_python_error_def keeps_counters_def Let_def
      split: option.splits if_splits prod.splits)

lemma pause_node_run: "uninterrupted p \<Longrightarrow> pause_node p st w \<noteq> (Inr u, w')"
  by (simp add: pause_node_def uninterrupted_def res_simps Let_def)

lemma terminate_node_run: "terminate_node p st w = (Inr u, w') \<Longrightarrow> keeps_counters u"
  by (auto simp: terminate_node_def res_simps keeps_counters_def Let_def)

lemma turn_run: "uninterrupted p \<Longrightarrow> cp_turn p ph st w = (Inr u, w') \<Longrightarrow> keeps_counters u"
  unfolding uninterrupted_def turns_keep_def by (elim conjE) blast

lemma record_run: "uninterrupted p \<Longrightarrow> cp_record p ph step st r w = (Inr r', w') \<Longrightarrow>
    get r' ''phase_outcome'' = get r ''phase_outcome''
    \<and> same_at_counters r r'"
  unfolding uninterrupted_def record_keeps_def by (elim conjE) blast

lemma review_run: "uninterrupted p \<Longrightarrow> cp_review p ph st r w = (Inr r', w') \<Longrightarrow>
    (get r' ''phase_outcome'' = get r ''phase_outcome''
       \<or> get r' ''phase_outcome'' = PStr ''review_equivalence'')
    \<and> same_at_counters r r'"
  unfolding uninterrupted_def review_keeps_def by (elim conjE) blast

lemma or_python_run: "or_python_error x w = (Inr y, w') \<longleftrightarrow> x = Some y \<and> w' = w"
  by (cases x) (auto simp: or_python_error_def res_simps)

text \<open>What a deterministic phase and an interpretation leave in the update.\<close>

lemma operation_node_run:
  assumes "uninterrupted p" "operation_node p ph st w = (Inr u, w')"
  obtains r w1 j where "cp_run_phase p ph st w = (Inr r, w1)"
    "apply_repair_progress (cp_shown p) (cp_feedback p) ph st r = Some j"
    "get u ''phase_outcome'' = get j ''phase_outcome''
      \<or> get u ''phase_outcome'' = PStr ''review_equivalence''"
    "same_at_counters j u"
proof -
  from assms(2) obtain r w1 j reviewed w2 projection w3 results where
    r: "cp_run_phase p ph st w = (Inr r, w1)"
    and j: "apply_repair_progress (cp_shown p) (cp_feedback p) ph st r = Some j"
    and v: "cp_review p ph st j w1 = (Inr reviewed, w2)"
    and q: "cp_record p ph ''deterministic'' st reviewed w2 = (Inr projection, w3)"
    and u: "u = dict_update projection
      [(''phase_results'', PDict (dict_set ph (PDict projection) results)), (''current_phase'', PStr ph)]"
    by (auto simp: operation_node_def res_simps or_python_run)
  have "get u ''phase_outcome'' = get projection ''phase_outcome''"
    "same_at_counters projection u"
    by (auto simp: u get_dict_update has_key_update counter_keys_def same_at_counters_def)
  with that [OF r j] review_run [OF assms(1) v] record_run [OF assms(1) q] show thesis
    by (simp add: same_at_counters_def)
qed

lemma interpret_node_run:
  assumes "uninterrupted p" "interpret_node p ph st w = (Inr u, w')"
  obtains r w1 w2 where "cp_interpret p ph st (get st ''turn_result'') w1 = (Inr r, w2)"
    "get u ''phase_outcome'' = get r ''phase_outcome''"
    "same_at_counters r u"
proof -
  from assms(2) obtain r w1 w2 history projection w3 results where
    r: "cp_interpret p ph st (get st ''turn_result'') w1 = (Inr r, w2)"
    and q: "cp_record p ph ''interpret'' st (dict_set ''turn_history'' (PList history) r) w2
        = (Inr projection, w3)"
    and u: "u = dict_update projection
          [(''phase_results'', PDict (dict_set ph
              (PDict (filter (\<lambda>(k, _). k \<noteq> ''turn_history'') projection)) results)),
           (''turn_history'', PList history), (''current_phase'', PStr ph)]"
    by (auto simp: interpret_node_def res_simps or_python_run Let_def)
  have "get u ''phase_outcome'' = get projection ''phase_outcome''"
    "same_at_counters projection u"
    by (auto simp: u get_dict_update has_key_update counter_keys_def same_at_counters_def)
  with record_run [OF assms(1) q] have "get u ''phase_outcome'' = get r ''phase_outcome''"
    "same_at_counters r u"
    by (simp_all add: same_at_counters_def counter_keys_def get_dict_set)
  with that [OF r] show thesis .
qed

text \<open>The cycle runs on this backend.\<close>

definition driven_by :: "'w cycle_ports \<Rightarrow> (pyval \<Rightarrow> str) \<Rightarrow> str
    \<Rightarrow> (str \<Rightarrow> pydict \<Rightarrow> ('w, pydict) cycle_prog)
    \<Rightarrow> (str \<Rightarrow> pydict \<Rightarrow> pyval \<Rightarrow> ('w, pydict) cycle_prog) \<Rightarrow> bool" where
  "driven_by p shown feedback run interp \<longleftrightarrow> cp_shown p = shown \<and> cp_feedback p = feedback
     \<and> (\<forall>ph. cp_run_phase p (phase_label ph) = run (phase_label ph))
     \<and> (\<forall>ph \<in> set budgeted. cp_interpret p (phase_label ph) = interp (phase_label ph))"

lemma on_track_same: "same_counters st st' \<Longrightarrow> on_track n st' = on_track n st"
  by (cases n) (simp_all add: left_same)

lemma reconcile_step:
  assumes "uninterrupted p" "reconcile_node p (phase_label ph) step st w = (Inr u, w')"
    "on_track (Node ph part) st" "st' = cp_merge p st u"
    "n' = reconciled ph next reuse (reconciliation_outcome (cp_shown p) st')"
    "part_rank next < part_rank part" "part_rank part < 5"
    "on_track (Node ph next) st"
  shows "on_track n' st' \<and> work_left n' st' < work_left (Node ph part) st"
proof -
  note run = reconcile_node_run [OF assms(1,2)]
  have same: "same_counters st st'"
    using run assms(1,4) by (simp add: merged_same)
  have "n' \<in> {Node ph next, TerminateGeneration}"
    unfolding assms(5) by (rule reconciled_fresh) (use run assms(4) in simp)
  then show ?thesis
  proof
    assume n: "n' = Node ph next"
    with assms(8) same have "on_track n' st'" by (simp only: on_track_same)
    with n assms(6) show ?thesis
      by (simp add: work_left_def attempts_left_same [OF same] del: on_track.simps)
  next
    assume "n' \<in> {TerminateGeneration}"
    moreover have "1 < base_rank ph + part_rank part"
      using assms(6) by (cases ph) auto
    ultimately show ?thesis by (simp add: work_left_def attempts_left_same [OF same])
  qed
qed

lemma same_at_keeps: "same_at_counters r u \<Longrightarrow> keeps_counters r \<Longrightarrow> keeps_counters u"
  by (simp add: same_at_counters_def counter_keys_def keeps_counters_def)

text \<open>What the policy does to an outcome: it keeps it, or refuses a repair.\<close>

lemma judged_keeps:
  assumes "apply_repair_progress shown feedback phase st r = Some j"
    and "keeps_counters r" "get r ''phase_outcome'' = PStr s"
  shows "keeps_counters j \<and> (get j ''phase_outcome'' = PStr s \<or> get j ''phase_outcome'' = PStr ''failed'')"
proof -
  have proj: "get (judged_projection feedback st r h x ev ks d b m) ''phase_outcome'' = PStr x"
    "keeps_counters (judged_projection feedback st r h x ev ks d b m)" for h x ev ks d b m
    using assms(2) by (simp_all add: judged_projection_def get_dict_update has_key_update keeps_counters_def)
  show ?thesis
  proof (cases "j = r")
    case True
    with assms show ?thesis by simp
  next
    case False
    with assms(1) obtain h ev ks d b m x where
      "j = judged_projection feedback st r h x ev ks d b m"
      "x = ''failed'' \<or> PStr x = get r ''phase_outcome''"
      unfolding apply_repair_progress_def Let_def
      by (fastforce split: option.splits if_splits simp: bind_eq_Some_conv)
    with proj assms(3) show ?thesis by auto
  qed
qed

definition outcome_node :: "phase \<Rightarrow> str \<Rightarrow> node" where
  "outcome_node ph s = (if ph = CompleteGeneration then EndNode else follow s (result_routes ph))"

lemma outcome_node_cases:
  assumes "ph \<noteq> CompleteGeneration"
  obtains ph' where "outcome_node ph s = enter ph'"
    "ph' = CompleteGeneration \<or> (s, ph') \<in> set (result_routes ph)"
  using assms that unfolding outcome_node_def follow_def
  by (cases "map_of (result_routes ph) s") (auto dest: map_of_SomeD)

lemma node_rank_enter: "node_rank (enter ph) = base_rank ph + (if model_driven ph then 4 else 1)"
  by (simp add: enter_def)

lemma on_track_enter: "on_track (enter ph) st \<longleftrightarrow> (is_fix ph \<longrightarrow> 0 < left ph st)"
  by (simp add: enter_def)

lemmas phase_kinds = model_driven_def is_fix_def budgeted_def

text \<open>Where the results of the deterministic phases lead.\<close>

lemma deterministic_routes:
  assumes "\<not> model_driven ph" "ph = MeasureMutation \<Longrightarrow> s \<noteq> ''tests_failed''"
    and "\<And>f. s = ''repair'' \<Longrightarrow> repair_of ph = Some f \<Longrightarrow> 0 < left f st"
  shows "node_rank (outcome_node ph s) < base_rank ph \<and> on_track (outcome_node ph s) st"
proof (cases "ph = CompleteGeneration")
  case True
  then show ?thesis by (simp add: outcome_node_def)
next
  case False
  then obtain ph' where n: "outcome_node ph s = enter ph'"
    and r: "ph' = CompleteGeneration \<or> (s, ph') \<in> set (result_routes ph)"
    by (rule outcome_node_cases)
  have "base_rank ph' + (if model_driven ph' then 4 else 1) < base_rank ph"
    using assms(1,2) False r by (cases ph) (auto simp: phase_kinds)
  moreover have "0 < left ph' st" if "is_fix ph'"
  proof -
    have "s = ''repair'' \<and> repair_of ph = Some ph'"
      using that assms(1,2) False r by (cases ph) (auto simp: phase_kinds)
    with assms(3) show ?thesis by simp
  qed
  ultimately show ?thesis by (simp add: n node_rank_enter on_track_enter)
qed

lemma model_routes:
  assumes "ph \<in> set budgeted"
  shows "node_rank (outcome_node ph s)
      < (if s = ''retry'' \<or> is_fix ph then base_rank ph + 15 else base_rank ph)"
    and "\<not> (is_fix ph \<and> s = ''retry'') \<Longrightarrow> on_track (outcome_node ph s) st"
proof -
  from assms have "ph \<noteq> CompleteGeneration" by (auto simp: phase_kinds)
  then obtain ph' where n: "outcome_node ph s = enter ph'"
    and r: "ph' = CompleteGeneration \<or> (s, ph') \<in> set (result_routes ph)"
    by (rule outcome_node_cases)
  show "node_rank (outcome_node ph s)
      < (if s = ''retry'' \<or> is_fix ph then base_rank ph + 15 else base_rank ph)"
    using assms r unfolding n node_rank_enter by (auto simp: phase_kinds)
  show "on_track (outcome_node ph s) st" if "\<not> (is_fix ph \<and> s = ''retry'')"
    using assms r that unfolding n on_track_enter by (auto simp: phase_kinds)
qed

lemma outcome_step:
  assumes "uninterrupted p" "get u ''phase_outcome'' = PStr s"
  shows "route shown (Node ph Run) (cp_merge p st u) = outcome_node ph (if s = [] then ''failed'' else s)"
    and "route shown (Node ph Interpret) (cp_merge p st u) = outcome_node ph (if s = [] then ''failed'' else s)"
proof -
  have "get (cp_merge p st u) ''phase_outcome'' = PStr s"
    using assms get_has_key [of u "''phase_outcome''"] by (simp add: merged_get)
  then show "route shown (Node ph Run) (cp_merge p st u) = outcome_node ph (if s = [] then ''failed'' else s)"
    "route shown (Node ph Interpret) (cp_merge p st u) = outcome_node ph (if s = [] then ''failed'' else s)"
    by (simp_all add: route_def outcome_node_def phase_outcome_def text_in_PStr)
qed

lemma base_rank_pos [simp]: "0 < base_rank ph"
  by (cases ph) simp_all

lemma plain_step:
  assumes "uninterrupted p" "keeps_counters u" "st' = cp_merge p st u" "on_track n' st"
    "node_rank n' < node_rank n"
  shows "on_track n' st' \<and> work_left n' st' < work_left n st"
proof -
  have same: "same_counters st st'"
    using assms(1-3) by (simp add: merged_same)
  moreover from assms(5) have "n \<noteq> EndNode" by auto
  ultimately show ?thesis
    using assms(4,5) by (simp add: on_track_same work_left_def attempts_left_same)
qed

lemma merged_counters:
  assumes "uninterrupted p" "st' = cp_merge p st u" "same_at_counters r u" "\<not> has_key r ''max_attempts_by_phase''"
  shows "get st' ''max_attempts_by_phase'' = get st ''max_attempts_by_phase''"
    "get st' ''attempts_by_phase'' = (if has_key r ''attempts_by_phase''
      then get r ''attempts_by_phase'' else get st ''attempts_by_phase'')"
  using assms by (simp_all add: merged_get same_at_counters_def counter_keys_def)

text \<open>A run is over at the end node, and where a node raises.\<close>

fun stopped :: "'w cycle_ports \<Rightarrow> 'w cycle_config \<Rightarrow> bool" where
  "stopped p (n, st, w) = (n = EndNode \<or> (case run_node p n st w of (Inl _, _) \<Rightarrow> True | _ \<Rightarrow> False))"

context repairing_backend
begin

lemma run_step:
  assumes d: "driven_by p shown feedback run interp" and u: "uninterrupted p" and g: "green_suite p"
    and n: "operation_node p (phase_label ph) st w = (Inr u, w')" "\<not> model_driven ph"
      "ph \<noteq> CompleteGeneration"
    and st': "st' = cp_merge p st u" "n' = route (cp_shown p) (Node ph Run) st'"
  shows "on_track n' st' \<and> work_left n' st' < work_left (Node ph Run) st"
proof -
  from operation_node_run [OF u n(1)] obtain r w1 j where
    r: "cp_run_phase p (phase_label ph) st w = (Inr r, w1)"
    and j: "apply_repair_progress (cp_shown p) (cp_feedback p) (phase_label ph) st r = Some j"
    and o: "get u ''phase_outcome'' = get j ''phase_outcome''
      \<or> get u ''phase_outcome'' = PStr ''review_equivalence''" and same: "same_at_counters j u" .
  have run: "run (phase_label ph) st w = (Inr r, w1)"
    and judged: "apply_repair_progress shown feedback (phase_label ph) st r = Some j"
    using r j d by (simp_all add: driven_by_def)
  from run_outcome [OF run n(3)] obtain s0 where k: "keeps_counters r"
    and s0: "get r ''phase_outcome'' = PStr s0" by blast
  from judged_keeps [OF judged k s0] have kj: "keeps_counters j"
    and js: "get j ''phase_outcome'' = PStr s0 \<or> get j ''phase_outcome'' = PStr ''failed''" by auto
  have ku: "keeps_counters u" using same_at_keeps [OF same kj] .
  from o js obtain s where s: "get u ''phase_outcome'' = PStr s"
    and sj: "s = ''review_equivalence'' \<or> get j ''phase_outcome'' = PStr s" by auto
  have n': "n' = outcome_node ph (if s = [] then ''failed'' else s)"
    unfolding st'(2) st'(1) by (rule outcome_step(1) [OF u s])
  have red: "s \<noteq> ''tests_failed''" if m: "ph = MeasureMutation"
  proof
    assume "s = ''tests_failed''"
    with sj js s0 have "get r ''phase_outcome'' = PStr ''tests_failed''" by auto
    moreover have "cp_run_phase p ''measure_mutation'' st w = (Inr r, w1)"
      using r m by simp
    ultimately show False using g unfolding green_suite_def by blast
  qed
  have aff: "0 < left f st" if "s = ''repair''" "repair_of ph = Some f" for f
    using repair_affordable [OF run judged _ that(2)] that(1) sj by auto
  have "node_rank n' < base_rank ph \<and> on_track n' st"
    unfolding n' by (rule deterministic_routes) (use n(2) red aff in \<open>auto split: if_splits\<close>)
  then show ?thesis using plain_step [OF u ku st'(1), of n' "Node ph Run"] by simp
qed

lemma interpret_step:
  assumes d: "driven_by p shown feedback run interp" and u: "uninterrupted p"
    and n: "interpret_node p (phase_label ph) st w = (Inr u, w')" "model_driven ph"
      "on_track (Node ph Interpret) st"
    and st': "st' = cp_merge p st u" "n' = route (cp_shown p) (Node ph Interpret) st'"
  shows "on_track n' st' \<and> work_left n' st' < work_left (Node ph Interpret) st"
proof (cases "ph = ReviewEquivalents")
  case True
  from interpret_node_run [OF u n(1)] obtain r w1 w2 where
    r: "cp_interpret p (phase_label ph) st (get st ''turn_result'') w1 = (Inr r, w2)"
    and same: "same_at_counters r u" .
  have "keeps_counters r"
    using u r True unfolding uninterrupted_def turns_keep_def by blast
  then have "keeps_counters u" by (rule same_at_keeps [OF same])
  moreover have "n' = enter CompleteGeneration"
    using st'(2) True by (simp add: route_def follow_def)
  ultimately show ?thesis using True plain_step [OF u _ st'(1)]
    by (simp add: enter_def model_driven_def is_fix_def)
next
  case False
  then have b: "ph \<in> set budgeted" using n(2) by (auto simp: phase_kinds)
  from interpret_node_run [OF u n(1)] obtain r w1 w2 where
    r: "cp_interpret p (phase_label ph) st (get st ''turn_result'') w1 = (Inr r, w2)"
    and o: "get u ''phase_outcome'' = get r ''phase_outcome''" and same: "same_at_counters r u" .
  have i: "interp (phase_label ph) st (get st ''turn_result'') w1 = (Inr r, w2)"
    using r d b by (simp add: driven_by_def)
  from interp_outcome [OF i b] obtain s where m: "\<not> has_key r ''max_attempts_by_phase''"
    and s: "get r ''phase_outcome'' = PStr s" by blast
  note spent = interp_spends [OF i b merged_counters [OF u st'(1) same m]]
  have su: "get u ''phase_outcome'' = PStr s" using o s by simp
  define t where "t = (if s = [] then ''failed'' else s)"
  have n': "n' = outcome_node ph t"
    unfolding st'(2) st'(1) t_def by (rule outcome_step(2) [OF u su])
  have t: "t = ''retry'' \<longleftrightarrow> s = ''retry''" by (simp add: t_def)
  note routes = model_routes [OF b, of t]
  have track: "on_track n' st'"
    unfolding n' using spent s t by (intro routes(2)) auto
  have "work_left n' st' < work_left (Node ph Interpret) st"
    using routes(1) spent s t n(3) unfolding n' work_left_def
    by (auto split: if_splits)
  with track show ?thesis by simp
qed

lemma step_decreases:
  assumes d: "driven_by p shown feedback run interp" and u: "uninterrupted p" and g: "green_suite p"
    and step: "cycle_step p (n, st, w) (n', st', w')" and t: "on_track n st"
  shows "on_track n' st' \<and> work_left n' st' < work_left n st"
proof -
  from step obtain u' where n: "n \<noteq> EndNode" and run: "run_node p n st w = (Inr u', w')"
    and st': "st' = cp_merge p st u'" and n': "n' = route (cp_shown p) n st'"
    by (auto elim: cycle_stepE)
  show ?thesis
  proof (cases n)
    case (Node ph part)
    note kind = t [unfolded Node, simplified]
    consider (R) "part = Reconcile" "\<not> model_driven ph" | (Run) "part = Run" "\<not> model_driven ph"
      | (TR) "part = TurnReconcile" "model_driven ph" | (P) "part = Prompt" "model_driven ph"
      | (T) "part = Turn" "model_driven ph" | (IR) "part = InterpretReconcile" "model_driven ph"
      | (I) "part = Interpret" "model_driven ph"
      using kind by (auto split: if_splits)
    then show ?thesis
    proof cases
      case R
      show ?thesis
        using reconcile_step [OF u, of ph "''deterministic''" st w u' w' part st' n' Run Rehydrate]
          run st' n' t kind R Node by (simp add: run_node_def route_def)
    next
      case Run
      show ?thesis
      proof (cases "ph = CompleteGeneration")
        case True
        with n' Node Run have "n' = EndNode" by (simp add: route_def)
        with Node show ?thesis by (simp add: work_left_def)
      next
        case False
        show ?thesis using run_step [OF d u g _ Run(2) False st'] run n' Node Run
          by (simp add: run_node_def)
      qed
    next
      case TR
      show ?thesis
        using reconcile_step [OF u, of ph "''turn''" st w u' w' part st' n' Prompt TurnRehydrate]
          run st' n' t kind TR Node by (simp add: run_node_def route_def)
    next
      case P
      have "keeps_counters u'" using run Node P by (auto simp: run_node_def dest: prompt_node_run)
      moreover have "n' = Node ph Turn" using n' Node P by (simp add: route_def)
      ultimately show ?thesis using plain_step [OF u _ st', of n' n] kind P Node by simp
    next
      case T
      have "keeps_counters u'" using run Node T by (auto simp: run_node_def dest: turn_run [OF u])
      moreover have "n' = PauseGeneration \<or> n' = Node ph InterpretReconcile"
        using n' Node T by (simp add: route_def)
      moreover have "node_rank PauseGeneration < node_rank (Node ph Turn)"
        by (cases ph) auto
      ultimately show ?thesis using plain_step [OF u _ st', of n' n] kind T Node by auto
    next
      case IR
      show ?thesis
        using reconcile_step [OF u, of ph "''interpret''" st w u' w' part st' n' Interpret ResultRehydrate]
          run st' n' t kind IR Node by (simp add: run_node_def route_def)
    next
      case I
      show ?thesis using interpret_step [OF d u _ I(2) _ st'] run n' Node I t
        by (simp add: run_node_def)
    qed
  next
    case PauseGeneration
    with run pause_node_run [OF u] show ?thesis by (simp add: run_node_def)
  next
    case TerminateGeneration
    with n' show ?thesis by (simp add: route_def work_left_def)
  next
    case EndNode
    with n show ?thesis by simp
  qed
qed

text \<open>A run is no longer than the work of its first configuration.\<close>

lemma steps_bounded:
  assumes "driven_by p shown feedback run interp" "uninterrupted p" "green_suite p"
  shows "cycle_steps p k (n, st, w) c \<Longrightarrow> on_track n st \<Longrightarrow> k \<le> work_left n st"
proof (induction k arbitrary: n st w)
  case 0
  then show ?case by simp
next
  case (Suc k)
  then obtain n1 st1 w1 where s: "cycle_step p (n, st, w) (n1, st1, w1)"
    and r: "cycle_steps p k (n1, st1, w1) c" by auto
  with step_decreases [OF assms s Suc.prems(2)] Suc.IH [OF r] show ?case by simp
qed

lemma steps_reach_stop:
  assumes "driven_by p shown feedback run interp" "uninterrupted p" "green_suite p"
  shows "on_track n st \<Longrightarrow> \<exists>k c. k \<le> work_left n st \<and> cycle_steps p k (n, st, w) c \<and> stopped p c"
proof (induction "work_left n st" arbitrary: n st w rule: less_induct)
  case less
  show ?case
  proof (cases "stopped p (n, st, w)")
    case True
    then show ?thesis by (intro exI [of _ 0] exI [of _ "(n, st, w)"]) simp
  next
    case False
    then obtain u w' where e: "n \<noteq> EndNode" "run_node p n st w = (Inr u, w')"
      by (cases "run_node p n st w"; cases "fst (run_node p n st w)") auto
    define st1 where "st1 = cp_merge p st u"
    define n1 where "n1 = route (cp_shown p) n st1"
    have s: "cycle_step p (n, st, w) (n1, st1, w')"
      using cycle_stepI [OF e st1_def n1_def] .
    from step_decreases [OF assms s less.prems] have t: "on_track n1 st1"
      and l: "work_left n1 st1 < work_left n st" by auto
    from less.hyps [OF l t] obtain k c where "k \<le> work_left n1 st1"
      "cycle_steps p k (n1, st1, w') c" "stopped p c" by blast
    with s l show ?thesis by (intro exI [of _ "Suc k"] exI [of _ c]) auto
  qed
qed

end

end
