(* ===== verification/MutationRepair.thy ===== *)
theory MutationRepair
  imports PyValue "HOL-Library.List_Lexorder" "HOL-Library.Char_ord"
begin

text \<open>
  The planner of mutation repair rounds, \<open>uta/enforcement/mutation_repair.py\<close>: groups of
  surviving mutants, their order, the groups one round may work on and the evidence kept about
  it. Scores are exact rationals. The rendering of a context and the files it is written to are in
  the theory RepairContext.
\<close>

section \<open>Data\<close>

record repair_group =
  rg_symbol :: str
  rg_count :: int
  rg_lines :: "int list"
  rg_survivors :: "pyval list"
  rg_diffs :: "pyval list"
  rg_family :: str
  rg_killability :: str
  rg_mutator :: str
  rg_effort_score :: str
  rg_effort_band :: str
  rg_roi :: "rat option"
  rg_deprioritized :: bool
  rg_likely_equivalent :: bool

record repair_context =
  rc_target :: str
  rc_source :: str
  rc_tests :: "str list"
  rc_command :: str
  rc_survivors :: int
  rc_groups :: "repair_group list"
  rc_artifact :: str
  rc_group_paths :: "(str \<times> str) list"
  rc_language :: str
  rc_breakdown :: "(str \<times> int) list"

record repair_round_state =
  rr_target :: str
  rr_attempt :: int
  rr_previous :: "int option"
  rr_latest :: "int option"
  rr_previous_groups :: "str list"
  rr_edited :: "str list"

record plan_evidence =
  pe_previous :: "int option"
  pe_latest :: "int option"
  pe_selected :: "str list"
  pe_previous_selected :: "str list"
  pe_edited :: "str list"
  pe_no_progress :: bool

datatype round_kind = FullRoi | FocusedRoi

fun round_label :: "round_kind \<Rightarrow> str" where
  "round_label FullRoi = ''full_roi''"
| "round_label FocusedRoi = ''focused_roi''"

record repair_plan =
  rp_target :: str
  rp_language :: str
  rp_round :: int
  rp_kind :: round_kind
  rp_selected :: "repair_group list"
  rp_artifact :: str
  rp_group_paths :: "str list"
  rp_guided_full :: bool
  rp_split :: bool
  rp_evidence :: plan_evidence

section \<open>Order and progress\<close>

definition should_split_mutation_repair :: "int \<Rightarrow> int \<Rightarrow> bool" where
  "should_split_mutation_repair survivors threshold = (threshold < survivors)"

text \<open>Groups without a score rank below every scored one of score above -1.\<close>

definition group_key :: "repair_group \<Rightarrow> rat \<times> int \<times> str \<times> int" where
  "group_key g = (- (case rg_roi g of None \<Rightarrow> -1 | Some r \<Rightarrow> r), - rg_count g, rg_symbol g,
     (case rg_lines g of [] \<Rightarrow> 0 | l # _ \<Rightarrow> l))"

definition ordered_mutation_groups :: "repair_group list \<Rightarrow> repair_group list" where
  "ordered_mutation_groups groups = sort_key group_key groups"

definition mutation_repair_no_progress :: "repair_round_state \<Rightarrow> bool" where
  "mutation_repair_no_progress st = (rr_edited st \<noteq> [] \<and>
     (case (rr_previous st, rr_latest st) of (Some p, Some l) \<Rightarrow> p \<le> l | _ \<Rightarrow> False))"

definition language_from_target_id :: "str \<Rightarrow> str" where
  "language_from_target_id target =
     (if startswith target ''pyfile:'' \<or> startswith target ''pysymbol:'' then ''python''
      else if startswith target ''java:'' \<or> startswith target ''class:'' then ''java''
      else ''unknown'')"

section \<open>The plan of a round\<close>

definition plan_mutation_repair :: "repair_context \<Rightarrow> repair_round_state \<Rightarrow> int \<Rightarrow> repair_plan" where
  "plan_mutation_repair ctx st focused =
     (let attempt = max 1 (rr_attempt st);
          ordered = ordered_mutation_groups (rc_groups ctx);
          full_round = (attempt \<le> 1);
          selected = (if full_round then ordered else take (nat (max 1 focused)) ordered);
          group_paths = filter (\<lambda>path. path \<noteq> []) (map (\<lambda>g.
            case map_of (rc_group_paths ctx) (rg_symbol g) of None \<Rightarrow> [] | Some path \<Rightarrow> path) selected) in
      \<lparr>rp_target = rc_target ctx,
       rp_language = (if rc_language ctx \<noteq> [] then rc_language ctx
                      else language_from_target_id (rc_target ctx)),
       rp_round = attempt, rp_kind = (if full_round then FullRoi else FocusedRoi),
       rp_selected = selected, rp_artifact = rc_artifact ctx, rp_group_paths = group_paths,
       rp_guided_full = full_round, rp_split = (\<not> full_round \<and> group_paths \<noteq> []),
       rp_evidence = \<lparr>pe_previous = rr_previous st, pe_latest = rr_latest st,
         pe_selected = map rg_symbol selected, pe_previous_selected = rr_previous_groups st,
         pe_edited = rr_edited st, pe_no_progress = mutation_repair_no_progress st\<rparr>\<rparr>)"

text \<open>The previous survivor count is whatever the last evidence holds; only a number counts.\<close>

definition survivor_number :: "pyval \<Rightarrow> int option" where
  "survivor_number v = (case v of PInt n \<Rightarrow> Some n | PFloat q \<Rightarrow> Some (PyValue.truncate q) | _ \<Rightarrow> None)"

definition plan_mutation_repair_round ::
  "repair_context \<Rightarrow> int \<Rightarrow> pyval \<Rightarrow> str list \<Rightarrow> str list \<Rightarrow> int \<Rightarrow> repair_plan" where
  "plan_mutation_repair_round ctx attempt previous previous_groups edited focused =
     plan_mutation_repair ctx
       \<lparr>rr_target = rc_target ctx, rr_attempt = max 1 attempt, rr_previous = survivor_number previous,
        rr_latest = Some (rc_survivors ctx), rr_previous_groups = previous_groups, rr_edited = edited\<rparr>
       (max 1 focused)"

section \<open>The window of a focused round\<close>

definition select_mutation_repair_group :: "repair_group list \<Rightarrow> int \<Rightarrow> repair_group option" where
  "select_mutation_repair_group groups attempt =
     (if groups = [] then None
      else Some (groups ! (nat (max 0 ((if attempt = 0 then 1 else attempt) - 1)) mod length groups)))"

definition select_mutation_repair_groups :: "repair_group list \<Rightarrow> int \<Rightarrow> int \<Rightarrow> repair_group list" where
  "select_mutation_repair_groups groups attempt per_round =
     (if groups = [] then []
      else (let size = nat (max 1 (min (if per_round = 0 then 1 else per_round) (int (length groups))));
                start = nat (max 1 (if attempt = 0 then 1 else attempt) - 1) * size in
            map (\<lambda>offset. groups ! ((start + offset) mod length groups)) [0..<size]))"

section \<open>Files of the groups\<close>

text \<open>\<open>re.sub(r"[^A-Za-z0-9]+", "_", s).strip("_").lower() or "unknown"\<close>.\<close>

definition slug :: "str \<Rightarrow> str" where
  "slug value = (let s = lower (strip_chars ''_''
       (squeeze is_alnum (CHR ''_'') False (if value = [] then ''unknown'' else value))) in
     if s = [] then ''unknown'' else s)"

definition group_file :: "str \<Rightarrow> repair_group \<Rightarrow> str" where
  "group_file dir g = dir @ ''/mutation-repair-'' @ slug (rg_symbol g) @ ''.md''"

text \<open>The context with the paths of its files; a group has one only above the threshold.\<close>

definition write_mutation_repair_context :: "str \<Rightarrow> repair_context \<Rightarrow> int \<Rightarrow> repair_context" where
  "write_mutation_repair_context dir ctx threshold =
     ctx\<lparr>rc_artifact := dir @ ''/mutation-repair-context.md'',
         rc_group_paths := (if should_split_mutation_repair (rc_survivors ctx) threshold
            then foldl (\<lambda>paths g. dict_set (rg_symbol g) (group_file dir g) paths) [] (rc_groups ctx)
            else [])\<rparr>"

end
