(* ===== verification/JavaTools.thy ===== *)
theory JavaTools
  imports GenerationCycle MutationRepair
begin

text \<open>
  What the Java phases share: names and test paths, readers of the state, session references,
  the interpretation of a repair turn, compile errors, and the ports of the tools (Maven,
  JaCoCo, PIT, the file system, the clock), which the source passes as port records
  (\<open>uta/language/java/phases/ports.py\<close>). A port reads and writes a world and may raise. A
  state, a result and its evidence are dictionaries. Numbers read from a report are numbers
  there (\<open>float\<close> of a text is not modelled).
\<close>

section \<open>Names and shared readers\<close>

definition simple_name :: "str \<Rightarrow> str" where
  "simple_name fqn = last (split_on (CHR ''.'') fqn)"

definition test_name :: "str \<Rightarrow> str" where
  "test_name fqn = simple_name fqn @ ''Test''"

definition replaced :: "char \<Rightarrow> char \<Rightarrow> str \<Rightarrow> str" where
  "replaced a b s = map (\<lambda>c. if c = a then b else c) s"

text \<open>\<open>fqn.rsplit(".", 1)[0]\<close>: the whole name when it has no dot.\<close>

definition package_or_name :: "str \<Rightarrow> str" where
  "package_or_name fqn = (let parts = split_on (CHR ''.'') fqn in
     if length parts = 1 then fqn else join_with ''.'' (butlast parts))"

definition expected_test_file_rel :: "str \<Rightarrow> str \<Rightarrow> str" where
  "expected_test_file_rel mname fqn =
     (if mname = [] then [] else mname @ ''/'') @ ''src/test/java/''
       @ replaced (CHR ''.'') (CHR ''/'') (package_or_name fqn) @ ''/'' @ test_name fqn @ ''.java''"

text \<open>The module is a name or nothing.\<close>

definition module_of :: "(pyval \<Rightarrow> str) \<Rightarrow> pydict \<Rightarrow> str" where
  "module_of shown st = text_in shown st ''module'' []"

text \<open>\<open>str(state["repo_path"])\<close> raises for a missing key.\<close>

definition required_text :: "(pyval \<Rightarrow> str) \<Rightarrow> pydict \<Rightarrow> str \<Rightarrow> ('w, str) cycle_prog" where
  "required_text shown st key =
     or_python_error (if has_key st key then Some (shown_as shown (get st key)) else None)"

definition batch_of :: "pydict \<Rightarrow> ('w, str list) cycle_prog" where
  "batch_of st = or_python_error (texts_in st ''batch'')"

definition phase_evidence :: "pydict \<Rightarrow> str \<Rightarrow> pydict option" where
  "phase_evidence st phase = Option.bind (sub_dict st ''phase_results'') (\<lambda>results.
     map_option (\<lambda>r. as_dict (get r ''evidence'')) (sub_dict results phase))"

definition phase_result :: "str \<Rightarrow> pydict \<Rightarrow> pydict" where
  "phase_result outcome evidence = [(''phase_outcome'', PStr outcome), (''evidence'', PDict evidence)]"

section \<open>Sessions of a turn\<close>

definition session_ref :: "(pyval \<Rightarrow> str) \<Rightarrow> pyval \<Rightarrow> pydict option" where
  "session_ref shown v = (case v of
     PDict r \<Rightarrow> (if truthy (get r ''locator'') then
         Some [(''harness'', PStr (text_in shown r ''harness'' ''unknown'')),
               (''locator'', PStr (shown_as shown (get r ''locator''))),
               (''scope'', PStr (text_in shown r ''scope'' ''durable''))]
       else None)
   | _ \<Rightarrow> None)"

definition session_refs :: "(pyval \<Rightarrow> str) \<Rightarrow> pydict \<Rightarrow> pydict list option" where
  "session_refs shown turn = map_option (\<lambda>vs.
     (let refs = List.map_filter (session_ref shown) vs; legacy = get turn ''session_id'' in
      if truthy legacy \<and> refs = [] then
        [[(''harness'', PStr ''legacy''), (''locator'', PStr (shown_as shown legacy)),
          (''scope'', PStr ''durable'')]]
      else refs)) (state_list turn ''session_refs'')"

definition last_session_locator :: "(pyval \<Rightarrow> str) \<Rightarrow> pydict \<Rightarrow> pyval option" where
  "last_session_locator shown turn =
     map_option (\<lambda>refs. if refs = [] then PNone else get (last refs) ''locator'') (session_refs shown turn)"

definition turn_status_of :: "(pyval \<Rightarrow> str) \<Rightarrow> pydict \<Rightarrow> pydict \<Rightarrow> str" where
  "turn_status_of shown st turn = text_in shown st ''turn_status'' (text_in shown turn ''status'' ''unknown'')"

section \<open>Interpreting a repair turn\<close>

definition repair_evidence :: "(pyval \<Rightarrow> str) \<Rightarrow> pydict \<Rightarrow> pydict \<Rightarrow> pydict option" where
  "repair_evidence shown st turn = Option.bind (session_refs shown turn) (\<lambda>refs.
     map_option (\<lambda>locator.
       [(''turn_status'', PStr (turn_status_of shown st turn)),
        (''session_id'', if truthy (get st ''turn_session_id'') then get st ''turn_session_id'' else locator),
        (''session_refs'', PList (map PDict refs))]) (last_session_locator shown turn))"

text \<open>
  A repair makes every verification stale and spends one attempt of its own phase. The five
  interpreters differ in the phase alone.
\<close>

definition interpret_repair :: "(pyval \<Rightarrow> str) \<Rightarrow> str \<Rightarrow> pydict \<Rightarrow> pydict \<Rightarrow> pydict option" where
  "interpret_repair shown phase st turn =
     Option.bind (sub_dict st ''attempts_by_phase'') (\<lambda>counts.
     Option.bind (advance_verification_attempts counts) (\<lambda>advanced.
     Option.bind (advance_one phase advanced) (\<lambda>spent.
     map_option (\<lambda>evidence. [(''phase_outcome'', PStr ''passed''),
         (''attempts_by_phase'', PDict spent), (''evidence'', PDict evidence)])
       (repair_evidence shown st turn))))"

definition interpret_fix_compile :: "(pyval \<Rightarrow> str) \<Rightarrow> pydict \<Rightarrow> pydict \<Rightarrow> pydict option" where
  "interpret_fix_compile shown = interpret_repair shown ''fix_compile''"

definition interpret_fix_tests :: "(pyval \<Rightarrow> str) \<Rightarrow> pydict \<Rightarrow> pydict \<Rightarrow> pydict option" where
  "interpret_fix_tests shown = interpret_repair shown ''fix_tests''"

definition interpret_fix_coverage :: "(pyval \<Rightarrow> str) \<Rightarrow> pydict \<Rightarrow> pydict \<Rightarrow> pydict option" where
  "interpret_fix_coverage shown = interpret_repair shown ''fix_coverage''"

definition interpret_fix_mutation :: "(pyval \<Rightarrow> str) \<Rightarrow> pydict \<Rightarrow> pydict \<Rightarrow> pydict option" where
  "interpret_fix_mutation shown = interpret_repair shown ''fix_mutation''"

definition interpret_delegated_quality_gate :: "(pyval \<Rightarrow> str) \<Rightarrow> pydict \<Rightarrow> pydict \<Rightarrow> pydict option" where
  "interpret_delegated_quality_gate shown = interpret_repair shown ''delegated_quality_gate''"

section \<open>Compile errors\<close>

datatype compile_category = MissingImport | UnresolvedSymbol | WrongType | MockitoApi | SyntaxError
  | DeprecatedApi | OtherError

fun category_label :: "compile_category \<Rightarrow> str" where
  "category_label MissingImport = ''missing_import''"
| "category_label UnresolvedSymbol = ''unresolved_symbol''"
| "category_label WrongType = ''wrong_type''"
| "category_label MockitoApi = ''mockito_api''"
| "category_label SyntaxError = ''syntax''"
| "category_label DeprecatedApi = ''deprecated_api''"
| "category_label OtherError = ''other''"

record compile_error =
  ce_category :: compile_category
  ce_file :: str
  ce_line :: int
  ce_message :: str
  ce_symbol :: "str option"
  ce_detail :: "str list"

definition symbol_or_empty :: "compile_error \<Rightarrow> str" where
  "symbol_or_empty e = (case ce_symbol e of None \<Rightarrow> [] | Some s \<Rightarrow> s)"

text \<open>\<open>digest\<close> is the 10-byte \<open>blake2b\<close> of the text.\<close>

definition signature :: "(str \<Rightarrow> str) \<Rightarrow> compile_error \<Rightarrow> str" where
  "signature digest e = digest (join_with ''|'' [category_label (ce_category e), ce_file e,
     int_str (ce_line e), symbol_or_empty e, strip (ce_message e)])"

text \<open>New and recurring errors of two rounds.\<close>

definition error_delta ::
  "(str \<Rightarrow> str) \<Rightarrow> compile_error list \<Rightarrow> compile_error list \<Rightarrow> compile_error list \<times> compile_error list" where
  "error_delta digest previous current =
     (let seen = set (map (signature digest) previous) in
      (filter (\<lambda>e. signature digest e \<notin> seen) current, filter (\<lambda>e. signature digest e \<in> seen) current))"

definition error_payload :: "(str \<Rightarrow> str) \<Rightarrow> compile_error \<Rightarrow> pyval" where
  "error_payload digest e = PDict
     [(''category'', PStr (category_label (ce_category e))), (''file'', PStr (ce_file e)),
      (''line'', PInt (ce_line e)), (''message'', PStr (ce_message e)),
      (''symbol'', if symbol_or_empty e = [] then PNone else PStr (symbol_or_empty e)),
      (''signature'', PStr (signature digest e)),
      (''detail'', PList (map PStr (take 4 (ce_detail e))))]"

definition forward_slashes :: "str \<Rightarrow> str" where
  "forward_slashes = replaced (CHR 0x5C) (CHR ''/'')"

definition filter_to_paths :: "compile_error list \<Rightarrow> str list \<Rightarrow> compile_error list" where
  "filter_to_paths errors paths =
     (let wanted = map (\<lambda>path. dropWhile (\<lambda>c. c = CHR ''/'') (forward_slashes path)) paths in
      filter (\<lambda>e. \<exists>path \<in> set wanted. endswith (forward_slashes (ce_file e)) path) errors)"

text \<open>\<open>str.upper\<close> on the category labels, which are ASCII.\<close>

definition ascii_upper :: "str \<Rightarrow> str" where
  "ascii_upper s = map (\<lambda>c. if 97 \<le> code c \<and> code c \<le> 122 then char_of (code c - 32) else c) s"

definition error_lines :: "compile_error \<Rightarrow> str list" where
  "error_lines e =
     (''- ['' @ ascii_upper (category_label (ce_category e)) @ ''] '' @ ce_file e @ '':''
        @ int_str (ce_line e) @ '': '' @ ce_message e
        @ (if symbol_or_empty e = [] then [] else '' ('' @ symbol_or_empty e @ '')''))
     # map (\<lambda>d. ''  '' @ d) (take 4 (ce_detail e))"

definition format_errors :: "compile_error list \<Rightarrow> str \<Rightarrow> str" where
  "format_errors errors heading = join_with [newline] (heading # concat (map error_lines errors))"

definition blank_line :: str where
  "blank_line = [newline, newline]"

definition render_feedback ::
  "compile_error list \<Rightarrow> (compile_error list \<times> compile_error list) option \<Rightarrow> str" where
  "render_feedback current delta =
     (if current = [] then []
      else (case delta of
        None \<Rightarrow> format_errors current ''ALL CURRENT COMPILATION ERRORS''
      | Some (fresh, recurring) \<Rightarrow> join_with blank_line (filter (\<lambda>s. strip s \<noteq> [])
          ([''Fix the full current compile-error set below. Do not focus only on the first error.'']
           @ (if fresh = [] then [] else [format_errors fresh ''NEW ERROR CLUSTERS''])
           @ (if recurring = [] then [] else [format_errors recurring ''RECURRING ERROR CLUSTERS''])))))"

section \<open>Words of a tool\<close>

text \<open>Which repair a failing gate asks for, from the words of its output.\<close>

definition delegated_gate_failure_stage :: "(pyval \<Rightarrow> str) \<Rightarrow> pydict \<Rightarrow> str" where
  "delegated_gate_failure_stage shown gate =
     (let output = lower (join_with [newline] (map (\<lambda>key. text_in shown gate key [])
            [''summary'', ''stdout'', ''stderr'']));
          has = contains output in
      if has ''check-coverage failed'' \<or> has ''diff coverage failed''
         \<or> has ''diff coverage check failed'' \<or> has ''coverage gate failed''
         \<or> (has ''diff line coverage'' \<and> has ''below required'') then ''coverage_fix''
      else if has ''check-mutation failed'' \<or> has ''mutation gate failed''
         \<or> has ''mutation coverage failed'' \<or> has ''mutation score is below''
         \<or> (has ''diff mutation score'' \<and> has ''below required'')
         \<or> has ''test-strength failed'' \<or> has ''test strength failed'' \<or> has ''test strength score''
         \<or> (has ''test strength'' \<and> has ''below threshold'') then ''mutation_fix''
      else ''coverage_fix'')"

section \<open>Ports of the tools\<close>

text \<open>
  \<open>jp_classify\<close> parses the compiler's output; \<open>jp_digest\<close> is the signature's hash. A tool that
  answers with a text and a flag returns both.
\<close>

record 'w java_ports =
  jp_shown :: "pyval \<Rightarrow> str"
  jp_clock :: "('w, rat) cycle_prog"
  jp_digest :: "str \<Rightarrow> str"
  jp_classify :: "str \<Rightarrow> compile_error list"
  jp_compile :: "str \<Rightarrow> str \<Rightarrow> str \<Rightarrow> ('w, bool \<times> str) cycle_prog"
  jp_run_tests :: "str \<Rightarrow> str \<Rightarrow> str \<Rightarrow> str \<Rightarrow> ('w, bool \<times> str) cycle_prog"
  jp_failure_summary :: "str \<Rightarrow> str \<Rightarrow> str \<Rightarrow> str \<Rightarrow> ('w, str) cycle_prog"
  jp_jacoco :: "str \<Rightarrow> str list \<Rightarrow> str \<Rightarrow> ('w, bool \<times> str) cycle_prog"
  jp_jacoco_report :: "str \<Rightarrow> str \<Rightarrow> ('w, str option) cycle_prog"
  jp_coverage_of :: "str \<Rightarrow> str \<Rightarrow> ('w, pydict) cycle_prog"
  jp_uncovered :: "str \<Rightarrow> str \<Rightarrow> ('w, str) cycle_prog"
  jp_pitest :: "str \<Rightarrow> str \<Rightarrow> str \<Rightarrow> str \<Rightarrow> ('w, bool \<times> str) cycle_prog"
  jp_pit_report :: "str \<Rightarrow> str \<Rightarrow> ('w, str option) cycle_prog"
  jp_green_failure :: "str \<Rightarrow> pydict option"
  jp_mutation_stats :: "str \<Rightarrow> str \<Rightarrow> ('w, pydict) cycle_prog"
  jp_families :: "str \<Rightarrow> str \<Rightarrow> pyval \<Rightarrow> ('w, pydict list) cycle_prog"
  jp_format_families :: "pydict list \<Rightarrow> str"
  jp_write_context :: "str \<Rightarrow> str \<Rightarrow> str \<Rightarrow> ('w, str) cycle_prog"
  jp_groups_per_round :: int
  jp_run_gate :: "pydict \<Rightarrow> str \<Rightarrow> str list \<Rightarrow> ('w, pydict) cycle_prog"
  jp_failure_in_batch :: "pydict \<Rightarrow> str \<Rightarrow> pydict \<Rightarrow> str list \<Rightarrow> ('w, bool) cycle_prog"
  jp_out_of_scope :: "pydict \<Rightarrow> pydict \<Rightarrow> str \<Rightarrow> str list \<Rightarrow> ('w, pydict) cycle_prog"
  jp_gate_feedback :: "pydict \<Rightarrow> str"
  jp_gate_detail :: "pydict \<Rightarrow> pydict"
  jp_prompt_feedback :: "str \<Rightarrow> str \<Rightarrow> int \<Rightarrow> str \<Rightarrow> ('w, str) cycle_prog"
  jp_test_paths :: "pydict \<Rightarrow> str list \<Rightarrow> ('w, str list) cycle_prog"
  jp_write_survivors :: "str \<Rightarrow> pydict \<Rightarrow> str list \<Rightarrow> ('w, str option) cycle_prog"
  jp_write_candidate :: "str \<Rightarrow> str \<Rightarrow> str list \<Rightarrow> str \<Rightarrow> str list \<Rightarrow> ('w, str) cycle_prog"
  jp_write_plan :: "str \<Rightarrow> str \<Rightarrow> str list \<Rightarrow> str \<Rightarrow> ('w, str) cycle_prog"
  jp_is_file :: "str \<Rightarrow> str \<Rightarrow> ('w, bool) cycle_prog"
  jp_set_stage :: "pydict \<Rightarrow> str \<Rightarrow> str \<Rightarrow> ('w, unit) cycle_prog"
  jp_surefire :: "str \<Rightarrow> str list \<Rightarrow> str \<Rightarrow> ('w, pydict) cycle_prog"
  jp_full_gate :: "pydict \<Rightarrow> str \<Rightarrow> ('w, pydict) cycle_prog"
  jp_read_text :: "str \<Rightarrow> str \<Rightarrow> ('w, str) cycle_prog"
  jp_gate_results :: "pydict \<Rightarrow> str \<Rightarrow> str list \<Rightarrow> pydict \<Rightarrow> rat \<Rightarrow> ('w, pydict) cycle_prog"
  jp_sync_results :: "pydict \<Rightarrow> pydict \<Rightarrow> str list \<Rightarrow> ('w, unit) cycle_prog"
  jp_complete :: "pydict \<Rightarrow> ('w, pydict) cycle_prog"

end
