(* ===== verification/JavaPrecheck.thy ===== *)
theory JavaPrecheck
  imports JavaTools
begin

text \<open>
  The precheck of existing tests, \<open>uta/language/java/phases/precheck.py\<close>: a unit whose tests
  already meet every gate is closed without a model turn; a failing full gate of an
  incremental run is sent to repair; anything else proceeds to planning.
\<close>

section \<open>Existing tests of every class\<close>

text \<open>\<open>None\<close> means that the unit proceeds to planning.\<close>

record class_measure =
  cm_coverage :: rat
  cm_output :: str
  cm_stats :: pydict

fun precheck_coverage ::
  "'w java_ports \<Rightarrow> str \<Rightarrow> pydict \<Rightarrow> str \<Rightarrow> int \<Rightarrow> str list \<Rightarrow> (str \<times> class_measure) list
    \<Rightarrow> ('w, (str \<times> class_measure) list option) cycle_prog" where
  "precheck_coverage p report surefire output gate [] found = ret (Some found)"
| "precheck_coverage p report surefire output gate (fqn # fqns) found =
     seq (or_python_error (case get_or surefire (test_name fqn) (PDict []) of
         PDict d \<Rightarrow> Some d | _ \<Rightarrow> None)) (\<lambda>class_test.
     if \<not> truthy (get_or class_test ''passed'' (PBool True)) then ret None
     else
     seq (jp_coverage_of p report fqn) (\<lambda>stats.
     seq (or_python_error (float_or_zero stats ''line'')) (\<lambda>rate.
     if rate < of_int gate then ret None
     else precheck_coverage p report surefire output gate fqns
       (dict_set fqn \<lparr>cm_coverage = rate, cm_output = text_in (jp_shown p) class_test ''output'' output,
          cm_stats = []\<rparr> found))))"

definition precheck_test_class :: "str \<Rightarrow> str" where
  "precheck_test_class fqn =
     join_with ''.'' (butlast (split_on (CHR ''.'') fqn)) @ ''.'' @ test_name fqn"

fun precheck_mutation ::
  "'w java_ports \<Rightarrow> str \<Rightarrow> str \<Rightarrow> int \<Rightarrow> str list \<Rightarrow> (str \<times> class_measure) list
    \<Rightarrow> ('w, (str \<times> class_measure) list option) cycle_prog" where
  "precheck_mutation p repo mname gate [] found = ret (Some found)"
| "precheck_mutation p repo mname gate (fqn # fqns) found =
     seq (jp_pitest p repo fqn (precheck_test_class fqn) mname) (\<lambda>(ok, output).
     if \<not> ok then ret None
     else seq (jp_pit_report p repo mname) (\<lambda>report. (case report of
       None \<Rightarrow> ret None
     | Some path \<Rightarrow>
         seq (jp_mutation_stats p path fqn) (\<lambda>stats.
         seq (or_python_error (float_or_zero stats ''score'')) (\<lambda>score.
         if score < of_int gate then ret None
         else precheck_mutation p repo mname gate fqns
           (case map_of found fqn of None \<Rightarrow> found
            | Some m \<Rightarrow> dict_set fqn (m\<lparr>cm_stats := stats\<rparr>) found))))))"

definition count_fields :: "(str \<times> str) list" where
  "count_fields =
     [(''surviving_mutants'', ''survived''), (''total_mutants'', ''total''),
      (''killed_mutants'', ''killed''), (''no_coverage_mutants'', ''no_coverage''),
      (''timed_out_mutants'', ''timed_out''), (''non_viable_mutants'', ''non_viable''),
      (''memory_error_mutants'', ''memory_error''), (''run_error_mutants'', ''run_error'')]"

fun mutant_counts :: "(str \<times> str) list \<Rightarrow> pydict \<Rightarrow> pydict option" where
  "mutant_counts [] stats = Some []"
| "mutant_counts ((field, key) # others) stats = Option.bind (int_or_zero stats key) (\<lambda>n.
     map_option (Cons (field, PInt n)) (mutant_counts others stats))"

definition precheck_row ::
  "pydict \<Rightarrow> str \<Rightarrow> str \<Rightarrow> class_measure \<Rightarrow> rat \<Rightarrow> rat \<Rightarrow> pyval list \<Rightarrow> pydict option" where
  "precheck_row counts file content m tests mutation sessions =
     map_option (\<lambda>score.
       [(''status'', PStr ''PASS''), (''coverage'', PFloat (cm_coverage m)),
        (''tests_pass'', PBool True), (''mutation_score'', PFloat score)]
       @ counts @
       [(''mutation_status_counts'', get_or (cm_stats m) ''status_counts'' (PDict [])),
        (''output'', PStr (take 2000 (cm_output m))), (''test_file_path'', PStr file),
        (''test_file_content'', PStr content), (''elapsed_seconds'', PFloat (tests + mutation)),
        (''generation_seconds'', PFloat 0), (''compile_seconds'', PFloat 0),
        (''test_seconds'', PFloat tests), (''mutation_seconds'', PFloat mutation),
        (''session_id'', if sessions = [] then PNone else last sessions),
        (''session_ids'', PList sessions), (''precheck_existing_tests'', PBool True)])
       (float_or_zero (cm_stats m) ''score'')"

fun precheck_rows ::
  "'w java_ports \<Rightarrow> str \<Rightarrow> str \<Rightarrow> (str \<times> class_measure) list \<Rightarrow> rat \<Rightarrow> rat \<Rightarrow> pyval list \<Rightarrow> str list
    \<Rightarrow> pydict \<Rightarrow> ('w, pydict) cycle_prog" where
  "precheck_rows p repo mname found tests mutation sessions [] results = ret results"
| "precheck_rows p repo mname found tests mutation sessions (fqn # fqns) results =
     seq (or_python_error (map_of found fqn)) (\<lambda>m.
     (let file = expected_test_file_rel mname fqn in
     seq (jp_read_text p repo file) (\<lambda>content.
     seq (or_python_error (mutant_counts count_fields (cm_stats m))) (\<lambda>counts.
     seq (or_python_error (precheck_row counts file content m tests mutation sessions)) (\<lambda>row.
       precheck_rows p repo mname found tests mutation sessions fqns
         (dict_set fqn (PDict row) results))))))"

section \<open>Timings\<close>

fun add_timings :: "(str \<times> rat) list \<Rightarrow> pydict \<Rightarrow> pydict option" where
  "add_timings [] timings = Some timings"
| "add_timings ((key, value) # updates) timings =
     (if is_number (get_or timings key (PFloat 0))
      then add_timings updates (dict_set key (PFloat (num_of (get_or timings key (PFloat 0)) + value)) timings)
      else None)"

definition merge_phase_timings :: "pydict \<Rightarrow> (str \<times> rat) list \<Rightarrow> pydict option" where
  "merge_phase_timings st updates = Option.bind (sub_dict st ''phase_timings'') (add_timings updates)"

definition precheck_result :: "pydict \<Rightarrow> pydict \<Rightarrow> pydict" where
  "precheck_result results timings =
     [(''results'', PDict results), (''current_batch'', PList []), (''current_class'', PNone),
      (''current_stage'', PStr ''precheck_existing_tests''), (''phase_timings'', PDict timings)]"

text \<open>\<open>max(len(batch), 1)\<close>.\<close>

definition shares :: "str list \<Rightarrow> rat" where
  "shares batch = of_nat (max (length batch) 1)"

definition class_level_precheck ::
  "'w java_ports \<Rightarrow> pydict \<Rightarrow> str \<Rightarrow> str \<Rightarrow> str list \<Rightarrow> int \<Rightarrow> int \<Rightarrow> rat
    \<Rightarrow> ('w, pydict option) cycle_prog" where
  "class_level_precheck p st repo mname batch gate mutation_gate node_started =
     seq (collect (\<lambda>fqn. seq (jp_is_file p repo (expected_test_file_rel mname fqn)) (\<lambda>there.
        ret (if there then None else Some fqn))) batch) (\<lambda>missing.
     if missing \<noteq> [] then ret None
     else
     andthen (jp_set_stage p st ''precheck_existing_tests'' (''batch='' @ nat_str (length batch)))
     (seq (jp_clock p) (\<lambda>tests_started.
     seq (jp_jacoco p repo (map test_name batch) mname) (\<lambda>(passed, output).
     seq (jp_clock p) (\<lambda>tests_ended.
     if \<not> passed then ret None
     else
     seq (jp_jacoco_report p repo mname) (\<lambda>report. (case report of
       None \<Rightarrow> ret None
     | Some path \<Rightarrow>
     seq (jp_surefire p repo (map test_name batch) mname) (\<lambda>surefire.
     seq (precheck_coverage p path surefire output gate batch []) (\<lambda>covered. (case covered of
       None \<Rightarrow> ret None
     | Some found \<Rightarrow>
     seq (jp_clock p) (\<lambda>mutation_started.
     seq (if 0 < mutation_gate then precheck_mutation p repo mname mutation_gate batch found
          else ret (Some found)) (\<lambda>mutated. (case mutated of
       None \<Rightarrow> ret None
     | Some measured \<Rightarrow>
     seq (jp_clock p) (\<lambda>mutation_ended.
     seq (or_python_error (sub_dict st ''results'')) (\<lambda>results.
     seq (or_python_error (state_list st ''session_ids'')) (\<lambda>sessions.
     (let tests = tests_ended - tests_started; mutation = mutation_ended - mutation_started in
     seq (precheck_rows p repo mname measured (tests / shares batch) (mutation / shares batch)
        sessions batch results) (\<lambda>rows.
     seq (jp_clock p) (\<lambda>now.
     seq (or_python_error (merge_phase_timings st
        [(''generate_validate_seconds'', now - node_started), (''test_execution_seconds'', tests),
         (''mutation_seconds'', mutation)])) (\<lambda>timings.
       ret (Some (precheck_result rows timings))))))))))))))))))))))"

section \<open>The full gate of an incremental run\<close>

definition diff_enforcer_precheck ::
  "'w java_ports \<Rightarrow> pydict \<Rightarrow> str \<Rightarrow> str list \<Rightarrow> rat \<Rightarrow> ('w, pydict option) cycle_prog" where
  "diff_enforcer_precheck p st repo batch node_started =
     andthen (jp_set_stage p st ''precheck_existing_tests''
        (''maven_enforcer batch='' @ nat_str (length batch)))
     (seq (jp_clock p) (\<lambda>started.
     seq (jp_full_gate p st repo) (\<lambda>gate.
     seq (jp_clock p) (\<lambda>ended.
     if truthy (get gate ''passed'') then
       seq (jp_gate_results p st repo batch gate (ended - started)) (\<lambda>results.
       andthen (jp_sync_results p st results batch)
       (seq (jp_clock p) (\<lambda>now.
       seq (or_python_error (merge_phase_timings st
          [(''generate_validate_seconds'', now - node_started), (''mutation_seconds'', ended - started)]))
         (\<lambda>timings. ret (Some (precheck_result results timings)))))
       )
     else ret (Some
       [(''_precheck_action'', PStr ''delegated_repair''), (''delegated_quality_gate'', PDict gate),
        (''delegated_quality_gate_seconds'', PFloat (ended - started))])))))"

definition precheck_existing_tests ::
  "'w java_ports \<Rightarrow> pydict \<Rightarrow> str \<Rightarrow> str \<Rightarrow> str list \<Rightarrow> int \<Rightarrow> int \<Rightarrow> rat
    \<Rightarrow> ('w, pydict option) cycle_prog" where
  "precheck_existing_tests p st repo mname batch gate mutation_gate node_started =
     (if get st ''quality_mode'' = PStr ''ci_incremental''
         \<and> get st ''quality_gate_backend'' = PStr ''maven_enforcer''
      then diff_enforcer_precheck p st repo batch node_started
      else class_level_precheck p st repo mname batch gate mutation_gate node_started)"

definition precheck_outcome :: "pydict option \<Rightarrow> pydict" where
  "precheck_outcome prechecked = (case prechecked of
     None \<Rightarrow> [(''phase_outcome'', PStr ''proceed'')]
   | Some r \<Rightarrow> dict_set ''phase_outcome''
       (PStr (if get r ''_precheck_action'' = PStr ''delegated_repair'' then ''delegated_repair''
              else ''skip_target''))
       (filter (\<lambda>(k, _). k \<noteq> ''_precheck_action'') r))"

definition precheck_phase :: "'w java_ports \<Rightarrow> pydict \<Rightarrow> ('w, pydict) cycle_prog" where
  "precheck_phase p st = seq (batch_of st) (\<lambda>batch.
     if batch = [] then ret [(''phase_outcome'', PStr ''failed''),
       (''error'', PStr ''Java precheck requires a non-empty stable batch'')]
     else
     seq (or_python_error (sub_dict st ''results'')) (\<lambda>results.
     seq (required_text (jp_shown p) st ''repo_path'') (\<lambda>repo.
     seq (or_python_error (int_or_zero st ''coverage_gate'')) (\<lambda>gate.
     seq (or_python_error (int_or_zero st ''mutation_gate'')) (\<lambda>mutation_gate.
     seq (jp_clock p) (\<lambda>started.
     seq (precheck_existing_tests p
        (dict_update st [(''current_batch'', PList (map PStr batch)), (''results'', PDict results)])
        repo (module_of (jp_shown p) st) batch gate mutation_gate started) (\<lambda>found.
       ret (precheck_outcome found))))))))"

end
