(* ===== verification/JavaPhases.thy ===== *)
theory JavaPhases
  imports JavaPrecheck
begin

text \<open>
  The Java backend's phases, \<open>uta/language/java/phases\<close>: what each deterministic phase returns
  for the tools' answers, how each model answer is interpreted, and the dispatch of
  \<open>uta/language/java/generation_backend.py\<close>.
\<close>

section \<open>Verifying the compilation\<close>

definition quality_command :: "(pyval \<Rightarrow> str) \<Rightarrow> pydict \<Rightarrow> str" where
  "quality_command shown st = text_in shown st ''quality_gate_command'' []"

definition error_texts :: "pydict \<Rightarrow> str set option" where
  "error_texts evidence = map_option set (texts_in evidence ''error_signatures'')"

definition compile_verdict ::
  "'w java_ports \<Rightarrow> str set \<Rightarrow> int \<Rightarrow> int \<Rightarrow> pydict \<Rightarrow> str list \<Rightarrow> compile_error list \<Rightarrow> pydict" where
  "compile_verdict p seen attempts maximum evidence paths scoped =
     (let sig = signature (jp_digest p);
          recurring = filter (\<lambda>e. sig e \<in> seen) scoped;
          fresh = filter (\<lambda>e. sig e \<notin> seen) scoped;
          e = dict_update evidence
            [(''expected_test_paths'', PList (map PStr paths)),
             (''compile_errors'', PList (map (error_payload (jp_digest p)) scoped)),
             (''error_signatures'', PList (map (\<lambda>x. PStr (sig x)) scoped)),
             (''feedback'', PStr (render_feedback scoped
                (if seen = {} then None else Some (fresh, recurring)))),
             (''attempt'', PInt attempts), (''max_attempts'', PInt maximum)];
          stop = (\<lambda>reason. phase_result ''failed'' (dict_set ''failure_reason'' (PStr reason) e)) in
      if 0 < attempts \<and> scoped \<noteq> [] \<and> length recurring = length scoped
      then stop ''recurring_compile_errors_without_progress''
      else if maximum \<le> attempts then stop ''compile_repair_attempts_exhausted''
      else phase_result ''repair'' e)"

definition failing_compile ::
  "'w java_ports \<Rightarrow> pydict \<Rightarrow> pydict \<Rightarrow> str list \<Rightarrow> compile_error list \<Rightarrow> pydict option" where
  "failing_compile p st evidence paths scoped =
     Option.bind (phase_evidence st ''verify_compile'') (\<lambda>previous.
     Option.bind (error_texts previous) (\<lambda>seen.
     Option.bind (phase_count st ''attempts_by_phase'' ''fix_compile'' 0) (\<lambda>attempts.
     map_option (\<lambda>maximum. compile_verdict p seen attempts maximum evidence paths scoped)
       (phase_count st ''max_attempts_by_phase'' ''fix_compile'' 3))))"

definition verify_compile :: "'w java_ports \<Rightarrow> pydict \<Rightarrow> ('w, pydict) cycle_prog" where
  "verify_compile p st =
     (let mname = module_of (jp_shown p) st in
     seq (jp_clock p) (\<lambda>started.
     seq (required_text (jp_shown p) st ''repo_path'') (\<lambda>repo.
     seq (batch_of st) (\<lambda>batch.
     seq (jp_compile p repo mname (quality_command (jp_shown p) st)) (\<lambda>(ok, output).
     seq (jp_clock p) (\<lambda>now.
     (let evidence = [(''compile_ok'', PBool ok), (''output'', PStr (last_chars 6000 output)),
                      (''elapsed_seconds'', PFloat (now - started))];
          classified = jp_classify p output;
          paths = map (expected_test_file_rel mname) batch;
          incremental = (get st ''quality_mode'' = PStr ''ci_incremental'' \<and> classified \<noteq> []);
          scoped = (if incremental then filter_to_paths classified paths else classified) in
      if ok then ret (phase_result ''passed'' evidence)
      else if incremental \<and> scoped = [] then ret (phase_result ''passed'' (dict_update evidence
        [(''ignored_unrelated_errors'', PBool True), (''expected_test_paths'', PList (map PStr paths)),
         (''compile_errors'', PList (map (error_payload (jp_digest p)) classified))]))
      else or_python_error (failing_compile p st evidence paths scoped))))))))"

section \<open>Verifying the tests\<close>

definition failed_for :: "str \<Rightarrow> pydict" where
  "failed_for reason = phase_result ''failed'' [(''failure_reason'', PStr reason)]"

definition test_verdict :: "(pyval \<Rightarrow> str) \<Rightarrow> pydict \<Rightarrow> bool \<Rightarrow> int \<Rightarrow> int \<Rightarrow> pydict \<Rightarrow> pydict" where
  "test_verdict shown st passed attempts maximum evidence =
     (if passed then
        (if text_in shown st ''quality_gate_backend'' [] = ''maven_enforcer''
         then phase_result ''delegated'' evidence else phase_result ''passed'' evidence)
      else if maximum \<le> attempts then phase_result ''failed''
        (dict_set ''failure_reason'' (PStr ''test_repair_attempts_exhausted'') evidence)
      else phase_result ''repair'' evidence)"

definition verify_tests :: "'w java_ports \<Rightarrow> pydict \<Rightarrow> ('w, pydict) cycle_prog" where
  "verify_tests p st =
     (let shown = jp_shown p; mname = module_of shown st in
     seq (batch_of st) (\<lambda>batch.
     if batch = [] then ret (failed_for ''verify_tests_requires_stable_batch'')
     else
     seq (required_text shown st ''repo_path'') (\<lambda>repo.
     (let names = map test_name batch; selector = join_with '','' names in
     seq (jp_clock p) (\<lambda>started.
     seq (jp_run_tests p repo selector mname (quality_command shown st)) (\<lambda>(passed, output).
     seq (jp_clock p) (\<lambda>now.
     seq (if passed then ret output else jp_failure_summary p repo selector mname output) (\<lambda>summary.
     seq (or_python_error (phase_count st ''attempts_by_phase'' ''fix_tests'' 0)) (\<lambda>attempts.
     seq (or_python_error (phase_count st ''max_attempts_by_phase'' ''fix_tests'' 3)) (\<lambda>maximum.
       ret (test_verdict shown st passed attempts maximum
         [(''tests_pass'', PBool passed), (''test_names'', PList (map PStr names)),
          (''test_selector'', PStr selector), (''output'', PStr (last_chars 6000 summary)),
          (''elapsed_seconds'', PFloat (now - started)), (''attempt'', PInt attempts),
          (''max_attempts'', PInt maximum)])))))))))))"

section \<open>Measuring coverage\<close>

text \<open>Line coverage and the uncovered clusters of every class, in the order of the batch.\<close>

fun class_coverage ::
  "'w java_ports \<Rightarrow> str \<Rightarrow> str list \<Rightarrow> (str \<times> rat) list \<Rightarrow> (str \<times> str) list
    \<Rightarrow> ('w, (str \<times> rat) list \<times> (str \<times> str) list) cycle_prog" where
  "class_coverage p report [] cov unc = ret (cov, unc)"
| "class_coverage p report (fqn # fqns) cov unc =
     seq (jp_coverage_of p report fqn) (\<lambda>stats.
     seq (or_python_error (float_or_zero stats ''line'')) (\<lambda>rate.
     seq (jp_uncovered p report fqn) (\<lambda>text.
       class_coverage p report fqns (dict_set fqn rate cov) (dict_set fqn text unc))))"

definition rate_of :: "(str \<times> rat) list \<Rightarrow> str \<Rightarrow> rat" where
  "rate_of rates fqn = (case map_of rates fqn of None \<Rightarrow> 0 | Some r \<Rightarrow> r)"

definition coverage_verdict ::
  "pydict \<Rightarrow> str \<Rightarrow> int \<Rightarrow> str list \<Rightarrow> (str \<times> rat) list \<Rightarrow> (str \<times> str) list \<Rightarrow> pydict" where
  "coverage_verdict evidence report gate batch cov unc =
     (let failing = filter (\<lambda>fqn. rate_of cov fqn < of_int gate) batch;
          e = dict_update evidence
            [(''report_path'', PStr report), (''coverage_by_class'', score_dict cov),
             (''uncovered_by_class'', PDict (map (\<lambda>(k, v). (k, PStr v)) unc)),
             (''failing_classes'', PList (map PStr failing)),
             (''scores_by_target'', score_dict (dict_update [] (map (\<lambda>fqn. (fqn, rate_of cov fqn)) failing)))] in
      if failing = [] then phase_result ''passed'' e
      else phase_result ''repair'' (dict_set ''failure_reason'' (PStr ''coverage_below_gate'') e))"

definition measure_coverage :: "'w java_ports \<Rightarrow> pydict \<Rightarrow> ('w, pydict) cycle_prog" where
  "measure_coverage p st =
     (let shown = jp_shown p; mname = module_of shown st in
     seq (batch_of st) (\<lambda>batch.
     if batch = [] then ret (failed_for ''measure_coverage_requires_stable_batch'')
     else
     seq (required_text shown st ''repo_path'') (\<lambda>repo.
     seq (or_python_error (int_or_zero st ''coverage_gate'')) (\<lambda>gate.
     seq (jp_clock p) (\<lambda>started.
     seq (jp_jacoco p repo (map test_name batch) mname) (\<lambda>(passed, output).
     seq (jp_clock p) (\<lambda>now.
     (let evidence = [(''tests_pass'', PBool passed), (''output'', PStr (last_chars 6000 output)),
            (''coverage_gate'', PInt gate), (''test_names'', PList (map (\<lambda>f. PStr (test_name f)) batch)),
            (''elapsed_seconds'', PFloat (now - started))];
          stop = (\<lambda>reason. ret (phase_result ''failed'' (dict_set ''failure_reason'' (PStr reason) evidence))) in
     if \<not> passed then stop ''jacoco_test_execution_failed''
     else
     seq (jp_jacoco_report p repo mname) (\<lambda>found. (case found of
       None \<Rightarrow> stop ''jacoco_report_missing''
     | Some report \<Rightarrow>
         seq (class_coverage p report batch [] []) (\<lambda>(cov, unc).
           ret (coverage_verdict evidence report gate batch cov unc))))))))))))"

section \<open>Measuring mutation\<close>

text \<open>A survivor family as a group of the planner; the names in a family are strings.\<close>

definition pit_group :: "(pyval \<Rightarrow> str) \<Rightarrow> pydict \<Rightarrow> repair_group option" where
  "pit_group shown family =
     (let has_roi = has_key family ''roi'';
          word = (\<lambda>key missing. text_of (get_or family key (PStr missing))) in
     Option.bind (word ''method'' ''(unknown)'') (\<lambda>symbol.
     Option.bind (int_or_zero family ''count'') (\<lambda>count.
     Option.bind (Option.bind (list_of (get_or family ''lines'' (PList []))) all_ints) (\<lambda>nums.
     Option.bind (list_of (get_or family ''examples'' (PList []))) (\<lambda>examples.
     Option.bind (word ''family'' ''other'') (\<lambda>kind.
     Option.bind (word ''killability'' ''low'') (\<lambda>killability.
     Option.bind (word ''mutator'' []) (\<lambda>mutator.
     Option.bind (if has_roi then map_option Some (if is_number (get family ''roi'')
         then Some (num_of (get family ''roi'')) else None) else Some None) (\<lambda>roi.
     Some \<lparr>rg_symbol = symbol, rg_count = count, rg_lines = nums, rg_survivors = examples,
       rg_diffs = [], rg_family = kind, rg_killability = killability, rg_mutator = mutator,
       rg_effort_score = (if has_roi then shown_as shown (get_or family ''effort_score'' (PStr [])) else []),
       rg_effort_band = (if has_roi then shown_as shown (get_or family ''effort_band'' (PStr [])) else []),
       rg_roi = roi, rg_deprioritized = truthy (get family ''deprioritized''),
       rg_likely_equivalent = truthy (get family ''likely_equivalent'')\<rparr>)))))))))"

fun pit_groups :: "(pyval \<Rightarrow> str) \<Rightarrow> pydict list \<Rightarrow> repair_group list option" where
  "pit_groups shown [] = Some []"
| "pit_groups shown (f # fs) = Option.bind (pit_group shown f) (\<lambda>g.
     map_option (Cons g) (pit_groups shown fs))"

definition java_repair_context ::
  "(pyval \<Rightarrow> str) \<Rightarrow> str \<Rightarrow> str \<Rightarrow> str list \<Rightarrow> str \<Rightarrow> pydict list \<Rightarrow> repair_context option" where
  "java_repair_context shown target source tests command families =
     map_option (\<lambda>groups. \<lparr>rc_target = target, rc_source = source, rc_tests = tests,
       rc_command = command, rc_survivors = sum_list (map rg_count groups), rc_groups = groups,
       rc_artifact = [], rc_group_paths = [], rc_language = ''java'', rc_breakdown = []\<rparr>)
       (pit_groups shown families)"

text \<open>Equivalent families are never shown; expensive ones only when they are not skipped.\<close>

definition filter_families_by_roi :: "pydict list \<Rightarrow> bool \<Rightarrow> pydict list" where
  "filter_families_by_roi families skip_expensive = take 15 (filter (\<lambda>f.
     \<not> truthy (get f ''likely_equivalent'')
     \<and> \<not> (skip_expensive \<and> get f ''effort_band'' = PStr ''expensive'')) families)"

definition flatten_examples :: "pydict list \<Rightarrow> pyval list" where
  "flatten_examples families = take 12 (concat (map (\<lambda>f. as_list (get f ''examples'')) families))"

definition round_flags :: "repair_plan \<Rightarrow> pydict" where
  "round_flags plan =
     [(''mutation_repair_roi_guided_full'', PBool (rp_guided_full plan)),
      (''mutation_repair_split'', PBool (rp_split plan)),
      (''mutation_repair_round_kind'', PStr (round_label (rp_kind plan)))]"

record mutation_tables =
  mt_stats :: pydict
  mt_scores :: score_map
  mt_reports :: pydict
  mt_families :: pydict
  mt_summaries :: pydict
  mt_paths :: pydict
  mt_examples :: pydict
  mt_rounds :: pydict
  mt_flags :: pydict
  mt_failing :: "str list"

definition no_tables :: mutation_tables where
  "no_tables = \<lparr>mt_stats = [], mt_scores = [], mt_reports = [], mt_families = [], mt_summaries = [],
     mt_paths = [], mt_examples = [], mt_rounds = [], mt_flags = [], mt_failing = []\<rparr>"

text \<open>What the measurement reads from the state before it starts.\<close>

record mutation_setup =
  ms_repo :: str
  ms_module :: str
  ms_gate :: int
  ms_attempts :: int
  ms_stats :: pydict
  ms_families :: pydict
  ms_efforts :: pydict
  ms_roi :: bool
  ms_skip_expensive :: bool
  ms_started :: rat

text \<open>The plan of the next round of a class, from what the last round left.\<close>

definition class_plan ::
  "'w java_ports \<Rightarrow> pydict \<Rightarrow> mutation_setup \<Rightarrow> str \<Rightarrow> pydict list \<Rightarrow> repair_plan option" where
  "class_plan p st ms fqn families =
     (let shown = jp_shown p; tests = [expected_test_file_rel (ms_module ms) fqn] in
     Option.bind (sub_dict st ''target_context_paths'') (\<lambda>contexts.
     Option.bind (sub_dict contexts fqn) (\<lambda>paths.
     Option.bind (java_repair_context shown fqn (text_in shown paths ''source_abs'' []) tests
         ''mvn org.pitest:pitest-maven:mutationCoverage'' families) (\<lambda>ctx.
     Option.bind (sub_dict (ms_stats ms) fqn) (\<lambda>previous.
     map_option (\<lambda>olds. plan_mutation_repair_round ctx (ms_attempts ms + 1) (get previous ''survived'')
         (map (\<lambda>f. shown_as shown (get_or (as_dict f) ''method'' (PStr []))) olds) tests
         (jp_groups_per_round p))
       (state_list (ms_families ms) fqn))))))"

definition add_class ::
  "'w java_ports \<Rightarrow> mutation_setup \<Rightarrow> str \<Rightarrow> str \<Rightarrow> pydict \<Rightarrow> rat \<Rightarrow> int \<Rightarrow> pydict list \<Rightarrow> str \<Rightarrow> str
    \<Rightarrow> repair_plan \<Rightarrow> mutation_tables \<Rightarrow> mutation_tables" where
  "add_class p ms fqn report stats score survived selected summary path plan t =
     \<lparr>mt_stats = dict_set fqn (PDict stats) (mt_stats t),
      mt_scores = dict_set fqn score (mt_scores t),
      mt_reports = dict_set fqn (PStr report) (mt_reports t),
      mt_families = dict_set fqn (PList (map PDict selected)) (mt_families t),
      mt_summaries = dict_set fqn (PStr summary) (mt_summaries t),
      mt_paths = dict_set fqn (PStr path) (mt_paths t),
      mt_examples = dict_set fqn (PList (flatten_examples selected)) (mt_examples t),
      mt_rounds = dict_set fqn (PStr (round_label (rp_kind plan))) (mt_rounds t),
      mt_flags = dict_set fqn (PDict (round_flags plan)) (mt_flags t),
      mt_failing = (if score < of_int (ms_gate ms) \<and> 0 < survived then mt_failing t @ [fqn]
                    else mt_failing t)\<rparr>"

text \<open>
  PIT could not run on a class: tests that fail before any mutation are sent to test repair,
  anything else fails the unit.
\<close>

definition pit_failure :: "'w java_ports \<Rightarrow> mutation_setup \<Rightarrow> str \<Rightarrow> str \<Rightarrow> rat \<Rightarrow> pydict" where
  "pit_failure p ms fqn output elapsed =
     (let evidence = [(''mutation_gate'', PInt (ms_gate ms)), (''failing_classes'', PList [PStr fqn]),
            (''output'', PStr (last_chars 6000 output)), (''attempt'', PInt (ms_attempts ms)),
            (''elapsed_seconds'', PFloat elapsed)] in
      case jp_green_failure p output of
        Some details \<Rightarrow>
          if details = [] then phase_result ''failed''
            (dict_set ''failure_reason'' (PStr ''pitest_execution_failed'') evidence)
          else phase_result ''tests_failed'' (dict_update evidence
            [(''failure_reason'', PStr ''mutation_requires_green_suite''),
             (''green_suite_failure'', PDict details), (''test_selector'', PStr (test_name fqn))])
      | None \<Rightarrow> phase_result ''failed''
          (dict_set ''failure_reason'' (PStr ''pitest_execution_failed'') evidence))"

definition missing_pit_report :: "mutation_setup \<Rightarrow> str \<Rightarrow> rat \<Rightarrow> pydict" where
  "missing_pit_report ms fqn elapsed = phase_result ''failed''
     [(''failure_reason'', PStr ''pitest_report_missing''), (''mutation_gate'', PInt (ms_gate ms)),
      (''failing_classes'', PList [PStr fqn]), (''attempt'', PInt (ms_attempts ms)),
      (''elapsed_seconds'', PFloat elapsed)]"

definition test_class_of :: "str \<Rightarrow> str" where
  "test_class_of fqn = join_with ''.'' (filter (\<lambda>part. part \<noteq> [])
     [join_with ''.'' (butlast (split_on (CHR ''.'') fqn)), test_name fqn])"

definition class_tables ::
  "'w java_ports \<Rightarrow> pydict \<Rightarrow> mutation_setup \<Rightarrow> str \<Rightarrow> str \<Rightarrow> mutation_tables
    \<Rightarrow> ('w, mutation_tables) cycle_prog" where
  "class_tables p st ms fqn report t =
     seq (jp_mutation_stats p report fqn) (\<lambda>stats.
     seq (jp_families p report fqn (if ms_roi ms then get (ms_efforts ms) fqn else PNone)) (\<lambda>all_families.
     (let families = (if ms_roi ms then filter_families_by_roi all_families (ms_skip_expensive ms)
                      else all_families) in
     seq (or_python_error (class_plan p st ms fqn families)) (\<lambda>plan.
     (let chosen = set (map (\<lambda>g. PStr (rg_symbol g)) (rp_selected plan));
          selected = filter (\<lambda>f. get_or f ''method'' (PStr ''(unknown)'') \<in> chosen) families;
          summary = jp_format_families p selected in
     seq (jp_write_context p (ms_repo ms) (simple_name fqn @ ''.mutation_families.md'')
         (''# Mutation Survivor Families'' @ blank_line @ summary)) (\<lambda>path.
     seq (or_python_error (float_or_zero stats ''score'')) (\<lambda>score.
     seq (or_python_error (int_or_zero stats ''survived'')) (\<lambda>survived.
       ret (add_class p ms fqn report stats score survived selected summary path plan t)))))))))"

fun measure_classes ::
  "'w java_ports \<Rightarrow> pydict \<Rightarrow> mutation_setup \<Rightarrow> str list \<Rightarrow> mutation_tables
    \<Rightarrow> ('w, pydict + mutation_tables) cycle_prog" where
  "measure_classes p st ms [] t = ret (Inr t)"
| "measure_classes p st ms (fqn # fqns) t =
     seq (jp_pitest p (ms_repo ms) fqn (test_class_of fqn) (ms_module ms)) (\<lambda>(ok, output).
     if \<not> ok then seq (jp_clock p) (\<lambda>now. ret (Inl (pit_failure p ms fqn output (now - ms_started ms))))
     else seq (jp_pit_report p (ms_repo ms) (ms_module ms)) (\<lambda>found. (case found of
       None \<Rightarrow> seq (jp_clock p) (\<lambda>now. ret (Inl (missing_pit_report ms fqn (now - ms_started ms))))
     | Some report \<Rightarrow> seq (class_tables p st ms fqn report t) (\<lambda>t'.
         measure_classes p st ms fqns t'))))"

definition mutation_verdict :: "mutation_setup \<Rightarrow> mutation_tables \<Rightarrow> rat \<Rightarrow> pydict" where
  "mutation_verdict ms t elapsed =
     (let evidence =
        [(''mutation_gate'', PInt (ms_gate ms)), (''mutation_stats_by_class'', PDict (mt_stats t)),
         (''mutation_score_by_class'', score_dict (mt_scores t)),
         (''reports_by_class'', PDict (mt_reports t)), (''families_by_class'', PDict (mt_families t)),
         (''family_summaries'', PDict (mt_summaries t)), (''family_summary_paths'', PDict (mt_paths t)),
         (''examples_by_class'', PDict (mt_examples t)), (''repair_round_by_class'', PDict (mt_rounds t)),
         (''repair_flags_by_class'', PDict (mt_flags t)),
         (''failing_classes'', PList (map PStr (mt_failing t))), (''attempt'', PInt (ms_attempts ms)),
         (''scores_by_target'', score_dict (dict_update []
            (map (\<lambda>fqn. (fqn, rate_of (mt_scores t) fqn)) (mt_failing t)))),
         (''mutation_roi_enabled'', PBool (ms_roi ms)),
         (''mutation_roi_skip_expensive'', PBool (ms_skip_expensive ms)),
         (''elapsed_seconds'', PFloat elapsed)] in
      if mt_failing t = [] then phase_result ''passed'' evidence
      else phase_result ''repair'' (dict_set ''failure_reason'' (PStr ''mutation_below_gate'') evidence))"

definition measure_mutation :: "'w java_ports \<Rightarrow> pydict \<Rightarrow> ('w, pydict) cycle_prog" where
  "measure_mutation p st =
     seq (batch_of st) (\<lambda>batch.
     seq (or_python_error (int_or_zero st ''mutation_gate'')) (\<lambda>gate.
     if batch = [] then ret (failed_for ''measure_mutation_requires_stable_batch'')
     else if gate \<le> 0 then ret (phase_result ''skipped''
       [(''reason'', PStr ''mutation_gate_disabled''), (''mutation_gate'', PInt gate)])
     else
     seq (required_text (jp_shown p) st ''repo_path'') (\<lambda>repo.
     seq (or_python_error (phase_count st ''attempts_by_phase'' ''fix_mutation'' 0)) (\<lambda>attempts.
     seq (or_python_error (phase_evidence st ''measure_mutation'')) (\<lambda>previous.
     seq (or_python_error (sub_dict previous ''mutation_stats_by_class'')) (\<lambda>stats.
     seq (or_python_error (sub_dict previous ''families_by_class'')) (\<lambda>families.
     seq (or_python_error (sub_dict st ''method_efforts_by_class'')) (\<lambda>efforts.
     seq (jp_clock p) (\<lambda>started.
     (let ms = \<lparr>ms_repo = repo, ms_module = module_of (jp_shown p) st, ms_gate = gate,
            ms_attempts = attempts, ms_stats = stats, ms_families = families, ms_efforts = efforts,
            ms_roi = truthy (get_or st ''mutation_roi_enabled'' (PBool True)),
            ms_skip_expensive = truthy (get_or st ''mutation_roi_skip_expensive'' (PBool False)),
            ms_started = started\<rparr> in
     seq (measure_classes p st ms batch no_tables) (\<lambda>outcome. (case outcome of
       Inl stopped \<Rightarrow> ret stopped
     | Inr t \<Rightarrow> seq (jp_clock p) (\<lambda>now. ret (mutation_verdict ms t (now - started)))))))))))))))"

section \<open>The delegated quality gate\<close>

text \<open>
  The full gate's failure from the precheck, which a first narrower pass must not clear.
\<close>

definition unresolved_authoritative_failure ::
  "'w java_ports \<Rightarrow> pydict \<Rightarrow> str \<Rightarrow> str list \<Rightarrow> int \<Rightarrow> ('w, pydict option) cycle_prog" where
  "unresolved_authoritative_failure p st repo batch attempts =
     (if attempts \<noteq> 0 then ret None
      else seq (or_python_error (Option.bind (sub_dict st ''phase_results'')
          (\<lambda>results. sub_dict results ''precheck_existing_tests''))) (\<lambda>precheck.
        (let found = (if truthy (get precheck ''delegated_quality_gate'')
               then get precheck ''delegated_quality_gate''
               else get (as_dict (get precheck ''evidence'')) ''delegated_quality_gate'') in
         case found of
           PDict gate \<Rightarrow>
             (if truthy (get gate ''passed'') then ret None
              else seq (jp_failure_in_batch p st repo gate batch) (\<lambda>ours.
                ret (if ours then Some gate else None)))
         | _ \<Rightarrow> ret None)))"

definition gate_metric :: "pydict \<Rightarrow> bool \<Rightarrow> pydict" where
  "gate_metric detail mutation =
     (let metric = get detail (if mutation then ''mutation'' else ''coverage'') in
      if truthy metric then as_dict metric
      else if mutation then as_dict (get detail ''pitMutation'') else [])"

definition gate_repair_evidence :: "'w java_ports \<Rightarrow> pydict \<Rightarrow> pydict \<Rightarrow> str list \<Rightarrow> bool \<Rightarrow> pydict" where
  "gate_repair_evidence p evidence gate batch mutation =
     (let rate = get (gate_metric (jp_gate_detail p gate) mutation) ''rate'' in
      dict_update evidence
        [(''repair_kind'', PStr (if mutation then ''mutation'' else ''coverage'')),
         (''repair_phase'', PStr ''delegated_quality_gate''),
         (''scores_by_target'', PDict (if rate = PNone then []
            else [(join_with ''|'' (sort batch), rate)]))])"

definition gate_evidence :: "'w java_ports \<Rightarrow> pydict \<Rightarrow> rat \<Rightarrow> int \<Rightarrow> int \<Rightarrow> pydict" where
  "gate_evidence p gate elapsed attempts maximum =
     [(''quality_gate_result'', PDict gate), (''gate_seconds'', PFloat elapsed),
      (''attempt'', PInt attempts), (''max_attempts'', PInt maximum),
      (''failure_stage'', PStr (delegated_gate_failure_stage (jp_shown p) gate)), (''output'', PStr (jp_gate_feedback p gate))]"

definition overridden_evidence :: "'w java_ports \<Rightarrow> pydict \<Rightarrow> pydict \<Rightarrow> pydict" where
  "overridden_evidence p gate evidence = dict_update evidence
     [(''quality_gate_result'', PDict gate), (''failure_stage'', PStr (delegated_gate_failure_stage (jp_shown p) gate)),
      (''output'', PStr (jp_gate_feedback p gate)), (''scoped_pass_overridden'', PBool True)]"

text \<open>A failing gate: outside the batch it fails the unit, inside it asks for a repair.\<close>

definition judge_failed_gate ::
  "'w java_ports \<Rightarrow> pydict \<Rightarrow> str \<Rightarrow> str list \<Rightarrow> int \<Rightarrow> pydict \<Rightarrow> pydict \<Rightarrow> ('w, pydict) cycle_prog" where
  "judge_failed_gate p st repo batch attempts gate evidence =
     seq (jp_failure_in_batch p st repo gate batch) (\<lambda>ours.
     if \<not> ours then seq (jp_out_of_scope p gate st repo batch) (\<lambda>annotated.
       ret (phase_result ''failed'' (dict_update evidence
         [(''quality_gate_result'', PDict annotated),
          (''failure_reason'', PStr ''delegated_gate_failure_outside_batch''),
          (''output'', PStr (jp_gate_feedback p annotated))])))
     else
     (let mutation = (get evidence ''failure_stage'' = PStr ''mutation_fix'');
          ev = gate_repair_evidence p evidence gate batch mutation in
     seq (jp_prompt_feedback p repo (shown_as (jp_shown p) (get ev ''failure_stage'')) (attempts + 1)
        (shown_as (jp_shown p) (get ev ''output''))) (\<lambda>feedback.
     seq (jp_test_paths p st batch) (\<lambda>paths.
     (let ev2 = dict_update ev [(''prompt_feedback'', PStr feedback),
            (''allowed_test_paths'', PList (map PStr paths))] in
     if \<not> mutation then ret (phase_result ''repair'' ev2)
     else seq (jp_write_survivors p repo gate batch) (\<lambda>artifact.
       ret (phase_result ''repair'' (dict_set ''survivor_artifact''
         (case artifact of None \<Rightarrow> PNone | Some path \<Rightarrow> PStr path) ev2))))))))"

definition verify_delegated_quality_gate :: "'w java_ports \<Rightarrow> pydict \<Rightarrow> ('w, pydict) cycle_prog" where
  "verify_delegated_quality_gate p st =
     (if text_in (jp_shown p) st ''quality_gate_backend'' [] \<noteq> ''maven_enforcer''
      then ret (phase_result ''skipped'' [(''reason'', PStr ''delegated_quality_gate_not_configured'')])
      else
      seq (batch_of st) (\<lambda>batch.
      if batch = [] then ret (failed_for ''delegated_quality_gate_requires_stable_batch'')
      else
      seq (required_text (jp_shown p) st ''repo_path'') (\<lambda>repo.
      seq (jp_clock p) (\<lambda>started.
      seq (jp_run_gate p st repo batch) (\<lambda>gate.
      seq (jp_clock p) (\<lambda>now.
      seq (or_python_error (phase_count st ''attempts_by_phase'' ''delegated_quality_gate'' 0)) (\<lambda>attempts.
      seq (or_python_error (phase_count st ''max_attempts_by_phase'' ''delegated_quality_gate'' 6)) (\<lambda>maximum.
      (let evidence = gate_evidence p gate (now - started) attempts maximum in
      if \<not> truthy (get gate ''passed'') then judge_failed_gate p st repo batch attempts gate evidence
      else seq (unresolved_authoritative_failure p st repo batch attempts) (\<lambda>unresolved.
        (case unresolved of
           None \<Rightarrow> ret (phase_result ''passed'' evidence)
         | Some full \<Rightarrow> judge_failed_gate p st repo batch attempts full
             (overridden_evidence p full evidence))))))))))))"

section \<open>Interpreting the plan and the generation\<close>

definition plan_needs_stricter_replan :: "str \<Rightarrow> pyval list \<Rightarrow> bool" where
  "plan_needs_stricter_replan text strict = (strict \<noteq> [] \<and>
     (let plain = lower text in
      (\<exists>m \<in> set [''methods required for gate'', ''estimated reach'']. \<not> contains plain m)
      \<or> (\<exists>m \<in> set [''do not chase class-wide completeness'', ''defer heavier branches'',
            ''high-value public methods first'', ''fall back to'']. contains plain m)))"

definition terminal_status :: "str \<Rightarrow> str \<Rightarrow> (str \<Rightarrow> str) \<Rightarrow> str" where
  "terminal_status prefix status upper =
     (if status = ''failed'' then ''PROVIDER_ERROR''
      else if status = ''skipped'' then prefix @ ''_TIMEOUT''
      else prefix @ ''_'' @ upper status)"

definition replan_reasons :: "str \<Rightarrow> pyval list \<Rightarrow> str list" where
  "replan_reasons text strict =
     (if strip text = [] then [''The planning turn emitted no final plan text.'']
      else if plan_needs_stricter_replan text strict then
        [''The plan is structurally too narrow for a strict coverage target; '' @
         ''include methods required for gate, estimated reach, blockers, and implementation waves.'']
      else [])"

definition session_or_unknown :: "(pyval \<Rightarrow> str) \<Rightarrow> pyval \<Rightarrow> str" where
  "session_or_unknown shown v = (if truthy v then shown_as shown v else ''unknown'')"

definition interpret_plan_tests :: "'w java_ports \<Rightarrow> pydict \<Rightarrow> pydict \<Rightarrow> ('w, pydict) cycle_prog" where
  "interpret_plan_tests p st turn =
     (let shown = jp_shown p; status = turn_status_of shown st turn;
          text = text_in shown st ''turn_text'' (text_in shown turn ''text'' []) in
     seq (or_python_error (sub_dict st ''attempts_by_phase'')) (\<lambda>counts.
     seq (or_python_error (phase_count st ''max_attempts_by_phase'' ''plan_tests'' 1)) (\<lambda>maximum.
     seq (or_python_error (phase_count st ''attempts_by_phase'' ''plan_tests'' 0)) (\<lambda>attempt.
     seq (or_python_error (last_session_locator shown turn)) (\<lambda>session.
     seq (or_python_error (session_refs shown turn)) (\<lambda>refs.
     (let base = [(''turn_status'', PStr status), (''session_id'', session),
                  (''session_refs'', PList (map PDict refs))] in
     if status \<noteq> ''completed'' then ret (phase_result ''failed'' (base @
       [(''replan_reasons'', PList []), (''failure_reason'', PStr (''planning_turn_'' @ status)),
        (''terminal_status'', PStr (terminal_status ''PLANNING'' status ascii_upper))]))
     else
     seq (or_python_error (state_list st ''strict_coverage_classes'')) (\<lambda>strict.
     (let reasons = replan_reasons text strict;
          evidence = base @ [(''replan_reasons'', PList (map PStr reasons))] in
     if reasons \<noteq> [] \<and> attempt < maximum then
       seq (required_text shown st ''repo_path'') (\<lambda>repo.
       seq (batch_of st) (\<lambda>batch.
       seq (jp_write_candidate p repo (session_or_unknown shown session) batch text reasons) (\<lambda>candidate.
         ret [(''phase_outcome'', PStr ''retry''),
              (''attempts_by_phase'', PDict (dict_set ''plan_tests'' (PInt (attempt + 1)) counts)),
              (''evidence'', PDict (dict_set ''candidate_plan_path'' (PStr candidate) evidence))])))
     else if reasons \<noteq> [] then ret (phase_result ''exhausted'' (dict_update evidence
       [(''failure_reason'', PStr ''planning_attempts_exhausted''),
        (''terminal_status'', PStr ''PLANNING_TIMEOUT'')]))
     else
       seq (required_text shown st ''repo_path'') (\<lambda>repo.
       seq (batch_of st) (\<lambda>batch.
       seq (jp_write_plan p repo (session_or_unknown shown session) batch text) (\<lambda>path.
       (let done_evidence = dict_update evidence [(''plan_path'', PStr path), (''plan_text'', PStr text)] in
        if text_in shown st ''stop_after_stage'' [] = ''plan_tests''
        then ret (phase_result ''failed'' (dict_set ''stopped_early'' (PBool True) done_evidence))
        else ret [(''phase_outcome'', PStr ''passed''), (''plan_path'', PStr path),
                  (''plan_text'', PStr text), (''evidence'', PDict done_evidence)])))))))))))))"

text \<open>The expected test files that are not there.\<close>

definition missing_files ::
  "'w java_ports \<Rightarrow> str \<Rightarrow> str \<Rightarrow> str list \<Rightarrow> ('w, str list) cycle_prog" where
  "missing_files p repo mname batch = collect (\<lambda>fqn.
     seq (jp_is_file p repo (expected_test_file_rel mname fqn)) (\<lambda>there.
       ret (if there then None else Some (expected_test_file_rel mname fqn)))) batch"

definition interpret_generate_tests :: "'w java_ports \<Rightarrow> pydict \<Rightarrow> pydict \<Rightarrow> ('w, pydict) cycle_prog" where
  "interpret_generate_tests p st turn =
     (let shown = jp_shown p; status = turn_status_of shown st turn in
     seq (or_python_error (sub_dict st ''attempts_by_phase'')) (\<lambda>counts.
     seq (or_python_error (last_session_locator shown turn)) (\<lambda>session.
     seq (or_python_error (session_refs shown turn)) (\<lambda>refs.
     seq (or_python_error (float_or_zero turn ''elapsed_seconds'')) (\<lambda>elapsed.
     (let evidence = [(''turn_status'', PStr status), (''session_id'', session),
            (''session_refs'', PList (map PDict refs)), (''generation_seconds'', PFloat elapsed)] in
     if status \<noteq> ''completed'' then ret (phase_result ''failed'' (dict_update evidence
       [(''failure_reason'', PStr (''generation_turn_'' @ status)),
        (''terminal_status'', PStr (if status = ''failed'' then ''PROVIDER_ERROR'' else ''GENERATION_TIMEOUT''))]))
     else
     seq (required_text shown st ''repo_path'') (\<lambda>repo.
     seq (batch_of st) (\<lambda>batch.
     seq (missing_files p repo (module_of shown st) batch) (\<lambda>missing.
     (let ev = dict_set ''missing_test_files'' (PList (map PStr missing)) evidence in
     if missing \<noteq> [] then
       seq (or_python_error (phase_count st ''attempts_by_phase'' ''generate_tests'' 0)) (\<lambda>attempt.
       seq (or_python_error (phase_count st ''max_attempts_by_phase'' ''generate_tests'' 1)) (\<lambda>maximum.
       if attempt < maximum then ret
         [(''phase_outcome'', PStr ''retry''),
          (''attempts_by_phase'', PDict (dict_set ''generate_tests'' (PInt (attempt + 1)) counts)),
          (''evidence'', PDict ev)]
       else ret (phase_result ''exhausted'' (dict_update ev
         [(''failure_reason'', PStr ''incomplete_generation_batch''),
          (''terminal_status'', PStr ''INCOMPLETE_BATCH'')]))))
     else if text_in shown st ''stop_after_stage'' [] = ''generation''
     then ret (phase_result ''failed'' (dict_set ''stopped_early'' (PBool True) ev))
     else ret (phase_result ''passed'' ev)))))))))))"

section \<open>The backend\<close>

text \<open>An unknown phase name raises.\<close>

definition java_run_phase :: "'w java_ports \<Rightarrow> str \<Rightarrow> pydict \<Rightarrow> ('w, pydict) cycle_prog" where
  "java_run_phase p phase st =
     (if phase = ''precheck_existing_tests'' then precheck_phase p st
      else if phase = ''verify_compile'' then verify_compile p st
      else if phase = ''verify_tests'' then verify_tests p st
      else if phase = ''measure_coverage'' then measure_coverage p st
      else if phase = ''measure_mutation'' then measure_mutation p st
      else if phase = ''delegated_quality_gate_verify'' then verify_delegated_quality_gate p st
      else if phase = ''complete_generation'' then jp_complete p st
      else raise (BackendError phase))"

definition java_interpret :: "'w java_ports \<Rightarrow> str \<Rightarrow> pydict \<Rightarrow> pyval \<Rightarrow> ('w, pydict) cycle_prog" where
  "java_interpret p phase st turn_value =
     seq (or_python_error (case turn_value of PDict d \<Rightarrow> Some d
       | v \<Rightarrow> if truthy v then None else Some [])) (\<lambda>turn.
     if phase = ''plan_tests'' then interpret_plan_tests p st turn
     else if phase = ''generate_tests'' then interpret_generate_tests p st turn
     else if phase = ''fix_compile'' then or_python_error (interpret_fix_compile (jp_shown p) st turn)
     else if phase = ''fix_tests'' then or_python_error (interpret_fix_tests (jp_shown p) st turn)
     else if phase = ''fix_coverage'' then or_python_error (interpret_fix_coverage (jp_shown p) st turn)
     else if phase = ''fix_mutation'' then or_python_error (interpret_fix_mutation (jp_shown p) st turn)
     else if phase = ''delegated_quality_gate''
       then or_python_error (interpret_delegated_quality_gate (jp_shown p) st turn)
     else raise (BackendError phase))"

end
