(* ===== verification/JavaCycle.thy ===== *)
theory JavaCycle
  imports CycleBounds JavaPhases RepairFacts
begin

text \<open>
  The Java backend keeps the contract of \<open>CycleBounds\<close>: every deterministic phase states its
  outcome and leaves the counters alone, a repair is asked for only while attempts are left,
  and an interpretation spends one attempt of its phase.
\<close>


section \<open>What the deterministic phases answer\<close>

lemma get_phase_result [simp]:
  "get (phase_result s e) ''phase_outcome'' = PStr s" "get (phase_result s e) ''evidence'' = PDict e"
  "keeps_counters (phase_result s e)"
  by (simp_all add: phase_result_def keeps_counters_def)

lemmas phase_runs = res_simps or_python_run required_text_def batch_of_def

definition states_result :: "pydict \<Rightarrow> bool" where
  "states_result r \<longleftrightarrow> keeps_counters r \<and> (\<exists>s. get r ''phase_outcome'' = PStr s)"

lemma states_phase_result [simp]: "states_result (phase_result s e)"
  by (simp add: states_result_def)

lemma compile_verdict_result [simp]: "states_result (compile_verdict p seen a m e paths scoped)"
  by (simp add: compile_verdict_def Let_def)

lemma failing_compile_result:
  "failing_compile p st e paths scoped = Some r \<Longrightarrow> states_result r"
  by (auto simp: failing_compile_def bind_eq_Some_conv)

lemma verify_compile_result: "verify_compile p st w = (Inr r, w') \<Longrightarrow> states_result r"
  by (auto simp: verify_compile_def phase_runs Let_def dest: failing_compile_result split: if_splits)

lemma verify_tests_result: "verify_tests p st w = (Inr r, w') \<Longrightarrow> states_result r"
  by (auto simp: verify_tests_def phase_runs Let_def failed_for_def test_verdict_def split: if_splits)

lemma measure_coverage_result: "measure_coverage p st w = (Inr r, w') \<Longrightarrow> states_result r"
  by (auto simp: measure_coverage_def phase_runs Let_def failed_for_def coverage_verdict_def
      split: if_splits option.splits)

lemma pit_failure_result [simp]: "states_result (pit_failure p ms fqn output elapsed)"
  by (simp add: pit_failure_def Let_def split: option.split)

lemma measure_classes_result:
  "measure_classes p st ms fqns t w = (Inr (Inl r), w') \<Longrightarrow> states_result r"
  by (induction fqns arbitrary: t w)
    (auto simp: phase_runs missing_pit_report_def split: if_splits option.splits)

lemma mutation_verdict_result [simp]: "states_result (mutation_verdict ms t elapsed)"
  by (simp add: mutation_verdict_def Let_def)

lemma measure_mutation_result: "measure_mutation p st w = (Inr r, w') \<Longrightarrow> states_result r"
  by (auto simp: measure_mutation_def phase_runs Let_def failed_for_def
      split_sum_ex dest: measure_classes_result split: if_splits)

lemma judge_failed_gate_result:
  "judge_failed_gate p st repo batch attempts gate e w = (Inr r, w') \<Longrightarrow> states_result r"
  by (auto simp: judge_failed_gate_def phase_runs Let_def split: if_splits)

lemma delegated_result: "verify_delegated_quality_gate p st w = (Inr r, w') \<Longrightarrow> states_result r"
  by (auto simp: verify_delegated_quality_gate_def phase_runs Let_def failed_for_def
      dest: judge_failed_gate_result split: if_splits option.splits)


text \<open>The precheck has one of three results.\<close>

definition precheck_keys :: "pydict \<Rightarrow> bool" where
  "precheck_keys r \<longleftrightarrow> (\<exists>results timings. r = precheck_result results timings)
     \<or> (\<exists>gate seconds. r = [(''_precheck_action'', PStr ''delegated_repair''),
          (''delegated_quality_gate'', PDict gate), (''delegated_quality_gate_seconds'', PFloat seconds)])"

lemma precheck_keys_result: "precheck_keys (precheck_result results timings)"
  by (auto simp: precheck_keys_def)

lemma class_level_precheck_keys:
  "class_level_precheck p st repo mname batch gate mgate started w = (Inr (Some r), w')
    \<Longrightarrow> precheck_keys r"
  unfolding class_level_precheck_def
  by (auto simp: phase_runs Let_def precheck_keys_result split_option_ex simp del: precheck_rows.simps
      split: if_split_asm)

lemma diff_enforcer_precheck_keys:
  "diff_enforcer_precheck p st repo batch started w = (Inr (Some r), w') \<Longrightarrow> precheck_keys r"
  unfolding diff_enforcer_precheck_def
  by (auto simp: phase_runs precheck_keys_result split: if_split_asm) (auto simp: precheck_keys_def)

lemma precheck_existing_keys:
  "precheck_existing_tests p st repo mname batch gate mgate started w = (Inr (Some r), w')
    \<Longrightarrow> precheck_keys r"
  by (auto simp: precheck_existing_tests_def split: if_splits
      dest: class_level_precheck_keys diff_enforcer_precheck_keys)

lemma precheck_outcome_result:
  "(\<And>r. found = Some r \<Longrightarrow> precheck_keys r) \<Longrightarrow> states_result (precheck_outcome found)"
  by (cases found) (auto simp: precheck_outcome_def states_result_def keeps_counters_def
      precheck_keys_def precheck_result_def get_dict_set)

lemma precheck_existing_result:
  "precheck_existing_tests p st repo mname batch gate mgate started w = (Inr found, w')
    \<Longrightarrow> states_result (precheck_outcome found)"
  by (rule precheck_outcome_result) (simp add: precheck_existing_keys)

lemma empty_batch_result [simp]:
  "states_result [(''phase_outcome'', PStr s), (''error'', PStr e)]"
  by (simp add: states_result_def keeps_counters_def)

lemma precheck_phase_result: "precheck_phase p st w = (Inr r, w') \<Longrightarrow> states_result r"
  by (auto simp: precheck_phase_def phase_runs Let_def split: if_split_asm
      dest: precheck_existing_result)

lemma java_run_result:
  "java_run_phase p phase st w = (Inr r, w') \<Longrightarrow> phase \<noteq> ''complete_generation'' \<Longrightarrow> states_result r"
  unfolding java_run_phase_def
  by (auto simp: raise_run split: if_split_asm dest: precheck_phase_result verify_compile_result
      verify_tests_result measure_coverage_result measure_mutation_result delegated_result)

section \<open>A repair is affordable\<close>

text \<open>The repair phase whose attempts the policy counts.\<close>

definition counted_phase :: "(pyval \<Rightarrow> str) \<Rightarrow> repair_kind \<Rightarrow> pydict \<Rightarrow> str" where
  "counted_phase shown kind evidence = (if truthy (get evidence ''repair_phase'')
     then shown_as shown (get evidence ''repair_phase'') else repair_phase_for kind)"

lemma granted_round:
  assumes "apply_repair_progress shown feedback phase st r = Some j"
    and "kind_of_phase phase (as_dict (get r ''evidence'')) = Some kind"
    and "get r ''phase_outcome'' = PStr ''repair''" "get j ''phase_outcome'' = PStr ''repair''"
  shows "\<exists>a m. phase_count st ''attempts_by_phase'' (counted_phase shown kind (as_dict (get r ''evidence''))) 0 = Some a
    \<and> phase_count st ''max_attempts_by_phase'' (counted_phase shown kind (as_dict (get r ''evidence''))) default_hard_cap = Some m
    \<and> a < m"
proof -
  have proj: "get (judged_projection feedback st r h x ev ks d b m) ''phase_outcome'' = PStr x"
    for h x ev ks d b m
    by (simp add: judged_projection_def get_dict_update)
  have cap: "hard_cap \<le> attempts \<Longrightarrow> \<not> pd_repair (decide_repair_progress k sc pb attempts hard_cap f)"
    for k sc pb attempts hard_cap f
    by (simp add: decide_repair_progress_def split_beta Let_def)
  show ?thesis
    using assms unfolding apply_repair_progress_def Let_def counted_phase_def [symmetric]
    by (auto simp: bind_eq_Some_conv proj split: if_split_asm dest: cap) (meson cap not_le)+
qed

definition affordable :: "phase \<Rightarrow> pydict \<Rightarrow> bool" where
  "affordable ph st \<longleftrightarrow> (\<exists>a m. phase_count st ''attempts_by_phase'' (phase_label ph) 0 = Some a
     \<and> phase_count st ''max_attempts_by_phase'' (phase_label ph) (assumed_maximum ph) = Some m \<and> a < m)"

lemma affordable_left: "affordable ph st \<Longrightarrow> 0 < left ph st"
  by (auto simp: affordable_def left_def)

lemma affordableI:
  "phase_count st ''attempts_by_phase'' (phase_label ph) 0 = Some a \<Longrightarrow>
   phase_count st ''max_attempts_by_phase'' (phase_label ph) (assumed_maximum ph) = Some m \<Longrightarrow>
   a < m \<Longrightarrow> affordable ph st"
  by (auto simp: affordable_def)

lemma compile_verdict_repair:
  "get (compile_verdict p seen a m e paths scoped) ''phase_outcome'' = PStr ''repair'' \<Longrightarrow> a < m"
  by (auto simp: compile_verdict_def Let_def split: if_split_asm)

lemma failing_compile_repair:
  "failing_compile p st e paths scoped = Some r \<Longrightarrow> get r ''phase_outcome'' = PStr ''repair'' \<Longrightarrow>
    affordable FixCompile st"
  by (auto simp: failing_compile_def bind_eq_Some_conv affordable_def dest: compile_verdict_repair)

lemma verify_compile_repair:
  "verify_compile p st w = (Inr r, w') \<Longrightarrow> get r ''phase_outcome'' = PStr ''repair'' \<Longrightarrow> affordable FixCompile st"
  by (auto simp: verify_compile_def phase_runs Let_def dest: failing_compile_repair split: if_split_asm)

lemma verify_tests_repair:
  "verify_tests p st w = (Inr r, w') \<Longrightarrow> get r ''phase_outcome'' = PStr ''repair'' \<Longrightarrow> affordable FixTests st"
  by (auto simp: verify_tests_def phase_runs Let_def failed_for_def test_verdict_def
      affordable_def split: if_split_asm)

text \<open>The evidence a measurement gives the policy names no repair phase of its own.\<close>

definition names_phase :: "pydict \<Rightarrow> bool" where
  "names_phase r = truthy (get (as_dict (get r ''evidence'')) ''repair_phase'')"

lemma coverage_verdict_names:
  "get e ''repair_phase'' = PNone \<Longrightarrow> \<not> names_phase (coverage_verdict e report gate batch cov unc)"
  by (simp add: coverage_verdict_def Let_def names_phase_def get_dict_set get_dict_update)

lemma measure_coverage_repair:
  "measure_coverage p st w = (Inr r, w') \<Longrightarrow> get r ''phase_outcome'' = PStr ''repair'' \<Longrightarrow> \<not> names_phase r"
  by (auto simp: measure_coverage_def phase_runs Let_def failed_for_def coverage_verdict_names
      split_option_ex split: if_split_asm)

lemma pit_failure_outcome [simp]:
  "get (pit_failure p ms fqn output elapsed) ''phase_outcome'' \<noteq> PStr ''repair''"
  by (simp add: pit_failure_def Let_def split: option.split)

lemma measure_classes_no_repair:
  "measure_classes p st ms fqns t w = (Inr (Inl r), w') \<Longrightarrow> get r ''phase_outcome'' \<noteq> PStr ''repair''"
  by (induction fqns arbitrary: t w)
    (auto simp: phase_runs missing_pit_report_def split_option_ex split: if_split_asm)

lemma mutation_verdict_names [simp]: "\<not> names_phase (mutation_verdict ms t elapsed)"
  by (simp add: mutation_verdict_def Let_def names_phase_def get_dict_set)

lemma measure_mutation_repair:
  "measure_mutation p st w = (Inr r, w') \<Longrightarrow> get r ''phase_outcome'' = PStr ''repair'' \<Longrightarrow> \<not> names_phase r"
  by (auto simp: measure_mutation_def phase_runs Let_def failed_for_def split_sum_ex
      split: if_split_asm dest: measure_classes_no_repair)

definition gate_repair :: "pydict \<Rightarrow> bool" where
  "gate_repair r \<longleftrightarrow> (let e = as_dict (get r ''evidence'') in
     get e ''repair_phase'' = PStr ''delegated_quality_gate''
     \<and> (get e ''repair_kind'' = PStr ''mutation'' \<or> get e ''repair_kind'' = PStr ''coverage''))"

lemma judge_failed_gate_repair:
  "judge_failed_gate p st repo batch attempts gate e w = (Inr r, w') \<Longrightarrow>
    get r ''phase_outcome'' = PStr ''repair'' \<Longrightarrow> gate_repair r"
  by (auto simp: judge_failed_gate_def phase_runs Let_def gate_repair_def gate_repair_evidence_def
      get_dict_update get_dict_set split: if_split_asm)

lemma delegated_repair:
  "verify_delegated_quality_gate p st w = (Inr r, w') \<Longrightarrow> get r ''phase_outcome'' = PStr ''repair''
    \<Longrightarrow> gate_repair r"
  by (auto simp: verify_delegated_quality_gate_def phase_runs Let_def failed_for_def split_option_ex
      dest: judge_failed_gate_repair split: if_split_asm)

lemma score_driven_phases [simp]:
  "score_driven_phase ''measure_coverage'' = Some KCoverage"
  "score_driven_phase ''measure_mutation'' = Some KMutation"
  "score_driven_phase ''delegated_quality_gate_verify'' = None"
  by (simp_all add: score_driven_phase_def score_driven_kinds_def)

lemma repair_phases [simp]:
  "repair_phase_for KCoverage = ''fix_coverage''" "repair_phase_for KMutation = ''fix_mutation''"
  by (simp_all add: repair_phase_for_def)

lemma java_repair_affordable:
  assumes r: "java_run_phase p (phase_label ph) st w = (Inr r, w')"
    and j: "apply_repair_progress shown feedback (phase_label ph) st r = Some j"
    and o: "get j ''phase_outcome'' = PStr ''repair''" and f: "repair_of ph = Some f"
  shows "affordable f st"
proof -
  have n: "phase_label ph \<noteq> ''complete_generation''" using f by (cases ph) auto
  from java_run_result [OF r n] obtain s where "keeps_counters r" "get r ''phase_outcome'' = PStr s"
    by (auto simp: states_result_def)
  with judged_keeps [OF j] o have ro: "get r ''phase_outcome'' = PStr ''repair''" by auto
  note granted = granted_round [OF j _ ro o]
  show ?thesis
  proof (cases ph)
    case VerifyCompile
    with r f ro show ?thesis by (auto simp: java_run_phase_def dest: verify_compile_repair)
  next
    case VerifyTests
    with r f ro show ?thesis by (auto simp: java_run_phase_def dest: verify_tests_repair)
  next
    case MeasureCoverage
    with r ro have "\<not> names_phase r" by (auto simp: java_run_phase_def dest: measure_coverage_repair)
    then show ?thesis using granted [of KCoverage] MeasureCoverage f
      by (simp add: kind_of_phase_def counted_phase_def names_phase_def affordable_def default_hard_cap_def)
  next
    case MeasureMutation
    with r ro have "\<not> names_phase r" by (auto simp: java_run_phase_def dest: measure_mutation_repair)
    then show ?thesis using granted [of KMutation] MeasureMutation f
      by (simp add: kind_of_phase_def counted_phase_def names_phase_def affordable_def default_hard_cap_def)
  next
    case DelegatedVerify
    with r ro have g: "gate_repair r" by (auto simp: java_run_phase_def dest: delegated_repair)
    then obtain k where "declared_kind (as_dict (get r ''evidence'')) = Some k"
      by (auto simp: gate_repair_def declared_kind_def score_driven_kinds_def Let_def)
    with g show ?thesis using granted [of k] DelegatedVerify f
      by (simp add: kind_of_phase_def counted_phase_def gate_repair_def shown_as_def Let_def
          affordable_def default_hard_cap_def)
  qed (use f in auto)
qed

section \<open>What an interpretation spends\<close>

lemma advance_one_other: "advance_one ph d = Some d' \<Longrightarrow> k \<noteq> ph \<Longrightarrow> get d' k = get d k \<and> has_key d' k = has_key d k"
  by (auto simp: advance_one_def get_dict_set split: if_split_asm)

lemma advance_one_same:
  "advance_one ph d = Some d' \<Longrightarrow> \<exists>n. (if has_key d ph then py_int (get d ph) else Some 0) = Some n
    \<and> get d' ph = PInt (n + 1) \<and> has_key d' ph"
  by (auto simp: advance_one_def get_dict_set)

lemma advance_all_other: "advance_all ps d = Some d' \<Longrightarrow> k \<notin> set ps \<Longrightarrow>
    get d' k = get d k \<and> has_key d' k = has_key d k"
  by (induction ps arbitrary: d) (auto simp: bind_eq_Some_conv dest!: advance_one_other)

lemma labels_not_invalidated:
  "ph \<in> set budgeted \<Longrightarrow> phase_label ph \<notin> set invalidated_by_repair"
  by (auto simp: budgeted_def invalidated_by_repair_def)

text \<open>The counts of two states that differ in the attempts of one phase.\<close>

definition one_more :: "phase \<Rightarrow> pydict \<Rightarrow> pydict \<Rightarrow> bool" where
  "one_more ph st st' \<longleftrightarrow> get st' ''max_attempts_by_phase'' = get st ''max_attempts_by_phase''
     \<and> (\<forall>q \<in> set budgeted. q \<noteq> ph \<longrightarrow>
          phase_count st' ''attempts_by_phase'' (phase_label q) 0 = phase_count st ''attempts_by_phase'' (phase_label q) 0)
     \<and> (\<exists>n. phase_count st ''attempts_by_phase'' (phase_label ph) 0 = Some n
          \<and> phase_count st' ''attempts_by_phase'' (phase_label ph) 0 = Some (n + 1))"

lemma one_more_left:
  assumes "one_more ph st st'"
  shows "\<And>q. q \<in> set budgeted \<Longrightarrow> q \<noteq> ph \<Longrightarrow> left q st' = left q st" "left ph st' = left ph st - 1"
proof -
  have max: "phase_count st' ''max_attempts_by_phase'' q d = phase_count st ''max_attempts_by_phase'' q d" for q d
    using assms by (simp add: one_more_def phase_count_def sub_dict_def)
  show "left q st' = left q st" if "q \<in> set budgeted" "q \<noteq> ph" for q
    using assms that by (simp add: left_def max one_more_def)
  show "left ph st' = left ph st - 1"
    using assms by (auto simp: left_def max one_more_def split: option.split)
qed

lemma sum_list_one_less:
  "distinct xs \<Longrightarrow> x \<in> set xs \<Longrightarrow> (\<And>y. y \<in> set xs \<Longrightarrow> y \<noteq> x \<Longrightarrow> f y = g y) \<Longrightarrow> f x = g x - (1::nat) \<Longrightarrow>
    sum_list (map f xs) = sum_list (map g xs) - (if 0 < g x then 1 else 0)"
proof (induction xs)
  case Nil
  then show ?case by simp
next
  case (Cons a xs)
  show ?case
  proof (cases "a = x")
    case True
    with Cons.prems have "map f xs = map g xs" by auto
    then have "sum_list (map f xs) = sum_list (map g xs)" by (rule arg_cong)
    with True Cons.prems(4) show ?thesis by simp
  next
    case False
    have le: "g x \<le> sum_list (map g xs)"
      using Cons.prems(2) False by (auto intro: member_le_sum_list)
    have "sum_list (map f xs) = sum_list (map g xs) - (if 0 < g x then 1 else 0)"
      using Cons False by auto
    with le False Cons.prems(3) [of a] show ?thesis by auto
  qed
qed

lemma one_more_attempts:
  assumes "one_more ph st st'" "ph \<in> set budgeted"
  shows "attempts_left st' = attempts_left st - (if 0 < left ph st then 1 else 0)"
    "0 < left ph st \<Longrightarrow> 0 < attempts_left st"
proof -
  show "attempts_left st' = attempts_left st - (if 0 < left ph st then 1 else 0)"
    unfolding attempts_left_def
    by (rule sum_list_one_less) (use assms(2) one_more_left [OF assms(1)] in \<open>auto simp: budgeted_def\<close>)
  show "0 < attempts_left st" if "0 < left ph st"
    using assms(2) that unfolding attempts_left_def budgeted_def by auto
qed

lemma phase_count_PDict: "get st key = PDict d \<Longrightarrow>
    phase_count st key ph missing = (if has_key d ph then py_int (get d ph) else Some missing)"
  by (simp add: phase_count_def sub_dict_def)

lemma sub_dict_count: "sub_dict st key = Some d \<Longrightarrow>
    phase_count st key ph missing = (if has_key d ph then py_int (get d ph) else Some missing)"
  by (simp add: phase_count_def)

lemma interpret_repair_result:
  assumes "interpret_repair shown (phase_label ph) st turn = Some r" "ph \<in> set budgeted"
  shows "get r ''phase_outcome'' = PStr ''passed'' \<and> \<not> has_key r ''max_attempts_by_phase''
    \<and> (\<forall>st'. get st' ''max_attempts_by_phase'' = get st ''max_attempts_by_phase'' \<longrightarrow>
         get st' ''attempts_by_phase'' = get r ''attempts_by_phase'' \<longrightarrow> one_more ph st st')
    \<and> has_key r ''attempts_by_phase''"
proof -
  from assms(1) obtain c a s e where c: "sub_dict st ''attempts_by_phase'' = Some c"
    and a: "advance_all invalidated_by_repair c = Some a" and s: "advance_one (phase_label ph) a = Some s"
    and r: "r = [(''phase_outcome'', PStr ''passed''), (''attempts_by_phase'', PDict s), (''evidence'', PDict e)]"
    by (auto simp: interpret_repair_def bind_eq_Some_conv advance_verification_attempts_def)
  have inj: "phase_label q \<noteq> phase_label ph" if "q \<noteq> ph" "q \<in> set budgeted" for q
    using that assms(2) by (auto simp: budgeted_def)
  have other: "get s (phase_label q) = get c (phase_label q) \<and> has_key s (phase_label q) = has_key c (phase_label q)"
    if "q \<noteq> ph" "q \<in> set budgeted" for q
    using advance_one_other [OF s inj [OF that]] advance_all_other [OF a labels_not_invalidated [OF that(2)]] by simp
  have ac: "get a (phase_label ph) = get c (phase_label ph)" "has_key a (phase_label ph) = has_key c (phase_label ph)"
    using advance_all_other [OF a labels_not_invalidated [OF assms(2)]] by auto
  have "one_more ph st st'" if m: "get st' ''max_attempts_by_phase'' = get st ''max_attempts_by_phase''"
    and t: "get st' ''attempts_by_phase'' = PDict s" for st'
    using m advance_one_same [OF s] other
    unfolding one_more_def phase_count_PDict [OF t] sub_dict_count [OF c] ac
    by (auto simp: py_int_def)
  then show ?thesis by (auto simp: r)
qed

text \<open>
  A planning or a generation turn that is asked to retry spends one attempt; every other
  interpretation leaves the counters alone.
\<close>

definition retries_once :: "phase \<Rightarrow> pydict \<Rightarrow> pydict \<Rightarrow> bool" where
  "retries_once ph st r \<longleftrightarrow> states_result r \<and> get r ''phase_outcome'' \<noteq> PStr ''retry''
     \<or> (\<exists>c a m e. sub_dict st ''attempts_by_phase'' = Some c
          \<and> phase_count st ''attempts_by_phase'' (phase_label ph) 0 = Some a
          \<and> phase_count st ''max_attempts_by_phase'' (phase_label ph) (assumed_maximum ph) = Some m \<and> a < m
          \<and> r = [(''phase_outcome'', PStr ''retry''),
                 (''attempts_by_phase'', PDict (dict_set (phase_label ph) (PInt (a + 1)) c)), (''evidence'', e)])"

lemma retries_phase_result: "s \<noteq> ''retry'' \<Longrightarrow> retries_once ph st (phase_result s e)"
  by (simp add: retries_once_def)

lemma retries_plan_passed:
  "retries_once ph st [(''phase_outcome'', PStr ''passed''), (''plan_path'', x), (''plan_text'', y), (''evidence'', z)]"
  by (simp add: retries_once_def states_result_def keeps_counters_def)

lemma retries_retry:
  "sub_dict st ''attempts_by_phase'' = Some c \<Longrightarrow>
   phase_count st ''attempts_by_phase'' (phase_label ph) 0 = Some a \<Longrightarrow>
   phase_count st ''max_attempts_by_phase'' (phase_label ph) (assumed_maximum ph) = Some m \<Longrightarrow> a < m \<Longrightarrow>
   retries_once ph st [(''phase_outcome'', PStr ''retry''),
      (''attempts_by_phase'', PDict (dict_set (phase_label ph) (PInt (a + 1)) c)), (''evidence'', e)]"
  by (auto simp: retries_once_def)

lemmas retries_intros = retries_phase_result retries_plan_passed
  retries_retry [of _ _ PlanTests, simplified] retries_retry [of _ _ GenerateTests, simplified]

lemma interpret_plan_result: "interpret_plan_tests p st turn w = (Inr r, w') \<Longrightarrow> retries_once PlanTests st r"
  unfolding interpret_plan_tests_def Let_def
  by (auto simp: phase_runs intro: retries_intros split: if_split_asm)

lemma interpret_generate_result:
  "interpret_generate_tests p st turn w = (Inr r, w') \<Longrightarrow> retries_once GenerateTests st r"
  unfolding interpret_generate_tests_def Let_def
  by (auto simp: phase_runs intro: retries_intros split: if_split_asm)

lemma retries_once_one_more:
  assumes "retries_once ph st r" "ph \<in> set budgeted"
  shows "\<not> has_key r ''max_attempts_by_phase'' \<and> (\<exists>s. get r ''phase_outcome'' = PStr s)"
    and "get r ''phase_outcome'' \<noteq> PStr ''retry'' \<Longrightarrow> \<not> has_key r ''attempts_by_phase''"
    and "get r ''phase_outcome'' = PStr ''retry'' \<Longrightarrow> has_key r ''attempts_by_phase'' \<and> 0 < left ph st"
    and "get r ''phase_outcome'' = PStr ''retry'' \<Longrightarrow>
      get st' ''max_attempts_by_phase'' = get st ''max_attempts_by_phase'' \<Longrightarrow>
      get st' ''attempts_by_phase'' = get r ''attempts_by_phase'' \<Longrightarrow> one_more ph st st'"
proof -
  show "\<not> has_key r ''max_attempts_by_phase'' \<and> (\<exists>s. get r ''phase_outcome'' = PStr s)"
    "get r ''phase_outcome'' \<noteq> PStr ''retry'' \<Longrightarrow> \<not> has_key r ''attempts_by_phase''"
    using assms(1) by (auto simp: retries_once_def states_result_def keeps_counters_def)
  show "has_key r ''attempts_by_phase'' \<and> 0 < left ph st" if "get r ''phase_outcome'' = PStr ''retry''"
    using assms(1) that affordable_left [of ph st] by (auto simp: retries_once_def affordable_def)
  show "one_more ph st st'" if o: "get r ''phase_outcome'' = PStr ''retry''"
    and m: "get st' ''max_attempts_by_phase'' = get st ''max_attempts_by_phase''"
    and t: "get st' ''attempts_by_phase'' = get r ''attempts_by_phase''"
  proof -
    from assms(1) o obtain c a e where c: "sub_dict st ''attempts_by_phase'' = Some c"
      and a: "phase_count st ''attempts_by_phase'' (phase_label ph) 0 = Some a"
      and r: "r = [(''phase_outcome'', PStr ''retry''),
         (''attempts_by_phase'', PDict (dict_set (phase_label ph) (PInt (a + 1)) c)), (''evidence'', e)]"
      by (auto simp: retries_once_def)
    have inj: "phase_label q \<noteq> phase_label ph" if "q \<noteq> ph" "q \<in> set budgeted" for q
      using that assms(2) by (auto simp: budgeted_def)
    have t': "get st' ''attempts_by_phase'' = PDict (dict_set (phase_label ph) (PInt (a + 1)) c)"
      using t by (simp add: r)
    show ?thesis
      using m a inj unfolding one_more_def phase_count_PDict [OF t'] sub_dict_count [OF c]
      by (auto simp: get_dict_set py_int_def)
  qed
qed

section \<open>The Java backend is a repairing backend\<close>

lemma java_interp_cases:
  assumes "java_interpret p (phase_label ph) st tv w = (Inr r, w')" "ph \<in> set budgeted"
  obtains turn where "is_fix ph" "interpret_repair (jp_shown p) (phase_label ph) st turn = Some r"
    | "\<not> is_fix ph" "retries_once ph st r"
proof -
  have "is_fix ph \<and> (\<exists>turn. interpret_repair (jp_shown p) (phase_label ph) st turn = Some r)
      \<or> \<not> is_fix ph \<and> retries_once ph st r"
    using assms unfolding java_interpret_def budgeted_def
    by (auto simp: phase_runs is_fix_def interpret_fix_compile_def interpret_fix_tests_def
        interpret_fix_coverage_def interpret_fix_mutation_def interpret_delegated_quality_gate_def
        intro: interpret_plan_result interpret_generate_result)
  with that show thesis by blast
qed

interpretation java: repairing_backend shown feedback "java_run_phase jp" "java_interpret jp"
  for shown :: "pyval \<Rightarrow> str" and feedback :: str and jp :: "'w java_ports"
proof (unfold_locales, goal_cases)
  case (1 ph st w r w')
  from 1(2) have "phase_label ph \<noteq> ''complete_generation''" by (cases ph) auto
  with java_run_result [OF 1(1)] show ?case by (simp add: states_result_def)
next
  case (2 ph st w r w' j fix_phase)
  then show ?case by (auto intro: affordable_left java_repair_affordable)
next
  case (3 ph st turn w r w')
  then show ?case
    by (elim java_interp_cases) (auto dest: interpret_repair_result retries_once_one_more)
next
  case (4 ph st turn w r w' st')
  from 4(1,2) show ?case
  proof (cases rule: java_interp_cases)
    case (1 turn)
    note i = interpret_repair_result [OF 1(2) 4(2)]
    with 4(3,4) have "one_more ph st st'" by auto
    from one_more_attempts [OF this 4(2)] i show ?thesis by auto
  next
    case 2
    note i = retries_once_one_more [OF 2(2) 4(2)]
    show ?thesis
    proof (cases "get r ''phase_outcome'' = PStr ''retry''")
      case True
      with i(3) 4(3,4) have "one_more ph st st'" by (intro i(4)) auto
      from one_more_attempts [OF this 4(2)] i(3) True 2(1) show ?thesis by auto
    next
      case False
      with i(2) 4(3,4) have "same_counters st st'" by (simp add: same_counters_def)
      with False 2(1) show ?thesis by (simp add: attempts_left_same)
    qed
  qed
qed

end
