(* ===== verification/CycleFacts.thy ===== *)
theory CycleFacts
  imports JavaCycle
begin

text \<open>
  Properties of a unit's cycle: it ends, work needs a decision of the ledger, unsafe evidence
  fails the unit, and the one loop that no repair budget bounds.
\<close>

section \<open>The suite is green\<close>


lemma pit_failure_green: "jp_green_failure p output = None \<Longrightarrow>
    get (pit_failure p ms fqn output elapsed) ''phase_outcome'' = PStr ''failed''"
  by (simp add: pit_failure_def)

lemma measure_classes_green:
  "\<forall>out. jp_green_failure p out = None \<Longrightarrow> measure_classes p st ms fqns t w = (Inr (Inl r), w') \<Longrightarrow>
    get r ''phase_outcome'' = PStr ''failed''"
  by (induction fqns arbitrary: t w)
    (auto simp: phase_runs missing_pit_report_def pit_failure_green split_option_ex split: if_split_asm)

lemma mutation_verdict_green [simp]:
  "get (mutation_verdict ms t elapsed) ''phase_outcome'' \<noteq> PStr ''tests_failed''"
  by (simp add: mutation_verdict_def Let_def)

lemma measure_mutation_green:
  assumes "\<forall>out. jp_green_failure p out = None" "measure_mutation p st w = (Inr r, w')"
  shows "get r ''phase_outcome'' \<noteq> PStr ''tests_failed''"
  using assms(2)
  by (auto simp: measure_mutation_def phase_runs Let_def failed_for_def split_sum_ex
      split: if_split_asm dest: measure_classes_green [OF assms(1)])

lemma java_green_suite:
  assumes "driven_by p shown feedback (java_run_phase jp) (java_interpret jp)"
    "\<forall>out. jp_green_failure jp out = None"
  shows "green_suite p"
proof -
  have "cp_run_phase p (phase_label MeasureMutation) = java_run_phase jp (phase_label MeasureMutation)"
    using assms(1) by (simp only: driven_by_def)
  then show ?thesis
    using measure_mutation_green [OF assms(2)] by (auto simp: green_suite_def java_run_phase_def)
qed

lemma start_work: "on_track (enter PrecheckTests) st \<and> work_left (enter PrecheckTests) st = 15 * attempts_left st + 34"
  by (simp add: enter_def model_driven_def work_left_def is_fix_def)


section \<open>Decisions gate the work\<close>

definition work_part :: "part \<Rightarrow> bool" where
  "work_part part = (part \<in> set [Run, Prompt, Interpret])"

lemma follow_enters: "\<exists>ph. follow s opts = enter ph"
  by (auto simp: follow_def split: option.split)

lemma enter_not_work: "enter ph = Node ph' part \<Longrightarrow> \<not> work_part part"
  by (auto simp: enter_def work_part_def split: if_split_asm)

lemma existing_edit_not_work: "existing_edit ph = Node ph' part \<Longrightarrow> \<not> work_part part"
  by (cases ph) (auto simp: enter_def work_part_def model_driven_def)

lemma follow_not_work: "follow s opts = Node ph part \<Longrightarrow> \<not> work_part part"
  using follow_enters [of s opts] enter_not_work by metis

lemma reconciled_work:
  "reconciled q run reuse d = Node ph part \<Longrightarrow> work_part part \<Longrightarrow> \<not> work_part reuse \<Longrightarrow>
    q = ph \<and> part = run \<and> may_run d"
  using existing_edit_not_work [of q ph part] by (auto simp: reconciled_def split: if_split_asm)

lemma route_work:
  assumes "Node ph part = route shown n st" "work_part part"
  shows "may_run (reconciliation_outcome shown st)
    \<and> (n, part) \<in> set [(Node ph Reconcile, Run), (Node ph TurnReconcile, Prompt),
         (Node ph InterpretReconcile, Interpret)]"
proof (cases n)
  case (Node q x)
  have no: "\<not> work_part Rehydrate" "\<not> work_part TurnRehydrate" "\<not> work_part ResultRehydrate"
    "\<not> work_part InterpretReconcile" "\<not> work_part Turn"
    by (simp_all add: work_part_def)
  note reconciled = reconciled_work [OF sym _ no(1)] reconciled_work [OF sym _ no(2)]
    reconciled_work [OF sym _ no(3)]
  note others = follow_not_work [OF sym] enter_not_work [OF sym]
  show ?thesis
    using assms Node no
    by (cases x) (auto simp: route_def dest: reconciled others split: if_split_asm)
next
  case PauseGeneration
  with assms follow_not_work [OF sym] show ?thesis by (simp add: route_def)
qed (use assms in \<open>simp_all add: route_def\<close>)



section \<open>Unsafe evidence\<close>

definition reconcile_part :: "part \<Rightarrow> bool" where
  "reconcile_part part = (part \<in> set [Reconcile, TurnReconcile, InterpretReconcile])"

lemma reconciled_unsafe:
  "\<not> may_run d \<Longrightarrow> \<not> may_reuse d \<Longrightarrow> d \<noteq> ''verify_existing_edit'' \<or> existing_edit ph = TerminateGeneration \<Longrightarrow>
    reconciled ph run reuse d = TerminateGeneration"
  by (auto simp: reconciled_def)

lemma terminate_node_result: "terminate_node p st w = (Inr u, w') \<Longrightarrow>
    w' = w \<and> get u ''phase_outcome'' = PStr ''failed'' \<and> get u ''stopped_early'' = PBool True
    \<and> get u ''terminal_reason'' = PStr (text_in (cp_shown p) st ''reconciliation'' ''unknown_generation_outcome'')
    \<and> has_key u ''phase_outcome'' \<and> has_key u ''stopped_early'' \<and> has_key u ''terminal_reason''"
  by (auto simp: terminate_node_def Let_def res_simps)

text \<open>
  C6: When the ledger's decision on an operation allows neither running nor reusing it (and
  the phase has no verifier for an existing edit), the unit goes to termination and from
  there to the end, with the outcome failed, the decision as its reason and the stopped-
  early mark; completion never runs.
\<close>

theorem unsafe_evidence_fails_the_unit:
  assumes merge: "last_value_merge p"
    and step: "cycle_step p (Node ph part, st, w) (n', st', w')" and part: "reconcile_part part"
    and d: "get st' ''reconciliation'' = PStr d" "d \<noteq> []" "\<not> may_run d" "\<not> may_reuse d"
      "d \<noteq> ''verify_existing_edit'' \<or> existing_edit ph = TerminateGeneration"
  shows "n' = TerminateGeneration
    \<and> (\<exists>st2. cycle_step p (n', st', w') (EndNode, st2, w')
         \<and> get st2 ''phase_outcome'' = PStr ''failed'' \<and> get st2 ''stopped_early'' = PBool True
         \<and> get st2 ''terminal_reason'' = PStr d)
    \<and> (\<forall>c. cycle_step p (n', st', w') c \<longrightarrow> fst c = EndNode)"
proof -
  from step have r: "n' = route (cp_shown p) (Node ph part) st'"
    by (auto elim: cycle_stepE)
  have o: "reconciliation_outcome (cp_shown p) st' = d"
    using d(1,2) by (simp add: reconciliation_outcome_def text_in_PStr)
  have n': "n' = TerminateGeneration"
    using r part reconciled_unsafe [OF d(3-5)] by (auto simp: route_def o reconcile_part_def)
  obtain u where u: "terminate_node p st' w' = (Inr u, w')"
    by (auto simp: terminate_node_def Let_def ret_def)
  note f = terminate_node_result [OF u]
  define st2 where "st2 = cp_merge p st' u"
  have "cycle_step p (n', st', w') (EndNode, st2, w')"
    by (rule cycle_stepI [where u = u]) (simp_all add: n' run_node_def u st2_def route_def)
  moreover have "get st2 ''phase_outcome'' = PStr ''failed''" "get st2 ''stopped_early'' = PBool True"
    "get st2 ''terminal_reason'' = PStr d"
    using merge f d(1,2) by (simp_all add: st2_def last_value_merge_def text_in_PStr)
  moreover have "fst c = EndNode" if "cycle_step p (n', st', w') c" for c
    using that by (cases c) (auto simp: n' route_def elim: cycle_stepE)
  ultimately show ?thesis using n' by blast
qed

section \<open>A red suite under mutation\<close>

text \<open>The state after \<open>k\<close> more test repairs.\<close>

definition with_test_repairs :: "int \<Rightarrow> pydict \<Rightarrow> pydict" where
  "with_test_repairs k st = dict_set ''attempts_by_phase''
     (PDict (dict_set ''fix_tests'' (PInt k) (as_dict (get st ''attempts_by_phase'')))) st"

lemma has_key_test_repairs:
  "get st ''attempts_by_phase'' = PDict c \<Longrightarrow> has_key (with_test_repairs k st) x = has_key st x"
  using get_has_key [of st "''attempts_by_phase''"] by (auto simp: with_test_repairs_def)

lemma get_test_repairs: "x \<noteq> ''attempts_by_phase'' \<Longrightarrow> get (with_test_repairs k st) x = get st x"
  by (simp add: with_test_repairs_def get_dict_set)

lemma count_test_repairs:
  "get st ''attempts_by_phase'' = PDict c \<Longrightarrow> ph \<noteq> ''fix_tests'' \<Longrightarrow>
    phase_count (with_test_repairs k st) ''attempts_by_phase'' ph d = phase_count st ''attempts_by_phase'' ph d"
  by (simp add: phase_count_def sub_dict_def with_test_repairs_def get_dict_set)

lemma class_plan_same:
  "get st' ''target_context_paths'' = get st ''target_context_paths'' \<Longrightarrow> class_plan p st' = class_plan p st"
  by (simp add: class_plan_def sub_dict_def fun_eq_iff)

lemma class_tables_same:
  assumes "get st' ''target_context_paths'' = get st ''target_context_paths''"
  shows "class_tables p st' = class_tables p st"
  by (intro ext) (simp add: class_tables_def class_plan_same [OF assms])

lemma measure_classes_same:
  "get st' ''target_context_paths'' = get st ''target_context_paths'' \<Longrightarrow>
    measure_classes p st' ms fqns = measure_classes p st ms fqns"
proof (induction fqns)
  case Nil
  show ?case by (intro ext) simp
next
  case (Cons fqn fqns)
  then show ?case by (intro ext) (simp add: class_tables_same [OF Cons.prems] cong del: option.case_cong_weak if_weak_cong)
qed

text \<open>
  When the mutation tool finds the suite red, the measurement answers tests_failed and
  is sent to test repair with any number of test repairs already spent: the loop from
  mutation to test repair is not bounded by that budget.
\<close>

theorem red_suite_ignores_the_repair_budget:
  fixes jp :: "'w java_ports"
  assumes "get st ''attempts_by_phase'' = PDict c"
    and "measure_mutation jp st w = (Inr r, w')" "get r ''phase_outcome'' = PStr ''tests_failed''"
  shows "measure_mutation jp (with_test_repairs k st) w = (Inr r, w')
    \<and> (get st2 ''phase_outcome'' = get r ''phase_outcome'' \<longrightarrow>
         route shown (Node MeasureMutation Run) st2 = enter FixTests)"
proof -
  let ?st = "with_test_repairs k st"
  have g: "get ?st x = get st x" if "x \<noteq> ''attempts_by_phase''" for x
    using that by (rule get_test_repairs)
  have "(batch_of ?st :: ('w, str list) cycle_prog) = batch_of st" "int_or_zero ?st ''mutation_gate'' = int_or_zero st ''mutation_gate''"
    "(required_text (jp_shown jp) ?st ''repo_path'' :: ('w, str) cycle_prog)
      = required_text (jp_shown jp) st ''repo_path''"
    "phase_count ?st ''attempts_by_phase'' ''fix_mutation'' 0 = phase_count st ''attempts_by_phase'' ''fix_mutation'' 0"
    "phase_evidence ?st ''measure_mutation'' = phase_evidence st ''measure_mutation''"
    "sub_dict ?st ''method_efforts_by_class'' = sub_dict st ''method_efforts_by_class''"
    "module_of (jp_shown jp) ?st = module_of (jp_shown jp) st"
    "get_or ?st ''mutation_roi_enabled'' (PBool True) = get_or st ''mutation_roi_enabled'' (PBool True)"
    "get_or ?st ''mutation_roi_skip_expensive'' (PBool False) = get_or st ''mutation_roi_skip_expensive'' (PBool False)"
    by (simp_all add: batch_of_def texts_in_def state_list_def int_or_zero_def required_text_def
        phase_evidence_def sub_dict_def module_of_def text_in_def get_or_def g
        has_key_test_repairs [OF assms(1)] count_test_repairs [OF assms(1)])
  moreover have "measure_classes jp ?st = measure_classes jp st"
    by (intro ext, subst measure_classes_same [where st = st]) (simp_all add: g)
  ultimately have "measure_mutation jp ?st = measure_mutation jp st"
    unfolding measure_mutation_def by (simp only:)
  moreover have "route shown (Node MeasureMutation Run) st2 = enter FixTests"
    if "get st2 ''phase_outcome'' = get r ''phase_outcome''"
  proof -
    have "phase_outcome shown st2 = ''tests_failed''"
      using that assms(3) by (simp add: phase_outcome_def text_in_PStr)
    then show ?thesis by (simp add: route_def follow_def)
  qed
  ultimately show ?thesis using assms(2) by simp
qed

section \<open>Sample tools\<close>

definition sample_text :: "pyval \<Rightarrow> str" where
  "sample_text v = ''?''"

text \<open>Tools that answer well; \<open>red\<close> is what the mutation tool says of a failing suite.\<close>

definition sample_tools :: "bool \<Rightarrow> pydict option \<Rightarrow> unit java_ports" where
  "sample_tools pit_ok red =
     \<lparr>jp_shown = sample_text, jp_clock = ret 0, jp_digest = (\<lambda>s. s), jp_classify = (\<lambda>_. []),
      jp_compile = (\<lambda>_ _ _. ret (True, [])), jp_run_tests = (\<lambda>_ _ _ _. ret (True, [])),
      jp_failure_summary = (\<lambda>_ _ _ s. ret s), jp_jacoco = (\<lambda>_ _ _. ret (True, [])),
      jp_jacoco_report = (\<lambda>_ _. ret (Some ''jacoco.xml'')),
      jp_coverage_of = (\<lambda>_ _. ret [(''line'', PFloat 90)]), jp_uncovered = (\<lambda>_ _. ret []),
      jp_pitest = (\<lambda>_ _ _ _. ret (pit_ok, ''output'')), jp_pit_report = (\<lambda>_ _. ret (Some ''mutations.xml'')),
      jp_green_failure = (\<lambda>_. red),
      jp_mutation_stats = (\<lambda>_ _. ret [(''score'', PFloat 90), (''survived'', PInt 1)]),
      jp_families = (\<lambda>_ _ _. ret []), jp_format_families = (\<lambda>_. []), jp_write_context = (\<lambda>_ _ _. ret []),
      jp_groups_per_round = 1, jp_run_gate = (\<lambda>_ _ _. ret [(''passed'', PBool True)]),
      jp_failure_in_batch = (\<lambda>_ _ _ _. ret False), jp_out_of_scope = (\<lambda>g _ _ _. ret g),
      jp_gate_feedback = (\<lambda>_. []), jp_gate_detail = (\<lambda>_. []), jp_prompt_feedback = (\<lambda>_ _ _ _. ret []),
      jp_test_paths = (\<lambda>_ _. ret []), jp_write_survivors = (\<lambda>_ _ _. ret None),
      jp_write_candidate = (\<lambda>_ _ _ _ _. ret ''candidate.md''), jp_write_plan = (\<lambda>_ _ _ _. ret ''plan.md''),
      jp_is_file = (\<lambda>_ _. ret True), jp_set_stage = (\<lambda>_ _ _. ret ()),
      jp_surefire = (\<lambda>_ _ _. ret []), jp_full_gate = (\<lambda>_ _. ret [(''passed'', PBool True)]),
      jp_read_text = (\<lambda>_ _. ret []), jp_gate_results = (\<lambda>_ _ _ _ _. ret []),
      jp_sync_results = (\<lambda>_ _ _. ret ()), jp_complete = (\<lambda>_. ret [(''phase_outcome'', PStr ''passed'')])\<rparr>"

text \<open>A cycle on them whose ledger always gives the same decision.\<close>

definition sample_cycle :: "str \<Rightarrow> unit cycle_ports" where
  "sample_cycle decision =
     \<lparr>cp_shown = sample_text, cp_feedback = [],
      cp_merge = (\<lambda>st u. u @ filter (\<lambda>(k, _). \<not> has_key u k) st),
      cp_classify = (\<lambda>_ _ _. ret (PStr decision)), cp_render = (\<lambda>_ _. ret ''prompt''),
      cp_scope = \<lparr>ps_managed = True, ps_task = 7, ps_run = ''run''\<rparr>,
      cp_materialize = (\<lambda>_ _ _. ret (''p'', ''i'', ''m'')),
      cp_turn = (\<lambda>_ _. ret [(''turn_status'', PStr ''completed'')]),
      cp_turn_event = (\<lambda>_ _ _. ret ()),
      cp_interpret = (\<lambda>ph st turn. if ph = ''review_equivalent_mutants'' then ret []
         else java_interpret (sample_tools True None) ph st turn),
      cp_run_phase = java_run_phase (sample_tools True None),
      cp_review = (\<lambda>_ _ r. ret r), cp_record = (\<lambda>_ _ _ r. ret r),
      cp_rehydrate = (\<lambda>_ _ _. ret []), cp_cancelled = None\<rparr>"

definition sample_state :: pydict where
  "sample_state = [(''batch'', PList [PStr ''a.B'']), (''repo_path'', PStr ''repo''),
     (''mutation_gate'', PInt 80), (''attempts_by_phase'', PDict [(''fix_tests'', PInt 3)])]"

lemma sample_merge: "get (u @ filter (\<lambda>(k, _). \<not> has_key u k) st) k
    = (if has_key u k then get u k else get st k)"
proof (cases "has_key u k")
  case True
  then show ?thesis by (auto simp: get_def has_key_map_of map_add_def split: option.split)
next
  case False
  then have "map_of u k = None" by (simp add: has_key_map_of)
  moreover have "map_of (filter (\<lambda>(k, _). \<not> has_key u k) st) k = map_of st k"
    using False by (induction st) auto
  ultimately show ?thesis using False by (simp add: get_def map_add_def)
qed

lemma sample_uninterrupted: "uninterrupted (sample_cycle ''run'')"
  by (simp add: uninterrupted_def sample_cycle_def last_value_merge_def fresh_ledger_def turns_keep_def
      record_keeps_def review_keeps_def sample_merge res_simps fresh_decision_def shown_as_def
      keeps_counters_def same_at_counters_def)

lemma sample_driven:
  "driven_by (sample_cycle d) sample_text [] (java_run_phase (sample_tools True None))
     (java_interpret (sample_tools True None))"
  by (auto simp: driven_by_def sample_cycle_def budgeted_def)

lemma sample_attempts: "attempts_left sample_state = 23"
  by (simp add: attempts_left_def budgeted_def left_def phase_count_def sub_dict_def sample_state_def py_int_def)

lemma sample_steps:
  "cycle_step (sample_cycle ''run'') (Node PrecheckTests Reconcile, [], ())
    (Node PrecheckTests Run, [(''reconciliation'', PStr ''run''), (''current_phase'', PStr ''precheck_existing_tests'')], ())"
  "cycle_step (sample_cycle ''fail_unsafe'') (Node PrecheckTests Reconcile, [], ())
    (TerminateGeneration, [(''reconciliation'', PStr ''fail_unsafe''), (''current_phase'', PStr ''precheck_existing_tests'')], ())"
  by (rule cycle_stepI [where u = "[(''reconciliation'', PStr ''run''), (''current_phase'', PStr ''precheck_existing_tests'')]"]
      cycle_stepI [where u = "[(''reconciliation'', PStr ''fail_unsafe''), (''current_phase'', PStr ''precheck_existing_tests'')]"];
     simp add: run_node_def reconcile_node_def sample_cycle_def seq_def ret_def dict_update_def shown_as_def
       route_def reconciliation_outcome_def text_in_def reconciled_def may_run_def may_reuse_def)+

lemma sample_red:
  "\<exists>r. measure_mutation (sample_tools False (Some [(''failing_test_count'', PInt 1)])) sample_state () = (Inr r, ())
     \<and> get r ''phase_outcome'' = PStr ''tests_failed''"
  by (simp add: measure_mutation_def sample_tools_def sample_state_def batch_of_def texts_in_def state_list_def
      or_python_error_def seq_def ret_def int_or_zero_def py_int_def required_text_def phase_count_def
      sub_dict_def phase_evidence_def shown_as_def pit_failure_def Let_def)

section \<open>Witnesses\<close>



theorem unsafe_evidence_fails_the_unit_witness:
  "\<exists>st2. cycle_step (sample_cycle ''fail_unsafe'') (TerminateGeneration,
      [(''reconciliation'', PStr ''fail_unsafe''), (''current_phase'', PStr ''precheck_existing_tests'')], ())
      (EndNode, st2, ()) \<and> get st2 ''terminal_reason'' = PStr ''fail_unsafe''"
  using unsafe_evidence_fails_the_unit [OF _ sample_steps(2), of "''fail_unsafe''"]
  by (auto simp: last_value_merge_def sample_cycle_def sample_merge reconcile_part_def may_run_def may_reuse_def)

theorem red_suite_ignores_the_repair_budget_witness:
  "\<exists>r. measure_mutation (sample_tools False (Some [(''failing_test_count'', PInt 1)]))
      (with_test_repairs 99 sample_state) () = (Inr r, ()) \<and> get r ''phase_outcome'' = PStr ''tests_failed''"
proof -
  obtain r where r: "measure_mutation (sample_tools False (Some [(''failing_test_count'', PInt 1)]))
      sample_state () = (Inr r, ())" "get r ''phase_outcome'' = PStr ''tests_failed''"
    using sample_red by blast
  have c: "get sample_state ''attempts_by_phase'' = PDict [(''fix_tests'', PInt 3)]"
    by (simp add: sample_state_def)
  from red_suite_ignores_the_repair_budget [OF c r, of 99] r(2) show ?thesis by blast
qed

end
