(* ===== verification/EquivalentMutants.thy ===== *)
theory EquivalentMutants
  imports PyValue
begin

text \<open>
  Whether surviving mutants may be excused as equivalent: \<open>uta/enforcement/equivalent_mutants.py\<close>
  and the review's side of the cycle, \<open>uta/testgen/equivalence_review.py\<close>. A language supplies
  the survivors of a gate; a saved decision excuses them only when a fresh gate reproduces
  exactly the reviewed mutants. \<open>None\<close> stands for an exception. \<open>shown\<close> is \<open>str\<close> on values
  that are not strings, and \<open>loads\<close> is \<open>json.loads\<close>.
\<close>

section \<open>Data\<close>

record mutant_identity =
  mi_key :: str
  mi_source :: str
  mi_line :: int
  mi_operator :: str
  mi_description :: str
  mi_diff :: str

record scoring_survivors =
  ss_language :: str
  ss_mutants :: "mutant_identity list"
  ss_unreviewed :: int
  ss_fingerprints :: "(str \<times> str) list"
  ss_rate :: rat
  ss_gate :: rat

datatype verdict = Equivalent | Killable | Uncertain

fun verdict_label :: "verdict \<Rightarrow> str" where
  "verdict_label Equivalent = ''equivalent''"
| "verdict_label Killable = ''killable''"
| "verdict_label Uncertain = ''uncertain''"

definition verdict_named :: "str \<Rightarrow> verdict option" where
  "verdict_named s = List.find (\<lambda>v. verdict_label v = s) [Equivalent, Killable, Uncertain]"

datatype review_outcome = AllEquivalent | Rejected | Ineligible

fun outcome_label :: "review_outcome \<Rightarrow> str" where
  "outcome_label AllEquivalent = ''all_equivalent''"
| "outcome_label Rejected = ''rejected''"
| "outcome_label Ineligible = ''ineligible''"

text \<open>An outcome nobody knows is a rejection.\<close>

definition outcome_named :: "str \<Rightarrow> review_outcome" where
  "outcome_named s = (case List.find (\<lambda>v. outcome_label v = s) [AllEquivalent, Rejected, Ineligible] of
     Some v \<Rightarrow> v | None \<Rightarrow> Rejected)"

record mutant_verdict =
  mv_key :: str
  mv_verdict :: verdict
  mv_region :: str
  mv_argument :: str
  mv_lines :: "int list"

record parsed_verdicts =
  pv_outcome :: review_outcome
  pv_reason :: str
  pv_verdicts :: "mutant_verdict list"

record review_decision =
  rd_outcome :: review_outcome
  rd_reason :: str
  rd_survivors :: "scoring_survivors option"
  rd_verdicts :: "mutant_verdict list"
  rd_sha :: str
  rd_session :: "(str \<times> str) list"
  rd_model :: str

definition keys_of_survivors :: "scoring_survivors \<Rightarrow> str set" where
  "keys_of_survivors s = set (map mi_key (ss_mutants s))"

section \<open>Dictionaries\<close>

definition text_dict :: "(str \<times> str) list \<Rightarrow> pyval" where
  "text_dict d = PDict (map (\<lambda>(k, v). (k, PStr v)) d)"

definition identity_to_dict :: "mutant_identity \<Rightarrow> pyval" where
  "identity_to_dict m = PDict [(''key'', PStr (mi_key m)), (''source_path'', PStr (mi_source m)),
     (''line'', PInt (mi_line m)), (''operator'', PStr (mi_operator m)),
     (''description'', PStr (mi_description m)), (''mutation_diff'', PStr (mi_diff m))]"

definition survivors_to_dict :: "scoring_survivors \<Rightarrow> pydict" where
  "survivors_to_dict s =
     [(''language'', PStr (ss_language s)), (''mutants'', PList (map identity_to_dict (ss_mutants s))),
      (''unreviewed_scoring_failures'', PInt (ss_unreviewed s)),
      (''source_fingerprints'', text_dict (ss_fingerprints s)),
      (''mutation_rate'', PFloat (ss_rate s)), (''mutation_gate'', PFloat (ss_gate s))]"

definition identity_from_dict :: "(pyval \<Rightarrow> str) \<Rightarrow> pyval \<Rightarrow> mutant_identity option" where
  "identity_from_dict shown v = (case v of
     PDict d \<Rightarrow> map_option (\<lambda>line. \<lparr>mi_key = text_in shown d ''key'' [],
         mi_source = text_in shown d ''source_path'' [], mi_line = line,
         mi_operator = text_in shown d ''operator'' [],
         mi_description = text_in shown d ''description'' [],
         mi_diff = text_in shown d ''mutation_diff'' []\<rparr>) (int_or_zero d ''line'')
   | _ \<Rightarrow> None)"

definition texts_of_dict :: "(pyval \<Rightarrow> str) \<Rightarrow> pydict \<Rightarrow> (str \<times> str) list" where
  "texts_of_dict shown d = map (\<lambda>(k, v). (k, shown_as shown v)) d"

definition survivors_from_dict :: "(pyval \<Rightarrow> str) \<Rightarrow> pydict \<Rightarrow> scoring_survivors option" where
  "survivors_from_dict shown d =
     Option.bind (iterated (get d ''mutants'')) (\<lambda>items.
     Option.bind (all_some (map (identity_from_dict shown) items)) (\<lambda>mutants.
     Option.bind (int_or_zero d ''unreviewed_scoring_failures'') (\<lambda>unreviewed.
     Option.bind (sub_dict d ''source_fingerprints'') (\<lambda>prints.
     Option.bind (float_or_zero d ''mutation_rate'') (\<lambda>rate.
     map_option (\<lambda>gate. \<lparr>ss_language = text_in shown d ''language'' [], ss_mutants = mutants,
         ss_unreviewed = unreviewed, ss_fingerprints = texts_of_dict shown prints,
         ss_rate = rate, ss_gate = gate\<rparr>) (float_or_zero d ''mutation_gate''))))))"

section \<open>Verdicts\<close>

text \<open>
  \<open>for line in item.get("source_lines") or ()\<close> keeps the integers; a number that is not zero
  cannot be iterated.
\<close>

definition source_lines :: "pydict \<Rightarrow> int list option" where
  "source_lines d = map_option (List.map_filter (\<lambda>v. case v of PInt n \<Rightarrow> Some n | _ \<Rightarrow> None))
     (iterated (get d ''source_lines''))"

text \<open>
  Outer \<open>None\<close> is an exception, inner \<open>None\<close> an item that is no verdict. An \<open>equivalent\<close> without
  a region or an argument counts as uncertain.
\<close>

definition verdict_from :: "(pyval \<Rightarrow> str) \<Rightarrow> pyval \<Rightarrow> mutant_verdict option option" where
  "verdict_from shown item = (case item of
     PDict d \<Rightarrow>
       (let key = strip (text_in shown d ''key'' []);
            named = verdict_named (lower (strip (text_in shown d ''verdict'' [])));
            region = strip (text_in shown d ''divergence_region'' []);
            argument = strip (text_in shown d ''why_indistinguishable'' []) in
        (case named of
           None \<Rightarrow> Some None
         | Some v \<Rightarrow>
             if key = [] then Some None
             else map_option (\<lambda>nums. Some \<lparr>mv_key = key,
                 mv_verdict = (if v = Equivalent \<and> (region = [] \<or> argument = []) then Uncertain else v),
                 mv_region = region, mv_argument = argument, mv_lines = nums\<rparr>) (source_lines d)))
   | _ \<Rightarrow> Some None)"

definition rejected :: "str \<Rightarrow> mutant_verdict list \<Rightarrow> parsed_verdicts" where
  "rejected reason vs = \<lparr>pv_outcome = Rejected, pv_reason = reason, pv_verdicts = vs\<rparr>"

definition judge_verdicts :: "str set \<Rightarrow> mutant_verdict list \<Rightarrow> parsed_verdicts" where
  "judge_verdicts expected vs =
     (if set (map mv_key vs) \<noteq> expected then rejected ''verdicts_incomplete'' vs
      else if \<exists>v \<in> set vs. mv_verdict v \<noteq> Equivalent then rejected ''verdict_not_equivalent'' vs
      else \<lparr>pv_outcome = AllEquivalent, pv_reason = [], pv_verdicts = vs\<rparr>)"

fun collect_verdicts ::
  "(pyval \<Rightarrow> str) \<Rightarrow> str set \<Rightarrow> pyval list \<Rightarrow> mutant_verdict list \<Rightarrow> parsed_verdicts option" where
  "collect_verdicts shown expected [] vs = Some (judge_verdicts expected vs)"
| "collect_verdicts shown expected (item # items) vs =
     (case verdict_from shown item of
        None \<Rightarrow> None
      | Some None \<Rightarrow> Some (rejected ''verdicts_invalid'' [])
      | Some (Some v) \<Rightarrow>
          if mv_key v \<notin> expected \<or> mv_key v \<in> set (map mv_key vs)
          then Some (rejected ''verdicts_invalid'' [])
          else collect_verdicts shown expected items (vs @ [v]))"

text \<open>The document is the list or has it under \<open>verdicts\<close>.\<close>

definition verdict_items :: "(str \<Rightarrow> pyval option) \<Rightarrow> str option \<Rightarrow> pyval list option" where
  "verdict_items loads payload = (case payload of
     None \<Rightarrow> None
   | Some text \<Rightarrow>
       (case loads text of
          None \<Rightarrow> None
        | Some (PDict d) \<Rightarrow> list_of (get d ''verdicts'')
        | Some v \<Rightarrow> list_of v))"

definition parse_verdicts ::
  "(pyval \<Rightarrow> str) \<Rightarrow> (str \<Rightarrow> pyval option) \<Rightarrow> str option \<Rightarrow> str list \<Rightarrow> parsed_verdicts option" where
  "parse_verdicts shown loads payload expected_keys = (case verdict_items loads payload of
     None \<Rightarrow> Some (rejected ''verdicts_invalid'' [])
   | Some items \<Rightarrow> collect_verdicts shown (set expected_keys) items [])"

section \<open>Saved decisions\<close>

definition verdict_to_dict :: "mutant_verdict \<Rightarrow> pyval" where
  "verdict_to_dict v = PDict [(''key'', PStr (mv_key v)), (''verdict'', PStr (verdict_label (mv_verdict v))),
     (''divergence_region'', PStr (mv_region v)), (''why_indistinguishable'', PStr (mv_argument v)),
     (''source_lines'', PList (map PInt (mv_lines v)))]"

definition decision_to_dict :: "review_decision \<Rightarrow> pydict" where
  "decision_to_dict d =
     [(''outcome'', PStr (outcome_label (rd_outcome d))), (''reason'', PStr (rd_reason d)),
      (''survivors'', case rd_survivors d of None \<Rightarrow> PNone | Some s \<Rightarrow> PDict (survivors_to_dict s)),
      (''verdicts'', PList (map verdict_to_dict (rd_verdicts d))),
      (''verdicts_sha256'', PStr (rd_sha d)), (''agent_session_ref'', text_dict (rd_session d)),
      (''model_id'', PStr (rd_model d))]"

definition decision_from_dict :: "(pyval \<Rightarrow> str) \<Rightarrow> pydict \<Rightarrow> review_decision option" where
  "decision_from_dict shown d =
     Option.bind (case get d ''survivors'' of
        PDict s \<Rightarrow> map_option Some (survivors_from_dict shown s) | _ \<Rightarrow> Some None) (\<lambda>survivors.
     Option.bind (iterated (get d ''verdicts'')) (\<lambda>items.
     Option.bind (all_some (map (verdict_from shown) items)) (\<lambda>verdicts.
     map_option (\<lambda>session.
       \<lparr>rd_outcome = outcome_named (text_in shown d ''outcome'' ''rejected''),
        rd_reason = text_in shown d ''reason'' [], rd_survivors = survivors,
        rd_verdicts = List.map_filter (\<lambda>v. v) verdicts,
        rd_sha = text_in shown d ''verdicts_sha256'' [],
        rd_session = texts_of_dict shown session, rd_model = text_in shown d ''model_id'' []\<rparr>)
       (sub_dict d ''agent_session_ref''))))"

section \<open>Eligibility and grant\<close>

text \<open>The reason is empty exactly for an eligible result.\<close>

definition assess_eligibility :: "scoring_survivors option \<Rightarrow> int \<Rightarrow> bool \<times> str" where
  "assess_eligibility survivors cap = (case survivors of
     None \<Rightarrow> (False, ''survivors_unproven'')
   | Some s \<Rightarrow>
       if 0 < ss_unreviewed s then (False, ''unreviewed_scoring_failures'')
       else if ss_mutants s = [] then (False, ''no_survivors'')
       else if cap < int (length (ss_mutants s)) then (False, ''over_cap'')
       else (True, []))"

definition same_dict :: "(str \<times> str) list \<Rightarrow> (str \<times> str) list \<Rightarrow> bool" where
  "same_dict d e = (\<forall>k \<in> set (map fst d) \<union> set (map fst e). map_of d k = map_of e k)"

definition reviewed_survivors :: "review_decision list \<Rightarrow> scoring_survivors list" where
  "reviewed_survivors reviews = List.map_filter rd_survivors reviews"

definition reviewed_fingerprints :: "scoring_survivors list \<Rightarrow> (str \<times> str) list" where
  "reviewed_fingerprints items = foldl (\<lambda>prints s. dict_update prints (ss_fingerprints s)) [] items"

definition decide_grant ::
  "review_decision list \<Rightarrow> scoring_survivors option \<Rightarrow> bool \<Rightarrow> bool \<Rightarrow> bool \<Rightarrow> bool \<times> str" where
  "decide_grant reviews fresh tests_passed coverage_passed mutation_only =
     (if reviews = [] then (False, ''no_review'')
      else if \<exists>r \<in> set reviews. rd_outcome r \<noteq> AllEquivalent \<or> rd_survivors r = None
        then (False, ''review_not_all_equivalent'')
      else if \<not> tests_passed then (False, ''tests_failed'')
      else if \<not> coverage_passed then (False, ''coverage_failed'')
      else if \<not> mutation_only then (False, ''not_mutation_only'')
      else (case fresh of
          None \<Rightarrow> (False, ''survivors_unproven'')
        | Some f \<Rightarrow>
           (let reviewed = reviewed_survivors reviews in
            if ss_unreviewed f \<noteq> 0 \<or> (\<exists>s \<in> set reviewed. ss_unreviewed s \<noteq> 0)
              then (False, ''unreviewed_scoring_failures'')
            else if keys_of_survivors f \<noteq> \<Union> (keys_of_survivors ` set reviewed)
              then (False, ''survivor_set_changed'')
            else if \<not> same_dict (ss_fingerprints f) (reviewed_fingerprints reviewed)
              then (False, ''fingerprint_changed'')
            else (True, []))))"

end
