(* ===== verification/EquivalenceReview.thy ===== *)
theory EquivalenceReview
  imports EquivalentMutants GenerationCycle
begin

text \<open>
  The review of equivalent mutants as the generation cycle runs it,
  \<open>uta/testgen/equivalence_review.py\<close>: when a stalled repair earns the one review turn, and
  what its answer becomes. Git, the verdict file, the hash and the settings are ports. The
  rendering of the prompt is not modelled.
\<close>

record 'w review_ports =
  vp_shown :: "pyval \<Rightarrow> str"
  vp_loads :: "str \<Rightarrow> pyval option"
  vp_sha :: "str \<Rightarrow> str"
  vp_cap :: int
  vp_timeout :: int
  vp_survivors :: "pydict \<Rightarrow> ('w, scoring_survivors option) cycle_prog"
  vp_tree :: "str \<Rightarrow> ('w, str option) cycle_prog"
  vp_read :: "str \<Rightarrow> str \<Rightarrow> ('w, str option) cycle_prog"

definition review_phase :: str where
  "review_phase = ''review_equivalent_mutants''"

definition no_progress_reason :: str where
  "no_progress_reason = ''mutation_repair_no_progress''"

definition trigger_phases :: "str list" where
  "trigger_phases = [''measure_mutation'', ''delegated_quality_gate_verify'']"

section \<open>Names\<close>

text \<open>\<open>re.sub(r"[^A-Za-z0-9_.-]+", "-", value).strip("-.") or "unit"\<close>.\<close>

definition safe_name :: "str \<Rightarrow> str" where
  "safe_name value = (let s = strip_chars ''-.'' (squeeze name_char (CHR ''-'') False value) in
     if s = [] then ''unit'' else s)"

definition verdicts_path :: "str \<Rightarrow> str" where
  "verdicts_path unit_id = ''.uta_cache/equivalence/'' @ safe_name unit_id @ ''/verdicts.json''"

section \<open>Asking for the review\<close>

text \<open>A review is considered once per unit, for a stalled mutation repair of an incremental run.\<close>

definition stalled_on_mutation :: "pydict \<Rightarrow> pydict \<Rightarrow> pydict \<Rightarrow> bool" where
  "stalled_on_mutation st results projection =
     (get projection ''phase_outcome'' = PStr ''failed''
      \<and> get (as_dict (get projection ''evidence'')) ''failure_reason'' = PStr no_progress_reason
      \<and> get st ''quality_mode'' = PStr ''ci_incremental'' \<and> \<not> has_key results review_phase)"

definition ineligible :: "str \<Rightarrow> scoring_survivors option \<Rightarrow> review_decision" where
  "ineligible reason survivors = \<lparr>rd_outcome = Ineligible, rd_reason = reason, rd_survivors = survivors,
     rd_verdicts = [], rd_sha = [], rd_session = [], rd_model = []\<rparr>"

text \<open>What the phase reports then: the question for the review, or why there is none.\<close>

definition review_question ::
  "'w review_ports \<Rightarrow> str \<Rightarrow> pydict \<Rightarrow> pydict \<Rightarrow> str \<Rightarrow> scoring_survivors option \<Rightarrow> str option \<Rightarrow> pydict" where
  "review_question p unit_id evidence projection why survivors tree =
     (case (why, survivors, tree) of
       ([], Some s, Some t) \<Rightarrow> dict_update projection
         [(''phase_outcome'', PStr ''review_equivalence''),
          (''evidence'', PDict (dict_update evidence
             [(''equivalence_survivors'', PDict (survivors_to_dict s)),
              (''equivalence_verdicts_path'', PStr (verdicts_path unit_id)),
              (''equivalence_tree'', PStr t)])),
          (''equivalence_review_timeout_seconds'', PInt (vp_timeout p))]
     | _ \<Rightarrow> dict_set ''evidence'' (PDict (dict_set ''equivalence_review''
         (PDict (decision_to_dict (ineligible why survivors))) evidence)) projection)"

definition prepare_review ::
  "'w review_ports \<Rightarrow> str \<Rightarrow> pydict \<Rightarrow> pydict \<Rightarrow> ('w, pydict) cycle_prog" where
  "prepare_review p phase st projection =
     seq (or_python_error (sub_dict projection ''evidence'')) (\<lambda>evidence.
     seq (or_python_error (sub_dict st ''phase_results'')) (\<lambda>results.
     if \<not> stalled_on_mutation st results projection then ret projection
     else
       seq (vp_survivors p (dict_set ''phase_results''
           (PDict (dict_set phase (PDict projection) results)) st)) (\<lambda>survivors.
       seq (or_python_error (if has_key st ''repo_path''
          then Some (shown_as (vp_shown p) (get st ''repo_path'')) else None)) (\<lambda>repo.
       (let reason = snd (assess_eligibility survivors (vp_cap p)) in
       seq (if reason \<noteq> [] then ret None else vp_tree p repo) (\<lambda>tree.
       (let why = (if reason = [] \<and> tree = None then ''workspace_unverifiable'' else reason) in
       ret (review_question p (text_in (vp_shown p) st ''unit_id'' []) evidence projection
          why survivors tree))))))))"

section \<open>Reading the answer\<close>

definition review_evidence :: "pydict \<Rightarrow> str \<Rightarrow> pydict option" where
  "review_evidence st phase = map_option (\<lambda>results.
     as_dict (get (as_dict (get results phase)) ''evidence'')) (sub_dict st ''phase_results'')"

fun review_request_in ::
  "(pyval \<Rightarrow> str) \<Rightarrow> str list \<Rightarrow> pydict \<Rightarrow> (scoring_survivors \<times> str \<times> str) option option" where
  "review_request_in shown [] st = Some None"
| "review_request_in shown (phase # phases) st = Option.bind (review_evidence st phase) (\<lambda>evidence.
     (case get evidence ''equivalence_survivors'' of
        PDict d \<Rightarrow> map_option (\<lambda>s. Some (s, text_in shown evidence ''equivalence_verdicts_path'' [],
            text_in shown evidence ''equivalence_tree'' [])) (survivors_from_dict shown d)
      | _ \<Rightarrow> review_request_in shown phases st))"

definition review_request ::
  "(pyval \<Rightarrow> str) \<Rightarrow> pydict \<Rightarrow> (scoring_survivors \<times> str \<times> str) option option" where
  "review_request shown st = review_request_in shown trigger_phases st"

definition turn_session :: "(pyval \<Rightarrow> str) \<Rightarrow> pydict \<Rightarrow> (str \<times> str) list option" where
  "turn_session shown st =
     (let legacy = (if truthy (get st ''turn_session_id'')
        then [(''session_id'', shown_as shown (get st ''turn_session_id''))] else []) in
     case get st ''turn_session_refs'' of
       PStr _ \<Rightarrow> Some legacy
     | _ \<Rightarrow> map_option (\<lambda>refs. if refs = [] then legacy
         else (case last refs of PDict d \<Rightarrow> texts_of_dict shown d | _ \<Rightarrow> legacy))
       (state_list st ''turn_session_refs''))"

definition main_model_of :: "(pyval \<Rightarrow> str) \<Rightarrow> pydict \<Rightarrow> str option" where
  "main_model_of shown turn = map_option (\<lambda>usage.
     text_in shown usage ''main_model'' (text_in shown turn ''model_id'' [])) (sub_dict turn ''usage'')"

definition decided :: "review_decision \<Rightarrow> pydict" where
  "decided d = [(''phase_outcome'', PStr ''failed''),
     (''evidence'', PDict [(''equivalence_review'', PDict (decision_to_dict d)),
        (''failure_reason'', PStr no_progress_reason)])]"

definition rejection :: "str \<Rightarrow> scoring_survivors option \<Rightarrow> (str \<times> str) list \<Rightarrow> str \<Rightarrow> review_decision" where
  "rejection reason survivors session model = \<lparr>rd_outcome = Rejected, rd_reason = reason,
     rd_survivors = survivors, rd_verdicts = [], rd_sha = [], rd_session = session, rd_model = model\<rparr>"

text \<open>The workspace must be the one the review was asked on; only a completed turn is read.\<close>

definition review_decision_of ::
  "'w review_ports \<Rightarrow> pydict \<Rightarrow> pydict \<Rightarrow> scoring_survivors \<Rightarrow> str \<Rightarrow> str \<Rightarrow> str
    \<Rightarrow> ('w, review_decision) cycle_prog" where
  "review_decision_of p st turn survivors path tree repo =
     (let status = text_in (vp_shown p) turn ''status'' (text_in (vp_shown p) st ''turn_status'' []) in
     seq (or_python_error (turn_session (vp_shown p) st)) (\<lambda>session.
     seq (or_python_error (main_model_of (vp_shown p) turn)) (\<lambda>model.
     seq (if tree = [] then ret None else vp_tree p repo) (\<lambda>now.
     if now \<noteq> Some tree then
       ret (rejection ''review_modified_workspace'' (Some survivors) session model)
     else if status \<noteq> [] \<and> status \<noteq> ''completed'' then
       ret (rejection ''turn_failed'' (Some survivors) session model)
     else seq (vp_read p repo path) (\<lambda>text.
     seq (or_python_error (parse_verdicts (vp_shown p) (vp_loads p) text
        (map mi_key (ss_mutants survivors)))) (\<lambda>parsed.
       ret \<lparr>rd_outcome = pv_outcome parsed, rd_reason = pv_reason parsed,
            rd_survivors = Some survivors, rd_verdicts = pv_verdicts parsed,
            rd_sha = (case text of None \<Rightarrow> [] | Some s \<Rightarrow> vp_sha p s),
            rd_session = session, rd_model = model\<rparr>))))))"

definition interpret_review ::
  "'w review_ports \<Rightarrow> pydict \<Rightarrow> pyval \<Rightarrow> ('w, pydict) cycle_prog" where
  "interpret_review p st turn =
     seq (or_python_error (review_request (vp_shown p) st)) (\<lambda>request. (case request of
       None \<Rightarrow> ret (decided (rejection ''turn_failed'' None [] []))
     | Some (survivors, path, tree) \<Rightarrow>
         seq (or_python_error (if has_key st ''repo_path''
            then Some (shown_as (vp_shown p) (get st ''repo_path'')) else None)) (\<lambda>repo.
         seq (review_decision_of p st (as_dict turn) survivors path tree repo) (\<lambda>d. ret (decided d)))))"

definition review_payload_for_results :: "pydict \<Rightarrow> pydict option option" where
  "review_payload_for_results st = map_option (\<lambda>evidence.
     (case get evidence ''equivalence_review'' of PDict d \<Rightarrow> Some d | _ \<Rightarrow> None))
     (review_evidence st review_phase)"

end
