(* ===== verification/EquivalentFacts.thy ===== *)
theory EquivalentFacts
  imports EquivalenceReview DictFacts CycleBounds
begin

text \<open>
  What the equivalence review guarantees: which answers count, what a grant rests on, that a
  saved decision reads back as it was, and that asking and answering leave the counters of the
  generation cycle alone.
\<close>


section \<open>Accepted verdicts\<close>

text \<open>A verdict that counts: it is one, and it argues over a region.\<close>

definition argued :: "mutant_verdict \<Rightarrow> bool" where
  "argued v \<longleftrightarrow> mv_verdict v = Equivalent \<and> mv_region v \<noteq> [] \<and> mv_argument v \<noteq> []"

lemma verdict_from_argued:
  "verdict_from shown item = Some (Some v) \<Longrightarrow> mv_verdict v = Equivalent \<longleftrightarrow> argued v"
  by (auto simp: verdict_from_def argued_def Let_def split: pyval.splits option.splits if_splits)

lemma judge_verdicts_accepts:
  "pv_outcome (judge_verdicts expected vs) = AllEquivalent \<longleftrightarrow>
     set (map mv_key vs) = expected \<and> (\<forall>v \<in> set vs. mv_verdict v = Equivalent)"
  by (simp add: judge_verdicts_def rejected_def)

lemma judge_verdicts_verdicts [simp]: "pv_verdicts (judge_verdicts expected vs) = vs"
  by (simp add: judge_verdicts_def rejected_def)

lemma collect_verdicts_accepted:
  "collect_verdicts shown expected items vs = Some parsed \<Longrightarrow> pv_outcome parsed = AllEquivalent
    \<Longrightarrow> \<exists>ws. map (verdict_from shown) items = map (\<lambda>w. Some (Some w)) ws
        \<and> parsed = judge_verdicts expected (vs @ ws)
        \<and> (distinct (map mv_key vs) \<longrightarrow> distinct (map mv_key (vs @ ws)))"
proof (induction items arbitrary: vs)
  case Nil
  then show ?case by simp
next
  case (Cons item items)
  from Cons.prems obtain v where v: "verdict_from shown item = Some (Some v)"
    and new: "mv_key v \<in> expected" "mv_key v \<notin> set (map mv_key vs)"
    and rest: "collect_verdicts shown expected items (vs @ [v]) = Some parsed"
    by (auto simp: rejected_def split: option.splits if_splits)
  from Cons.IH [OF rest Cons.prems(2)] obtain ws where
    "map (verdict_from shown) items = map (\<lambda>w. Some (Some w)) ws"
    "parsed = judge_verdicts expected ((vs @ [v]) @ ws)"
    "distinct (map mv_key (vs @ [v])) \<longrightarrow> distinct (map mv_key ((vs @ [v]) @ ws))" by blast
  with v new show ?case by (intro exI [of _ "v # ws"]) auto
qed

lemma collect_verdicts_good:
  "map (verdict_from shown) items = map (\<lambda>w. Some (Some w)) ws \<Longrightarrow> distinct (map mv_key (vs @ ws))
    \<Longrightarrow> set (map mv_key ws) \<subseteq> expected
    \<Longrightarrow> collect_verdicts shown expected items vs = Some (judge_verdicts expected (vs @ ws))"
proof (induction items arbitrary: vs ws)
  case Nil
  then show ?case by simp
next
  case (Cons item items)
  then obtain w us where w: "ws = w # us" "verdict_from shown item = Some (Some w)"
    "map (verdict_from shown) items = map (\<lambda>w. Some (Some w)) us" by (cases ws) auto
  with Cons.IH [OF w(3), of "vs @ [w]"] Cons.prems(2,3) show ?case by auto
qed

text \<open>What a list of items says when every item is a verdict.\<close>

definition all_verdicts :: "(pyval \<Rightarrow> str) \<Rightarrow> pyval list \<Rightarrow> mutant_verdict list option" where
  "all_verdicts shown items = Option.bind (all_some (map (verdict_from shown) items)) all_some"

lemma all_verdicts_iff:
  "all_verdicts shown items = Some ws \<longleftrightarrow> map (verdict_from shown) items = map (\<lambda>w. Some (Some w)) ws"
  by (auto simp: all_verdicts_def all_some_iff bind_eq_Some_conv o_def)

lemma all_verdicts_argued:
  "all_verdicts shown items = Some ws \<Longrightarrow> w \<in> set ws \<Longrightarrow> mv_verdict w = Equivalent \<longleftrightarrow> argued w"
  by (auto simp: all_verdicts_iff map_eq_conv list_eq_iff_nth_eq in_set_conv_nth verdict_from_argued)

lemma accepted_iff:
  "(\<exists>parsed. parse_verdicts shown loads payload keys = Some parsed
      \<and> pv_outcome parsed = AllEquivalent \<and> pv_verdicts parsed = vs)
   \<longleftrightarrow> (\<exists>items. verdict_items loads payload = Some items \<and> all_verdicts shown items = Some vs
        \<and> distinct (map mv_key vs) \<and> set (map mv_key vs) = set keys \<and> list_all argued vs)"
  (is "?accepted \<longleftrightarrow> ?good")
proof
  assume ?accepted
  then obtain parsed items where p: "verdict_items loads payload = Some items"
    "collect_verdicts shown (set keys) items [] = Some parsed"
    "pv_outcome parsed = AllEquivalent" "pv_verdicts parsed = vs"
    by (auto simp: parse_verdicts_def rejected_def split: option.splits)
  from collect_verdicts_accepted [OF p(2,3)] p(4)
  have ws: "all_verdicts shown items = Some vs" "parsed = judge_verdicts (set keys) vs"
      "distinct (map mv_key vs)"
    by (auto simp: all_verdicts_iff)
  moreover from p(3) ws(2) have "set (map mv_key vs) = set keys" "\<forall>v \<in> set vs. mv_verdict v = Equivalent"
    by (auto simp: judge_verdicts_accepts)
  ultimately show ?good using p(1) all_verdicts_argued [OF ws(1)] by (auto simp: list_all_iff)
next
  assume ?good
  then obtain items where g: "verdict_items loads payload = Some items"
    "all_verdicts shown items = Some vs" "distinct (map mv_key vs)"
    "set (map mv_key vs) = set keys" "list_all argued vs" by blast
  then have "collect_verdicts shown (set keys) items [] = Some (judge_verdicts (set keys) vs)"
    using collect_verdicts_good [of shown items vs "[]" "set keys"] by (simp add: all_verdicts_iff)
  moreover have "pv_outcome (judge_verdicts (set keys) vs) = AllEquivalent"
    using g(4,5) by (auto simp: judge_verdicts_accepts list_all_iff argued_def)
  ultimately show ?accepted using g(1) by (simp add: parse_verdicts_def)
qed

section \<open>Grants\<close>

lemma review_decision_accepted:
  assumes "review_decision_of p st turn survivors path tree repo w = (Inr r, w')"
    and "rd_outcome r = AllEquivalent"
  shows "rd_survivors r = Some survivors"
    and "\<forall>k \<in> keys_of_survivors survivors. \<exists>v \<in> set (rd_verdicts r). mv_key v = k \<and> argued v"
proof -
  from assms obtain answer parsed where r: "rd_survivors r = Some survivors"
    "parse_verdicts (vp_shown p) (vp_loads p) answer (map mi_key (ss_mutants survivors)) = Some parsed"
    "pv_outcome parsed = AllEquivalent" "pv_verdicts parsed = rd_verdicts r"
    by (auto simp: review_decision_of_def res_simps or_python_run Let_def rejection_def
        split: if_split_asm)
  then show "rd_survivors r = Some survivors" by blast
  from r(2-4) have "\<exists>parsed. parse_verdicts (vp_shown p) (vp_loads p) answer
      (map mi_key (ss_mutants survivors)) = Some parsed
    \<and> pv_outcome parsed = AllEquivalent \<and> pv_verdicts parsed = rd_verdicts r" by blast
  then have "set (map mv_key (rd_verdicts r)) = set (map mi_key (ss_mutants survivors))
      \<and> list_all argued (rd_verdicts r)"
    unfolding accepted_iff by blast
  then show "\<forall>k \<in> keys_of_survivors survivors. \<exists>v \<in> set (rd_verdicts r). mv_key v = k \<and> argued v"
    by (auto simp: keys_of_survivors_def list_all_iff) (metis image_iff)
qed

section \<open>Saved decisions\<close>

text \<open>The verdicts as \<open>verdict_from\<close> leaves them.\<close>

definition readable :: "mutant_verdict \<Rightarrow> bool" where
  "readable v \<longleftrightarrow> mv_key v \<noteq> [] \<and> strip (mv_key v) = mv_key v \<and> strip (mv_region v) = mv_region v
     \<and> strip (mv_argument v) = mv_argument v \<and> (mv_verdict v = Equivalent \<longrightarrow> argued v)"

lemma texts_of_text_dict [simp]: "texts_of_dict shown (map (\<lambda>(k, v). (k, PStr v)) d) = d"
  by (induction d) (auto simp: texts_of_dict_def shown_as_def)

lemma sub_dict_text [simp]: "get d k = text_dict e \<Longrightarrow> sub_dict d k = Some (map (\<lambda>(k, v). (k, PStr v)) e)"
  by (simp add: sub_dict_def text_dict_def)

lemma text_in_str [simp]: "get d k = PStr s \<Longrightarrow> text_in shown d k [] = s"
  by (cases s) (simp_all add: text_in_def shown_as_def)

lemma int_or_zero_int [simp]: "get d k = PInt n \<Longrightarrow> int_or_zero d k = Some n"
  by (simp add: int_or_zero_def py_int_def)

lemma float_or_zero_float [simp]: "get d k = PFloat q \<Longrightarrow> float_or_zero d k = Some q"
  by (simp add: float_or_zero_def)

lemma iterated_list [simp]: "iterated (PList xs) = Some xs"
  by (simp add: iterated_def)

lemma identity_read [simp]: "identity_from_dict shown (identity_to_dict m) = Some m"
  by (simp add: identity_from_dict_def identity_to_dict_def)

lemma survivors_read [simp]: "survivors_from_dict shown (survivors_to_dict s) = Some s"
  by (simp add: survivors_from_dict_def survivors_to_dict_def o_def)

lemma verdict_named_label [simp]: "verdict_named (verdict_label v) = Some v"
  by (cases v) (simp_all add: verdict_named_def)

lemma outcome_named_label [simp]: "outcome_named (outcome_label v) = v"
  by (cases v) (simp_all add: outcome_named_def)

lemma label_plain [simp]: "lower (strip (verdict_label v)) = verdict_label v"
proof -
  have "lower (strip ''equivalent'') = ''equivalent''" "lower (strip ''killable'') = ''killable''"
    "lower (strip ''uncertain'') = ''uncertain''" by code_simp+
  then show ?thesis by (cases v) simp_all
qed

lemma source_lines_read [simp]: "get d ''source_lines'' = PList (map PInt ns) \<Longrightarrow> source_lines d = Some ns"
  by (simp add: source_lines_def map_filter_def o_def)

lemma verdict_read:
  "readable v \<Longrightarrow> verdict_from shown (verdict_to_dict v) = Some (Some v)"
  by (auto simp: verdict_from_def verdict_to_dict_def readable_def argued_def Let_def)

lemma text_in_label [simp]:
  "get d k = PStr s \<Longrightarrow> s \<noteq> [] \<Longrightarrow> text_in shown d k missing = s"
  by (simp add: text_in_def shown_as_def)

lemma outcome_label_ne [simp]: "outcome_label v \<noteq> []"
  by (cases v) simp_all

lemma readable_decision_read:
  assumes "\<forall>v \<in> set (rd_verdicts d). readable v"
  shows "decision_from_dict shown (decision_to_dict d) = Some d"
proof -
  have "map (\<lambda>v. verdict_from shown (verdict_to_dict v)) (rd_verdicts d) = map (\<lambda>v. Some (Some v)) (rd_verdicts d)"
    using assms by (simp add: verdict_read)
  then have "all_some (map (\<lambda>v. verdict_from shown (verdict_to_dict v)) (rd_verdicts d)) = Some (map Some (rd_verdicts d))"
    by (simp only: all_some_map_Some)
  then show ?thesis
    by (simp add: decision_from_dict_def decision_to_dict_def map_filter_def o_def split: option.split)
qed

lemma verdict_from_readable: "verdict_from shown item = Some (Some v) \<Longrightarrow> readable v"
  using verdict_from_argued [of shown item v]
  by (auto simp: verdict_from_def readable_def Let_def split: pyval.splits option.splits if_splits)

lemma collect_verdicts_readable:
  "collect_verdicts shown expected items vs = Some parsed \<Longrightarrow> \<forall>v \<in> set vs. readable v
    \<Longrightarrow> \<forall>v \<in> set (pv_verdicts parsed). readable v"
proof (induction items arbitrary: vs)
  case Nil
  then have "parsed = judge_verdicts expected vs" by simp
  with Nil.prems(2) show ?case by simp
next
  case (Cons item items)
  show ?case
  proof (cases "verdict_from shown item")
    case None
    with Cons.prems(1) show ?thesis by simp
  next
    case (Some found)
    show ?thesis
    proof (cases "\<exists>v. found = Some v \<and> mv_key v \<in> expected \<and> mv_key v \<notin> set (map mv_key vs)")
      case True
      then obtain v where v: "found = Some v" "mv_key v \<in> expected" "mv_key v \<notin> set (map mv_key vs)" by blast
      from Some v(1) have "readable v" by (simp add: verdict_from_readable)
      with Cons.prems(2) have "\<forall>v \<in> set (vs @ [v]). readable v" by (simp only: set_append set_simps ball_Un ball_simps simp_thms)
      moreover from Some v Cons.prems(1) have "collect_verdicts shown expected items (vs @ [v]) = Some parsed"
        by simp
      ultimately show ?thesis using Cons.IH by blast
    next
      case False
      with Some Cons.prems(1) have "parsed = rejected ''verdicts_invalid'' []"
        by (cases found) (simp_all split: if_split_asm)
      then show ?thesis by (simp add: rejected_def)
    qed
  qed
qed

lemma parse_verdicts_readable:
  "parse_verdicts shown loads payload keys = Some parsed \<Longrightarrow> \<forall>v \<in> set (pv_verdicts parsed). readable v"
  by (auto simp: parse_verdicts_def rejected_def dest: collect_verdicts_readable split: option.splits)

lemma review_decision_readable:
  "review_decision_of p st turn s path tree repo w = (Inr d, w') \<Longrightarrow> \<forall>v \<in> set (rd_verdicts d). readable v"
  by (auto simp: review_decision_of_def res_simps or_python_run Let_def rejection_def
      dest: parse_verdicts_readable split: if_split_asm)

section \<open>The cycle's counters\<close>

lemma review_question_cases:
  obtains e t where "review_question p u ev r why s t' = dict_update r
      [(''phase_outcome'', PStr ''review_equivalence''), (''evidence'', e),
        (''equivalence_review_timeout_seconds'', t)]"
    | e where "review_question p u ev r why s t' = dict_set ''evidence'' e r"
  unfolding review_question_def by (cases why; cases s; cases t') auto

lemma prepare_review_cases:
  assumes "prepare_review p phase st r w = (Inr r', w')"
  shows "r' = r \<or> (\<exists>u ev why s t. r' = review_question p u ev r why s t)"
proof -
  from assms obtain ev results where
    "(if \<not> stalled_on_mutation st results r then ret r
      else seq (vp_survivors p (dict_set ''phase_results''
           (PDict (dict_set phase (PDict r) results)) st)) (\<lambda>survivors.
       seq (or_python_error (if has_key st ''repo_path''
          then Some (shown_as (vp_shown p) (get st ''repo_path'')) else None)) (\<lambda>repo.
       (let reason = snd (assess_eligibility survivors (vp_cap p)) in
       seq (if reason \<noteq> [] then ret None else vp_tree p repo) (\<lambda>tree.
       (let why = (if reason = [] \<and> tree = None then ''workspace_unverifiable'' else reason) in
       ret (review_question p (text_in (vp_shown p) st ''unit_id'' []) ev r
          why survivors tree)))))) ) w = (Inr r', w')"
    unfolding prepare_review_def by (simp only: res_simps or_python_run) blast
  then show ?thesis
    by (cases "stalled_on_mutation st results r")
      (simp_all only: if_True if_False not_True_eq_False not_False_eq_True res_simps or_python_run Let_def, blast+)
qed

lemma prepare_review_keeps:
  assumes "prepare_review p phase st r w = (Inr r', w')"
  shows "(get r' ''phase_outcome'' = get r ''phase_outcome''
          \<or> get r' ''phase_outcome'' = PStr ''review_equivalence'') \<and> same_at_counters r r'"
  using prepare_review_cases [OF assms]
proof (elim disjE exE)
  fix u ev why s t assume "r' = review_question p u ev r why s t"
  then show ?thesis
    by (cases rule: review_question_cases [of p u ev r why s t])
      (auto simp: get_dict_update has_key_update get_dict_set same_at_counters_def counter_keys_def)
qed (auto simp: same_at_counters_def)

lemma interpret_review_keeps:
  "interpret_review p st turn w = (Inr r, w') \<Longrightarrow> keeps_counters r"
  by (auto simp: interpret_review_def res_simps or_python_run decided_def keeps_counters_def
      split: option.splits)


section \<open>Properties\<close>

text \<open>
  C37: A verdict file counts as all equivalent, with given verdicts, exactly when it is a
  list of verdicts whose keys are pairwise distinct and are the expected ones, and each is
  argued over a region.
\<close>

theorem parse_verdicts_accepts:
  "(\<exists>parsed. parse_verdicts shown loads payload keys = Some parsed
      \<and> pv_outcome parsed = AllEquivalent \<and> pv_verdicts parsed = vs)
   \<longleftrightarrow> (\<exists>items. verdict_items loads payload = Some items \<and> all_verdicts shown items = Some vs
        \<and> distinct (map mv_key vs) \<and> set (map mv_key vs) = set keys \<and> list_all argued vs)"
  by (rule accepted_iff)

text \<open>
  C9: When every saved review is one the review phase produced and a grant is given, then
  tests and coverage passed, only the mutation score failed, the fresh gate has no
  unreviewed failure, its source fingerprints are the reviewed ones, and each of its
  surviving mutants has, in one of the reviews, a verdict that calls it equivalent with a
  divergence region and an argument.
\<close>

theorem grant_covers_every_mutant:
  assumes "\<forall>r \<in> set reviews. \<exists>st turn s path tree repo w w'.
      review_decision_of (p :: 'w review_ports) st turn s path tree repo w = (Inr r, w')"
    and "decide_grant reviews fresh tests coverage only = (True, reason)"
  shows "tests \<and> coverage \<and> only \<and> (\<exists>f. fresh = Some f \<and> ss_unreviewed f = 0
    \<and> (\<forall>m \<in> set (ss_mutants f). \<exists>r \<in> set reviews. \<exists>v \<in> set (rd_verdicts r).
          mv_key v = mi_key m \<and> argued v)
    \<and> same_dict (ss_fingerprints f) (reviewed_fingerprints (reviewed_survivors reviews)))"
proof -
  from assms(2) obtain f where f: "fresh = Some f" "tests" "coverage" "only" "ss_unreviewed f = 0"
    "keys_of_survivors f = \<Union> (keys_of_survivors ` set (reviewed_survivors reviews))"
    "same_dict (ss_fingerprints f) (reviewed_fingerprints (reviewed_survivors reviews))"
    "\<forall>r \<in> set reviews. rd_outcome r = AllEquivalent"
    by (auto simp: decide_grant_def Let_def split: option.splits if_splits)
  have "\<exists>r \<in> set reviews. \<exists>v \<in> set (rd_verdicts r). mv_key v = mi_key m \<and> argued v"
    if m: "m \<in> set (ss_mutants f)" for m
  proof -
    from m have "mi_key m \<in> keys_of_survivors f" by (simp add: keys_of_survivors_def)
    with f(6) obtain r s where r: "r \<in> set reviews" "rd_survivors r = Some s" "mi_key m \<in> keys_of_survivors s"
      by (auto simp: reviewed_survivors_def map_filter_def)
    from assms(1) r(1) obtain st turn s' path tree repo w w' where
      run: "review_decision_of p st turn s' path tree repo w = (Inr r, w')" by blast
    from review_decision_accepted [OF run] f(8) r show ?thesis by fastforce
  qed
  with f show ?thesis by blast
qed


text \<open>
  A decision that the review phase produced, whatever the answer was, reads back from
  its saved dictionary exactly as it was, survivors and verdicts included.
\<close>

theorem saved_decision_read:
  assumes "review_decision_of p st turn s path tree repo w = (Inr d, w')"
  shows "decision_from_dict shown (decision_to_dict d) = Some d"
  using review_decision_readable [OF assms] by (rule readable_decision_read)

text \<open>Two reviews of one source file, the later one taken after the file changed.\<close>

definition survivors_of :: "mutant_identity list \<Rightarrow> (str \<times> str) list \<Rightarrow> scoring_survivors" where
  "survivors_of ms prints = \<lparr>ss_language = ''java'', ss_mutants = ms, ss_unreviewed = 0,
     ss_fingerprints = prints, ss_rate = 0, ss_gate = 1\<rparr>"

definition accepted_review :: "mutant_identity list \<Rightarrow> (str \<times> str) list \<Rightarrow> review_decision" where
  "accepted_review ms prints = \<lparr>rd_outcome = AllEquivalent, rd_reason = [],
     rd_survivors = Some (survivors_of ms prints), rd_verdicts = [], rd_sha = [], rd_session = [],
     rd_model = []\<rparr>"

text \<open>
  A review of a file whose source changed is refused on its own, but together with a
  later review of the same file it is granted: the fingerprints of the reviews are merged
  and the later one wins.
\<close>

theorem later_review_hides_a_changed_source:
  assumes "before \<noteq> now"
  shows "decide_grant [accepted_review ms [(file, before)]]
           (Some (survivors_of ms [(file, now)])) True True True = (False, ''fingerprint_changed'')
    \<and> decide_grant [accepted_review ms [(file, before)], accepted_review ns [(file, now)]]
           (Some (survivors_of (ms @ ns) [(file, now)])) True True True = (True, [])"
  using assms
  by (auto simp: decide_grant_def accepted_review_def survivors_of_def reviewed_survivors_def
      reviewed_fingerprints_def keys_of_survivors_def same_dict_def map_filter_def dict_update_def Let_def)

section \<open>Witnesses\<close>

text \<open>A verdict file with one argued verdict, read in an unchanged workspace.\<close>

definition sample_mutant :: mutant_identity where
  "sample_mutant = \<lparr>mi_key = ''k'', mi_source = ''A.java'', mi_line = 3, mi_operator = ''MATH'',
     mi_description = ''+ became -'', mi_diff = []\<rparr>"

definition sample_document :: pyval where
  "sample_document = PList [PDict [(''key'', PStr ''k''), (''verdict'', PStr ''Equivalent ''),
     (''divergence_region'', PStr ''x = 0''), (''why_indistinguishable'', PStr ''0 + 0 = 0 - 0'')]]"

definition sample_ports :: "unit review_ports" where
  "sample_ports = \<lparr>vp_shown = (\<lambda>_. ''?''), vp_loads = (\<lambda>_. Some sample_document),
     vp_sha = (\<lambda>_. ''sha''), vp_cap = 5, vp_timeout = 600,
     vp_survivors = (\<lambda>_. ret (Some (survivors_of [sample_mutant] [(''A.java'', ''d'')]))),
     vp_tree = (\<lambda>_. ret (Some ''t'')), vp_read = (\<lambda>_ _. ret (Some ''file''))\<rparr>"

definition sample_decision :: review_decision where
  "sample_decision = \<lparr>rd_outcome = AllEquivalent, rd_reason = [],
     rd_survivors = Some (survivors_of [sample_mutant] [(''A.java'', ''d'')]),
     rd_verdicts = [\<lparr>mv_key = ''k'', mv_verdict = Equivalent, mv_region = ''x = 0'',
       mv_argument = ''0 + 0 = 0 - 0'', mv_lines = []\<rparr>],
     rd_sha = ''sha'', rd_session = [], rd_model = []\<rparr>"

lemma sample_texts:
  "lower (strip ''Equivalent '') = ''equivalent''" "strip ''k'' = ''k''" "strip ''x = 0'' = ''x = 0''"
  "strip ''0 + 0 = 0 - 0'' = ''0 + 0 = 0 - 0''"
  by code_simp+

lemma sample_review_runs:
  "review_decision_of sample_ports [] [] (survivors_of [sample_mutant] [(''A.java'', ''d'')]) ''v'' ''t'' ''r'' ()
     = (Inr sample_decision, ())"
  by (simp add: review_decision_of_def res_simps or_python_error_def Let_def sample_ports_def
      sample_decision_def survivors_of_def sample_mutant_def sample_document_def parse_verdicts_def
      verdict_items_def list_of_def verdict_from_def sample_texts verdict_named_def source_lines_def
      iterated_def judge_verdicts_def turn_session_def state_list_def main_model_of_def sub_dict_def
      text_in_def shown_as_def map_filter_def)

lemma sample_reviewed:
  "\<forall>r \<in> set [sample_decision]. \<exists>st turn s path tree repo w w'.
     review_decision_of sample_ports st turn s path tree repo w = (Inr r, w')"
  using sample_review_runs by (simp del: split_paired_Ex) blast

lemma sample_granted:
  "decide_grant [sample_decision] (Some (survivors_of [sample_mutant] [(''A.java'', ''d'')])) True True True
     = (True, [])"
  by (simp add: decide_grant_def sample_decision_def survivors_of_def reviewed_survivors_def
      reviewed_fingerprints_def keys_of_survivors_def same_dict_def map_filter_def dict_update_def Let_def)

theorem grant_covers_every_mutant_witness:
  "\<exists>f. Some (survivors_of [sample_mutant] [(''A.java'', ''d'')]) = Some f
    \<and> (\<forall>m \<in> set (ss_mutants f). \<exists>r \<in> set [sample_decision]. \<exists>v \<in> set (rd_verdicts r).
          mv_key v = mi_key m \<and> argued v)"
  using grant_covers_every_mutant [OF sample_reviewed sample_granted] by blast

theorem saved_decision_read_witness:
  "decision_from_dict (\<lambda>_. []) (decision_to_dict sample_decision) = Some sample_decision"
  by (rule saved_decision_read [OF sample_review_runs])

theorem later_review_hides_a_changed_source_witness:
  "decide_grant [accepted_review [sample_mutant] [(''A.java'', ''d'')], accepted_review [] [(''A.java'', ''e'')]]
     (Some (survivors_of [sample_mutant] [(''A.java'', ''e'')])) True True True = (True, [])"
  using later_review_hides_a_changed_source [of "''d''" "''e''" "[sample_mutant]" "''A.java''" "[]"] by simp

end
