(* ===== verification/EnforceEvidence.thy ===== *)
theory EnforceEvidence
  imports PyValue "HOL-Library.List_Lexorder" "HOL-Library.Char_ord"
begin

text \<open>
  The evidence of the enforcement core: \<open>uta_enforce_core/evidence.py\<close> (what a set of target
  results adds up to), \<open>targets.py\<close> and \<open>mutation_suppression.py\<close>. A dictionary read
  from JSON is a \<open>pydict\<close>; \<open>None\<close> stands for an exception. The canonical JSON text,
  its hash and the formatting of a float with two decimals are parameters.
\<close>

section \<open>Targets\<close>

text \<open>\<open>str(value or "").split("::", 1)[0].strip().replace("\\", "/")\<close>.\<close>

definition target_source_path :: "str \<Rightarrow> str" where
  "target_source_path value =
     map (\<lambda>c. if c = CHR 0x5C then CHR ''/'' else c) (strip (text_before ''::'' value))"

definition target_payload :: "str \<Rightarrow> pydict" where
  "target_payload source_path =
     [(''language'', PStr ''python''), (''target_id'', PStr (''pyfile:'' @ source_path)),
      (''display_name'', PStr source_path), (''source_path'', PStr source_path),
      (''granularity'', PStr ''file'')]"

definition artifact_name :: "str \<Rightarrow> str" where
  "artifact_name path = (let s = strip_chars ''_'' (squeeze name_char (CHR ''_'') False path) in
     if s = [] then ''target'' else s)"

section \<open>Suppression\<close>

definition suppression_reason_codes :: "str list" where
  "suppression_reason_codes = [''low_value_logging'', ''metrics_only'', ''import_wiring'',
     ''pure_config_constant'', ''generated_framework_glue'', ''mutation_tool_unsupported'',
     ''async_scheduler_loop'']"

definition is_known_suppression_reason :: "str \<Rightarrow> bool" where
  "is_known_suppression_reason reason = (reason \<in> set suppression_reason_codes)"

section \<open>The identity of an evidence\<close>

definition finalize :: "(pydict \<Rightarrow> str) \<Rightarrow> pydict \<Rightarrow> pydict" where
  "finalize digest evidence = dict_set ''evidenceId''
     (PStr (''uta-python-enforcement-'' @ take 24 (digest (dict_set ''evidenceId'' (PStr []) evidence))))
     evidence"

section \<open>Sums over target results\<close>

text \<open>\<open>sum(int(item.get(key) or 0) for item in items)\<close>.\<close>

definition sum_field :: "pydict list \<Rightarrow> str \<Rightarrow> int option" where
  "sum_field items key = map_option sum_list (all_some (map (\<lambda>d. int_or_zero d key) items))"

definition no_tests_of :: "pydict \<Rightarrow> int option" where
  "no_tests_of d = (if truthy (get d ''noTests'') then py_int (get d ''noTests'')
     else int_or_zero d ''no_tests'')"

definition summaries_of :: "str \<Rightarrow> pydict list \<Rightarrow> pydict list" where
  "summaries_of key target_results =
     List.map_filter (\<lambda>item. case get item key of PDict d \<Rightarrow> Some d | _ \<Rightarrow> None) target_results"

definition is_true :: "pydict \<Rightarrow> str \<Rightarrow> bool" where
  "is_true d key = (get d key = PBool True)"

text \<open>A percentage with four decimals; full marks when there is nothing to count.\<close>

definition percentage :: "int \<Rightarrow> int \<Rightarrow> rat" where
  "percentage part whole =
     (if whole = 0 then 100 else round4 (of_int part / of_int whole * 100))"

text \<open>Outer \<open>None\<close>: an exception; inner \<open>None\<close>: no target has a summary.\<close>

definition aggregate_coverage :: "pydict list \<Rightarrow> rat \<Rightarrow> pydict option option" where
  "aggregate_coverage target_results gate =
     (let summaries = summaries_of ''coverage'' target_results in
      if summaries = [] then Some None
      else
        Option.bind (sum_field summaries ''covered'') (\<lambda>covered.
        map_option (\<lambda>total. Some
          [(''covered'', PInt covered), (''total'', PInt total),
           (''rate'', PFloat (percentage covered total)), (''gate'', PFloat gate),
           (''passed'', PBool (\<forall>d \<in> set summaries. is_true d ''passed'')),
           (''modules'', PInt (int (length summaries))), (''scope'', PStr ''changed_lines''),
           (''no_executable_changed_lines'',
             PBool (\<forall>d \<in> set summaries. is_true d ''no_executable_changed_lines''))])
          (sum_field summaries ''total'')))"

section \<open>Merging candidate plans\<close>

definition joined :: "pydict list \<Rightarrow> str \<Rightarrow> pyval list option" where
  "joined plans key = map_option concat (all_some (map (\<lambda>p. iterated (get p key)) plans))"

text \<open>Counts per reason, in the order in which the reasons appear.\<close>

definition count_reason :: "(str \<times> int) list \<Rightarrow> str \<Rightarrow> (str \<times> int) list" where
  "count_reason counts reason = dict_set reason
     ((case map_of counts reason of None \<Rightarrow> 0 | Some n \<Rightarrow> n) + 1) counts"

definition reasons_of :: "(pyval \<Rightarrow> str) \<Rightarrow> pyval list \<Rightarrow> str list" where
  "reasons_of shown items = filter (\<lambda>r. r \<noteq> [])
     (List.map_filter (\<lambda>v. case v of PDict d \<Rightarrow> Some (text_in shown d ''reasonCode'' []) | _ \<Rightarrow> None) items)"

definition reason_counts :: "str list \<Rightarrow> (str \<times> int) list" where
  "reason_counts reasons = foldl count_reason [] reasons"

definition generation_count_fields :: "str list" where
  "generation_count_fields = [''changedLineCount'', ''eligibleOpportunities'',
     ''selectedOpportunitiesBeforeCap'', ''selectedOpportunities'', ''omittedByOnePerLine'',
     ''omittedByHardCap'', ''suppressedOpportunities'']"

definition merged_generation_policy :: "pydict list \<Rightarrow> pydict option" where
  "merged_generation_policy policies =
     map_option (\<lambda>counts. zip generation_count_fields (map PInt counts)
         @ [(''truncated'', PBool (\<exists>p \<in> set policies. truthy (get p ''truncated'')))])
       (all_some (map (sum_field policies) generation_count_fields))"

definition aggregate_candidate_plan :: "(pyval \<Rightarrow> str) \<Rightarrow> pydict list \<Rightarrow> pydict option" where
  "aggregate_candidate_plan shown plans =
     Option.bind (joined plans ''activeSelected'') (\<lambda>active.
     Option.bind (joined plans ''reportFullSelected'') (\<lambda>report_full.
     Option.bind (joined plans ''exactToolCandidateKeys'') (\<lambda>exact.
     Option.bind (joined plans ''eligibleMutationOpportunities'') (\<lambda>eligible.
     Option.bind (joined plans ''suppressed'') (\<lambda>suppressed.
     map_option (\<lambda>policy.
       (let mechanisms = sort (remdups (List.map_filter (\<lambda>p.
              if truthy (get p ''filterMechanism'') then Some (shown_as shown (get p ''filterMechanism''))
              else None) plans)) in
        [(''activeSelected'', PList active), (''reportFullSelected'', PList report_full),
         (''exactToolCandidateKeys'', PList exact), (''eligibleMutationOpportunities'', PList eligible),
         (''suppressed'', PList suppressed),
         (''suppressionByReason'', PDict (map (\<lambda>(k, n). (k, PInt n))
            (reason_counts (reasons_of shown suppressed)))),
         (''filterMechanisms'', PList (map PStr mechanisms)),
         (''adapterFilteredGenerationApplied'', PBool (plans \<noteq> []
            \<and> (\<forall>p \<in> set plans. truthy (get p ''adapterFilteredGenerationApplied'')))),
         (''generationPolicy'', PDict policy),
         (''samplingLayer'', PDict [(''enabled'', PBool False)]), (''sampled'', PBool False)]
        @ (case mechanisms of [m] \<Rightarrow> [(''filterMechanism'', PStr m)] | _ \<Rightarrow> [])))
       (merged_generation_policy (List.map_filter (\<lambda>p. case get p ''generationPolicy'' of
          PDict d \<Rightarrow> Some d | _ \<Rightarrow> None) plans)))))))"

section \<open>Mutation\<close>

record mutation_totals =
  mt_generated :: int
  mt_killed :: int
  mt_survived :: int
  mt_no_tests :: int
  mt_timeout :: int
  mt_suspicious :: int
  mt_not_checked :: int
  mt_scored :: int

definition mutation_totals_of :: "pydict list \<Rightarrow> mutation_totals option" where
  "mutation_totals_of ms =
     Option.bind (sum_field ms ''generated'') (\<lambda>generated.
     Option.bind (sum_field ms ''killed'') (\<lambda>killed.
     Option.bind (sum_field ms ''survived'') (\<lambda>survived.
     Option.bind (map_option sum_list (all_some (map no_tests_of ms))) (\<lambda>no_tests.
     Option.bind (sum_field ms ''timeout'') (\<lambda>timeout.
     Option.bind (sum_field ms ''suspicious'') (\<lambda>suspicious.
     Option.bind (sum_field ms ''notChecked'') (\<lambda>not_checked.
     map_option (\<lambda>scored. \<lparr>mt_generated = generated, mt_killed = killed, mt_survived = survived,
         mt_no_tests = no_tests, mt_timeout = timeout, mt_suspicious = suspicious,
         mt_not_checked = not_checked, mt_scored = scored\<rparr>)
       (sum_field ms ''changedLineMutantsScored''))))))))"

definition mutation_denominator :: "mutation_totals \<Rightarrow> int" where
  "mutation_denominator t = mt_killed t + mt_survived t + mt_timeout t + mt_suspicious t"

definition has_reason :: "str \<Rightarrow> pydict list \<Rightarrow> bool" where
  "has_reason reason ms = (\<exists>d \<in> set ms. get d ''reasonCode'' = PStr reason)"

definition aggregated_rate :: "pydict list \<Rightarrow> mutation_totals \<Rightarrow> rat" where
  "aggregated_rate ms t =
     (if has_reason ''mutation_backend_failed'' ms \<or> has_reason ''mutation_no_tests'' ms then 0
      else percentage (mt_killed t) (mutation_denominator t))"

definition mutation_evidence :: "pydict list \<Rightarrow> mutation_totals \<Rightarrow> rat \<Rightarrow> pydict \<Rightarrow> pydict" where
  "mutation_evidence ms t gate plan =
     [(''generated'', PInt (mt_generated t)), (''killed'', PInt (mt_killed t)),
      (''survived'', PInt (mt_survived t)), (''noTests'', PInt (mt_no_tests t)),
      (''timeout'', PInt (mt_timeout t)), (''suspicious'', PInt (mt_suspicious t)),
      (''notChecked'', PInt (mt_not_checked t)),
      (''changedLineMutantsGenerated'', PInt (mt_generated t)),
      (''changedLineMutantsKilled'', PInt (mt_killed t)),
      (''changedLineMutantsScored'', PInt (mt_scored t)),
      (''rate'', PFloat (aggregated_rate ms t)), (''gate'', PFloat gate),
      (''passed'', PBool ((\<forall>d \<in> set ms. is_true d ''passed'') \<and> gate \<le> aggregated_rate ms t)),
      (''reasonCode'', if has_reason ''mutation_backend_failed'' ms then PStr ''mutation_backend_failed''
         else if has_reason ''mutation_no_tests'' ms then PStr ''mutation_no_tests'' else PNone),
      (''modules'', PInt (int (length ms))), (''scope'', PStr ''changed_lines''),
      (''candidatePlan'', PDict plan)]"

definition aggregate_mutation ::
  "(pyval \<Rightarrow> str) \<Rightarrow> pydict list \<Rightarrow> rat \<Rightarrow> pydict option option" where
  "aggregate_mutation shown target_results gate =
     (let ms = summaries_of ''mutation'' target_results in
      if ms = [] then Some None
      else
        Option.bind (mutation_totals_of ms) (\<lambda>t.
        map_option (\<lambda>plan. Some (mutation_evidence ms t gate plan))
          (aggregate_candidate_plan shown (summaries_of ''candidatePlan'' ms))))"

section \<open>The text of the result\<close>

record text_ports =
  tp_shown :: "pyval \<Rightarrow> str"
  tp_fixed2 :: "rat \<Rightarrow> str"
  tp_dumps :: "pydict \<Rightarrow> str"

definition passed_or_failed :: "pydict \<Rightarrow> str" where
  "passed_or_failed d = (if truthy (get d ''passed'') then ''passed'' else ''failed'')"

definition coverage_line :: "text_ports \<Rightarrow> pydict \<Rightarrow> str option" where
  "coverage_line p c =
     Option.bind (float_or_zero c ''rate'') (\<lambda>rate.
     Option.bind (int_or_zero c ''covered'') (\<lambda>covered.
     map_option (\<lambda>total. ''[test-enforcer] python diff line coverage '' @ tp_fixed2 p rate @ ''% ''
         @ passed_or_failed c @ '' ('' @ int_str covered @ ''/'' @ int_str total @ '')'')
       (int_or_zero c ''total'')))"

definition mutation_line :: "text_ports \<Rightarrow> pydict \<Rightarrow> str option" where
  "mutation_line p m =
     (if get m ''reasonCode'' = PStr ''mutation_backend_failed'' then
        map_option (\<lambda>n. ''[test-enforcer] python diff mutation unavailable: mutation backend failed; ''
          @ int_str n @ '' selected mutants were not executed'') (int_or_zero m ''notChecked'')
      else if get m ''reasonCode'' = PStr ''mutation_no_tests'' then
        map_option (\<lambda>n. ''[test-enforcer] python diff mutation unavailable: no tests associated with ''
          @ int_str n @ '' selected mutants'') (int_or_zero m ''noTests'')
      else
        Option.bind (float_or_zero m ''rate'') (\<lambda>rate.
        Option.bind (int_or_zero m ''survived'') (\<lambda>survived.
        map_option (\<lambda>n. ''[test-enforcer] python diff mutation score '' @ tp_fixed2 p rate @ ''% ''
            @ passed_or_failed m @ '' ('' @ int_str survived @ '' diff survivors, '' @ int_str n
            @ '' diff mutants)'')
          (int_or_zero m ''changedLineMutantsGenerated''))))"

text \<open>A line that is not due is the empty list.\<close>

definition line_if :: "pydict \<Rightarrow> (pydict \<Rightarrow> str option) \<Rightarrow> str list option" where
  "line_if d f = (if d = [] then Some [] else map_option (\<lambda>l. [l]) (f d))"

definition format_evidence_markers :: "text_ports \<Rightarrow> pydict \<Rightarrow> str option" where
  "format_evidence_markers p evidence =
     Option.bind (sub_dict evidence ''coverage'') (\<lambda>coverage.
     Option.bind (sub_dict evidence ''mutation'') (\<lambda>mutation.
     Option.bind (line_if coverage (coverage_line p)) (\<lambda>cs.
     map_option (\<lambda>ms. join_with [newline]
         ([''[test-enforcer] python evidence '' @ shown_as (tp_shown p) (get evidence ''status'') @ '' ''
             @ shown_as (tp_shown p) (get evidence ''reasonCode'')] @ cs @ ms
          @ [''UTA_PYTHON_ENFORCEMENT_EVIDENCE='' @ tp_dumps p evidence]) @ [newline])
       (line_if mutation (mutation_line p)))))"

section \<open>The result of one target\<close>

definition target_result ::
  "str \<Rightarrow> str \<Rightarrow> str \<Rightarrow> bool \<Rightarrow> str \<Rightarrow> pyval \<Rightarrow> pyval \<Rightarrow> pydict list \<Rightarrow> str list \<Rightarrow> str list
    \<Rightarrow> pydict list \<Rightarrow> pydict" where
  "target_result source_path status reason tests_pass message coverage mutation commands selected
       candidates candidate_results =
     [(''target'', PDict (target_payload source_path)), (''status'', PStr status),
      (''reasonCode'', PStr reason), (''testsPass'', PBool tests_pass), (''message'', PStr message),
      (''coverage'', coverage), (''mutation'', mutation), (''commands'', PList (map PDict commands)),
      (''selectedTestPaths'', PList (map PStr selected)),
      (''candidateTestPaths'', PList (map PStr candidates)),
      (''candidateResults'', PList (map PDict candidate_results)),
      (''configuredTestPaths'', PList (map PStr candidates)), (''artifacts'', PDict []),
      (''setup'', PDict [(''tool'', PStr ''lightweight_tool'')])]"

end
