(* ===== verification/PythonLane.thy ===== *)
theory PythonLane
  imports EnforceEvidence
begin

text \<open>
  How the Python enforcement runs commands and measures the coverage of the changed lines:
  \<open>uta_py_enforce/runtime.py\<close>, \<open>config.py\<close> and \<open>coverage.py\<close>. A run of the
  lane works on the text files of the repository, the list of command records that the code
  passes around and appends to, and the rest of the world; spawning a process may change all
  but the command list. An exception is a text.
\<close>

section \<open>The state of a lane\<close>

record 'w lane =
  ln_files :: "str \<Rightarrow> str option"
  ln_world :: 'w

record 'w run =
  ru_lane :: "'w lane"
  ru_commands :: "pydict list"

type_synonym ('w, 'a) lane_prog = "('w run, str, 'a) prog"

type_synonym env = "(str \<times> str) list"

datatype spawned = Exited int str str | TimedOut str str

text \<open>
  What the lane calls: \<open>subprocess.run\<close>, the parser of a coverage report, the environment
  that \<open>pytest_env\<close> builds for a directory, and the path of \<open>pytest_process.py\<close>.
\<close>

record coverage_class =
  cc_filename :: str
  cc_lines :: "(str \<times> str) list"

record 'w lane_ports =
  lp_spawn :: "str list \<Rightarrow> str \<Rightarrow> env option \<Rightarrow> int \<Rightarrow> ('w lane, str, spawned) prog"
  lp_parse_xml :: "str \<Rightarrow> coverage_class list option"
  lp_pytest_env :: "str \<Rightarrow> str list \<Rightarrow> env \<Rightarrow> ('w lane, str, env) prog"
  lp_script :: str

definition on_lane :: "('w lane, str, 'a) prog \<Rightarrow> ('w, 'a) lane_prog" where
  "on_lane m s = (case m (ru_lane s) of (r, l) \<Rightarrow> (r, s\<lparr>ru_lane := l\<rparr>))"

definition raised :: "'a option \<Rightarrow> str \<Rightarrow> ('s, str, 'a) prog" where
  "raised x what = (case x of None \<Rightarrow> raise what | Some y \<Rightarrow> ret y)"

definition read_file :: "str \<Rightarrow> ('w, str option) lane_prog" where
  "read_file path = reads (\<lambda>s. ln_files (ru_lane s) path)"

definition put_file :: "str \<Rightarrow> str option \<Rightarrow> ('w, unit) lane_prog" where
  "put_file path content = modifies (\<lambda>s. s\<lparr>ru_lane := (ru_lane s)\<lparr>ln_files :=
     (ln_files (ru_lane s))(path := content)\<rparr>\<rparr>)"

section \<open>Running a command\<close>

definition command_payload :: "str \<Rightarrow> str list \<Rightarrow> spawned \<Rightarrow> pydict" where
  "command_payload name command r =
     (let (code, out, err) = (case r of Exited c out err \<Rightarrow> (c, out, err)
        | TimedOut out err \<Rightarrow> (124, out, err @ newline # ''command timed out'')) in
      [(''name'', PStr name), (''command'', PList (map PStr command)), (''exitCode'', PInt code),
       (''stdout'', PStr (last_chars 4000 out)), (''stderr'', PStr (last_chars 4000 err))])"

definition run_command ::
  "'w lane_ports \<Rightarrow> str \<Rightarrow> str list \<Rightarrow> str \<Rightarrow> int \<Rightarrow> env option \<Rightarrow> ('w, pydict) lane_prog" where
  "run_command p name command cwd timeout environment =
     seq (on_lane (lp_spawn p command cwd environment timeout)) (\<lambda>r.
     andthen (modifies (\<lambda>s. s\<lparr>ru_commands := ru_commands s @ [command_payload name command r]\<rparr>))
       (ret (command_payload name command r)))"

definition pytest_process_command :: "str \<Rightarrow> str \<Rightarrow> str list \<Rightarrow> str option \<Rightarrow> str list" where
  "pytest_process_command script python args include = [python, script]
     @ (case include of None \<Rightarrow> [] | Some i \<Rightarrow> if i = [] then [] else [''--coverage-include'', i])
     @ [''--''] @ args"

definition exit_code :: "pydict \<Rightarrow> int" where
  "exit_code d = int_of (get d ''exitCode'')"

section \<open>Settings\<close>

definition int_env :: "env \<Rightarrow> str \<Rightarrow> int \<Rightarrow> int" where
  "int_env e name fallback = (case map_of e name of None \<Rightarrow> fallback
     | Some s \<Rightarrow> if s = [] then fallback else (case int_text s of
         None \<Rightarrow> fallback | Some n \<Rightarrow> if 0 < n then n else fallback))"

definition generation_strategy :: "env \<Rightarrow> str" where
  "generation_strategy e = (let v = lower (strip (case map_of e
       ''UTA_PYTHON_MUTATION_GENERATION_STRATEGY'' of None \<Rightarrow> [] | Some s \<Rightarrow> s)) in
     if v \<in> {''batch'', ''hard_cap''} then v else ''batch'')"

definition generation_max_generated_bytes :: "env \<Rightarrow> int" where
  "generation_max_generated_bytes e = int_env e ''UTA_PYTHON_MUTATION_GENERATION_MAX_GENERATED_BYTES'' 8000000"

definition generation_max_batches :: "env \<Rightarrow> int" where
  "generation_max_batches e = int_env e ''UTA_PYTHON_MUTATION_GENERATION_MAX_BATCHES'' 12"

definition env_without_ci_sampling :: "env \<Rightarrow> env" where
  "env_without_ci_sampling e = filter (\<lambda>(k, v). k \<noteq> ''UTA_PYTHON_ENABLE_CI_MUTATION_SAMPLING'') e"

section \<open>Coverage of the changed lines\<close>

definition coverage_summary ::
  "str \<Rightarrow> int \<Rightarrow> int \<Rightarrow> rat \<Rightarrow> bool \<Rightarrow> str \<Rightarrow> int list \<Rightarrow> bool \<Rightarrow> bool \<Rightarrow> pydict" where
  "coverage_summary source covered counted gate passed xml changed no_executable tests_pass =
     [(''covered'', PInt covered), (''total'', PInt counted),
      (''rate'', PFloat (if counted = 0 then (if passed then 100 else 0) else percentage covered counted)),
      (''gate'', PFloat gate), (''passed'', PBool passed), (''testsPass'', PBool tests_pass),
      (''xml_path'', PStr xml), (''scope'', PStr ''changed_lines''),
      (''changed_lines'', PDict [(source, PList (map PInt changed))]),
      (''no_executable_changed_lines'', PBool no_executable)]"

definition slashes :: "str \<Rightarrow> str" where
  "slashes s = map (\<lambda>c. if c = CHR 0x5C then CHR ''/'' else c) s"

definition of_source :: "str \<Rightarrow> coverage_class \<Rightarrow> bool" where
  "of_source source c = (let f = slashes (cc_filename c) in f = source \<or> endswith f (''/'' @ source))"

definition attribute_int :: "str \<Rightarrow> int option" where
  "attribute_int s = (if s = [] then Some 0 else int_text s)"

text \<open>Whether a line of the report is in scope, and whether it was hit.\<close>

definition line_hit :: "int set \<Rightarrow> str \<times> str \<Rightarrow> bool option option" where
  "line_hit changed = (\<lambda>(number, hits). Option.bind (attribute_int number) (\<lambda>n.
     if n \<notin> changed then Some None else map_option (\<lambda>h. Some (0 < h)) (attribute_int hits)))"

definition scoped_hits :: "int set \<Rightarrow> str \<Rightarrow> coverage_class list \<Rightarrow> bool list option" where
  "scoped_hits changed source classes =
     map_option (List.map_filter (\<lambda>x. x)) (all_some (map (line_hit changed)
       (concat (map cc_lines (filter (of_source source) classes)))))"

definition parse_coverage ::
  "coverage_class list \<Rightarrow> str \<Rightarrow> str \<Rightarrow> int list \<Rightarrow> rat \<Rightarrow> pydict option" where
  "parse_coverage classes xml source changed_lines gate =
     (let changed = {n \<in> set changed_lines. 0 < n}; seen = list_ex (of_source source) classes in
      map_option (\<lambda>hits.
        (let counted = int (length hits); covered = int (length (filter (\<lambda>h. h) hits));
             requested = (changed \<noteq> {});
             rate = (if requested \<and> counted = 0 \<and> \<not> seen then 0 else percentage covered counted) in
         coverage_summary source covered counted gate (gate \<le> rate) xml changed_lines
           (requested \<and> seen \<and> counted = 0) True))
      (scoped_hits changed source classes))"

definition lines_of :: "(str \<times> int list) list \<Rightarrow> str \<Rightarrow> int list" where
  "lines_of changed source = (case map_of changed source of None \<Rightarrow> [] | Some ls \<Rightarrow> ls)"

definition run_coverage ::
  "'w lane_ports \<Rightarrow> str \<Rightarrow> str \<Rightarrow> str \<Rightarrow> (str \<times> int list) list \<Rightarrow> rat \<Rightarrow> str \<Rightarrow> int \<Rightarrow> env
    \<Rightarrow> ('w, pydict) lane_prog" where
  "run_coverage p repo source test changed gate python timeout execution_env =
     (let xml = repo @ ''/.uta_cache/python-enforcement/coverage/'' @ artifact_name source @ ''.xml'';
          include = source @ '',*/'' @ source; lines = lines_of changed source in
      seq (run_command p ''coverage_erase'' [python, ''-m'', ''coverage'', ''erase''] repo timeout None) (\<lambda>_.
      seq (on_lane (lp_pytest_env p repo [test] execution_env)) (\<lambda>test_env.
      seq (run_command p ''pytest_coverage_run'' (pytest_process_command (lp_script p) python [test] (Some include))
        repo timeout (Some test_env)) (\<lambda>result.
      if exit_code result \<noteq> 0
      then ret (coverage_summary source 0 1 gate False xml lines False False)
      else
      seq (run_command p ''coverage_xml'' [python, ''-m'', ''coverage'', ''xml'', ''-i'',
        ''--include='' @ include, ''-o'', xml] repo timeout None) (\<lambda>report.
      seq (read_file xml) (\<lambda>content. (case (if exit_code report \<noteq> 0 then None else content) of
        None \<Rightarrow> ret (coverage_summary source 0 1 gate False xml lines False True)
      | Some text \<Rightarrow>
          seq (raised (lp_parse_xml p text) ''ParseError'') (\<lambda>classes.
          raised (parse_coverage classes xml source lines gate) ''ValueError''))))))))"

end
