(* ===== verification/CandidatePlans.thy ===== *)
theory CandidatePlans
  imports EnforceEvidence MutationBatching
begin

text \<open>
  Plans of mutation candidates, \<open>uta_enforce_core/mutation_candidates.py\<close>, and how the plans
  of several batches become one (\<open>aggregate_batch_candidate_plans\<close> of
  \<open>mutation_batching.py\<close>). \<open>hash\<close> is \<open>_stable_hash\<close>, the SHA-256 of the
  canonical JSON of a list of values; \<open>sha256\<close> hashes a text.
\<close>

section \<open>Data\<close>

record verification_context =
  vc_repo_url :: str
  vc_base_ref :: str
  vc_base_commit :: str
  vc_head_commit :: str
  vc_target_id :: str
  vc_source_path :: str
  vc_tests :: "str list"
  vc_runtime :: str
  vc_dependency :: str
  vc_tool_version :: str
  vc_test_policy :: str
  vc_operator_policy :: str
  vc_suppression_policy :: str
  vc_tool_api :: str
  vc_plan_config :: str
  vc_policy_mode :: str
  vc_ci_sampling :: bool

definition texts :: "str list \<Rightarrow> pyval" where
  "texts xs = PList (map PStr xs)"

definition ints :: "int list \<Rightarrow> pyval" where
  "ints xs = PList (map PInt xs)"

definition as_fingerprint_dict :: "verification_context \<Rightarrow> pydict" where
  "as_fingerprint_dict c =
     [(''repoUrl'', PStr (vc_repo_url c)), (''baseRef'', PStr (vc_base_ref c)),
      (''baseCommit'', PStr (vc_base_commit c)), (''headCommit'', PStr (vc_head_commit c)),
      (''targetId'', PStr (vc_target_id c)), (''sourcePath'', PStr (vc_source_path c)),
      (''selectedTestPaths'', texts (vc_tests c)), (''runtimeFingerprint'', PStr (vc_runtime c)),
      (''dependencyFingerprint'', PStr (vc_dependency c)),
      (''mutationToolVersion'', PStr (vc_tool_version c)),
      (''selectedTestPolicyVersion'', PStr (vc_test_policy c)),
      (''operatorPolicyVersion'', PStr (vc_operator_policy c)),
      (''suppressionPolicyVersion'', PStr (vc_suppression_policy c)),
      (''mutationToolApiFingerprint'', PStr (vc_tool_api c)),
      (''candidatePlanConfigFingerprint'', PStr (vc_plan_config c)),
      (''policyMode'', PStr (vc_policy_mode c)), (''enableCiSampling'', PBool (vc_ci_sampling c))]"

record opportunity =
  op_language :: str
  op_source :: str
  op_line :: int
  op_span :: "int \<times> int"
  op_symbol :: str
  op_id :: str
  op_operator :: str
  op_family :: str
  op_diff :: str
  op_priority :: int
  op_roi :: rat
  op_rank :: "pyval list"
  op_covered :: bool
  op_executable :: bool
  op_reason :: str

definition opportunity_dict :: "opportunity \<Rightarrow> pyval" where
  "opportunity_dict x = PDict
     [(''language'', PStr (op_language x)), (''sourcePath'', PStr (op_source x)),
      (''line'', PInt (op_line x)), (''lineSpan'', ints [fst (op_span x), snd (op_span x)]),
      (''symbol'', PStr (op_symbol x)), (''opportunityId'', PStr (op_id x)),
      (''operatorName'', PStr (op_operator x)), (''familyHint'', PStr (op_family x)),
      (''diffHunk'', PStr (op_diff x)), (''operatorPriority'', PInt (op_priority x)),
      (''roiScore'', PFloat (op_roi x)), (''selectionRank'', PList (op_rank x)),
      (''covered'', PBool (op_covered x)), (''executable'', PBool (op_executable x)),
      (''selectionReason'', PStr (op_reason x))]"

record candidate =
  ca_opportunity :: opportunity
  ca_id :: str
  ca_key :: str
  ca_score :: rat

text \<open>A candidate needs the key of its tool: \<open>__post_init__\<close>.\<close>

definition make_candidate :: "opportunity \<Rightarrow> str \<Rightarrow> str \<Rightarrow> rat \<Rightarrow> candidate option" where
  "make_candidate x i key score = (if strip key = [] then None
     else Some \<lparr>ca_opportunity = x, ca_id = i, ca_key = key, ca_score = score\<rparr>)"

definition candidate_dict :: "candidate \<Rightarrow> pyval" where
  "candidate_dict c = PDict
     [(''candidateId'', PStr (ca_id c)), (''toolCandidateKey'', PStr (ca_key c)),
      (''score'', PFloat (ca_score c)), (''opportunity'', opportunity_dict (ca_opportunity c))]"

record suppressed_opportunity =
  su_opportunity :: opportunity
  su_code :: str
  su_reason :: str

definition suppressed_dict :: "suppressed_opportunity \<Rightarrow> pyval" where
  "suppressed_dict s = PDict [(''opportunity'', opportunity_dict (su_opportunity s)),
     (''reasonCode'', PStr (su_code s)), (''reason'', PStr (su_reason s))]"

record sampling_layer =
  sl_enabled :: bool
  sl_strategy :: str
  sl_threshold :: int
  sl_limit :: int
  sl_selected :: "str list"

definition disabled_layer :: sampling_layer where
  "disabled_layer = \<lparr>sl_enabled = False, sl_strategy = [], sl_threshold = 0, sl_limit = 0,
     sl_selected = []\<rparr>"

definition layer_dict :: "sampling_layer \<Rightarrow> pyval" where
  "layer_dict l = PDict [(''enabled'', PBool (sl_enabled l)), (''strategy'', PStr (sl_strategy l)),
     (''threshold'', PInt (sl_threshold l)), (''limit'', PInt (sl_limit l)),
     (''selectedCandidateIds'', texts (sl_selected l))]"

record candidate_plan =
  pl_language :: str
  pl_target_id :: str
  pl_source :: str
  pl_policy_mode :: str
  pl_id :: str
  pl_changed :: "int list"
  pl_executable :: "int list"
  pl_covered :: "int list"
  pl_eligible :: "opportunity list"
  pl_suppressed :: "suppressed_opportunity list"
  pl_report :: "candidate list"
  pl_active :: "candidate list"
  pl_omitted :: "opportunity list"
  pl_by_reason :: "(str \<times> int) list"
  pl_layer :: sampling_layer
  pl_mechanism :: str
  pl_policy_artifact :: "str option"
  pl_policy_fingerprint :: str
  pl_keys :: "str list"
  pl_planner :: str
  pl_arid :: str
  pl_test_policy :: str
  pl_suppression_policy :: str
  pl_operator_policy :: str
  pl_tool_api :: str
  pl_tool_config :: str
  pl_sampling_config :: pydict
  pl_runtime :: str
  pl_dependency :: str
  pl_repo_url :: str
  pl_base_ref :: str
  pl_base_commit :: str
  pl_head_commit :: str
  pl_tests :: "str list"
  pl_artifact :: "str option"
  pl_key_execution :: bool
  pl_filtered_generation :: bool
  pl_run :: int
  pl_scored :: int
  pl_killed :: int
  pl_survived :: int
  pl_no_tests :: int
  pl_timeout :: int
  pl_suspicious :: int

section \<open>A plan as a dictionary\<close>

definition len :: "'a list \<Rightarrow> pyval" where
  "len xs = PInt (int (length xs))"

definition outcome_counts :: "candidate_plan \<Rightarrow> pydict" where
  "outcome_counts p =
     [(''runMutants'', PInt (pl_run p)), (''scoredMutants'', PInt (pl_scored p)),
      (''killed'', PInt (pl_killed p)), (''survived'', PInt (pl_survived p)),
      (''noTests'', PInt (pl_no_tests p)), (''timeout'', PInt (pl_timeout p)),
      (''suspicious'', PInt (pl_suspicious p))]"

definition plan_counts :: "candidate_plan \<Rightarrow> pydict" where
  "plan_counts p =
     [(''changedLines'', len (pl_changed p)), (''coveredChangedLines'', len (pl_covered p)),
      (''eligibleOpportunities'', len (pl_eligible p)),
      (''eligibleMutationCandidates'', len (pl_report p)),
      (''suppressedCandidates'', len (pl_suppressed p)),
      (''suppressedOpportunities'', len (pl_suppressed p)),
      (''omittedByOnePerLine'', len (pl_omitted p)),
      (''reportFullCandidates'', len (pl_report p)),
      (''reportFullSelectedCandidates'', len (pl_report p)),
      (''activeCandidates'', len (pl_active p)), (''selectedCandidates'', len (pl_active p)),
      (''exactToolCandidateKeys'', len (pl_keys p)),
      (''exactToolCandidateKeyCount'', len (pl_keys p))] @ outcome_counts p"

definition text_or_none :: "str option \<Rightarrow> pyval" where
  "text_or_none x = (case x of None \<Rightarrow> PNone | Some s \<Rightarrow> PStr s)"

definition plan_body :: "candidate_plan \<Rightarrow> pydict" where
  "plan_body p =
     [(''language'', PStr (pl_language p)), (''targetId'', PStr (pl_target_id p)),
      (''sourcePath'', PStr (pl_source p)), (''policyMode'', PStr (pl_policy_mode p)),
      (''candidatePlanId'', PStr (pl_id p)), (''changedLines'', ints (pl_changed p)),
      (''executableChangedLines'', ints (pl_executable p)),
      (''coveredChangedLines'', ints (pl_covered p)),
      (''eligibleMutationOpportunities'', PList (map opportunity_dict (pl_eligible p))),
      (''suppressed'', PList (map suppressed_dict (pl_suppressed p))),
      (''reportFullSelected'', PList (map candidate_dict (pl_report p))),
      (''activeSelected'', PList (map candidate_dict (pl_active p))),
      (''omittedByOnePerLine'', PList (map opportunity_dict (pl_omitted p))),
      (''suppressionByReason'', PDict (map (\<lambda>(k, n). (k, PInt n)) (pl_by_reason p))),
      (''samplingLayer'', layer_dict (pl_layer p)), (''filterMechanism'', PStr (pl_mechanism p)),
      (''generationPolicyArtifact'', text_or_none (pl_policy_artifact p)),
      (''candidatePlanArtifactPath'', text_or_none (pl_artifact p)),
      (''generationPolicyFingerprint'', PStr (pl_policy_fingerprint p)),
      (''exactToolCandidateKeys'', texts (pl_keys p)),
      (''selectedKeyExecutionApplied'', PBool (pl_key_execution p)),
      (''adapterFilteredGenerationApplied'', PBool (pl_filtered_generation p)),
      (''opportunityIds'', texts (map op_id (pl_eligible p))),
      (''reportFullCandidateIds'', texts (map ca_id (pl_report p))),
      (''activeCandidateIds'', texts (map ca_id (pl_active p))),
      (''activeToolCandidateKeys'', texts (map ca_key (pl_active p))),
      (''plannerVersion'', PStr (pl_planner p)), (''aridRuleVersion'', PStr (pl_arid p)),
      (''testSelectionPolicyVersion'', PStr (pl_test_policy p)),
      (''suppressionPolicyVersion'', PStr (pl_suppression_policy p)),
      (''operatorPolicyVersion'', PStr (pl_operator_policy p)),
      (''mutationToolApiFingerprint'', PStr (pl_tool_api p)),
      (''mutationToolConfigFingerprint'', PStr (pl_tool_config p)),
      (''effectiveSamplingConfig'', PDict (pl_sampling_config p)),
      (''runtimeFingerprint'', PStr (pl_runtime p)),
      (''dependencyFingerprint'', PStr (pl_dependency p)), (''repoUrl'', PStr (pl_repo_url p)),
      (''baseRef'', PStr (pl_base_ref p)), (''baseCommit'', PStr (pl_base_commit p)),
      (''headCommit'', PStr (pl_head_commit p)), (''selectedTestPaths'', texts (pl_tests p))]"

definition plan_dict :: "candidate_plan \<Rightarrow> pydict" where
  "plan_dict p = dict_update (plan_body p)
     ([(''eligibleMutationCandidates'', len (pl_report p)),
       (''reportFullSelectedCandidates'', len (pl_report p)),
       (''selectedCandidates'', len (pl_active p)), (''suppressedCandidates'', len (pl_suppressed p)),
       (''exactToolCandidateKeyCount'', len (pl_keys p))] @ outcome_counts p)"

section \<open>Identities\<close>

text \<open>\<open>"\n".join(line.rstrip() for line in str(value or "").strip().splitlines())\<close>.\<close>

definition normalize_text :: "str \<Rightarrow> str" where
  "normalize_text value = join_with [newline] (map rstrip (splitlines (strip value)))"

definition make_opportunity_id ::
  "(pyval list \<Rightarrow> str) \<Rightarrow> str \<Rightarrow> str \<Rightarrow> int \<Rightarrow> str \<Rightarrow> str \<Rightarrow> str \<Rightarrow> str \<Rightarrow> str" where
  "make_opportunity_id hash language source_path line symbol operator source_line diff =
     hash [PStr language, PStr source_path, PInt line, PStr symbol, PStr operator,
       PStr (normalize_text source_line), PStr (normalize_text diff)]"

definition make_candidate_id :: "(pyval list \<Rightarrow> str) \<Rightarrow> str \<Rightarrow> str \<Rightarrow> str \<Rightarrow> str option" where
  "make_candidate_id hash opportunity_id key api = (if strip key = [] then None
     else Some (hash [PStr opportunity_id, PStr key, PStr api]))"

definition planner_version :: str where
  "planner_version = ''candidate-plan-v1''"

definition make_candidate_plan_id ::
  "(pyval list \<Rightarrow> str) \<Rightarrow> verification_context \<Rightarrow> str list \<Rightarrow> str \<Rightarrow> str" where
  "make_candidate_plan_id hash ctx selected mechanism =
     hash [PDict (as_fingerprint_dict ctx), texts selected, PStr mechanism, PStr planner_version]"

definition config_fingerprint :: "(pyval list \<Rightarrow> str) \<Rightarrow> pydict \<Rightarrow> str" where
  "config_fingerprint hash values = hash [PDict (sort_key fst values)]"

section \<open>Reading a plan\<close>

definition or_empty :: "pydict \<Rightarrow> str \<Rightarrow> pyval" where
  "or_empty d key = (if truthy (get d key) then get d key else PList [])"

text \<open>A plan that is no mapping is the empty dictionary here: both are refused alike.\<close>

definition allows_zero_scored :: "(pyval \<Rightarrow> str) \<Rightarrow> pydict \<Rightarrow> bool" where
  "allows_zero_scored shown plan =
     (let active = or_empty plan ''activeSelected''; report_full = or_empty plan ''reportFullSelected'';
          exact = or_empty plan ''exactToolCandidateKeys'';
          eligible = or_empty plan ''eligibleMutationOpportunities'';
          suppressed = or_empty plan ''suppressed'' in
      if plan = [] then False
      else if \<not> is_list active \<or> \<not> is_list report_full \<or> \<not> is_list exact then False
      else if truthy active \<or> truthy report_full \<or> truthy exact then False
      else if is_list eligible \<and> truthy eligible then False
      else if is_list suppressed \<and> truthy suppressed then
        (\<forall>item \<in> set (as_list suppressed). is_dict item
           \<and> strip (text_in shown (as_dict item) ''reasonCode'' []) \<noteq> [])
      else True)"

definition requires_execution :: "pydict \<Rightarrow> bool" where
  "requires_execution plan = (\<exists>key \<in> set [''eligibleMutationOpportunities'', ''activeSelected'',
     ''reportFullSelected'', ''exactToolCandidateKeys''].
     is_list (get plan key) \<and> truthy (get plan key))"

fun count_any :: "pydict \<Rightarrow> str list \<Rightarrow> int" where
  "count_any plan [] = 0"
| "count_any plan (name # names) =
     (if is_list (get plan name) then int (length (as_list (get plan name)))
      else if is_number (get plan name) then int_of (get plan name)
      else count_any plan names)"

definition count_names :: "(str \<times> str list) list" where
  "count_names =
     [(''changedLines'', [''changedLines'']), (''coveredChangedLines'', [''coveredChangedLines'']),
      (''eligibleOpportunities'', [''eligibleOpportunities'', ''eligibleMutationOpportunities'']),
      (''eligibleMutationCandidates'',
         [''eligibleMutationCandidates'', ''reportFullSelectedCandidates'', ''reportFullSelected'']),
      (''suppressedCandidates'', [''suppressedCandidates'', ''suppressed'']),
      (''suppressedOpportunities'', [''suppressedOpportunities'', ''suppressed'']),
      (''omittedByOnePerLine'', [''omittedByOnePerLineCount'', ''omittedByOnePerLine'']),
      (''reportFullCandidates'',
         [''reportFullCandidates'', ''reportFullSelectedCandidates'', ''reportFullSelected'']),
      (''reportFullSelectedCandidates'',
         [''reportFullSelectedCandidates'', ''reportFullCandidates'', ''reportFullSelected'']),
      (''activeCandidates'', [''activeCandidates'', ''selectedCandidates'', ''activeSelected'']),
      (''selectedCandidates'', [''selectedCandidates'', ''activeCandidates'', ''activeSelected'']),
      (''exactToolCandidateKeys'', [''exactToolCandidateKeys'', ''exactToolCandidateKeyCount'']),
      (''exactToolCandidateKeyCount'', [''exactToolCandidateKeyCount'', ''exactToolCandidateKeys'']),
      (''runMutants'', [''runMutants'']), (''scoredMutants'', [''scoredMutants'']),
      (''killed'', [''killed'']), (''survived'', [''survived'']), (''noTests'', [''noTests'']),
      (''timeout'', [''timeout'']), (''suspicious'', [''suspicious'']),
      (''notChecked'', [''notChecked''])]"

definition candidate_plan_counts :: "pydict \<Rightarrow> (str \<times> int) list" where
  "candidate_plan_counts plan = map (\<lambda>(key, names). (key, count_any plan names)) count_names"

definition with_execution_evidence ::
  "pydict \<Rightarrow> int \<Rightarrow> int \<Rightarrow> int \<Rightarrow> int \<Rightarrow> int \<Rightarrow> int \<Rightarrow> int \<Rightarrow> int \<Rightarrow> pydict" where
  "with_execution_evidence plan run scored killed survived no_tests timeout suspicious not_checked =
     dict_update plan [(''runMutants'', PInt run), (''scoredMutants'', PInt scored),
       (''killed'', PInt killed), (''survived'', PInt survived), (''noTests'', PInt no_tests),
       (''timeout'', PInt timeout), (''suspicious'', PInt suspicious),
       (''notChecked'', PInt not_checked)]"

definition all_selected_mutants_unassociated :: "int \<Rightarrow> int \<Rightarrow> int \<Rightarrow> bool" where
  "all_selected_mutants_unassociated generated scored no_tests =
     (0 < generated \<and> scored = 0 \<and> 0 < no_tests)"

section \<open>Comparing two plans\<close>

definition fingerprint_fields :: "str list" where
  "fingerprint_fields = [''runtimeFingerprint'', ''dependencyFingerprint'',
     ''mutationToolApiFingerprint'', ''mutationToolConfigFingerprint'',
     ''testSelectionPolicyVersion'', ''operatorPolicyVersion'', ''suppressionPolicyVersion'',
     ''repoUrl'', ''baseRef'', ''baseCommit'', ''headCommit'', ''selectedTestPaths'', ''changedLines'']"

definition compare_candidate_plan_payloads :: "pydict \<Rightarrow> pydict \<Rightarrow> pydict option" where
  "compare_candidate_plan_payloads previous current =
     (let changed = filter (\<lambda>f. get previous f \<noteq> get current f) fingerprint_fields in
      Option.bind (iterated (get previous ''exactToolCandidateKeys'')) (\<lambda>old_keys.
      map_option (\<lambda>new_keys. [(''comparable'', PBool (changed = [])), (''changedFingerprints'', texts changed),
          (''samePlan'', PBool (old_keys = new_keys)),
          (''determinismBug'', PBool (changed = [] \<and> old_keys \<noteq> new_keys))])
        (iterated (get current ''exactToolCandidateKeys''))))"

section \<open>One plan from the plans of the batches\<close>

definition scalar_carry_fields :: "str list" where
  "scalar_carry_fields = [''language'', ''targetId'', ''sourcePath'', ''policyMode'',
     ''filterMechanism'', ''plannerVersion'', ''aridRuleVersion'', ''testSelectionPolicyVersion'',
     ''suppressionPolicyVersion'', ''operatorPolicyVersion'', ''mutationToolApiFingerprint'',
     ''mutationToolConfigFingerprint'', ''runtimeFingerprint'', ''dependencyFingerprint'',
     ''repoUrl'', ''baseRef'', ''baseCommit'', ''headCommit'', ''selectedKeyExecutionApplied'',
     ''adapterFilteredGenerationApplied'']"

definition concat_list_fields :: "str list" where
  "concat_list_fields = [''eligibleMutationOpportunities'', ''suppressed'', ''reportFullSelected'',
     ''activeSelected'', ''omittedByOnePerLine'', ''opportunityIds'', ''reportFullCandidateIds'',
     ''activeCandidateIds'', ''activeToolCandidateKeys'', ''exactToolCandidateKeys'']"

definition union_sorted_fields :: "str list" where
  "union_sorted_fields = [''changedLines'', ''executableChangedLines'', ''coveredChangedLines'',
     ''selectedTestPaths'']"

definition sum_count_fields :: "str list" where
  "sum_count_fields = [''eligibleMutationCandidates'', ''reportFullSelectedCandidates'',
     ''selectedCandidates'', ''suppressedCandidates'', ''exactToolCandidateKeyCount'',
     ''runMutants'', ''scoredMutants'', ''killed'', ''survived'', ''noTests'', ''timeout'',
     ''suspicious'']"

definition concat_field :: "pydict list \<Rightarrow> str \<Rightarrow> pyval list" where
  "concat_field plans key = concat (map (\<lambda>p. as_list (get p key)) plans)"

definition sum_numbers :: "pydict list \<Rightarrow> str \<Rightarrow> int" where
  "sum_numbers plans key =
     sum_list (map (\<lambda>p. if is_number (get p key) then int_of (get p key) else 0) plans)"

text \<open>
  \<open>sorted(set(values))\<close>: a list or a dictionary is not hashable, texts do not compare with
  numbers; then the order is that of the set, a parameter. Of the numbers only integers occur.
\<close>

definition sorted_union :: "(pyval list \<Rightarrow> pyval list) \<Rightarrow> pyval list \<Rightarrow> pyval list option" where
  "sorted_union set_order values =
     (if \<exists>v \<in> set values. is_list v \<or> is_dict v then None
      else (case all_ints values of
          Some ns \<Rightarrow> Some (map PInt (sort (remdups ns)))
        | None \<Rightarrow> (case all_texts values of
            Some ss \<Rightarrow> Some (map PStr (sort (remdups ss)))
          | None \<Rightarrow> Some (set_order (remdups values)))))"

fun union_fields :: "(pyval list \<Rightarrow> pyval list) \<Rightarrow> pydict list \<Rightarrow> str list \<Rightarrow> pydict \<Rightarrow> pydict option" where
  "union_fields set_order plans [] agg = Some agg"
| "union_fields set_order plans (key # keys) agg =
     (let values = concat_field plans key in
      if values = [] then union_fields set_order plans keys agg
      else Option.bind (sorted_union set_order values) (\<lambda>vs.
        union_fields set_order plans keys (dict_set key (PList vs) agg)))"

definition add_count :: "(str \<times> int) list \<Rightarrow> str \<times> pyval \<Rightarrow> (str \<times> int) list" where
  "add_count counts = (\<lambda>(reason, n). if is_number n then dict_set reason
     ((case map_of counts reason of None \<Rightarrow> 0 | Some m \<Rightarrow> m) + int_of n) counts else counts)"

definition summed_suppression :: "pydict list \<Rightarrow> (str \<times> int) list" where
  "summed_suppression plans =
     foldl add_count [] (concat (map (\<lambda>p. as_dict (get p ''suppressionByReason'')) plans))"

definition aggregate_plan_id :: "(str \<Rightarrow> str) \<Rightarrow> str list \<Rightarrow> str \<Rightarrow> int \<Rightarrow> int \<Rightarrow> str" where
  "aggregate_plan_id sha256 child_ids signature batches budget = ''batched-'' @ take 24 (sha256
     (join_with ''|'' [''batch'', int_str batches, int_str budget, signature, join_with '';'' child_ids]))"

definition aggregate_batch_candidate_plans ::
  "(str \<Rightarrow> str) \<Rightarrow> (pyval \<Rightarrow> str) \<Rightarrow> (pyval list \<Rightarrow> pyval list) \<Rightarrow> pydict list \<Rightarrow> str \<Rightarrow> int \<Rightarrow> pydict list
    \<Rightarrow> int list \<Rightarrow> int list \<Rightarrow> pydict option" where
  "aggregate_batch_candidate_plans sha256 shown set_order all_plans signature max_bytes batches
       over_bytes over_count =
     (let plans = filter (\<lambda>p. p \<noteq> []) all_plans in
      if plans = [] then Some []
      else
       (let base = hd plans;
            carried = map (\<lambda>k. (k, get base k)) (filter (has_key base) scalar_carry_fields);
            lists = map (\<lambda>k. (k, PList (concat_field plans k))) concat_list_fields;
            child_ids = sort (map (\<lambda>p. text_in shown p ''candidatePlanId'' []) plans) in
        map_option (\<lambda>agg. dict_update agg
          (map (\<lambda>k. (k, PInt (sum_numbers plans k))) sum_count_fields
           @ [(''suppressionByReason'', PDict (map (\<lambda>(k, n). (k, PInt n)) (summed_suppression plans))),
              (''generationStrategy'', PStr ''batch''), (''batchCount'', len plans),
              (''partitionSignature'', PStr signature), (''maxGeneratedBytes'', PInt max_bytes),
              (''batches'', PList (map PDict batches)),
              (''omittedByGeneratedBytesCap'', ints (sort over_bytes)),
              (''omittedByMaxBatches'', ints (sort over_count)),
              (''candidatePlanId'', PStr (aggregate_plan_id sha256 child_ids signature
                 (int (length plans)) max_bytes))]))
          (union_fields set_order plans union_sorted_fields (dict_update carried lists))))"

end
