(* ===== verification/PythonPolicy.thy ===== *)
theory PythonPolicy
  imports PythonLane CandidatePlans
begin

text \<open>
  What the Python mutation run may generate: \<open>uta_py_enforce/mutation_policy.py\<close> and the
  sampling and batching part of \<open>mutation.py\<close>. Finding the opportunities in the source and
  parsing it are parameters.
\<close>

section \<open>Ports\<close>

record opportunity_plan =
  oo_eligible :: "opportunity list"
  oo_selected :: "opportunity list"
  oo_suppressed :: "suppressed_opportunity list"

record 'w mutation_ports = "'w lane_ports" +
  mp_opportunities :: "str \<Rightarrow> str \<Rightarrow> int list \<Rightarrow> int list \<Rightarrow> ('w lane, str, opportunity_plan) prog"
  mp_file_size :: "str \<Rightarrow> ('w lane, str, int) prog"
  mp_sha256 :: "str \<Rightarrow> str"
  mp_dumps :: "pydict \<Rightarrow> str"
  mp_dumps_texts :: "str list \<Rightarrow> str"
  mp_loads :: "str \<Rightarrow> pyval option"
  mp_shown :: "pyval \<Rightarrow> str"
  mp_set_order :: "pyval list \<Rightarrow> pyval list"
  mp_parse :: "str \<Rightarrow> statement list option"
  mp_plan_from_meta :: "str \<Rightarrow> str \<Rightarrow> int list \<Rightarrow> str list \<Rightarrow> pydict \<Rightarrow> ('w lane, str, candidate_plan) prog"
  mp_meta_files :: "str \<Rightarrow> ('w lane, str, (str \<times> str option) list) prog"
  mp_remove_tree :: "str \<Rightarrow> ('w lane, str, unit) prog"
  mp_module :: "str \<Rightarrow> str \<Rightarrow> ('w lane, str, str) prog"
  mp_write_compat :: "str \<Rightarrow> str \<Rightarrow> str \<Rightarrow> ('w lane, str, str) prog"
  mp_support_paths :: "str \<Rightarrow> str \<Rightarrow> str list \<Rightarrow> ('w lane, str, str list) prog"
  mp_pytest_args :: "str \<Rightarrow> str list \<Rightarrow> ('w lane, str, str list) prog"
  mp_runner :: "str \<Rightarrow> str list \<Rightarrow> str"
  mp_bootstrap :: str
  mp_factor :: rat
  mp_environ :: env

section \<open>The order of selection\<close>

text \<open>A tuple compares position by position; a position holds a number or a text.\<close>

definition rank_item :: "pyval \<Rightarrow> nat \<times> int \<times> str" where
  "rank_item v = (case v of PStr s \<Rightarrow> (1, 0, s) | _ \<Rightarrow> (0, int_of v, []))"

definition rank_key :: "opportunity \<Rightarrow> (nat \<times> int \<times> str) list" where
  "rank_key x = map rank_item (op_rank x)"

definition hard_cap_key ::
  "(str \<Rightarrow> str) \<Rightarrow> opportunity \<Rightarrow> int \<times> str \<times> (nat \<times> int \<times> str) list" where
  "hard_cap_key sha256 x = (- op_priority x, sha256 (op_id x), rank_key x)"

definition hard_cap :: "(str \<Rightarrow> str) \<Rightarrow> opportunity list \<Rightarrow> int \<Rightarrow> opportunity list" where
  "hard_cap sha256 selected limit =
     (if limit \<le> 0 \<or> int (length selected) \<le> limit then selected
      else sort_key rank_key (take (nat limit) (sort_key (hard_cap_key sha256) selected)))"

section \<open>The generation policy\<close>

definition dicts :: "opportunity list \<Rightarrow> pyval" where
  "dicts xs = PList (map opportunity_dict xs)"

definition selected_key :: "opportunity \<Rightarrow> str \<times> int" where
  "selected_key x = (op_source x, op_line x)"

definition dropped :: "'a list \<Rightarrow> 'b list \<Rightarrow> int" where
  "dropped xs ys = max 0 (int (length xs) - int (length ys))"

definition generation_policy_of ::
  "str \<Rightarrow> int \<Rightarrow> int list \<Rightarrow> opportunity_plan \<Rightarrow> opportunity list \<Rightarrow> int \<Rightarrow> pydict" where
  "generation_policy_of source bytes changed plan selected limit =
     (let all = oo_selected plan; keys = selected_key ` set selected;
          lines = ints (sort (remdups (map op_line selected)));
          operators = filter (\<lambda>x. selected_key x \<in> keys) (oo_eligible plan) in
      [(''sourcePath'', PStr source), (''sourceBytes'', PInt bytes), (''changedLines'', ints changed),
       (''changedLineCount'', len changed), (''allowedLines'', lines), (''selectedLines'', lines),
       (''eligibleOpportunities'', len (oo_eligible plan)),
       (''selectedOpportunitiesBeforeCap'', len all),
       (''hardCapSelectedOpportunities'', len selected), (''selectedOpportunities'', len selected),
       (''omittedByCap'', PInt (dropped all selected)),
       (''omittedByHardCap'', PInt (dropped all selected)),
       (''omittedByRepresentativeSelection'', PInt 0),
       (''selectedOperatorOpportunities'', len operators),
       (''hardCapSelectedOperatorOpportunities'', len operators),
       (''retainedOperatorAlternatives'', PInt (dropped operators selected)),
       (''omittedByOnePerLine'', PInt 0), (''suppressedOpportunities'', len (oo_suppressed plan)),
       (''truncated'', PBool (length selected < length all)),
       (''truncationReasons'', texts (if 0 < limit \<and> length selected < length all
          then [''selectedOpportunities='' @ nat_str (length all) @ '' capped to '' @ int_str limit]
          else [])),
       (''capProfile'', PStr ''full''), (''caps'', PDict [(''maxSelected'', PInt limit)]),
       (''selected'', dicts selected), (''selectedLineRepresentatives'', dicts selected),
       (''selectedBeforeCap'', dicts (oo_eligible plan)), (''hardCapSelected'', dicts selected),
       (''omittedByCapOpportunities'', dicts (filter (\<lambda>x. selected_key x \<notin> keys) all)),
       (''omittedByOnePerLineOpportunities'', PList []),
       (''suppressed'', PList (map suppressed_dict (oo_suppressed plan))),
       (''operatorByLine'', PDict []), (''opportunityIdByLine'', PDict [])])"

definition build_generation_policy ::
  "('w, 'm) mutation_ports_scheme \<Rightarrow> str \<Rightarrow> str \<Rightarrow> int list \<Rightarrow> int list \<Rightarrow> int \<Rightarrow> ('w, pydict) lane_prog" where
  "build_generation_policy p file source changed_lines covered limit =
     (let changed = sort (remdups (filter (\<lambda>n. 0 < n) changed_lines)) in
      seq (on_lane (mp_opportunities p file source changed covered)) (\<lambda>plan.
      seq (on_lane (mp_file_size p file)) (\<lambda>bytes.
      ret (generation_policy_of source bytes changed plan
        (hard_cap (mp_sha256 p) (oo_selected plan) limit) limit))))"

definition suppression_counts :: "(pyval \<Rightarrow> str) \<Rightarrow> pydict \<Rightarrow> (str \<times> int) list option" where
  "suppression_counts shown policy =
     map_option (\<lambda>items. reason_counts (reasons_of shown items)) (iterated (get policy ''suppressed''))"

section \<open>Sampling\<close>

type_synonym 'w sampling = "pyval list \<Rightarrow> str \<Rightarrow> ('w lane, str, pyval list) prog"

fun sampled_lines :: "pyval list \<Rightarrow> int list option" where
  "sampled_lines [] = Some []"
| "sampled_lines (PDict d # items) =
     (if has_key d ''line'' then Option.bind (py_int (get d ''line'')) (\<lambda>n.
        map_option (Cons n) (sampled_lines items)) else sampled_lines items)"
| "sampled_lines (PStr s # items) = (if contains s ''line'' then None else sampled_lines items)"
| "sampled_lines (PList xs # items) = (if PStr ''line'' \<in> set xs then None else sampled_lines items)"
| "sampled_lines _ = None"

definition apply_sampling_policy ::
  "'w sampling option \<Rightarrow> str \<Rightarrow> pydict \<Rightarrow> ('w, pydict) lane_prog" where
  "apply_sampling_policy sampling source policy = (case sampling of
     None \<Rightarrow> ret policy
   | Some select \<Rightarrow>
       seq (raised (iterated (get policy ''selected'')) ''TypeError'') (\<lambda>selected.
       seq (on_lane (select selected source)) (\<lambda>sampled.
       if length selected \<le> length sampled
       then ret (dict_set ''capProfile'' (PStr ''ci'') policy)
       else
       seq (raised (Option.bind (sampled_lines sampled) (filter_generation_policy_to_lines policy))
         ''ValueError'') (\<lambda>narrowed.
       ret (dict_update narrowed [(''capProfile'', PStr ''ci''),
         (''sampledFrom'', PInt (int (length selected)))])))))"

section \<open>Passes\<close>

record generation_pass =
  gp_index :: nat
  gp_policy :: pydict
  gp_path :: str
  gp_suffix :: str

definition with_suffix :: "str \<Rightarrow> str \<Rightarrow> str" where
  "with_suffix path suffix = rev (tl (dropWhile (\<lambda>c. c \<noteq> CHR ''.'') (rev path))) @ suffix"

definition scaled_unit :: "rat \<Rightarrow> mutation_unit \<Rightarrow> mutation_unit" where
  "scaled_unit factor u = (if 1 < factor
     then u\<lparr>mu_bytes := PyValue.truncate (of_int (mu_bytes u) * factor)\<rparr> else u)"

definition pass_of :: "pydict \<Rightarrow> str \<Rightarrow> batch_plan \<Rightarrow> generation_pass option" where
  "pass_of policy path b = map_option (\<lambda>narrowed. \<lparr>gp_index = bp_index b, gp_policy = narrowed,
       gp_path = with_suffix path (''.batch'' @ nat_str (bp_index b) @ ''.json''),
       gp_suffix = ''_batch_'' @ nat_str (bp_index b)\<rparr>)
     (filter_generation_policy_to_lines policy (bp_lines b))"

definition single_pass :: "pydict \<Rightarrow> str \<Rightarrow> generation_pass" where
  "single_pass policy path = \<lparr>gp_index = 0, gp_policy = policy, gp_path = path, gp_suffix = []\<rparr>"

text \<open>A source that cannot be read is the empty text.\<close>

definition partition_policy ::
  "('w, 'm) mutation_ports_scheme \<Rightarrow> str option \<Rightarrow> pydict \<Rightarrow> partition_result option" where
  "partition_policy p content policy =
     Option.bind (iterated (get policy ''selected'')) (\<lambda>selected.
     map_option (\<lambda>units. partition_units_into_batches (mp_sha256 p)
         (map (scaled_unit (mp_factor p)) units)
         (generation_max_generated_bytes (mp_environ p)) (generation_max_batches (mp_environ p)))
       (mutation_units_from_generation_policy (mp_parse p)
         (case content of None \<Rightarrow> [] | Some s \<Rightarrow> s) selected))"

definition generation_passes ::
  "('w, 'm) mutation_ports_scheme \<Rightarrow> str \<Rightarrow> pydict \<Rightarrow> str
    \<Rightarrow> ('w, generation_pass list \<times> partition_result option) lane_prog" where
  "generation_passes p file policy path =
     (if generation_strategy (mp_environ p) \<noteq> ''batch'' then ret ([single_pass policy path], None)
      else
      seq (read_file file) (\<lambda>content.
      seq (raised (partition_policy p content policy) ''ValueError'') (\<lambda>partition.
      if length (pr_batches partition) \<le> 1 then ret ([single_pass policy path], Some partition)
      else
      seq (collect (\<lambda>b. seq (raised (pass_of policy path b) ''ValueError'') (\<lambda>g.
          andthen (put_file (gp_path g) (Some (mp_dumps p (gp_policy g)))) (ret (Some g))))
        (pr_batches partition)) (\<lambda>passes.
      ret (passes, Some partition)))))"

end
