(* ===== verification/PythonMutation.thy ===== *)
theory PythonMutation
  imports PythonPolicy
begin

text \<open>
  The mutation run of a Python target, \<open>uta_py_enforce/mutation.py\<close>: its mutmut settings,
  the generation passes, what the exit codes of the mutants add up to and the verdict. The
  \<open>finally\<close> block of \<open>run_mutation\<close> is \<open>finally_do\<close>.
\<close>

section \<open>Exit codes\<close>

definition mutant_statuses :: "str list" where
  "mutant_statuses = [''killed'', ''survived'', ''no tests'', ''skipped'', ''suspicious'', ''timeout'',
     ''segfault'', ''interrupted'', ''not checked'']"

definition status_by_exit_code :: "(int \<times> str) list" where
  "status_by_exit_code = [(1, ''killed''), (3, ''killed''), (-24, ''timeout''), (24, ''timeout''),
     (152, ''timeout''), (0, ''survived''), (5, ''no tests''), (2, ''interrupted''), (33, ''no tests''),
     (34, ''skipped''), (35, ''suspicious''), (36, ''timeout''), (255, ''timeout''), (-11, ''segfault'')]"

definition status_of_code :: "int \<Rightarrow> str" where
  "status_of_code n = (case map_of status_by_exit_code n of None \<Rightarrow> ''suspicious'' | Some s \<Rightarrow> s)"

text \<open>A list or a dictionary is not hashable.\<close>

definition mutant_status :: "pyval \<Rightarrow> str option" where
  "mutant_status v = (case v of
     PNone \<Rightarrow> Some ''not checked''
   | PStr _ \<Rightarrow> Some ''suspicious''
   | PList _ \<Rightarrow> None | PDict _ \<Rightarrow> None
   | PFloat q \<Rightarrow> Some (if of_int \<lfloor>q\<rfloor> = q then status_of_code \<lfloor>q\<rfloor> else ''suspicious'')
   | _ \<Rightarrow> Some (status_of_code (int_of v)))"

type_synonym counts = "(str \<times> int) list"

definition counted :: "counts \<Rightarrow> str \<Rightarrow> int" where
  "counted cs status = (case map_of cs status of None \<Rightarrow> 0 | Some n \<Rightarrow> n)"

definition add_to :: "str \<Rightarrow> int \<Rightarrow> counts \<Rightarrow> counts" where
  "add_to status n cs = dict_set status (counted cs status + n) cs"

definition no_counts :: counts where
  "no_counts = map (\<lambda>s. (s, 0)) mutant_statuses"

section \<open>What mutmut left\<close>

text \<open>A file that cannot be read or parsed, or holds no dictionary, is skipped.\<close>

definition meta_payload :: "(str \<Rightarrow> pyval option) \<Rightarrow> str \<times> str option \<Rightarrow> pydict option" where
  "meta_payload loads = (\<lambda>(name, content).
     if \<not> endswith name ''.py.meta'' then None
     else (case Option.bind content loads of Some (PDict d) \<Rightarrow> Some d | _ \<Rightarrow> None))"

fun add_keys :: "pydict \<Rightarrow> counts \<times> str list \<Rightarrow> (counts \<times> str list) option" where
  "add_keys [] acc = Some acc"
| "add_keys ((key, exit) # codes) (cs, keys) =
     Option.bind (mutant_status exit) (\<lambda>s. add_keys codes (add_to s 1 cs, keys @ [key]))"

fun add_payloads :: "pydict list \<Rightarrow> counts \<times> str list \<Rightarrow> (counts \<times> str list) option" where
  "add_payloads [] acc = Some acc"
| "add_payloads (d # ds) acc =
     Option.bind (sub_dict d ''exit_code_by_key'') (\<lambda>codes.
     Option.bind (add_keys codes acc) (add_payloads ds))"

definition read_mutmut_meta ::
  "('w, 'm) mutation_ports_scheme \<Rightarrow> str \<Rightarrow> ('w, counts \<times> str list) lane_prog" where
  "read_mutmut_meta p dir =
     seq (on_lane (mp_meta_files p dir)) (\<lambda>files.
     seq (raised (add_payloads (List.map_filter (meta_payload (mp_loads p)) files) (no_counts, []))
       ''TypeError'') (\<lambda>(cs, keys).
     ret (cs, sort keys)))"

section \<open>Reading the output of a command\<close>

text \<open>\<open>mapping.get(name) or ""\<close> of a command record; \<open>None\<close> is no command.\<close>

definition output_of :: "pydict option \<Rightarrow> str" where
  "output_of c = (case c of None \<Rightarrow> []
   | Some d \<Rightarrow> text_in (\<lambda>_. []) d ''stdout'' [] @ newline # text_in (\<lambda>_. []) d ''stderr'' [])"

definition mentions :: "str list \<Rightarrow> pydict option \<Rightarrow> bool" where
  "mentions markers c = (case c of None \<Rightarrow> False | Some d \<Rightarrow> d \<noteq> []
     \<and> (\<exists>m \<in> set markers. contains (lower (output_of c)) m))"

definition mutants_uncovered_by_tests :: "pydict option \<Rightarrow> bool" where
  "mutants_uncovered_by_tests = mentions [''tests do not cover any code that we mutated'',
     ''did not cover any code that we mutated'']"

definition has_collection_error :: "pydict option \<Rightarrow> bool" where
  "has_collection_error = mentions [''error collecting'', ''errors during collection'',
     ''error during collection'']"

definition all_mutants_suspicious :: "counts \<Rightarrow> bool" where
  "all_mutants_suspicious cs = (let generated = sum_list (map snd cs) in
     0 < generated \<and> counted cs ''suspicious'' = generated)"

definition command_failure_detail :: "pydict option \<Rightarrow> str" where
  "command_failure_detail c = (case c of
     None \<Rightarrow> ''Mutation backend stopped before selected mutants were executed''
   | Some d \<Rightarrow>
       if d = [] then ''Mutation backend stopped before selected mutants were executed''
       else (let output = strip (output_of c) in
         if output \<noteq> [] then last_chars 4000 output
         else ''Mutation backend exited with code '' @ int_str (exit_code d)
           @ '' before selected mutants were executed''))"

section \<open>The verdict\<close>

record scored_run =
  sr_counts :: counts
  sr_plan :: pydict
  sr_metadata :: "pydict option"
  sr_mutmut :: "pydict option"
  sr_clean_probe :: "pydict option"
  sr_collection_probe :: "pydict option"
  sr_batches :: nat

record tally =
  ty_generated :: int
  ty_scored :: int
  ty_killed :: int
  ty_survived :: int
  ty_no_tests :: int
  ty_skipped :: int
  ty_timeout :: int
  ty_suspicious :: int
  ty_not_checked :: int
  ty_uncovered :: int

text \<open>Mutants whose lines the tests never reach count as survivors, not as a fault of the tool.\<close>

definition tally_of :: "scored_run \<Rightarrow> tally" where
  "tally_of r =
     (let cs = sr_counts r; generated = sum_list (map snd cs);
          unreached = (counted cs ''not checked'' \<noteq> 0 \<and> mutants_uncovered_by_tests (sr_mutmut r));
          uncovered = (if unreached then counted cs ''not checked'' else 0);
          not_checked = (if unreached then 0 else counted cs ''not checked'') in
      \<lparr>ty_generated = generated,
       ty_scored = max (generated - counted cs ''no tests'' - counted cs ''skipped'' - not_checked) 0,
       ty_killed = counted cs ''killed'' + counted cs ''segfault'',
       ty_survived = counted cs ''survived'' + uncovered,
       ty_no_tests = counted cs ''no tests'', ty_skipped = counted cs ''skipped'',
       ty_timeout = counted cs ''timeout'', ty_suspicious = counted cs ''suspicious'',
       ty_not_checked = not_checked, ty_uncovered = uncovered\<rparr>)"

definition tally_denominator :: "tally \<Rightarrow> int" where
  "tally_denominator t = ty_killed t + ty_survived t + ty_timeout t + ty_suspicious t"

definition tally_rate :: "tally \<Rightarrow> rat" where
  "tally_rate t = percentage (ty_killed t) (tally_denominator t)"

definition failed_command :: "pydict option \<Rightarrow> bool" where
  "failed_command c = (case c of None \<Rightarrow> False | Some d \<Rightarrow> exit_code d \<noteq> 0)"

definition collection_failed :: "scored_run \<Rightarrow> bool" where
  "collection_failed r = (all_mutants_suspicious (sr_counts r)
     \<and> (has_collection_error (sr_mutmut r) \<or> has_collection_error (sr_collection_probe r)))"

definition backend_failed :: "scored_run \<Rightarrow> bool" where
  "backend_failed r = (let t = tally_of r in failed_command (sr_metadata r) \<or> 0 < ty_not_checked t
     \<or> (ty_generated t = 0 \<and> failed_command (sr_mutmut r)))"

definition executed_plan :: "scored_run \<Rightarrow> pydict" where
  "executed_plan r = (let t = tally_of r in
     with_execution_evidence (sr_plan r) (ty_generated t) (ty_scored t) (ty_killed t) (ty_survived t)
       (ty_no_tests t) (ty_timeout t) (ty_suspicious t) (ty_not_checked t))"

text \<open>\<open>len(plan.get("exactToolCandidateKeys") or ())\<close>; the plan always holds a list there.\<close>

definition plan_failed :: "str \<Rightarrow> scored_run \<Rightarrow> bool" where
  "plan_failed syntax r = (syntax \<noteq> ''python2'' \<and> 0 < ty_generated (tally_of r)
     \<and> int (length (as_list (get (executed_plan r) ''exactToolCandidateKeys''))) \<noteq> ty_generated (tally_of r))"

definition unassociated :: "scored_run \<Rightarrow> bool" where
  "unassociated r = (let t = tally_of r in
     all_selected_mutants_unassociated (ty_generated t) (ty_scored t) (ty_no_tests t)
     \<and> \<not> backend_failed r \<and> \<not> collection_failed r)"

definition mutation_passed :: "str \<Rightarrow> rat \<Rightarrow> scored_run \<Rightarrow> bool" where
  "mutation_passed syntax gate r =
     ((gate \<le> tally_rate (tally_of r) \<or> (ty_generated (tally_of r) = 0 \<and> \<not> backend_failed r))
      \<and> \<not> backend_failed r \<and> \<not> collection_failed r \<and> \<not> plan_failed syntax r \<and> \<not> unassociated r)"

definition mutation_reason :: "str \<Rightarrow> scored_run \<Rightarrow> pyval" where
  "mutation_reason syntax r =
     (if collection_failed r then PStr ''mutation_test_collection_failed''
      else if backend_failed r then PStr ''mutation_backend_failed''
      else if plan_failed syntax r then PStr ''mutation_candidate_plan_failed''
      else if unassociated r then PStr ''mutation_no_tests''
      else PNone)"

definition failure_stage :: "scored_run \<Rightarrow> pyval" where
  "failure_stage r =
     (if failed_command (sr_metadata r) then PStr ''metadata_generation''
      else if 0 < ty_not_checked (tally_of r) then PStr ''mutation_execution''
      else if backend_failed r then PStr ''mutation_backend'' else PNone)"

definition or_command :: "pydict option \<Rightarrow> pydict option \<Rightarrow> pydict option" where
  "or_command a b = (case a of None \<Rightarrow> b | Some d \<Rightarrow> if d = [] then b else Some d)"

definition scoped_lines :: "str \<Rightarrow> int list \<Rightarrow> pyval" where
  "scoped_lines source changed = PDict [(source, ints changed)]"

definition mutation_verdict ::
  "str \<Rightarrow> rat \<Rightarrow> str \<Rightarrow> int list \<Rightarrow> pydict \<Rightarrow> scored_run \<Rightarrow> pydict" where
  "mutation_verdict syntax gate source changed artifacts r =
     (let t = tally_of r in
      [(''runtime_lane'', PStr ''lightweight''), (''generated'', PInt (ty_generated t)),
       (''killed'', PInt (ty_killed t)), (''survived'', PInt (ty_survived t)), (''noCoverage'', PInt 0),
       (''noTests'', PInt (ty_no_tests t)), (''timeout'', PInt (ty_timeout t)),
       (''suspicious'', PInt (ty_suspicious t)), (''notChecked'', PInt (ty_not_checked t)),
       (''uncoveredMutants'', PInt (ty_uncovered t)), (''skipped'', PInt (ty_skipped t)),
       (''changedLineMutantsGenerated'', PInt (ty_generated t)),
       (''changedLineMutantsKilled'', PInt (ty_killed t)),
       (''changedLineMutantsScored'', PInt (ty_scored t)),
       (''rate'', PFloat (if backend_failed r \<or> unassociated r then 0 else tally_rate t)),
       (''gate'', PFloat gate), (''passed'', PBool (mutation_passed syntax gate r)),
       (''reasonCode'', mutation_reason syntax r), (''failureStage'', failure_stage r),
       (''failureDetail'', PStr (if backend_failed r then command_failure_detail
          (or_command (or_command (sr_clean_probe r) (sr_mutmut r)) (sr_metadata r)) else [])),
       (''scope'', PStr ''changed_lines''), (''changed_lines'', scoped_lines source changed),
       (''candidatePlan'', PDict (executed_plan r)), (''artifacts'', PDict artifacts)])"

section \<open>Results without a run\<close>

definition no_candidate_mutation ::
  "(pyval \<Rightarrow> str) \<Rightarrow> str \<Rightarrow> int list \<Rightarrow> rat \<Rightarrow> pydict \<Rightarrow> pydict \<Rightarrow> pydict option" where
  "no_candidate_mutation shown source changed gate policy artifacts =
     Option.bind (iterated (get policy ''selectedBeforeCap'')) (\<lambda>eligible.
     Option.bind (iterated (get policy ''suppressed'')) (\<lambda>suppressed.
     map_option (\<lambda>reasons.
       [(''runtime_lane'', PStr ''lightweight''), (''generated'', PInt 0), (''killed'', PInt 0),
        (''survived'', PInt 0), (''noCoverage'', PInt 0), (''noTests'', PInt 0), (''timeout'', PInt 0),
        (''suspicious'', PInt 0), (''notChecked'', PInt 0), (''skipped'', PInt 0),
        (''changedLineMutantsGenerated'', PInt 0), (''changedLineMutantsKilled'', PInt 0),
        (''changedLineMutantsScored'', PInt 0), (''rate'', PFloat 100), (''gate'', PFloat gate),
        (''passed'', PBool True), (''reasonCode'', PStr ''no_mutatable_candidates''),
        (''scope'', PStr ''changed_lines''), (''changed_lines'', scoped_lines source changed),
        (''candidatePlan'', PDict
          [(''filterMechanism'', PStr ''mutmut3_metadata_selected_execution''),
           (''changedLines'', ints changed), (''eligibleMutationOpportunities'', PList eligible),
           (''reportFullSelected'', PList []), (''activeSelected'', PList []),
           (''exactToolCandidateKeys'', PList []), (''suppressed'', PList suppressed),
           (''suppressionByReason'', PDict (map (\<lambda>(k, n). (k, PInt n)) reasons)),
           (''samplingLayer'', PDict [(''enabled'', PBool False)]),
           (''adapterFilteredGenerationApplied'', PBool True), (''generationPolicy'', PDict policy)]),
        (''artifacts'', PDict artifacts)])
       (suppression_counts shown policy)))"

definition empty_mutation :: "rat \<Rightarrow> bool \<Rightarrow> pydict" where
  "empty_mutation gate passed =
     [(''runtime_lane'', PStr ''lightweight''), (''generated'', PInt 0), (''killed'', PInt 0),
      (''survived'', PInt 0), (''noCoverage'', PInt 0), (''noTests'', PInt 0), (''timeout'', PInt 0),
      (''suspicious'', PInt 0), (''notChecked'', PInt 0), (''changedLineMutantsGenerated'', PInt 0),
      (''changedLineMutantsKilled'', PInt 0), (''changedLineMutantsScored'', PInt 0),
      (''rate'', PFloat (if passed then 100 else 0)), (''gate'', PFloat gate), (''passed'', PBool passed),
      (''scope'', PStr ''changed_lines''), (''changed_lines'', PDict []),
      (''candidatePlan'', PDict [(''activeSelected'', PList []), (''reportFullSelected'', PList []),
         (''exactToolCandidateKeys'', PList []), (''eligibleMutationOpportunities'', PList []),
         (''suppressed'', PList [PDict [(''reasonCode'', PStr ''mutation_disabled'')]]),
         (''samplingLayer'', PDict [(''enabled'', PBool False)])]),
      (''artifacts'', PDict [])]"

section \<open>The settings of mutmut\<close>

fun find_index :: "('a \<Rightarrow> bool) \<Rightarrow> 'a list \<Rightarrow> nat option" where
  "find_index f [] = None"
| "find_index f (x # xs) = (if f x then Some 0 else map_option Suc (find_index f xs))"

definition is_header :: "str \<Rightarrow> bool" where
  "is_header line = (startswith (strip line) ''['' \<and> endswith (strip line) '']'')"

definition lines_text :: "str list \<Rightarrow> str" where
  "lines_text ls = join_with [newline] ls"

definition replace_toml_section :: "str \<Rightarrow> str \<Rightarrow> str \<Rightarrow> str" where
  "replace_toml_section content header body =
     (let ls = splitlines content in
      case find_index (\<lambda>l. strip l = header) ls of
        None \<Rightarrow> dropWhile (\<lambda>c. c = newline) (lines_text [rstrip content, body]) @ [newline]
      | Some start \<Rightarrow>
         (let rest = drop (Suc start) ls;
              tail = (case find_index is_header rest of None \<Rightarrow> [] | Some i \<Rightarrow> drop i rest) in
          rstrip (lines_text (take start ls @ splitlines body @ tail)) @ [newline]))"

text \<open>\<open>Path(p).parent\<close> in POSIX form.\<close>

definition parent_path :: "str \<Rightarrow> str" where
  "parent_path path = (let parts = filter (\<lambda>s. s \<noteq> [] \<and> s \<noteq> ''.'') (split_on (CHR ''/'') path);
       up = join_with ''/'' (butlast parts) in
     if startswith path ''/'' then ''/'' @ up else if up = [] then ''.'' else up)"

definition pyproject_section ::
  "('w, 'm) mutation_ports_scheme \<Rightarrow> str \<Rightarrow> str \<Rightarrow> str list \<Rightarrow> str list \<Rightarrow> str" where
  "pyproject_section p source tests_dir pytest_args support = lines_text
     ([''[tool.mutmut]'', ''paths_to_mutate = '' @ mp_dumps_texts p [source],
       ''tests_dir = '' @ mp_dumps_texts p [tests_dir]]
      @ (if pytest_args = [] then [] else [''pytest_add_cli_args = '' @ mp_dumps_texts p pytest_args])
      @ (if support = [] then [] else [''also_copy = '' @ mp_dumps_texts p support]))"

definition setup_cfg_text ::
  "('w, 'm) mutation_ports_scheme \<Rightarrow> str \<Rightarrow> str \<Rightarrow> str \<Rightarrow> str \<Rightarrow> str list \<Rightarrow> str list \<Rightarrow> str" where
  "setup_cfg_text p python source test tests_dir pytest_args support =
     (let indented = newline # ''  '' in lines_text
       ([''[mutmut]'', ''paths_to_mutate='' @ source, ''tests_dir='' @ tests_dir]
        @ (if pytest_args = [] then [] else [''pytest_add_cli_args='' @ join_with indented pytest_args])
        @ (if support = [] then [] else [''also_copy='' @ indented @ join_with indented support])
        @ [''runner='' @ mp_runner p python [test]]) @ [newline])"

definition write_mutmut_setup ::
  "('w, 'm) mutation_ports_scheme \<Rightarrow> str \<Rightarrow> str \<Rightarrow> str \<Rightarrow> str \<Rightarrow> str \<Rightarrow> ('w, unit) lane_prog" where
  "write_mutmut_setup p repo source test python syntax =
     (let tests_dir = (if syntax = ''python2'' then slashes (parent_path test) else test);
          pyproject = repo @ ''/pyproject.toml'' in
      seq (on_lane (mp_support_paths p repo source [test])) (\<lambda>support.
      seq (on_lane (mp_pytest_args p repo [test])) (\<lambda>pytest_args.
      seq (read_file pyproject) (\<lambda>content. (case (if syntax = ''python2'' then None else content) of
        Some original \<Rightarrow> put_file pyproject (Some (replace_toml_section original ''[tool.mutmut]''
          (pyproject_section p source tests_dir pytest_args support)))
      | None \<Rightarrow> put_file (repo @ ''/setup.cfg'')
          (Some (setup_cfg_text p python source test tests_dir pytest_args support)))))))"

section \<open>Running the passes\<close>

definition adapter_command :: "str \<Rightarrow> str \<Rightarrow> str \<Rightarrow> str \<Rightarrow> str list" where
  "adapter_command bootstrap python path mode = [python, ''-c'', bootstrap, ''1'', mode, path]"

text \<open>\<open>pytest_env.mutation_pytest_env\<close>: the roots of the checkout go, the shim comes first.\<close>

definition mutation_pytest_env ::
  "('w, 'm) mutation_ports_scheme \<Rightarrow> str \<Rightarrow> str list \<Rightarrow> env \<Rightarrow> ('w, env) lane_prog" where
  "mutation_pytest_env p dir tests base =
     seq (on_lane (lp_pytest_env p dir tests (filter (\<lambda>(k, v). k \<noteq> ''UTA_PYTEST_IMPORT_ROOTS'') base)))
       (\<lambda>e. (let compat = strip (case map_of e ''UTA_MUTMUT_IMPORT_COMPAT_DIR'' of None \<Rightarrow> [] | Some s \<Rightarrow> s);
              path = (case map_of e ''PYTHONPATH'' of None \<Rightarrow> [] | Some s \<Rightarrow> s) in
          ret (if compat = [] then e
            else dict_set ''PYTHONPATH'' (join_with '':'' (compat # filter (\<lambda>i. i \<noteq> [] \<and> i \<noteq> compat)
              (split_on (CHR '':'') path))) e)))"

definition plan_policy_fields :: "str list" where
  "plan_policy_fields = [''capProfile'', ''caps'', ''changedLineCount'', ''eligibleOpportunities'',
     ''selectedOpportunitiesBeforeCap'', ''hardCapSelectedOpportunities'', ''selectedOpportunities'',
     ''omittedByCap'', ''omittedByHardCap'', ''omittedByRepresentativeSelection'',
     ''suppressedOpportunities'', ''truncated'', ''truncationReasons'']"

definition key_payloads :: "str list \<Rightarrow> pyval" where
  "key_payloads keys = PList (map (\<lambda>k. PDict [(''toolCandidateKey'', PStr k)]) keys)"

definition legacy_plan :: "int list \<Rightarrow> str list \<Rightarrow> pydict" where
  "legacy_plan changed keys =
     [(''filterMechanism'', PStr ''mutmut15_legacy_changed_line_scope''), (''changedLines'', ints changed),
      (''eligibleMutationOpportunities'', key_payloads keys), (''reportFullSelected'', key_payloads keys),
      (''activeSelected'', key_payloads keys), (''exactToolCandidateKeys'', PList []),
      (''samplingLayer'', PDict [(''enabled'', PBool False)])]"

definition plan_of_pass ::
  "('w, 'm) mutation_ports_scheme \<Rightarrow> str \<Rightarrow> str \<Rightarrow> int list \<Rightarrow> pydict \<Rightarrow> ('w, pydict) lane_prog" where
  "plan_of_pass p source test changed policy =
     seq (on_lane (mp_plan_from_meta p source test changed [test] policy)) (\<lambda>plan.
     ret (dict_set ''generationPolicy'' (PDict (map (\<lambda>k. (k, get policy k))
       (filter (has_key policy) plan_policy_fields))) (plan_dict plan)))"

record progress =
  pg_counts :: counts
  pg_keys :: "str list"
  pg_plans :: "pydict list"
  pg_batches :: "pydict list"
  pg_failed :: "pydict option"
  pg_metadata :: "pydict option"
  pg_mutmut :: "pydict option"

definition no_progress :: progress where
  "no_progress = \<lparr>pg_counts = [], pg_keys = [], pg_plans = [], pg_batches = [], pg_failed = None,
     pg_metadata = None, pg_mutmut = None\<rparr>"

definition merge_counts :: "counts \<Rightarrow> counts \<Rightarrow> counts" where
  "merge_counts totals cs = foldl (\<lambda>t (status, n). add_to status n t) totals cs"

text \<open>What stays the same for every pass of a target.\<close>

record pass_setting =
  px_repo :: str
  px_source :: str
  px_test :: str
  px_changed :: "int list"
  px_mutants :: str
  px_timeout :: int
  px_python :: str
  px_env :: env

definition pass_command ::
  "('w, 'm) mutation_ports_scheme \<Rightarrow> pass_setting \<Rightarrow> generation_pass \<Rightarrow> str \<Rightarrow> str \<Rightarrow> ('w, pydict) lane_prog" where
  "pass_command p x g name mode =
     seq (mutation_pytest_env p (px_mutants x) [px_test x] (env_without_ci_sampling (px_env x))) (\<lambda>e.
     run_command (lane_ports.truncate p) (name @ gp_suffix g)
       (adapter_command (mp_bootstrap p) (px_python x) (gp_path g) mode)
       (px_repo x) (px_timeout x) (Some e))"

definition module_bytes :: "('w, 'm) mutation_ports_scheme \<Rightarrow> pass_setting \<Rightarrow> ('w, int) lane_prog" where
  "module_bytes p x s = (case on_lane (mp_file_size p (px_repo x @ ''/mutants/'' @ px_source x)) s of
     (Inl e, s') \<Rightarrow> (Inr 0, s') | (Inr n, s') \<Rightarrow> (Inr n, s'))"

definition run_pass ::
  "('w, 'm) mutation_ports_scheme \<Rightarrow> pass_setting \<Rightarrow> bool \<Rightarrow> generation_pass \<Rightarrow> progress \<Rightarrow> ('w, progress) lane_prog" where
  "run_pass p x several g acc =
     seq (if several then on_lane (mp_remove_tree p (px_mutants x)) else ret ()) (\<lambda>_.
     seq (pass_command p x g ''mutmut_generate_metadata'' ''metadata'') (\<lambda>metadata.
     seq (if exit_code metadata = 0 then pass_command p x g ''mutmut_run_selected'' ''run''
          else ret metadata) (\<lambda>mutmut.
     seq (read_mutmut_meta p (px_mutants x)) (\<lambda>(cs, keys).
     seq (plan_of_pass p (px_source x) (px_test x) (px_changed x) (gp_policy g)) (\<lambda>plan.
     seq (if several then module_bytes p x else ret 0) (\<lambda>bytes.
     ret \<lparr>pg_counts = merge_counts (pg_counts acc) cs, pg_keys = pg_keys acc @ keys,
       pg_plans = pg_plans acc @ [plan],
       pg_batches = (if several then pg_batches acc @ [[(''index'', PInt (int (gp_index g))),
         (''allowedLineCount'', len (as_list (get (gp_policy g) ''selectedLines''))),
         (''batchGeneratedBytes'', PInt bytes)]] else pg_batches acc),
       pg_failed = (if exit_code metadata \<noteq> 0 \<and> pg_failed acc = None then Some metadata
         else pg_failed acc),
       pg_metadata = Some metadata, pg_mutmut = Some mutmut\<rparr>))))))"

fun run_passes ::
  "('w, 'm) mutation_ports_scheme \<Rightarrow> pass_setting \<Rightarrow> bool \<Rightarrow> generation_pass list \<Rightarrow> progress \<Rightarrow> ('w, progress) lane_prog" where
  "run_passes p x several [] acc = ret acc"
| "run_passes p x several (g # gs) acc = seq (run_pass p x several g acc) (run_passes p x several gs)"

definition reduced_warning :: "int list \<Rightarrow> str \<Rightarrow> str list" where
  "reduced_warning ls why = (if ls = [] then []
     else [''Mutation coverage reduced: '' @ nat_str (length ls) @ '' line(s) '' @ why @ '' (lines ''
       @ join_with '','' (map int_str ls) @ '').''])"

definition partition_warnings :: "partition_result \<Rightarrow> str list" where
  "partition_warnings r = reduced_warning (pr_over_cap r) ''exceeded the generated-bytes budget''
     @ reduced_warning (pr_over_count r) ''trimmed to fit the max-batch guard''"

definition merged_plan ::
  "('w, 'm) mutation_ports_scheme \<Rightarrow> partition_result \<Rightarrow> progress \<Rightarrow> pydict option" where
  "merged_plan p part acc = map_option (\<lambda>plan.
       if plan \<noteq> [] \<and> partition_warnings part \<noteq> []
       then dict_set ''mutationBatchWarnings'' (texts (partition_warnings part)) plan else plan)
     (aggregate_batch_candidate_plans (mp_sha256 p) (mp_shown p) (mp_set_order p) (pg_plans acc)
       (pr_signature part) (generation_max_generated_bytes (mp_environ p)) (pg_batches acc)
       (pr_over_cap part) (pr_over_count part))"

text \<open>The first failed generation is the one reported.\<close>

definition run_generation_passes ::
  "('w, 'm) mutation_ports_scheme \<Rightarrow> pass_setting \<Rightarrow> generation_pass list \<Rightarrow> partition_result option
    \<Rightarrow> ('w, scored_run) lane_prog" where
  "run_generation_passes p x passes part =
     seq (run_passes p x (1 < length passes) passes no_progress) (\<lambda>acc.
     seq (case (if 1 < length passes then part else None) of
        Some r \<Rightarrow> raised (merged_plan p r acc) ''TypeError''
      | None \<Rightarrow> ret (case pg_plans acc of [] \<Rightarrow> [] | plan # _ \<Rightarrow> plan)) (\<lambda>plan.
     ret \<lparr>sr_counts = pg_counts acc, sr_plan = plan,
       sr_metadata = or_command (pg_failed acc) (pg_metadata acc), sr_mutmut = pg_mutmut acc,
       sr_clean_probe = None, sr_collection_probe = None, sr_batches = length passes\<rparr>))"

section \<open>The run of a target\<close>

record 'w mutation_job =
  mj_repo :: str
  mj_source :: str
  mj_test :: str
  mj_changed :: "(str \<times> int list) list"
  mj_gate :: rat
  mj_mutmut :: str
  mj_timeout :: int
  mj_python :: str
  mj_syntax :: str
  mj_sampling :: "'w sampling option"
  mj_env :: env

definition setup_cfg :: "str \<Rightarrow> str" where
  "setup_cfg repo = repo @ ''/setup.cfg''"

definition pyproject_toml :: "str \<Rightarrow> str" where
  "pyproject_toml repo = repo @ ''/pyproject.toml''"

definition mutants_dir :: "str \<Rightarrow> str" where
  "mutants_dir repo = repo @ ''/mutants''"

definition policy_file :: "str \<Rightarrow> str \<Rightarrow> str" where
  "policy_file repo source = repo @ ''/.uta_cache/python-enforcement/mutation/''
     @ map (\<lambda>c. if c = CHR ''/'' then CHR ''_'' else c) source @ ''.generation-policy.json''"

text \<open>\<open>try: m finally: cleanup\<close>.\<close>

definition finally_do :: "('s, 'e, 'a) prog \<Rightarrow> ('s, 'e, unit) prog \<Rightarrow> ('s, 'e, 'a) prog" where
  "finally_do m cleanup s = (case m s of (r, s') \<Rightarrow>
     (case cleanup s' of (Inl e, s'') \<Rightarrow> (Inl e, s'') | (Inr u, s'') \<Rightarrow> (r, s'')))"

definition with_import_compat ::
  "('w, 'm) mutation_ports_scheme \<Rightarrow> str \<Rightarrow> str \<Rightarrow> env \<Rightarrow> ('w, env) lane_prog" where
  "with_import_compat p repo source e =
     seq (on_lane (mp_module p repo source)) (\<lambda>canonical.
     seq (on_lane (mp_write_compat p repo source canonical)) (\<lambda>dir.
     (let existing = (case map_of e ''PYTHONPATH'' of None \<Rightarrow> [] | Some s \<Rightarrow> s) in
      ret (dict_update e
        [(''UTA_MUTMUT_IMPORT_COMPAT_DIR'', dir),
         (''UTA_MUTMUT_TARGET_REL'', dropWhile (\<lambda>c. c = CHR ''/'') (slashes source)),
         (''UTA_MUTMUT_CANONICAL_MODULE'', canonical), (''UTA_MUTMUT_REPO_ROOT'', repo),
         (''PYTHONPATH'', join_with '':'' (filter (\<lambda>i. i \<noteq> []) [dir, existing]))]))))"

definition legacy_run ::
  "('w, 'm) mutation_ports_scheme \<Rightarrow> 'w mutation_job \<Rightarrow> env \<Rightarrow> ('w, scored_run) lane_prog" where
  "legacy_run p j e =
     (let mutants = mutants_dir (mj_repo j) in
      seq (mutation_pytest_env p mutants [mj_test j] (env_without_ci_sampling e)) (\<lambda>env.
      seq (run_command (lane_ports.truncate p) ''mutmut_run'' [mj_mutmut j, ''run'', ''--max-children'', ''1'']
        (mj_repo j) (mj_timeout j) (Some env)) (\<lambda>mutmut.
      seq (read_mutmut_meta p mutants) (\<lambda>(cs, keys).
      ret \<lparr>sr_counts = cs, sr_plan = legacy_plan (lines_of (mj_changed j) (mj_source j)) keys,
        sr_metadata = None, sr_mutmut = Some mutmut, sr_clean_probe = None,
        sr_collection_probe = None, sr_batches = 1\<rparr>))))"

definition modern_run ::
  "('w, 'm) mutation_ports_scheme \<Rightarrow> 'w mutation_job \<Rightarrow> env \<Rightarrow> pydict \<Rightarrow> ('w, scored_run) lane_prog" where
  "modern_run p j e policy =
     seq (generation_passes p (mj_repo j @ ''/'' @ mj_source j) policy
        (policy_file (mj_repo j) (mj_source j))) (\<lambda>(passes, part).
     run_generation_passes p
       \<lparr>px_repo = mj_repo j, px_source = mj_source j, px_test = mj_test j,
        px_changed = lines_of (mj_changed j) (mj_source j), px_mutants = mutants_dir (mj_repo j),
        px_timeout = mj_timeout j, px_python = mj_python j, px_env = e\<rparr> passes part)"

text \<open>Mutants that were not run: does the unmutated suite run at all, does it collect?\<close>

definition probe ::
  "('w, 'm) mutation_ports_scheme \<Rightarrow> 'w mutation_job \<Rightarrow> env \<Rightarrow> str \<Rightarrow> str list \<Rightarrow> (env \<Rightarrow> env) \<Rightarrow> ('w, pydict) lane_prog" where
  "probe p j e name args adjust =
     (let mutants = mutants_dir (mj_repo j) in
      seq (mutation_pytest_env p mutants [mj_test j] (env_without_ci_sampling e)) (\<lambda>env.
      run_command (lane_ports.truncate p) name (pytest_process_command (lp_script p) (mj_python j) args None)
        mutants (min (mj_timeout j) 120) (Some (adjust env))))"

definition probed ::
  "('w, 'm) mutation_ports_scheme \<Rightarrow> 'w mutation_job \<Rightarrow> env \<Rightarrow> scored_run \<Rightarrow> ('w, scored_run) lane_prog" where
  "probed p j e r =
     (if counted (sr_counts r) ''not checked'' \<noteq> 0 then
        seq (probe p j e ''mutmut_clean_test_probe'' [''-x'', ''--assert=plain'', mj_test j]
          (dict_set ''MUTANT_UNDER_TEST'' [])) (\<lambda>c. ret (r\<lparr>sr_clean_probe := Some c\<rparr>))
      else if all_mutants_suspicious (sr_counts r) \<and> \<not> has_collection_error (sr_mutmut r) then
        seq (probe p j e ''mutmut_collection_probe'' [''--collect-only'', ''-q'', mj_test j] (\<lambda>x. x))
          (\<lambda>c. ret (r\<lparr>sr_collection_probe := Some c\<rparr>))
      else ret r)"

definition execute ::
  "('w, 'm) mutation_ports_scheme \<Rightarrow> 'w mutation_job \<Rightarrow> env \<Rightarrow> pydict option \<Rightarrow> ('w, scored_run) lane_prog" where
  "execute p j e policy =
     andthen (write_mutmut_setup p (mj_repo j) (mj_source j) (mj_test j) (mj_python j) (mj_syntax j))
     (seq (case policy of None \<Rightarrow> legacy_run p j e | Some d \<Rightarrow> modern_run p j e d) (probed p j e))"

definition restore ::
  "('w, 'm) mutation_ports_scheme \<Rightarrow> str \<Rightarrow> str option \<Rightarrow> str option \<Rightarrow> ('w, unit) lane_prog" where
  "restore p repo setup pyproject =
     andthen (put_file (setup_cfg repo) setup)
     (andthen (put_file (pyproject_toml repo) pyproject)
     (if map_of (mp_environ p) ''UTA_PYTHON_MUTATION_KEEP_MUTANTS'' \<in> {None, Some []}
      then on_lane (mp_remove_tree p (mutants_dir repo)) else ret ()))"

text \<open>The workspace of mutmut: the settings files are read before and put back after the run.\<close>

definition in_workspace ::
  "('w, 'm) mutation_ports_scheme \<Rightarrow> 'w mutation_job \<Rightarrow> (env \<Rightarrow> ('w, scored_run) lane_prog)
    \<Rightarrow> ('w, env \<times> scored_run) lane_prog" where
  "in_workspace p j body =
     seq (read_file (setup_cfg (mj_repo j))) (\<lambda>setup.
     seq (read_file (pyproject_toml (mj_repo j))) (\<lambda>pyproject.
     andthen (on_lane (mp_remove_tree p (mutants_dir (mj_repo j))))
     (seq (with_import_compat p (mj_repo j) (mj_source j) (mj_env j)) (\<lambda>e.
      seq (finally_do (body e) (restore p (mj_repo j) setup pyproject)) (\<lambda>r. ret (e, r))))))"

definition generation_artifacts :: "env \<Rightarrow> int list \<Rightarrow> nat option \<Rightarrow> pydict" where
  "generation_artifacts e changed batches =
     [(''mutation_generation_strategy'', PStr (generation_strategy e))]
     @ (if changed = [] then [] else [(''mutation_scope'', PStr ''changed_lines'')])
     @ (case batches of None \<Rightarrow> [] | Some n \<Rightarrow> [(''mutation_batch_count'', PStr (nat_str n))])"

definition policy_artifact :: "str \<Rightarrow> ('w, pydict) lane_prog" where
  "policy_artifact path = seq (read_file path) (\<lambda>content.
     ret (if content = None then [] else [(''mutmut_generation_policy'', PStr path)]))"

definition sampled_policy ::
  "('w, 'm) mutation_ports_scheme \<Rightarrow> 'w mutation_job \<Rightarrow> ('w, pydict) lane_prog" where
  "sampled_policy p j =
     (let changed = lines_of (mj_changed j) (mj_source j); path = policy_file (mj_repo j) (mj_source j) in
      seq (build_generation_policy p (mj_repo j @ ''/'' @ mj_source j) (mj_source j) changed changed 1000)
        (\<lambda>full.
      seq (apply_sampling_policy (mj_sampling j) (mj_source j) full) (\<lambda>policy.
      andthen (put_file path (Some (mp_dumps p policy))) (ret policy))))"

definition scored_mutation ::
  "('w, 'm) mutation_ports_scheme \<Rightarrow> 'w mutation_job \<Rightarrow> pydict option \<Rightarrow> ('w, pydict) lane_prog" where
  "scored_mutation p j policy =
     (let changed = lines_of (mj_changed j) (mj_source j) in
      seq (in_workspace p j (\<lambda>e. execute p j e policy)) (\<lambda>(e, r).
      seq (if policy = None then ret [] else policy_artifact (policy_file (mj_repo j) (mj_source j)))
        (\<lambda>artifact.
      ret (mutation_verdict (mj_syntax j) (mj_gate j) (mj_source j) changed
        (artifact @ (case map_of e ''UTA_MUTMUT_IMPORT_COMPAT_DIR'' of
           Some (c # cs) \<Rightarrow> [(''import_compat'', PStr (c # cs))] | _ \<Rightarrow> [])
         @ generation_artifacts (mp_environ p) changed (Some (sr_batches r))) r))))"

definition run_mutation ::
  "('w, 'm) mutation_ports_scheme \<Rightarrow> 'w mutation_job \<Rightarrow> ('w, pydict) lane_prog" where
  "run_mutation p j =
     (if mj_syntax j = ''python2'' then scored_mutation p j None
      else
      seq (sampled_policy p j) (\<lambda>policy.
      if truthy (get policy ''selectedLines'') then scored_mutation p j (Some policy)
      else
      seq (policy_artifact (policy_file (mj_repo j) (mj_source j))) (\<lambda>artifact.
      (let changed = lines_of (mj_changed j) (mj_source j) in
      raised (no_candidate_mutation (mp_shown p) (mj_source j) changed (mj_gate j) policy
        (artifact @ generation_artifacts (mp_environ p) changed None)) ''TypeError''))))"

end
