(* ===== verification/EnforceDispatch.thy ===== *)
theory EnforceDispatch
  imports EnforceEvidence
begin

text \<open>
  The contract of the enforcement core: \<open>uta_enforce_core/contracts.py\<close>, the immutable
  \<open>registry.py\<close>, the limits of \<open>validation.py\<close> and the stateless \<open>dispatch.py\<close>.
  A language binding is a record whose operation runs on a world \<open>'w\<close>. Resolving a path
  and asking the file system are parameters; a resolved path is the list of its parts. Fractions
  are exact rationals, so the checks against NaN do not arise. The first test of
  \<open>validate_request\<close> never fires (a \<open>Path\<close> is always true; the empty one is the
  current directory), and neither do its checks of the dataclass types.
\<close>

section \<open>Contracts\<close>

datatype enforcement_status = Passed | Failed | StatusError | Unsupported

fun status_value :: "enforcement_status \<Rightarrow> str" where
  "status_value Passed = ''passed''"
| "status_value Failed = ''failed''"
| "status_value StatusError = ''error''"
| "status_value Unsupported = ''unsupported''"

definition status_of :: "str \<Rightarrow> enforcement_status option" where
  "status_of s = List.find (\<lambda>v. status_value v = s) [Passed, Failed, StatusError, Unsupported]"

record quality_gates =
  qg_coverage :: "rat option"
  qg_mutation :: "rat option"

record runtime_selection =
  rn_python :: "str option"
  rn_overlay :: bool
  rn_timeout :: int
  rn_total_timeout :: int
  rn_syntax :: "str option"

record enforcement_target =
  et_language :: str
  et_id :: str
  et_source :: str
  et_tests :: "str list"
  et_display :: str
  et_granularity :: str
  et_metadata :: pydict

record enforcement_request =
  er_repo :: str
  er_language :: str
  er_targets :: "enforcement_target list"
  er_tests :: "str list"
  er_base_ref :: str
  er_gates :: quality_gates
  er_runtime :: runtime_selection

record capabilities =
  cb_language :: str
  cb_coverage :: bool
  cb_mutation :: bool
  cb_versions :: "str list"
  cb_sampling :: bool

record target_enforcement =
  te_target :: enforcement_target
  te_status :: enforcement_status
  te_evidence :: pydict

text \<open>A binding may return any text as its status and any value as its evidence.\<close>

record enforcement_result =
  ef_status :: str
  ef_evidence :: pyval
  ef_targets :: "target_enforcement list"

record 'p invocation_context =
  ic_sampling :: "'p option"

datatype violation =
    RepoMissing | RepoNotDirectory | EmptyLanguage | EmptyBaseRef
  | TooManyTargets nat
  | EmptyTargetId nat | EmptySourcePath nat
  | EmptyPath str | EscapesRepo str
  | TooManyTests str nat
  | GateOutOfRange rat
  | BadTimeout int
  | UnknownStatus str | EvidenceNotMapping | EvidenceWithoutEnvelope

datatype enforce_error =
    Invalid violation
  | UnknownLanguage str "str list"
  | UnsupportedCapability str
  | DuplicateBinding str
  | NamelessBinding
  | BindingRaised str

record ('w, 'p) binding =
  bd_language :: pyval
  bd_capabilities :: "capabilities option"
  bd_enforce :: "enforcement_request \<Rightarrow> 'p invocation_context \<Rightarrow> ('w, enforce_error, enforcement_result) prog"

section \<open>The registry\<close>

type_synonym ('w, 'p) registry = "(str \<times> ('w, 'p) binding) list"

definition normalize_language :: "str \<Rightarrow> str" where
  "normalize_language language = lower (strip language)"

definition register :: "('w, 'p) registry \<Rightarrow> ('w, 'p) binding \<Rightarrow> enforce_error + ('w, 'p) registry" where
  "register table b = (case bd_language b of
     PStr raw \<Rightarrow>
       if strip raw = [] then Inl NamelessBinding
       else if normalize_language raw \<in> set (map fst table) then Inl (DuplicateBinding (normalize_language raw))
       else Inr (table @ [(normalize_language raw, b)])
   | _ \<Rightarrow> Inl NamelessBinding)"

fun register_all ::
  "('w, 'p) registry \<Rightarrow> ('w, 'p) binding list \<Rightarrow> enforce_error + ('w, 'p) registry" where
  "register_all table [] = Inr table"
| "register_all table (b # bs) = ebind (register table b) (\<lambda>t. register_all t bs)"

definition make_registry :: "('w, 'p) binding list \<Rightarrow> enforce_error + ('w, 'p) registry" where
  "make_registry bs = register_all [] bs"

definition supported_languages :: "('w, 'p) registry \<Rightarrow> str list" where
  "supported_languages r = sort (map fst r)"

definition registry_get :: "('w, 'p) registry \<Rightarrow> str \<Rightarrow> enforce_error + ('w, 'p) binding" where
  "registry_get r language =
     (case (if normalize_language language = [] then None else map_of r (normalize_language language)) of
        None \<Rightarrow> Inl (UnknownLanguage language (supported_languages r))
      | Some b \<Rightarrow> Inr b)"

section \<open>Validation\<close>

definition max_targets :: nat where
  "max_targets = 200"

definition max_test_paths :: nat where
  "max_test_paths = 5"

definition max_command_timeout :: int where
  "max_command_timeout = 7200"

definition max_total_timeout :: int where
  "max_total_timeout = 7200"

record path_ports =
  pt_resolve :: "str \<Rightarrow> str list"
  pt_exists :: "str list \<Rightarrow> bool"
  pt_is_dir :: "str list \<Rightarrow> bool"

definition is_absolute :: "str \<Rightarrow> bool" where
  "is_absolute path = startswith path ''/''"

definition under :: "str list \<Rightarrow> str list \<Rightarrow> bool" where
  "under base parts = (take (length base) parts = base)"

definition repo_path_of :: "str \<Rightarrow> str" where
  "repo_path_of path = (if path = [] then ''.'' else path)"

definition validate_relative_path :: "path_ports \<Rightarrow> str \<Rightarrow> str \<Rightarrow> enforce_error + unit" where
  "validate_relative_path pp repo path =
     (let p = strip path in
      if p = [] then Inl (Invalid (EmptyPath path))
      else check_that (under (pt_resolve pp repo)
             (pt_resolve pp (if is_absolute p then p else repo @ ''/'' @ p)))
           (Invalid (EscapesRepo p)))"

definition validate_gate :: "rat option \<Rightarrow> enforce_error + unit" where
  "validate_gate g = (case g of None \<Rightarrow> Inr ()
     | Some q \<Rightarrow> check_that (0 \<le> q \<and> q \<le> 1) (Invalid (GateOutOfRange q)))"

definition validate_quality_gates :: "quality_gates \<Rightarrow> enforce_error + unit" where
  "validate_quality_gates g = ebind (validate_gate (qg_coverage g)) (\<lambda>_. validate_gate (qg_mutation g))"

definition validate_runtime :: "runtime_selection \<Rightarrow> enforce_error + unit" where
  "validate_runtime r =
     ebind (check_that (0 < rn_timeout r \<and> rn_timeout r \<le> max_command_timeout)
       (Invalid (BadTimeout (rn_timeout r)))) (\<lambda>_.
     check_that (0 < rn_total_timeout r \<and> rn_total_timeout r \<le> max_total_timeout)
       (Invalid (BadTimeout (rn_total_timeout r))))"

definition validate_target :: "path_ports \<Rightarrow> str \<Rightarrow> nat \<times> enforcement_target \<Rightarrow> enforce_error + unit" where
  "validate_target pp repo = (\<lambda>(i, t).
     ebind (check_that (strip (et_id t) \<noteq> []) (Invalid (EmptyTargetId i))) (\<lambda>_.
     ebind (check_that (strip (et_source t) \<noteq> []) (Invalid (EmptySourcePath i))) (\<lambda>_.
     ebind (validate_relative_path pp repo (et_source t)) (\<lambda>_.
     ebind (check_that (length (et_tests t) \<le> max_test_paths)
       (Invalid (TooManyTests (et_id t) (length (et_tests t))))) (\<lambda>_.
     eforeach (validate_relative_path pp repo) (et_tests t))))))"

definition validate_request :: "path_ports \<Rightarrow> enforcement_request \<Rightarrow> enforce_error + unit" where
  "validate_request pp r =
     (let repo = repo_path_of (er_repo r); base = pt_resolve pp repo; n = length (er_targets r) in
      ebind (check_that (pt_exists pp base) (Invalid RepoMissing)) (\<lambda>_.
      ebind (check_that (pt_is_dir pp base) (Invalid RepoNotDirectory)) (\<lambda>_.
      ebind (check_that (strip (er_language r) \<noteq> []) (Invalid EmptyLanguage)) (\<lambda>_.
      ebind (check_that (strip (er_base_ref r) \<noteq> []) (Invalid EmptyBaseRef)) (\<lambda>_.
      ebind (check_that (n \<le> max_targets) (Invalid (TooManyTargets n))) (\<lambda>_.
      ebind (eforeach (validate_target pp repo) (enumerate 0 (er_targets r))) (\<lambda>_.
      ebind (eforeach (validate_relative_path pp repo) (er_tests r)) (\<lambda>_.
      ebind (validate_quality_gates (er_gates r)) (\<lambda>_.
      validate_runtime (er_runtime r))))))))))"

definition validate_result :: "enforcement_result \<Rightarrow> enforce_error + unit" where
  "validate_result r =
     ebind (check_that (status_of (ef_status r) \<noteq> None) (Invalid (UnknownStatus (ef_status r)))) (\<lambda>_.
     (case ef_evidence r of
        PDict d \<Rightarrow> check_that (d = [] \<or> has_key d ''backend'' \<or> has_key d ''schemaVersion''
            \<or> has_key d ''status'') (Invalid EvidenceWithoutEnvelope)
      | _ \<Rightarrow> Inl (Invalid EvidenceNotMapping)))"

section \<open>Dispatch\<close>

definition check_capabilities ::
  "('w, 'p) binding \<Rightarrow> enforcement_request \<Rightarrow> 'p invocation_context \<Rightarrow> enforce_error + unit" where
  "check_capabilities b r ctx = (case bd_capabilities b of
     None \<Rightarrow> Inr ()
   | Some c \<Rightarrow>
       ebind (check_that (ic_sampling ctx = None \<or> cb_sampling c) (UnsupportedCapability ''sampling'')) (\<lambda>_.
       ebind (check_that (qg_mutation (er_gates r) = None \<or> cb_mutation c)
         (UnsupportedCapability ''mutation'')) (\<lambda>_.
       check_that (qg_coverage (er_gates r) = None \<or> cb_coverage c) (UnsupportedCapability ''coverage''))))"

definition lift_check :: "enforce_error + 'a \<Rightarrow> ('w, enforce_error, 'a) prog" where
  "lift_check c = (case c of Inl e \<Rightarrow> raise e | Inr x \<Rightarrow> ret x)"

definition enforce ::
  "path_ports \<Rightarrow> ('w, 'p) registry \<Rightarrow> 'p invocation_context \<Rightarrow> enforcement_request
    \<Rightarrow> ('w, enforce_error, enforcement_result) prog" where
  "enforce pp registry ctx r =
     seq (lift_check (validate_request pp r)) (\<lambda>_.
     seq (lift_check (registry_get registry (er_language r))) (\<lambda>b.
     seq (lift_check (check_capabilities b r ctx)) (\<lambda>_.
     seq (bd_enforce b r ctx) (\<lambda>result.
     seq (lift_check (validate_result result)) (\<lambda>_.
     ret result)))))"

end
