(* ===== verification/PythonGate.thy ===== *)
theory PythonGate
  imports PythonMutation EnforceDispatch
begin

text \<open>
  The Python binding of the enforcement contract, \<open>uta_py_enforce/api.py\<close> with the targets
  of \<open>targets.py\<close>, and the command line tool around it, \<open>cli.py\<close>. Git, the
  tokenizer, the syntax check, the choice of candidate tests and the dependency overlay are
  parameters.
\<close>

section \<open>Ports\<close>

record python_runtime =
  py_bin :: str
  py_mutmut :: str
  py_is_python2 :: bool
  py_profile :: str

record 'w gate_ports = "'w mutation_ports" +
  gp_runtime :: "str \<Rightarrow> str option \<Rightarrow> ('w lane, str, python_runtime) prog"
  gp_changed_paths :: "str \<Rightarrow> str \<Rightarrow> ('w lane, str, str list) prog"
  gp_changed_lines :: "str \<Rightarrow> str \<Rightarrow> str list \<Rightarrow> ('w lane, str, (str \<times> int list) list) prog"
  gp_production :: "str \<Rightarrow> bool"
  gp_syntax_error :: "str \<Rightarrow> str list \<Rightarrow> ('w lane, str, (str \<times> str) option) prog"
  gp_executable_lines :: "str \<Rightarrow> str \<Rightarrow> ('w lane, str, int set option) prog"
  gp_candidates :: "str \<Rightarrow> str \<Rightarrow> str list \<Rightarrow> ('w lane, str, str list) prog"
  gp_overlay :: "str \<Rightarrow> str \<Rightarrow> str \<Rightarrow> str \<Rightarrow> int \<Rightarrow> ('w, pydict option \<times> bool \<times> str option) lane_prog"
  gp_overlay_env :: "str option \<Rightarrow> env"
  gp_digest :: "pydict \<Rightarrow> str"
  gp_fixed2 :: "rat \<Rightarrow> str"

section \<open>Targets\<close>

definition target_for :: "str \<Rightarrow> enforcement_target" where
  "target_for path = \<lparr>et_language = ''python'', et_id = ''pyfile:'' @ path, et_source = path,
     et_tests = [], et_display = path, et_granularity = ''file'', et_metadata = []\<rparr>"

definition resolve_enforcement_targets ::
  "('w, 'm) gate_ports_scheme \<Rightarrow> str \<Rightarrow> enforcement_target list \<Rightarrow> str \<Rightarrow> ('w, enforcement_target list) lane_prog" where
  "resolve_enforcement_targets p repo targets base_ref =
     (if targets \<noteq> [] then ret targets
      else seq (on_lane (gp_changed_paths p repo base_ref)) (\<lambda>paths.
        ret (map target_for (filter (gp_production p) paths))))"

text \<open>No changed line has a token that is executed; a file that cannot be read counts as executable.\<close>

definition only_non_executable ::
  "('w, 'm) gate_ports_scheme \<Rightarrow> str \<Rightarrow> str \<Rightarrow> int list \<Rightarrow> ('w, bool) lane_prog" where
  "only_non_executable p repo source changed =
     (if source = [] \<or> changed = [] then ret False
      else seq (on_lane (gp_executable_lines p repo source)) (\<lambda>lines.
        ret (case lines of None \<Rightarrow> False | Some ls \<Rightarrow> set changed \<inter> ls = {})))"

definition non_executable_target_evidence :: "str \<Rightarrow> int list \<Rightarrow> rat \<Rightarrow> rat \<Rightarrow> pydict" where
  "non_executable_target_evidence source changed cov_gate mut_gate =
     (let scoped = scoped_lines source (sort changed) in
      [(''status'', PStr ''passed''), (''reasonCode'', PStr ''no_executable_changed_lines''),
       (''testsPass'', PBool True),
       (''coverage'', PDict [(''covered'', PInt 0), (''total'', PInt 0), (''rate'', PFloat 100),
          (''gate'', PFloat cov_gate), (''passed'', PBool True), (''scope'', PStr ''changed_lines''),
          (''changedLines'', scoped), (''noExecutableChangedLines'', PBool True)]),
       (''mutation'', PDict [(''runtimeLane'', PStr ''not_run''), (''generated'', PInt 0),
          (''killed'', PInt 0), (''survived'', PInt 0), (''noCoverage'', PInt 0), (''rate'', PFloat 100),
          (''gate'', PFloat mut_gate), (''passed'', PBool True), (''scope'', PStr ''changed_lines''),
          (''changedLines'', scoped)]),
       (''artifacts'', PDict []),
       (''message'', PStr ''Python enforcement passed; changed target lines are comments or whitespace'')])"

definition missing_test_evidence :: "str \<Rightarrow> int list \<Rightarrow> rat \<Rightarrow> rat \<Rightarrow> pydict" where
  "missing_test_evidence source changed cov_gate mut_gate =
     [(''status'', PStr ''failed''), (''reasonCode'', PStr ''missing_test_file''),
      (''message'', PStr (''No unit test file found targeting '' @ source)),
      (''coverage'', PDict [(''covered'', PInt 0), (''total'', len changed), (''rate'', PFloat 0),
         (''gate'', PFloat cov_gate), (''passed'', PBool False), (''scope'', PStr ''changed_lines''),
         (''changedLines'', scoped_lines source changed)]),
      (''mutation'', PDict [(''runtimeLane'', PStr ''not_run''), (''generated'', PInt 0),
         (''killed'', PInt 0), (''survived'', PInt 0), (''rate'', PFloat 0), (''gate'', PFloat mut_gate),
         (''passed'', PBool False), (''scope'', PStr ''changed_lines''),
         (''changedLines'', scoped_lines source changed)]),
      (''artifacts'', PDict [])]"

section \<open>One candidate test\<close>

record gate_setting =
  gs_repo :: str
  gs_runtime :: python_runtime
  gs_changed :: "(str \<times> int list) list"
  gs_cov_gate :: rat
  gs_mut_gate :: rat
  gs_mutation_requested :: bool
  gs_timeout :: int
  gs_syntax :: str
  gs_overlay :: bool

definition passed_in :: "pydict \<Rightarrow> bool" where
  "passed_in d = truthy (get d ''passed'')"

text \<open>\<open>summary.get("testsPass", True)\<close>.\<close>

definition tests_pass_in :: "pydict \<Rightarrow> bool" where
  "tests_pass_in d = truthy (get_or d ''testsPass'' (PBool True))"

definition percent :: "('w, 'm) gate_ports_scheme \<Rightarrow> rat \<Rightarrow> str" where
  "percent p q = gp_fixed2 p q @ ''%''"

definition rate_in :: "pydict \<Rightarrow> rat" where
  "rate_in d = (case float_or_zero d ''rate'' of None \<Rightarrow> 0 | Some q \<Rightarrow> q)"

definition number_in :: "pydict \<Rightarrow> str \<Rightarrow> str" where
  "number_in d key = int_str (case int_or_zero d key of None \<Rightarrow> 0 | Some n \<Rightarrow> n)"

definition failure_message ::
  "('w, 'm) gate_ports_scheme \<Rightarrow> gate_setting \<Rightarrow> pydict \<Rightarrow> pydict \<Rightarrow> str" where
  "failure_message p g cov mut =
     (let reason = text_in (mp_shown p) mut ''reasonCode'' [] in
      if \<not> tests_pass_in cov then ''Python tests failed''
      else if \<not> passed_in cov then ''Python coverage '' @ percent p (rate_in cov) @ '' is below gate ''
        @ percent p (gs_cov_gate g)
      else if reason = ''mutation_test_collection_failed'' then
        ''Python mutation test collection failed in the isolated mutmut workspace''
      else if reason = ''mutation_backend_failed'' then
        ''Python mutation backend failed before executing '' @ number_in mut ''notChecked'' @ '' selected mutants''
      else if reason = ''mutation_no_tests'' then
        ''Python mutation found no tests for '' @ number_in mut ''noTests'' @ '' selected mutants''
      else ''Python mutation score '' @ percent p (rate_in mut) @ '' is below gate '' @ percent p (gs_mut_gate g))"

definition candidate_reason :: "(pyval \<Rightarrow> str) \<Rightarrow> pydict \<Rightarrow> pydict \<Rightarrow> str" where
  "candidate_reason shown cov mut =
     (if passed_in cov \<and> passed_in mut then ''passed''
      else if \<not> tests_pass_in cov then ''test_failed''
      else if \<not> passed_in cov then text_in shown cov ''reasonCode'' ''coverage_failed''
      else text_in shown mut ''reasonCode'' ''mutation_failed'')"

definition candidate_evidence ::
  "('w, 'm) gate_ports_scheme \<Rightarrow> gate_setting \<Rightarrow> str \<Rightarrow> pydict option \<Rightarrow> pydict \<Rightarrow> pydict \<Rightarrow> pydict list \<Rightarrow> pydict" where
  "candidate_evidence p g test overlay cov mut cmds =
     (let ok = (passed_in cov \<and> passed_in mut);
          overlay_failed = (case overlay of None \<Rightarrow> False | Some d \<Rightarrow> d \<noteq> [] \<and> exit_code d \<noteq> 0);
          artifacts = dict_update (dict_update [] (as_dict (get cov ''artifacts'')))
            (as_dict (get mut ''artifacts'')) in
      [(''status'', PStr (if ok then ''passed'' else ''failed'')),
       (''reasonCode'', PStr (candidate_reason (mp_shown p) cov mut)),
       (''message'', PStr (if ok then [] else failure_message p g cov mut)),
       (''testsPass'', PBool (tests_pass_in cov)), (''coverage'', PDict cov), (''mutation'', PDict mut),
       (''selectedTest'', PStr test), (''commands'', PList (map PDict cmds)),
       (''artifacts'', PDict (if overlay_failed
          then dict_set ''dependency_overlay'' (PStr ''install_failed'') artifacts else artifacts))])"

definition candidate_entry :: "str \<Rightarrow> pydict \<Rightarrow> pyval" where
  "candidate_entry test ev = PDict ((''testPaths'', texts [test])
     # map (\<lambda>k. (k, get ev k)) [''status'', ''reasonCode'', ''testsPass'', ''message'', ''coverage'', ''mutation''])"

text \<open>Mutation runs only on a target whose tests pass and whose coverage meets the gate.\<close>

definition mutation_stage ::
  "('w, 'm) gate_ports_scheme \<Rightarrow> gate_setting \<Rightarrow> 'w sampling option \<Rightarrow> str \<Rightarrow> str \<Rightarrow> env \<Rightarrow> pydict \<Rightarrow> ('w, pydict) lane_prog" where
  "mutation_stage p g sampling source test e cov =
     (if passed_in cov \<and> tests_pass_in cov \<and> gs_mutation_requested g then
        run_mutation (mutation_ports.truncate p)
          \<lparr>mj_repo = gs_repo g, mj_source = source, mj_test = test, mj_changed = gs_changed g,
           mj_gate = gs_mut_gate g, mj_mutmut = py_mutmut (gs_runtime g), mj_timeout = gs_timeout g,
           mj_python = py_bin (gs_runtime g), mj_syntax = gs_syntax g, mj_sampling = sampling, mj_env = e\<rparr>
      else if passed_in cov \<and> tests_pass_in cov then
        ret (dict_set ''reasonCode'' (PStr ''mutation_not_requested'') (empty_mutation (gs_mut_gate g) True))
      else ret (dict_set ''reasonCode'' (PStr ''coverage_not_passed'') (empty_mutation (gs_mut_gate g) False)))"

text \<open>The overlay also says whether its record is the very object that ends the command list.\<close>

definition overlay_stage ::
  "('w, 'm) gate_ports_scheme \<Rightarrow> gate_setting \<Rightarrow> str \<Rightarrow> str \<Rightarrow> ('w, pydict option \<times> env) lane_prog" where
  "overlay_stage p g source test =
     (if \<not> gs_overlay g then ret (None, [])
      else seq (gp_overlay p (gs_repo g) source test (py_bin (gs_runtime g)) (gs_timeout g)) (\<lambda>(dep, last_one, dir).
        andthen (modifies (\<lambda>s. case dep of None \<Rightarrow> s
          | Some d \<Rightarrow> if d \<noteq> [] \<and> (ru_commands s = [] \<or> \<not> last_one)
              then s\<lparr>ru_commands := ru_commands s @ [d]\<rparr> else s))
        (ret (dep, gp_overlay_env p dir))))"

definition run_candidate ::
  "('w, 'm) gate_ports_scheme \<Rightarrow> gate_setting \<Rightarrow> 'w sampling option \<Rightarrow> str \<Rightarrow> str \<Rightarrow> ('w, pydict) lane_prog" where
  "run_candidate p g sampling source test =
     seq (reads (\<lambda>s. length (ru_commands s))) (\<lambda>start.
     seq (overlay_stage p g source test) (\<lambda>(dep, e).
     seq (run_coverage (lane_ports.truncate p) (gs_repo g) source test (gs_changed g) (gs_cov_gate g)
       (py_bin (gs_runtime g)) (gs_timeout g) e) (\<lambda>cov.
     seq (mutation_stage p g sampling source test e cov) (\<lambda>mut.
     seq (reads (\<lambda>s. drop start (ru_commands s))) (\<lambda>cmds.
     ret (candidate_evidence p g test dep cov mut cmds))))))"

section \<open>One target\<close>

definition is_passed :: "pydict \<Rightarrow> bool" where
  "is_passed ev = (get ev ''status'' = PStr ''passed'')"

text \<open>The candidates are tried until one passes: the evidence of each that was tried.\<close>

fun try_candidates ::
  "('w, 'm) gate_ports_scheme \<Rightarrow> gate_setting \<Rightarrow> 'w sampling option \<Rightarrow> str \<Rightarrow> str list \<Rightarrow> ('w, (str \<times> pydict) list) lane_prog" where
  "try_candidates p g sampling source [] = ret []"
| "try_candidates p g sampling source (test # tests) =
     seq (run_candidate p g sampling source test) (\<lambda>ev.
     if is_passed ev then ret [(test, ev)]
     else seq (try_candidates p g sampling source tests) (\<lambda>rest. ret ((test, ev) # rest)))"

text \<open>The passing candidate, else the first one.\<close>

definition chosen :: "(str \<times> pydict) list \<Rightarrow> pydict" where
  "chosen tried = (if is_passed (snd (last tried)) then snd (last tried) else snd (hd tried))"

definition chosen_evidence :: "str list \<Rightarrow> (str \<times> pydict) list \<Rightarrow> pydict" where
  "chosen_evidence tests tried = dict_update (chosen tried)
     [(''candidateResults'', PList (map (\<lambda>(t, ev). candidate_entry t ev) tried)),
      (''candidateTestPaths'', texts tests)]"

definition target_outcome :: "enforcement_target \<Rightarrow> pydict \<Rightarrow> target_enforcement" where
  "target_outcome t ev = \<lparr>te_target = t, te_status = (if is_passed ev then Passed else Failed),
     te_evidence = ev\<rparr>"

definition enforce_target ::
  "('w, 'm) gate_ports_scheme \<Rightarrow> gate_setting \<Rightarrow> 'w sampling option \<Rightarrow> str list \<Rightarrow> enforcement_target
    \<Rightarrow> ('w, target_enforcement) lane_prog" where
  "enforce_target p g sampling request_tests t =
     (let source = et_source t; changed = lines_of (gs_changed g) source in
      seq (only_non_executable p (gs_repo g) source changed) (\<lambda>shortcut.
      if shortcut then ret (target_outcome t
        (non_executable_target_evidence source changed (gs_cov_gate g) (gs_mut_gate g)))
      else
      seq (on_lane (gp_candidates p (gs_repo g) source
        (if et_tests t \<noteq> [] then et_tests t else request_tests))) (\<lambda>tests.
      if tests = [] then ret (target_outcome t
        (missing_test_evidence source changed (gs_cov_gate g) (gs_mut_gate g)))
      else
      seq (try_candidates p g sampling source tests) (\<lambda>tried.
      ret (target_outcome t (chosen_evidence tests tried))))))"

fun enforce_targets ::
  "('w, 'm) gate_ports_scheme \<Rightarrow> gate_setting \<Rightarrow> 'w sampling option \<Rightarrow> str list \<Rightarrow> enforcement_target list
    \<Rightarrow> ('w, target_enforcement list) lane_prog" where
  "enforce_targets p g sampling request_tests [] = ret []"
| "enforce_targets p g sampling request_tests (t # ts) =
     seq (enforce_target p g sampling request_tests t) (\<lambda>r.
     seq (enforce_targets p g sampling request_tests ts) (\<lambda>rs. ret (r # rs)))"

section \<open>The binding\<close>

text \<open>\<open>int((t.get(part) or {}).get(key) or 0)\<close> of the evidence that the code above builds.\<close>

definition part_sum :: "str \<Rightarrow> str \<Rightarrow> pydict list \<Rightarrow> int" where
  "part_sum part key evs = sum_list (map (\<lambda>ev.
     case int_or_zero (as_dict (get ev part)) key of None \<Rightarrow> 0 | Some n \<Rightarrow> n) evs)"

definition collected_artifacts :: "pydict list \<Rightarrow> pydict" where
  "collected_artifacts evs = foldl (\<lambda>acc (key, value). dict_set key
       (PList (as_list (get acc key) @ [value])) acc) []
     (concat (map (\<lambda>ev. as_dict (get ev ''artifacts'')) evs))"

definition coverage_rollup :: "pydict list \<Rightarrow> rat \<Rightarrow> pydict" where
  "coverage_rollup evs gate =
     (let covered = part_sum ''coverage'' ''covered'' evs; counted = part_sum ''coverage'' ''total'' evs;
          rate = percentage covered counted in
      [(''covered'', PInt covered), (''total'', PInt counted), (''rate'', PFloat rate),
       (''gate'', PFloat gate), (''passed'', PBool (gate \<le> rate)), (''scope'', PStr ''changed_lines'')])"

definition mutation_rollup :: "pydict list \<Rightarrow> rat \<Rightarrow> pydict" where
  "mutation_rollup evs gate =
     (let killed = part_sum ''mutation'' ''killed'' evs; survived = part_sum ''mutation'' ''survived'' evs;
          rate = percentage killed (killed + survived) in
      [(''generated'', PInt (part_sum ''mutation'' ''generated'' evs)), (''killed'', PInt killed),
       (''survived'', PInt survived), (''rate'', PFloat rate), (''gate'', PFloat gate),
       (''passed'', PBool (gate \<le> rate)), (''scope'', PStr ''changed_lines'')])"

definition envelope :: "str \<Rightarrow> str \<Rightarrow> pydict" where
  "envelope status reason = [(''schemaVersion'', PInt 1), (''backend'', PStr ''python_enforcer''),
     (''status'', PStr status), (''reasonCode'', PStr reason)]"

definition without_targets :: "('w, 'm) gate_ports_scheme \<Rightarrow> str \<Rightarrow> str \<Rightarrow> str \<Rightarrow> str \<Rightarrow> enforcement_result" where
  "without_targets p status reason message profile = \<lparr>ef_status = status,
     ef_evidence = PDict (finalize (gp_digest p) (envelope status reason
       @ [(''message'', PStr message), (''environmentProfile'', PStr profile), (''commands'', PList [])])),
     ef_targets = []\<rparr>"

definition overall_result ::
  "('w, 'm) gate_ports_scheme \<Rightarrow> gate_setting \<Rightarrow> target_enforcement list \<Rightarrow> pydict list \<Rightarrow> enforcement_result" where
  "overall_result p g results cmds =
     (let ok = (\<forall>r \<in> set results. te_status r = Passed); evs = map te_evidence results;
          status = (if ok then ''passed'' else ''failed'') in
      \<lparr>ef_status = status,
       ef_evidence = PDict (finalize (gp_digest p)
         (envelope status (if ok then ''passed'' else ''quality_gate_failed'')
          @ [(''coverage'', PDict (coverage_rollup evs (gs_cov_gate g))),
             (''mutation'', PDict (mutation_rollup evs (gs_mut_gate g))),
             (''targets'', PList (map PDict evs)), (''artifacts'', PDict (collected_artifacts evs)),
             (''commands'', PList (map PDict cmds)),
             (''environmentProfile'', PStr (py_profile (gs_runtime g)))])),
       ef_targets = results\<rparr>)"

definition gate_of :: "rat option \<Rightarrow> rat" where
  "gate_of g = (case g of None \<Rightarrow> 0 | Some q \<Rightarrow> q * 100)"

definition syntax_of :: "enforcement_request \<Rightarrow> str" where
  "syntax_of r = (case rn_syntax (er_runtime r) of Some (c # cs) \<Rightarrow> c # cs | _ \<Rightarrow> ''python3'')"

definition setting_of ::
  "enforcement_request \<Rightarrow> python_runtime \<Rightarrow> (str \<times> int list) list \<Rightarrow> gate_setting" where
  "setting_of r runtime changed =
     \<lparr>gs_repo = er_repo r, gs_runtime = runtime, gs_changed = changed,
      gs_cov_gate = gate_of (qg_coverage (er_gates r)), gs_mut_gate = gate_of (qg_mutation (er_gates r)),
      gs_mutation_requested = (qg_mutation (er_gates r) \<noteq> None), gs_timeout = rn_timeout (er_runtime r),
      gs_syntax = syntax_of r,
      gs_overlay = rn_overlay (er_runtime r)\<rparr>"

definition sources_of :: "enforcement_target list \<Rightarrow> str list" where
  "sources_of ts = filter (\<lambda>s. s \<noteq> []) (map et_source ts)"

text \<open>A run of the binding starts with an empty command list.\<close>

definition python_lane_run ::
  "('w, 'm) gate_ports_scheme \<Rightarrow> enforcement_request \<Rightarrow> 'w sampling option \<Rightarrow> ('w, enforcement_result) lane_prog" where
  "python_lane_run p r sampling =
     (let repo = er_repo r in
      seq (on_lane (gp_runtime p (syntax_of r) (rn_python (er_runtime r)))) (\<lambda>runtime.
      seq (resolve_enforcement_targets p repo (er_targets r) (er_base_ref r)) (\<lambda>targets.
      if targets = [] then ret (without_targets p ''passed'' ''no_targets''
        ''No matching production Python targets found'' (py_profile runtime))
      else
      seq (on_lane (gp_changed_lines p repo (er_base_ref r) (sources_of targets))) (\<lambda>changed.
      seq (if py_is_python2 runtime then ret None
           else on_lane (gp_syntax_error p repo (sources_of targets))) (\<lambda>bad. (case bad of
        Some (file, err) \<Rightarrow> ret (without_targets p ''error'' ''syntax_error''
          (''Syntax error in '' @ file @ '': '' @ err) (py_profile runtime))
      | None \<Rightarrow>
          (let g = setting_of r runtime changed in
           seq (enforce_targets p g sampling (er_tests r) targets) (\<lambda>results.
           seq (reads ru_commands) (\<lambda>cmds. ret (overall_result p g results cmds))))))))))"

definition python_capabilities :: capabilities where
  "python_capabilities = \<lparr>cb_language = ''python'', cb_coverage = True, cb_mutation = True,
     cb_versions = [''python3'', ''python2''], cb_sampling = True\<rparr>"

definition python_enforce ::
  "('w, 'm) gate_ports_scheme \<Rightarrow> enforcement_request \<Rightarrow> 'w sampling invocation_context
    \<Rightarrow> ('w lane, enforce_error, enforcement_result) prog" where
  "python_enforce p r ctx l =
     (case python_lane_run p r (ic_sampling ctx) \<lparr>ru_lane = l, ru_commands = []\<rparr> of
        (Inl e, s) \<Rightarrow> (Inl (BindingRaised e), ru_lane s)
      | (Inr result, s) \<Rightarrow> (Inr result, ru_lane s))"

definition python_binding :: "('w, 'm) gate_ports_scheme \<Rightarrow> ('w lane, 'w sampling) binding" where
  "python_binding p = \<lparr>bd_language = PStr ''python'', bd_capabilities = Some python_capabilities,
     bd_enforce = python_enforce p\<rparr>"

end
