(* ===== verification/DispatchFacts.thy ===== *)
theory DispatchFacts
  imports EnforceDispatch DictFacts
begin

text \<open>
  What the dispatch of an enforcement guarantees: which requests it lets through, that the
  binding runs once and for no other request, what a registry finds, and the contract of a
  binding as a locale.
\<close>

section \<open>Requests and results\<close>

definition path_ok :: "path_ports \<Rightarrow> str \<Rightarrow> str \<Rightarrow> bool" where
  "path_ok pp repo path \<longleftrightarrow> strip path \<noteq> []
     \<and> under (pt_resolve pp repo)
         (pt_resolve pp (if is_absolute (strip path) then strip path else repo @ ''/'' @ strip path))"

definition gate_ok :: "rat option \<Rightarrow> bool" where
  "gate_ok g \<longleftrightarrow> (case g of None \<Rightarrow> True | Some q \<Rightarrow> 0 \<le> q \<and> q \<le> 1)"

definition target_ok :: "path_ports \<Rightarrow> str \<Rightarrow> enforcement_target \<Rightarrow> bool" where
  "target_ok pp repo t \<longleftrightarrow> strip (et_id t) \<noteq> [] \<and> path_ok pp repo (et_source t)
     \<and> length (et_tests t) \<le> 5 \<and> (\<forall>q \<in> set (et_tests t). path_ok pp repo q)"

definition request_ok :: "path_ports \<Rightarrow> enforcement_request \<Rightarrow> bool" where
  "request_ok pp r \<longleftrightarrow>
     (let repo = repo_path_of (er_repo r) in
      pt_exists pp (pt_resolve pp repo) \<and> pt_is_dir pp (pt_resolve pp repo)
      \<and> strip (er_language r) \<noteq> [] \<and> strip (er_base_ref r) \<noteq> [] \<and> length (er_targets r) \<le> 200
      \<and> (\<forall>t \<in> set (er_targets r). target_ok pp repo t)
      \<and> (\<forall>q \<in> set (er_tests r). path_ok pp repo q)
      \<and> gate_ok (qg_coverage (er_gates r)) \<and> gate_ok (qg_mutation (er_gates r))
      \<and> 0 < rn_timeout (er_runtime r) \<and> rn_timeout (er_runtime r) \<le> 7200
      \<and> 0 < rn_total_timeout (er_runtime r) \<and> rn_total_timeout (er_runtime r) \<le> 7200)"

definition result_ok :: "enforcement_result \<Rightarrow> bool" where
  "result_ok res \<longleftrightarrow> (\<exists>st. ef_status res = status_value st)
     \<and> (\<exists>d. ef_evidence res = PDict d \<and> (d = [] \<or> has_key d ''backend'' \<or> has_key d ''schemaVersion''
          \<or> has_key d ''status''))"

lemma validate_path_Inr [simp]: "validate_relative_path pp repo path = Inr u \<longleftrightarrow> path_ok pp repo path"
  by (auto simp: validate_relative_path_def path_ok_def Let_def res_simps)

lemma validate_gate_Inr [simp]: "validate_gate g = Inr u \<longleftrightarrow> gate_ok g"
  by (auto simp: validate_gate_def gate_ok_def res_simps split: option.splits)

lemma validate_target_Inr: "validate_target pp repo x = Inr u \<longleftrightarrow> target_ok pp repo (snd x)"
  by (auto simp: validate_target_def res_simps max_test_paths_def path_ok_def target_ok_def split: prod.splits)

lemma all_enumerate: "(\<forall>x \<in> set (enumerate n xs). P (snd x)) \<longleftrightarrow> (\<forall>x \<in> set xs. P x)"
  by (induction xs arbitrary: n) auto

lemma validate_request_Inr: "validate_request pp r = Inr u \<longleftrightarrow> request_ok pp r"
  by (simp add: validate_request_def request_ok_def Let_def res_simps validate_quality_gates_def
      validate_runtime_def max_targets_def max_command_timeout_def max_total_timeout_def
      validate_target_Inr all_enumerate)

lemma status_of_iff: "(\<exists>y. status_of s = Some y) \<longleftrightarrow> (\<exists>st. s = status_value st)"
proof -
  have "(\<exists>st. s = status_value st) \<longleftrightarrow> s = ''passed'' \<or> s = ''failed'' \<or> s = ''error'' \<or> s = ''unsupported''"
    by (metis status_value.simps enforcement_status.exhaust)
  then show ?thesis by (auto simp: status_of_def)
qed

lemma validate_result_Inr: "validate_result res = Inr u \<longleftrightarrow> result_ok res"
  by (cases "ef_evidence res") (auto simp: validate_result_def result_ok_def res_simps status_of_iff)

lemma lift_check_run [res_simps]:
  "lift_check c s = (Inr x, s') \<longleftrightarrow> c = Inr x \<and> s' = s"
  "lift_check c s = (Inl e, s') \<longleftrightarrow> c = Inl e \<and> s' = s"
  by (auto simp: lift_check_def res_simps split: sum.splits)

definition capable :: "('w, 'p) binding \<Rightarrow> enforcement_request \<Rightarrow> 'p invocation_context \<Rightarrow> bool" where
  "capable b r ctx \<longleftrightarrow> (\<forall>c. bd_capabilities b = Some c \<longrightarrow> (ic_sampling ctx \<noteq> None \<longrightarrow> cb_sampling c)
     \<and> (qg_mutation (er_gates r) \<noteq> None \<longrightarrow> cb_mutation c)
     \<and> (qg_coverage (er_gates r) \<noteq> None \<longrightarrow> cb_coverage c))"

lemma check_capabilities_Inr: "check_capabilities b r ctx = Inr u \<longleftrightarrow> capable b r ctx"
  by (auto simp: check_capabilities_def capable_def res_simps split: option.splits)

section \<open>Dispatch\<close>

lemma enforce_returns:
  "enforce pp registry ctx r w = (Inr res, w') \<longleftrightarrow> request_ok pp r
     \<and> (\<exists>b. registry_get registry (er_language r) = Inr b \<and> capable b r ctx
          \<and> bd_enforce b r ctx w = (Inr res, w')) \<and> result_ok res"
  by (auto simp: enforce_def res_simps validate_request_Inr validate_result_Inr check_capabilities_Inr)

lemma enforce_refuses:
  assumes "enforce pp registry ctx r w = (Inl e, w')"
  shows "w' = w \<or> (\<exists>b. registry_get registry (er_language r) = Inr b \<and> request_ok pp r \<and> capable b r ctx
     \<and> w' = snd (bd_enforce b r ctx w))"
  using assms
  by (auto simp: enforce_def res_simps validate_request_Inr validate_result_Inr check_capabilities_Inr)

section \<open>The registry\<close>

definition name_of :: "('w, 'p) binding \<Rightarrow> str" where
  "name_of b = (case bd_language b of PStr raw \<Rightarrow> normalize_language raw | _ \<Rightarrow> [])"

lemma normalize_empty [simp]: "normalize_language raw = [] \<longleftrightarrow> strip raw = []"
  by (simp add: normalize_language_def lower_def)

lemma register_Inr:
  "register table b = Inr t \<longleftrightarrow> name_of b \<noteq> [] \<and> name_of b \<notin> set (map fst table)
     \<and> t = table @ [(name_of b, b)]"
  by (cases "bd_language b") (auto simp: register_def name_of_def split: if_split_asm)

lemma register_all_Inr:
  "register_all table bs = Inr r \<Longrightarrow> distinct (map fst table) \<Longrightarrow>
     r = table @ map (\<lambda>b. (name_of b, b)) bs \<and> distinct (map fst r) \<and> (\<forall>b \<in> set bs. name_of b \<noteq> [])"
proof (induction bs arbitrary: table)
  case Nil
  then show ?case by simp
next
  case (Cons b bs)
  then obtain t where t: "register table b = Inr t" "register_all t bs = Inr r"
    by (auto simp: res_simps)
  from t(1) have step: "name_of b \<noteq> []" "name_of b \<notin> set (map fst table)" "t = table @ [(name_of b, b)]"
    unfolding register_Inr by blast+
  then have "distinct (map fst t)" using Cons.prems(2) by simp
  note rest = Cons.IH [OF t(2) this]
  then have "r = table @ map (\<lambda>b. (name_of b, b)) (b # bs)" unfolding step(3) by simp
  moreover have "\<forall>x \<in> set (b # bs). name_of x \<noteq> []" using rest step(1) by simp
  ultimately show ?case using rest by blast
qed

lemma make_registry_Inr:
  assumes "make_registry bs = Inr r"
  shows "r = map (\<lambda>b. (name_of b, b)) bs" "distinct (map name_of bs)" "\<forall>b \<in> set bs. name_of b \<noteq> []"
  using register_all_Inr [of "[]" bs r] assms by (auto simp: make_registry_def o_def)

lemma registry_get_iff:
  assumes "make_registry bs = Inr r"
  shows "registry_get r language = Inr b \<longleftrightarrow> b \<in> set bs \<and> name_of b = normalize_language language"
proof -
  note m = make_registry_Inr [OF assms]
  have found: "map_of r name = Some b \<longleftrightarrow> b \<in> set bs \<and> name_of b = name" for name
    unfolding m(1) using m(2)
    by (subst map_of_eq_Some_iff) (auto simp: o_def)
  show ?thesis
  proof (cases "normalize_language language = []")
    case True
    then show ?thesis using m(3) by (auto simp: registry_get_def)
  next
    case False
    then show ?thesis unfolding found [symmetric]
      by (simp add: registry_get_def split: option.split)
  qed
qed

section \<open>The contract of a binding\<close>

text \<open>
  A binding with a name of its own whose results are well formed and whose passing results
  carry what \<open>cert\<close> says.
\<close>

locale sound_binding =
  fixes b :: "('w, 'p) binding" and name :: str
    and cert :: "enforcement_request \<Rightarrow> enforcement_result \<Rightarrow> bool"
  assumes named: "name_of b = name"
    and well_formed: "bd_enforce b r ctx w = (Inr res, w') \<Longrightarrow> result_ok res"
    and certifies: "bd_enforce b r ctx w = (Inr res, w') \<Longrightarrow> ef_status res = ''passed'' \<Longrightarrow> cert r res"
begin

lemma found:
  "make_registry bs = Inr registry \<Longrightarrow> b \<in> set bs \<Longrightarrow> normalize_language (er_language r) = name
    \<Longrightarrow> registry_get registry (er_language r) = Inr b"
  using registry_get_iff named by blast

lemma dispatch_certifies:
  assumes "make_registry bs = Inr registry" "b \<in> set bs" "normalize_language (er_language r) = name"
    and "enforce pp registry ctx r w = (Inr res, w')" "ef_status res = ''passed''"
  shows "request_ok pp r \<and> cert r res"
  using assms(4,5) certifies found [OF assms(1-3)] by (auto simp: enforce_returns)

lemma dispatch_returns:
  assumes "make_registry bs = Inr registry" "b \<in> set bs" "normalize_language (er_language r) = name"
    and "request_ok pp r" "capable b r ctx" "bd_enforce b r ctx w = (Inr res, w')"
  shows "enforce pp registry ctx r w = (Inr res, w')"
  using assms(4-) well_formed found [OF assms(1-3)] by (auto simp: enforce_returns)

end

end
