(* ===== verification/PythonGateFacts.thy ===== *)
theory PythonGateFacts
  imports PythonGate DispatchFacts
begin

text \<open>
  What a passing verdict of the Python enforcement rests on, down to the counts of covered
  lines and killed mutants, that the settings of the repository survive a mutation run, and how
  the totals of several targets relate.
\<close>

section \<open>Coverage\<close>

text \<open>What a coverage or a mutation summary promises when it says that it passed.\<close>

definition coverage_meets :: "rat \<Rightarrow> pydict \<Rightarrow> bool" where
  "coverage_meets gate cov \<longleftrightarrow> tests_pass_in cov
     \<and> (\<exists>covered counted. get cov ''covered'' = PInt covered \<and> get cov ''total'' = PInt counted
          \<and> (counted = 0 \<or> gate \<le> percentage covered counted))"

definition mutation_meets :: "rat \<Rightarrow> pydict \<Rightarrow> bool" where
  "mutation_meets gate mut \<longleftrightarrow> get mut ''generated'' = PInt 0
     \<or> (\<exists>killed survived timeout suspicious. get mut ''killed'' = PInt killed
          \<and> get mut ''survived'' = PInt survived \<and> get mut ''timeout'' = PInt timeout
          \<and> get mut ''suspicious'' = PInt suspicious
          \<and> gate \<le> percentage killed (killed + survived + timeout + suspicious))"

lemma on_lane_run: "on_lane m s = (r, s') \<longleftrightarrow> (\<exists>l. m (ru_lane s) = (r, l) \<and> s' = s\<lparr>ru_lane := l\<rparr>)"
  by (auto simp: on_lane_def split: prod.splits)

lemma raised_run: "raised x e s = (Inr y, s') \<longleftrightarrow> x = Some y \<and> s' = s"
  by (cases x) (auto simp: raised_def res_simps)

lemmas lane_runs = res_simps on_lane_run raised_run

lemma coverage_summary_gets [simp]:
  "get (coverage_summary source covered n gate ok xml lines nx tests) ''covered'' = PInt covered"
  "get (coverage_summary source covered n gate ok xml lines nx tests) ''total'' = PInt n"
  "get (coverage_summary source covered n gate ok xml lines nx tests) ''passed'' = PBool ok"
  "get (coverage_summary source covered n gate ok xml lines nx tests) ''testsPass'' = PBool tests"
  "has_key (coverage_summary source covered n gate ok xml lines nx tests) ''testsPass''"
  by (simp_all add: coverage_summary_def)

lemma parse_coverage_meets:
  assumes "parse_coverage classes xml source lines gate = Some cov" "passed_in cov"
  shows "coverage_meets gate cov"
  using assms
  by (auto simp: parse_coverage_def Let_def passed_in_def coverage_meets_def tests_pass_in_def get_or_def
      split: if_split_asm)

lemma run_coverage_meets:
  assumes "run_coverage p repo source test changed gate python timeout e s = (Inr cov, s')" "passed_in cov"
  shows "coverage_meets gate cov"
  using assms unfolding run_coverage_def Let_def
  by (auto simp: lane_runs passed_in_def split: if_split_asm option.splits
      intro: parse_coverage_meets [unfolded passed_in_def])

section \<open>Mutation\<close>

lemma mutation_verdict_meets:
  "passed_in (mutation_verdict syntax gate source changed artifacts r) \<Longrightarrow>
     mutation_meets gate (mutation_verdict syntax gate source changed artifacts r)"
  by (auto simp: mutation_verdict_def Let_def passed_in_def mutation_meets_def mutation_passed_def
      tally_rate_def tally_denominator_def)

lemma no_candidate_meets:
  "no_candidate_mutation shown source changed gate policy artifacts = Some mut \<Longrightarrow> mutation_meets gate mut"
  by (auto simp: no_candidate_mutation_def mutation_meets_def bind_eq_Some_conv)

lemma scored_mutation_meets:
  "scored_mutation p j policy s = (Inr mut, s') \<Longrightarrow> passed_in mut \<Longrightarrow> mutation_meets (mj_gate j) mut"
  by (auto simp: scored_mutation_def Let_def lane_runs intro: mutation_verdict_meets split: prod.splits)

lemma run_mutation_meets:
  "run_mutation p j s = (Inr mut, s') \<Longrightarrow> passed_in mut \<Longrightarrow> mutation_meets (mj_gate j) mut"
  by (auto simp: run_mutation_def Let_def lane_runs intro: scored_mutation_meets no_candidate_meets
      split: if_split_asm)


section \<open>Targets\<close>

text \<open>
  When a target may be called passed: its changed lines hold no executable token, or some test
  covers them to the gate and, if asked, kills their mutants to the gate.
\<close>

definition certified :: "('w, 'm) gate_ports_scheme \<Rightarrow> gate_setting \<Rightarrow> target_enforcement \<Rightarrow> bool" where
  "certified p g r \<longleftrightarrow>
     (let source = et_source (te_target r); changed = lines_of (gs_changed g) source in
      (changed \<noteq> [] \<and> (\<exists>l ls l'. gp_executable_lines p (gs_repo g) source l = (Inr (Some ls), l')
          \<and> set changed \<inter> ls = {}))
      \<or> (coverage_meets (gs_cov_gate g) (as_dict (get (te_evidence r) ''coverage''))
          \<and> (gs_mutation_requested g
             \<longrightarrow> mutation_meets (gs_mut_gate g) (as_dict (get (te_evidence r) ''mutation'')))))"

definition meets :: "gate_setting \<Rightarrow> pydict \<Rightarrow> bool" where
  "meets g ev \<longleftrightarrow> coverage_meets (gs_cov_gate g) (as_dict (get ev ''coverage''))
     \<and> (gs_mutation_requested g \<longrightarrow> mutation_meets (gs_mut_gate g) (as_dict (get ev ''mutation'')))"

lemma mutation_stage_meets:
  "mutation_stage p g sampling source test e cov s = (Inr mut, s') \<Longrightarrow> passed_in mut
    \<Longrightarrow> gs_mutation_requested g \<longrightarrow> mutation_meets (gs_mut_gate g) mut"
  by (auto simp: mutation_stage_def lane_runs empty_mutation_def passed_in_def
      dest!: run_mutation_meets [unfolded passed_in_def] split: if_split_asm)

lemma candidate_evidence_gets:
  "is_passed (candidate_evidence p g test dep cov mut cmds) \<longleftrightarrow> passed_in cov \<and> passed_in mut"
  "get (candidate_evidence p g test dep cov mut cmds) ''coverage'' = PDict cov"
  "get (candidate_evidence p g test dep cov mut cmds) ''mutation'' = PDict mut"
  by (simp_all add: candidate_evidence_def Let_def is_passed_def)

lemma run_candidate_meets:
  assumes "run_candidate p g sampling source test s = (Inr ev, s')" "is_passed ev"
  shows "meets g ev"
proof -
  from assms(1) obtain dep e cov mut cmds s1 s2 s3 where run:
    "run_coverage (lane_ports.truncate p) (gs_repo g) source test (gs_changed g) (gs_cov_gate g)
       (py_bin (gs_runtime g)) (gs_timeout g) e s1 = (Inr cov, s2)"
    "mutation_stage p g sampling source test e cov s2 = (Inr mut, s3)"
    "ev = candidate_evidence p g test dep cov mut cmds"
    unfolding run_candidate_def by (auto simp: res_simps split: prod.splits)
  with assms(2) have "passed_in cov" "passed_in mut" by (simp_all add: candidate_evidence_gets)
  with run show ?thesis
    using run_coverage_meets [OF run(1)] mutation_stage_meets [OF run(2)]
    by (simp add: meets_def candidate_evidence_gets)
qed

lemma try_candidates_meet:
  "try_candidates p g sampling source tests s = (Inr tried, s') \<Longrightarrow>
     (tests \<noteq> [] \<longrightarrow> tried \<noteq> []) \<and> (\<forall>(t, ev) \<in> set tried. is_passed ev \<longrightarrow> meets g ev)"
proof (induction tests arbitrary: tried s s')
  case Nil
  then show ?case by (simp add: res_simps)
next
  case (Cons test tests)
  then obtain ev s1 where ev: "run_candidate p g sampling source test s = (Inr ev, s1)"
    and rest: "tried = [(test, ev)] \<or> (\<exists>more s2. try_candidates p g sampling source tests s1 = (Inr more, s2)
      \<and> tried = (test, ev) # more)"
    by (auto simp: res_simps split: if_split_asm)
  have first: "is_passed ev \<longrightarrow> meets g ev" using run_candidate_meets [OF ev] by blast
  from rest show ?case
  proof
    assume "tried = [(test, ev)]"
    with first show ?thesis by simp
  next
    assume "\<exists>more s2. try_candidates p g sampling source tests s1 = (Inr more, s2) \<and> tried = (test, ev) # more"
    then obtain more s2 where more: "try_candidates p g sampling source tests s1 = (Inr more, s2)"
      "tried = (test, ev) # more" by blast
    with Cons.IH [OF more(1)] first show ?thesis by simp
  qed
qed

lemma chosen_evidence_gets:
  "is_passed (chosen_evidence tests tried) \<longleftrightarrow> is_passed (chosen tried)"
  "meets g (chosen_evidence tests tried) \<longleftrightarrow> meets g (chosen tried)"
  by (simp_all add: chosen_evidence_def is_passed_def meets_def get_dict_update)

lemma chosen_meets:
  assumes "\<forall>(t, ev) \<in> set tried. is_passed ev \<longrightarrow> meets g ev" "tried \<noteq> []" "is_passed (chosen tried)"
  shows "meets g (chosen tried)"
proof -
  have "last tried \<in> set tried" "hd tried \<in> set tried" using assms(2) by simp_all
  with assms(1,3) show ?thesis by (auto simp: chosen_def split: if_split_asm)
qed

lemma only_non_executable_True:
  assumes "only_non_executable p repo source changed s = (Inr True, s')"
  shows "changed \<noteq> [] \<and> (\<exists>l ls l'. gp_executable_lines p repo source l = (Inr (Some ls), l')
    \<and> set changed \<inter> ls = {})"
proof -
  have c: "changed \<noteq> []" using assms by (auto simp: only_non_executable_def res_simps)
  from assms obtain lines l where
    "gp_executable_lines p repo source (ru_lane s) = (Inr lines, l)"
    "(case lines of None \<Rightarrow> False | Some ls \<Rightarrow> set changed \<inter> ls = {})"
    unfolding only_non_executable_def by (simp add: lane_runs split: if_split_asm) blast
  with c show ?thesis by (cases lines) auto
qed

lemma enforce_target_certified:
  assumes "enforce_target p g sampling request_tests t s = (Inr r, s')" "te_status r = Passed"
  shows "certified p g r \<and> te_target r = t"
proof -
  let ?changed = "lines_of (gs_changed g) (et_source t)"
  from assms(1) obtain b s1 where shortcut:
      "only_non_executable p (gs_repo g) (et_source t) ?changed s = (Inr b, s1)"
    and rest: "(if b then ret (target_outcome t
        (non_executable_target_evidence (et_source t) ?changed (gs_cov_gate g) (gs_mut_gate g)))
      else seq (on_lane (gp_candidates p (gs_repo g) (et_source t)
        (if et_tests t \<noteq> [] then et_tests t else request_tests))) (\<lambda>tests.
      if tests = [] then ret (target_outcome t
        (missing_test_evidence (et_source t) ?changed (gs_cov_gate g) (gs_mut_gate g)))
      else seq (try_candidates p g sampling (et_source t) tests) (\<lambda>tried.
      ret (target_outcome t (chosen_evidence tests tried))))) s1 = (Inr r, s')"
    unfolding enforce_target_def Let_def seq_Inr by blast
  consider (shortcut) "b" "te_target r = t"
    | (missing) "r = target_outcome t (missing_test_evidence (et_source t) ?changed (gs_cov_gate g) (gs_mut_gate g))"
    | (tried) tests tried s1 s2 where "tests \<noteq> []"
        "try_candidates p g sampling (et_source t) tests s1 = (Inr tried, s2)"
        "r = target_outcome t (chosen_evidence tests tried)"
  proof (cases b)
    case True
    with rest that(1) show thesis by (simp add: res_simps target_outcome_def)
  next
    case False
    with rest obtain tests s2 where
      "(if tests = [] then ret (target_outcome t
        (missing_test_evidence (et_source t) ?changed (gs_cov_gate g) (gs_mut_gate g)))
      else seq (try_candidates p g sampling (et_source t) tests) (\<lambda>tried.
      ret (target_outcome t (chosen_evidence tests tried)))) s2 = (Inr r, s')"
      unfolding if_not_P [OF False] seq_Inr by blast
    with that(2,3) show thesis by (cases "tests = []") (auto simp: res_simps)
  qed
  then show ?thesis
  proof cases
    case shortcut
    with \<open>only_non_executable p (gs_repo g) (et_source t) ?changed s = (Inr b, s1)\<close>
    show ?thesis using only_non_executable_True [of p "gs_repo g" "et_source t" ?changed s s1]
      by (simp add: certified_def Let_def)
  next
    case missing
    with assms(2) show ?thesis
      by (simp add: target_outcome_def is_passed_def missing_test_evidence_def)
  next
    case tried
    from tried(3) assms(2) have "is_passed (chosen tried)"
      by (simp add: target_outcome_def chosen_evidence_gets split: if_split_asm)
    with chosen_meets try_candidates_meet [OF tried(2)] tried(1) have "meets g (chosen_evidence tests tried)"
      by (simp add: chosen_evidence_gets)
    with tried(3) show ?thesis by (simp add: target_outcome_def certified_def Let_def meets_def)
  qed
qed

lemma enforce_target_target:
  "enforce_target p g sampling request_tests t s = (Inr r, s') \<Longrightarrow> te_target r = t"
  by (auto simp: enforce_target_def Let_def res_simps target_outcome_def split: if_split_asm)

lemma enforce_targets_certified:
  "enforce_targets p g sampling request_tests ts s = (Inr rs, s') \<Longrightarrow>
     map te_target rs = ts \<and> (\<forall>r \<in> set rs. te_status r = Passed \<longrightarrow> certified p g r)"
proof (induction ts arbitrary: rs s s')
  case Nil
  then show ?case by (simp add: res_simps)
next
  case (Cons t ts)
  then obtain r s1 more s2 where run: "enforce_target p g sampling request_tests t s = (Inr r, s1)"
    "enforce_targets p g sampling request_tests ts s1 = (Inr more, s2)" "rs = r # more"
    by (auto simp: res_simps)
  with Cons.IH [OF run(2)] enforce_target_certified [OF run(1)] enforce_target_target [OF run(1)]
  show ?case by auto
qed


section \<open>Runs\<close>

lemma overall_result_gets [simp]:
  "ef_targets (overall_result p g results cmds) = results"
  "ef_status (overall_result p g results cmds) = ''passed'' \<longleftrightarrow> (\<forall>r \<in> set results. te_status r = Passed)"
  by (simp_all add: overall_result_def Let_def)

lemma without_targets_gets [simp]:
  "ef_targets (without_targets p status reason message profile) = []"
  "ef_status (without_targets p status reason message profile) = status"
  by (simp_all add: without_targets_def)

text \<open>The targets of a request: those it names, else the changed production files.\<close>

definition resolves ::
  "('w, 'm) gate_ports_scheme \<Rightarrow> enforcement_request \<Rightarrow> enforcement_target list \<Rightarrow> bool" where
  "resolves p r ts \<longleftrightarrow> (if er_targets r \<noteq> [] then ts = er_targets r
     else \<exists>l paths l'. gp_changed_paths p (er_repo r) (er_base_ref r) l = (Inr paths, l')
       \<and> ts = map target_for (filter (gp_production p) paths))"

text \<open>
  What a passing result says: it covers the targets of the request in their order, and each
  of them is certified for the lines that the version control system reports as changed.
\<close>

definition answers :: "('w, 'm) gate_ports_scheme \<Rightarrow> enforcement_request \<Rightarrow> enforcement_result \<Rightarrow> bool" where
  "answers p r res \<longleftrightarrow> resolves p r (map te_target (ef_targets res))
     \<and> (ef_targets res \<noteq> [] \<longrightarrow> (\<exists>l changed l' runtime.
          gp_changed_lines p (er_repo r) (er_base_ref r) (sources_of (map te_target (ef_targets res))) l
            = (Inr changed, l')
          \<and> (\<forall>t \<in> set (ef_targets res). certified p (setting_of r runtime changed) t)))"

lemma python_lane_run_cases:
  assumes "python_lane_run p r sampling s = (Inr res, s')"
  obtains (no_targets) profile where "resolves p r []" "res = without_targets p ''passed'' ''no_targets''
        ''No matching production Python targets found'' profile"
    | (unreadable) message profile where "res = without_targets p ''error'' ''syntax_error'' message profile"
    | (run) runtime targets changed results cmds l l' s1 s2 where "resolves p r targets"
        "gp_changed_lines p (er_repo r) (er_base_ref r) (sources_of targets) l = (Inr changed, l')"
        "enforce_targets p (setting_of r runtime changed) sampling (er_tests r) targets s1 = (Inr results, s2)"
        "res = overall_result p (setting_of r runtime changed) results cmds"
proof -
  from assms obtain runtime targets s1 s2 where targets:
      "resolve_enforcement_targets p (er_repo r) (er_targets r) (er_base_ref r) s1 = (Inr targets, s2)"
    and rest: "(if targets = [] then ret (without_targets p ''passed'' ''no_targets''
        ''No matching production Python targets found'' (py_profile runtime))
      else
      seq (on_lane (gp_changed_lines p (er_repo r) (er_base_ref r) (sources_of targets))) (\<lambda>changed.
      seq (if py_is_python2 runtime then ret None
           else on_lane (gp_syntax_error p (er_repo r) (sources_of targets))) (\<lambda>bad. (case bad of
        Some (file, err) \<Rightarrow> ret (without_targets p ''error'' ''syntax_error''
          (''Syntax error in '' @ file @ '': '' @ err) (py_profile runtime))
      | None \<Rightarrow>
          (let g = setting_of r runtime changed in
           seq (enforce_targets p g sampling (er_tests r) targets) (\<lambda>results.
           seq (reads ru_commands) (\<lambda>cmds. ret (overall_result p g results cmds)))))))) s2 = (Inr res, s')"
    unfolding python_lane_run_def Let_def seq_Inr by blast
  have given: "resolves p r targets"
    using targets by (auto simp: resolve_enforcement_targets_def resolves_def lane_runs split: if_split_asm)
  show thesis
  proof (cases "targets = []")
    case True
    with rest given that(1) show thesis by (auto simp: res_simps)
  next
    case False
    with rest obtain changed bad s3 s4 where
      lines: "on_lane (gp_changed_lines p (er_repo r) (er_base_ref r) (sources_of targets)) s2 = (Inr changed, s3)"
      and last: "(case bad of
        Some (file, err) \<Rightarrow> ret (without_targets p ''error'' ''syntax_error''
          (''Syntax error in '' @ file @ '': '' @ err) (py_profile runtime))
      | None \<Rightarrow>
          (let g = setting_of r runtime changed in
           seq (enforce_targets p g sampling (er_tests r) targets) (\<lambda>results.
           seq (reads ru_commands) (\<lambda>cmds. ret (overall_result p g results cmds))))) s4 = (Inr res, s')"
      unfolding if_not_P [OF False] seq_Inr by blast
    from lines obtain l where changed:
      "gp_changed_lines p (er_repo r) (er_base_ref r) (sources_of targets) (ru_lane s2) = (Inr changed, l)"
      by (auto simp: on_lane_run)
    show thesis
    proof (cases bad)
      case None
      with last obtain results cmds s5 where
        "enforce_targets p (setting_of r runtime changed) sampling (er_tests r) targets s4 = (Inr results, s5)"
        "res = overall_result p (setting_of r runtime changed) results cmds"
        by (auto simp: res_simps Let_def)
      with given changed that(3) show thesis by blast
    next
      case (Some fe)
      with last that(2) show thesis by (cases fe) (auto simp: res_simps)
    qed
  qed
qed

lemma python_lane_run_answers:
  assumes "python_lane_run p r sampling s = (Inr res, s')" "ef_status res = ''passed''"
  shows "answers p r res"
  using assms(1)
proof (cases rule: python_lane_run_cases)
  case no_targets
  then show ?thesis by (simp add: answers_def)
next
  case unreadable
  with assms(2) show ?thesis by simp
next
  case (run runtime targets changed results cmds l l' s1 s2)
  note checked = enforce_targets_certified [OF run(3)]
  have "ef_targets res = results" "\<forall>t \<in> set results. te_status t = Passed"
    using run(4) assms(2) by simp_all
  with checked run(1,2) show ?thesis unfolding answers_def by auto
qed

section \<open>The binding\<close>

lemma has_key_finalize [simp]: "has_key (finalize digest ev) k \<longleftrightarrow> k = ''evidenceId'' \<or> has_key ev k"
  by (simp add: finalize_def)

lemma envelope_keys [simp]: "has_key (envelope status reason @ d) ''backend''"
  by (simp add: envelope_def has_key_def)

lemma overall_result_ok: "result_ok (overall_result p g results cmds)"
proof -
  have "ef_status (overall_result p g results cmds) = status_value Passed
    \<or> ef_status (overall_result p g results cmds) = status_value Failed"
    by (simp add: overall_result_def Let_def)
  moreover have "\<exists>d. ef_evidence (overall_result p g results cmds) = PDict d \<and> has_key d ''backend''"
    unfolding overall_result_def Let_def by simp
  ultimately show ?thesis unfolding result_ok_def by blast
qed

lemma without_targets_ok: "result_ok (without_targets p (status_value st) reason message profile)"
proof -
  have "\<exists>d. ef_evidence (without_targets p (status_value st) reason message profile) = PDict d
    \<and> has_key d ''backend''"
    unfolding without_targets_def by simp
  then show ?thesis unfolding result_ok_def by auto
qed

lemma python_lane_run_ok:
  assumes "python_lane_run p r sampling s = (Inr res, s')"
  shows "result_ok res"
  using assms
proof (cases rule: python_lane_run_cases)
  case (no_targets profile)
  then show ?thesis using without_targets_ok [of p Passed] by simp
next
  case (unreadable message profile)
  then show ?thesis using without_targets_ok [of p StatusError] by simp
next
  case run
  then show ?thesis using overall_result_ok by simp
qed

lemma python_enforce_Inr:
  "python_enforce p r ctx l = (Inr res, l') \<longleftrightarrow>
     (\<exists>s. python_lane_run p r (ic_sampling ctx) \<lparr>ru_lane = l, ru_commands = []\<rparr> = (Inr res, s) \<and> l' = ru_lane s)"
  by (auto simp: python_enforce_def split: prod.splits sum.splits)

lemma python_name: "name_of (python_binding p) = ''python''"
proof -
  have "normalize_language ''python'' = ''python''" by code_simp
  then show ?thesis by (simp add: name_of_def python_binding_def)
qed

interpretation python: sound_binding "python_binding p" "''python''" "answers p" for p
proof
  show "name_of (python_binding p) = ''python''" by (rule python_name)
next
  fix r ctx w res w'
  assume "bd_enforce (python_binding p) r ctx w = (Inr res, w')"
  then obtain s where run: "python_lane_run p r (ic_sampling ctx) \<lparr>ru_lane = w, ru_commands = []\<rparr> = (Inr res, s)"
    by (auto simp: python_binding_def python_enforce_Inr)
  then show "result_ok res" by (rule python_lane_run_ok)
  assume "ef_status res = ''passed''"
  with run show "answers p r res" by (rule python_lane_run_answers)
qed


end
