(* ===== verification/PythonEvidence.thy ===== *)
theory PythonEvidence
  imports PythonGateFacts
begin

text \<open>
  The figures in the evidence of the Python lane: what several targets add up to, that the
  counts of a mutation run are counts and its rate a percentage, and two ways in which the
  figures mislead: interrupted mutants, and the rate of the binding's own roll-up.
\<close>

section \<open>Percentages\<close>

lemma percentage_range: "0 \<le> part \<Longrightarrow> part \<le> whole \<Longrightarrow> 0 \<le> percentage part whole \<and> percentage part whole \<le> 100"
proof (cases "whole = 0")
  case True
  then show ?thesis by (simp add: percentage_def)
next
  case False
  assume "0 \<le> part" "part \<le> whole"
  with False have h: "0 \<le> (of_int part / of_int whole * 100 :: rat)" "of_int part / of_int whole * 100 \<le> (100 :: rat)"
    by (simp_all add: field_simps)
  show ?thesis using round4_mono [OF h(1)] round4_mono [OF h(2)] False by (simp add: percentage_def)
qed

lemma percentage_more:
  assumes "0 \<le> part" "part \<le> whole" "whole \<le> bigger"
  shows "percentage part bigger \<le> percentage part whole"
proof (cases "whole = 0")
  case True
  with assms show ?thesis using percentage_range [of part bigger] by (simp add: percentage_def [of _ 0])
next
  case False
  with assms have "(of_int part / of_int bigger * 100 :: rat) \<le> of_int part / of_int whole * 100"
    by (intro mult_right_mono divide_left_mono) auto
  with False assms show ?thesis by (simp add: percentage_def round4_mono)
qed

section \<open>Totals\<close>

lemma all_some_if: "all_some (map f xs) = (if \<forall>x \<in> set xs. f x \<noteq> None then Some (map (\<lambda>x. the (f x)) xs) else None)"
proof (induction xs)
  case (Cons a xs)
  then show ?case by (cases "f a") auto
qed simp

lemma sum_list_perm:
  fixes f :: "'a \<Rightarrow> int"
  shows "mset xs = mset ys \<Longrightarrow> sum_list (map f xs) = sum_list (map f ys)"
  by (metis mset_map sum_mset_sum_list)

lemma all_some_sum_perm:
  assumes "mset xs = mset ys"
  shows "map_option sum_list (all_some (map f xs)) = map_option sum_list (all_some (map f ys :: int option list))"
proof -
  have "set xs = set ys" using assms by (rule mset_eq_setD)
  moreover have "sum_list (map (\<lambda>x. the (f x)) xs) = sum_list (map (\<lambda>x. the (f x)) ys)"
    using assms by (rule sum_list_perm)
  ultimately show ?thesis by (simp add: all_some_if)
qed

lemma sum_field_perm: "mset xs = mset ys \<Longrightarrow> sum_field xs key = sum_field ys key"
  unfolding sum_field_def by (rule all_some_sum_perm)

lemma summaries_perm: "mset xs = mset ys \<Longrightarrow> mset (summaries_of key xs) = mset (summaries_of key ys)"
  by (simp add: summaries_of_def map_filter_def mset_filter)

lemma totals_perm: "mset xs = mset ys \<Longrightarrow> mutation_totals_of xs = mutation_totals_of ys"
  unfolding mutation_totals_of_def by (simp only: sum_field_perm [of xs ys] all_some_sum_perm [of xs ys])

lemma part_sum_perm: "mset xs = mset ys \<Longrightarrow> part_sum part key xs = part_sum part key ys"
  unfolding part_sum_def by (rule sum_list_perm)

text \<open>The order of the targets does not matter.\<close>

text \<open>
  Coverage and mutation totals and rates, of the aggregation and of the roll-up of the
  binding, are the same for any order of the target results.
\<close>

theorem totals_ignore_the_order:
  assumes "mset xs = mset ys"
  shows "aggregate_coverage xs gate = aggregate_coverage ys gate
    \<and> mutation_totals_of (summaries_of ''mutation'' xs) = mutation_totals_of (summaries_of ''mutation'' ys)
    \<and> aggregated_rate (summaries_of ''mutation'' xs) t = aggregated_rate (summaries_of ''mutation'' ys) t
    \<and> coverage_rollup xs gate = coverage_rollup ys gate \<and> mutation_rollup xs gate = mutation_rollup ys gate"
proof -
  note c = summaries_perm [OF assms, of "''coverage''"] and m = summaries_perm [OF assms, of "''mutation''"]
  have "set (summaries_of ''coverage'' xs) = set (summaries_of ''coverage'' ys)"
    "length (summaries_of ''coverage'' xs) = length (summaries_of ''coverage'' ys)"
    "summaries_of ''coverage'' xs = [] \<longleftrightarrow> summaries_of ''coverage'' ys = []"
    "set (summaries_of ''mutation'' xs) = set (summaries_of ''mutation'' ys)"
    using mset_eq_setD [OF c] mset_eq_length [OF c] mset_eq_setD [OF m] by auto
  then show ?thesis
    unfolding aggregate_coverage_def Let_def aggregated_rate_def has_reason_def coverage_rollup_def
      mutation_rollup_def
    by (simp only: sum_field_perm [OF c] totals_perm [OF m] part_sum_perm [OF assms])
qed

text \<open>A count that is missing or a number that is not negative.\<close>

definition plain_count :: "pydict \<Rightarrow> str \<Rightarrow> bool" where
  "plain_count d key = (case get d key of PNone \<Rightarrow> True | PInt n \<Rightarrow> 0 \<le> n | _ \<Rightarrow> False)"

definition count_at :: "pydict \<Rightarrow> str \<Rightarrow> int" where
  "count_at d key = (case get d key of PInt n \<Rightarrow> n | _ \<Rightarrow> 0)"

definition mutation_count_keys :: "str list" where
  "mutation_count_keys = [''generated'', ''killed'', ''survived'', ''noTests'', ''no_tests'', ''timeout'', ''suspicious'',
     ''notChecked'', ''changedLineMutantsScored'']"

definition measured :: "pydict \<Rightarrow> bool" where
  "measured ev \<longleftrightarrow> is_dict (get ev ''coverage'') \<and> is_dict (get ev ''mutation'')
     \<and> (\<forall>k \<in> set [''covered'', ''total'']. plain_count (as_dict (get ev ''coverage'')) k)
     \<and> (\<forall>k \<in> set mutation_count_keys. plain_count (as_dict (get ev ''mutation'')) k)"

lemma plain_count_at: "plain_count d key \<Longrightarrow> int_or_zero d key = Some (count_at d key) \<and> 0 \<le> count_at d key"
  by (auto simp: plain_count_def count_at_def int_or_zero_def py_int_def split: pyval.splits)

lemma summaries_measured:
  "\<forall>ev \<in> set evs. is_dict (get ev key) \<Longrightarrow> summaries_of key evs = map (\<lambda>ev. as_dict (get ev key)) evs"
proof (induction evs)
  case Nil
  then show ?case by (simp add: summaries_of_def map_filter_def)
next
  case (Cons ev evs)
  then show ?case by (cases "get ev key") (simp_all add: summaries_of_def map_filter_def)
qed

lemma sum_field_plain:
  "\<forall>d \<in> set ds. plain_count d key \<Longrightarrow> sum_field ds key = Some (sum_list (map (\<lambda>d. count_at d key) ds))"
  using plain_count_at by (induction ds) (fastforce simp: sum_field_def)+

lemma part_sum_plain:
  "\<forall>ev \<in> set evs. plain_count (as_dict (get ev part)) key \<Longrightarrow>
     part_sum part key evs = sum_list (map (\<lambda>ev. count_at (as_dict (get ev part)) key) evs)"
  using plain_count_at by (induction evs) (fastforce simp: part_sum_def)+

lemma sum_counts_nonneg:
  "\<forall>ev \<in> set evs. plain_count (f ev) key \<Longrightarrow> 0 \<le> sum_list (map (\<lambda>ev. count_at (f ev) key) evs)"
  using plain_count_at by (induction evs) fastforce+

lemma totals_measured:
  assumes "\<forall>ev \<in> set evs. measured ev"
  shows "\<exists>t. mutation_totals_of (summaries_of ''mutation'' evs) = Some t
     \<and> mt_generated t = part_sum ''mutation'' ''generated'' evs
     \<and> mt_killed t = part_sum ''mutation'' ''killed'' evs \<and> mt_survived t = part_sum ''mutation'' ''survived'' evs
     \<and> 0 \<le> mt_killed t \<and> 0 \<le> mt_survived t \<and> 0 \<le> mt_timeout t \<and> 0 \<le> mt_suspicious t"
proof -
  let ?ms = "map (\<lambda>ev. as_dict (get ev ''mutation'')) evs"
  have ms: "summaries_of ''mutation'' evs = ?ms"
    using assms by (intro summaries_measured) (simp add: measured_def)
  have plain: "\<forall>d \<in> set ?ms. plain_count d k" "\<forall>ev \<in> set evs. plain_count (as_dict (get ev ''mutation'')) k"
    if "k \<in> set mutation_count_keys" for k
    using assms that by (simp_all add: measured_def)
  have sums: "sum_field ?ms k = Some (part_sum ''mutation'' k evs)" "0 \<le> part_sum ''mutation'' k evs"
    if "k \<in> set mutation_count_keys" for k
    using sum_field_plain [OF plain(1)] part_sum_plain [OF plain(2)] sum_counts_nonneg [OF plain(2)] that
    by (simp_all add: o_def)
  have "no_tests_of d \<noteq> None" if "d \<in> set ?ms" for d
  proof -
    have "int_or_zero d ''noTests'' \<noteq> None" "int_or_zero d ''no_tests'' \<noteq> None"
      using plain(1) plain_count_at that by (force simp: mutation_count_keys_def)+
    then show ?thesis by (auto simp: no_tests_of_def int_or_zero_def split: if_split_asm)
  qed
  then obtain n where n: "map_option sum_list (all_some (map no_tests_of ?ms)) = Some n"
    by (auto simp: all_some_if simp del: map_map)
  show ?thesis
    unfolding ms mutation_totals_of_def n using sums by (simp add: mutation_count_keys_def)
qed

text \<open>
  On the coverage of a set of targets the binding and the contract agree. On the mutants
  the binding counts only the killed and the surviving ones, so its rate is never the lower one.
\<close>

text \<open>
  On target results whose counts are integers that are not negative, the roll-up of the
  binding and the aggregation of the contract have the same covered and total lines,
  coverage rate, generated, killed and surviving mutants, and the mutation rate of the roll-
  up is never below that of the aggregation.
\<close>

theorem rollups_compared:
  assumes "\<forall>ev \<in> set evs. measured ev" "evs \<noteq> []"
  shows "\<exists>c t. aggregate_coverage evs gate = Some (Some c)
     \<and> (\<forall>k \<in> set [''covered'', ''total'', ''rate'', ''gate'']. get c k = get (coverage_rollup evs gate) k)
     \<and> mutation_totals_of (summaries_of ''mutation'' evs) = Some t
     \<and> get (mutation_rollup evs gate) ''generated'' = PInt (mt_generated t)
     \<and> get (mutation_rollup evs gate) ''killed'' = PInt (mt_killed t)
     \<and> get (mutation_rollup evs gate) ''survived'' = PInt (mt_survived t)
     \<and> (\<exists>rate. get (mutation_rollup evs gate) ''rate'' = PFloat rate
          \<and> aggregated_rate (summaries_of ''mutation'' evs) t \<le> rate)"
proof -
  let ?cs = "map (\<lambda>ev. as_dict (get ev ''coverage'')) evs"
  have cs: "summaries_of ''coverage'' evs = ?cs"
    using assms by (intro summaries_measured) (simp add: measured_def)
  have plain: "\<forall>d \<in> set ?cs. plain_count d k" "\<forall>ev \<in> set evs. plain_count (as_dict (get ev ''coverage'')) k"
    if "k \<in> {''covered'', ''total''}" for k
    using assms(1) that by (auto simp: measured_def)
  have "sum_field ?cs k = Some (part_sum ''coverage'' k evs)" if "k \<in> {''covered'', ''total''}" for k
    using sum_field_plain [OF plain(1)] part_sum_plain [OF plain(2)] that by (simp add: o_def)
  then obtain c where c: "aggregate_coverage evs gate = Some (Some c)"
    "\<forall>k \<in> set [''covered'', ''total'', ''rate'', ''gate'']. get c k = get (coverage_rollup evs gate) k"
    using assms(2) by (simp add: aggregate_coverage_def cs coverage_rollup_def Let_def)
  obtain t where t: "mutation_totals_of (summaries_of ''mutation'' evs) = Some t"
     "mt_generated t = part_sum ''mutation'' ''generated'' evs"
     "mt_killed t = part_sum ''mutation'' ''killed'' evs" "mt_survived t = part_sum ''mutation'' ''survived'' evs"
     "0 \<le> mt_killed t" "0 \<le> mt_survived t" "0 \<le> mt_timeout t" "0 \<le> mt_suspicious t"
    using totals_measured [OF assms(1)] by blast
  have "aggregated_rate (summaries_of ''mutation'' evs) t \<le> percentage (mt_killed t) (mt_killed t + mt_survived t)"
    using t(5-) unfolding aggregated_rate_def mutation_denominator_def
    by (simp add: percentage_more percentage_range)
  with c t show ?thesis by (auto simp: mutation_rollup_def Let_def)
qed

section \<open>Counts\<close>

definition good_counts :: "counts \<Rightarrow> bool" where
  "good_counts cs \<longleftrightarrow> distinct (map fst cs) \<and> (\<forall>x \<in> set cs. 0 \<le> snd x)"

lemma counted_nonneg [simp]: "good_counts cs \<Longrightarrow> 0 \<le> counted cs s"
  by (auto simp: counted_def good_counts_def dest!: map_of_SomeD split: option.splits)

lemma good_dict_set: "good_counts cs \<Longrightarrow> 0 \<le> n \<Longrightarrow> good_counts (dict_set s n cs)"
proof (induction cs)
  case Nil
  then show ?case by (simp add: good_counts_def)
next
  case (Cons x cs)
  have "distinct (map fst (dict_set s n (x # cs)))"
    using Cons.prems(1) by (intro distinct_dict_set) (simp add: good_counts_def)
  moreover have "\<forall>y \<in> set (dict_set s n (x # cs)). 0 \<le> snd y"
    using Cons by (cases x) (auto simp: good_counts_def)
  ultimately show ?case unfolding good_counts_def by blast
qed

lemma good_add_to: "good_counts cs \<Longrightarrow> 0 \<le> n \<Longrightarrow> good_counts (add_to s n cs)"
  by (simp add: add_to_def good_dict_set)

lemma good_no_counts: "good_counts no_counts"
  by (auto simp: good_counts_def no_counts_def mutant_statuses_def)

lemma good_add_keys: "add_keys codes (cs, keys) = Some (cs', keys') \<Longrightarrow> good_counts cs \<Longrightarrow> good_counts cs'"
  by (induction codes arbitrary: cs keys) (auto simp: bind_eq_Some_conv good_add_to)

lemma good_add_payloads: "add_payloads ds acc = Some (cs', keys') \<Longrightarrow> good_counts (fst acc) \<Longrightarrow> good_counts cs'"
proof (induction ds arbitrary: acc)
  case Nil
  then show ?case by simp
next
  case (Cons d ds)
  then obtain codes acc' where step: "add_keys codes acc = Some acc'" "add_payloads ds acc' = Some (cs', keys')"
    by (auto simp: bind_eq_Some_conv)
  with Cons.prems(2) have "good_counts (fst acc')"
    using good_add_keys by (cases acc; cases acc') auto
  with Cons.IH step(2) show ?case by blast
qed

lemma good_meta: "read_mutmut_meta p dir s = (Inr (cs, keys), s') \<Longrightarrow> good_counts cs"
  unfolding read_mutmut_meta_def
  by (auto simp: lane_runs good_no_counts dest!: good_add_payloads)

lemma good_merge: "good_counts totals \<Longrightarrow> good_counts cs \<Longrightarrow> good_counts (merge_counts totals cs)"
proof (induction cs arbitrary: totals)
  case Nil
  then show ?case by (simp add: merge_counts_def)
next
  case (Cons x cs)
  have "0 \<le> snd x" "good_counts cs" using Cons.prems(2) by (auto simp: good_counts_def)
  moreover from this(1) have "good_counts (add_to (fst x) (snd x) totals)"
    using Cons.prems(1) by (intro good_add_to)
  ultimately show ?case using Cons.IH by (cases x) (simp add: merge_counts_def)
qed

lemma good_run_pass: "run_pass p x several g acc s = (Inr acc', s') \<Longrightarrow> good_counts (pg_counts acc) \<Longrightarrow> good_counts (pg_counts acc')"
proof -
  assume run: "run_pass p x several g acc s = (Inr acc', s')" and acc: "good_counts (pg_counts acc)"
  from run obtain dir cs keys s1 s2 where "read_mutmut_meta p dir s1 = (Inr (cs, keys), s2)"
    "pg_counts acc' = merge_counts (pg_counts acc) cs"
    unfolding run_pass_def seq_Inr by (auto simp: res_simps)
  with acc show ?thesis by (simp add: good_meta good_merge)
qed

lemma good_run_passes:
  "run_passes p x several gs acc s = (Inr acc', s') \<Longrightarrow> good_counts (pg_counts acc) \<Longrightarrow> good_counts (pg_counts acc')"
  by (induction gs arbitrary: acc s) (auto simp: res_simps dest: good_run_pass)

lemma good_generation: "run_generation_passes p x passes part s = (Inr r, s') \<Longrightarrow> good_counts (sr_counts r)"
proof -
  assume "run_generation_passes p x passes part s = (Inr r, s')"
  then obtain acc s1 where "run_passes p x (1 < length passes) passes no_progress s = (Inr acc, s1)"
    "sr_counts r = pg_counts acc"
    unfolding run_generation_passes_def seq_Inr by (auto simp: res_simps)
  then show ?thesis using good_run_passes by (fastforce simp: no_progress_def good_counts_def)
qed

lemma good_legacy: "legacy_run p j e s = (Inr r, s') \<Longrightarrow> good_counts (sr_counts r)"
  unfolding legacy_run_def Let_def seq_Inr by (auto simp: res_simps dest: good_meta)

lemma good_execute: "execute p j e policy s = (Inr r, s') \<Longrightarrow> good_counts (sr_counts r)"
proof -
  assume "execute p j e policy s = (Inr r, s')"
  then obtain r0 s1 s2 where body: "(case policy of None \<Rightarrow> legacy_run p j e | Some d \<Rightarrow> modern_run p j e d) s1 = (Inr r0, s2)"
    and probe: "probed p j e r0 s2 = (Inr r, s')"
    unfolding execute_def andthen_Inr seq_Inr by blast
  have "good_counts (sr_counts r0)"
  proof (cases policy)
    case None
    with body show ?thesis by (auto intro: good_legacy)
  next
    case (Some d)
    with body show ?thesis unfolding modern_run_def by (auto simp: res_simps intro: good_generation)
  qed
  moreover have "sr_counts r = sr_counts r0"
    using probe by (auto simp: probed_def res_simps split: if_split_asm)
  ultimately show ?thesis by simp
qed

lemma finally_Inr: "finally_do m c s = (Inr x, s') \<Longrightarrow> \<exists>s1. m s = (Inr x, s1)"
  by (auto simp: finally_do_def split: prod.splits sum.splits)

lemma workspace_result:
  "in_workspace p j body s = (Inr (e, r), s') \<Longrightarrow> \<exists>s1 s2. body e s1 = (Inr r, s2)"
  unfolding in_workspace_def seq_Inr andthen_Inr by (auto simp: ret_run dest!: finally_Inr)

section \<open>Tallies\<close>

lemma sum_counted: "finite K \<Longrightarrow> good_counts cs \<Longrightarrow> (\<Sum>s \<in> K. counted cs s) \<le> sum_list (map snd cs)"
proof (induction cs arbitrary: K)
  case Nil
  then show ?case by (simp add: counted_def)
next
  case (Cons x cs)
  have good: "good_counts cs" and n: "0 \<le> snd x" and new: "fst x \<notin> set (map fst cs)"
    using Cons.prems by (auto simp: good_counts_def)
  have rest: "(\<Sum>s \<in> K - {fst x}. counted (x # cs) s) = (\<Sum>s \<in> K - {fst x}. counted cs s)"
    by (rule sum.cong) (auto simp: counted_def)
  have "(\<Sum>s \<in> K. counted (x # cs) s) \<le> snd x + (\<Sum>s \<in> K - {fst x}. counted cs s)"
  proof (cases "fst x \<in> K")
    case True
    then show ?thesis using sum.remove [OF Cons.prems(1) True, of "counted (x # cs)"] rest
      by (simp add: counted_def)
  next
    case False
    with rest n show ?thesis by simp
  qed
  also have "\<dots> \<le> snd x + sum_list (map snd cs)" using Cons.IH [of "K - {fst x}"] good Cons.prems(1) by simp
  finally show ?case by simp
qed

lemma tally_within:
  assumes "good_counts (sr_counts r)"
  shows "0 \<le> ty_killed (tally_of r)" "0 \<le> ty_survived (tally_of r)" "0 \<le> ty_timeout (tally_of r)"
    "0 \<le> ty_suspicious (tally_of r)" "tally_denominator (tally_of r) \<le> ty_generated (tally_of r)"
proof -
  let ?cs = "sr_counts r"
  have "(\<Sum>s \<in> {''killed'', ''segfault'', ''survived'', ''not checked'', ''timeout'', ''suspicious''}. counted ?cs s)
    \<le> sum_list (map snd ?cs)"
    using assms by (intro sum_counted) auto
  then have "counted ?cs ''killed'' + counted ?cs ''segfault'' + counted ?cs ''survived''
      + counted ?cs ''not checked'' + counted ?cs ''timeout'' + counted ?cs ''suspicious'' \<le> sum_list (map snd ?cs)"
    by simp
  moreover have "0 \<le> counted ?cs ''not checked''" using assms by simp
  ultimately show "tally_denominator (tally_of r) \<le> ty_generated (tally_of r)"
    unfolding tally_of_def Let_def tally_denominator_def by auto
qed (use assms in \<open>auto simp: tally_of_def Let_def\<close>)


section \<open>The shape of the mutation evidence\<close>

text \<open>Counts that are not negative, verdict counts within the generated ones, and a percentage.\<close>

definition mutation_typed :: "pydict \<Rightarrow> bool" where
  "mutation_typed mut \<longleftrightarrow>
     (\<exists>generated killed survived timeout suspicious rate passed.
        get mut ''generated'' = PInt generated \<and> get mut ''killed'' = PInt killed
        \<and> get mut ''survived'' = PInt survived \<and> get mut ''timeout'' = PInt timeout
        \<and> get mut ''suspicious'' = PInt suspicious \<and> get mut ''rate'' = PFloat rate
        \<and> get mut ''passed'' = PBool passed
        \<and> 0 \<le> killed \<and> 0 \<le> survived \<and> 0 \<le> timeout \<and> 0 \<le> suspicious
        \<and> killed + survived + timeout + suspicious \<le> generated \<and> 0 \<le> rate \<and> rate \<le> 100)"

lemma verdict_gets:
  "get (mutation_verdict syntax gate source changed artifacts r) ''generated'' = PInt (ty_generated (tally_of r))"
  "get (mutation_verdict syntax gate source changed artifacts r) ''killed'' = PInt (ty_killed (tally_of r))"
  "get (mutation_verdict syntax gate source changed artifacts r) ''survived'' = PInt (ty_survived (tally_of r))"
  "get (mutation_verdict syntax gate source changed artifacts r) ''timeout'' = PInt (ty_timeout (tally_of r))"
  "get (mutation_verdict syntax gate source changed artifacts r) ''suspicious'' = PInt (ty_suspicious (tally_of r))"
  "get (mutation_verdict syntax gate source changed artifacts r) ''rate''
    = PFloat (if backend_failed r \<or> unassociated r then 0 else tally_rate (tally_of r))"
  "get (mutation_verdict syntax gate source changed artifacts r) ''passed'' = PBool (mutation_passed syntax gate r)"
  by (simp_all add: mutation_verdict_def Let_def)

lemma verdict_typed:
  assumes "good_counts (sr_counts r)"
  shows "mutation_typed (mutation_verdict syntax gate source changed artifacts r)"
proof -
  note t = tally_within [OF assms]
  have "0 \<le> tally_rate (tally_of r)" "tally_rate (tally_of r) \<le> 100"
    using t percentage_range [of "ty_killed (tally_of r)" "tally_denominator (tally_of r)"]
    by (simp_all add: tally_rate_def tally_denominator_def)
  with t show ?thesis unfolding mutation_typed_def verdict_gets by (simp add: tally_denominator_def)
qed

lemma no_candidate_typed:
  "no_candidate_mutation shown source changed gate policy artifacts = Some mut \<Longrightarrow> mutation_typed mut"
  by (auto simp: no_candidate_mutation_def mutation_typed_def bind_eq_Some_conv)

lemma empty_typed: "mutation_typed (dict_set ''reasonCode'' v (empty_mutation gate passed))"
  by (simp add: mutation_typed_def get_dict_set empty_mutation_def)

lemma scored_typed:
  assumes "scored_mutation p j policy s = (Inr mut, s')"
  shows "mutation_typed mut"
proof -
  from assms obtain e r s1 where "in_workspace p j (\<lambda>e. execute p j e policy) s = (Inr (e, r), s1)"
    and mut: "\<exists>artifacts. mut = mutation_verdict (mj_syntax j) (mj_gate j) (mj_source j)
      (lines_of (mj_changed j) (mj_source j)) artifacts r"
    unfolding scored_mutation_def Let_def by (auto simp: res_simps split: prod.splits)
  then obtain s2 s3 where "execute p j e policy s2 = (Inr r, s3)" using workspace_result by blast
  with mut show ?thesis using good_execute verdict_typed by blast
qed

text \<open>
  C36: The mutation evidence of a candidate holds integer counts that are not negative, of
  which the killed, surviving, timed out and suspicious ones are together at most the
  generated ones, a Boolean verdict and a rate from 0 to 100.
\<close>

theorem mutation_evidence_typed:
  assumes "mutation_stage p g sampling source test e cov s = (Inr mut, s')"
  shows "mutation_typed mut"
  using assms unfolding mutation_stage_def run_mutation_def Let_def
  by (auto simp: lane_runs empty_typed split: if_split_asm intro: scored_typed no_candidate_typed)

section \<open>Mutants that were interrupted\<close>

text \<open>
  A mutant whose test run was interrupted (exit code 2) is generated and scored, but is in no
  part of the denominator of the rate.
\<close>

text \<open>
  When every generated mutant was interrupted and the generation did not fail, nothing
  was killed and yet the mutation evidence has rate 100 and passes any gate.
\<close>

theorem interrupted_mutants_pass:
  assumes "\<forall>x \<in> set (sr_counts r). fst x = ''interrupted'' \<or> snd x = 0"
    and "\<not> failed_command (sr_metadata r)" "gate \<le> 100" "\<not> plan_failed syntax r"
    and "0 < sum_list (map snd (sr_counts r))"
  shows "ty_generated (tally_of r) = sum_list (map snd (sr_counts r))
    \<and> ty_scored (tally_of r) = ty_generated (tally_of r) \<and> ty_killed (tally_of r) = 0
    \<and> get (mutation_verdict syntax gate source changed artifacts r) ''rate'' = PFloat 100
    \<and> get (mutation_verdict syntax gate source changed artifacts r) ''passed'' = PBool True"
proof -
  have zero: "counted (sr_counts r) s = 0" if "s \<noteq> ''interrupted''" for s
    using assms(1) that by (auto simp: counted_def dest!: map_of_SomeD split: option.splits)
  define n where "n = sum_list (map snd (sr_counts r))"
  have tally: "tally_of r = \<lparr>ty_generated = n, ty_scored = n, ty_killed = 0, ty_survived = 0, ty_no_tests = 0,
      ty_skipped = 0, ty_timeout = 0, ty_suspicious = 0, ty_not_checked = 0, ty_uncovered = 0\<rparr>"
    using assms(5) by (simp add: tally_of_def Let_def zero n_def)
  have "\<not> backend_failed r" "\<not> collection_failed r" "\<not> unassociated r"
    using assms(2,5) by (simp_all add: backend_failed_def tally Let_def n_def collection_failed_def
        all_mutants_suspicious_def zero unassociated_def all_selected_mutants_unassociated_def)
  with assms(3,4) show ?thesis
    by (simp add: verdict_gets mutation_passed_def tally tally_rate_def tally_denominator_def percentage_def n_def)
qed

lemma interrupted_mutants_pass_witness:
  "get (mutation_verdict ''python3'' 80 ''a.py'' [1] []
      \<lparr>sr_counts = [(''killed'', 0), (''interrupted'', 1)],
       sr_plan = [(''exactToolCandidateKeys'', PList [PStr ''a.f__mutmut_1''])],
       sr_metadata = None, sr_mutmut = None, sr_clean_probe = None, sr_collection_probe = None,
       sr_batches = 1\<rparr>) ''passed'' = PBool True"
proof -
  let ?r = "\<lparr>sr_counts = [(''killed'', 0), (''interrupted'', 1)],
       sr_plan = [(''exactToolCandidateKeys'', PList [PStr ''a.f__mutmut_1''])],
       sr_metadata = None, sr_mutmut = None, sr_clean_probe = None, sr_collection_probe = None,
       sr_batches = 1\<rparr> :: scored_run"
  have "\<not> plan_failed ''python3'' ?r" by code_simp
  then show ?thesis
    using interrupted_mutants_pass [of ?r 80 "''python3''" "''a.py''" "[1]" "[]"]
    by (simp add: failed_command_def)
qed

definition timed_out_target :: pydict where
  "timed_out_target = [(''coverage'', PDict [(''covered'', PInt 4), (''total'', PInt 5)]),
     (''mutation'', PDict [(''generated'', PInt 4), (''killed'', PInt 1), (''timeout'', PInt 3)])]"

lemma timed_out_measured: "measured timed_out_target"
  by code_simp

lemma rollups_compared_witness:
  "\<exists>c. aggregate_coverage [timed_out_target] 80 = Some (Some c)
     \<and> get c ''rate'' = get (coverage_rollup [timed_out_target] 80) ''rate''"
  using rollups_compared [of "[timed_out_target]" 80] timed_out_measured by auto

text \<open>One mutant killed and three timed out: the roll-up passes every gate, the contract's rate is 25.\<close>

lemma rollup_forgets_timeouts:
  "get (mutation_rollup [timed_out_target] 100) ''passed'' = PBool True
   \<and> map_option (aggregated_rate (summaries_of ''mutation'' [timed_out_target]))
       (mutation_totals_of (summaries_of ''mutation'' [timed_out_target])) = Some 25"
  by code_simp

lemma totals_ignore_the_order_witness:
  "aggregate_coverage [timed_out_target, [(''coverage'', PDict [])]] 80
    = aggregate_coverage [[(''coverage'', PDict [])], timed_out_target] 80"
  using totals_ignore_the_order [of "[timed_out_target, [(''coverage'', PDict [])]]"
      "[[(''coverage'', PDict [])], timed_out_target]" 80] by simp

end
