(* ===== verification/PythonSafety.thy ===== *)
theory PythonSafety
  imports PythonEvidence
begin

text \<open>
  What the dispatch of the Python binding promises: a passing verdict is certified, valid
  requests and only those reach the binding, and the settings files of the repository
  survive a mutation run.
\<close>

section \<open>The settings of the repository\<close>

text \<open>A program that leaves the files of a set as they are, on every way out.\<close>

definition leaves :: "str set \<Rightarrow> ('w run, 'e, 'a) prog \<Rightarrow> bool" where
  "leaves fs m \<longleftrightarrow> (\<forall>s r s'. m s = (r, s') \<longrightarrow> (\<forall>f \<in> fs. ln_files (ru_lane s') f = ln_files (ru_lane s) f))"

definition lane_leaves :: "str set \<Rightarrow> ('w lane, 'e, 'a) prog \<Rightarrow> bool" where
  "lane_leaves fs m \<longleftrightarrow> (\<forall>l r l'. m l = (r, l') \<longrightarrow> (\<forall>f \<in> fs. ln_files l' f = ln_files l f))"

named_theorems leaving \<open>programs that leave files alone\<close>

lemma leaves_on_lane [leaving]: "lane_leaves fs m \<Longrightarrow> leaves fs (on_lane m)"
  unfolding leaves_def lane_leaves_def on_lane_run by fastforce

lemma leaves_pure [leaving]: "leaves fs (ret x)" "leaves fs (raise e)" "leaves fs (reads f)" "leaves fs (raised v w)"
  by (auto simp: leaves_def res_simps raised_def split: option.splits)

lemma leaves_put [leaving]: "path \<notin> fs \<Longrightarrow> leaves fs (put_file path content)"
  by (auto simp: leaves_def put_file_def res_simps)

lemma leaves_read [leaving]: "leaves fs (read_file path)"
  by (simp add: read_file_def leaves_pure)

lemma leaves_seq [leaving]:
  assumes "leaves fs m" "\<And>x. leaves fs (f x)"
  shows "leaves fs (seq m f)"
  unfolding leaves_def
proof (intro allI impI)
  fix s r s' assume run: "seq m f s = (r, s')"
  obtain r1 s1 where first: "m s = (r1, s1)" by (cases "m s")
  have start: "\<forall>f \<in> fs. ln_files (ru_lane s1) f = ln_files (ru_lane s) f"
    using assms(1) first unfolding leaves_def by blast
  show "\<forall>f \<in> fs. ln_files (ru_lane s') f = ln_files (ru_lane s) f"
  proof (cases r1)
    case (Inl e)
    with run first start show ?thesis by (simp add: seq_def)
  next
    case (Inr x)
    with run first have "f x s1 = (r, s')" by (simp add: seq_def)
    with assms(2) [of x] start show ?thesis unfolding leaves_def by metis
  qed
qed

lemma leaves_andthen [leaving]: "leaves fs m \<Longrightarrow> leaves fs n \<Longrightarrow> leaves fs (andthen m n)"
  unfolding andthen_def by (rule leaves_seq)

lemma leaves_if [leaving]: "leaves fs m \<Longrightarrow> leaves fs n \<Longrightarrow> leaves fs (if b then m else n)"
  by simp

text \<open>The \<open>finally\<close> block decides what a file holds in the end.\<close>

lemma finally_files:
  assumes "finally_do m cleanup s = (r, s')"
  obtains s1 r1 where "cleanup s1 = (r1, s')"
  using assms by (auto simp: finally_do_def split: prod.splits sum.splits)

definition settings_files :: "str \<Rightarrow> str set" where
  "settings_files repo = {setup_cfg repo, pyproject_toml repo}"

lemma settings_differ: "setup_cfg repo \<noteq> pyproject_toml repo" "policy_file repo source \<notin> settings_files repo"
  by (simp_all add: setup_cfg_def pyproject_toml_def policy_file_def settings_files_def)

text \<open>
  The steps outside the \<open>try\<close> block leave the two files alone: looking for mutants,
  sampling, writing the import shim and removing the directory of the mutants.
\<close>

definition spares_settings :: "('w, 'm) mutation_ports_scheme \<Rightarrow> str \<Rightarrow> 'w sampling option \<Rightarrow> bool" where
  "spares_settings p repo sampling \<longleftrightarrow>
     (\<forall>a b c d. lane_leaves (settings_files repo) (mp_opportunities p a b c d))
     \<and> (\<forall>a. lane_leaves (settings_files repo) (mp_file_size p a))
     \<and> (\<forall>a. lane_leaves (settings_files repo) (mp_remove_tree p a))
     \<and> (\<forall>a b. lane_leaves (settings_files repo) (mp_module p a b))
     \<and> (\<forall>a b c. lane_leaves (settings_files repo) (mp_write_compat p a b c))
     \<and> (\<forall>select. sampling = Some select \<longrightarrow> (\<forall>a b. lane_leaves (settings_files repo) (select a b)))"

lemma restore_puts_back:
  assumes "restore p repo setup pyproject s = (r, s')"
    and "\<forall>a. lane_leaves (settings_files repo) (mp_remove_tree p a)"
  shows "ln_files (ru_lane s') (setup_cfg repo) = setup
    \<and> ln_files (ru_lane s') (pyproject_toml repo) = pyproject"
proof -
  define clean where "clean = (if map_of (mp_environ p) ''UTA_PYTHON_MUTATION_KEEP_MUTANTS'' \<in> {None, Some []}
      then on_lane (mp_remove_tree p (mutants_dir repo)) else ret ())"
  have kept: "leaves (settings_files repo) clean"
    unfolding clean_def using assms(2) by (intro leaving) auto
  define t where "t = (ru_lane s)\<lparr>ln_files := (ln_files (ru_lane s))
      (setup_cfg repo := setup, pyproject_toml repo := pyproject)\<rparr>"
  have "clean (s\<lparr>ru_lane := t\<rparr>) = (r, s')"
    using assms(1) unfolding restore_def clean_def [symmetric] put_file_def
    by (simp add: andthen_def seq_def modifies_def t_def)
  with kept have "\<forall>f \<in> settings_files repo. ln_files (ru_lane s') f = ln_files t f"
    unfolding leaves_def by force
  then show ?thesis using settings_differ(1) [of repo] by (simp add: settings_files_def t_def)
qed

lemma seq_andthen: "seq (andthen m n) f = andthen m (seq n f)"
  by (auto simp: andthen_def seq_def fun_eq_iff split: prod.splits sum.splits)

lemma leaves_compat:
  "spares_settings p repo sampling \<Longrightarrow> leaves (settings_files repo) (with_import_compat p repo' source e)"
  unfolding with_import_compat_def Let_def by (intro leaving) (auto simp: spares_settings_def)

lemma leaves_workspace:
  assumes "spares_settings p (mj_repo j) sampling"
  shows "leaves (settings_files (mj_repo j)) (in_workspace p j body)"
  unfolding leaves_def
proof (intro allI impI)
  let ?fs = "settings_files (mj_repo j)"
  fix s r s' assume run: "in_workspace p j body s = (r, s')"
  let ?old_setup = "ln_files (ru_lane s) (setup_cfg (mj_repo j))"
  let ?old_pyproject = "ln_files (ru_lane s) (pyproject_toml (mj_repo j))"
  define prepare where "prepare = andthen (on_lane (mp_remove_tree p (mutants_dir (mj_repo j))))
    (with_import_compat p (mj_repo j) (mj_source j) (mj_env j))"
  define work where "work e = finally_do (body e) (restore p (mj_repo j) ?old_setup ?old_pyproject)" for e
  have removes: "\<forall>a. lane_leaves ?fs (mp_remove_tree p a)" using assms unfolding spares_settings_def by blast
  have prep: "leaves ?fs prepare"
    unfolding prepare_def using assms by (intro leaving leaves_compat) (auto simp: spares_settings_def)
  have run': "seq prepare (\<lambda>e. seq (work e) (\<lambda>x. ret (e, x))) s = (r, s')"
    using run unfolding in_workspace_def prepare_def work_def read_file_def seq_reads seq_andthen .
  obtain r1 s1 where first: "prepare s = (r1, s1)" by (cases "prepare s")
  with prep have start: "\<forall>f \<in> ?fs. ln_files (ru_lane s1) f = ln_files (ru_lane s) f"
    unfolding leaves_def by blast
  show "\<forall>f \<in> ?fs. ln_files (ru_lane s') f = ln_files (ru_lane s) f"
  proof (cases r1)
    case (Inl e)
    with run' first start show ?thesis by (simp add: seq_def)
  next
    case (Inr e)
    with run' first have "seq (work e) (\<lambda>x. ret (e, x)) s1 = (r, s')" by (simp add: seq_def)
    then obtain r2 where "work e s1 = (r2, s')"
      by (auto simp: seq_def ret_def split: prod.splits sum.splits)
    then obtain s2 r3 where "restore p (mj_repo j) ?old_setup ?old_pyproject s2 = (r3, s')"
      unfolding work_def by (elim finally_files)
    from restore_puts_back [OF this removes] show ?thesis by (simp add: settings_files_def)
  qed
qed

lemma leaves_sampled_policy:
  assumes "spares_settings p (mj_repo j) (mj_sampling j)"
  shows "leaves (settings_files (mj_repo j)) (sampled_policy p j)"
proof -
  have sample: "leaves (settings_files (mj_repo j)) (apply_sampling_policy (mj_sampling j) source policy)" for source policy
  proof (cases "mj_sampling j")
    case None
    then show ?thesis by (simp add: apply_sampling_policy_def leaving)
  next
    case (Some select)
    then show ?thesis using assms
      unfolding apply_sampling_policy_def spares_settings_def by (auto intro!: leaving)
  qed
  show ?thesis
    unfolding sampled_policy_def build_generation_policy_def Let_def
    using assms by (intro leaving sample) (auto simp: spares_settings_def settings_differ)
qed

lemma leaves_scored_mutation:
  "spares_settings p (mj_repo j) sampling \<Longrightarrow> leaves (settings_files (mj_repo j)) (scored_mutation p j policy)"
  unfolding scored_mutation_def Let_def policy_artifact_def split_beta
  by (intro leaving leaves_workspace) auto


section \<open>A run on concrete ports\<close>

definition sample_ports :: "unit gate_ports" where
  "sample_ports = \<lparr>
     lp_spawn = (\<lambda>command cwd environment timeout. ret (Exited 0 [] [])),
     lp_parse_xml = (\<lambda>content. Some [\<lparr>cc_filename = ''pkg/a.py'', cc_lines = [(''3'', ''1''), (''4'', ''0'')]\<rparr>]),
     lp_pytest_env = (\<lambda>dir tests e. ret e), lp_script = ''pytest_process.py'',
     mp_opportunities = (\<lambda>file source changed covered. ret \<lparr>oo_eligible = [], oo_selected = [], oo_suppressed = []\<rparr>),
     mp_file_size = (\<lambda>file. ret 0), mp_sha256 = (\<lambda>s. s), mp_dumps = (\<lambda>d. []), mp_dumps_texts = concat,
     mp_loads = (\<lambda>s. Some (PDict [(''exit_code_by_key'', PDict [(''a.f__mutmut_1'', PInt 1)])])),
     mp_shown = (\<lambda>v. []), mp_set_order = (\<lambda>xs. xs), mp_parse = (\<lambda>s. None),
     mp_plan_from_meta = (\<lambda>source test changed tests policy. raise ''unused''),
     mp_meta_files = (\<lambda>dir. ret [(''a.py.meta'', Some ''{}'')]), mp_remove_tree = (\<lambda>dir. ret ()),
     mp_module = (\<lambda>repo source. ret ''pkg.a''), mp_write_compat = (\<lambda>repo source name. ret ''compat''),
     mp_support_paths = (\<lambda>repo source tests. ret []), mp_pytest_args = (\<lambda>repo tests. ret []),
     mp_runner = (\<lambda>python tests. ''pytest''), mp_bootstrap = [], mp_factor = 1, mp_environ = [],
     gp_runtime = (\<lambda>language chosen. ret \<lparr>py_bin = ''python'', py_mutmut = ''mutmut'', py_is_python2 = True,
        py_profile = ''py2''\<rparr>),
     gp_changed_paths = (\<lambda>repo base. ret [''pkg/a.py'']),
     gp_changed_lines = (\<lambda>repo base sources. ret [(''pkg/a.py'', [3])]),
     gp_production = (\<lambda>path. True), gp_syntax_error = (\<lambda>repo sources. ret None),
     gp_executable_lines = (\<lambda>repo source. ret (Some {3})),
     gp_candidates = (\<lambda>repo source tests. ret [''tests/test_a.py'']),
     gp_overlay = (\<lambda>repo source test python timeout. ret (None, False, None)), gp_overlay_env = (\<lambda>dir. []),
     gp_digest = (\<lambda>d. []), gp_fixed2 = (\<lambda>q. [])\<rparr>"

definition sample_request :: enforcement_request where
  "sample_request = \<lparr>er_repo = ''/repo'', er_language = ''Python'',
     er_targets = [target_for ''pkg/a.py''], er_tests = [], er_base_ref = ''main'',
     er_gates = \<lparr>qg_coverage = Some 1, qg_mutation = Some 1\<rparr>,
     er_runtime = \<lparr>rn_python = None, rn_overlay = False, rn_timeout = 60, rn_total_timeout = 600,
       rn_syntax = Some ''python2''\<rparr>\<rparr>"

definition sample_paths :: path_ports where
  "sample_paths = \<lparr>pt_resolve = (\<lambda>p. split_on (CHR ''/'') p), pt_exists = (\<lambda>p. True), pt_is_dir = (\<lambda>p. True)\<rparr>"

definition sample_lane :: "unit lane" where
  "sample_lane = \<lparr>ln_files = (\<lambda>p. Some []), ln_world = ()\<rparr>"


definition sample_setting :: gate_setting where
  "sample_setting = setting_of sample_request
     \<lparr>py_bin = ''python'', py_mutmut = ''mutmut'', py_is_python2 = True, py_profile = ''py2''\<rparr>
     [(''pkg/a.py'', [3])]"

definition sample_run :: "unit run" where
  "sample_run = \<lparr>ru_lane = sample_lane, ru_commands = []\<rparr>"

lemma reads_eq: "reads f s = (Inr (f s), s)"
  by (simp add: reads_run)

lemma sample_stages:
  "case run_coverage (lane_ports.truncate sample_ports) ''/repo'' ''pkg/a.py'' ''tests/test_a.py''
      [(''pkg/a.py'', [3])] 100 ''python'' 60 [] sample_run of
     (Inl e, s) \<Rightarrow> False
   | (Inr cov, s) \<Rightarrow> passed_in cov \<and>
      (case mutation_stage sample_ports sample_setting None ''pkg/a.py'' ''tests/test_a.py'' [] cov s of
         (Inl e, s') \<Rightarrow> False
       | (Inr mut, s') \<Rightarrow> passed_in mut)"
  by code_simp

lemma two_stages:
  assumes "case m of (Inl e, s) \<Rightarrow> False | (Inr x, s) \<Rightarrow> ok x
      \<and> (case n x s of (Inl e, s') \<Rightarrow> False | (Inr y, s') \<Rightarrow> good y)"
  shows "\<exists>x s1 y s2. m = (Inr x, s1) \<and> ok x \<and> n x s1 = (Inr y, s2) \<and> good y"
proof -
  obtain r s1 where m: "m = (r, s1)" by (cases m)
  with assms obtain x where x: "r = Inr x" by (cases r) auto
  obtain r' s2 where n: "n x s1 = (r', s2)" by (cases "n x s1")
  with assms m x obtain y where "r' = Inr y" by (cases r') auto
  with assms m x n show ?thesis by simp
qed

lemma sample_candidate:
  obtains ev s where "run_candidate sample_ports sample_setting None ''pkg/a.py'' ''tests/test_a.py'' sample_run = (Inr ev, s)"
    "is_passed ev"
proof -
  from sample_stages obtain cov s1 mut s2 where
    cov: "run_coverage (lane_ports.truncate sample_ports) ''/repo'' ''pkg/a.py'' ''tests/test_a.py''
      [(''pkg/a.py'', [3])] 100 ''python'' 60 [] sample_run = (Inr cov, s1)" "passed_in cov"
    and mut: "mutation_stage sample_ports sample_setting None ''pkg/a.py'' ''tests/test_a.py'' [] cov s1 = (Inr mut, s2)"
      "passed_in mut"
    using two_stages [OF sample_stages] by blast
  have gs: "gs_repo sample_setting = ''/repo''" "gs_changed sample_setting = [(''pkg/a.py'', [3])]"
    "gs_cov_gate sample_setting = 100" "py_bin (gs_runtime sample_setting) = ''python''"
    "gs_timeout sample_setting = 60" "\<not> gs_overlay sample_setting"
    by (simp_all add: sample_setting_def setting_of_def sample_request_def gate_of_def)
  have "overlay_stage sample_ports sample_setting ''pkg/a.py'' ''tests/test_a.py'' sample_run = (Inr (None, []), sample_run)"
    using gs(6) by (simp add: overlay_stage_def res_simps)
  then have "run_candidate sample_ports sample_setting None ''pkg/a.py'' ''tests/test_a.py'' sample_run
    = (Inr (candidate_evidence sample_ports sample_setting ''tests/test_a.py'' None cov mut
        (drop (length (ru_commands sample_run)) (ru_commands s2))), s2)"
    unfolding run_candidate_def gs
    by (simp add: seq_def cov(1) mut(1) reads_eq ret_run)
  with cov mut show thesis by (intro that) (auto simp: candidate_evidence_gets)
qed

lemma sample_target:
  obtains ev s where "enforce_target sample_ports sample_setting None [] (target_for ''pkg/a.py'') sample_run
    = (Inr (target_outcome (target_for ''pkg/a.py'') ev), s)" "is_passed ev"
proof -
  obtain ev s where ev: "run_candidate sample_ports sample_setting None ''pkg/a.py'' ''tests/test_a.py'' sample_run = (Inr ev, s)"
    "is_passed ev" by (rule sample_candidate)
  have gs: "gs_repo sample_setting = ''/repo''" "gs_changed sample_setting = [(''pkg/a.py'', [3])]"
    by (simp_all add: sample_setting_def setting_of_def sample_request_def)
  have shortcut: "only_non_executable sample_ports ''/repo'' ''pkg/a.py'' [3] sample_run = (Inr False, sample_run)"
    by (simp add: only_non_executable_def lane_runs sample_ports_def)
  have tests: "on_lane (gp_candidates sample_ports ''/repo'' ''pkg/a.py'' []) sample_run
    = (Inr [''tests/test_a.py''], sample_run)"
    by (simp add: lane_runs sample_ports_def)
  have tried: "try_candidates sample_ports sample_setting None ''pkg/a.py'' [''tests/test_a.py''] sample_run
    = (Inr [(''tests/test_a.py'', ev)], s)"
    using ev by (auto simp: res_simps)
  have "enforce_target sample_ports sample_setting None [] (target_for ''pkg/a.py'') sample_run
    = (Inr (target_outcome (target_for ''pkg/a.py'')
        (chosen_evidence [''tests/test_a.py''] [(''tests/test_a.py'', ev)])), s)"
    unfolding enforce_target_def Let_def
    by (simp add: gs lines_of_def target_for_def seq_def shortcut tests tried ret_run
        del: try_candidates.simps)
  moreover have "is_passed (chosen_evidence [''tests/test_a.py''] [(''tests/test_a.py'', ev)])"
    using ev(2) by (simp add: chosen_evidence_gets chosen_def)
  ultimately show thesis by (rule that)
qed

lemma sample_gate:
  obtains res l where "enforce sample_paths [(''python'', python_binding sample_ports)]
      \<lparr>ic_sampling = None\<rparr> sample_request sample_lane = (Inr res, l)" "ef_status res = ''passed''"
proof -
  obtain ev s where ev: "enforce_target sample_ports sample_setting None [] (target_for ''pkg/a.py'') sample_run
    = (Inr (target_outcome (target_for ''pkg/a.py'') ev), s)" "is_passed ev" by (rule sample_target)
  let ?results = "[target_outcome (target_for ''pkg/a.py'') ev]"
  let ?runtime = "\<lparr>py_bin = ''python'', py_mutmut = ''mutmut'', py_is_python2 = True, py_profile = ''py2''\<rparr>"
  have targets: "enforce_targets sample_ports sample_setting None [] [target_for ''pkg/a.py''] sample_run
    = (Inr ?results, s)"
    using ev(1) by (auto simp: res_simps)
  have rt: "on_lane (gp_runtime sample_ports v b) sample_run = (Inr ?runtime, sample_run)" for v b
    by (simp add: lane_runs sample_ports_def)
  have lines: "on_lane (gp_changed_lines sample_ports v b f) sample_run
    = (Inr [(''pkg/a.py'', [3])], sample_run)" for v b f
    by (simp add: lane_runs sample_ports_def)
  let ?res = "overall_result sample_ports sample_setting ?results (ru_commands s)"
  have "python_lane_run sample_ports sample_request None sample_run = (Inr ?res, s)"
    using rt lines targets unfolding python_lane_run_def Let_def seq_Inr resolve_enforcement_targets_def
    by (auto simp: sample_request_def res_simps sample_setting_def)
  then have run: "bd_enforce (python_binding sample_ports) sample_request \<lparr>ic_sampling = None\<rparr> sample_lane
    = (Inr ?res, ru_lane s)"
    by (simp add: python_binding_def python_enforce_def sample_run_def)
  have "validate_request sample_paths sample_request = Inr ()" by code_simp
  then have "request_ok sample_paths sample_request" by (simp add: validate_request_Inr)
  moreover have "registry_get [(''python'', python_binding sample_ports)] (er_language sample_request) = Inr (python_binding sample_ports)"
  proof -
    have "normalize_language ''Python'' = ''python''" by code_simp
    then show ?thesis by (simp add: registry_get_def sample_request_def)
  qed
  moreover have "capable (python_binding sample_ports) sample_request \<lparr>ic_sampling = None\<rparr>"
    by (simp add: capable_def python_binding_def python_capabilities_def)
  ultimately have "enforce sample_paths [(''python'', python_binding sample_ports)]
      \<lparr>ic_sampling = None\<rparr> sample_request sample_lane = (Inr ?res, ru_lane s)"
    using run overall_result_ok [of sample_ports sample_setting ?results "ru_commands s"]
    unfolding enforce_returns by blast
  then show thesis using ev(2) by (intro that) (auto simp: target_outcome_def)
qed

section \<open>Promises of the gate\<close>


lemma sample_registry: "make_registry [python_binding sample_ports] = Inr [(''python'', python_binding sample_ports)]"
proof -
  have "register [] (python_binding sample_ports) = Inr [(''python'', python_binding sample_ports)]"
    by (simp add: register_Inr python_name)
  then show ?thesis by (simp add: make_registry_def)
qed

lemma sample_language: "normalize_language (er_language sample_request) = ''python''"
  by code_simp


text \<open>
  C28: The dispatch returns a result exactly when the request is valid, the registered
  binding of its normalized language has the capabilities asked for and returned that well-
  formed result; when it raises, the world is unchanged or is what that one run of the
  binding left for a valid request.
\<close>

theorem dispatch_lets_valid_requests_through:
  assumes "make_registry bs = Inr registry"
  shows "(enforce pp registry ctx r w = (Inr res, w') \<longleftrightarrow> request_ok pp r \<and> result_ok res
        \<and> (\<exists>b \<in> set bs. name_of b = normalize_language (er_language r) \<and> capable b r ctx
             \<and> bd_enforce b r ctx w = (Inr res, w')))
    \<and> (\<forall>e w'. enforce pp registry ctx r w = (Inl e, w') \<longrightarrow> w' = w \<or> (request_ok pp r
        \<and> (\<exists>b \<in> set bs. name_of b = normalize_language (er_language r) \<and> capable b r ctx
             \<and> w' = snd (bd_enforce b r ctx w))))"
proof (intro conjI allI impI)
  show "enforce pp registry ctx r w = (Inr res, w') \<longleftrightarrow> request_ok pp r \<and> result_ok res
        \<and> (\<exists>b \<in> set bs. name_of b = normalize_language (er_language r) \<and> capable b r ctx
             \<and> bd_enforce b r ctx w = (Inr res, w'))"
    by (auto simp: enforce_returns registry_get_iff [OF assms])
next
  fix e w' assume "enforce pp registry ctx r w = (Inl e, w')"
  from enforce_refuses [OF this] show "w' = w \<or> (request_ok pp r
        \<and> (\<exists>b \<in> set bs. name_of b = normalize_language (er_language r) \<and> capable b r ctx
             \<and> w' = snd (bd_enforce b r ctx w)))"
    by (auto simp: registry_get_iff [OF assms])
qed

lemma dispatch_lets_valid_requests_through_witness:
  "\<exists>res l. enforce sample_paths [(''python'', python_binding sample_ports)] \<lparr>ic_sampling = None\<rparr>
       sample_request sample_lane = (Inr res, l) \<and> request_ok sample_paths sample_request"
proof -
  obtain res l where run: "enforce sample_paths [(''python'', python_binding sample_ports)]
      \<lparr>ic_sampling = None\<rparr> sample_request sample_lane = (Inr res, l)" "ef_status res = ''passed''"
    by (rule sample_gate)
  with dispatch_lets_valid_requests_through [OF sample_registry, of sample_paths "\<lparr>ic_sampling = None\<rparr>"
      sample_request sample_lane res l] show ?thesis by blast
qed

definition sample_job :: "unit mutation_job" where
  "sample_job = \<lparr>mj_repo = ''/repo'', mj_source = ''pkg/a.py'', mj_test = ''tests/test_a.py'',
     mj_changed = [(''pkg/a.py'', [3])], mj_gate = 100, mj_mutmut = ''mutmut'', mj_timeout = 60,
     mj_python = ''python'', mj_syntax = ''python2'', mj_sampling = None, mj_env = []\<rparr>"


lemma mutation_evidence_typed_witness:
  "\<exists>mut. mutation_typed mut \<and> passed_in mut"
proof -
  from two_stages [OF sample_stages] obtain cov s1 mut s2 where
    "mutation_stage sample_ports sample_setting None ''pkg/a.py'' ''tests/test_a.py'' [] cov s1 = (Inr mut, s2)"
    "passed_in mut" by blast
  with mutation_evidence_typed show ?thesis by blast
qed

end
