(* ===== verification/LedgerRefinement.thy ===== *)
theory LedgerRefinement
  imports OperationFacts
begin

text \<open>
  The ledger as its callers see it: an operation is unclaimed, at work or closed with a report.
  The rows, transactions and error branches of \<open>operation_repository.py\<close> refine that
  three-state machine, call by call and along every run.
\<close>

section \<open>Refinement\<close>

text \<open>
  A concrete step either performs the step of the specification on the abstract state or, when
  it is refused, leaves the concrete state alone.
\<close>

locale refined_by =
  fixes inv :: "'s \<Rightarrow> bool"
    and view :: "'s \<Rightarrow> 'a"
    and step :: "'c \<Rightarrow> 's \<Rightarrow> 's"
    and accepts :: "'c \<Rightarrow> 's \<Rightarrow> bool"
    and spec :: "'c \<Rightarrow> 'a \<Rightarrow> 'a"
  assumes inv_step: "inv s \<Longrightarrow> inv (step c s)"
    and simulates: "inv s \<Longrightarrow> accepts c s \<Longrightarrow> view (step c s) = spec c (view s)"
    and refused: "\<not> accepts c s \<Longrightarrow> step c s = s"
begin

fun accepted :: "'c list \<Rightarrow> 's \<Rightarrow> 'c list" where
  "accepted [] s = []"
| "accepted (c # cs) s = (if accepts c s then c # accepted cs (step c s) else accepted cs s)"

lemma run_refines:
  "inv s \<Longrightarrow> inv (foldl (\<lambda>s c. step c s) s cs)
     \<and> view (foldl (\<lambda>s c. step c s) s cs) = foldl (\<lambda>a c. spec c a) (view s) (accepted cs s)"
proof (induction cs arbitrary: s)
  case (Cons c cs)
  show ?case
  proof (cases "accepts c s")
    case True
    then show ?thesis using Cons.IH [OF inv_step [OF Cons.prems]] simulates [OF Cons.prems] by simp
  next
    case False
    then show ?thesis using Cons.IH [OF Cons.prems] by (simp add: refused)
  qed
qed simp

lemma accepted_subset: "set (accepted cs s) \<subseteq> set cs"
  by (induction cs arbitrary: s) auto

end

section \<open>The specification\<close>

record report =
  rp_workspace :: "str option"
  rp_path :: "str option"
  rp_sha :: "str option"
  rp_outputs :: fingerprints
  rp_error_kind :: "str option"
  rp_error :: "str option"

datatype op_view = Unclaimed | Working op_claim | Closed op_claim op_status report

definition no_report :: report where
  "no_report = \<lparr>rp_workspace = None, rp_path = None, rp_sha = None, rp_outputs = [],
     rp_error_kind = None, rp_error = None\<rparr>"

definition claim_view :: "op_claim \<Rightarrow> (str \<Rightarrow> op_view) \<Rightarrow> str \<Rightarrow> op_view" where
  "claim_view c a = (if a (cl_id c) = Unclaimed then a(cl_id c := Working c) else a)"

definition close_view :: "str \<Rightarrow> op_status \<Rightarrow> report \<Rightarrow> (str \<Rightarrow> op_view) \<Rightarrow> str \<Rightarrow> op_view" where
  "close_view i status rep a = (case a i of Working c \<Rightarrow> a(i := Closed c status rep) | _ \<Rightarrow> a)"

definition error_report :: "str \<Rightarrow> str \<Rightarrow> report" where
  "error_report k e = no_report\<lparr>rp_error_kind := Some k, rp_error := Some e\<rparr>"

fun ledger_spec :: "ledger_call \<Rightarrow> (str \<Rightarrow> op_view) \<Rightarrow> str \<Rightarrow> op_view" where
  "ledger_spec (CallStartOp now c session) = claim_view c"
| "ledger_spec (CallCompleteOp now i e session) = close_view i Completed
     \<lparr>rp_workspace = Some (ev_workspace e), rp_path = Some (ev_path e), rp_sha = Some (ev_sha e),
      rp_outputs = ev_outputs e, rp_error_kind = None, rp_error = None\<rparr>"
| "ledger_spec (CallFailOp now i k e) = close_view i Failed (error_report k e)"
| "ledger_spec (CallCancelOp now i out) = close_view i Cancelled
     \<lparr>rp_workspace = oc_workspace out, rp_path = oc_path out, rp_sha = oc_sha out,
      rp_outputs = (case oc_outputs out of None \<Rightarrow> [] | Some d \<Rightarrow> d),
      rp_error_kind = Some (oc_error_kind out), rp_error = Some (oc_error out)\<rparr>"
| "ledger_spec (CallRetryOp now i c k) = (\<lambda>a. claim_view c (close_view i Failed (error_report k k) a))"
| "ledger_spec (CallCost i n c u) = (\<lambda>a. a)"

section \<open>The abstraction\<close>

definition claim_of :: "op_row \<Rightarrow> op_claim" where
  "claim_of r = \<lparr>cl_id = op_id r, cl_slot = \<lparr>slot_task = op_task r, slot_run = op_run r, slot_unit = op_unit r,
     slot_phase = op_phase r, slot_step = op_step r, slot_attempt = op_attempt r\<rparr>,
     cl_ordinal = op_ordinal r, cl_input = op_input r, cl_prerequisites = op_prerequisites r,
     cl_schema = op_schema r\<rparr>"

definition report_of :: "op_row \<Rightarrow> report" where
  "report_of r = \<lparr>rp_workspace = op_workspace r, rp_path = op_path r, rp_sha = op_sha r,
     rp_outputs = op_outputs r, rp_error_kind = op_error_kind r, rp_error = op_error r\<rparr>"

definition row_view :: "op_row option \<Rightarrow> op_view" where
  "row_view x = (case x of None \<Rightarrow> Unclaimed
     | Some r \<Rightarrow> if op_status r = Started then Working (claim_of r)
         else Closed (claim_of r) (op_status r) (report_of r))"

definition ledger_view :: "ledger \<Rightarrow> str \<Rightarrow> op_view" where
  "ledger_view s i = row_view (get_operation i s)"

text \<open>A row at work has no report and no successor yet.\<close>

definition blank_row :: "op_row \<Rightarrow> bool" where
  "blank_row r = (op_status r = Started \<longrightarrow> report_of r = no_report \<and> op_successor r \<in> {None, Some []})"

definition ledger_ok :: "ledger \<Rightarrow> bool" where
  "ledger_ok s = (\<forall>i r. get_operation i s = Some r \<longrightarrow> blank_row r)"

definition ledger_accepts :: "ledger_call \<Rightarrow> ledger \<Rightarrow> bool" where
  "ledger_accepts c s = (case c of
     CallStartOp now cl session \<Rightarrow> \<not> isl (fst (start_operation now cl session s))
   | CallCompleteOp now i e session \<Rightarrow> \<not> isl (fst (complete_operation now i e session s))
   | CallFailOp now i k e \<Rightarrow> \<not> isl (fst (fail_operation now i k e s))
   | CallCancelOp now i out \<Rightarrow> \<not> isl (fst (cancel_operation now i out s))
   | CallRetryOp now i cl k \<Rightarrow> \<not> isl (fst (retry_operation now i cl k s))
   | CallCost i n x u \<Rightarrow> \<not> isl (fst (record_cost i n x u s)))"


section \<open>The ledger refines it\<close>

lemma claim_of_rows [simp]:
  "claim_of (claimed_row now c session) = c" "claim_of (completed_row now e session r) = claim_of r"
  "claim_of (finished_row now st out r) = claim_of r" "claim_of (interrupted_row now k r) = claim_of r"
  "claim_of (r\<lparr>op_successor := x, op_updated := now\<rparr>) = claim_of r"
  by (simp_all add: claim_of_def claimed_row_def completed_row_def finished_row_def interrupted_row_def)

lemma report_of_successor [simp]: "report_of (r\<lparr>op_successor := x, op_updated := now\<rparr>) = report_of r"
  by (simp add: report_of_def)

lemma blank_rows [simp]:
  "blank_row (claimed_row now c session)" "blank_row (completed_row now e session r)"
  "blank_row (interrupted_row now k r)" "st \<noteq> Started \<Longrightarrow> blank_row (finished_row now st out r)"
  "op_status r \<noteq> Started \<Longrightarrow> blank_row r"
  by (simp_all add: blank_row_def report_of_def no_report_def claimed_row_def completed_row_def
      interrupted_row_def finished_row_def)

lemma ledger_okD: "ledger_ok s \<Longrightarrow> get_operation i s = Some r \<Longrightarrow> blank_row r"
  by (auto simp: ledger_ok_def)

definition closing :: "str \<Rightarrow> (op_row \<Rightarrow> op_row) \<Rightarrow> ledger \<Rightarrow> ledger" where
  "closing i f s = s\<lparr>operations := update_rows (\<lambda>r. op_id r = i \<and> op_status r = Started) f (operations s)\<rparr>"

lemma get_closing:
  "(\<And>r. op_id (f r) = op_id r) \<Longrightarrow> get_operation j (closing i f s)
     = map_option (\<lambda>r. if op_id r = i \<and> op_status r = Started then f r else r) (get_operation j s)"
  by (simp add: closing_def get_operation_def table_simps)

lemma view_closing:
  assumes ok: "ledger_ok s"
    and f: "\<And>r. op_id (f r) = op_id r" "\<And>r. claim_of (f r) = claim_of r" "\<And>r. op_status (f r) = st"
    and st: "st \<noteq> Started" and rep: "\<And>r. report_of r = no_report \<Longrightarrow> report_of (f r) = rep"
  shows "ledger_ok (closing i f s) \<and> ledger_view (closing i f s) = close_view i st rep (ledger_view s)"
proof
  show "ledger_ok (closing i f s)"
    using ok st f(3) by (auto simp: ledger_ok_def get_closing [OF f(1)] split: if_splits)
  show "ledger_view (closing i f s) = close_view i st rep (ledger_view s)"
  proof
    fix j
    show "ledger_view (closing i f s) j = close_view i st rep (ledger_view s) j"
    proof (cases "get_operation j s")
      case None
      then show ?thesis
        by (cases "ledger_view s i") (auto simp: ledger_view_def row_view_def get_closing [OF f(1)] close_view_def)
    next
      case (Some r)
      have "report_of (f r) = rep" if "op_status r = Started"
        using that ledger_okD [OF ok Some] rep by (simp add: blank_row_def)
      then show ?thesis
        using Some st f get_operation_id [OF Some]
        by (cases "j = i"; cases "ledger_view s i")
          (auto simp: ledger_view_def row_view_def get_closing [OF f(1)] close_view_def split: if_splits)
    qed
  qed
qed

lemma view_insert:
  assumes "ledger_ok s" "get_operation (cl_id c) s = None"
  shows "ledger_ok (s\<lparr>operations := operations s @ [claimed_row now c session]\<rparr>)
    \<and> ledger_view (s\<lparr>operations := operations s @ [claimed_row now c session]\<rparr>) = claim_view c (ledger_view s)"
  using assms
  by (auto simp: ledger_ok_def ledger_view_def row_view_def claim_view_def get_operation_def table_simps
      fun_eq_iff claimed_row_def [of now c session, THEN arg_cong, of op_status] split: option.splits if_splits)


lemma claimed_status [simp]: "op_status (claimed_row now c session) = Started"
  by (simp add: claimed_row_def)

lemma view_claimed: "get_operation (cl_id c) s \<noteq> None \<Longrightarrow> claim_view c (ledger_view s) = ledger_view s"
  by (auto simp: claim_view_def ledger_view_def row_view_def split: option.splits)

lemma view_not_started:
  "get_operation i s = Some r \<Longrightarrow> op_status r \<noteq> Started \<Longrightarrow> close_view i st rep (ledger_view s) = ledger_view s"
  by (simp add: close_view_def ledger_view_def row_view_def)

definition refines_call :: "bool \<Rightarrow> ((str \<Rightarrow> op_view) \<Rightarrow> str \<Rightarrow> op_view) \<Rightarrow> ledger \<Rightarrow> ledger \<Rightarrow> bool" where
  "refines_call accepted f s s' = (ledger_ok s' \<and> ledger_view s' = (if accepted then f (ledger_view s) else ledger_view s)
     \<and> (\<not> accepted \<longrightarrow> s' = s))"

lemma refines_start:
  "ledger_ok s \<Longrightarrow> refines_call (\<not> isl (fst (start_operation now c session s))) (claim_view c) s
     (snd (start_operation now c session s))"
  using view_insert [of s c now session] view_claimed [of c s]
  by (auto simp: refines_call_def start_cases split: option.splits)

lemma refines_complete:
  assumes "ledger_ok s"
  shows "refines_call (\<not> isl (fst (complete_operation now i e session s)))
    (close_view i Completed \<lparr>rp_workspace = Some (ev_workspace e), rp_path = Some (ev_path e), rp_sha = Some (ev_sha e),
      rp_outputs = ev_outputs e, rp_error_kind = None, rp_error = None\<rparr>) s
    (snd (complete_operation now i e session s))"
proof -
  note step = view_closing [OF assms, of "completed_row now e session" Completed
      "\<lparr>rp_workspace = Some (ev_workspace e), rp_path = Some (ev_path e), rp_sha = Some (ev_sha e),
      rp_outputs = ev_outputs e, rp_error_kind = None, rp_error = None\<rparr>" i]
  have "ledger_ok (closing i (completed_row now e session) s)
    \<and> ledger_view (closing i (completed_row now e session) s) = close_view i Completed
      \<lparr>rp_workspace = Some (ev_workspace e), rp_path = Some (ev_path e), rp_sha = Some (ev_sha e),
      rp_outputs = ev_outputs e, rp_error_kind = None, rp_error = None\<rparr> (ledger_view s)"
    by (rule step) (simp_all add: completed_row_def report_of_def no_report_def claim_of_def)
  then show ?thesis
    using assms view_not_started [of i s]
    by (auto simp: refines_call_def complete_cases closing_def split: option.splits)
qed

lemma refines_finish:
  assumes "ledger_ok s" "st \<noteq> Started"
    and rep: "rep = \<lparr>rp_workspace = oc_workspace out, rp_path = oc_path out, rp_sha = oc_sha out,
      rp_outputs = (case oc_outputs out of None \<Rightarrow> [] | Some d \<Rightarrow> d),
      rp_error_kind = Some (oc_error_kind out), rp_error = Some (oc_error out)\<rparr>"
  shows "refines_call (\<not> isl (fst (finish_operation now i st out s))) (close_view i st rep) s
    (snd (finish_operation now i st out s))"
proof -
  have "ledger_ok (closing i (finished_row now st out) s)
    \<and> ledger_view (closing i (finished_row now st out) s) = close_view i st rep (ledger_view s)"
    by (rule view_closing [OF assms(1)])
      (simp_all add: assms(2) rep, simp_all add: finished_row_def report_of_def no_report_def coalesce_def split: option.splits)
  then show ?thesis
    using assms view_not_started [of i s]
    by (auto simp: refines_call_def finish_cases closing_def split: option.splits)
qed


lemma interrupted_report [simp]:
  "op_status (interrupted_row now k r) = Failed"
  "report_of r = no_report \<Longrightarrow> report_of (interrupted_row now k r) = error_report k k"
  by (simp_all add: interrupted_row_def report_of_def no_report_def error_report_def)

lemma blank_successor:
  "op_status r \<noteq> Started \<Longrightarrow> blank_row (r\<lparr>op_successor := x, op_updated := now\<rparr>)"
  by (simp add: blank_row_def)

lemma refines_retry:
  assumes "ledger_ok s"
  shows "refines_call (\<not> isl (fst (retry_operation now i c k s)))
    (\<lambda>a. claim_view c (close_view i Failed (error_report k k) a)) s (snd (retry_operation now i c k s))"
proof (cases "get_operation i s")
  case None
  then show ?thesis
    using assms by (simp add: refines_call_def retry_operation_def transaction_def seq_def require_None)
next
  case (Some old)
  note blank = ledger_okD [OF assms Some]
  show ?thesis
  proof (cases "op_successor old = None \<or> op_successor old = Some []")
    case False
    then obtain j where j: "op_successor old = Some j" "j \<noteq> []" by auto
    moreover from this blank have "op_status old \<noteq> Started" by (auto simp: blank_row_def)
    ultimately show ?thesis
      using assms Some view_claimed [of c s]
      by (auto simp: refines_call_def retry_closed view_not_started split: option.splits)
  next
    case open_row: True
    show ?thesis
    proof (cases "cl_id c = i")
      case True
      have taken: "insert_operation (claimed_row now c None) t = (Inl ConstraintError, t)"
        if "get_operation i t \<noteq> None" for t
        using that True by (simp add: insert_operation_def)
      have there: "get_operation i (closing i (interrupted_row now k) s) \<noteq> None"
        using Some by (simp add: get_closing)
      have "\<exists>e. retry_operation now i c k s = (Inl e, s)"
        unfolding retry_operation_def transaction_def
          seq_run [of "require_operation i", OF require_Some [OF Some]]
        using open_row Some there taken [of s] taken [OF there]
        by (auto simp: raise_def andthen_eq ret_def set_operation_def modifies_def closing_def)
      then show ?thesis using assms by (auto simp: refines_call_def)
    next
      case False
      let ?new = "retried now i c k (op_status old = Started) s"
      have "refines_call True (\<lambda>a. claim_view c (close_view i Failed (error_report k k) a)) s ?new"
        if fresh: "get_operation (cl_id c) s = None"
      proof -
        have closed_view: "close_view i Failed (error_report k k) (ledger_view s) = (ledger_view s)(i :=
            if op_status old = Started then Closed (claim_of old) Failed (error_report k k) else ledger_view s i)"
          using Some by (simp add: close_view_def fun_eq_iff) (simp add: ledger_view_def row_view_def)
        have view: "ledger_view ?new j = claim_view c (close_view i Failed (error_report k k) (ledger_view s)) j" for j
        proof (cases "j = i")
          case True
          then show ?thesis
            unfolding closed_view using Some fresh False blank get_operation_id [OF Some]
            by (cases "op_status old = Started")
              (simp_all add: ledger_view_def row_view_def get_retried [OF fresh] claim_view_def
                interrupted_report blank_row_def)
        next
          case other: False
          then show ?thesis
            unfolding closed_view using fresh False get_operation_id [of j s]
            by (cases "get_operation j s")
              (simp_all add: ledger_view_def row_view_def get_retried [OF fresh] claim_view_def)
        qed
        have "blank_row r" if get: "get_operation j ?new = Some r" for j r
        proof (cases "j = cl_id c \<or> j = i")
          case True
          then show ?thesis
            using get Some fresh False get_operation_id [OF Some]
            by (cases "op_status old = Started") (auto simp: get_retried [OF fresh] blank_successor)
        next
          case other: False
          then show ?thesis
            using get get_operation_id [of j s] ledger_okD [OF assms, of j]
            by (cases "get_operation j s") (simp_all add: get_retried [OF fresh])
        qed
        then have "ledger_ok ?new" by (simp add: ledger_ok_def)
        with view show ?thesis by (auto simp: refines_call_def)
      qed
      then show ?thesis
        using assms by (auto simp: retry_fresh [OF Some open_row False] refines_call_def)
    qed
  qed
qed

lemma refines_cost:
  assumes "ledger_ok s"
  shows "refines_call (\<not> isl (fst (record_cost i n x u s))) (\<lambda>a. a) s (snd (record_cost i n x u s))"
proof -
  have "operations (snd (record_cost i n x u s)) = operations s
    \<and> (isl (fst (record_cost i n x u s)) \<longrightarrow> snd (record_cost i n x u s) = s)"
    by (auto simp: record_cost_def transaction_def Let_def split: option.splits)
  then show ?thesis
    using assms by (auto simp: refines_call_def ledger_ok_def ledger_view_def get_operation_def fun_eq_iff)
qed

lemma refines_calls:
  assumes "ledger_ok s"
  shows "refines_call (ledger_accepts c s) (ledger_spec c) s (after_ledger_call c s)"
proof (cases c)
  case (CallFailOp now i k e)
  then show ?thesis
    using refines_finish [OF assms, of Failed _ "\<lparr>oc_error_kind = k, oc_error = e, oc_workspace = None, oc_path = None,
      oc_sha = None, oc_outputs = None, oc_session = None\<rparr>" now i, OF _ refl]
    by (simp add: ledger_accepts_def fail_operation_def error_report_def no_report_def)
next
  case (CallCancelOp now i out)
  then show ?thesis
    using refines_finish [OF assms, of Cancelled _ out now i, OF _ refl]
    by (simp add: ledger_accepts_def cancel_operation_def)
qed (use refines_start [OF assms] refines_complete [OF assms] refines_retry [OF assms] refines_cost [OF assms]
  in \<open>simp_all add: ledger_accepts_def\<close>)

lemma refused_call: "\<not> ledger_accepts c s \<Longrightarrow> after_ledger_call c s = s"
  by (cases c) (auto simp: ledger_accepts_def start_operation_def complete_operation_def fail_operation_def
      cancel_operation_def finish_operation_def retry_operation_def record_cost_def transaction_def
      split: prod.splits sum.splits)

interpretation ledger_machine: refined_by ledger_ok ledger_view after_ledger_call ledger_accepts ledger_spec
proof
  fix s c assume "ledger_ok s"
  from refines_calls [OF this, of c] show "ledger_ok (after_ledger_call c s)"
    and "ledger_accepts c s \<Longrightarrow> ledger_view (after_ledger_call c s) = ledger_spec c (ledger_view s)"
    by (simp_all add: refines_call_def)
qed (rule refused_call)


section \<open>Every run of the ledger\<close>

text \<open>The calls of a run that were not refused.\<close>

fun accepted_calls :: "ledger_call list \<Rightarrow> ledger \<Rightarrow> ledger_call list" where
  "accepted_calls [] s = []"
| "accepted_calls (c # cs) s = (if ledger_accepts c s then [c] else []) @ accepted_calls cs (after_ledger_call c s)"

lemma accepted_calls: "accepted_calls cs s = ledger_machine.accepted cs s"
  by (induction cs arbitrary: s) (auto simp: refused_call)

text \<open>
  C15: the operation ledger refines a machine in which an operation is unclaimed, at work or
  closed. Whatever calls follow one another, with their transactions, conflicts and
  constraints, what the callers can see is the machine after the calls that were not
  refused, and a refused call leaves every table alone. So an operation is claimed once,
  closed once with the report of the first closing call, and a retry closes an operation at
  work and claims its successor.
\<close>

theorem ledger_refines_the_machine:
  assumes "ledger_ok s"
  shows "ledger_view (foldl (\<lambda>s c. after_ledger_call c s) s cs)
      = foldl (\<lambda>a c. ledger_spec c a) (ledger_view s) (accepted_calls cs s)
    \<and> ledger_ok (foldl (\<lambda>s c. after_ledger_call c s) s cs)
    \<and> (\<forall>c. \<not> ledger_accepts c s \<longrightarrow> after_ledger_call c s = s)"
  using ledger_machine.run_refines [OF assms] refused_call by (simp add: accepted_calls)

definition sample_calls :: "ledger_call list" where
  "sample_calls = [CallCompleteOp 2 ''op1'' sample_evidence None, CallFailOp 3 ''op1'' ''k'' ''e'',
     CallStartOp 4 next_claim None]"

theorem ledger_refines_the_machine_witness:
  "ledger_view (foldl (\<lambda>s c. after_ledger_call c s) sample_ledger sample_calls) ''op1''
     = Closed sample_claim Completed \<lparr>rp_workspace = Some ''f1'', rp_path = Some ''run1/unit1/op1.json'',
         rp_sha = Some ''s1'', rp_outputs = [], rp_error_kind = None, rp_error = None\<rparr>
   \<and> ledger_view (foldl (\<lambda>s c. after_ledger_call c s) sample_ledger sample_calls) ''op2'' = Working next_claim"
proof -
  have "ledger_ok sample_ledger"
    by (auto simp: ledger_ok_def sample_ledger_def get_operation_def table_simps split: if_splits)
  note run = ledger_refines_the_machine [OF this, of sample_calls, THEN conjunct1]
  let ?closed = "completed_row 2 sample_evidence None (claimed_row 0 sample_claim None)"
  let ?s = "sample_ledger\<lparr>operations := [?closed]\<rparr>"
  have get: "get_operation ''op1'' ?s = Some ?closed" "get_operation (cl_id next_claim) ?s = None"
    by (simp_all add: get_operation_def table_simps sample_claim_def next_claim_def)
  have row: "op_status (claimed_row 0 sample_claim None) = Started" by simp
  have "complete_operation 2 ''op1'' sample_evidence None sample_ledger = (Inr ?closed, ?s)"
    using row by (simp add: complete_cases sample_get) (simp add: sample_ledger_def table_simps sample_claim_def)
  moreover have "fail_operation 3 ''op1'' ''k'' ''e'' ?s = (Inl (OperationConflict ''cannot become this status''), ?s)"
    by (simp add: fail_operation_def finish_cases get) (simp add: completed_row_def)
  moreover have "isl (fst (start_operation 4 next_claim None ?s)) = False"
    by (simp add: start_cases get) (simp add: next_claim_def sample_claim_def sample_slot_def operation_steps_def sample_ledger_def)
  ultimately have calls: "accepted_calls sample_calls sample_ledger
      = [CallCompleteOp 2 ''op1'' sample_evidence None, CallStartOp 4 next_claim None]"
    by (simp add: sample_calls_def ledger_accepts_def)
  have view: "ledger_view sample_ledger ''op1'' = Working sample_claim" "ledger_view sample_ledger ''op2'' = Unclaimed"
    by (simp_all add: ledger_view_def row_view_def sample_get)
      (simp add: sample_ledger_def get_operation_def table_simps sample_claim_def)
  show ?thesis unfolding run calls
    using view by (simp add: close_view_def claim_view_def next_claim_def sample_evidence_def)
qed

end
