(* ===== verification/JavaScoring.thy ===== *)
theory JavaScoring
  imports PyValue "HOL-Library.List_Lexorder" "HOL-Library.Char_ord" "HOL-Library.Product_Lexorder"
begin

text \<open>
  How expensive a Java method is to test and which methods to test first:
  \<open>uta/language/java/scoring/coverage_roi.py\<close>. The code graph is the one of
  \<open>parse/models.py\<close>: its nodes are a dictionary in insertion order, its edges a list.
  Scores are exact rationals. The report of JaCoCo is a parsed tree and the printing of a float
  a parameter; the cache key made of file times is not modelled.
\<close>

section \<open>The code graph\<close>

record complexity =
  cx_cyclomatic :: int
  cx_body_lines :: int
  cx_receivers :: "str list"

record graph_node =
  gn_kind :: str
  gn_line :: int
  gn_modifiers :: "str list"
  gn_annotations :: "str list"
  gn_return :: "str option"
  gn_params :: "(str \<times> str) list"
  gn_parent :: "str option"
  gn_field_type :: "str option"
  gn_complexity :: "complexity option"

record graph_edge =
  ge_source :: str
  ge_target :: str
  ge_relation :: str

record code_graph =
  cg_nodes :: "(str \<times> graph_node) list"
  cg_edges :: "graph_edge list"

definition dotted :: "str \<Rightarrow> str list" where
  "dotted fqn = split_on (CHR ''.'') fqn"

definition simple_name :: "str \<Rightarrow> str" where
  "simple_name fqn = last (dotted fqn)"

definition owner_name :: "str \<Rightarrow> str" where
  "owner_name fqn = join_with ''.'' (butlast (dotted fqn))"

definition method_calls :: "str \<Rightarrow> code_graph \<Rightarrow> str list" where
  "method_calls fqn g =
     map ge_target (filter (\<lambda>e. ge_source e = fqn \<and> ge_relation e = ''CALLS'') (cg_edges g))"

definition inside :: "str \<Rightarrow> str \<Rightarrow> bool" where
  "inside cls fqn = startswith fqn (cls @ ''.'')"

definition collaborator_calls :: "str \<Rightarrow> str \<Rightarrow> code_graph \<Rightarrow> str list" where
  "collaborator_calls fqn cls g = filter (\<lambda>c. \<not> inside cls c) (method_calls fqn g)"

definition fields_of :: "str \<Rightarrow> code_graph \<Rightarrow> (str \<times> graph_node) list" where
  "fields_of cls g = filter (\<lambda>(fqn, n). gn_kind n = ''field'' \<and> gn_parent n = Some cls) (cg_nodes g)"

definition class_field_types :: "str \<Rightarrow> code_graph \<Rightarrow> (str \<times> str) list" where
  "class_field_types cls g = foldl (\<lambda>d (fqn, n). dict_set (simple_name fqn)
     (case gn_field_type n of None \<Rightarrow> [] | Some t \<Rightarrow> t) d) [] (fields_of cls g)"

definition inject_annotations :: "str list" where
  "inject_annotations = [''Autowired'', ''Resource'', ''Inject'', ''Value'']"

definition injected_field_count :: "str \<Rightarrow> code_graph \<Rightarrow> int" where
  "injected_field_count cls g = int (length (filter
     (\<lambda>(fqn, n). set (gn_annotations n) \<inter> set inject_annotations \<noteq> {}) (fields_of cls g)))"

section \<open>The parts of the effort\<close>

definition control_flow_score :: "complexity option \<Rightarrow> int" where
  "control_flow_score c = (case c of None \<Rightarrow> 0
     | Some x \<Rightarrow> if cx_cyclomatic x \<le> 3 then 0 else if cx_cyclomatic x \<le> 7 then 1
        else if cx_cyclomatic x \<le> 12 then 2 else 3)"

datatype boundary = Storage | Remote | Messaging

definition boundary_of :: "str \<Rightarrow> boundary option" where
  "boundary_of t =
     (if list_ex (endswith t) [''Mapper'', ''Dao'', ''Repository'', ''JdbcTemplate''] then Some Storage
      else if list_ex (endswith t) [''Client'', ''Remote'', ''Rpc'', ''Feign'', ''Stub'', ''RestTemplate'']
      then Some Remote
      else if list_ex (endswith t) [''Producer'', ''Sender'', ''Publisher'', ''Template''] then Some Messaging
      else None)"

text \<open>With no call at all the types of the fields are not looked at.\<close>

definition crosses_domain_boundary :: "str list \<Rightarrow> (str \<times> str) list \<Rightarrow> bool" where
  "crosses_domain_boundary calls field_types =
     (1 < length (remdups (concat (map (\<lambda>call.
        List.map_filter boundary_of (map snd field_types @ [simple_name (owner_name call)])) calls))))"

definition dependency_score :: "str list \<Rightarrow> (str \<times> str) list \<Rightarrow> int \<Rightarrow> int" where
  "dependency_score calls field_types n =
     min ((if n \<le> 1 then 0 else if n \<le> 3 then 1 else if n \<le> 5 then 2 else 3)
       + (if crosses_domain_boundary calls field_types then 1 else 0)) 4"

definition nondet_signals :: "str list" where
  "nondet_signals = [''currentTimeMillis'', ''nanoTime'', ''random'', ''nextInt'', ''nextLong'',
     ''randomUUID'', ''UUID'', ''sleep'', ''submit'', ''execute'', ''invokeAll'', ''await'', ''get'',
     ''join'', ''schedule'', ''scheduleAtFixedRate'']"

definition async_types :: "str list" where
  "async_types = [''CompletableFuture'', ''CountDownLatch'', ''ExecutorService'',
     ''ThreadPoolExecutor'', ''ScheduledExecutorService'', ''Future'']"

definition async_receivers :: "str list" where
  "async_receivers = [''executor'', ''executorService'', ''threadPool'', ''scheduler'', ''future'',
     ''completableFuture'', ''countDownLatch'', ''latch'']"

text \<open>The class of a call is its last part but one; a name without a dot has none.\<close>

definition call_signals :: "str \<Rightarrow> int" where
  "call_signals call =
     (if simple_name call \<in> set nondet_signals then 1 else 0)
     + (if 2 \<le> length (dotted call) \<and> last (butlast (dotted call)) \<in> set async_types then 1 else 0)"

definition nondet_score :: "str \<Rightarrow> code_graph \<Rightarrow> int" where
  "nondet_score fqn g = min (sum_list (map call_signals (method_calls fqn g))) 4"

definition receivers_of :: "complexity option \<Rightarrow> str list" where
  "receivers_of c = (case c of None \<Rightarrow> [] | Some x \<Rightarrow> cx_receivers x)"

definition nondet_score_from_complexity :: "complexity option \<Rightarrow> str \<Rightarrow> code_graph \<Rightarrow> int" where
  "nondet_score_from_complexity c fqn g =
     min (2 * int (length (filter (\<lambda>r. r \<in> set async_receivers) (receivers_of c))) + nondet_score fqn g) 4"

definition test_setup_score :: "int \<Rightarrow> int \<Rightarrow> int \<Rightarrow> int" where
  "test_setup_score params collaborators injected =
     min ((if params \<le> 2 \<and> collaborators \<le> 1 then 0 else if params \<le> 4 \<and> collaborators \<le> 3 then 1 else 2)
       + (if 6 < injected then 1 else 0)) 3"

definition purity_bonus :: "int \<Rightarrow> int \<Rightarrow> int" where
  "purity_bonus collaborators cyclomatic =
     (if collaborators = 0 \<and> cyclomatic \<le> 3 then -2
      else if collaborators \<le> 1 \<and> cyclomatic \<le> 5 then -1 else 0)"

datatype band = Cheap | Medium | Expensive

definition effort_band :: "int \<Rightarrow> band" where
  "effort_band score = (if score \<le> 2 then Cheap else if score \<le> 5 then Medium else Expensive)"

fun band_name :: "band \<Rightarrow> str" where
  "band_name Cheap = ''cheap''"
| "band_name Medium = ''medium''"
| "band_name Expensive = ''expensive''"

section \<open>The effort of a method\<close>

record effort =
  ef_name :: str
  ef_fqn :: str
  ef_signature :: str
  ef_start_line :: int
  ef_body_lines :: int
  ef_score :: int
  ef_band :: band
  ef_reasons :: "str list"
  ef_control_flow :: int
  ef_dependency :: int
  ef_nondet :: int
  ef_test_setup :: int
  ef_purity :: int

definition build_signature :: "str \<Rightarrow> graph_node \<Rightarrow> str" where
  "build_signature fqn n =
     (case gn_return n of Some (c # cs) \<Rightarrow> c # cs | _ \<Rightarrow> ''void'') @ '' '' @ simple_name fqn @ ''(''
       @ join_with '', '' (map (\<lambda>(t, x). t @ '' '' @ x) (gn_params n)) @ '')''"

definition cyclomatic_of :: "complexity option \<Rightarrow> int" where
  "cyclomatic_of c = (case c of None \<Rightarrow> 1 | Some x \<Rightarrow> cx_cyclomatic x)"

definition body_lines_of :: "complexity option \<Rightarrow> int" where
  "body_lines_of c = (case c of None \<Rightarrow> 0 | Some x \<Rightarrow> cx_body_lines x)"

definition effort_reasons :: "int \<Rightarrow> int \<Rightarrow> int \<Rightarrow> int \<Rightarrow> int \<Rightarrow> int \<Rightarrow> int \<Rightarrow> int \<Rightarrow> str list" where
  "effort_reasons cyclomatic collaborators params flow dependency nondet test_setup purity =
     (let reasons =
        (if 0 < flow then [''cyclomatic='' @ int_str cyclomatic] else [])
        @ (if 0 < dependency then [int_str collaborators @ ''-collaborators''] else [])
        @ (if 0 < nondet then [''non-deterministic''] else [])
        @ (if 0 < test_setup then [''setup(params='' @ int_str params @ '')''] else [])
        @ (if purity < 0 then [''pure-calc''] else []) in
      if reasons = [] then [''simple''] else reasons)"

text \<open>The effort of a method of the graph; \<open>None\<close> stands for the empty answer for others.\<close>

definition compute_method_effort ::
  "str \<Rightarrow> code_graph \<Rightarrow> str \<Rightarrow> int \<Rightarrow> (str \<times> str) list \<Rightarrow> effort option" where
  "compute_method_effort fqn g cls injected field_types =
     map_option (\<lambda>n.
       (let c = gn_complexity n; cyclomatic = cyclomatic_of c;
            field_receivers = filter (\<lambda>r. r \<in> set (map fst field_types)) (receivers_of c);
            resolved = collaborator_calls fqn cls g;
            collaborators = max (int (length field_receivers)) (int (length resolved));
            receiver_types = filter (\<lambda>t. t \<noteq> []) (map (\<lambda>r. the (map_of field_types r)) field_receivers);
            boundary_calls = resolved @ map (\<lambda>t. ''_.'' @ t @ ''.call'') receiver_types;
            flow = control_flow_score c;
            dependency = dependency_score boundary_calls field_types collaborators;
            nondet = nondet_score_from_complexity c fqn g;
            params = int (length (gn_params n));
            test_setup = test_setup_score params collaborators injected;
            purity = purity_bonus collaborators cyclomatic;
            score = max 0 (flow + dependency + nondet + test_setup + purity) in
        \<lparr>ef_name = simple_name fqn, ef_fqn = fqn, ef_signature = build_signature fqn n,
         ef_start_line = gn_line n, ef_body_lines = body_lines_of c, ef_score = score,
         ef_band = effort_band score,
         ef_reasons = effort_reasons cyclomatic collaborators params flow dependency nondet test_setup purity,
         ef_control_flow = flow, ef_dependency = dependency, ef_nondet = nondet,
         ef_test_setup = test_setup, ef_purity = purity\<rparr>))
     (map_of (cg_nodes g) fqn)"

section \<open>Coverage of the methods\<close>

record jacoco_counter =
  jk_type :: "str option"
  jk_missed :: "str option"

record jacoco_method =
  jm_name :: "str option"
  jm_counters :: "jacoco_counter list"

record jacoco_class =
  jc_name :: "str option"
  jc_methods :: "jacoco_method list"

record jacoco_package =
  jp_name :: "str option"
  jp_classes :: "jacoco_class list"

definition missed_count :: "jacoco_counter \<Rightarrow> int option" where
  "missed_count k = (case jk_missed k of None \<Rightarrow> Some 0 | Some s \<Rightarrow> if s = [] then Some 0 else int_text s)"

fun missed_counts :: "jacoco_counter list \<Rightarrow> int \<times> int \<Rightarrow> (int \<times> int) option" where
  "missed_counts [] acc = Some acc"
| "missed_counts (k # ks) (line, branch) =
     (if jk_type k = Some ''LINE'' then Option.bind (missed_count k) (\<lambda>n. missed_counts ks (n, branch))
      else if jk_type k = Some ''BRANCH'' then Option.bind (missed_count k) (\<lambda>n. missed_counts ks (line, n))
      else missed_counts ks (line, branch))"

text \<open>A method that comes twice keeps the counts of the last one.\<close>

fun method_counts :: "jacoco_method list \<Rightarrow> (str \<times> int \<times> int) list \<Rightarrow> (str \<times> int \<times> int) list option" where
  "method_counts [] acc = Some acc"
| "method_counts (m # ms) acc = Option.bind (missed_counts (jm_counters m) (0, 0)) (\<lambda>counts.
     method_counts ms (dict_set (case jm_name m of None \<Rightarrow> ''unknown'' | Some s \<Rightarrow> s) counts acc))"

definition slashed_package :: "str \<Rightarrow> str" where
  "slashed_package cls = map (\<lambda>c. if c = CHR ''.'' then CHR ''/'' else c) (owner_name cls)"

definition jacoco_class_of :: "jacoco_package list \<Rightarrow> str \<Rightarrow> jacoco_class option" where
  "jacoco_class_of packages cls =
     List.find (\<lambda>c. jc_name c = Some (slashed_package cls @ ''/'' @ simple_name cls))
       (concat (map jp_classes (filter (\<lambda>p. jp_name p = Some (slashed_package cls)) packages)))"

text \<open>Inner \<open>None\<close> of the report: it does not parse; outer \<open>None\<close>: there is no such file.\<close>

definition jacoco_methods ::
  "jacoco_package list option option \<Rightarrow> str \<Rightarrow> (str \<times> int \<times> int) list option" where
  "jacoco_methods report cls =
     (case Option.bind (Option.bind report (\<lambda>r. r)) (\<lambda>packages. jacoco_class_of packages cls) of
        None \<Rightarrow> Some []
      | Some c \<Rightarrow> method_counts (jc_methods c) [])"

section \<open>What a method reaches\<close>

record scored = effort +
  sc_missed :: int
  sc_missed_branches :: int
  sc_roi :: rat
  sc_gain :: bool
  sc_visibility :: int
  sc_reach :: int
  sc_callers :: int
  sc_planning :: rat

definition visibility_rank :: "graph_node \<Rightarrow> int" where
  "visibility_rank n = (if ''public'' \<in> set (gn_modifiers n) then 0
     else if ''protected'' \<in> set (gn_modifiers n) then 1 else 2)"

definition same_class_callees :: "str \<Rightarrow> str list \<Rightarrow> code_graph \<Rightarrow> str \<Rightarrow> str list" where
  "same_class_callees cls known g fqn = filter (\<lambda>c. inside cls c \<and> c \<in> set known) (method_calls fqn g)"

text \<open>
  The depth-first walk: the methods that are still to be called, the innermost call first, and
  those that were visited. A callee is always a known method.
\<close>

function walk :: "(str \<Rightarrow> str list) \<Rightarrow> str list \<Rightarrow> str list \<Rightarrow> str list \<Rightarrow> str list" where
  "walk callees known [] visited = visited"
| "walk callees known (c # cs) visited =
     (if c \<in> set visited \<or> c \<notin> set known then walk callees known cs visited
      else walk callees known (callees c @ cs) (c # visited))"
  by pat_completeness auto

termination
proof (relation "measures [\<lambda>(callees, known, cs, visited). card (set known - set visited),
    \<lambda>(callees, known, cs, visited). length cs]", goal_cases)
  case 1
  then show ?case by simp
next
  case 2
  then show ?case by simp
next
  case (3 callees known c cs visited)
  then have "set known - set (c # visited) \<subset> set known - set visited" by auto
  then show ?case by (simp add: psubset_card_mono)
qed

definition reached :: "str \<Rightarrow> str list \<Rightarrow> code_graph \<Rightarrow> str \<Rightarrow> str list" where
  "reached cls known g fqn =
     walk (same_class_callees cls known g) known (same_class_callees cls known g fqn) [fqn]"

definition missed_of :: "(str \<times> 'm scored_scheme) list \<Rightarrow> str \<Rightarrow> int" where
  "missed_of methods fqn = (case map_of methods fqn of None \<Rightarrow> 0 | Some m \<Rightarrow> sc_missed m)"

definition same_class_reach_lines :: "str \<Rightarrow> (str \<times> 'm scored_scheme) list \<Rightarrow> code_graph \<Rightarrow> str \<Rightarrow> int" where
  "same_class_reach_lines cls methods g fqn =
     sum_list (map (missed_of methods) (reached cls (map fst methods) g fqn))"

definition public_caller_count :: "str \<Rightarrow> (str \<times> 'm scored_scheme) list \<Rightarrow> code_graph \<Rightarrow> str \<Rightarrow> int" where
  "public_caller_count cls methods g fqn = int (length (filter (\<lambda>e.
     ge_relation e = ''CALLS'' \<and> ge_target e = fqn \<and> inside cls (ge_source e)
     \<and> (case map_of methods (ge_source e) of None \<Rightarrow> False | Some m \<Rightarrow> sc_visibility m = 0)) (cg_edges g)))"

section \<open>Planning\<close>

definition helper_bonus :: "'m scored_scheme \<Rightarrow> int" where
  "helper_bonus m = max 0 (sc_reach m - sc_missed m)"

definition low_branch :: "'m scored_scheme \<Rightarrow> bool" where
  "low_branch m = (ef_control_flow m \<le> 1 \<and> ef_dependency m \<le> 1 \<and> ef_nondet m = 0)"

definition primary_business :: "'m scored_scheme \<Rightarrow> bool" where
  "primary_business m = (70 \<le> sc_missed m \<or> (50 \<le> sc_missed m \<and> (2 \<le> ef_dependency m \<or> 1 \<le> ef_nondet m)))"

definition wrapper_style_penalty :: "'m scored_scheme \<Rightarrow> rat" where
  "wrapper_style_penalty m =
     (let callers = of_int (sc_callers m); name = lower (ef_name m); direct = sc_missed m in
      if sc_callers m \<le> 0 then 1
      else 1
        + (if primary_business m then 0 else 35/100 * callers)
        + (if max 20 direct \<le> helper_bonus m \<and> (direct \<le> 30 \<or> low_branch m) then 45/100 * callers else 0)
        + (if contains name ''batch'' then 35/100 else 0)
        + (if startswith name ''query'' \<and> direct \<le> 35 \<and> direct < helper_bonus m then 15/100 else 0))"

definition round1 :: "rat \<Rightarrow> rat" where
  "round1 q = of_int (round_half_even (q * 10)) / 10"

definition planning_priority :: "'m scored_scheme \<Rightarrow> rat" where
  "planning_priority m =
     (let direct = sc_missed m;
          branches = 1 + 8/10 * of_int (ef_control_flow m) + 3/10 * of_int (ef_dependency m)
            + 2/10 * of_int (ef_nondet m);
          raw = of_int direct * branches + of_int (helper_bonus m) * (15/100) in
      round1 (raw / ((1 + 25/100 * of_int (ef_score m)) * wrapper_style_penalty m)))"

section \<open>The ranking of a class\<close>

definition scored_methods :: "str \<Rightarrow> code_graph \<Rightarrow> (str \<times> graph_node) list" where
  "scored_methods cls g = filter (\<lambda>(fqn, n). gn_kind n = ''method'' \<and> gn_parent n = Some cls
     \<and> ''private'' \<notin> set (gn_modifiers n)) (cg_nodes g)"

definition with_coverage :: "(str \<times> int \<times> int) list \<Rightarrow> graph_node \<Rightarrow> effort \<Rightarrow> scored" where
  "with_coverage coverage n e =
     (let (missed, branches) = (case map_of coverage (ef_name e) of
            None \<Rightarrow> (ef_body_lines e, 0) | Some c \<Rightarrow> c) in
      effort.extend e \<lparr>sc_missed = missed, sc_missed_branches = branches,
        sc_roi = round1 (of_int missed / of_int (max (ef_score e) 1)), sc_gain = (0 < missed),
        sc_visibility = visibility_rank n, sc_reach = 0, sc_callers = 0, sc_planning = 0\<rparr>)"

definition with_planning :: "str \<Rightarrow> (str \<times> scored) list \<Rightarrow> code_graph \<Rightarrow> scored \<Rightarrow> scored" where
  "with_planning cls methods g m =
     (let m' = m\<lparr>sc_reach := same_class_reach_lines cls methods g (ef_fqn m),
                sc_callers := public_caller_count cls methods g (ef_fqn m)\<rparr> in
      m'\<lparr>sc_planning := planning_priority m'\<rparr>)"

definition rank_of :: "scored \<Rightarrow> int \<times> int \<times> int \<times> rat \<times> int \<times> int \<times> rat \<times> int \<times> str" where
  "rank_of m = (if sc_gain m then -1 else 0, sc_visibility m, if sc_visibility m = 0 then -1 else 0,
     - sc_planning m, - sc_missed m, - sc_reach m, - sc_roi m, ef_score m, ef_name m)"

record roi_summary =
  rs_methods :: int
  rs_cheap :: int
  rs_medium :: int
  rs_expensive :: int
  rs_cheap_gain :: int
  rs_medium_gain :: int
  rs_expensive_gain :: int
  rs_zero_gain :: int
  rs_cheap_lines :: int
  rs_medium_lines :: int
  rs_expensive_lines :: int

record class_roi =
  cr_class :: str
  cr_methods :: "scored list"
  cr_jacoco_path :: str
  cr_jacoco_used :: bool
  cr_summary :: roi_summary

definition in_band :: "band \<Rightarrow> scored list \<Rightarrow> scored list" where
  "in_band b ms = filter (\<lambda>m. ef_band m = b) ms"

definition summary_of :: "scored list \<Rightarrow> roi_summary" where
  "summary_of ms =
     (let n = (\<lambda>xs. int (length xs)); gains = filter sc_gain; ls = (\<lambda>b. sum_list (map sc_missed (in_band b ms))) in
      \<lparr>rs_methods = n ms, rs_cheap = n (in_band Cheap ms), rs_medium = n (in_band Medium ms),
       rs_expensive = n (in_band Expensive ms), rs_cheap_gain = n (gains (in_band Cheap ms)),
       rs_medium_gain = n (gains (in_band Medium ms)), rs_expensive_gain = n (gains (in_band Expensive ms)),
       rs_zero_gain = n (filter (\<lambda>m. \<not> sc_gain m) ms), rs_cheap_lines = ls Cheap,
       rs_medium_lines = ls Medium, rs_expensive_lines = ls Expensive\<rparr>)"

definition covered_methods :: "(str \<times> int \<times> int) list \<Rightarrow> str \<Rightarrow> code_graph \<Rightarrow> scored list" where
  "covered_methods coverage cls g = List.map_filter (\<lambda>(fqn, n).
     map_option (with_coverage coverage n)
       (compute_method_effort fqn g cls (injected_field_count cls g) (class_field_types cls g)))
     (scored_methods cls g)"

definition ranked_methods :: "(str \<times> int \<times> int) list \<Rightarrow> str \<Rightarrow> code_graph \<Rightarrow> scored list" where
  "ranked_methods coverage cls g =
     (let ms = covered_methods coverage cls g in
      sort_key rank_of (map (with_planning cls (map (\<lambda>m. (ef_fqn m, m)) ms) g) ms))"

text \<open>\<open>None\<close>: a count of the JaCoCo report is no number.\<close>

definition compute_class_roi ::
  "str \<Rightarrow> code_graph \<Rightarrow> str option \<Rightarrow> jacoco_package list option option \<Rightarrow> class_roi option" where
  "compute_class_roi cls g path report =
     map_option (\<lambda>coverage. (let ms = ranked_methods coverage cls g in
       \<lparr>cr_class = cls, cr_methods = ms, cr_jacoco_path = (case path of None \<Rightarrow> [] | Some s \<Rightarrow> s),
        cr_jacoco_used = (coverage \<noteq> []), cr_summary = summary_of ms\<rparr>))
     (jacoco_methods (if path \<in> {None, Some []} then None else report) cls)"

section \<open>Degenerate rankings\<close>

definition is_degenerate_roi_data :: "class_roi \<Rightarrow> bool" where
  "is_degenerate_roi_data r =
     (let ms = cr_methods r; s = cr_summary r in
      ms = [] \<or> (\<forall>m \<in> set ms. sc_missed m = 0)
      \<or> (rs_cheap_lines s = 0 \<and> rs_medium_lines s = 0)
      \<or> (\<forall>m \<in> set ms. sc_roi m = 0)
      \<or> ((\<forall>m \<in> set ms. ef_score m = 0) \<and> (\<forall>m \<in> set ms. sc_missed m = 0)))"

definition is_degenerate_roi_markdown :: "str \<Rightarrow> bool" where
  "is_degenerate_roi_markdown content =
     (let t = strip content; ls = splitlines t;
          cheap_lines = filter (\<lambda>l. startswith l ''- Cheap (effort 0-2):'') ls;
          medium_lines = filter (\<lambda>l. startswith l ''- Medium (effort 3-5):'') ls;
          rows = filter (\<lambda>l. startswith l ''| '' \<and> contains l [CHR 0x60]) ls in
      t = []
      \<or> (cheap_lines \<noteq> [] \<and> medium_lines \<noteq> []
         \<and> contains (last cheap_lines) ''~0 uncovered lines'' \<and> contains (last medium_lines) ''~0 uncovered lines'')
      \<or> (rows \<noteq> [] \<and> (\<forall>l \<in> set rows. contains l ''| 0 | 0.0 |'')))"


section \<open>The ranking as Markdown\<close>

definition ticked :: "str \<Rightarrow> str" where
  "ticked s = [CHR 0x60] @ s @ [CHR 0x60]"

text \<open>The long dash lies outside the characters of the model and is an argument.\<close>

definition method_row :: "(rat \<Rightarrow> str) \<Rightarrow> nat \<Rightarrow> scored \<Rightarrow> str" where
  "method_row show_float i m =
     ''| '' @ nat_str i @ '' | '' @ ticked (ef_name m) @ '' | '' @ int_str (ef_score m) @ '' | ''
     @ band_name (ef_band m) @ '' | '' @ int_str (sc_missed m) @ '' | '' @ int_str (sc_reach m) @ '' | ''
     @ show_float (sc_roi m) @ '' | '' @ join_with '', '' (ef_reasons m) @ '' |''"

definition gain_key :: "scored \<Rightarrow> rat \<times> int \<times> str" where
  "gain_key m = (- sc_planning m, - sc_reach m, ef_name m)"

definition gain_methods :: "scored list \<Rightarrow> scored list" where
  "gain_methods ms =
     take 10 (sort_key gain_key (filter (\<lambda>m. 0 < sc_missed m \<and> sc_visibility m = 0) ms))"

definition named_methods :: "scored list \<Rightarrow> str" where
  "named_methods ms = join_with '', '' (map (ticked \<circ> ef_name) (gain_methods ms))"

definition band_guidance :: "str \<Rightarrow> str \<Rightarrow> str \<Rightarrow> int \<Rightarrow> scored list \<Rightarrow> str list" where
  "band_guidance opening closing otherwise covered ms =
     (if ms = [] then []
      else if named_methods ms = [] then [otherwise]
      else [opening @ '' ('' @ named_methods ms @ '') for ~'' @ int_str covered @ closing])"

definition summary_line :: "str \<Rightarrow> int \<Rightarrow> str \<Rightarrow> int \<Rightarrow> str" where
  "summary_line head n middle covered =
     ''- '' @ head @ '': '' @ int_str n @ middle @ int_str covered @ '' uncovered lines''"

definition roi_head :: "class_roi \<Rightarrow> str list" where
  "roi_head r = (let s = cr_summary r; reach = '' methods with uncovered reach, ~'' in
     [''# ROI Scores: '' @ simple_name (cr_class r), [], ''## Summary'',
      ''- Total public methods: '' @ int_str (rs_methods s),
      summary_line ''Cheap (effort 0-2)'' (rs_cheap_gain s) reach (rs_cheap_lines s),
      summary_line ''Medium (effort 3-5)'' (rs_medium_gain s) reach (rs_medium_lines s),
      summary_line ''Expensive (effort 6+)'' (rs_expensive_gain s) reach (rs_expensive_lines s),
      summary_line ''Zero-gain public wrappers'' (rs_zero_gain s) '' methods, ~'' 0, [],
      ''## Method Rankings (highest planning value first)'', [],
      ''| # | Method | Effort | Band | Missed Lines | Reach | ROI | Reasons |'',
      ''|---|--------|--------|------|-------------|-------|-----|---------|''])"

definition roi_provenance :: "str \<Rightarrow> class_roi \<Rightarrow> str list" where
  "roi_provenance version r =
     [[], ''## Provenance'', [], ''- scorer version: '' @ ticked version,
      ''- jacoco used: '' @ ticked (if cr_jacoco_used r then ''True'' else ''False''),
      ''- jacoco xml path: '' @ ticked (cr_jacoco_path r)]"

definition roi_scorer_version :: str where
  "roi_scorer_version = ''2026-04-23-v3''"

definition format_roi_markdown :: "(rat \<Rightarrow> str) \<Rightarrow> str \<Rightarrow> bool \<Rightarrow> class_roi \<Rightarrow> str" where
  "format_roi_markdown show_float em_dash debug r =
     (let ms = cr_methods r; s = cr_summary r in
      join_with [newline]
       (roi_head r @ map (\<lambda>(i, m). method_row show_float i m) (zip [1..<length ms + 1] ms)
        @ [[], ''## Coverage Strategy Guidance'', []]
        @ band_guidance ''1. Cover cheap methods first'' '' lines''
            ''1. Cheap-band methods are mostly zero-gain wrappers here; do not count them toward the coverage gate''
            (rs_cheap_lines s) (in_band Cheap ms)
        @ band_guidance ''2. If gate not met, continue to medium-band methods'' '' more lines''
            ''2. Medium-band methods also have little remaining uncovered reach; use them only if public entry paths are exhausted''
            (rs_medium_lines s) (in_band Medium ms)
        @ [''3. Do not count zero-gain public wrappers, empty delegates, or already-covered methods toward gate planning'',
           ''4. Expensive methods should only be attempted if the gate cannot be met otherwise'',
           ''5. If all remaining uncovered methods are expensive, the current coverage may be the realistic maximum '' @ em_dash @ '' consider lowering the gate'']
        @ (if debug then roi_provenance roi_scorer_version r else []))
      @ [newline])"

end
