(* ===== verification/ScoringFacts.thy ===== *)
theory ScoringFacts
  imports JavaScoring "HOL-Library.Multiset"
begin

text \<open>
  What the scores of a Java class promise: the reach of a method is that of the transitive
  closure of the calls, efforts stay in their bounds and the ranking is a sorted permutation of
  the methods that can be called from a test.
\<close>

section \<open>The walk over the calls\<close>

definition calls_relation :: "(str \<Rightarrow> str list) \<Rightarrow> (str \<times> str) set" where
  "calls_relation callees = {(a, b). b \<in> set (callees a)}"

lemma walk_visited: "set visited \<subseteq> set (walk callees known cs visited)"
  by (induction callees known cs visited rule: walk.induct) auto

lemma walk_distinct: "distinct visited \<Longrightarrow> distinct (walk callees known cs visited)"
  by (induction callees known cs visited rule: walk.induct) auto

lemma walk_sound:
  "set (walk callees known cs visited) \<subseteq> set visited \<union> (calls_relation callees)\<^sup>* `` set cs"
proof (induction callees known cs visited rule: walk.induct)
  case (2 callees known c cs visited)
  show ?case
  proof (cases "c \<in> set visited \<or> c \<notin> set known")
    case True
    with 2(1) show ?thesis by auto
  next
    case False
    have "(calls_relation callees)\<^sup>* `` set (callees c) \<subseteq> (calls_relation callees)\<^sup>* `` {c}"
      by (auto simp: calls_relation_def intro: converse_rtrancl_into_rtrancl)
    with False 2(2) [OF False] show ?thesis by auto
  qed
qed simp

lemma walk_complete:
  assumes "\<And>a. set (callees a) \<subseteq> set known"
    and "\<forall>a \<in> set visited. set (callees a) \<subseteq> set visited \<union> set cs"
    and "a \<in> set (walk callees known cs visited)"
  shows "set (callees a) \<subseteq> set (walk callees known cs visited)"
  using assms
proof (induction callees known cs visited rule: walk.induct)
  case (2 callees known c cs visited)
  show ?case
  proof (cases "c \<in> set visited \<or> c \<notin> set known")
    case True
    then have "\<forall>a \<in> set visited. set (callees a) \<subseteq> set visited \<union> set cs"
      using 2(3,4) by fastforce
    with True 2(1) [OF True 2(3)] 2(5) show ?thesis by simp
  next
    case False
    then have "\<forall>a \<in> set (c # visited). set (callees a) \<subseteq> set (c # visited) \<union> set (callees c @ cs)"
      using 2(4) by auto
    with False 2(2) [OF False 2(3)] 2(5) show ?thesis by simp
  qed
qed simp

lemma callees_known: "set (same_class_callees cls known g a) \<subseteq> set known"
  by (auto simp: same_class_callees_def)

lemma set_reached:
  "set (reached cls known g fqn) = (calls_relation (same_class_callees cls known g))\<^sup>* `` {fqn}"
proof
  let ?r = "calls_relation (same_class_callees cls known g)"
  have "?r\<^sup>* `` set (same_class_callees cls known g fqn) \<subseteq> ?r\<^sup>* `` {fqn}"
    by (auto simp: calls_relation_def intro: converse_rtrancl_into_rtrancl)
  moreover have "set (reached cls known g fqn) \<subseteq> {fqn} \<union> ?r\<^sup>* `` set (same_class_callees cls known g fqn)"
    unfolding reached_def
    using walk_sound [of "same_class_callees cls known g" known "same_class_callees cls known g fqn" "[fqn]"] by simp
  ultimately show "set (reached cls known g fqn) \<subseteq> ?r\<^sup>* `` {fqn}" by blast
  have start: "fqn \<in> set (reached cls known g fqn)"
    unfolding reached_def using walk_visited [of "[fqn]"] by auto
  have closed: "b \<in> set (reached cls known g fqn)" if "a \<in> set (reached cls known g fqn)" "(a, b) \<in> ?r" for a b
    using that walk_complete [of "same_class_callees cls known g" known "[fqn]"
        "same_class_callees cls known g fqn" a] callees_known
    unfolding reached_def calls_relation_def by fastforce
  show "?r\<^sup>* `` {fqn} \<subseteq> set (reached cls known g fqn)"
  proof
    fix b assume "b \<in> ?r\<^sup>* `` {fqn}"
    then have "(fqn, b) \<in> ?r\<^sup>*" by simp
    then show "b \<in> set (reached cls known g fqn)"
      by (induction rule: rtrancl_induct) (use start closed in blast)+
  qed
qed

text \<open>
  C30: the reach of a method, computed by a depth-first walk with a visited set, is the sum
  of the missed lines of all methods in the reflexive transitive closure of the calls
  between known methods of the class.
\<close>

theorem reach_is_the_closure:
  "same_class_reach_lines cls methods g fqn
    = (\<Sum>m \<in> (calls_relation (same_class_callees cls (map fst methods) g))\<^sup>* `` {fqn}. missed_of methods m)"
proof -
  have "distinct (reached cls (map fst methods) g fqn)"
    unfolding reached_def by (rule walk_distinct) simp
  then show ?thesis
    unfolding same_class_reach_lines_def set_reached [symmetric] by (simp add: sum_list_distinct_conv_sum_set)
qed

section \<open>Bounds\<close>

lemma score_bounds:
  "0 \<le> control_flow_score c" "control_flow_score c \<le> 3"
  "0 \<le> dependency_score calls ts n" "dependency_score calls ts n \<le> 4"
  "0 \<le> nondet_score_from_complexity c fqn g" "nondet_score_from_complexity c fqn g \<le> 4"
  "0 \<le> test_setup_score params n injected" "test_setup_score params n injected \<le> 3"
  "-2 \<le> purity_bonus n cyclomatic" "purity_bonus n cyclomatic \<le> 0"
proof -
  have "0 \<le> sum_list (map call_signals (method_calls fqn g))"
    by (rule sum_list_nonneg) (auto simp: call_signals_def)
  then show "0 \<le> nondet_score_from_complexity c fqn g"
    by (simp add: nondet_score_from_complexity_def nondet_score_def)
qed (simp_all add: control_flow_score_def dependency_score_def nondet_score_from_complexity_def
    test_setup_score_def purity_bonus_def split: option.split)

lemma effort_parts:
  assumes "compute_method_effort fqn g cls injected ts = Some e"
  shows "0 \<le> ef_control_flow e \<and> ef_control_flow e \<le> 3" "0 \<le> ef_dependency e \<and> ef_dependency e \<le> 4"
    "0 \<le> ef_nondet e \<and> ef_nondet e \<le> 4" "0 \<le> ef_test_setup e \<and> ef_test_setup e \<le> 3"
    "-2 \<le> ef_purity e \<and> ef_purity e \<le> 0"
    "ef_score e = max 0 (ef_control_flow e + ef_dependency e + ef_nondet e + ef_test_setup e + ef_purity e)"
    "ef_band e = effort_band (ef_score e)" "ef_fqn e = fqn" "ef_name e = simple_name fqn"
  using assms unfolding compute_method_effort_def Let_def map_option_eq_Some
  by (elim exE conjE; hypsubst; simp only: effort.select_convs score_bounds simp_thms)+

theorem effort_bounds:
  assumes "compute_method_effort fqn g cls injected ts = Some e"
  shows "0 \<le> ef_score e \<and> ef_score e \<le> 14 \<and> ef_band e = effort_band (ef_score e)
    \<and> ef_score e = max 0 (ef_control_flow e + ef_dependency e + ef_nondet e + ef_test_setup e + ef_purity e)
    \<and> (ef_band e = Cheap \<longrightarrow> ef_control_flow e + ef_dependency e + ef_nondet e + ef_test_setup e \<le> 4)"
  using effort_parts [OF assms] by (auto simp: effort_band_def split: if_split_asm)

section \<open>The ranking\<close>

lemma with_coverage_fields [simp]:
  "ef_fqn (with_coverage coverage n e) = ef_fqn e" "ef_band (with_coverage coverage n e) = ef_band e"
  by (simp_all add: with_coverage_def effort.defs split: prod.split)

lemma with_planning_fields [simp]:
  "ef_fqn (with_planning cls methods g m) = ef_fqn m" "sc_gain (with_planning cls methods g m) = sc_gain m"
  by (simp_all add: with_planning_def Let_def)

lemma effort_of_node:
  "map_of (cg_nodes g) fqn = Some n \<Longrightarrow> \<exists>e. compute_method_effort fqn g cls injected ts = Some e \<and> ef_fqn e = fqn"
proof -
  assume "map_of (cg_nodes g) fqn = Some n"
  then have "compute_method_effort fqn g cls injected ts \<noteq> None"
    by (simp only: compute_method_effort_def map_option_is_None) simp
  then show ?thesis using effort_parts(8) by blast
qed

lemma covered_names:
  assumes "distinct (map fst (cg_nodes g))"
  shows "map ef_fqn (covered_methods coverage cls g) = map fst (scored_methods cls g)"
proof -
  let ?f = "\<lambda>(fqn, n). map_option (with_coverage coverage n)
       (compute_method_effort fqn g cls (injected_field_count cls g) (class_field_types cls g))"
  have "map ef_fqn (List.map_filter ?f xs) = map fst xs" if "set xs \<subseteq> set (cg_nodes g)" for xs
    using that
  proof (induction xs)
    case Nil
    then show ?case by (simp add: List.map_filter_simps)
  next
    case (Cons x xs)
    obtain fqn n where x: "x = (fqn, n)" by (cases x)
    with Cons.prems assms have "map_of (cg_nodes g) fqn = Some n" by simp
    then obtain e where "compute_method_effort fqn g cls (injected_field_count cls g) (class_field_types cls g) = Some e"
      "ef_fqn e = fqn" using effort_of_node by blast
    with Cons x show ?case by (simp add: List.map_filter_simps)
  qed
  then show ?thesis by (simp add: covered_methods_def scored_methods_def)
qed

lemma rank_order:
  assumes "rank_of a \<le> rank_of b"
  shows "sc_gain b \<Longrightarrow> sc_gain a" "sc_gain a = sc_gain b \<Longrightarrow> sc_visibility a \<le> sc_visibility b"
    "sc_gain a = sc_gain b \<Longrightarrow> sc_visibility a = sc_visibility b \<Longrightarrow> sc_planning b \<le> sc_planning a"
  using assms by (auto simp: rank_of_def less_eq_prod_def less_prod_def split: if_split_asm)

lemma ranked_names:
  assumes "distinct (map fst (cg_nodes g))"
  shows "mset (map ef_fqn (ranked_methods coverage cls g)) = mset (map fst (scored_methods cls g))"
proof -
  have "mset (map ef_fqn (ranked_methods coverage cls g)) = mset (map ef_fqn (covered_methods coverage cls g))"
    by (simp add: ranked_methods_def Let_def image_mset.compositionality o_def)
  then show ?thesis by (simp only: covered_names [OF assms])
qed

text \<open>
  the ranking of a class lists every method of the class that is not private exactly
  once; a method with uncovered lines never comes after one without, among these a more
  visible one comes first, and of the same visibility one with a higher planning score.
\<close>

theorem ranking_puts_gain_first:
  assumes "distinct (map fst (cg_nodes g))" "compute_class_roi cls g path report = Some r"
  shows "mset (map ef_fqn (cr_methods r)) = mset (map fst (scored_methods cls g))
    \<and> (\<forall>j < length (cr_methods r). \<forall>i < j.
         (sc_gain (cr_methods r ! j) \<longrightarrow> sc_gain (cr_methods r ! i))
         \<and> (sc_gain (cr_methods r ! i) = sc_gain (cr_methods r ! j) \<longrightarrow>
              sc_visibility (cr_methods r ! i) \<le> sc_visibility (cr_methods r ! j)
              \<and> (sc_visibility (cr_methods r ! i) = sc_visibility (cr_methods r ! j) \<longrightarrow>
                   sc_planning (cr_methods r ! j) \<le> sc_planning (cr_methods r ! i))))"
proof -
  obtain coverage where ms: "cr_methods r = ranked_methods coverage cls g"
    using assms(2) by (auto simp: compute_class_roi_def Let_def)
  have sorted: "sorted (map rank_of (cr_methods r))"
    unfolding ms ranked_methods_def Let_def by (rule sorted_sort_key)
  have "rank_of (cr_methods r ! i) \<le> rank_of (cr_methods r ! j)" if "i < j" "j < length (cr_methods r)" for i j
    using sorted_nth_mono [OF sorted, of i j] that by simp
  then show ?thesis using ranked_names [OF assms(1)] rank_order unfolding ms by blast
qed

theorem summary_adds_up:
  "rs_methods (summary_of ms) = rs_cheap (summary_of ms) + rs_medium (summary_of ms) + rs_expensive (summary_of ms)
   \<and> rs_methods (summary_of ms) = rs_cheap_gain (summary_of ms) + rs_medium_gain (summary_of ms)
       + rs_expensive_gain (summary_of ms) + rs_zero_gain (summary_of ms)
   \<and> sum_list (map sc_missed ms) = rs_cheap_lines (summary_of ms) + rs_medium_lines (summary_of ms)
       + rs_expensive_lines (summary_of ms)"
proof (induction ms)
  case Nil
  show ?case by (simp add: summary_of_def in_band_def Let_def)
next
  case (Cons m ms)
  then show ?case by (cases "ef_band m") (auto simp: summary_of_def in_band_def Let_def)
qed

section \<open>A sample class\<close>

definition sample_node :: graph_node where
  "sample_node = \<lparr>gn_kind = ''method'', gn_line = 1, gn_modifiers = [''public''], gn_annotations = [],
     gn_return = None, gn_params = [], gn_parent = Some ''C'', gn_field_type = None,
     gn_complexity = Some \<lparr>cx_cyclomatic = 9, cx_body_lines = 20, cx_receivers = []\<rparr>\<rparr>"

definition sample_graph :: code_graph where
  "sample_graph = \<lparr>cg_nodes = [(''C.a'', sample_node), (''C.b'', sample_node\<lparr>gn_complexity := None\<rparr>),
       (''C.c'', sample_node\<lparr>gn_modifiers := [''private'']\<rparr>)],
     cg_edges = [\<lparr>ge_source = ''C.a'', ge_target = ''C.b'', ge_relation = ''CALLS''\<rparr>]\<rparr>"

lemma sample_scored: "map fst (scored_methods ''C'' sample_graph) = [''C.a'', ''C.b'']"
  by (simp add: scored_methods_def sample_graph_def sample_node_def)

theorem effort_bounds_witness:
  "\<exists>e. compute_method_effort ''C.a'' sample_graph ''C'' 0 [] = Some e \<and> 0 \<le> ef_score e \<and> ef_score e \<le> 14"
proof -
  have "map_of (cg_nodes sample_graph) ''C.a'' = Some sample_node" by (simp add: sample_graph_def)
  from effort_of_node [OF this, of "''C''" 0 "[]"]
  obtain e where e: "compute_method_effort ''C.a'' sample_graph ''C'' 0 [] = Some e" by blast
  from effort_bounds [OF e] e show ?thesis by blast
qed

theorem ranking_puts_gain_first_witness:
  "\<exists>r. compute_class_roi ''C'' sample_graph None None = Some r
     \<and> mset (map ef_fqn (cr_methods r)) = {#''C.a'', ''C.b''#}"
proof -
  have nodes: "distinct (map fst (cg_nodes sample_graph))" by (simp add: sample_graph_def)
  obtain r where r: "compute_class_roi ''C'' sample_graph None None = Some r"
    by (simp add: compute_class_roi_def jacoco_methods_def Let_def)
  from ranking_puts_gain_first [OF nodes r] r show ?thesis
    unfolding sample_scored by auto
qed
end
