(* ===== verification/MutationScoring.thy ===== *)
theory MutationScoring
  imports JavaScoring MutationRepair
begin

text \<open>
  Surviving mutants of PIT and which of them to attack first: the scores of
  \<open>uta/enforcement/mutation_roi.py\<close> and \<open>uta/language/java/scoring/mutation_roi.py\<close>,
  and the families of \<open>uta/language/java/maven/pitest.py\<close>. The report is a parsed tree; an
  element without text is an absent one. Text is UTF-8, the printing of a float a parameter.
  Running PIT and reading its console output are not modelled here.
\<close>

section \<open>Kill per effort\<close>

definition family_effort_delta :: "(str \<times> int) list" where
  "family_effort_delta = [(''boundary'', 0), (''conditional'', 0), (''return_value'', 0), (''math'', 0),
     (''negation'', 0), (''side_effect'', 2), (''other'', 1)]"

definition family_effort :: "int \<Rightarrow> str \<Rightarrow> str \<Rightarrow> int" where
  "family_effort base family detail =
     max 1 (base + (case map_of family_effort_delta family of None \<Rightarrow> 1 | Some d \<Rightarrow> d)
       + (if contains (lower detail) ''removed call'' then 1 else 0))"

definition round2 :: "rat \<Rightarrow> rat" where
  "round2 q = of_int (round_half_even (q * 100)) / 100"

definition mutation_roi_score :: "int \<Rightarrow> int \<Rightarrow> int \<Rightarrow> rat" where
  "mutation_roi_score count killability effort = round2 (of_int (count * killability) / of_int (max effort 1))"

section \<open>The report\<close>

record pit_row =
  pw_status :: "str option"
  pw_class :: "str option"
  pw_method :: "str option"
  pw_line :: "str option"
  pw_mutator :: "str option"
  pw_detail :: "str option"

record survivor =
  sv_line :: int
  sv_method :: str
  sv_type :: str
  sv_detail :: str

definition text_or :: "str option \<Rightarrow> str" where
  "text_or x = (case x of None \<Rightarrow> [] | Some s \<Rightarrow> s)"

text \<open>\<open>None\<close>: a surviving mutant has no line number or no mutator.\<close>

definition survivor_of :: "pit_row \<Rightarrow> survivor option" where
  "survivor_of r = Option.bind (Option.bind (pw_line r) int_text) (\<lambda>n. map_option (\<lambda>t.
     \<lparr>sv_line = n, sv_method = text_or (pw_method r), sv_type = t, sv_detail = text_or (pw_detail r)\<rparr>)
     (pw_mutator r))"

definition parse_pitest_report :: "pit_row list option \<Rightarrow> str \<Rightarrow> survivor list option" where
  "parse_pitest_report report cls = (case report of None \<Rightarrow> Some []
     | Some rows \<Rightarrow> all_some (map survivor_of
         (filter (\<lambda>r. pw_status r = Some ''SURVIVED'' \<and> pw_class r = Some cls) rows)))"

section \<open>Families\<close>

definition mutation_family :: "str \<Rightarrow> str \<Rightarrow> str" where
  "mutation_family mutator detail =
     (let m = lower mutator; d = lower detail in
      if contains m ''boundary'' then ''boundary''
      else if contains m ''negate'' \<or> contains m ''conditional'' then ''conditional''
      else if contains m ''return'' then ''return_value''
      else if contains m ''voidmethodcall'' \<or> contains d ''removed call'' then ''side_effect''
      else if contains m ''math'' \<or> contains m ''increment'' then ''math''
      else if contains m ''invert'' then ''negation''
      else ''other'')"

definition is_metric_side_effect :: "str \<Rightarrow> str \<Rightarrow> bool" where
  "is_metric_side_effect name detail = list_ex (\<lambda>t. contains (lower name) t \<or> contains (lower detail) t)
     [''metrics'', ''counter('', ''.counter('', ''.inc('', ''increment counter'', ''meter'', ''timer'']"

definition killability_score :: "str \<Rightarrow> str \<Rightarrow> str \<Rightarrow> int \<times> str" where
  "killability_score name family detail =
     (if is_metric_side_effect name detail then (0, ''low'')
      else if family \<in> set [''boundary'', ''conditional'', ''return_value''] then (3, ''high'')
      else if family = ''side_effect'' then
        (if list_ex (contains (lower name))
           [''query'', ''build'', ''filter'', ''exist'', ''can'', ''open'', ''revert''] then (2, ''medium'')
         else if contains (lower detail) ''removed call'' then (1, ''medium'') else (1, ''low''))
      else if family \<in> set [''math'', ''negation''] then (1, ''medium'')
      else (1, ''low''))"

record family_score =
  fs_effort :: int
  fs_band :: band
  fs_roi :: rat
  fs_equivalent :: bool

record mutant_family =
  mf_method :: str
  mf_family :: str
  mf_mutator :: str
  mf_count :: int
  mf_lines :: "int list"
  mf_kill_score :: int
  mf_killability :: str
  mf_deprioritized :: bool
  mf_examples :: "survivor list"
  mf_score :: "family_score option"

text \<open>A dictionary of lists: the groups come in the order of their first element.\<close>

fun add_to_group :: "'k \<Rightarrow> 'a \<Rightarrow> ('k \<times> 'a list) list \<Rightarrow> ('k \<times> 'a list) list" where
  "add_to_group k x [] = [(k, [x])]"
| "add_to_group k x ((k', xs) # gs) = (if k' = k then (k', xs @ [x]) # gs else (k', xs) # add_to_group k x gs)"

definition grouped_by :: "('a \<Rightarrow> 'k) \<Rightarrow> 'a list \<Rightarrow> ('k \<times> 'a list) list" where
  "grouped_by f xs = foldl (\<lambda>gs x. add_to_group (f x) x gs) [] xs"

definition family_key :: "survivor \<Rightarrow> str \<times> str \<times> str" where
  "family_key s = (if sv_method s = [] then ''(unknown)'' else sv_method s,
     mutation_family (sv_type s) (sv_detail s), sv_type s)"

definition family_of_group :: "nat \<Rightarrow> (str \<times> str \<times> str) \<times> survivor list \<Rightarrow> mutant_family" where
  "family_of_group examples = (\<lambda>((name, family, mutator), items).
     (let ordered = sort_key (\<lambda>s. (sv_line s, sv_detail s)) items;
          (score, killability) = killability_score name family
            (case ordered of [] \<Rightarrow> [] | s # _ \<Rightarrow> sv_detail s) in
      \<lparr>mf_method = name, mf_family = family, mf_mutator = mutator, mf_count = int (length ordered),
       mf_lines = sort (remdups (map sv_line ordered)), mf_kill_score = score,
       mf_killability = killability,
       mf_deprioritized = (ordered \<noteq> [] \<and> (\<forall>s \<in> set ordered. is_metric_side_effect name (sv_detail s))),
       mf_examples = take examples ordered, mf_score = None\<rparr>))"

section \<open>Scoring the families\<close>

definition getter_tokens :: "str list" where
  "getter_tokens = [''get'', ''is'', ''has'', ''size'', ''length'', ''count'', ''hash'', ''tostring'', ''equals'']"

definition log_tokens :: "str list" where
  "log_tokens = [''log'', ''logger'', ''slf4j'', ''debug('', ''info('', ''warn('', ''trace('']"

definition is_alpha :: "char \<Rightarrow> bool" where
  "is_alpha c = (code c \<in> {65..90} \<or> code c \<in> {97..122})"

definition is_upper :: "char \<Rightarrow> bool" where
  "is_upper c = (code c \<in> {65..90})"

definition accessor_like :: "str \<Rightarrow> str \<Rightarrow> bool" where
  "accessor_like name token =
     (let n = lower name; i = length token in
      (n = token \<or> startswith n token)
      \<and> (length n \<le> i \<or> \<not> is_alpha (n ! i) \<or> (i < length name \<and> is_upper (name ! i))))"

definition likely_equivalent :: "str \<Rightarrow> str \<Rightarrow> str \<Rightarrow> bool" where
  "likely_equivalent name family detail =
     ((contains (lower detail) ''removed call'' \<and> list_ex (contains (lower detail)) log_tokens)
      \<or> (family = ''side_effect'' \<and> list_ex (accessor_like name) getter_tokens))"

text \<open>Of the methods with the same name the one of the higher effort counts.\<close>

definition better_effort :: "(str \<times> scored) list \<Rightarrow> scored \<Rightarrow> (str \<times> scored) list" where
  "better_effort table e =
     (let name = (if ef_name e = [] then simple_name (ef_fqn e) else ef_name e) in
      if name = [] then table
      else (case map_of table name of
          None \<Rightarrow> dict_set name e table
        | Some old \<Rightarrow> if ef_score old < ef_score e then dict_set name e table else table))"

definition method_effort_lookup :: "scored list \<Rightarrow> (str \<times> scored) list" where
  "method_effort_lookup efforts = foldl better_effort [] efforts"

text \<open>\<open>int((lookup.get(simple) or {}).get("effort_score", 2) or 2)\<close>.\<close>

definition base_effort :: "(str \<times> scored) list \<Rightarrow> str \<Rightarrow> int" where
  "base_effort table name = (case map_of table name of None \<Rightarrow> 2
     | Some e \<Rightarrow> if ef_score e = 0 then 2 else ef_score e)"

definition score_family :: "(str \<times> scored) list \<Rightarrow> mutant_family \<Rightarrow> mutant_family" where
  "score_family table f =
     (let simple = (if mf_method f = [] then [] else simple_name (mf_method f));
          detail = (case mf_examples f of [] \<Rightarrow> [] | s # _ \<Rightarrow> sv_detail s);
          effort = family_effort (base_effort table simple) (mf_family f) detail;
          equivalent = likely_equivalent simple (mf_family f) detail in
      f\<lparr>mf_score := Some \<lparr>fs_effort = effort, fs_band = effort_band effort,
          fs_roi = (if equivalent then 0 else mutation_roi_score (mf_count f) (mf_kill_score f) effort),
          fs_equivalent = equivalent\<rparr>,
        mf_deprioritized := (mf_deprioritized f \<or> equivalent)\<rparr>)"

definition roi_sort_key :: "mutant_family \<Rightarrow> bool \<times> rat \<times> int \<times> str \<times> int" where
  "roi_sort_key f = (mf_deprioritized f, - (case mf_score f of None \<Rightarrow> 0 | Some s \<Rightarrow> fs_roi s),
     - mf_kill_score f, mf_method f, case mf_lines f of [] \<Rightarrow> 0 | n # _ \<Rightarrow> n)"

definition count_sort_key :: "mutant_family \<Rightarrow> bool \<times> int \<times> int \<times> str \<times> int" where
  "count_sort_key f = (mf_deprioritized f, - mf_count f, - mf_kill_score f, mf_method f,
     case mf_lines f of [] \<Rightarrow> 0 | n # _ \<Rightarrow> n)"

definition ranked_families :: "nat \<Rightarrow> scored list option \<Rightarrow> survivor list \<Rightarrow> mutant_family list" where
  "ranked_families examples efforts survivors =
     (let families = map (family_of_group examples) (grouped_by family_key survivors) in
      case efforts of
        Some es \<Rightarrow> sort_key roi_sort_key (map (score_family (method_effort_lookup es)) families)
      | None \<Rightarrow> sort_key count_sort_key families)"

definition summarize_surviving_mutants ::
  "pit_row list option \<Rightarrow> str \<Rightarrow> nat \<Rightarrow> nat \<Rightarrow> scored list option \<Rightarrow> mutant_family list option" where
  "summarize_surviving_mutants report cls families examples efforts =
     map_option (\<lambda>survivors. take families (ranked_families examples efforts survivors))
       (parse_pitest_report report cls)"

section \<open>Repair groups\<close>

definition survivor_dict :: "survivor \<Rightarrow> pyval" where
  "survivor_dict s = PDict [(''line'', PInt (sv_line s)), (''method'', PStr (sv_method s)),
     (''mutation_type'', PStr (sv_type s)), (''detail'', PStr (sv_detail s))]"

definition repair_group_of :: "mutant_family \<Rightarrow> repair_group" where
  "repair_group_of f = \<lparr>rg_symbol = mf_method f, rg_count = mf_count f, rg_lines = mf_lines f,
     rg_survivors = map survivor_dict (mf_examples f), rg_diffs = [], rg_family = mf_family f,
     rg_killability = mf_killability f, rg_mutator = mf_mutator f,
     rg_effort_score = (case mf_score f of None \<Rightarrow> [] | Some s \<Rightarrow> int_str (fs_effort s)),
     rg_effort_band = (case mf_score f of None \<Rightarrow> [] | Some s \<Rightarrow> band_name (fs_band s)),
     rg_roi = map_option fs_roi (mf_score f), rg_deprioritized = mf_deprioritized f,
     rg_likely_equivalent = (case mf_score f of None \<Rightarrow> False | Some s \<Rightarrow> fs_equivalent s)\<rparr>"

definition java_repair_context ::
  "str \<Rightarrow> str \<Rightarrow> str list \<Rightarrow> str \<Rightarrow> mutant_family list \<Rightarrow> str \<Rightarrow> repair_context" where
  "java_repair_context target source tests command families artifact =
     (let groups = map repair_group_of families in
      \<lparr>rc_target = target, rc_source = source, rc_tests = tests, rc_command = command,
       rc_survivors = sum_list (map rg_count groups), rc_groups = groups, rc_artifact = artifact,
       rc_group_paths = [], rc_language = ''java'', rc_breakdown = []\<rparr>)"

text \<open>The long dash, in UTF-8.\<close>

definition dash :: str where
  "dash = [CHR 0xE2, CHR 0x80, CHR 0x94]"

definition quoted :: "str \<Rightarrow> str" where
  "quoted s = [CHR 0x60] @ s @ [CHR 0x60]"

definition shown_lines :: "nat \<Rightarrow> int list \<Rightarrow> str" where
  "shown_lines n ls = (let s = join_with '', '' (map int_str (take n ls)) in if s = [] then ''unknown'' else s)"

definition priority_note :: "repair_group \<Rightarrow> str" where
  "priority_note g =
     (if rg_likely_equivalent g then ''likely_equivalent '' @ dash @ '' skip, not worth a test''
      else if rg_deprioritized g then ''deprioritize unless there is an easy seam''
      else ''target early'')"

definition or_question :: "str \<Rightarrow> str" where
  "or_question s = (if s = [] then ''?'' else s)"

definition family_line :: "(rat \<Rightarrow> str) \<Rightarrow> bool \<Rightarrow> repair_group \<Rightarrow> str" where
  "family_line show_float has_roi g =
     ''- method '' @ quoted (rg_symbol g) @ '' '' @ dash @ '' '' @ quoted (rg_family g) @ '' via ''
     @ quoted (rg_mutator g) @ '' '' @ dash @ '' '' @ int_str (rg_count g) @ '' survivor(s), killability ''
     @ quoted (rg_killability g)
     @ (if has_roi then '', effort '' @ or_question (rg_effort_score g) @ '' ('' @ or_question (rg_effort_band g)
          @ ''), roi '' @ show_float (case rg_roi g of None \<Rightarrow> 0 | Some q \<Rightarrow> q) else [])
     @ '', '' @ priority_note g @ '', line(s): '' @ shown_lines 8 (rg_lines g)"

definition example_line :: "repair_group \<Rightarrow> survivor \<Rightarrow> str" where
  "example_line g s =
     ''  - line '' @ int_str (sv_line s) @ '' in ''
     @ quoted (if sv_method s = [] then rg_symbol g else sv_method s) @ '': '' @ quoted (sv_type s)
     @ (if sv_detail s = [] then [] else '' '' @ dash @ '' '' @ sv_detail s)"

definition ranked_by_roi :: str where
  "ranked_by_roi = ''_Ranked by kill-per-effort ROI '' @ dash @ '' tackle the top entry first._''"

definition format_mutation_families_markdown :: "(rat \<Rightarrow> str) \<Rightarrow> mutant_family list \<Rightarrow> str" where
  "format_mutation_families_markdown show_float families =
     (if families = [] then ''- No surviving mutant families were parsed.'' @ [newline]
      else (let has_roi = list_ex (\<lambda>f. mf_score f \<noteq> None) families in
        join_with [newline] ((if has_roi then [ranked_by_roi, []] else [])
          @ concat (map (\<lambda>f. (let g = repair_group_of f in
              family_line show_float has_roi g # map (example_line g) (mf_examples f))) families)) @ [newline]))"

section \<open>Statistics\<close>

record mutation_stats =
  ms_score :: rat
  ms_killed :: int
  ms_survived :: int
  ms_total :: int
  ms_by_status :: "(str \<times> int) list"
  ms_no_coverage :: int
  ms_timed_out :: int
  ms_non_viable :: int
  ms_memory_error :: int
  ms_run_error :: int

definition status_text :: "pit_row \<Rightarrow> str" where
  "status_text r = (case pw_status r of Some (c # cs) \<Rightarrow> c # cs | _ \<Rightarrow> ''UNKNOWN'')"

definition rows_with :: "str \<Rightarrow> pit_row list \<Rightarrow> int" where
  "rows_with status rows = int (length (filter (\<lambda>r. status_text r = status) rows))"

definition count_status :: "(str \<times> int) list \<Rightarrow> str \<Rightarrow> (str \<times> int) list" where
  "count_status counts s = dict_set s ((case map_of counts s of None \<Rightarrow> 0 | Some n \<Rightarrow> n) + 1) counts"

definition status_in :: "(str \<times> int) list \<Rightarrow> str \<Rightarrow> int" where
  "status_in counts s = (case map_of counts s of None \<Rightarrow> 0 | Some n \<Rightarrow> n)"

definition stats_of :: "rat \<Rightarrow> int \<Rightarrow> int \<Rightarrow> int \<Rightarrow> (str \<times> int) list \<Rightarrow> mutation_stats" where
  "stats_of score killed survived n counts =
     \<lparr>ms_score = score, ms_killed = killed, ms_survived = survived, ms_total = n, ms_by_status = counts,
      ms_no_coverage = status_in counts ''NO_COVERAGE'', ms_timed_out = status_in counts ''TIMED_OUT'',
      ms_non_viable = status_in counts ''NON_VIABLE'', ms_memory_error = status_in counts ''MEMORY_ERROR'',
      ms_run_error = status_in counts ''RUN_ERROR''\<rparr>"

text \<open>Without a report the counters that read the dictionary are absent; they are zero here.\<close>

definition compute_mutation_stats :: "pit_row list option \<Rightarrow> str \<Rightarrow> mutation_stats" where
  "compute_mutation_stats report cls = (case report of
     None \<Rightarrow> stats_of 0 0 0 0 []
   | Some all_rows \<Rightarrow>
       (let rows = filter (\<lambda>r. pw_class r = Some cls) all_rows; n = int (length rows);
            killed = rows_with ''KILLED'' rows in
        stats_of (if 0 < n then of_int killed / of_int n * 100 else 100) killed
          (rows_with ''SURVIVED'' rows) n (foldl count_status [] (map status_text rows))))"

definition compute_mutation_score :: "pit_row list option \<Rightarrow> str \<Rightarrow> rat" where
  "compute_mutation_score report cls = ms_score (compute_mutation_stats report cls)"

end
