(* ===== verification/MutationScoringFacts.thy ===== *)
theory MutationScoringFacts
  imports MutationScoring ScoringFacts
begin

text \<open>
  What the ranking of PIT survivors promises: the families partition the survivors, the ranking
  is sorted and puts what is not worth a test last, the scores stay in their bounds and the
  statistics add up.
\<close>

section \<open>Grouping\<close>

lemma mset_add_to_group:
  "mset (concat (map snd (add_to_group k x gs))) = add_mset x (mset (concat (map snd gs)))"
  by (induction k x gs rule: add_to_group.induct) auto

lemma keys_add_to_group: "fst ` set (add_to_group k x gs) = insert k (fst ` set gs)"
  by (induction k x gs rule: add_to_group.induct) auto

lemma distinct_add_to_group: "distinct (map fst gs) \<Longrightarrow> distinct (map fst (add_to_group k x gs))"
proof (induction k x gs rule: add_to_group.induct)
  case (2 k x k' xs gs)
  then show ?case using keys_add_to_group [of k x gs] by (auto simp flip: set_map)
qed simp

definition groups_of :: "('a \<Rightarrow> 'k) \<Rightarrow> ('k \<times> 'a list) list \<Rightarrow> bool" where
  "groups_of f gs = (\<forall>(k, xs) \<in> set gs. xs \<noteq> [] \<and> (\<forall>x \<in> set xs. f x = k))"

lemma groups_add_to_group: "groups_of f gs \<Longrightarrow> groups_of f (add_to_group (f x) x gs)"
  by (induction "f x" x gs rule: add_to_group.induct) (auto simp: groups_of_def)

lemma grouped_fold:
  "groups_of f gs \<Longrightarrow> distinct (map fst gs) \<Longrightarrow>
     groups_of f (foldl (\<lambda>gs x. add_to_group (f x) x gs) gs xs)
     \<and> distinct (map fst (foldl (\<lambda>gs x. add_to_group (f x) x gs) gs xs))
     \<and> mset (concat (map snd (foldl (\<lambda>gs x. add_to_group (f x) x gs) gs xs))) = mset (concat (map snd gs)) + mset xs"
proof (induction xs arbitrary: gs)
  case (Cons x xs)
  from Cons.IH [OF groups_add_to_group [OF Cons.prems(1)] distinct_add_to_group [OF Cons.prems(2)], of x]
  show ?case by (simp add: mset_add_to_group del: mset_concat)
qed simp

lemma grouped_by:
  "groups_of f (grouped_by f xs)" "distinct (map fst (grouped_by f xs))"
  "mset (concat (map snd (grouped_by f xs))) = mset xs"
  unfolding grouped_by_def using grouped_fold [of f "[]" xs] by (simp_all add: groups_of_def)

lemma group_is_filter:
  assumes "(k, ys) \<in> set (grouped_by f xs)"
  shows "mset ys = filter_mset (\<lambda>x. f x = k) (mset xs)"
proof -
  have "filter (\<lambda>x. f x = k) (concat (map snd gs)) = ys"
    if "groups_of f gs" "distinct (map fst gs)" "(k, ys) \<in> set gs" for gs
    using that
  proof (induction gs)
    case (Cons g gs)
    obtain k' zs where g: "g = (k', zs)" by (cases g)
    have zs: "\<forall>z \<in> set zs. f z = k'" using Cons.prems(1) g by (auto simp: groups_of_def)
    have gs: "groups_of f gs" "distinct (map fst gs)" using Cons.prems by (auto simp: groups_of_def)
    show ?case
    proof (cases "k' = k")
      case True
      then have absent: "k \<notin> fst ` set gs" using Cons.prems(2) g by auto
      then have "ys = zs" using Cons.prems(3) g by force
      moreover have "filter (\<lambda>x. f x = k) (concat (map snd gs)) = []"
        using gs(1) absent by (force simp: groups_of_def filter_empty_conv)
      ultimately show ?thesis using zs True g by simp
    next
      case False
      then have "filter (\<lambda>x. f x = k) zs = []" using zs by (simp add: filter_empty_conv)
      with False Cons.prems(3) g Cons.IH [OF gs] show ?thesis by simp
    qed
  qed simp
  from this [OF grouped_by(1,2) assms] show ?thesis
    by (metis grouped_by(3) mset_filter)
qed

section \<open>Families of survivors\<close>

lemma family_fields:
  assumes "g = (key, items)"
  shows "(mf_method (family_of_group n g), mf_family (family_of_group n g), mf_mutator (family_of_group n g)) = key"
    "mf_count (family_of_group n g) = int (length items)"
    "mf_lines (family_of_group n g) = sort (remdups (map sv_line (sort_key (\<lambda>s. (sv_line s, sv_detail s)) items)))"
    "mf_kill_score (family_of_group n g) \<in> {0..3}"
    "mf_examples (family_of_group n g) = take n (sort_key (\<lambda>s. (sv_line s, sv_detail s)) items)"
    "mf_score (family_of_group n g) = None"
  using assms
  by (simp_all add: family_of_group_def Let_def killability_score_def split: prod.splits)

definition family_id :: "mutant_family \<Rightarrow> str \<times> str \<times> str" where
  "family_id f = (mf_method f, mf_family f, mf_mutator f)"

lemma score_family_fields [simp]:
  "family_id (score_family t f) = family_id f" "mf_count (score_family t f) = mf_count f"
  "mf_lines (score_family t f) = mf_lines f" "mf_kill_score (score_family t f) = mf_kill_score f"
  "mf_examples (score_family t f) = mf_examples f" "mf_method (score_family t f) = mf_method f"
  by (simp_all add: score_family_def family_id_def Let_def)

lemma ranked_mset:
  "mset (ranked_families n efforts survivors) = mset (map ((case efforts of None \<Rightarrow> (\<lambda>f. f)
     | Some es \<Rightarrow> score_family (method_effort_lookup es)) \<circ> family_of_group n) (grouped_by family_key survivors))"
  by (cases efforts) (simp_all add: ranked_families_def Let_def image_mset.compositionality comp_def)

lemma ranked_member:
  assumes "f \<in> set (ranked_families n efforts survivors)"
  obtains key items where "(key, items) \<in> set (grouped_by family_key survivors)"
    "f = (case efforts of None \<Rightarrow> (\<lambda>f. f) | Some es \<Rightarrow> score_family (method_effort_lookup es)) (family_of_group n (key, items))"
proof -
  have "set (ranked_families n efforts survivors) = set (map ((case efforts of None \<Rightarrow> (\<lambda>f. f)
     | Some es \<Rightarrow> score_family (method_effort_lookup es)) \<circ> family_of_group n) (grouped_by family_key survivors))"
    using ranked_mset [of n efforts survivors] by (rule mset_eq_setD)
  with assms that show ?thesis by auto
qed


definition in_family :: "mutant_family \<Rightarrow> survivor list \<Rightarrow> survivor list" where
  "in_family f survivors = filter (\<lambda>s. family_key s = family_id f) survivors"

lemma family_of_survivors:
  assumes "f \<in> set (ranked_families n efforts survivors)"
  shows "mf_count f = int (length (in_family f survivors)) \<and> in_family f survivors \<noteq> []
    \<and> sorted (mf_lines f) \<and> distinct (mf_lines f) \<and> set (mf_lines f) = sv_line ` set (in_family f survivors)
    \<and> set (mf_examples f) \<subseteq> set (in_family f survivors) \<and> length (mf_examples f) \<le> n
    \<and> mf_kill_score f \<in> {0..3}"
proof -
  obtain key items where g: "(key, items) \<in> set (grouped_by family_key survivors)"
    "f = (case efforts of None \<Rightarrow> (\<lambda>f. f) | Some es \<Rightarrow> score_family (method_effort_lookup es)) (family_of_group n (key, items))"
    using ranked_member [OF assms] by blast
  have "family_id (family_of_group n (key, items)) = key"
    using family_fields(1) [of "(key, items)"] by (simp add: family_id_def)
  then have id: "family_id f = key" using g(2) by (cases efforts) simp_all
  have "mset items = mset (in_family f survivors)"
    using group_is_filter [OF g(1)] by (simp add: in_family_def id)
  then have same: "set items = set (in_family f survivors)" "length items = length (in_family f survivors)"
    by (auto dest: mset_eq_setD mset_eq_length)
  have "items \<noteq> []" using grouped_by(1) [of family_key survivors] g(1) by (auto simp: groups_of_def)
  then have "in_family f survivors \<noteq> []" using same by auto
  moreover have fields: "mf_count f = int (length items)"
    "mf_lines f = sort (remdups (map sv_line (sort_key (\<lambda>s. (sv_line s, sv_detail s)) items)))"
    "mf_kill_score f \<in> {0..3}" "mf_examples f = take n (sort_key (\<lambda>s. (sv_line s, sv_detail s)) items)"
    unfolding g(2) using family_fields(2-5) [of "(key, items)" key items n, OF refl] by (cases efforts; simp)+
  moreover have "set (mf_lines f) = sv_line ` set items" unfolding fields(2) by simp
  moreover have "set (mf_examples f) \<subseteq> set items" unfolding fields(4) by (auto dest: in_set_takeD)
  ultimately show ?thesis using same by simp
qed

lemma sum_lengths: "(\<Sum>g \<leftarrow> gs. int (length (snd g))) = int (length (concat (map snd gs)))"
  by (induction gs) simp_all

lemma ranked_ids:
  "mset (map family_id (ranked_families n efforts survivors)) = mset (map fst (grouped_by family_key survivors))"
proof -
  have id: "family_id (family_of_group n g) = fst g" for g
    using family_fields(1) [of g "fst g" "snd g"] by (simp add: family_id_def)
  show ?thesis
    unfolding mset_map ranked_mset
    by (cases efforts) (simp_all add: image_mset.compositionality comp_def id)
qed



section \<open>The ranking\<close>

lemma round2_mono: "p \<le> q \<Longrightarrow> round2 p \<le> round2 q"
  by (simp add: round2_def divide_right_mono round_half_even_mono)

lemma round2_int [simp]: "round2 (of_int n) = of_int n"
proof -
  have "round_half_even (of_int n * 100) = n * 100"
    using round_half_even_int [of "n * 100"] by simp
  then show ?thesis by (simp add: round2_def)
qed

lemma roi_score_bounds:
  assumes "0 \<le> n" "0 \<le> k"
  shows "0 \<le> mutation_roi_score n k effort" "mutation_roi_score n k effort \<le> of_int (n * k)"
proof -
  have q: "0 \<le> (of_int (n * k) / of_int (max effort 1) :: rat)"
    "(of_int (n * k) / of_int (max effort 1) :: rat) \<le> of_int (n * k)"
    using assms divide_left_mono [of "1 :: rat" "of_int (max effort 1)" "of_int (n * k)"] by simp_all
  show "0 \<le> mutation_roi_score n k effort"
    unfolding mutation_roi_score_def using round2_mono [OF q(1)] round2_int [of 0] by simp
  show "mutation_roi_score n k effort \<le> of_int (n * k)"
    unfolding mutation_roi_score_def using round2_mono [OF q(2)] unfolding round2_int .
qed

definition roi_of :: "mutant_family \<Rightarrow> rat" where
  "roi_of f = (case mf_score f of None \<Rightarrow> 0 | Some s \<Rightarrow> fs_roi s)"

lemma roi_order:
  assumes "roi_sort_key a \<le> roi_sort_key b"
  shows "mf_deprioritized a \<Longrightarrow> mf_deprioritized b"
    "mf_deprioritized a = mf_deprioritized b \<Longrightarrow> roi_of b \<le> roi_of a"
  using assms by (auto simp: roi_sort_key_def roi_of_def less_eq_prod_def less_prod_def split: if_split_asm)

lemma scored_family:
  assumes "f \<in> set (ranked_families n (Some efforts) survivors)"
  shows "\<exists>s. mf_score f = Some s \<and> 1 \<le> fs_effort s \<and> fs_band s = effort_band (fs_effort s)
    \<and> 0 \<le> fs_roi s \<and> fs_roi s \<le> of_int (3 * mf_count f)
    \<and> (fs_equivalent s \<longrightarrow> fs_roi s = 0 \<and> mf_deprioritized f)"
proof -
  obtain g where f: "f = score_family (method_effort_lookup efforts) (family_of_group n g)"
    using ranked_member [OF assms] by force
  have k: "mf_kill_score (family_of_group n g) \<in> {0..3}" "0 \<le> mf_count (family_of_group n g)"
    using family_fields(2,4) [of g "fst g" "snd g"] by simp_all
  have "of_int (mf_count (family_of_group n g) * mf_kill_score (family_of_group n g))
      \<le> (of_int (3 * mf_count (family_of_group n g)) :: rat)"
    using k mult_right_mono [of "mf_kill_score (family_of_group n g)" 3 "mf_count (family_of_group n g)"]
    by (simp only: of_int_le_iff) (simp add: mult.commute)
  moreover have "1 \<le> family_effort b fam d" for b fam d by (simp add: family_effort_def)
  ultimately show ?thesis
    unfolding f using k roi_score_bounds [of "mf_count (family_of_group n g)" "mf_kill_score (family_of_group n g)"]
    by (simp add: score_family_def Let_def) (meson order_trans)
qed

text \<open>
  when efforts are known, families not worth a test come last and among the others a
  family never comes before one with a higher score of kills per effort. Every family has an
  effort of at least one, the band of its effort and a score between zero and three times
  its survivors; a suspected equivalent family has score zero and is put last.
\<close>

theorem best_survivors_come_first:
  assumes "i < j" "j < length (ranked_families n (Some efforts) survivors)"
  shows "(let fs = ranked_families n (Some efforts) survivors in
     (mf_deprioritized (fs ! i) \<longrightarrow> mf_deprioritized (fs ! j))
     \<and> (mf_deprioritized (fs ! i) = mf_deprioritized (fs ! j) \<longrightarrow> roi_of (fs ! j) \<le> roi_of (fs ! i))
     \<and> (\<exists>s. mf_score (fs ! i) = Some s \<and> 1 \<le> fs_effort s \<and> fs_band s = effort_band (fs_effort s)
          \<and> 0 \<le> fs_roi s \<and> fs_roi s \<le> of_int (3 * mf_count (fs ! i))
          \<and> (fs_equivalent s \<longrightarrow> fs_roi s = 0 \<and> mf_deprioritized (fs ! i))))"
proof -
  let ?fs = "ranked_families n (Some efforts) survivors"
  have "sorted (map roi_sort_key ?fs)" by (simp add: ranked_families_def Let_def del: map_map)
  from sorted_nth_mono [OF this, of i j] assms
  have order: "roi_sort_key (?fs ! i) \<le> roi_sort_key (?fs ! j)" by simp
  from assms have "?fs ! i \<in> set ?fs" by simp
  from scored_family [OF this] show ?thesis
    unfolding Let_def using roi_order [OF order] by blast
qed

section \<open>Statistics\<close>

lemma count_status_get:
  "(case map_of (foldl count_status d xs) s of None \<Rightarrow> 0 | Some n \<Rightarrow> n)
    = (case map_of d s of None \<Rightarrow> 0 | Some n \<Rightarrow> n) + int (length (filter (\<lambda>x. x = s) xs))"
  by (induction xs arbitrary: d) (auto simp: count_status_def table_simps split: option.splits)

lemma status_counts:
  "status_in (foldl count_status [] (map status_text rows)) s = rows_with s rows"
  by (simp add: status_in_def count_status_get rows_with_def filter_map comp_def)

text \<open>
  the score of a report is a percentage, the killed and surviving mutants are at most
  all of them and are the entries of the status table, whatever the report holds.
\<close>

theorem mutation_stats_add_up:
  "0 \<le> ms_score (compute_mutation_stats report cls) \<and> ms_score (compute_mutation_stats report cls) \<le> 100
   \<and> 0 \<le> ms_killed (compute_mutation_stats report cls) \<and> 0 \<le> ms_survived (compute_mutation_stats report cls)
   \<and> ms_killed (compute_mutation_stats report cls) + ms_survived (compute_mutation_stats report cls)
       \<le> ms_total (compute_mutation_stats report cls)
   \<and> ms_killed (compute_mutation_stats report cls) = status_in (ms_by_status (compute_mutation_stats report cls)) ''KILLED''
   \<and> ms_survived (compute_mutation_stats report cls) = status_in (ms_by_status (compute_mutation_stats report cls)) ''SURVIVED''
   \<and> ms_no_coverage (compute_mutation_stats report cls) = status_in (ms_by_status (compute_mutation_stats report cls)) ''NO_COVERAGE''"
proof (cases report)
  case (Some all_rows)
  define rows where "rows = filter (\<lambda>r. pw_class r = Some cls) all_rows"
  have both: "rows_with ''KILLED'' rs + rows_with ''SURVIVED'' rs \<le> int (length rs)"
    "0 \<le> rows_with s rs" for rs s
    by (induction rs) (auto simp: rows_with_def)
  then have "rows_with ''KILLED'' rows \<le> int (length rows)"
    by (smt (verit) both)
  then have "(of_int (rows_with ''KILLED'' rows) :: rat) \<le> of_nat (length rows)"
    by (metis of_int_le_iff of_int_of_nat_eq)
  then have "rows \<noteq> [] \<Longrightarrow> of_int (rows_with ''KILLED'' rows) * 100 / of_nat (length rows) \<le> (100 :: rat)"
    by (simp add: pos_divide_le_eq)
  then show ?thesis
    using both(1) [of rows] both(2) [of _ rows] unfolding Some compute_mutation_stats_def stats_of_def
    by (simp add: Let_def status_counts flip: rows_def)
qed (simp add: compute_mutation_stats_def stats_of_def status_in_def)


section \<open>Two readings of the heuristics\<close>

text \<open>
  The comment of \<open>_likely_equivalent\<close> names \<open>isValid\<close> as a false positive it avoids; the
  method of effort zero is scored with the effort of an unknown one.
\<close>

lemma is_valid_counts_as_accessor: "likely_equivalent ''isValid'' ''side_effect'' detail"
proof -
  have "list_ex (accessor_like ''isValid'') getter_tokens" by code_simp
  then show ?thesis by (simp add: likely_equivalent_def)
qed

lemma free_method_costs_two:
  "map_of table name = Some e \<Longrightarrow> ef_score e = 0 \<Longrightarrow> base_effort table name = base_effort [] name"
  by (simp add: base_effort_def)

section \<open>Sample survivors\<close>

definition sample_survivors :: "survivor list" where
  "sample_survivors = [\<lparr>sv_line = 7, sv_method = ''load'', sv_type = ''MathMutator'', sv_detail = ''d''\<rparr>,
     \<lparr>sv_line = 3, sv_method = ''load'', sv_type = ''MathMutator'', sv_detail = ''d''\<rparr>,
     \<lparr>sv_line = 5, sv_method = [], sv_type = ''ReturnValsMutator'', sv_detail = ''d''\<rparr>]"

lemma sample_groups: "length (ranked_families n e sample_survivors) = 2"
proof -
  have "length (ranked_families n e sample_survivors) = length (grouped_by family_key sample_survivors)"
    using arg_cong [OF ranked_mset [of n e sample_survivors], of size] by simp
  also have "\<dots> = 2" by code_simp
  finally show ?thesis .
qed


theorem best_survivors_come_first_witness:
  "\<exists>s. mf_score (ranked_families 2 (Some []) sample_survivors ! 0) = Some s \<and> 1 \<le> fs_effort s \<and> 0 \<le> fs_roi s"
  using best_survivors_come_first [of 0 1 2 "[]" sample_survivors] by (simp add: sample_groups Let_def) blast

end
