(* ===== verification/RepairContext.thy ===== *)
theory RepairContext
  imports MutationScoring
begin

text \<open>
  The artifacts a mutation repair turn reads: \<open>uta/enforcement/mutation_repair.py\<close> renders a
  repair context to Markdown, whole or for one group, and writes it with its JSON. The files are a
  dictionary from paths to texts. \<open>str()\<close> of values that are no strings, the printing of a float
  and \<open>json.dumps\<close> are parameters; creating the directory is not modelled.
\<close>

section \<open>Rendering\<close>

record render_ports =
  rp_shown :: "pyval \<Rightarrow> str"
  rp_float :: "rat \<Rightarrow> str"
  rp_json :: "pydict \<Rightarrow> str"

definition format_failure_breakdown :: "repair_context \<Rightarrow> str" where
  "format_failure_breakdown ctx =
     (if rc_breakdown ctx = [] then '' (survived='' @ int_str (rc_survivors ctx) @ '')''
      else (let parts = map (\<lambda>(key, value). key @ ''='' @ int_str value)
              (filter (\<lambda>(key, value). value \<noteq> 0) (sort_key fst (rc_breakdown ctx))) in
        if parts = [] then [] else '' ('' @ join_with '', '' parts @ '')''))"

definition format_family_line :: "render_ports \<Rightarrow> repair_group \<Rightarrow> str" where
  "format_family_line p g =
     ''- mutation family: '' @ quoted (rg_family g)
     @ (if rg_mutator g = [] then [] else '' via '' @ quoted (rg_mutator g))
     @ (if rg_killability g = [] then [] else '', killability '' @ rg_killability g)
     @ (case rg_roi g of None \<Rightarrow> [] | Some q \<Rightarrow>
          '', effort '' @ or_question (rg_effort_score g) @ '' ('' @ or_question (rg_effort_band g)
          @ ''), roi '' @ rp_float p q)
     @ (if rg_likely_equivalent g then '', likely_equivalent '' @ dash @ '' skip, not worth a test''
        else if rg_deprioritized g then '', deprioritize unless there is an easy seam''
        else if rg_mutator g \<noteq> [] \<or> rg_roi g \<noteq> None then '', target early'' else [])"

text \<open>\<open>str(d.get(a) or d.get(b) or "").strip()\<close>.\<close>

definition first_text :: "render_ports \<Rightarrow> pydict \<Rightarrow> str \<Rightarrow> str \<Rightarrow> str" where
  "first_text p d a b = strip (if truthy (get d a) then shown_as (rp_shown p) (get d a)
     else text_in (rp_shown p) d b [])"

definition survivor_line :: "render_ports \<Rightarrow> pydict \<Rightarrow> str" where
  "survivor_line p d =
     (let mutant = first_text p d ''id'' ''mutant'' in
      rstrip (''  - line '' @ shown_as (rp_shown p) (get_or d ''line'' (PStr ''?'')) @ '':''
        @ (if mutant = [] then [] else '' '' @ quoted mutant) @ '' '' @ first_text p d ''description'' ''mutation_type''))"

definition diff_fence :: str where
  "diff_fence = [CHR 0x60, CHR 0x60, CHR 0x60]"

definition diff_lines :: "render_ports \<Rightarrow> pydict \<Rightarrow> str list" where
  "diff_lines p d = (let out = strip (text_in (rp_shown p) d ''output'' []) in
     if out = [] then [] else [diff_fence @ ''diff'', out, diff_fence])"

definition group_lines :: "render_ports \<Rightarrow> repair_group \<Rightarrow> str list" where
  "group_lines p g =
     [''### '' @ quoted (rg_symbol g), ''- survivors: '' @ int_str (rg_count g),
      ''- lines: '' @ shown_lines 12 (rg_lines g)]
     @ (if rg_family g = [] then [] else [format_family_line p g])
     @ (if rg_survivors g = [] then []
        else ''- representative survivors:'' # map (survivor_line p \<circ> as_dict) (take 6 (rg_survivors g)))
     @ (if rg_diffs g = [] then []
        else ''- representative diffs:'' # concat (map (diff_lines p \<circ> as_dict) (rg_diffs g)))
     @ [[]]"

text \<open>An empty symbol selects every group.\<close>

definition selected_groups :: "str option \<Rightarrow> repair_group list \<Rightarrow> repair_group list" where
  "selected_groups selected groups = (case selected of None \<Rightarrow> groups
     | Some s \<Rightarrow> if s = [] then groups else filter (\<lambda>g. rg_symbol g = s) groups)"

definition context_head :: "repair_context \<Rightarrow> str list" where
  "context_head ctx =
     [''# Mutation Repair Context'', [],
      ''- Target: '' @ quoted (rc_target ctx), ''- Source: '' @ quoted (rc_source ctx),
      ''- Test path(s): '' @ quoted (join_with '', '' (rc_tests ctx)),
      ''- Failed mutation candidates: '' @ int_str (rc_survivors ctx) @ format_failure_breakdown ctx, [],
      ''## Verification'',
      ''The orchestrator will run the authoritative mutation verifier after the active test file is edited.'',
      ''Do not run mutation commands from this context artifact.'', [],
      ''## Survivor Groups'', []]
     @ (if list_ex (\<lambda>g. rg_roi g \<noteq> None) (rc_groups ctx) then [ranked_by_roi, []] else [])"

definition format_mutation_repair_context :: "render_ports \<Rightarrow> str option \<Rightarrow> repair_context \<Rightarrow> str" where
  "format_mutation_repair_context p selected ctx =
     rstrip (join_with [newline]
       (context_head ctx @ concat (map (group_lines p) (selected_groups selected (rc_groups ctx)))))
     @ [newline]"

section \<open>Files\<close>

definition roi_value :: "rat option \<Rightarrow> pyval" where
  "roi_value q = (case q of None \<Rightarrow> PNone | Some x \<Rightarrow> PFloat x)"

definition group_payload :: "repair_group \<Rightarrow> pyval" where
  "group_payload g = PDict [(''symbol'', PStr (rg_symbol g)), (''count'', PInt (rg_count g)),
     (''lines'', PList (map PInt (rg_lines g))), (''family'', PStr (rg_family g)),
     (''killability'', PStr (rg_killability g)), (''mutator'', PStr (rg_mutator g)),
     (''effort_score'', PStr (rg_effort_score g)), (''effort_band'', PStr (rg_effort_band g)),
     (''roi'', roi_value (rg_roi g)), (''deprioritized'', PBool (rg_deprioritized g)),
     (''likely_equivalent'', PBool (rg_likely_equivalent g)), (''survivors'', PList (rg_survivors g)),
     (''representative_diffs'', PList (rg_diffs g))]"

definition context_json :: "render_ports \<Rightarrow> repair_context \<Rightarrow> str" where
  "context_json p ctx = rp_json p [(''target_id'', PStr (rc_target ctx)),
     (''language'', PStr (rc_language ctx)), (''source_path'', PStr (rc_source ctx)),
     (''test_paths'', PList (map PStr (rc_tests ctx))), (''survivor_count'', PInt (rc_survivors ctx)),
     (''failure_breakdown'', PDict (map (\<lambda>(k, n). (k, PInt n)) (rc_breakdown ctx))),
     (''groups'', PList (map group_payload (rc_groups ctx)))]"

definition context_file :: "str \<Rightarrow> str" where
  "context_file dir = dir @ ''/mutation-repair-context.md''"

definition write_group :: "render_ports \<Rightarrow> str \<Rightarrow> repair_context \<Rightarrow> (str \<times> str) list \<Rightarrow> repair_group \<Rightarrow> (str \<times> str) list" where
  "write_group p dir ctx files g =
     dict_set (group_file dir g) (format_mutation_repair_context p (Some (rg_symbol g)) ctx) files"

text \<open>The files after \<open>write_mutation_repair_context\<close>.\<close>

definition repair_context_files ::
  "render_ports \<Rightarrow> str \<Rightarrow> repair_context \<Rightarrow> int \<Rightarrow> (str \<times> str) list \<Rightarrow> (str \<times> str) list" where
  "repair_context_files p dir ctx threshold files =
     foldl (write_group p dir ctx)
       (dict_set (dir @ ''/mutation-repair-context.json'') (context_json p ctx)
         (dict_set (context_file dir) (format_mutation_repair_context p None ctx) files))
       (if should_split_mutation_repair (rc_survivors ctx) threshold then rc_groups ctx else [])"

section \<open>Which group a file holds\<close>

lemma group_file_slug: "group_file dir g = group_file dir h \<longleftrightarrow> slug (rg_symbol g) = slug (rg_symbol h)"
  by (simp add: group_file_def)

lemma fold_write_group:
  "map_of (foldl (write_group p dir ctx) files gs) path =
     (case filter (\<lambda>g. group_file dir g = path) gs of
        [] \<Rightarrow> map_of files path
      | g # hs \<Rightarrow> Some (format_mutation_repair_context p (Some (rg_symbol (last (g # hs)))) ctx))"
proof (induction gs arbitrary: files)
  case (Cons g gs)
  then show ?case
    by (cases "filter (\<lambda>g. group_file dir g = path) gs") (auto simp: write_group_def table_simps)
qed simp

lemma fold_paths:
  "map_of (foldl (\<lambda>paths g. dict_set (rg_symbol g) (group_file dir g) paths) paths gs) s =
     (if s \<in> rg_symbol ` set gs then Some (dir @ ''/mutation-repair-'' @ slug s @ ''.md'') else map_of paths s)"
  by (induction gs arbitrary: paths) (auto simp: table_simps group_file_def)

lemma context_files_differ: "group_file dir g = context_file dir \<longleftrightarrow> slug (rg_symbol g) = ''context''"
  "dir @ ''/mutation-repair-context.json'' \<noteq> context_file dir"
  by (simp_all add: group_file_def context_file_def)

text \<open>
  above the threshold every group has a file under its symbol, and the file holds the
  rendering of the last group whose symbol has the same slug; the path of the whole context
  holds the whole context unless a symbol has the slug "context", and then only that group.
\<close>

theorem repair_files_hold_the_last_group:
  assumes "should_split_mutation_repair (rc_survivors ctx) threshold"
  shows "(\<forall>g \<in> set (rc_groups ctx).
        map_of (rc_group_paths (write_mutation_repair_context dir ctx threshold)) (rg_symbol g)
          = Some (group_file dir g)
        \<and> map_of (repair_context_files p dir ctx threshold files) (group_file dir g)
          = Some (format_mutation_repair_context p (Some (rg_symbol (last (filter
              (\<lambda>h. slug (rg_symbol h) = slug (rg_symbol g)) (rc_groups ctx))))) ctx))
    \<and> (map_of (repair_context_files p dir ctx threshold files)
          (rc_artifact (write_mutation_repair_context dir ctx threshold))
        = Some (case filter (\<lambda>h. slug (rg_symbol h) = ''context'') (rc_groups ctx) of
            [] \<Rightarrow> format_mutation_repair_context p None ctx
          | g # gs \<Rightarrow> format_mutation_repair_context p (Some (rg_symbol (last (g # gs)))) ctx))"
proof (intro conjI ballI)
  fix g assume g: "g \<in> set (rc_groups ctx)"
  then show "map_of (rc_group_paths (write_mutation_repair_context dir ctx threshold)) (rg_symbol g)
      = Some (group_file dir g)"
    using assms by (simp add: write_mutation_repair_context_def fold_paths) (simp add: group_file_def)
  let ?same = "filter (\<lambda>h. slug (rg_symbol h) = slug (rg_symbol g)) (rc_groups ctx)"
  from g obtain h hs where "?same = h # hs" by (cases ?same) (auto simp: filter_empty_conv)
  then show "map_of (repair_context_files p dir ctx threshold files) (group_file dir g)
      = Some (format_mutation_repair_context p (Some (rg_symbol (last ?same))) ctx)"
    using assms by (simp add: repair_context_files_def fold_write_group group_file_slug)
next
  have artifact: "rc_artifact (write_mutation_repair_context dir ctx threshold) = context_file dir"
    by (simp add: write_mutation_repair_context_def context_file_def)
  show "map_of (repair_context_files p dir ctx threshold files)
      (rc_artifact (write_mutation_repair_context dir ctx threshold))
    = Some (case filter (\<lambda>h. slug (rg_symbol h) = ''context'') (rc_groups ctx) of
        [] \<Rightarrow> format_mutation_repair_context p None ctx
      | g # gs \<Rightarrow> format_mutation_repair_context p (Some (rg_symbol (last (g # gs)))) ctx)"
    unfolding artifact using assms context_files_differ(2) [of dir]
    by (simp add: repair_context_files_def fold_write_group context_files_differ(1) table_simps
        split: list.split)
qed

section \<open>Two groups, one file\<close>

definition sample_group :: "str \<Rightarrow> repair_group" where
  "sample_group s = \<lparr>rg_symbol = s, rg_count = 30, rg_lines = [1], rg_survivors = [], rg_diffs = [],
     rg_family = [], rg_killability = [], rg_mutator = [], rg_effort_score = [], rg_effort_band = [],
     rg_roi = None, rg_deprioritized = False, rg_likely_equivalent = False\<rparr>"

definition sample_context :: repair_context where
  "sample_context = \<lparr>rc_target = ''pyfile:a.py'', rc_source = ''a.py'', rc_tests = [], rc_command = [],
     rc_survivors = 60, rc_groups = [sample_group ''_load'', sample_group ''load''], rc_artifact = [],
     rc_group_paths = [], rc_language = ''python'', rc_breakdown = []\<rparr>"

definition sample_render :: render_ports where
  "sample_render = \<lparr>rp_shown = (\<lambda>v. ''?''), rp_float = (\<lambda>q. int_str (round_half_even q)), rp_json = (\<lambda>d. ''{}'')\<rparr>"

theorem repair_files_hold_the_last_group_witness:
  "map_of (rc_group_paths (write_mutation_repair_context ''d'' sample_context 50)) ''_load''
     = Some (group_file ''d'' (sample_group ''_load''))
   \<and> map_of (repair_context_files sample_render ''d'' sample_context 50 []) (group_file ''d'' (sample_group ''_load''))
     = Some (format_mutation_repair_context sample_render (Some ''load'') sample_context)"
proof -
  have split: "should_split_mutation_repair (rc_survivors sample_context) 50"
    by (simp add: should_split_mutation_repair_def sample_context_def)
  have groups: "rc_groups sample_context = [sample_group ''_load'', sample_group ''load'']"
    by (simp add: sample_context_def)
  have slugs: "slug ''_load'' = ''load''" "slug ''load'' = ''load''" by code_simp+
  show ?thesis
    using repair_files_hold_the_last_group [OF split, of "''d''" sample_render "[]"]
    by (simp add: groups slugs sample_group_def)
qed

end
