(* ===== verification/WorkspaceGuard.thy ===== *)
theory WorkspaceGuard
  imports JavaTools "HOL-Library.List_Lexorder" "HOL-Library.Char_ord"
begin

text \<open>
  What a turn of the model may touch: the path rules of \<open>uta/shared/workspace_policy.py\<close> and of
  the language policies (\<open>uta/language/java/workspace.py\<close>, \<open>uta/language/python/workspace.py\<close>),
  and the guard around a turn, \<open>uta/testgen/task_guard.py\<close>. Git and the task store are ports; a
  snapshot maps every dirty path to the digest of its content.
\<close>

section \<open>Paths\<close>

definition generic_allowed_paths :: "str list" where
  "generic_allowed_paths = [''opencode.json'', ''.uta_summary.md'']"

definition generic_allowed_prefixes :: "str list" where
  "generic_allowed_prefixes = [''.sisyphus/'', ''.uta_cache/'', ''.uta_reports/'']"

definition uta_owned :: "str \<Rightarrow> bool" where
  "uta_owned path = (path \<in> set generic_allowed_paths \<or> list_ex (startswith path) generic_allowed_prefixes)"

function drop_here :: "str \<Rightarrow> str" where
  "drop_here path = (if startswith path ''./'' then drop_here (drop 2 path) else path)"
  by pat_completeness auto

termination
  by (relation "measure length") (auto simp: startswith_def dest: arg_cong [where f = length])

definition is_uta_runtime_residue :: "str \<Rightarrow> bool" where
  "is_uta_runtime_residue path = uta_owned (drop_here path)"

text \<open>\<open>PurePosixPath.parts\<close> of a relative path, its name and its suffix.\<close>

definition path_parts :: "str \<Rightarrow> str list" where
  "path_parts path = filter (\<lambda>p. p \<noteq> [] \<and> p \<noteq> ''.'') (split_on (CHR ''/'') path)"

definition path_name :: "str \<Rightarrow> str" where
  "path_name path = (let ps = path_parts path in if ps = [] then [] else last ps)"

definition path_suffix :: "str \<Rightarrow> str" where
  "path_suffix path =
     (let name = path_name path; ending = rev (takeWhile (\<lambda>c. c \<noteq> CHR ''.'') (rev name)) in
      if length ending < length name \<and> ending \<noteq> [] \<and> length ending + 1 < length name
      then CHR ''.'' # ending else [])"

definition lstrip_slash :: "str \<Rightarrow> str" where
  "lstrip_slash path = dropWhile (\<lambda>c. c = CHR ''/'') path"

definition visible_path :: "str \<Rightarrow> bool" where
  "visible_path path = (path \<noteq> [] \<and> \<not> startswith path ''.'')"

section \<open>Java\<close>

definition is_maven_project_file :: "str \<Rightarrow> bool" where
  "is_maven_project_file path = (path = ''pom.xml'' \<or> endswith path ''/pom.xml'')"

definition java_test_artifact :: "str \<Rightarrow> bool" where
  "java_test_artifact path = (let p = lstrip_slash path in
     visible_path p \<and> (startswith p ''src/test/'' \<or> contains p ''/src/test/''))"

definition is_ci_incremental_java_repair :: "pydict \<Rightarrow> bool" where
  "is_ci_incremental_java_repair st =
     (get st ''quality_mode'' = PStr ''ci_incremental'' \<and> get st ''quality_gate_backend'' = PStr ''maven_enforcer'')"

text \<open>The targets of a turn: its batch, the current batch and the current class.\<close>

definition task_fqns_for_guard :: "(pyval \<Rightarrow> str) \<Rightarrow> pydict \<Rightarrow> str list \<Rightarrow> str list" where
  "task_fqns_for_guard shown st batch = dedup (batch
     @ (case get st ''current_batch'' of PList xs \<Rightarrow> map (shown_as shown) (filter truthy xs) | _ \<Rightarrow> [])
     @ (if truthy (get st ''current_class'') then [shown_as shown (get st ''current_class'')] else []))"

definition java_expected_path :: "str \<Rightarrow> str \<Rightarrow> str \<Rightarrow> bool" where
  "java_expected_path mname path fqn =
     (path = forward_slashes (expected_test_file_rel mname fqn)
      \<or> (mname = [] \<and> endswith path (CHR ''/'' # forward_slashes (expected_test_file_rel [] fqn))))"

definition java_allowed_llm_path :: "(pyval \<Rightarrow> str) \<Rightarrow> str \<Rightarrow> pydict \<Rightarrow> str list \<Rightarrow> bool" where
  "java_allowed_llm_path shown path st batch =
     (is_maven_project_file path \<or> java_test_artifact path
      \<or> (\<not> is_ci_incremental_java_repair st
         \<and> list_ex (java_expected_path (text_in shown st ''module'' []) path) (task_fqns_for_guard shown st batch)))"

section \<open>Python\<close>

definition temp_artifact_suffixes :: "str list" where
  "temp_artifact_suffixes = [''.cfg'', ''.conf'', ''.ini'', ''.json'', ''.log'', ''.txt'', ''.yaml'', ''.yml'']"

definition looks_like_python_test_path :: "str \<Rightarrow> bool" where
  "looks_like_python_test_path path =
     (let ps = path_parts path; name = path_name path in
      ps \<noteq> [] \<and> path_suffix path = ''.py''
      \<and> (startswith name ''test_'' \<or> endswith name ''_test.py'')
      \<and> list_ex (\<lambda>p. p = ''tests'' \<or> p = ''test'' \<or> endswith p ''_test'') (butlast ps))"

definition is_python_runtime_temp_artifact :: "str \<Rightarrow> bool" where
  "is_python_runtime_temp_artifact path =
     (startswith path ''.tmp_'' \<and> lower (path_suffix path) \<in> set temp_artifact_suffixes)"

definition python_test_artifact :: "str \<Rightarrow> bool" where
  "python_test_artifact path = (let p = lstrip_slash path in visible_path p \<and> looks_like_python_test_path p)"

definition python_allowed_llm_path :: "str \<Rightarrow> bool" where
  "python_allowed_llm_path path =
     (path = ''pyproject.toml''
      \<or> path = ''.coverage'' \<or> startswith path ''.coverage.''
      \<or> startswith path ''.mutmut-cache/'' \<or> startswith path ''.pytest_cache/''
      \<or> path = ''mutants'' \<or> startswith path ''mutants/''
      \<or> is_python_runtime_temp_artifact path \<or> python_test_artifact path
      \<or> (startswith path ''tests/uta_generated/'' \<and> endswith path ''.py''))"

section \<open>The policy of a state\<close>

datatype guard_error = TaskStopRequested str | TaskUnsafeDiff str | UnknownBackend str | PortFailure str

type_synonym ('w, 'a) guard_prog = "('w, guard_error, 'a) prog"

type_synonym snapshot = "(str \<times> str) list"

record 'w workspace_policy =
  wp_allowed :: "str \<Rightarrow> pydict \<Rightarrow> str list \<Rightarrow> bool"
  wp_test :: "str \<Rightarrow> bool"
  wp_cleanup :: "str \<Rightarrow> ('w, unit) guard_prog"
  wp_cleanup_generated :: "str \<Rightarrow> snapshot \<Rightarrow> ('w, unit) guard_prog"

definition java_policy :: "(pyval \<Rightarrow> str) \<Rightarrow> 'w workspace_policy" where
  "java_policy shown = \<lparr>wp_allowed = java_allowed_llm_path shown, wp_test = java_test_artifact,
     wp_cleanup = (\<lambda>_. ret ()), wp_cleanup_generated = (\<lambda>_ _. ret ())\<rparr>"

text \<open>The residue of the Python tools is removed through the file system and git.\<close>

definition python_policy ::
  "(str \<Rightarrow> ('w, unit) guard_prog) \<Rightarrow> (str \<Rightarrow> ('w, unit) guard_prog) \<Rightarrow> 'w workspace_policy" where
  "python_policy cleanup remove_lock = \<lparr>wp_allowed = (\<lambda>path _ _. python_allowed_llm_path path),
     wp_test = python_test_artifact, wp_cleanup = cleanup,
     wp_cleanup_generated = (\<lambda>repo before. if map_of before ''uv.lock'' \<noteq> None then ret () else remove_lock repo)\<rparr>"

definition guard_language :: "(pyval \<Rightarrow> str) \<Rightarrow> pydict \<Rightarrow> str list \<Rightarrow> str" where
  "guard_language shown st batch =
     (let language = lower (strip (text_in shown st ''language'' [])) in
      if language \<noteq> [] then language
      else if list_ex (\<lambda>b. startswith b ''pyfile:'' \<or> startswith b ''pysymbol:'') batch then ''python''
      else ''java'')"


section \<open>Ports\<close>

record 'w guard_ports =
  gp_stop_reason :: "str \<Rightarrow> ('w, str option) guard_prog"
  gp_mark_stopped :: "str \<Rightarrow> str \<Rightarrow> str \<Rightarrow> ('w, unit) guard_prog"
  gp_check_budget :: "str \<Rightarrow> str list \<Rightarrow> str \<Rightarrow> ('w, unit) guard_prog"
  gp_add_event :: "str \<Rightarrow> str \<Rightarrow> pydict \<Rightarrow> ('w, unit) guard_prog"
  gp_record_unsafe :: "str \<Rightarrow> str list \<Rightarrow> str \<Rightarrow> str \<Rightarrow> str list \<Rightarrow> bool \<Rightarrow> ('w, unit) guard_prog"
  gp_mark_failed :: "str \<Rightarrow> str \<Rightarrow> str \<Rightarrow> ('w, unit) guard_prog"

text \<open>\<open>make_backend\<close> looks a language up in a table; git answers with paths, digests and a branch.\<close>

record 'w guard_env =
  gv_shown :: "pyval \<Rightarrow> str"
  gv_ports :: "pydict \<Rightarrow> 'w guard_ports option"
  gv_policies :: "(str \<times> 'w workspace_policy) list"
  gv_snapshot :: "str \<Rightarrow> ('w, snapshot) guard_prog"
  gv_dirty :: "str \<Rightarrow> ('w, str list) guard_prog"
  gv_branch :: "str \<Rightarrow> ('w, int \<times> str) guard_prog"

definition workspace_policy_for ::
  "'w guard_env \<Rightarrow> pydict \<Rightarrow> str list \<Rightarrow> ('w, 'w workspace_policy) guard_prog" where
  "workspace_policy_for env st batch =
     (let language = lower (strip (guard_language (gv_shown env) st batch)) in
      case map_of (gv_policies env) language of
        None \<Rightarrow> raise (UnknownBackend language) | Some p \<Rightarrow> ret p)"

definition allowed_llm_path :: "'w guard_env \<Rightarrow> str \<Rightarrow> pydict \<Rightarrow> str list \<Rightarrow> ('w, bool) guard_prog" where
  "allowed_llm_path env path st batch =
     (let p = forward_slashes path in
      if uta_owned p then ret True
      else seq (workspace_policy_for env st batch) (\<lambda>policy. ret (wp_allowed policy p st batch)))"

definition deterministic_changes :: "pydict \<Rightarrow> str list" where
  "deterministic_changes st = List.map_filter text_of (as_list (get st ''deterministic_change_paths''))"

definition allowed_preexisting_dirty_path ::
  "'w guard_env \<Rightarrow> str \<Rightarrow> pydict \<Rightarrow> str list \<Rightarrow> ('w, bool) guard_prog" where
  "allowed_preexisting_dirty_path env path st batch =
     (let p = forward_slashes path in
      seq (allowed_llm_path env p st batch) (\<lambda>allowed.
        ret (allowed \<or> p \<in> set (deterministic_changes st)
          \<or> p = ''AGENTS.md'' \<or> p = ''CLAUDE.md'' \<or> startswith p ''.opencode/'')))"

text \<open>The elements of a list that are not allowed.\<close>

fun rejected :: "(str \<Rightarrow> ('w, bool) guard_prog) \<Rightarrow> str list \<Rightarrow> ('w, str list) guard_prog" where
  "rejected allowed [] = ret []"
| "rejected allowed (p # ps) = seq (allowed p) (\<lambda>ok.
     seq (rejected allowed ps) (\<lambda>rest. ret (if ok then rest else p # rest)))"

section \<open>Around a turn\<close>

record turn_snapshot =
  tn_repo :: str
  tn_before :: snapshot
  tn_phase :: str
  tn_batch :: "str list"

definition guarded_state :: "pydict \<Rightarrow> bool" where
  "guarded_state st = (truthy (get st ''task_id'') \<and> truthy (get st ''task_db_path''))"

definition text_at :: "'w guard_env \<Rightarrow> pydict \<Rightarrow> str \<Rightarrow> str" where
  "text_at env st key = shown_as (gv_shown env) (get st key)"

definition guard_ports_before :: "'w guard_env \<Rightarrow> 'w guard_ports \<Rightarrow> pydict \<Rightarrow> str list \<Rightarrow> str \<Rightarrow> ('w, unit) guard_prog" where
  "guard_ports_before env p st batch phase =
     (let task = text_at env st ''task_id''; repo = text_at env st ''repo_path'' in
      seq (gp_stop_reason p task) (\<lambda>reason.
      case reason of
        Some (c # cs) \<Rightarrow> andthen (gp_mark_stopped p task (c # cs) phase) (raise (TaskStopRequested (c # cs)))
      | _ \<Rightarrow>
          andthen (gp_check_budget p task (task_fqns_for_guard (gv_shown env) st batch) phase)
         (seq (workspace_policy_for env st batch) (\<lambda>policy.
          andthen (wp_cleanup policy repo)
           (gp_add_event p task ''llm_progress''
             [(''message'', PStr (''Starting LLM phase '' @ phase)), (''stage'', PStr phase),
              (''payload'', PDict [(''batch'', PList (map PStr batch))])])))))"

definition llm_guard_before ::
  "'w guard_env \<Rightarrow> pydict \<Rightarrow> str list \<Rightarrow> str \<Rightarrow> ('w, turn_snapshot option) guard_prog" where
  "llm_guard_before env st batch phase =
     (if \<not> guarded_state st \<or> \<not> truthy (get st ''repo_path'') then ret None
      else (let repo = text_at env st ''repo_path'' in
        andthen (case gv_ports env st of None \<Rightarrow> ret () | Some p \<Rightarrow> guard_ports_before env p st batch phase)
       (seq (gv_snapshot env repo) (\<lambda>before.
          ret (Some \<lparr>tn_repo = repo, tn_before = before, tn_phase = phase, tn_batch = batch\<rparr>)))))"

definition changed_between :: "snapshot \<Rightarrow> snapshot \<Rightarrow> str list" where
  "changed_between before after =
     sort (remdups (filter (\<lambda>p. map_of before p \<noteq> map_of after p) (map fst before @ map fst after)))"

definition unsafe_message :: "str list \<Rightarrow> str" where
  "unsafe_message unsafe = ''Unsafe LLM-authored paths: '' @ join_with '', '' unsafe"

definition refuse_unsafe ::
  "'w guard_env \<Rightarrow> pydict \<Rightarrow> str list \<Rightarrow> str \<Rightarrow> str \<Rightarrow> str list \<Rightarrow> bool \<Rightarrow> ('w, unit) guard_prog" where
  "refuse_unsafe env st batch stage message paths fail_task =
     andthen (case gv_ports env st of None \<Rightarrow> ret ()
       | Some p \<Rightarrow> gp_record_unsafe p (text_at env st ''task_id'') (task_fqns_for_guard (gv_shown env) st batch)
           stage message paths fail_task)
     (raise (TaskUnsafeDiff message))"

definition llm_guard_after :: "'w guard_env \<Rightarrow> pydict \<Rightarrow> turn_snapshot option \<Rightarrow> ('w, unit) guard_prog" where
  "llm_guard_after env st snap = (case snap of
     None \<Rightarrow> ret ()
   | Some t \<Rightarrow>
      if \<not> guarded_state st then ret ()
      else
        seq (workspace_policy_for env st (tn_batch t)) (\<lambda>policy.
        andthen (wp_cleanup policy (tn_repo t))
       (andthen (wp_cleanup_generated policy (tn_repo t) (tn_before t))
       (seq (gv_snapshot env (tn_repo t)) (\<lambda>after.
        seq (rejected (\<lambda>p. allowed_llm_path env p st (tn_batch t)) (changed_between (tn_before t) after)) (\<lambda>unsafe.
        if unsafe = [] then ret ()
        else refuse_unsafe env st (tn_batch t) (tn_phase t) (unsafe_message unsafe) unsafe False))))))"

definition branch_mismatch :: "'w guard_env \<Rightarrow> pydict \<Rightarrow> int \<times> str \<Rightarrow> str option" where
  "branch_mismatch env st answer =
     (let current = strip (snd answer); expected = text_at env st ''branch_name'' in
      if fst answer = 0 \<and> truthy (get st ''branch_name'') \<and> current \<noteq> [] \<and> current \<noteq> expected
      then Some (''Production task branch mismatch: expected='' @ expected @ '' current='' @ current) else None)"

definition verify_task_branch_and_preexisting_diff :: "'w guard_env \<Rightarrow> pydict \<Rightarrow> str list \<Rightarrow> ('w, unit) guard_prog" where
  "verify_task_branch_and_preexisting_diff env st batch =
     (if \<not> guarded_state st \<or> \<not> truthy (get st ''repo_path'') then ret ()
      else (let repo = text_at env st ''repo_path'' in
        seq (workspace_policy_for env st batch) (\<lambda>policy.
        andthen (wp_cleanup policy repo)
       (seq (gv_branch env repo) (\<lambda>answer.
        (case branch_mismatch env st answer of
           Some message \<Rightarrow>
             andthen (case gv_ports env st of None \<Rightarrow> ret ()
               | Some p \<Rightarrow> gp_mark_failed p (text_at env st ''task_id'') message ''branch_safety'')
             (raise (TaskUnsafeDiff message))
         | None \<Rightarrow>
             seq (gv_dirty env repo) (\<lambda>dirty.
             seq (rejected (\<lambda>p. allowed_preexisting_dirty_path env p st batch) (sort (remdups dirty))) (\<lambda>unsafe.
             if unsafe = [] then ret ()
             else refuse_unsafe env st batch ''branch_safety''
               (''Pre-existing unsafe dirty paths before class run: '' @ join_with '', '' unsafe) [] True))))))))"

section \<open>Test files to commit\<close>

definition normalize_commit_path :: "str \<Rightarrow> str" where
  "normalize_commit_path path = lstrip_slash (forward_slashes path)"

definition looks_like_test_artifact_path :: "'w guard_env \<Rightarrow> str \<Rightarrow> bool" where
  "looks_like_test_artifact_path env path =
     (let p = normalize_commit_path path in
      visible_path p \<and> list_ex (\<lambda>(language, policy). wp_test policy p) (gv_policies env))"

definition extra_authored_test_paths :: "'w guard_env \<Rightarrow> str list \<Rightarrow> str list \<Rightarrow> str list \<Rightarrow> str list" where
  "extra_authored_test_paths env current initial scheduled =
     (let known = map normalize_commit_path (initial @ scheduled) in
      sort (remdups (filter (\<lambda>p. p \<noteq> [] \<and> p \<notin> set known \<and> looks_like_test_artifact_path env p)
        (map normalize_commit_path current))))"

end
