(* ===== verification/GuardFacts.thy ===== *)
theory GuardFacts
  imports WorkspaceGuard
begin

text \<open>
  What the guard around a turn promises: a turn that passes it has not changed the production code
  of its language. The contract of a path policy is a locale, the policies of Java and Python are
  interpretations of it.
\<close>

section \<open>Texts and paths\<close>

lemma contains_split: "contains s part \<longleftrightarrow> (\<exists>a c. s = a @ part @ c)"
proof (induction s)
  case Nil
  then show ?case by auto
next
  case (Cons x s)
  have "startswith (x # s) part \<longleftrightarrow> (\<exists>c. x # s = part @ c)"
    by (metis append_eq_conv_conj append_take_drop_id startswith_def)
  with Cons show ?case by (auto simp: Cons_eq_append_conv)
qed

lemma startswith_contains: "startswith s part \<Longrightarrow> contains s part"
  by (auto simp: contains_split startswith_def) (metis append_Nil append_take_drop_id)

lemma endswith_contains: "endswith s (c # part) \<Longrightarrow> contains s part"
proof -
  assume "endswith s (c # part)"
  then have "s = (take (length s - length (c # part)) s @ [c]) @ part @ []"
    unfolding endswith_def by (metis append.assoc append_Cons append_Nil append_Nil2 append_take_drop_id)
  then show ?thesis unfolding contains_split by blast
qed

lemma contains_lstrip: "contains (lstrip_slash s) part \<Longrightarrow> contains s part"
proof -
  assume "contains (lstrip_slash s) part"
  then obtain a c where "dropWhile (\<lambda>c. c = CHR ''/'') s = a @ part @ c" by (auto simp: contains_split lstrip_slash_def)
  then have "s = (takeWhile (\<lambda>c. c = CHR ''/'') s @ a) @ part @ c" by (metis append.assoc takeWhile_dropWhile_id)
  then show ?thesis unfolding contains_split by blast
qed

lemma contains_trans: "contains s q \<Longrightarrow> contains q r \<Longrightarrow> contains s r"
  unfolding contains_split by (metis append.assoc)

section \<open>The contract of a path policy\<close>

locale path_policy =
  fixes policy :: "'w workspace_policy"
    and guarded_path :: "str \<Rightarrow> bool"
  assumes guards: "guarded_path p \<Longrightarrow> \<not> uta_owned p \<and> \<not> wp_allowed policy p st batch"
begin

lemma not_allowed:
  assumes "workspace_policy_for env st batch w = (Inr policy, w)" "guarded_path (forward_slashes p)"
  shows "allowed_llm_path env p st batch w = (Inr False, w)"
  using assms guards [OF assms(2)] by (simp add: allowed_llm_path_def Let_def seq_def ret_def)

end

lemma policy_for_run:
  "workspace_policy_for env st batch w = (r, w') \<Longrightarrow> w' = w
     \<and> (\<forall>v. workspace_policy_for env st batch v = (r, v))"
  by (auto simp: workspace_policy_for_def Let_def ret_def raise_def split: option.splits)

lemma allowed_run: "allowed_llm_path env p st batch w = (r, w') \<Longrightarrow> w' = w"
  by (auto simp: allowed_llm_path_def Let_def ret_def seq_def dest: policy_for_run split: prod.splits sum.splits if_splits)

lemma rejected_none:
  assumes "rejected allowed ps w = (Inr [], w')" and run: "\<And>p v r v'. allowed p v = (r, v') \<Longrightarrow> v' = v"
  shows "w' = w \<and> (\<forall>p \<in> set ps. allowed p w = (Inr True, w))"
  using assms(1)
proof (induction ps arbitrary: w)
  case Nil
  then show ?case by (simp add: ret_def)
next
  case (Cons p ps)
  from Cons.prems obtain ok v rest v' where step: "allowed p w = (Inr ok, v)" "rejected allowed ps v = (Inr rest, v')"
    "(if ok then rest else p # rest) = []" "v' = w'"
    by (auto simp: res_simps)
  from run [OF step(1)] step Cons.IH [of v] show ?case by (auto split: if_splits)
qed

lemma refuse_unsafe_raises: "refuse_unsafe env st batch stage message paths fail_task w \<noteq> (Inr u, w')"
  by (auto simp: refuse_unsafe_def res_simps)

lemma changed_between_iff:
  "p \<in> set (changed_between before after) \<longleftrightarrow> map_of before p \<noteq> map_of after p"
proof -
  have "p \<in> fst ` set before \<or> p \<in> fst ` set after" if "map_of before p \<noteq> map_of after p"
    using that by (metis map_of_eq_None_iff)
  then show ?thesis by (auto simp: changed_between_def)
qed

context path_policy
begin

lemma guarded_unchanged:
  assumes run: "llm_guard_after env st (Some t) w = (Inr (), w')" and st: "guarded_state st"
    and policy: "workspace_policy_for env st (tn_batch t) w = (Inr policy, w)"
  shows "\<exists>v after. gv_snapshot env (tn_repo t) v = (Inr after, w')
    \<and> (\<forall>p. guarded_path (forward_slashes p) \<longrightarrow> map_of (tn_before t) p = map_of after p)"
proof -
  have any: "workspace_policy_for env st (tn_batch t) v = (Inr policy, v)" for v
    using policy_for_run [OF policy] by blast
  from run st any obtain v after u unsafe u' where steps: "gv_snapshot env (tn_repo t) v = (Inr after, u)"
    "rejected (\<lambda>p. allowed_llm_path env p st (tn_batch t)) (changed_between (tn_before t) after) u = (Inr unsafe, u')"
    "(if unsafe = [] then ret () else refuse_unsafe env st (tn_batch t) (tn_phase t) (unsafe_message unsafe) unsafe False) u'
       = (Inr (), w')"
    by (simp add: llm_guard_after_def res_simps) blast
  then have none: "unsafe = []" "u' = w'" by (auto simp: refuse_unsafe_raises ret_def split: if_splits)
  have ok: "w' = u \<and> (\<forall>p \<in> set (changed_between (tn_before t) after).
      allowed_llm_path env p st (tn_batch t) u = (Inr True, u))"
    by (rule rejected_none [OF steps(2) [unfolded none]]) (rule allowed_run)
  have "map_of (tn_before t) p = map_of after p" if "guarded_path (forward_slashes p)" for p
  proof (rule ccontr)
    assume "map_of (tn_before t) p \<noteq> map_of after p"
    then have "p \<in> set (changed_between (tn_before t) after)" by (simp only: changed_between_iff not_False_eq_True)
    with ok have "allowed_llm_path env p st (tn_batch t) u = (Inr True, u)" by blast
    with not_allowed [OF any that, of u] show False by simp
  qed
  with steps(1) ok show ?thesis by blast
qed

end

section \<open>The two languages\<close>

text \<open>What a Java turn may not touch: everything but build files, test trees and UTA's own files.\<close>

definition java_guarded :: "str \<Rightarrow> bool" where
  "java_guarded p = (\<not> uta_owned p \<and> \<not> is_maven_project_file p \<and> \<not> contains p ''src/test/'')"

text \<open>Python sources outside test directories, generated tests and the directories of the tools.\<close>

definition python_guarded :: "str \<Rightarrow> bool" where
  "python_guarded p = (\<not> uta_owned p \<and> path_suffix p = ''.py''
     \<and> \<not> list_ex (\<lambda>d. d = ''tests'' \<or> d = ''test'' \<or> endswith d ''_test'') (butlast (path_parts (lstrip_slash p)))
     \<and> \<not> startswith p ''tests/uta_generated/'' \<and> \<not> startswith p ''mutants/''
     \<and> \<not> startswith p ''.mutmut-cache/'' \<and> \<not> startswith p ''.pytest_cache/'' \<and> \<not> startswith p ''.coverage.'')"

lemma forward_slashes_append: "forward_slashes (a @ b) = forward_slashes a @ forward_slashes b"
  by (simp add: forward_slashes_def replaced_def)

lemma expected_path_in_tests: "contains (forward_slashes (expected_test_file_rel m fqn)) ''src/test/''"
proof -
  have "forward_slashes (''src/test/java/'') = ''src/test/'' @ ''java/''" by code_simp
  then show ?thesis
    unfolding expected_test_file_rel_def forward_slashes_append contains_split by (metis append.assoc)
qed

lemma java_artifact_in_tests: "java_test_artifact p \<Longrightarrow> contains p ''src/test/''"
proof -
  have "contains ''/src/test/'' ''src/test/''" by code_simp
  moreover assume "java_test_artifact p"
  then have "contains (lstrip_slash p) ''src/test/'' \<or> contains (lstrip_slash p) ''/src/test/''"
    by (auto simp: java_test_artifact_def Let_def dest: startswith_contains)
  ultimately have "contains (lstrip_slash p) ''src/test/''" using contains_trans by blast
  then show ?thesis by (rule contains_lstrip)
qed

lemma temp_suffix: "path_suffix p = ''.py'' \<Longrightarrow> \<not> is_python_runtime_temp_artifact p"
proof -
  have "lower ''.py'' \<notin> set temp_artifact_suffixes" by code_simp
  then show "path_suffix p = ''.py'' \<Longrightarrow> \<not> is_python_runtime_temp_artifact p"
    by (simp add: is_python_runtime_temp_artifact_def)
qed

lemma tool_files: "path_suffix ''pyproject.toml'' \<noteq> ''.py''" "path_suffix ''.coverage'' \<noteq> ''.py''"
  "path_suffix ''mutants'' \<noteq> ''.py''"
  by code_simp+

interpretation java_rules: path_policy "java_policy shown :: 'w workspace_policy" java_guarded
proof
  fix p st batch assume p: "java_guarded p"
  then have "\<not> java_expected_path m p fqn" for m fqn
  proof -
    have "java_expected_path m p fqn \<Longrightarrow> contains p ''src/test/''"
      unfolding java_expected_path_def using expected_path_in_tests endswith_contains contains_trans by blast
    with p show ?thesis by (auto simp: java_guarded_def)
  qed
  with p show "\<not> uta_owned p \<and> \<not> wp_allowed (java_policy shown) p st batch"
    by (auto simp: java_guarded_def java_policy_def java_allowed_llm_path_def list_ex_iff dest: java_artifact_in_tests)
qed

interpretation python_rules: path_policy "python_policy cleanup remove_lock :: 'w workspace_policy" python_guarded
proof
  fix p st batch assume p: "python_guarded p"
  then have "\<not> python_test_artifact p"
    by (auto simp: python_guarded_def python_test_artifact_def looks_like_python_test_path_def Let_def)
  moreover have "p \<noteq> ''pyproject.toml''" "p \<noteq> ''.coverage''" "p \<noteq> ''mutants''"
    using p tool_files unfolding python_guarded_def by blast+
  ultimately show "\<not> uta_owned p \<and> \<not> wp_allowed (python_policy cleanup remove_lock) p st batch"
    using p temp_suffix [of p]
    unfolding python_guarded_def python_policy_def workspace_policy.select_convs python_allowed_llm_path_def
    by blast
qed

section \<open>A turn leaves production code alone\<close>

definition built_in_policies ::
  "(pyval \<Rightarrow> str) \<Rightarrow> (str \<Rightarrow> ('w, unit) guard_prog) \<Rightarrow> (str \<Rightarrow> ('w, unit) guard_prog) \<Rightarrow> (str \<times> 'w workspace_policy) list" where
  "built_in_policies shown cleanup remove_lock =
     [(''java'', java_policy shown), (''python'', python_policy cleanup remove_lock)]"

lemma built_in_run:
  assumes "gv_policies env = built_in_policies shown cleanup remove_lock"
  shows "workspace_policy_for env st batch w = (r, w') \<Longrightarrow>
    r = (let l = lower (strip (guard_language (gv_shown env) st batch)) in
      if l = ''java'' then Inr (java_policy shown) else if l = ''python'' then Inr (python_policy cleanup remove_lock)
      else Inl (UnknownBackend l)) \<and> w' = w"
  by (auto simp: workspace_policy_for_def assms built_in_policies_def Let_def ret_def raise_def split: if_splits)

definition guarded_by_language :: "str \<Rightarrow> str \<Rightarrow> bool" where
  "guarded_by_language language p = (if language = ''java'' then java_guarded p else python_guarded p)"

text \<open>
  C7: When the guard lets a turn of a task pass, the language of the turn is Java or Python
  and every path that is production code of that language (for Java all but build files,
  test trees and UTA's own files; for Python every source file outside test directories and
  tool directories) has the same content digest in the snapshot taken after the turn as in
  the one taken before it.
\<close>

theorem turn_leaves_production_code_alone:
  assumes run: "llm_guard_after env st (Some t) w = (Inr (), w')" and st: "guarded_state st"
    and built_in: "gv_policies env = built_in_policies shown cleanup remove_lock"
  shows "lower (strip (guard_language (gv_shown env) st (tn_batch t))) \<in> {''java'', ''python''}
    \<and> (\<exists>v after. gv_snapshot env (tn_repo t) v = (Inr after, w')
      \<and> (\<forall>p. guarded_by_language (lower (strip (guard_language (gv_shown env) st (tn_batch t)))) (forward_slashes p)
           \<longrightarrow> map_of (tn_before t) p = map_of after p))"
proof -
  let ?l = "lower (strip (guard_language (gv_shown env) st (tn_batch t)))"
  obtain policy where policy: "workspace_policy_for env st (tn_batch t) w = (Inr policy, w)"
    using run st policy_for_run [of env st "tn_batch t" w] by (auto simp: llm_guard_after_def res_simps)
  from built_in_run [OF built_in this] consider
    "?l = ''java''" "policy = java_policy shown" | "?l = ''python''" "policy = python_policy cleanup remove_lock"
    by (auto simp: Let_def split: if_splits)
  then show ?thesis
  proof cases
    case 1
    with java_rules.guarded_unchanged [OF run st policy [unfolded 1]] show ?thesis
      by (simp add: guarded_by_language_def)
  next
    case 2
    with python_rules.guarded_unchanged [OF run st policy [unfolded 2]] show ?thesis
      by (simp add: guarded_by_language_def)
  qed
qed

definition sample_guard :: "unit guard_env" where
  "sample_guard = \<lparr>gv_shown = (\<lambda>_. []), gv_ports = (\<lambda>_. None),
     gv_policies = built_in_policies (\<lambda>_. []) (\<lambda>_. ret ()) (\<lambda>_. ret ()),
     gv_snapshot = (\<lambda>_. ret [(''src/test/java/ATest.java'', ''new''), (''src/main/java/A.java'', ''old'')]),
     gv_dirty = (\<lambda>_. ret []), gv_branch = (\<lambda>_. ret (0, []))\<rparr>"

definition sample_guarded :: pydict where
  "sample_guarded = [(''task_id'', PStr ''t''), (''task_db_path'', PStr ''db'')]"

definition sample_turn :: turn_snapshot where
  "sample_turn = \<lparr>tn_repo = ''r'', tn_before = [(''src/main/java/A.java'', ''old'')], tn_phase = ''p'', tn_batch = []\<rparr>"

theorem turn_leaves_production_code_alone_witness:
  "llm_guard_after sample_guard sample_guarded (Some sample_turn) () = (Inr (), ())
   \<and> guarded_by_language ''java'' ''src/main/java/A.java''
   \<and> (\<exists>v after. gv_snapshot sample_guard (tn_repo sample_turn) v = (Inr after, ())
      \<and> map_of (tn_before sample_turn) ''src/main/java/A.java'' = map_of after ''src/main/java/A.java'')"
proof -
  have run: "llm_guard_after sample_guard sample_guarded (Some sample_turn) () = (Inr (), ())"
    and st: "guarded_state sample_guarded" by code_simp+
  have l: "lower (strip (guard_language (gv_shown sample_guard) sample_guarded (tn_batch sample_turn))) = ''java''"
    and g: "guarded_by_language ''java'' (forward_slashes ''src/main/java/A.java'')"
    and f: "guarded_by_language ''java'' ''src/main/java/A.java''" by code_simp+
  have built_in: "gv_policies sample_guard = built_in_policies (\<lambda>_. []) (\<lambda>_. ret ()) (\<lambda>_. ret ())"
    by (simp add: sample_guard_def)
  from turn_leaves_production_code_alone [OF run st built_in] obtain v after where
    "gv_snapshot sample_guard (tn_repo sample_turn) v = (Inr after, ())"
    "\<forall>p. guarded_by_language ''java'' (forward_slashes p) \<longrightarrow> map_of (tn_before sample_turn) p = map_of after p"
    unfolding l by blast
  with run f g show ?thesis by blast
qed

end
