(* ===== verification/FixSessions.thy ===== *)
theory FixSessions
  imports PyValue
begin

text \<open>
  The record of a CI check and the fix sessions stored on it (\<open>uta/shared/ci_models.py\<close>,
  \<open>uta/shared/fix_sessions.py\<close>). A session is the dictionary the code stores; the code holds a
  reference to it, the model its position in the list of the record. The clock and fresh ids are
  arguments.
\<close>

section \<open>Records\<close>

datatype ci_task_status = CiPending | CiQueued | CiRunning | CiSuccess | CiFailed | CiStopped

fun ci_status_label :: "ci_task_status \<Rightarrow> str" where
  "ci_status_label CiPending = ''pending''"
| "ci_status_label CiQueued = ''queued''"
| "ci_status_label CiRunning = ''running''"
| "ci_status_label CiSuccess = ''success''"
| "ci_status_label CiFailed = ''failed''"
| "ci_status_label CiStopped = ''stopped''"

record ci_trigger =
  tr_app :: str
  tr_git_url :: str
  tr_branch :: str
  tr_commit :: "str option"
  tr_spec :: "str option"
  tr_task_id :: "str option"

record ci_record =
  ci_task_id :: str
  ci_status :: ci_task_status
  ci_request :: ci_trigger
  ci_updated :: str
  ci_report_url :: "str option"
  ci_task_url :: "str option"
  ci_workspace :: "str option"
  ci_summary :: "str option"
  ci_enforcement :: "pydict option"
  ci_history :: "pyval list"
  ci_callback_ok :: bool
  ci_callback_error :: "str option"
  ci_override :: "pydict option"
  ci_sessions :: "pydict list"
  ci_gate_override :: "pydict option"

record fix_request =
  fx_targets :: "str list"
  fx_context :: "str option"

section \<open>Messages and targets\<close>

definition message_of :: "str \<Rightarrow> str \<Rightarrow> pyval" where
  "message_of content created =
     PDict [(''role'', PStr ''user''), (''content'', PStr content), (''createdAt'', PStr created)]"

text \<open>\<open>target_id.split(":", 1)[-1]\<close> when there is a colon.\<close>

definition target_label :: "str \<Rightarrow> str" where
  "target_label t = (if CHR '':'' \<in> set t then tl (dropWhile (\<lambda>c. c \<noteq> CHR '':'') t) else t)"

definition enforcement_of :: "ci_record \<Rightarrow> pydict" where
  "enforcement_of r = (case ci_enforcement r of Some d \<Rightarrow> d | None \<Rightarrow> [])"

definition default_target_id :: "(pyval \<Rightarrow> str) \<Rightarrow> ci_record \<Rightarrow> str" where
  "default_target_id shown r =
     ''enforcement:'' @ text_in shown (enforcement_of r) ''status'' (ci_status_label (ci_status r))"

definition selected_targets :: "(pyval \<Rightarrow> str) \<Rightarrow> ci_record \<Rightarrow> str list \<Rightarrow> pyval list" where
  "selected_targets shown r target_ids =
     map (\<lambda>t. PDict [(''id'', PStr t), (''label'', PStr (target_label t))])
       (if target_ids = [] then [default_target_id shown r] else target_ids)"

section \<open>Sessions of a record\<close>

text \<open>The dictionary of a new session; \<open>create_fix_session\<close> appends it to the record.\<close>

definition first_messages :: "str option \<Rightarrow> str \<Rightarrow> pyval list" where
  "first_messages ctx now = (case ctx of
     None \<Rightarrow> [] | Some c \<Rightarrow> if strip c = [] then [] else [message_of (strip c) now])"

definition new_session :: "(pyval \<Rightarrow> str) \<Rightarrow> ci_record \<Rightarrow> fix_request \<Rightarrow> str \<Rightarrow> str \<Rightarrow> pydict" where
  "new_session shown r q sid now =
     [(''sessionId'', PStr sid), (''status'', PStr ''created''),
      (''selectedTargets'', PList (selected_targets shown r (fx_targets q))),
      (''messages'', PList (first_messages (fx_context q) now)),
      (''retryCount'', PInt 0), (''createdAt'', PStr now), (''updatedAt'', PStr now)]"

definition append_session :: "pydict \<Rightarrow> str \<Rightarrow> ci_record \<Rightarrow> ci_record" where
  "append_session se updated r = r\<lparr>ci_sessions := ci_sessions r @ [se], ci_updated := updated\<rparr>"

definition missing_plugin_prefix :: str where
  "missing_plugin_prefix = ''Missing UTA test-enforcement plugin/profile''"

definition is_missing_plugin_or_profile :: "(pyval \<Rightarrow> str) \<Rightarrow> ci_record \<Rightarrow> bool" where
  "is_missing_plugin_or_profile shown r =
     (let enforcement = enforcement_of r; evidence = as_dict (get enforcement ''evidence'');
          tooling = get evidence ''tooling'';
          summary = (if truthy (get enforcement ''summary'') then shown_as shown (get enforcement ''summary'')
                     else case ci_summary r of Some s \<Rightarrow> s | None \<Rightarrow> []) in
      (is_dict tooling \<and> get (as_dict tooling) ''available'' = PBool False)
      \<or> (get enforcement ''status'' = PStr ''missing_evidence'' \<and> startswith summary missing_plugin_prefix))"

definition can_create_fix_session :: "(pyval \<Rightarrow> str) \<Rightarrow> ci_record \<Rightarrow> bool" where
  "can_create_fix_session shown r =
     (ci_status r = CiFailed
      \<and> get (as_dict (get (enforcement_of r) ''evidence'')) ''repairEligible'' \<noteq> PBool False
      \<and> \<not> is_missing_plugin_or_profile shown r)"

text \<open>The position of the first session with a value under a key.\<close>

fun session_with :: "str \<Rightarrow> pyval \<Rightarrow> pydict list \<Rightarrow> nat option" where
  "session_with key v [] = None"
| "session_with key v (se # ss) =
     (if get se key = v then Some 0 else map_option Suc (session_with key v ss))"

definition find_session :: "ci_record \<Rightarrow> str \<Rightarrow> nat option" where
  "find_session r sid = session_with ''sessionId'' (PStr sid) (ci_sessions r)"

fun change_nth :: "nat \<Rightarrow> ('a \<Rightarrow> 'a) \<Rightarrow> 'a list \<Rightarrow> 'a list" where
  "change_nth i f [] = []"
| "change_nth 0 f (x # xs) = f x # xs"
| "change_nth (Suc i) f (x # xs) = x # change_nth i f xs"

definition change_session :: "nat \<Rightarrow> (pydict \<Rightarrow> pydict) \<Rightarrow> ci_record \<Rightarrow> ci_record" where
  "change_session i f r = ci_sessions_update (change_nth i f) r"

lemma change_nth_eq: "change_nth i f xs = xs[i := f (xs ! i)]"
  by (induction i f xs rule: change_nth.induct) auto

lemma change_session_eq: "change_session i f r = r\<lparr>ci_sessions := (ci_sessions r)[i := f (ci_sessions r ! i)]\<rparr>"
  by (simp add: change_session_def change_nth_eq)

definition with_message :: "str \<Rightarrow> str \<Rightarrow> pydict \<Rightarrow> pydict" where
  "with_message content now se =
     dict_set ''messages'' (PList (as_list (get se ''messages'') @ [message_of content now])) se"

definition append_message :: "str \<Rightarrow> str \<Rightarrow> str \<Rightarrow> str \<Rightarrow> ci_record \<Rightarrow> nat option \<times> ci_record" where
  "append_message sid message now updated r = (case find_session r sid of
     None \<Rightarrow> (None, r)
   | Some i \<Rightarrow> (Some i, (change_session i
       (\<lambda>se. dict_set ''updatedAt'' (PStr now) (with_message (strip message) now se)) r)\<lparr>ci_updated := updated\<rparr>))"

definition retried :: "str option \<Rightarrow> str \<Rightarrow> pydict \<Rightarrow> pydict" where
  "retried message now se =
     (let counted_up = dict_set ''status'' (PStr ''retry_requested'')
            (dict_set ''retryCount'' (PInt (int_of (get se ''retryCount'') + 1)) se);
          said = (case message of None \<Rightarrow> counted_up
            | Some m \<Rightarrow> if strip m = [] then counted_up else with_message (strip m) now counted_up) in
      dict_set ''updatedAt'' (PStr now) said)"

definition retry_session :: "str \<Rightarrow> str option \<Rightarrow> str \<Rightarrow> str \<Rightarrow> ci_record \<Rightarrow> nat option \<times> ci_record" where
  "retry_session sid message now updated r = (case find_session r sid of
     None \<Rightarrow> (None, r)
   | Some i \<Rightarrow> (Some i, (change_session i (retried message now) r)\<lparr>ci_updated := updated\<rparr>))"

end
