(* ===== verification/RepairProjections.thy ===== *)
theory RepairProjections
  imports PyValue
begin

text \<open>
  What a repair session looks like from outside: \<open>uta/app/repair/progress.py\<close>, with the summary of
  test quality from \<open>uta/enforcement/test_quality.py\<close>. A row of the task store and the status payload
  of a task are dictionaries; the labels of the stages, which are Chinese, are an argument.
\<close>

section \<open>Stages\<close>

definition stage_defs :: "(str \<times> str list) list" where
  "stage_defs =
     [(''queued'', [''queued'', ''created'', ''startup'', ''acquired'', ''setup_branch'']),
      (''baseline_compile'', [''baseline_compile'']),
      (''generate'', [''scan_candidates'', ''parse_context'', ''select_batch'', ''precheck_existing_tests'',
         ''generate_prompt'', ''target_context'', ''plan_tests'', ''plan'', ''generate'', ''compile_verification'',
         ''test_verification'', ''test_execution'', ''compile_fix'', ''test_fix'', ''generate_tests'',
         ''verify_compile'', ''verify_tests'', ''fix_compile'', ''fix_tests'', ''precheck_existing_tests'',
         ''generation'', ''generate_and_validate'']),
      (''coverage_fix'', [''coverage_fix'', ''coverage_test_fix'', ''fix_coverage'', ''measure_coverage'']),
      (''mutation_fix'', [''mutation_fix'', ''mutation_testing'', ''mutation_test_fix'', ''fix_mutation'',
         ''measure_mutation'', ''delegated_quality_gate'']),
      (''equivalence_review'', [''review_equivalent_mutants'']),
      (''push'', [''push'', ''auto_push'', ''verify_remote_push'', ''commit_to_branch'', ''store_and_push'']),
      (''rerun_enforcement'', [''rerun_enforcement''])]"

fun rank_in :: "str \<Rightarrow> str list \<Rightarrow> int" where
  "rank_in k [] = -1"
| "rank_in k (x # xs) = (if k = x then 0 else (let r = rank_in k xs in if r < 0 then r else r + 1))"

definition stage_rank :: "str \<Rightarrow> int" where
  "stage_rank k = rank_in k (map fst stage_defs)"

definition mentions :: "str \<Rightarrow> str list \<Rightarrow> bool" where
  "mentions text aliases = list_ex (contains text) aliases"

definition stage_key_for_text :: "str \<Rightarrow> str option" where
  "stage_key_for_text text = map_option fst (List.find (\<lambda>(k, aliases). mentions (lower text) aliases) stage_defs)"

text \<open>Newest first: everything up to the latest resume, that event included.\<close>

fun events_since_latest_resume :: "pydict list \<Rightarrow> pydict list" where
  "events_since_latest_resume [] = []"
| "events_since_latest_resume (e # es) =
     (if get e ''event_type'' = PStr ''task_resumed'' then [e] else e # events_since_latest_resume es)"

definition event_words :: "(pyval \<Rightarrow> str) \<Rightarrow> pydict \<Rightarrow> str list" where
  "event_words shown e = map (\<lambda>k. text_in shown e k []) [''stage'', ''event_type'', ''message'']"

definition event_text :: "(pyval \<Rightarrow> str) \<Rightarrow> pydict list \<Rightarrow> str" where
  "event_text shown es = join_with '' '' (concat (map (\<lambda>e. map lower (event_words shown e)) es))"

text \<open>The first event that names a later stage, or any stage while tests are generated.\<close>

fun advanced_by :: "(pyval \<Rightarrow> str) \<Rightarrow> str option \<Rightarrow> pydict list \<Rightarrow> str option" where
  "advanced_by shown active [] = active"
| "advanced_by shown active (e # es) =
     (case stage_key_for_text (join_with '' '' (event_words shown e)) of
        None \<Rightarrow> advanced_by shown active es
      | Some k \<Rightarrow>
          if (case active of None \<Rightarrow> True | Some a \<Rightarrow> stage_rank a < stage_rank k \<or> a = ''generate'')
          then Some k else advanced_by shown active es)"

definition active_stage :: "(pyval \<Rightarrow> str) \<Rightarrow> pydict \<Rightarrow> pydict \<Rightarrow> pydict list \<Rightarrow> str option" where
  "active_stage shown se task events =
     advanced_by shown
       (if get se ''status'' = PStr ''creating_repair_task'' \<and> \<not> truthy (get se ''repoTaskId'') then Some ''queued''
        else stage_key_for_text (lower (text_in shown task ''current_stage'' []))) events"

definition rerun_stage_status :: "(pyval \<Rightarrow> str) \<Rightarrow> pydict \<Rightarrow> str \<Rightarrow> str" where
  "rerun_stage_status shown se status =
     (let s = text_in shown se ''status'' []; rerun = as_dict (get se ''rerunEnforcement'') in
      if s = ''rerun_running'' then ''active''
      else if s = ''passed_with_equivalent_mutants'' then ''done''
      else if rerun \<noteq> [] then (if truthy (get rerun ''passed'') then ''done'' else ''failed'')
      else if s = ''green'' then ''done'' else if s = ''rerun_failed'' then ''failed''
      else status)"

definition ended_badly :: "str \<Rightarrow> bool" where
  "ended_badly status = (status \<in> set [''FAILED'', ''CANCELLED'', ''POISONED'', ''BUDGET_EXCEEDED''])"

text \<open>\<open>str.upper\<close> on the statuses of tasks, which are ASCII.\<close>

definition upper :: "str \<Rightarrow> str" where
  "upper s = map (\<lambda>c. if 97 \<le> code c \<and> code c \<le> 122 then char_of (code c - 32) else c) s"

definition stage_status ::
  "(pyval \<Rightarrow> str) \<Rightarrow> pydict \<Rightarrow> str \<Rightarrow> str \<Rightarrow> str option \<Rightarrow> str \<times> str list \<Rightarrow> str" where
  "stage_status shown se task_status text active d = (case d of (key, aliases) \<Rightarrow>
     (let s = (if key = ''queued'' \<and> (task_status \<noteq> [] \<or> truthy (get se ''repoTaskId'')) then ''done'' else ''pending'');
          s = (if mentions text aliases then ''done'' else s);
          s = (case active of Some a \<Rightarrow> if stage_rank key < stage_rank a then ''done'' else s | None \<Rightarrow> s);
          s = (if active = Some key then ''active'' else s);
          s = (if task_status = ''COMPLETED'' \<and> key \<noteq> ''rerun_enforcement'' then ''done'' else s);
          s = (if key = ''rerun_enforcement'' then rerun_stage_status shown se s else s) in
      if ended_badly task_status \<and> s = ''active'' then ''failed'' else s))"

definition repair_progress_stages ::
  "(pyval \<Rightarrow> str) \<Rightarrow> (str \<Rightarrow> str) \<Rightarrow> pydict \<Rightarrow> pydict option \<Rightarrow> pydict list" where
  "repair_progress_stages shown label se payload =
     (let d = (case payload of Some d \<Rightarrow> d | None \<Rightarrow> []); task = as_dict (get d ''task'');
          events = events_since_latest_resume (map as_dict (as_list (get d ''latest_events'')));
          status = upper (text_in shown task ''status'' []); active = active_stage shown se task events in
      map (\<lambda>s. [(''key'', PStr (fst s)), (''label'', PStr (label (fst s))),
          (''status'', PStr (stage_status shown se status (event_text shown events) active s))]) stage_defs)"

section \<open>Budget\<close>

text \<open>\<open>float(v)\<close> and \<open>int(v)\<close> with \<open>None\<close> where they raise; \<open>number\<close> reads the text of a float.\<close>

definition py_float :: "(str \<Rightarrow> rat option) \<Rightarrow> pyval \<Rightarrow> rat option" where
  "py_float number v = (case v of PStr s \<Rightarrow> number s | _ \<Rightarrow> if is_number v then Some (num_of v) else None)"

fun first_number :: "(pyval \<Rightarrow> 'a option) \<Rightarrow> pyval list \<Rightarrow> 'a option" where
  "first_number conv [] = None"
| "first_number conv (v # vs) =
     (if v = PNone \<or> v = PStr [] then first_number conv vs
      else case conv v of None \<Rightarrow> first_number conv vs | Some x \<Rightarrow> Some x)"

definition first_int :: "pyval list \<Rightarrow> int" where
  "first_int vs = (case first_number py_int vs of Some n \<Rightarrow> n | None \<Rightarrow> 0)"

definition plan_dict :: "pydict option \<Rightarrow> str \<Rightarrow> pydict" where
  "plan_dict payload key = (case payload of Some d \<Rightarrow> as_dict (get d key) | None \<Rightarrow> [])"

definition token_counts :: "pydict \<Rightarrow> pydict \<Rightarrow> (str \<times> int) list" where
  "token_counts row detail =
     [(''inputTokens'', first_int [get row ''input_tokens'', get row ''actual_input_tokens'',
         get detail ''input_tokens'', get detail ''actual_input_tokens'']),
      (''cacheReadTokens'', first_int [get row ''cache_read_tokens'', get row ''actual_cache_read_tokens'',
         get detail ''cache_read_tokens'', get detail ''actual_cache_read_tokens'']),
      (''cacheWriteTokens'', first_int [get row ''cache_write_tokens'', get row ''actual_cache_write_tokens'',
         get detail ''cache_write_tokens'', get detail ''actual_cache_write_tokens'']),
      (''outputTokens'', first_int [get row ''output_tokens'', get row ''actual_output_tokens'',
         get detail ''output_tokens'', get detail ''actual_output_tokens'']),
      (''reasoningTokens'', first_int [get row ''reasoning_tokens'', get detail ''reasoning_tokens''])]"

definition repair_budget_used :: "(str \<Rightarrow> rat option) \<Rightarrow> pydict \<Rightarrow> pydict option \<Rightarrow> pydict" where
  "repair_budget_used number row payload =
     (let detail = plan_dict payload ''task''; metrics = plan_dict payload ''metrics'';
          actual = first_number (py_float number) [get metrics ''actual_cost'', get row ''provider_cost_usd'',
            get row ''actual_cost'', get detail ''provider_cost_usd'', get detail ''actual_cost''];
          estimated = first_number (py_float number) [get metrics ''estimated_cost'', get row ''estimated_cost_usd'',
            get row ''estimated_cost'', get detail ''estimated_cost_usd'', get detail ''estimated_cost''];
          tokens = token_counts row detail;
          given = first_int [get row ''total_tokens'', get detail ''total_tokens''];
          all_tokens = (if given = 0 then sum_list (map snd tokens) else given) in
      if actual = None \<and> estimated = None \<and> all_tokens \<le> 0 then []
      else [(''actualCostUsd'', PFloat (case actual of Some q \<Rightarrow> q | None \<Rightarrow> 0)),
            (''estimatedCostUsd'', case estimated of Some q \<Rightarrow> PFloat q | None \<Rightarrow> PNone)]
           @ map (\<lambda>(k, n). (k, PInt n)) tokens @ [(''totalTokens'', PInt all_tokens)])"

section \<open>Issues\<close>

text \<open>\<open>" ".join(text.split())\<close>.\<close>

fun words_acc :: "str \<Rightarrow> str \<Rightarrow> str list" where
  "words_acc acc [] = (if acc = [] then [] else [rev acc])"
| "words_acc acc (c # cs) =
     (if py_isspace c then (if acc = [] then words_acc [] cs else rev acc # words_acc [] cs)
      else words_acc (c # acc) cs)"

definition one_line :: "str \<Rightarrow> str" where
  "one_line s = join_with '' '' (words_acc [] s)"

definition classify_issue :: "str \<Rightarrow> str option" where
  "classify_issue text =
     (let t = lower text in
      if contains t ''provider/model'' \<and> (contains t ''rate limit'' \<or> contains t ''quota'') then Some ''provider_rate_limit''
      else if contains t ''rate_limited'' \<or> contains t ''rate-limited'' then Some ''provider_rate_limit''
      else if contains t ''no test changes to commit'' then Some ''no_test_changes''
      else if contains t ''generation timed out'' \<or> contains t ''opencode generation timed out'' then Some ''generation_timeout''
      else if contains t ''planning timed out'' \<or> contains t ''opencode planning timed out'' then Some ''planning_timeout''
      else if contains t ''auto-push'' \<and> contains t ''commit'' then Some ''push_failed''
      else None)"

definition stage_char :: "char \<Rightarrow> bool" where
  "stage_char c = (is_alnum c \<or> c \<in> set ''_:-'')"

text \<open>\<open>re.search(r"stage=([A-Za-z0-9_:-]+)", line)\<close>.\<close>

fun stage_in_line :: "str \<Rightarrow> str" where
  "stage_in_line [] = []"
| "stage_in_line (c # cs) =
     (let found = takeWhile stage_char (drop 6 (c # cs)) in
      if startswith (c # cs) ''stage='' \<and> found \<noteq> [] then found else stage_in_line cs)"

definition issue_of :: "str \<Rightarrow> str \<Rightarrow> str \<Rightarrow> pydict" where
  "issue_of kind text stage = [(''type'', PStr kind), (''message'', PStr text), (''stage'', PStr stage)]"

text \<open>What is looked at, in order: three fields of the task, its events, the lines of its log.\<close>

definition issue_candidates :: "(pyval \<Rightarrow> str) \<Rightarrow> pydict \<Rightarrow> pydict option \<Rightarrow> str option \<Rightarrow> (str \<times> str) list" where
  "issue_candidates shown row payload run_log =
     map (\<lambda>f. (text_in shown row f [], text_in shown row ''current_stage'' [])) [''error'', ''last_error'', ''current_detail'']
     @ map (\<lambda>e. (text_in shown e ''message'' [], text_in shown e ''stage'' []))
         (map as_dict (case payload of Some d \<Rightarrow> as_list (get d ''latest_events'') | None \<Rightarrow> []))
     @ map (\<lambda>l. (l, stage_in_line l)) (case run_log of Some t \<Rightarrow> splitlines t | None \<Rightarrow> [])"

fun add_issues :: "(str \<times> str) set \<Rightarrow> (str \<times> str) list \<Rightarrow> pydict list" where
  "add_issues seen [] = []"
| "add_issues seen ((message, stage) # rest) =
     (case classify_issue message of
        None \<Rightarrow> add_issues seen rest
      | Some kind \<Rightarrow>
         (let text = one_line message in
          if text = [] \<or> (kind, text) \<in> seen then add_issues seen rest
          else issue_of kind text stage # add_issues (insert (kind, text) seen) rest))"

definition repair_issues :: "(pyval \<Rightarrow> str) \<Rightarrow> pydict \<Rightarrow> pydict option \<Rightarrow> str option \<Rightarrow> pydict list" where
  "repair_issues shown row payload run_log = add_issues {} (issue_candidates shown row payload run_log)"

section \<open>The session as callers see it\<close>

definition progress_fields :: "str list" where
  "progress_fields = [''sessionId'', ''status'', ''repoTaskId'', ''repoTaskStatus'', ''repoTaskStage'', ''repoTaskDetail'',
     ''repoTaskError'', ''createdAt'', ''updatedAt'', ''canonicalSessionId'', ''canonicalSessionUrl'',
     ''canonicalTaskId'', ''canonicalTaskUrl'', ''alreadyGreenAfterRefresh'', ''error'', ''summary'', ''detail'',
     ''failureReason'', ''message'']"

definition projected :: "str list \<Rightarrow> pydict \<Rightarrow> pydict" where
  "projected ks d = map (\<lambda>k. (k, get d k)) (filter (has_key d) ks)"

definition evidence_fields :: "str list" where
  "evidence_fields = [''passed'', ''status'', ''summary'', ''command'', ''exitCode'', ''reason'', ''error'', ''language'']"

definition repair_progress_session :: "pydict \<Rightarrow> pydict" where
  "repair_progress_session se =
     projected progress_fields se
     @ concat (map (\<lambda>f. case get se f of PDict d \<Rightarrow> [(f, PDict (projected evidence_fields d))] | _ \<Rightarrow> [])
         [''rerunEnforcement'', ''refreshRerunEnforcement''])"

section \<open>Test quality\<close>

text \<open>\<open>Counter.most_common(n)\<close>: by falling count, first seen first. \<open>None\<close> is an exception of \<open>int\<close>.\<close>

definition quality_count :: "pydict \<Rightarrow> str \<Rightarrow> int \<Rightarrow> int option" where
  "quality_count d key missing = (if truthy (get d key) then py_int (get d key) else Some missing)"

fun add_rules :: "(pyval \<Rightarrow> str) \<Rightarrow> pyval list \<Rightarrow> (str \<times> int) list \<Rightarrow> (str \<times> int) list option" where
  "add_rules shown [] counts = Some counts"
| "add_rules shown (item # items) counts =
     (case item of
        PDict d \<Rightarrow>
          if truthy (get d ''ruleId'') then
            (case quality_count d ''count'' 0 of
               None \<Rightarrow> None
             | Some n \<Rightarrow> (let k = shown_as shown (get d ''ruleId'') in
                 add_rules shown items (dict_set k ((case map_of counts k of Some m \<Rightarrow> m | None \<Rightarrow> 0) + n) counts)))
          else add_rules shown items counts
      | _ \<Rightarrow> add_rules shown items counts)"

fun add_quality ::
  "(pyval \<Rightarrow> str) \<Rightarrow> pydict list \<Rightarrow> int \<times> int \<times> (str \<times> int) list \<Rightarrow> (int \<times> int \<times> (str \<times> int) list) option" where
  "add_quality shown [] acc = Some acc"
| "add_quality shown (d # ds) (warned, failed, counts) =
     (case (quality_count d ''warningCount'' (int (length (as_list (get d ''warnings'')))),
            quality_count d ''scannerFailureCount'' 0, add_rules shown (as_list (get d ''topRuleIds'')) counts) of
        (Some a, Some b, Some c) \<Rightarrow> add_quality shown ds (warned + a, failed + b, c)
      | _ \<Rightarrow> None)"

definition most_common :: "nat \<Rightarrow> (str \<times> int) list \<Rightarrow> (str \<times> int) list" where
  "most_common n counts = take n (sort_key (\<lambda>(k, m). - m) counts)"

definition repair_test_quality :: "(pyval \<Rightarrow> str) \<Rightarrow> pydict option \<Rightarrow> pydict option option" where
  "repair_test_quality shown payload =
     map_option (\<lambda>(warned, failed, counts).
       if warned = 0 \<and> failed = 0 then None
       else Some [(''warningCount'', PInt warned),
         (''topRuleIds'', PList (map (\<lambda>(k, n). PDict [(''ruleId'', PStr k), (''count'', PInt n)]) (most_common 10 counts)))])
     (add_quality shown
       (concat (map (\<lambda>row. case get (as_dict row) ''test_quality'' of PDict q \<Rightarrow> [q] | _ \<Rightarrow> [])
         (case payload of Some d \<Rightarrow> as_list (get d ''classes'') | None \<Rightarrow> [])))
       (0, 0, []))"

section \<open>Issues and stages\<close>

text \<open>No issue is listed twice, and every one has a text.\<close>

definition issue_key :: "pydict \<Rightarrow> pyval \<times> pyval" where
  "issue_key d = (get d ''type'', get d ''message'')"

lemma issue_key_of: "issue_key (issue_of kind text stage) = (PStr kind, PStr text)"
  by (simp add: issue_key_def issue_of_def get_def)

lemma add_issues_fresh: "d \<in> set (add_issues seen cs) \<Longrightarrow>
    \<exists>kind text. issue_key d = (PStr kind, PStr text) \<and> (kind, text) \<notin> seen \<and> text \<noteq> []"
  by (induction seen cs rule: add_issues.induct)
    ((auto simp: Let_def issue_key_of split: option.splits if_splits; blast)+)

lemma issues_listed_once: "distinct (map issue_key (add_issues seen cs))"
proof (induction seen cs rule: add_issues.induct)
  case (2 seen message stage rest)
  have "(PStr k, PStr (one_line message)) \<notin> issue_key ` set (add_issues (insert (k, one_line message) seen) rest)" for k
    using add_issues_fresh [of _ "insert (k, one_line message) seen" rest] by fastforce
  with 2 show ?case by (auto simp: Let_def issue_key_of split: option.splits)
qed simp

text \<open>The stages of a task that is completed or ended badly.\<close>

lemma stage_of_completed: "key \<noteq> ''rerun_enforcement'' \<Longrightarrow> stage_status shown se ''COMPLETED'' text active (key, aliases) = ''done''"
  by (simp add: stage_status_def Let_def ended_badly_def)

lemma stage_of_ended: "ended_badly status \<Longrightarrow> stage_status shown se status text active d \<noteq> ''active''"
  by (auto simp: stage_status_def Let_def split: prod.split)

end
