(* ===== verification/RerunLock.thy ===== *)
theory RerunLock
  imports PyValue
begin

text \<open>
  The file lock of a repair rerun, \<open>uta/app/repair/locking.py\<close>: the program over a file system port,
  and the same program cut at its system calls, so that processes that contend for one lock file can
  be interleaved.
\<close>

section \<open>The program\<close>

definition rerun_lock_stale_seconds :: rat where
  "rerun_lock_stale_seconds = 6 * 60 * 60"

datatype unlinked = Removed | Missing | Denied

text \<open>\<open>os.open\<close> with \<open>O_EXCL\<close>, the age of the file, \<open>unlink\<close>, and the note written into it.\<close>

record ('w, 'e) lock_fs =
  fs_create :: "str \<Rightarrow> ('w, 'e, bool) prog"
  fs_age :: "str \<Rightarrow> ('w, 'e, rat option) prog"
  fs_unlink :: "str \<Rightarrow> ('w, 'e, unlinked) prog"
  fs_note :: "str \<Rightarrow> str \<Rightarrow> str \<Rightarrow> ('w, 'e, unit) prog"
  fs_denied :: "str \<Rightarrow> 'e"

definition lock_name :: "str \<Rightarrow> str" where
  "lock_name s = strip_chars ''-'' (squeeze name_char (CHR ''-'') False s)"

definition lock_path :: "str \<Rightarrow> str \<Rightarrow> str \<Rightarrow> str" where
  "lock_path repo task_id sid =
     repo @ ''/.uta_cache/ci_rerun_locks/'' @ lock_name (if task_id = [] then ''task'' else task_id) @ ''-''
     @ lock_name (if sid = [] then ''session'' else sid) @ ''.lock''"

definition remove_stale_lock :: "('w, 'e) lock_fs \<Rightarrow> str \<Rightarrow> ('w, 'e, bool) prog" where
  "remove_stale_lock fs path = seq (fs_age fs path) (\<lambda>age. case age of
     None \<Rightarrow> ret True
   | Some a \<Rightarrow> if a < rerun_lock_stale_seconds then ret False
       else seq (fs_unlink fs path) (\<lambda>u. ret (u \<noteq> Denied)))"

definition take_lock :: "('w, 'e) lock_fs \<Rightarrow> str \<Rightarrow> ('w, 'e, bool) prog" where
  "take_lock fs path = seq (fs_create fs path) (\<lambda>created.
     if created then ret True
     else seq (remove_stale_lock fs path) (\<lambda>removed. if removed then fs_create fs path else ret False))"

text \<open>The lock is taken, the note written; the file goes when the block ends.\<close>

definition acquire_lock :: "('w, 'e) lock_fs \<Rightarrow> str \<Rightarrow> str \<Rightarrow> str \<Rightarrow> ('w, 'e, bool) prog" where
  "acquire_lock fs repo task_id sid = seq (take_lock fs (lock_path repo task_id sid)) (\<lambda>got.
     if got then andthen (fs_note fs (lock_path repo task_id sid) task_id sid) (ret True) else ret False)"

definition release_lock :: "('w, 'e) lock_fs \<Rightarrow> str \<Rightarrow> str \<Rightarrow> str \<Rightarrow> ('w, 'e, unit) prog" where
  "release_lock fs repo task_id sid = seq (fs_unlink fs (lock_path repo task_id sid)) 
     (\<lambda>u. if u = Denied then raise (fs_denied fs (lock_path repo task_id sid)) else ret ())"

section \<open>One lock file and its contenders\<close>

text \<open>The time, and the time of the lock file when there is one.\<close>

record lock_world =
  lw_now :: rat
  lw_file :: "rat option"

definition file_create :: "lock_world \<Rightarrow> bool \<times> lock_world" where
  "file_create w = (case lw_file w of
     None \<Rightarrow> (True, w\<lparr>lw_file := Some (lw_now w)\<rparr>) | Some m \<Rightarrow> (False, w))"

definition file_age :: "lock_world \<Rightarrow> rat option" where
  "file_age w = map_option (\<lambda>m. lw_now w - m) (lw_file w)"

definition file_unlink :: "lock_world \<Rightarrow> unlinked \<times> lock_world" where
  "file_unlink w = ((if lw_file w = None then Missing else Removed), w\<lparr>lw_file := None\<rparr>)"

definition file_fs :: "(lock_world, str) lock_fs" where
  "file_fs = \<lparr>fs_create = (\<lambda>_ w. case file_create w of (b, w') \<Rightarrow> (Inr b, w')),
     fs_age = (\<lambda>_ w. (Inr (file_age w), w)),
     fs_unlink = (\<lambda>_ w. case file_unlink w of (u, w') \<Rightarrow> (Inr u, w')),
     fs_note = (\<lambda>_ _ _ w. (Inr (), w)), fs_denied = (\<lambda>path. path)\<rparr>"

text \<open>Where a process is: before each system call, inside the block, or past it.\<close>

datatype lock_point = Trying | Found | Judged | Again | Holding | Past

fun lock_call :: "lock_point \<Rightarrow> lock_world \<Rightarrow> lock_point \<times> lock_world" where
  "lock_call Trying w = (case file_create w of (b, w') \<Rightarrow> (if b then Holding else Found, w'))"
| "lock_call Found w = (case file_age w of
     None \<Rightarrow> (Again, w)
   | Some a \<Rightarrow> (if a < rerun_lock_stale_seconds then Past else Judged, w))"
| "lock_call Judged w = (Again, snd (file_unlink w))"
| "lock_call Again w = (case file_create w of (b, w') \<Rightarrow> (if b then Holding else Past, w'))"
| "lock_call Holding w = (Past, snd (file_unlink w))"
| "lock_call Past w = (Past, w)"

type_synonym contention = "(nat \<Rightarrow> lock_point) \<times> lock_world"

inductive lock_step :: "contention \<Rightarrow> contention \<Rightarrow> bool" where
  calls: "lock_call (pc p) w = (x, w') \<Longrightarrow> lock_step (pc, w) (pc(p := x), w')"
| ticks: "0 \<le> d \<Longrightarrow> lock_step (pc, w) (pc, w\<lparr>lw_now := lw_now w + d\<rparr>)"

text \<open>The lock file, if there is one, is younger than the bound.\<close>

definition lock_is_fresh :: "lock_world \<Rightarrow> bool" where
  "lock_is_fresh w = (case file_age w of None \<Rightarrow> True | Some a \<Rightarrow> a < rerun_lock_stale_seconds)"

inductive lock_runs :: "contention \<Rightarrow> contention \<Rightarrow> bool" where
  start: "lock_runs c c"
| onward: "lock_runs c c' \<Longrightarrow> lock_step c' c'' \<Longrightarrow> lock_runs c c''"

inductive fresh_runs :: "contention \<Rightarrow> contention \<Rightarrow> bool" where
  start: "fresh_runs c c"
| onward: "fresh_runs c c' \<Longrightarrow> lock_is_fresh (snd c') \<Longrightarrow> lock_step c' c'' \<Longrightarrow> fresh_runs c c''"

inductive_cases lock_stepE: "lock_step (pc, w) c"

section \<open>The program is its calls\<close>

text \<open>A process that nobody disturbs makes at most four calls to get past the attempt.\<close>

fun alone :: "nat \<Rightarrow> lock_point \<times> lock_world \<Rightarrow> lock_point \<times> lock_world" where
  "alone 0 c = c"
| "alone (Suc n) (pt, w) = (if pt = Holding \<or> pt = Past then (pt, w) else alone n (lock_call pt w))"

lemma alone_takes_lock:
  "(case alone 4 (Trying, w) of (pt, w') \<Rightarrow> (Inr (pt = Holding), w')) = take_lock file_fs path w
   \<and> fst (alone 4 (Trying, w)) \<in> {Holding, Past}"
  by (auto simp: take_lock_def remove_stale_lock_def file_fs_def seq_def ret_def file_create_def file_age_def
      file_unlink_def numeral_eq_Suc split: option.splits)

section \<open>One holder\<close>

definition one_holder :: "contention \<Rightarrow> bool" where
  "one_holder c \<longleftrightarrow> (\<forall>p. fst c p \<noteq> Judged)
     \<and> (\<forall>p. fst c p = Holding \<longrightarrow> lw_file (snd c) \<noteq> None)
     \<and> (\<forall>p q. fst c p = Holding \<and> fst c q = Holding \<longrightarrow> p = q)"

lemma step_keeps_one_holder:
  assumes "lock_step c c'" "one_holder c" "lock_is_fresh (snd c)"
  shows "one_holder c'"
  using assms
proof (cases rule: lock_step.cases)
  case (calls pc p w x w')
  with assms show ?thesis
    by (cases "pc p") (auto simp: one_holder_def lock_is_fresh_def file_create_def file_age_def file_unlink_def
        split: option.splits if_splits)
next
  case (ticks d pc w)
  with assms show ?thesis by (auto simp: one_holder_def)
qed

lemma fresh_runs_one_holder: "fresh_runs c c' \<Longrightarrow> one_holder c \<Longrightarrow> one_holder c'"
  by (induction rule: fresh_runs.induct) (auto intro: step_keeps_one_holder)

text \<open>
  C24: From a state in which at most one process holds the lock, with its file there and
  nobody past the judgement that it is stale, as long as no lock file gets six hours old,
  two processes are never inside the rerun together, whatever the order of their system
  calls.
\<close>

theorem rerun_lock_excludes:
  assumes "fresh_runs c c'" "one_holder c" "fst c' p = Holding" "fst c' q = Holding"
  shows "p = q"
  using fresh_runs_one_holder [OF assms(1,2)] assms(3,4) by (auto simp: one_holder_def)

definition free_lock :: lock_world where
  "free_lock = \<lparr>lw_now = 0, lw_file = None\<rparr>"

definition taken_lock :: lock_world where
  "taken_lock = \<lparr>lw_now = 0, lw_file = Some 0\<rparr>"

definition first_holds :: contention where
  "first_holds = ((\<lambda>_. Trying) (0 := Holding, 1 := Past), taken_lock)"

lemma fresh_run_of_two: "fresh_runs ((\<lambda>_. Trying), free_lock) first_holds"
proof -
  note calls = free_lock_def taken_lock_def file_create_def file_age_def lock_is_fresh_def rerun_lock_stale_seconds_def
  have "fresh_runs ((\<lambda>_. Trying), free_lock) ((\<lambda>_. Trying) (0 := Holding), taken_lock)"
    by (rule fresh_runs.onward [OF fresh_runs.start]) (auto simp: calls intro!: lock_step.calls)
  then have "fresh_runs ((\<lambda>_. Trying), free_lock) ((\<lambda>_. Trying) (0 := Holding, 1 := Found), taken_lock)"
    by (rule fresh_runs.onward) (auto simp: calls intro!: lock_step.calls)
  then have "fresh_runs ((\<lambda>_. Trying), free_lock) ((\<lambda>_. Trying) (0 := Holding, 1 := Found, 1 := Past), taken_lock)"
    by (rule fresh_runs.onward, simp add: calls, intro lock_step.calls, simp add: calls)
  then show ?thesis by (simp only: first_holds_def fun_upd_upd)
qed

theorem rerun_lock_excludes_witness:
  "fresh_runs ((\<lambda>_. Trying), free_lock) first_holds \<and> fst first_holds 0 = Holding \<and> fst first_holds 1 \<noteq> Holding"
proof -
  have "one_holder ((\<lambda>_. Trying), free_lock)" by (simp add: one_holder_def)
  with rerun_lock_excludes [OF fresh_run_of_two, of 0 1] have "fst first_holds 0 = Holding \<longrightarrow> fst first_holds 1 \<noteq> Holding"
    by auto
  with fresh_run_of_two show ?thesis by (simp add: first_holds_def)
qed

section \<open>A stale lock\<close>

text \<open>A process left its file behind; two others find it after six hours and judge it stale.\<close>

definition abandoned :: contention where
  "abandoned = ((\<lambda>_. Trying), \<lparr>lw_now = 30000, lw_file = Some 0\<rparr>)"

lemma lock_runs_call:
  "lock_runs c (pc, w) \<Longrightarrow> lock_call (pc p) w = (x, w') \<Longrightarrow> pc' = pc(p := x) \<Longrightarrow> lock_runs c (pc', w')"
  by (auto intro: lock_runs.onward lock_step.calls)

text \<open>
  When a dead process left a lock file of more than six hours, two processes can both
  judge it stale before either removes it; the second then removes the lock the first has
  taken, and both are inside the rerun.
\<close>

theorem stale_lock_taken_twice:
  "\<exists>c. lock_runs abandoned c \<and> fst c 0 = Holding \<and> fst c 1 = Holding"
proof -
  let ?w = "\<lparr>lw_now = 30000, lw_file = Some 0\<rparr> :: lock_world"
  let ?free = "?w\<lparr>lw_file := None\<rparr>" and ?taken = "?w\<lparr>lw_file := Some 30000\<rparr>"
  let ?pc = "\<lambda>a b p. if p = (0::nat) then a else if p = 1 then b else Trying"
  note calls = file_create_def file_age_def file_unlink_def rerun_lock_stale_seconds_def
  have "?pc Trying Trying = (\<lambda>_. Trying)" by auto
  then have "lock_runs abandoned (?pc Trying Trying, ?w)" by (simp only: abandoned_def lock_runs.start)
  then have "lock_runs abandoned (?pc Found Trying, ?w)" by (rule lock_runs_call [of _ _ _ 0]) (auto simp: calls)
  then have "lock_runs abandoned (?pc Found Found, ?w)" by (rule lock_runs_call [of _ _ _ 1]) (auto simp: calls)
  then have "lock_runs abandoned (?pc Judged Found, ?w)" by (rule lock_runs_call [of _ _ _ 0]) (auto simp: calls)
  then have "lock_runs abandoned (?pc Judged Judged, ?w)" by (rule lock_runs_call [of _ _ _ 1]) (auto simp: calls)
  then have "lock_runs abandoned (?pc Again Judged, ?free)" by (rule lock_runs_call [of _ _ _ 0]) (auto simp: calls)
  then have "lock_runs abandoned (?pc Holding Judged, ?taken)" by (rule lock_runs_call [of _ _ _ 0]) (auto simp: calls)
  then have "lock_runs abandoned (?pc Holding Again, ?free)" by (rule lock_runs_call [of _ _ _ 1]) (auto simp: calls)
  then have "lock_runs abandoned (?pc Holding Holding, ?taken)" by (rule lock_runs_call [of _ _ _ 1]) (auto simp: calls)
  then show ?thesis by (intro exI [of _ "(?pc Holding Holding, ?taken)"]) simp
qed

end
