(* ===== verification/RepairSessions.thy ===== *)
theory RepairSessions
  imports FixSessions RepairProjections RerunLock EquivalentMutants "HOL-Library.List_Lexorder" "HOL-Library.Char_ord"
begin

text \<open>
  The repair sessions of a CI check: \<open>uta/app/repair/session.py\<close>, \<open>deferred_task.py\<close> and
  \<open>workspace.py\<close>, with the report of \<open>uta/app/service.py\<close>. The state is the record, the registry of
  creation threads and the world of the ports: clock, record store, task manager, language handler,
  protocol, git. A port acts on the world alone. A thread runs as one step.
\<close>

section \<open>State and ports\<close>

datatype repair_error =
    ValueError str
  | KeyError str
  | AttributeError str
  | RulesUnavailable str str
  | RateLimit
  | Unsupported str
  | OtherError str

fun error_text :: "repair_error \<Rightarrow> str" where
  "error_text (ValueError m) = m"
| "error_text (KeyError m) = m"
| "error_text (AttributeError m) = m"
| "error_text (RulesUnavailable c m) = m"
| "error_text RateLimit = ''repair session rate limit exceeded for this CI task''"
| "error_text (Unsupported m) = m"
| "error_text (OtherError m) = m"

record 'w repair_state =
  rs_record :: ci_record
  rs_threads :: "(str \<times> (str \<times> fix_request)) list"
  rs_world :: 'w

type_synonym ('w, 'a) port = "('w, repair_error, 'a) prog"
type_synonym ('w, 'a) repair_prog = "('w repair_state, repair_error, 'a) prog"

record gate_result =
  gr_passed :: bool
  gr_summary :: str
  gr_json :: pydict

text \<open>A row of the task store is the dictionary \<open>get_task\<close> returns.\<close>

type_synonym task_row = pydict

record callback_outcome =
  cb_history :: "pyval list"
  cb_succeeded :: bool
  cb_error :: "str option"

text \<open>The handler of a language.\<close>

record 'w repair_handler =
  rh_language :: str
  rh_task_result :: "ci_record \<Rightarrow> task_row \<Rightarrow> ('w, gate_result option) port"
  rh_flags :: "ci_record \<Rightarrow> gate_result \<Rightarrow> ('w, pydict option) port"
  rh_survivors :: "ci_record \<Rightarrow> gate_result \<Rightarrow> str \<Rightarrow> ('w, scoring_survivors option) port"
  rh_should_rerun :: "ci_record \<Rightarrow> fix_request \<Rightarrow> ('w, bool) port"
  rh_preflight :: "ci_record \<Rightarrow> fix_request \<Rightarrow> str \<Rightarrow> ('w, gate_result option) port"
  rh_targets :: "ci_record \<Rightarrow> fix_request \<Rightarrow> str \<Rightarrow> str \<Rightarrow> ('w, str list) port"
  rh_validate :: "ci_record \<Rightarrow> fix_request \<Rightarrow> str \<Rightarrow> str \<Rightarrow> pydict \<Rightarrow> str list \<Rightarrow> ('w, unit) port"
  rh_create :: "ci_record \<Rightarrow> fix_request \<Rightarrow> str \<Rightarrow> str \<Rightarrow> pydict \<Rightarrow> str option \<Rightarrow> ('w, int) port"

record 'w task_ports =
  tp_get :: "int \<Rightarrow> ('w, task_row) port"
  tp_cancel :: "int \<Rightarrow> str \<Rightarrow> ('w, unit) port"
  tp_payload :: "int \<Rightarrow> ('w, pydict option) port"
  tp_class_rows :: "int \<Rightarrow> ('w, pydict list) port"
  tp_duplicate_for :: "str \<Rightarrow> str \<Rightarrow> str \<Rightarrow> str \<Rightarrow> str list \<Rightarrow> ('w, int option) port"
  tp_duplicate :: "int \<Rightarrow> ('w, int option) port"
  tp_preempt :: "int \<Rightarrow> ('w, int list) port"

record 'w repair_ports =
  rp_shown :: "pyval \<Rightarrow> str"
  rp_loads :: "str \<Rightarrow> pyval option"
  rp_digest :: "pydict \<Rightarrow> str"
  rp_now :: "('w, str) port"
  rp_fresh_id :: "('w, str) port"
  rp_save :: "ci_record \<Rightarrow> ('w, unit) port"
  rp_can_report :: "ci_record \<Rightarrow> bool"
  rp_report :: "ci_record \<Rightarrow> bool \<Rightarrow> str \<Rightarrow> str \<Rightarrow> ('w, callback_outcome) port"
  rp_tasks :: "'w task_ports option"
  rp_handler :: "ci_record \<Rightarrow> 'w repair_handler option"
  rp_runner :: "ci_record \<Rightarrow> (str \<Rightarrow> ('w, gate_result) port) option"
  rp_fs :: "('w, repair_error) lock_fs"
  rp_older :: "str \<Rightarrow> int \<Rightarrow> ('w, bool) port"
  rp_refresh_branch :: "(str \<Rightarrow> str \<Rightarrow> ('w, str) port) option"
  rp_validate_rules :: "str \<Rightarrow> ('w, unit) port"
  rp_commit_messages :: "str \<Rightarrow> str \<Rightarrow> ('w, str list) port"
  rp_build_context :: "ci_record \<Rightarrow> str option \<Rightarrow> str list \<Rightarrow> ('w, pydict) port"
  rp_spec_context :: "str option \<Rightarrow> ('w, pyval) port"
  rp_export :: "(str \<Rightarrow> pydict \<Rightarrow> ('w, str) port) option"
  rp_number :: "str \<Rightarrow> rat option"
  rp_run_log :: "str \<Rightarrow> ('w, str option) port"
  rp_task_context :: "ci_record \<Rightarrow> task_row \<Rightarrow> ('w, pyval) port"
  rp_refresh_text :: str
  rp_failed_text :: "str \<Rightarrow> str"
  rp_async :: bool
  rp_rate_limit :: int
  rp_stale_bound :: int

definition on_world :: "('w, 'a) port \<Rightarrow> ('w, 'a) repair_prog" where
  "on_world m s = (case m (rs_world s) of (r, w) \<Rightarrow> (r, s\<lparr>rs_world := w\<rparr>))"

definition record_now :: "('w, ci_record) repair_prog" where
  "record_now = reads rs_record"

definition set_record :: "(ci_record \<Rightarrow> ci_record) \<Rightarrow> ('w, unit) repair_prog" where
  "set_record f = modifies (rs_record_update f)"

lemma set_record_eq: "set_record f = modifies (\<lambda>s. s\<lparr>rs_record := f (rs_record s)\<rparr>)"
proof -
  have "rs_record_update f s = s\<lparr>rs_record := f (rs_record s)\<rparr>" for s :: "'a repair_state" by (cases s) simp
  then show ?thesis unfolding set_record_def by presburger
qed

definition session_now :: "nat \<Rightarrow> ('w, pydict) repair_prog" where
  "session_now i = reads (\<lambda>s. ci_sessions (rs_record s) ! i)"

definition put :: "nat \<Rightarrow> str \<Rightarrow> pyval \<Rightarrow> ('w, unit) repair_prog" where
  "put i k v = set_record (change_session i (dict_set k v))"

definition save_record :: "'w repair_ports \<Rightarrow> ('w, unit) repair_prog" where
  "save_record p = seq record_now (\<lambda>r. on_world (rp_save p r))"

text \<open>\<open>record.updated_at = utc_now()\<close>, and \<open>session[key] = utc_now().isoformat()\<close>.\<close>

definition touch_record :: "'w repair_ports \<Rightarrow> ('w, unit) repair_prog" where
  "touch_record p = seq (on_world (rp_now p)) (\<lambda>t. set_record (\<lambda>r. r\<lparr>ci_updated := t\<rparr>))"

definition stamp :: "'w repair_ports \<Rightarrow> nat \<Rightarrow> str \<Rightarrow> ('w, unit) repair_prog" where
  "stamp p i key = seq (on_world (rp_now p)) (\<lambda>t. put i key (PStr t))"

definition touch_and_save :: "'w repair_ports \<Rightarrow> nat \<Rightarrow> ('w, unit) repair_prog" where
  "touch_and_save p i = andthen (stamp p i ''updatedAt'') (andthen (touch_record p) (save_record p))"

definition status_of :: "pydict \<Rightarrow> str \<Rightarrow> bool" where
  "status_of se label = (get se ''status'' = PStr label)"

definition set_status :: "nat \<Rightarrow> str \<Rightarrow> ('w, unit) repair_prog" where
  "set_status i label = put i ''status'' (PStr label)"

definition equivalent_mutants_status :: str where
  "equivalent_mutants_status = ''passed_with_equivalent_mutants''"

definition session_passed :: "pydict \<Rightarrow> bool" where
  "session_passed se = (status_of se ''green'' \<or> status_of se equivalent_mutants_status)"

section \<open>The terminal callback\<close>

text \<open>\<open>ApiTriggerService._report_result\<close>: an operator's release turns every report into a success.\<close>

definition reported_outcome :: "(pyval \<Rightarrow> str) \<Rightarrow> ci_record \<Rightarrow> bool \<Rightarrow> str \<Rightarrow> bool \<times> str" where
  "reported_outcome shown r passed summary = (case ci_override r of
     Some d \<Rightarrow> if get d ''passed'' = PBool True
       then (True, text_in shown d ''summary'' ''Released successfully to RDC by operator.'') else (passed, summary)
   | None \<Rightarrow> (passed, summary))"

definition first_url :: "str option \<Rightarrow> str option \<Rightarrow> str" where
  "first_url a b = (case a of Some (c # cs) \<Rightarrow> c # cs | _ \<Rightarrow> (case b of Some u \<Rightarrow> u | None \<Rightarrow> []))"

definition report_result :: "'w repair_ports \<Rightarrow> bool \<Rightarrow> str \<Rightarrow> ('w, unit) repair_prog" where
  "report_result p passed summary = seq record_now (\<lambda>r.
     if \<not> rp_can_report p r then ret ()
     else (case reported_outcome (rp_shown p) r passed summary of (passed', summary') \<Rightarrow>
       seq (on_world (rp_report p r passed' summary' (first_url (ci_report_url r) (ci_task_url r)))) (\<lambda>outcome.
       andthen (set_record (\<lambda>r'. r'\<lparr>ci_history := ci_history r @ cb_history outcome,
           ci_callback_ok := cb_succeeded outcome, ci_callback_error := cb_error outcome\<rparr>))
      (andthen (touch_record p) (save_record p)))))"

definition terminal_callback_key :: "bool \<Rightarrow> str \<Rightarrow> str" where
  "terminal_callback_key passed summary =
     (if passed then ''success''
      else if contains summary ''repair_stale'' then ''repair_stale''
      else if contains summary ''rerun_unavailable'' then ''rerun_unavailable''
      else if contains summary ''repair_failed'' then ''repair_failed''
      else ''failure'')"

definition callback_key_of :: "str option \<Rightarrow> bool \<Rightarrow> str \<Rightarrow> str" where
  "callback_key_of given passed summary = (case given of
     Some (c # cs) \<Rightarrow> c # cs | _ \<Rightarrow> terminal_callback_key passed summary)"

text \<open>A report with this key is a repetition.\<close>

definition already_reported :: "(pyval \<Rightarrow> str) \<Rightarrow> pydict \<Rightarrow> str \<Rightarrow> bool" where
  "already_reported shown se key =
     (let reported = text_in shown se ''terminalCallbackReportedKey'' [] in
      reported = key \<or> (truthy (get se ''terminalCallbackReportedAt'') \<and> reported = [] \<and> key \<noteq> ''repair_stale''))"

definition report_once ::
  "'w repair_ports \<Rightarrow> nat \<Rightarrow> bool \<Rightarrow> str \<Rightarrow> str option \<Rightarrow> ('w, unit) repair_prog" where
  "report_once p i passed summary given = seq (session_now i) (\<lambda>se.
     (let key = callback_key_of given passed summary in
      if already_reported (rp_shown p) se key then ret ()
      else andthen (report_result p passed summary)
          (andthen (put i ''terminalCallbackReportedKey'' (PStr key))
          (andthen (stamp p i ''terminalCallbackReportedAt'')
          (andthen (touch_record p) (save_record p))))))"

section \<open>A gate result\<close>

definition json_loads :: "(str \<Rightarrow> pyval option) \<Rightarrow> pyval \<Rightarrow> pydict" where
  "json_loads loads v = (case v of
     PDict d \<Rightarrow> d
   | PStr t \<Rightarrow> if t = [] then [] else (case loads t of Some (PDict d) \<Rightarrow> d | _ \<Rightarrow> [])
   | _ \<Rightarrow> [])"

text \<open>\<open>int(value)\<close>, and the path of a row.\<close>

definition task_number :: "pyval \<Rightarrow> ('w, int) repair_prog" where
  "task_number v = (case py_int v of
     Some n \<Rightarrow> ret n
   | None \<Rightarrow> raise (case v of PStr s \<Rightarrow> ValueError s | _ \<Rightarrow> OtherError ''TypeError''))"

definition row_path :: "'w repair_ports \<Rightarrow> task_row \<Rightarrow> str" where
  "row_path p row = shown_as (rp_shown p) (get row ''repo_path'')"

text \<open>\<open>None\<close> is an exception, \<open>Some None\<close> a row without a review.\<close>

definition saved_review :: "'w repair_ports \<Rightarrow> pydict \<Rightarrow> review_decision option option" where
  "saved_review p row =
     (let payload = json_loads (rp_loads p) (get row ''equivalence_review_json'') in
      if is_dict (get payload ''survivors'') then map_option Some (decision_from_dict (rp_shown p) payload) else Some None)"

definition failing_rows :: "(pyval \<Rightarrow> str) \<Rightarrow> pydict list \<Rightarrow> pydict list" where
  "failing_rows shown rows = filter (\<lambda>row. upper (text_in shown row ''status'' []) \<noteq> ''PASS'') rows"

definition review_entry :: "(pyval \<Rightarrow> str) \<Rightarrow> pydict \<times> review_decision \<Rightarrow> pyval" where
  "review_entry shown e = (case e of (row, d) \<Rightarrow>
     PDict [(''unitId'', PStr (if truthy (get row ''target_id'') then shown_as shown (get row ''target_id'')
         else text_in shown row ''class_fqn'' [])),
       (''verdictsSha256'', PStr (rd_sha d)), (''agentSessionRef'', text_dict (rd_session d)),
       (''modelId'', PStr (rd_model d)), (''verdicts'', get (decision_to_dict d) ''verdicts'')])"

definition override_summary :: "(pyval \<Rightarrow> str) \<Rightarrow> pydict \<Rightarrow> scoring_survivors \<Rightarrow> str" where
  "override_summary shown se f =
     ''Passed with equivalent-mutant override (fix session '' @ shown_as shown (get se ''sessionId'')
     @ ''): raw mutation '' @ shown (PFloat (ss_rate f)) @ ''% < gate '' @ shown (PFloat (ss_gate f)) @ ''%; ''
     @ nat_str (length (ss_mutants f)) @ '' mutants reviewed equivalent, not killed; the next CI run uses the normal gate.''"

definition gate_override_of :: "pydict \<Rightarrow> scoring_survivors \<Rightarrow> pydict" where
  "gate_override_of se f =
     [(''kind'', PStr ''equivalent_mutants''), (''sessionId'', get se ''sessionId''),
      (''rawMutationRate'', PFloat (ss_rate f)), (''mutationGate'', PFloat (ss_gate f)),
      (''mutants'', PInt (int (length (ss_mutants f))))]"

definition excuse ::
  "'w repair_ports \<Rightarrow> nat \<Rightarrow> (pydict \<times> review_decision) list \<Rightarrow> scoring_survivors \<Rightarrow> ('w, unit) repair_prog" where
  "excuse p i reviewed f = seq (on_world (rp_now p)) (\<lambda>now. seq (session_now i) (\<lambda>se.
     andthen (set_status i equivalent_mutants_status)
    (andthen (put i ''equivalenceOverride'' (PDict
        [(''reviews'', PList (map (review_entry (rp_shown p)) reviewed)),
         (''rawMutationRate'', PFloat (ss_rate f)), (''mutationGate'', PFloat (ss_gate f))]))
    (andthen (set_record (\<lambda>r. r\<lparr>ci_gate_override := Some (gate_override_of se f), ci_status := CiSuccess,
        ci_summary := Some (override_summary (rp_shown p) se f)\<rparr>))
    (andthen (touch_record p)
    (andthen (put i ''updatedAt'' (PStr now))
    (andthen (report_once p i True (override_summary (rp_shown p) se f) (Some equivalent_mutants_status))
      (save_record p))))))))"

text \<open>The answer of \<open>decide_grant\<close> on the flags of the gate.\<close>

definition grant_decision :: "review_decision list \<Rightarrow> scoring_survivors option \<Rightarrow> pydict \<Rightarrow> bool" where
  "grant_decision reviews fresh flags =
     fst (decide_grant reviews fresh (truthy (get flags ''tests_passed'')) (truthy (get flags ''coverage_passed''))
       (truthy (get flags ''mutation_only_failure'')))"

definition judge_grant ::
  "'w repair_ports \<Rightarrow> nat \<Rightarrow> gate_result \<Rightarrow> task_row \<Rightarrow> pydict list \<Rightarrow> review_decision list \<Rightarrow> ('w, bool) repair_prog" where
  "judge_grant p i result row failing reviews = seq record_now (\<lambda>r. case rp_handler p r of
     None \<Rightarrow> ret False
   | Some h \<Rightarrow> seq (on_world (rh_flags h r result)) (\<lambda>flags. case flags of
       None \<Rightarrow> ret False
     | Some fl \<Rightarrow> seq (on_world (rh_survivors h r result (row_path p row))) (\<lambda>fresh.
         if \<not> grant_decision reviews fresh fl then ret False
         else (case fresh of
             None \<Rightarrow> raise (AttributeError ''mutants'')
           | Some f \<Rightarrow> andthen (excuse p i (zip failing reviews) f) (ret True)))))"

definition try_grant :: "'w repair_ports \<Rightarrow> nat \<Rightarrow> gate_result \<Rightarrow> task_row \<Rightarrow> ('w, bool) repair_prog" where
  "try_grant p i result row = (case rp_tasks p of
     None \<Rightarrow> raise (AttributeError ''list_class_tasks'')
   | Some t \<Rightarrow> seq (task_number (get row ''id'')) (\<lambda>n. seq (on_world (tp_class_rows t n)) (\<lambda>rows.
       let failing = failing_rows (rp_shown p) rows in
       (case all_some (map (saved_review p) failing) of
          None \<Rightarrow> raise (OtherError ''review'')
        | Some reviews \<Rightarrow>
            if failing = [] then ret False
            else (case all_some reviews of None \<Rightarrow> ret False | Some ds \<Rightarrow> judge_grant p i result row failing ds)))))"

text \<open>Any exception keeps the normal failure path; what was done before it stays done.\<close>

definition grant_equivalent_mutants :: "'w repair_ports \<Rightarrow> nat \<Rightarrow> gate_result \<Rightarrow> task_row \<Rightarrow> ('w, bool) repair_prog" where
  "grant_equivalent_mutants p i result row s = (case try_grant p i result row s of
     (Inl e, s') \<Rightarrow> (Inr False, s') | (Inr b, s') \<Rightarrow> (Inr b, s'))"

definition settle_result :: "'w repair_ports \<Rightarrow> nat \<Rightarrow> gate_result \<Rightarrow> ('w, unit) repair_prog" where
  "settle_result p i result =
     andthen (set_record (\<lambda>r. r\<lparr>ci_gate_override := None, ci_summary := Some (gr_summary result),
         ci_status := (if gr_passed result then CiSuccess else CiFailed)\<rparr>))
    (andthen (set_status i (if gr_passed result then ''green'' else ''rerun_failed''))
    (andthen (touch_record p)
    (andthen (report_once p i (gr_passed result) (gr_summary result) None) (save_record p))))"

definition apply_enforcement_result ::
  "'w repair_ports \<Rightarrow> nat \<Rightarrow> gate_result \<Rightarrow> task_row option \<Rightarrow> ('w, unit) repair_prog" where
  "apply_enforcement_result p i result row =
     andthen (put i ''rerunEnforcement'' (PDict (gr_json result)))
    (andthen (stamp p i ''updatedAt'')
    (andthen (set_record (\<lambda>r. r\<lparr>ci_enforcement := Some (gr_json result)\<rparr>))
    (seq (case row of
        Some t \<Rightarrow> if gr_passed result \<or> t = [] then ret False else grant_equivalent_mutants p i result t
      | None \<Rightarrow> ret False)
      (\<lambda>granted. if granted then ret () else settle_result p i result))))"

end
