(* ===== verification/RepairTasks.thy ===== *)
theory RepairTasks
  imports RepairSessions
begin

text \<open>
  The task behind a repair session: the checkout it refreshes, the creation of the task now or on a
  thread (\<open>uta/app/repair/deferred_task.py\<close>, \<open>workspace.py\<close>), retry, refresh and admission of
  sessions (\<open>session.py\<close>).
\<close>

section \<open>Tasks\<close>

text \<open>\<open>ApiTriggerService._live_repo_task\<close>.\<close>

definition live_statuses :: "str list" where
  "live_statuses = [''CREATED'', ''QUEUED'', ''RUNNING'', ''STOP_REQUESTED'']"

definition row_status :: "task_row \<Rightarrow> str list \<Rightarrow> bool" where
  "row_status row labels = list_ex (\<lambda>l. get row ''status'' = PStr l) labels"

definition live_row :: "'w task_ports \<Rightarrow> int \<Rightarrow> ('w, task_row option) port" where
  "live_row t n w = (case tp_get t n w of
     (Inr row, w') \<Rightarrow> (Inr (if row_status row live_statuses then Some row else None), w')
   | (Inl (KeyError m), w') \<Rightarrow> (Inr None, w')
   | (Inl (ValueError m), w') \<Rightarrow> (Inr None, w')
   | (Inl e, w') \<Rightarrow> (Inl e, w'))"

definition live_repo_task :: "'w repair_ports \<Rightarrow> pyval \<Rightarrow> ('w, task_row option) repair_prog" where
  "live_repo_task p v = (case rp_tasks p of
     None \<Rightarrow> ret None
   | Some t \<Rightarrow> if \<not> truthy v then ret None
       else (case py_int v of None \<Rightarrow> ret None | Some n \<Rightarrow> on_world (live_row t n)))"

definition row_error :: "task_row \<Rightarrow> pyval" where
  "row_error row = (if truthy (get row ''error'') then get row ''error'' else get row ''last_error'')"

definition copy_task :: "nat \<Rightarrow> task_row \<Rightarrow> ('w, unit) repair_prog" where
  "copy_task i row =
     andthen (put i ''repoTaskStatus'' (get row ''status''))
    (andthen (put i ''repoTaskStage'' (get row ''current_stage''))
    (andthen (put i ''repoTaskDetail'' (get row ''current_detail''))
      (put i ''repoTaskError'' (row_error row))))"

section \<open>Refreshing the checkout\<close>

definition refresh_workspace :: "'w repair_ports \<Rightarrow> nat \<Rightarrow> str \<Rightarrow> ('w, unit) repair_prog" where
  "refresh_workspace p i repo = (case rp_refresh_branch p of
     None \<Rightarrow> ret ()
   | Some refresh \<Rightarrow> seq record_now (\<lambda>r. seq (on_world (refresh repo (tr_branch (ci_request r)))) (\<lambda>head.
       andthen (put i ''refreshedHead'' (PStr head)) (stamp p i ''refreshedAt''))))"

definition start_rerun :: "'w repair_ports \<Rightarrow> nat \<Rightarrow> ('w, unit) repair_prog" where
  "start_rerun p i = andthen (set_status i ''rerun_running'') (andthen (stamp p i ''rerunStartedAt'') (touch_and_save p i))"

definition rerun_after_refresh ::
  "'w repair_ports \<Rightarrow> nat \<Rightarrow> fix_request \<Rightarrow> str \<Rightarrow> ('w, gate_result option) repair_prog" where
  "rerun_after_refresh p i q repo = seq record_now (\<lambda>r. case rp_handler p r of
     None \<Rightarrow> ret None
   | Some h \<Rightarrow> andthen (start_rerun p i) (seq record_now (\<lambda>r'.
       seq (on_world (rh_preflight h r' q repo)) (\<lambda>answer. case answer of
         None \<Rightarrow> raise (ValueError ''Repair preflight was required but did not produce enforcement evidence'')
       | Some g \<Rightarrow> andthen (put i ''refreshRerunEnforcement'' (PDict (gr_json g)))
          (andthen (if gr_passed g then ret ()
             else andthen (set_record (\<lambda>r. r\<lparr>ci_enforcement := Some (gr_json g), ci_summary := Some (gr_summary g)\<rparr>))
               (andthen (set_status i ''repairing'') (touch_and_save p i)))
            (ret (Some g)))))))"

section \<open>Creating the task\<close>

definition base_ref :: str where
  "base_ref = ''origin/master''"

definition repo_of :: "ci_record \<Rightarrow> str" where
  "repo_of r = (case ci_workspace r of Some w \<Rightarrow> w | None \<Rightarrow> ''None'')"

definition pipeline_text :: "(pyval \<Rightarrow> str) \<Rightarrow> pydict \<Rightarrow> str \<Rightarrow> str" where
  "pipeline_text shown ctx key = strip (text_in shown (as_dict (get ctx ''pipeline'')) key [])"

fun first_text :: "str list \<Rightarrow> str" where
  "first_text [] = []"
| "first_text [s] = s"
| "first_text (s # t # ss) = (if s \<noteq> [] then s else first_text (t # ss))"

definition repo_identity :: "(pyval \<Rightarrow> str) \<Rightarrow> ci_record \<Rightarrow> pydict \<Rightarrow> str" where
  "repo_identity shown r ctx = first_text
     [pipeline_text shown ctx ''gitUrl'', pipeline_text shown ctx ''git_url'', strip (tr_git_url (ci_request r)),
      pipeline_text shown ctx ''appName'', strip (tr_app (ci_request r))]"

text \<open>Targets from the fresh evidence, or from the evidence the session was asked for.\<close>

definition choose_targets ::
  "'w repair_handler \<Rightarrow> fix_request \<Rightarrow> str \<Rightarrow> pydict option \<Rightarrow> ('w, ci_record \<times> str list) repair_prog" where
  "choose_targets h q repo original = seq record_now (\<lambda>r. seq (on_world (rh_targets h r q repo base_ref)) (\<lambda>ids.
     (case original of
        Some (e # es) \<Rightarrow>
          if ids \<noteq> [] then ret (r, ids)
          else (let r0 = r\<lparr>ci_enforcement := Some (e # es)\<rparr> in
            seq (on_world (rh_targets h r0 q repo base_ref)) (\<lambda>ids0. ret (if ids0 \<noteq> [] then (r0, ids0) else (r, ids))))
      | _ \<Rightarrow> ret (r, ids))))"

definition tasks_of :: "'w repair_ports \<Rightarrow> ('w, 'w task_ports) repair_prog" where
  "tasks_of p = (case rp_tasks p of None \<Rightarrow> raise (AttributeError ''task_manager'') | Some t \<Rightarrow> ret t)"

text \<open>The task that does the repairing, and whether it was there already.\<close>

definition obtain_task ::
  "'w repair_ports \<Rightarrow> nat \<Rightarrow> 'w repair_handler \<Rightarrow> ci_record \<Rightarrow> fix_request \<Rightarrow> str \<Rightarrow> pydict \<Rightarrow> str option \<Rightarrow> str list
    \<Rightarrow> ('w, int \<times> bool) repair_prog" where
  "obtain_task p i h rr q repo ctx path ids = seq (tasks_of p) (\<lambda>t. seq record_now (\<lambda>r.
     seq (on_world (tp_duplicate_for t (repo_identity (rp_shown p) r ctx) (tr_branch (ci_request r)) base_ref (rh_language h) ids))
       (\<lambda>found. case found of
          Some n \<Rightarrow> andthen (put i ''reusedRepoTaskId'' (PInt n)) (ret (n, True))
        | None \<Rightarrow> seq (on_world (rh_create h rr q repo base_ref ctx path)) (\<lambda>n.
            seq (on_world (tp_duplicate t n)) (\<lambda>other. case other of
              None \<Rightarrow> ret (n, False)
            | Some d \<Rightarrow> andthen (on_world (tp_cancel t n (''duplicate of active repair task '' @ int_str d)))
                (andthen (put i ''deduplicatedRepoTaskId'' (PInt n)) (ret (d, True))))))))"

definition attach_task :: "'w repair_ports \<Rightarrow> nat \<Rightarrow> pydict \<Rightarrow> int \<times> bool \<Rightarrow> ('w, unit) repair_prog" where
  "attach_task p i ctx got = (case got of (n, shared) \<Rightarrow>
     andthen (put i ''repoTaskId'' (PInt n))
    (seq (live_repo_task p (PInt n)) (\<lambda>live.
     andthen (case live of Some row \<Rightarrow> copy_task i row | None \<Rightarrow> put i ''repoTaskStatus'' (PStr ''CREATED''))
    (andthen (put i ''rdcContext'' (PDict ctx))
    (andthen (set_status i ''repair_task_created'')
     (seq (if shared then ret [] else seq (tasks_of p) (\<lambda>t. on_world (tp_preempt t n))) (\<lambda>preempted.
        if preempted = [] then ret () else put i ''preemptedTaskIds'' (PList (map PInt preempted)))))))))"

definition submit_task ::
  "'w repair_ports \<Rightarrow> nat \<Rightarrow> 'w repair_handler \<Rightarrow> fix_request \<Rightarrow> str \<Rightarrow> pydict option \<Rightarrow> ('w, unit) repair_prog" where
  "submit_task p i h q repo original = seq (choose_targets h q repo original) (\<lambda>(rr, ids).
     seq (on_world (rp_commit_messages p repo base_ref)) (\<lambda>messages.
     seq (on_world (rp_build_context p rr (fx_context q) messages)) (\<lambda>built.
     andthen (on_world (rh_validate h rr q repo base_ref built ids))
    (seq record_now (\<lambda>r. seq (on_world (rp_spec_context p (tr_spec (ci_request r)))) (\<lambda>spec.
     seq (session_now i) (\<lambda>se.
     (let ctx = (if truthy spec then dict_set ''specContext'' spec built else built) in
     seq (case rp_export p of None \<Rightarrow> ret None
        | Some export \<Rightarrow> seq (on_world (export (shown_as (rp_shown p) (get se ''sessionId'')) ctx)) (\<lambda>path. ret (Some path)))
      (\<lambda>path. seq (obtain_task p i h rr q repo ctx path ids) (attach_task p i ctx))))))))))"

text \<open>\<open>None\<close> when the rules of the workspace are in order.\<close>

definition check_rules :: "'w repair_ports \<Rightarrow> str \<Rightarrow> ('w, (str \<times> str) option) repair_prog" where
  "check_rules p repo s = (case on_world (rp_validate_rules p repo) s of
     (Inl (RulesUnavailable c m), s') \<Rightarrow> (Inr (Some (c, m)), s')
   | (Inl e, s') \<Rightarrow> (Inl e, s')
   | (Inr u, s') \<Rightarrow> (Inr None, s'))"

definition rules_failed :: "'w repair_ports \<Rightarrow> nat \<Rightarrow> str \<Rightarrow> str \<Rightarrow> ('w, unit) repair_prog" where
  "rules_failed p i c m =
     andthen (set_status i ''repair_task_create_failed'')
    (andthen (put i ''repoTaskStage'' (PStr ''workspace_precheck''))
    (andthen (put i ''repoTaskFailureKind'' (PStr c))
    (andthen (put i ''repoTaskError'' (PStr m))
    (andthen (put i ''repoTaskDetail'' (PStr m))
      (touch_and_save p i)))))"

definition create_or_reuse ::
  "'w repair_ports \<Rightarrow> nat \<Rightarrow> 'w repair_handler option \<Rightarrow> fix_request \<Rightarrow> str \<Rightarrow> pydict option \<Rightarrow> ('w, unit) repair_prog" where
  "create_or_reuse p i handler q repo original = (case handler of
     None \<Rightarrow> raise (AttributeError ''should_rerun_after_repair_workspace_refresh'')
   | Some h \<Rightarrow> seq record_now (\<lambda>r. seq (on_world (rh_should_rerun h r q)) (\<lambda>again.
       seq (if again then rerun_after_refresh p i q repo else ret None) (\<lambda>answer.
         case answer of
           Some g \<Rightarrow> if gr_passed g
             then andthen (apply_enforcement_result p i g None) (put i ''alreadyGreenAfterRefresh'' (PBool True))
             else submit_task p i h q repo original
         | None \<Rightarrow> submit_task p i h q repo original))))"

definition create_repair_task :: "'w repair_ports \<Rightarrow> nat \<Rightarrow> fix_request \<Rightarrow> ('w, unit) repair_prog" where
  "create_repair_task p i q = seq record_now (\<lambda>r. let repo = repo_of r in
     andthen (refresh_workspace p i repo)
    (seq (check_rules p repo) (\<lambda>refused. case refused of
       Some (c, m) \<Rightarrow> rules_failed p i c m
     | None \<Rightarrow> create_or_reuse p i (rp_handler p r) q repo (ci_enforcement r))))"

section \<open>Creation on a thread\<close>

definition mark_creation_started :: "'w repair_ports \<Rightarrow> nat \<Rightarrow> ('w, unit) repair_prog" where
  "mark_creation_started p i =
     andthen (set_status i ''creating_repair_task'')
    (andthen (put i ''repoTaskStage'' (PStr ''refresh_workspace''))
    (andthen (put i ''repoTaskDetail'' (PStr (rp_refresh_text p)))
    (andthen (stamp p i ''updatedAt'') (touch_record p))))"

definition session_id :: "'w repair_ports \<Rightarrow> pydict \<Rightarrow> str" where
  "session_id p se = text_in (rp_shown p) se ''sessionId'' []"

definition thread_key :: "ci_record \<Rightarrow> str \<Rightarrow> str" where
  "thread_key r sid = ci_task_id r @ '':'' @ sid"

text \<open>The registry holds the arguments of every thread that is alive.\<close>

definition start_deferred :: "'w repair_ports \<Rightarrow> nat \<Rightarrow> fix_request \<Rightarrow> ('w, unit) repair_prog" where
  "start_deferred p i q = seq (session_now i) (\<lambda>se. let sid = session_id p se in
     if sid = [] then ret ()
     else modifies (\<lambda>s. let key = thread_key (rs_record s) sid in
       if map_of (rs_threads s) key \<noteq> None then s else s\<lparr>rs_threads := (key, (sid, q)) # rs_threads s\<rparr>))"

definition has_task :: "pydict \<Rightarrow> bool" where
  "has_task se = (truthy (get se ''repoTaskId'') \<or> truthy (get se ''alreadyGreenAfterRefresh''))"

definition deferred_body :: "'w repair_ports \<Rightarrow> str \<Rightarrow> fix_request \<Rightarrow> ('w, unit) repair_prog" where
  "deferred_body p sid q = seq record_now (\<lambda>r. case find_session r sid of
     None \<Rightarrow> ret ()
   | Some i \<Rightarrow> if has_task (ci_sessions r ! i) then ret ()
       else andthen (mark_creation_started p i) (andthen (save_record p)
        (andthen (create_repair_task p i q) (touch_and_save p i))))"

definition deferred_failed :: "'w repair_ports \<Rightarrow> str \<Rightarrow> repair_error \<Rightarrow> ('w, unit) repair_prog" where
  "deferred_failed p sid e = seq record_now (\<lambda>r. case find_session r sid of
     None \<Rightarrow> ret ()
   | Some i \<Rightarrow> andthen (set_status i ''repair_task_create_failed'')
      (andthen (put i ''repoTaskError'' (PStr (error_text e)))
      (andthen (put i ''repoTaskDetail'' (PStr (rp_failed_text p (error_text e)))) (touch_and_save p i))))"

definition run_deferred :: "'w repair_ports \<Rightarrow> str \<Rightarrow> str \<Rightarrow> fix_request \<Rightarrow> ('w, unit) repair_prog" where
  "run_deferred p key sid q s =
     (case (case deferred_body p sid q s of (Inr u, s') \<Rightarrow> (Inr (), s') | (Inl e, s') \<Rightarrow> deferred_failed p sid e s') of
        (r, s') \<Rightarrow> (r, s'\<lparr>rs_threads := filter (\<lambda>t. fst t \<noteq> key) (rs_threads s')\<rparr>))"

section \<open>Retry\<close>

definition retry_request :: "(pyval \<Rightarrow> str) \<Rightarrow> pydict \<Rightarrow> fix_request" where
  "retry_request shown se =
     (let ids = List.map_filter (\<lambda>v. case v of PDict d \<Rightarrow>
            if truthy (get d ''id'') then Some (shown_as shown (get d ''id'')) else None | _ \<Rightarrow> None)
            (as_list (get se ''selectedTargets''));
          said = List.map_filter (\<lambda>v. case v of PDict d \<Rightarrow>
            (let c = strip (text_in shown d ''content'' []) in if c \<noteq> [] then Some c else None) | _ \<Rightarrow> None)
            (as_list (get se ''messages''));
          ctx = join_with [newline, newline] said in
      \<lparr>fx_targets = ids, fx_context = (if ctx = [] then None else Some ctx)\<rparr>)"

definition archived :: "pyval \<Rightarrow> str \<Rightarrow> pydict \<Rightarrow> pyval" where
  "archived previous now se = PDict ((''repoTaskId'', previous)
     # map (\<lambda>k. (k, get se k)) [''repoTaskStatus'', ''repoTaskStage'', ''repoTaskDetail'', ''repoTaskError'']
     @ [(''archivedAt'', PStr now)])"

definition archive_task :: "'w repair_ports \<Rightarrow> nat \<Rightarrow> pyval \<Rightarrow> ('w, unit) repair_prog" where
  "archive_task p i previous =
     (if \<not> truthy previous then ret ()
      else seq (session_now i) (\<lambda>se. let history = as_list (get se ''repoTaskHistory'') in
        if list_ex (\<lambda>v. get (as_dict v) ''repoTaskId'' = previous) history
        then put i ''repoTaskHistory'' (PList history)
        else seq (on_world (rp_now p)) (\<lambda>t. put i ''repoTaskHistory'' (PList (history @ [archived previous t se])))))"

definition without_keys :: "str list \<Rightarrow> pydict \<Rightarrow> pydict" where
  "without_keys ks d = filter (\<lambda>e. fst e \<notin> set ks) d"

definition task_keys :: "str list" where
  "task_keys = [''repoTaskId'', ''repoTaskStatus'', ''repoTaskStage'', ''repoTaskDetail'', ''repoTaskError'',
     ''repairIssues'', ''rerunEnforcement'']"

definition has_workspace :: "ci_record \<Rightarrow> bool" where
  "has_workspace r = (case ci_workspace r of Some w \<Rightarrow> w \<noteq> [] | None \<Rightarrow> False)"

definition start_over :: "'w repair_ports \<Rightarrow> nat \<Rightarrow> ('w, unit) repair_prog" where
  "start_over p i = andthen (set_record (change_session i (without_keys task_keys)))
     (seq (session_now i) (\<lambda>se. let q = retry_request (rp_shown p) se in
        if rp_async p then andthen (mark_creation_started p i) (andthen (save_record p) (start_deferred p i q))
        else andthen (create_repair_task p i q) (touch_and_save p i)))"

definition materialize_retry_request :: "'w repair_ports \<Rightarrow> nat \<Rightarrow> ('w, unit) repair_prog" where
  "materialize_retry_request p i = seq (session_now i) (\<lambda>se. seq record_now (\<lambda>r.
     if \<not> status_of se ''retry_requested'' \<or> rp_tasks p = None \<or> \<not> has_workspace r then ret ()
     else seq (live_repo_task p (get se ''repoTaskId'')) (\<lambda>live. case live of
       Some row \<Rightarrow> andthen (copy_task i row) (andthen (set_status i ''repair_task_created'') (touch_and_save p i))
     | None \<Rightarrow> andthen (archive_task p i (get se ''repoTaskId'')) (start_over p i))))"

end
