(* ===== verification/RepairAdmission.thy ===== *)
theory RepairAdmission
  imports RepairTasks
begin

text \<open>
  What a poll does to the sessions of a record, and the admission of a new one
  (\<open>uta/app/repair/session.py\<close>; \<open>repair_progress\<close> of \<open>progress.py\<close>).
\<close>

section \<open>Refresh\<close>

definition failed_repo_statuses :: "str list" where
  "failed_repo_statuses = [''FAILED'', ''CANCELLED'', ''STOPPED'', ''POISONED'', ''BUDGET_EXCEEDED'']"

definition failed_rerun :: "pydict \<Rightarrow> bool" where
  "failed_rerun se = list_ex (status_of se) [''rerun_failed'', ''rerun_unavailable'', ''repair_stale'']"

definition ensure_deferred :: "'w repair_ports \<Rightarrow> nat \<Rightarrow> ('w, unit) repair_prog" where
  "ensure_deferred p i = seq (session_now i) (\<lambda>se.
     if \<not> rp_async p \<or> has_task se \<or> \<not> status_of se ''creating_repair_task'' then ret ()
     else start_deferred p i (retry_request (rp_shown p) se))"

definition rerun_is_stale :: "'w repair_ports \<Rightarrow> pydict \<Rightarrow> ('w, bool) repair_prog" where
  "rerun_is_stale p se =
     (let started = strip (text_in (rp_shown p) se ''rerunStartedAt'' []) in
      if rp_stale_bound p \<le> 0 \<or> started = [] then ret False else on_world (rp_older p started (rp_stale_bound p)))"

definition run_log :: "'w repair_ports \<Rightarrow> task_row \<Rightarrow> ('w, str option) repair_prog" where
  "run_log p row = (if truthy (get row ''run_log_path'')
     then on_world (rp_run_log p (shown_as (rp_shown p) (get row ''run_log_path''))) else ret None)"

text \<open>Status, budget, issues and test quality of the task, as both polls write them on the session.\<close>

definition project_summary :: "'w repair_ports \<Rightarrow> 'w task_ports \<Rightarrow> nat \<Rightarrow> int \<Rightarrow> task_row \<Rightarrow> ('w, unit) repair_prog" where
  "project_summary p t i n row =
     andthen (copy_task i row)
    (seq (on_world (tp_payload t n)) (\<lambda>payload.
     andthen (put i ''budgetUsed'' (PDict (repair_budget_used (rp_number p) row payload)))
    (seq (run_log p row) (\<lambda>log_text.
     andthen (put i ''repairIssues'' (PList (map PDict (repair_issues (rp_shown p) row payload log_text))))
       (case repair_test_quality (rp_shown p) payload of
          None \<Rightarrow> raise (ValueError ''test quality'')
        | Some None \<Rightarrow> ret ()
        | Some (Some quality) \<Rightarrow> put i ''testQuality'' (PDict quality))))))"

definition project_task :: "'w repair_ports \<Rightarrow> 'w task_ports \<Rightarrow> nat \<Rightarrow> int \<Rightarrow> task_row \<Rightarrow> ('w, unit) repair_prog" where
  "project_task p t i n row =
     andthen (project_summary p t i n row)
    (seq record_now (\<lambda>r. seq (on_world (rp_task_context p r row)) (\<lambda>ctx.
     if truthy ctx then put i ''rdcContext'' ctx else ret ())))"

text \<open>A poll of the task's own enforcement result.\<close>

definition task_result :: "'w repair_ports \<Rightarrow> task_row \<Rightarrow> ('w, gate_result option) repair_prog" where
  "task_result p row = seq record_now (\<lambda>r. case rp_handler p r of
     None \<Rightarrow> ret None | Some h \<Rightarrow> on_world (rh_task_result h r row))"

definition finally_do :: "('s, 'e, 'a) prog \<Rightarrow> ('s, 'e, unit) prog \<Rightarrow> ('s, 'e, 'a) prog" where
  "finally_do m n s = (case m s of (r, s') \<Rightarrow> (case n s' of (Inl e, s'') \<Rightarrow> (Inl e, s'') | (Inr u, s'') \<Rightarrow> (r, s'')))"

definition rerun_locked ::
  "'w repair_ports \<Rightarrow> nat \<Rightarrow> task_row \<Rightarrow> (str \<Rightarrow> ('w, gate_result) port) \<Rightarrow> ('w, unit) repair_prog" where
  "rerun_locked p i row run = seq record_now (\<lambda>r. seq (session_now i) (\<lambda>se.
     let repo = row_path p row; sid = session_id p se in
     seq (on_world (acquire_lock (rp_fs p) repo (ci_task_id r) sid)) (\<lambda>acquired.
       if \<not> acquired then ret ()
       else finally_do
         (andthen (start_rerun p i)
           (seq (on_world (run repo)) (\<lambda>g. apply_enforcement_result p i g (Some row))))
         (on_world (release_lock (rp_fs p) repo (ci_task_id r) sid)))))"

definition rerun_enforcement :: "'w repair_ports \<Rightarrow> nat \<Rightarrow> task_row \<Rightarrow> ('w, unit) repair_prog" where
  "rerun_enforcement p i row = seq record_now (\<lambda>r. case rp_runner p r of
     None \<Rightarrow> andthen (set_status i ''rerun_unavailable'') (andthen (touch_and_save p i)
       (report_once p i False ''repair session ended (rerun_unavailable)'' None))
   | Some run \<Rightarrow> rerun_locked p i row run)"

definition completed_task :: "'w repair_ports \<Rightarrow> nat \<Rightarrow> task_row \<Rightarrow> ('w, unit) repair_prog" where
  "completed_task p i row = seq (task_result p row) (\<lambda>answer. case answer of
     Some g \<Rightarrow> apply_enforcement_result p i g (Some row)
   | None \<Rightarrow> seq (session_now i) (\<lambda>se.
       if failed_rerun se then ret ()
       else if status_of se ''rerun_running''
       then seq (rerun_is_stale p se) (\<lambda>stale. if stale then rerun_enforcement p i row else ret ())
       else rerun_enforcement p i row))"

text \<open>A failed repair whose task runs again is repairing.\<close>

definition revive :: "'w repair_ports \<Rightarrow> nat \<Rightarrow> task_row \<Rightarrow> ('w, unit) repair_prog" where
  "revive p i row = seq (session_now i) (\<lambda>se.
     if status_of se ''repair_failed'' \<and> \<not> row_status row failed_repo_statuses
     then andthen (set_status i (if row_status row [''COMPLETED''] then ''repair_completed'' else ''repairing''))
       (touch_and_save p i)
     else ret ())"

definition reconcile :: "'w repair_ports \<Rightarrow> nat \<Rightarrow> task_row \<Rightarrow> ('w, unit) repair_prog" where
  "reconcile p i row = andthen (revive p i row) (seq (session_now i) (\<lambda>se.
     if session_passed se then ret ()
     else if row_status row failed_repo_statuses
     then andthen (set_status i ''repair_failed'') (andthen (touch_and_save p i)
       (report_once p i False ''repair session ended (repair_failed)'' None))
     else if \<not> row_status row [''COMPLETED''] then ret ()
     else completed_task p i row))"

text \<open>\<open>get_task\<close> raises for an id it does not know; nothing here catches that.\<close>

definition poll_task :: "'w repair_ports \<Rightarrow> 'w task_ports \<Rightarrow> nat \<Rightarrow> ('w, unit) repair_prog" where
  "poll_task p t i = seq (session_now i) (\<lambda>se.
     if \<not> truthy (get se ''repoTaskId'') then ret ()
     else seq (task_number (get se ''repoTaskId'')) (\<lambda>n. seq (on_world (tp_get t n)) (\<lambda>row.
       if row = [] then ret () else andthen (project_task p t i n row) (reconcile p i row))))"

definition refresh_session :: "'w repair_ports \<Rightarrow> 'w task_ports \<Rightarrow> nat \<Rightarrow> ('w, unit) repair_prog" where
  "refresh_session p t i = andthen (ensure_deferred p i) (andthen (materialize_retry_request p i) (poll_task p t i))"

definition refresh_repair_sessions :: "'w repair_ports \<Rightarrow> ('w, unit) repair_prog" where
  "refresh_repair_sessions p = (case rp_tasks p of
     None \<Rightarrow> ret ()
   | Some t \<Rightarrow> seq record_now (\<lambda>r. foreach (refresh_session p t) [0..<length (ci_sessions r)]))"

section \<open>Refresh of a compact record\<close>

definition summarize_result :: "nat \<Rightarrow> gate_result \<Rightarrow> ('w, unit) repair_prog" where
  "summarize_result i g =
     andthen (set_status i (if gr_passed g then ''green'' else ''rerun_failed''))
    (andthen (put i ''rerunEnforcement'' (PDict (gr_json g)))
      (set_record (\<lambda>r. r\<lparr>ci_enforcement := Some (gr_json g), ci_summary := Some (gr_summary g),
         ci_status := (if gr_passed g then CiSuccess else CiFailed)\<rparr>)))"

definition caught_row :: "'w task_ports \<Rightarrow> pyval \<Rightarrow> ('w, task_row option) port" where
  "caught_row t v w = (case py_int v of
     None \<Rightarrow> (Inr None, w)
   | Some n \<Rightarrow> (case tp_get t n w of
       (Inr row, w') \<Rightarrow> (Inr (Some row), w')
     | (Inl (KeyError m), w') \<Rightarrow> (Inr None, w')
     | (Inl (ValueError m), w') \<Rightarrow> (Inr None, w')
     | (Inl e, w') \<Rightarrow> (Inl e, w')))"

definition summarize_session :: "'w repair_ports \<Rightarrow> 'w task_ports \<Rightarrow> nat \<Rightarrow> ('w, unit) repair_prog" where
  "summarize_session p t i = seq (session_now i) (\<lambda>se. let v = get se ''repoTaskId'' in
     if \<not> truthy v then ret ()
     else seq (on_world (caught_row t v)) (\<lambda>found. case found of
       None \<Rightarrow> ret ()
     | Some row \<Rightarrow> seq (task_number v) (\<lambda>n. andthen (project_summary p t i n row) (seq (session_now i) (\<lambda>se.
         if row_status row failed_repo_statuses then set_status i ''repair_failed''
         else if \<not> row_status row [''COMPLETED''] \<or> session_passed se then ret ()
         else seq (task_result p row) (\<lambda>answer. case answer of
             None \<Rightarrow> set_status i ''repair_completed''
           | Some g \<Rightarrow> summarize_result i g))))))"

definition refresh_session_summaries :: "'w repair_ports \<Rightarrow> ('w, unit) repair_prog" where
  "refresh_session_summaries p = (case rp_tasks p of
     None \<Rightarrow> ret ()
   | Some t \<Rightarrow> seq record_now (\<lambda>r. foreach (summarize_session p t) [0..<length (ci_sessions r)]))"

section \<open>Admission\<close>

datatype admission = Created nat | AlreadyGreen nat | AlreadyRunning nat

definition option_val :: "str option \<Rightarrow> pyval" where
  "option_val v = (case v of Some s \<Rightarrow> PStr s | None \<Rightarrow> PNone)"

definition repair_fingerprint :: "'w repair_ports \<Rightarrow> ci_record \<Rightarrow> fix_request \<Rightarrow> str" where
  "repair_fingerprint p r q = rp_digest p
     [(''rdc_task_id'', option_val (tr_task_id (ci_request r))), (''git_url'', PStr (tr_git_url (ci_request r))),
      (''branch'', PStr (tr_branch (ci_request r))), (''commit_id'', option_val (tr_commit (ci_request r))),
      (''enforcement_status'', get (enforcement_of r) ''status''),
      (''enforcement_command'', get (enforcement_of r) ''command''),
      (''failed_targets'', PList (map PStr (sort (fx_targets q))))]"

definition terminal_failed :: "pydict \<Rightarrow> bool" where
  "terminal_failed se = list_ex (status_of se)
     [''repair_failed'', ''rerun_failed'', ''rerun_unavailable'', ''repair_task_create_failed'']"

definition cancel_live_task :: "'w repair_ports \<Rightarrow> pydict \<Rightarrow> ('w, unit) repair_prog" where
  "cancel_live_task p se = (case rp_tasks p of
     None \<Rightarrow> ret ()
   | Some t \<Rightarrow> seq (live_repo_task p (get se ''repoTaskId'')) (\<lambda>live. case live of
       None \<Rightarrow> ret ()
     | Some row \<Rightarrow> seq (task_number (get row ''id'')) (\<lambda>n.
         on_world (tp_cancel t n ''superseded by replacement repair session after terminal failure''))))"

definition validate_context :: "'w repair_ports \<Rightarrow> fix_request \<Rightarrow> ('w, unit) repair_prog" where
  "validate_context p q = seq record_now (\<lambda>r. case rp_handler p r of
     None \<Rightarrow> ret ()
   | Some h \<Rightarrow> seq (on_world (rh_targets h r q (repo_of r) base_ref)) (\<lambda>ids.
       on_world (rh_validate h r q (repo_of r) base_ref [(''enforcement'', PDict (enforcement_of r))] ids)))"

definition on_value_error ::
  "('w, 'a) repair_prog \<Rightarrow> (str \<Rightarrow> ('w, 'a) repair_prog) \<Rightarrow> ('w, 'a) repair_prog" where
  "on_value_error m h s = (case m s of (Inl (ValueError e), s') \<Rightarrow> h e s' | (r, s') \<Rightarrow> (r, s'))"

definition drop_session :: "nat \<Rightarrow> ci_record \<Rightarrow> ci_record" where
  "drop_session i r = r\<lparr>ci_sessions := take i (ci_sessions r) @ drop (Suc i) (ci_sessions r)\<rparr>"

text \<open>\<open>create_fix_session\<close> of \<open>fix_sessions.py\<close>, with the fingerprint; the session comes last.\<close>

definition add_session :: "'w repair_ports \<Rightarrow> fix_request \<Rightarrow> str \<Rightarrow> ('w, nat) repair_prog" where
  "add_session p q fp = seq (on_world (rp_now p)) (\<lambda>now. seq (on_world (rp_fresh_id p)) (\<lambda>sid.
     seq record_now (\<lambda>r. seq (on_world (rp_now p)) (\<lambda>updated.
       andthen (set_record (append_session (new_session (rp_shown p) r q sid now) updated))
      (andthen (put (length (ci_sessions r)) ''fingerprint'' (PStr fp))
        (ret (length (ci_sessions r))))))))"

definition managed :: "'w repair_ports \<Rightarrow> ci_record \<Rightarrow> bool" where
  "managed p r = (rp_tasks p \<noteq> None \<and> has_workspace r)"

definition launch :: "'w repair_ports \<Rightarrow> fix_request \<Rightarrow> nat \<Rightarrow> ('w, admission) repair_prog" where
  "launch p q i = seq record_now (\<lambda>r.
     if managed p r \<and> rp_async p
     then andthen (mark_creation_started p i) (andthen (save_record p) (andthen (start_deferred p i q) (ret (Created i))))
     else andthen
       (on_value_error (if managed p r then create_repair_task p i q else ret ())
         (\<lambda>m. andthen (set_record (drop_session i)) (andthen (touch_record p)
           (andthen (save_record p) (raise (Unsupported m))))))
       (andthen (save_record p) (ret (Created i))))"

definition admit :: "'w repair_ports \<Rightarrow> fix_request \<Rightarrow> str \<Rightarrow> ('w, admission) repair_prog" where
  "admit p q fp = seq record_now (\<lambda>r.
     if 0 \<le> rp_rate_limit p \<and> rp_rate_limit p \<le> int (length (ci_sessions r)) then raise RateLimit
     else andthen
       (on_value_error (if managed p r then validate_context p q else ret ()) (\<lambda>m. raise (Unsupported m)))
       (seq (add_session p q fp) (launch p q)))"

definition create_fix_session :: "'w repair_ports \<Rightarrow> fix_request \<Rightarrow> ('w, admission) repair_prog" where
  "create_fix_session p q = seq record_now (\<lambda>r0.
     if \<not> can_create_fix_session (rp_shown p) r0
     then raise (Unsupported ''fix sessions are not available for this report'')
     else andthen (refresh_repair_sessions p) (seq record_now (\<lambda>r. let fp = repair_fingerprint p r q in
       case session_with ''fingerprint'' (PStr fp) (ci_sessions r) of
         None \<Rightarrow> admit p q fp
       | Some j \<Rightarrow> let se = ci_sessions r ! j in
           if session_passed se then ret (AlreadyGreen j)
           else if \<not> terminal_failed se then ret (AlreadyRunning j)
           else andthen (cancel_live_task p se) (admit p q fp))))"

end
