(* ===== verification/SessionFacts.thy ===== *)
theory SessionFacts
  imports RepairAdmission
begin

text \<open>
  What the operations on repair sessions keep, and how a session ends. What an operation on session
  \<open>j\<close> may do to the state is stated once, as the locale \<open>session_frame\<close>.
\<close>

section \<open>The frame of an operation\<close>

lemma keeps_maybe: "(x = None \<Longrightarrow> keeps P m) \<Longrightarrow> (\<And>y. x = Some y \<Longrightarrow> keeps P (n y))
    \<Longrightarrow> keeps P (case x of None \<Rightarrow> m | Some y \<Rightarrow> n y)"
  by (cases x) simp_all

lemma keeps_pair: "(\<And>a b. x = (a, b) \<Longrightarrow> keeps P (m a b)) \<Longrightarrow> keeps P (case x of (a, b) \<Rightarrow> m a b)"
  by (cases x) simp

lemmas keeps_cases = keeps_intros keeps_maybe keeps_pair

locale session_frame =
  fixes P :: "'w repair_state \<Rightarrow> bool" and allowed :: "str \<Rightarrow> bool" and j :: nat
  assumes world: "P s \<Longrightarrow> P (s\<lparr>rs_world := w\<rparr>)"
    and threads: "P s \<Longrightarrow> P (s\<lparr>rs_threads := ts\<rparr>)"
    and fields: "(\<And>r. ci_sessions (f r) = ci_sessions r) \<Longrightarrow> P s \<Longrightarrow> P (s\<lparr>rs_record := f (rs_record s)\<rparr>)"
    and forgets: "P s \<Longrightarrow> P (s\<lparr>rs_record := change_session j (without_keys task_keys) (rs_record s)\<rparr>)"
    and session: "allowed k \<Longrightarrow> P s \<Longrightarrow> P (s\<lparr>rs_record := change_session j (dict_set k v) (rs_record s)\<rparr>)"
begin

lemma keeps_world: "keeps P (on_world m)"
  by (auto simp: keeps_def on_world_def world split: prod.splits)

lemma keeps_fields: "(\<And>r. ci_sessions (f r) = ci_sessions r) \<Longrightarrow> keeps P (set_record f)"
  by (auto simp: set_record_eq intro!: keeps_modifies fields)

lemma keeps_put: "allowed k \<Longrightarrow> keeps P (put j k v)"
  by (auto simp: put_def set_record_eq intro!: keeps_modifies session)

lemma keeps_reading: "keeps P record_now" "keeps P (session_now i)"
  by (simp_all add: record_now_def session_now_def keeps_reads)

lemmas basics = keeps_world keeps_fields keeps_put keeps_reading

lemma keeps_saving: "keeps P (save_record p)" "keeps P (touch_record p)"
  by (auto simp: save_record_def touch_record_def intro!: keeps_intros basics)

lemma keeps_stamp: "allowed k \<Longrightarrow> keeps P (stamp p j k)"
  by (auto simp: stamp_def intro!: keeps_intros basics)

lemma keeps_status: "allowed ''status'' \<Longrightarrow> keeps P (set_status j label)"
  by (auto simp: set_status_def intro!: basics)

lemma keeps_touch: "allowed ''updatedAt'' \<Longrightarrow> keeps P (touch_and_save p j)"
  by (auto simp: touch_and_save_def intro!: keeps_intros basics keeps_saving keeps_stamp)

lemmas rules = basics keeps_saving keeps_stamp keeps_status keeps_touch

lemma keeps_copy: "list_all allowed [''repoTaskStatus'', ''repoTaskStage'', ''repoTaskDetail'', ''repoTaskError''] \<Longrightarrow> keeps P (copy_task j row)"
  by (simp add: copy_task_def rules keeps_cases)

lemma keeps_project:
  assumes "list_all allowed [''repoTaskStatus'', ''repoTaskStage'', ''repoTaskDetail'', ''repoTaskError'', ''budgetUsed'',
     ''repairIssues'', ''testQuality'', ''rdcContext'']"
  shows "keeps P (project_summary p t j n row)" "keeps P (project_task p t j n row)"
  using assms
  unfolding project_task_def project_summary_def run_log_def
  by (auto intro!: rules keeps_cases keeps_copy split: option.split)

end

text \<open>Everything an operation on session \<open>j\<close> does leaves the id of a session alone.\<close>

locale whole_frame = session_frame P "\<lambda>k. k \<noteq> ''sessionId''" j for P :: "'w repair_state \<Rightarrow> bool" and j
begin

lemmas parts = rules keeps_cases keeps_copy keeps_project

lemma keeps_report: "keeps P (report_result p passed summary)" "keeps P (report_once p j passed summary given)"
proof -
  show report: "keeps P (report_result p passed summary)" for passed summary
    unfolding report_result_def by (auto intro!: parts)
  show "keeps P (report_once p j passed summary given)"
    unfolding report_once_def Let_def by (auto intro!: parts report)
qed

lemma keeps_task_number: "keeps P (task_number v)" "keeps P (live_repo_task p v)" "keeps P (tasks_of p)"
  by (auto simp: task_number_def live_repo_task_def tasks_of_def intro!: parts)

lemma keeps_excuse: "keeps P (excuse p j reviewed f)"
  unfolding excuse_def by (auto intro!: parts keeps_report)

lemma keeps_grant: "keeps P (grant_equivalent_mutants p j result row)"
proof -
  have "keeps P (judge_grant p j result row failing ds)" for failing ds
    unfolding judge_grant_def by (auto intro!: parts keeps_excuse)
  then have attempt: "keeps P (try_grant p j result row)"
    unfolding try_grant_def Let_def by (auto intro!: parts keeps_task_number)
  show ?thesis
  proof (rule keepsI)
    fix s assume "P s"
    obtain r s' where run: "try_grant p j result row s = (r, s')" by fastforce
    with attempt \<open>P s\<close> have "P s'" by (rule keepsD)
    with run show "P (snd (grant_equivalent_mutants p j result row s))"
      by (simp add: grant_equivalent_mutants_def split: sum.split)
  qed
qed

lemma keeps_apply: "keeps P (apply_enforcement_result p j result row)"
  unfolding apply_enforcement_result_def settle_result_def by (auto intro!: parts keeps_report keeps_grant)

lemma keeps_refresh_workspace: "keeps P (refresh_workspace p j repo)"
  unfolding refresh_workspace_def by (auto intro!: parts)

lemma keeps_start_rerun: "keeps P (start_rerun p j)"
  unfolding start_rerun_def by (auto intro!: parts)

lemma keeps_rerun_after: "keeps P (rerun_after_refresh p j q repo)"
  unfolding rerun_after_refresh_def by (auto intro!: parts keeps_start_rerun)

lemma keeps_submit: "keeps P (submit_task p j h q repo original)"
proof -
  have choose: "keeps P (choose_targets h q repo original)"
    unfolding choose_targets_def Let_def by (auto intro!: parts split: list.split)
  have obtain_task: "keeps P (obtain_task p j h rr q repo ctx path ids)" for rr ctx path ids
    unfolding obtain_task_def by (auto intro!: parts keeps_task_number)
  have attach: "keeps P (attach_task p j ctx got)" for ctx got
    unfolding attach_task_def by (auto intro!: parts keeps_task_number)
  show ?thesis
    unfolding submit_task_def Let_def by (auto intro!: parts choose obtain_task attach)
qed

lemma keeps_create: "keeps P (create_repair_task p j q)"
proof -
  have rules: "keeps P (check_rules p repo)" for repo
    using keeps_world [of "rp_validate_rules p repo"]
    by (auto simp: keeps_def check_rules_def split: prod.splits sum.splits repair_error.splits)
  have refused: "keeps P (rules_failed p j c m)" for c m
    unfolding rules_failed_def by (auto intro!: parts)
  have "keeps P (create_or_reuse p j handler q repo original)" for handler repo original
    unfolding create_or_reuse_def by (auto intro!: parts keeps_rerun_after keeps_apply keeps_submit)
  then show ?thesis
    unfolding create_repair_task_def Let_def by (auto intro!: parts keeps_refresh_workspace rules refused)
qed

lemma keeps_modified: "(\<And>s. P s \<Longrightarrow> P (f s)) \<Longrightarrow> keeps P (modifies f)"
  by (rule keeps_modifies)

lemma keeps_start_deferred: "keeps P (start_deferred p j q)"
  unfolding start_deferred_def Let_def by (auto intro!: parts keeps_modified threads)

lemma keeps_mark: "keeps P (mark_creation_started p j)"
  unfolding mark_creation_started_def by (auto intro!: parts)

lemma keeps_materialize: "keeps P (materialize_retry_request p j)"
proof -
  have "keeps P (set_record (change_session j (without_keys task_keys)))"
    unfolding set_record_eq by (rule keeps_modifies) (rule forgets)
  then have over: "keeps P (start_over p j)"
    unfolding start_over_def Let_def by (auto intro!: parts keeps_mark keeps_start_deferred keeps_create)
  have "keeps P (archive_task p j v)" for v
    unfolding archive_task_def Let_def by (auto intro!: parts)
  with over show ?thesis
    unfolding materialize_retry_request_def by (auto intro!: parts keeps_task_number)
qed

lemma keeps_finally: "keeps P m \<Longrightarrow> keeps P n \<Longrightarrow> keeps P (finally_do m n)"
  unfolding keeps_def finally_do_def by (auto split: prod.splits sum.splits)

lemma keeps_rerun: "keeps P (rerun_enforcement p j row)"
proof -
  have "keeps P (rerun_locked p j row run)" for run
    unfolding rerun_locked_def Let_def by (auto intro!: parts keeps_finally keeps_start_rerun keeps_apply)
  then show ?thesis unfolding rerun_enforcement_def by (auto intro!: parts keeps_report)
qed

lemma keeps_result: "keeps P (task_result p row)"
  unfolding task_result_def by (auto intro!: parts)

lemma keeps_reconcile: "keeps P (reconcile p j row)"
proof -
  have "keeps P (rerun_is_stale p se)" for se
    unfolding rerun_is_stale_def Let_def by (auto intro!: parts)
  then have "keeps P (completed_task p j row)"
    unfolding completed_task_def by (auto intro!: parts keeps_result keeps_apply keeps_rerun)
  then show ?thesis
    unfolding reconcile_def revive_def by (auto intro!: parts keeps_report)
qed

lemma keeps_session_refresh: "keeps P (refresh_session p t j)"
proof -
  have "keeps P (ensure_deferred p j)"
    unfolding ensure_deferred_def by (auto intro!: parts keeps_start_deferred)
  moreover have "keeps P (poll_task p t j)"
    unfolding poll_task_def by (auto intro!: parts keeps_task_number keeps_reconcile)
  ultimately show ?thesis
    unfolding refresh_session_def by (auto intro!: parts keeps_materialize)
qed

lemma keeps_summarize: "keeps P (summarize_session p t j)"
  unfolding summarize_session_def summarize_result_def Let_def
  by (auto intro!: parts keeps_task_number keeps_result)

end

section \<open>All sessions at once\<close>

locale record_frame =
  fixes P :: "'w repair_state \<Rightarrow> bool"
  assumes every: "whole_frame P j"
begin

lemmas frame = whole_frame.axioms [OF every]
lemmas parts = session_frame.keeps_world [OF frame] session_frame.keeps_fields [OF frame] session_frame.keeps_put [OF frame]
  session_frame.keeps_reading [OF frame] session_frame.keeps_saving [OF frame] session_frame.keeps_status [OF frame]
  session_frame.keeps_touch [OF frame] whole_frame.keeps_task_number [OF every] whole_frame.keeps_mark [OF every]
  whole_frame.keeps_create [OF every] whole_frame.keeps_start_deferred [OF every] keeps_cases

lemma keeps_refresh_all: "keeps P (refresh_repair_sessions p)"
  using whole_frame.keeps_session_refresh [OF every]
  by (auto simp: refresh_repair_sessions_def record_now_def intro!: keeps_cases)

lemma keeps_summaries: "keeps P (refresh_session_summaries p)"
  using whole_frame.keeps_summarize [OF every]
  by (auto simp: refresh_session_summaries_def record_now_def intro!: keeps_cases)

lemma keeps_deferred: "keeps P (run_deferred p key sid q)"
proof (rule keepsI)
  fix s assume P: "P s"
  have body: "keeps P (deferred_body p sid q)"
    unfolding deferred_body_def by (auto intro!: parts)
  have failed: "keeps P (deferred_failed p sid e)" for e
    unfolding deferred_failed_def by (auto intro!: parts)
  obtain r s' where run: "deferred_body p sid q s = (r, s')" by fastforce
  with body P have s': "P s'" by (rule keepsD)
  show "P (snd (run_deferred p key sid q s))"
  proof (cases r)
    case (Inl e)
    obtain r2 s2 where "deferred_failed p sid e s' = (r2, s2)" by fastforce
    with keepsD [OF failed s'] run Inl show ?thesis
      by (simp add: run_deferred_def session_frame.threads [OF frame])
  next
    case (Inr u)
    with run s' show ?thesis
      by (simp add: run_deferred_def session_frame.threads [OF frame])
  qed
qed

lemma keeps_materialize_any: "keeps P (materialize_retry_request p i)"
  by (rule whole_frame.keeps_materialize [OF every])

lemma keeps_create_any: "keeps P (create_repair_task p i q)"
  by (rule whole_frame.keeps_create [OF every])

lemma keeps_launch_parts: "keeps P (cancel_live_task p se)" "keeps P (validate_context p q)"
  "keeps P (mark_creation_started p i)" "keeps P (start_deferred p i q)" "keeps P (save_record p)" "keeps P (touch_record p)"
  unfolding cancel_live_task_def validate_context_def by (auto intro!: parts)

end

section \<open>What the frames are used for\<close>

definition ids_of :: "pydict list \<Rightarrow> pyval list" where
  "ids_of ss = map (\<lambda>se. get se ''sessionId'') ss"

definition session_ids :: "'w repair_state \<Rightarrow> pyval list" where
  "session_ids s = ids_of (ci_sessions (rs_record s))"

lemma get_without_keys: "k \<notin> set ks \<Longrightarrow> get (without_keys ks d) k = get d k"
  by (induction d) (auto simp: without_keys_def get_def)

lemma id_kept: "get (without_keys task_keys d) ''sessionId'' = get d ''sessionId''"
  by (rule get_without_keys) code_simp

lemma status_kept: "get (without_keys task_keys d) ''status'' = get d ''status''"
  by (rule get_without_keys) code_simp

lemma change_keeps_ids:
  assumes "\<And>d. get (f d) ''sessionId'' = get d ''sessionId''"
  shows "ids_of (ci_sessions (change_session j f r)) = ids_of (ci_sessions r)"
proof (cases "j < length (ci_sessions r)")
  case True
  let ?ids = "ids_of (ci_sessions r)"
  have "?ids[j := get (ci_sessions r ! j) ''sessionId''] = ?ids"
    using True by (simp add: ids_of_def list_update_same_conv)
  with assms show ?thesis by (simp add: change_session_eq ids_of_def map_update)
next
  case False
  then show ?thesis by (simp add: change_session_eq list_update_beyond)
qed

lemma put_keeps_ids: "k \<noteq> ''sessionId'' \<Longrightarrow>
    ids_of (ci_sessions (change_session j (dict_set k v) r)) = ids_of (ci_sessions r)"
  by (rule change_keeps_ids) (simp add: get_dict_set)

lemma forget_keeps_ids: "ids_of (ci_sessions (change_session j (without_keys task_keys) r)) = ids_of (ci_sessions r)"
  by (rule change_keeps_ids) (rule id_kept)

interpretation ids: record_frame "\<lambda>s. session_ids s = xs" for xs
  by unfold_locales (simp_all add: session_ids_def put_keeps_ids forget_keeps_ids)

text \<open>An operation on session \<open>j\<close> leaves every other session as it is.\<close>

interpretation others: whole_frame "\<lambda>s. i \<noteq> j \<longrightarrow> ci_sessions (rs_record s) ! i = x" j for i j x
  by unfold_locales (auto simp: change_session_eq)

text \<open>Writing another key leaves the status of a session as it is.\<close>

interpretation status_frame: session_frame
  "\<lambda>s. j < length (ci_sessions (rs_record s)) \<and> get (ci_sessions (rs_record s) ! j) ''status'' = x" "\<lambda>k. k \<noteq> ''status''" j for x j
proof
  fix s :: "'a repair_state"
  assume "j < length (ci_sessions (rs_record s)) \<and> get (ci_sessions (rs_record s) ! j) ''status'' = x"
  then show "j < length (ci_sessions (rs_record (s\<lparr>rs_record := change_session j (without_keys task_keys) (rs_record s)\<rparr>)))
    \<and> get (ci_sessions (rs_record (s\<lparr>rs_record := change_session j (without_keys task_keys) (rs_record s)\<rparr>)) ! j) ''status'' = x"
    by (auto simp: change_session_eq status_kept)
qed (auto simp: change_session_eq get_dict_set)

lemma same_ids_same_length: "session_ids s = session_ids s' \<Longrightarrow> length (ci_sessions (rs_record s)) = length (ci_sessions (rs_record s'))"
  unfolding session_ids_def ids_of_def by (metis length_map)

end
