(* ===== verification/SessionSamples.thy ===== *)
theory SessionSamples
  imports SessionFacts
begin

text \<open>Concrete ports and records, on which the theorems about repair sessions are applied.\<close>

definition quiet_tasks :: "task_row \<Rightarrow> pydict list \<Rightarrow> unit task_ports" where
  "quiet_tasks row rows = \<lparr>tp_get = (\<lambda>_. ret row), tp_cancel = (\<lambda>_ _. ret ()), tp_payload = (\<lambda>_. ret None),
     tp_class_rows = (\<lambda>_. ret rows), tp_duplicate_for = (\<lambda>_ _ _ _ _. ret None), tp_duplicate = (\<lambda>_. ret None),
     tp_preempt = (\<lambda>_. ret [])\<rparr>"

definition sample_handler :: "gate_result option \<Rightarrow> scoring_survivors option \<Rightarrow> unit repair_handler" where
  "sample_handler answer fresh = \<lparr>rh_language = ''java'', rh_task_result = (\<lambda>_ _. ret answer),
     rh_flags = (\<lambda>_ _. ret (Some [(''tests_passed'', PBool True), (''coverage_passed'', PBool True),
        (''mutation_only_failure'', PBool True)])),
     rh_survivors = (\<lambda>_ _ _. ret fresh), rh_should_rerun = (\<lambda>_ _. ret False), rh_preflight = (\<lambda>_ _ _. ret None),
     rh_targets = (\<lambda>_ _ _ _. ret []), rh_validate = (\<lambda>_ _ _ _ _ _. ret ()), rh_create = (\<lambda>_ _ _ _ _ _. ret 1)\<rparr>"

definition sample_repair :: "unit task_ports \<Rightarrow> unit repair_handler \<Rightarrow> unit repair_ports" where
  "sample_repair t h = \<lparr>rp_shown = (\<lambda>_. []), rp_loads = (\<lambda>_. None), rp_digest = (\<lambda>_. ''fp''), rp_now = ret ''now'',
     rp_fresh_id = ret ''new'', rp_save = (\<lambda>_. ret ()), rp_can_report = (\<lambda>_. True),
     rp_report = (\<lambda>_ _ _ _. ret \<lparr>cb_history = [], cb_succeeded = True, cb_error = None\<rparr>),
     rp_tasks = Some t, rp_handler = (\<lambda>_. Some h), rp_runner = (\<lambda>_. None),
     rp_fs = \<lparr>fs_create = (\<lambda>_. ret True), fs_age = (\<lambda>_. ret None), fs_unlink = (\<lambda>_. ret Removed), fs_note = (\<lambda>_ _ _. ret ()),
        fs_denied = OtherError\<rparr>,
     rp_older = (\<lambda>_ _. ret False), rp_refresh_branch = None, rp_validate_rules = (\<lambda>_. ret ()),
     rp_commit_messages = (\<lambda>_ _. ret []), rp_build_context = (\<lambda>_ _ _. ret []), rp_spec_context = (\<lambda>_. ret PNone),
     rp_export = None, rp_number = (\<lambda>_. None), rp_run_log = (\<lambda>_. ret None), rp_task_context = (\<lambda>_ _. ret PNone),
     rp_refresh_text = [], rp_failed_text = (\<lambda>m. m), rp_async = True, rp_rate_limit = 5, rp_stale_bound = 0\<rparr>"

definition sample_check :: "pydict list \<Rightarrow> unit repair_state" where
  "sample_check sessions = \<lparr>rs_record = \<lparr>ci_task_id = ''ci'', ci_status = CiFailed,
       ci_request = \<lparr>tr_app = ''app'', tr_git_url = ''url'', tr_branch = ''b'', tr_commit = None, tr_spec = None, tr_task_id = None\<rparr>,
       ci_updated = ''then'', ci_report_url = None, ci_task_url = None, ci_workspace = None, ci_summary = None,
       ci_enforcement = Some [(''status'', PStr ''failed'')], ci_history = [], ci_callback_ok = False, ci_callback_error = None,
       ci_override = None, ci_sessions = sessions, ci_gate_override = None\<rparr>,
     rs_threads = [], rs_world = ()\<rparr>"

definition failed_session :: pydict where
  "failed_session = [(''sessionId'', PStr ''one''), (''status'', PStr ''rerun_failed''), (''fingerprint'', PStr ''fp'')]"

definition running_session :: pydict where
  "running_session = [(''sessionId'', PStr ''two''), (''status'', PStr ''repairing''), (''fingerprint'', PStr ''fp'')]"

definition running_row :: pydict where
  "running_row = [(''id'', PInt 5), (''status'', PStr ''RUNNING'')]"

definition held_session :: "str \<Rightarrow> pydict" where
  "held_session status = [(''sessionId'', PStr ''three''), (''status'', PStr status), (''repoTaskId'', PInt 5)]"

definition sample_row :: "str \<Rightarrow> pydict" where
  "sample_row status = [(''id'', PInt 5), (''status'', PStr status)]"

definition passing_gate :: gate_result where
  "passing_gate = \<lparr>gr_passed = True, gr_summary = ''ok'', gr_json = [(''passed'', PBool True)]\<rparr>"

definition failing_gate :: gate_result where
  "failing_gate = \<lparr>gr_passed = False, gr_summary = ''mutants'', gr_json = [(''passed'', PBool False)]\<rparr>"

end
