(* ===== verification/SessionRuns.thy ===== *)
theory SessionRuns
  imports SessionSamples
begin

text \<open>
  The repair sessions over all calls of the service, and how a session ends: admission and its limit,
  the terminal callback, passed sessions, settled sessions and excused gates.
\<close>

section \<open>Admission\<close>

lemma put_ids: "k \<noteq> ''sessionId'' \<Longrightarrow> keeps (\<lambda>s. session_ids s = xs) (put i k v)"
  by (rule session_frame.keeps_put [OF ids.frame])

lemma add_session_ids:
  assumes "add_session p q fp s = (r, s')"
  shows "(\<exists>e. r = Inl e \<and> session_ids s' = session_ids s)
    \<or> (\<exists>x. session_ids s' = session_ids s @ [x] \<and> r = Inr (length (session_ids s)))"
proof (cases r)
  case (Inl e)
  with assms show ?thesis
    by (auto simp: add_session_def on_world_def record_now_def set_record_eq put_def session_ids_def res_simps split: prod.splits)
next
  case (Inr i)
  with assms obtain now sid upd where s':
    "rs_record s' = change_session (length (ci_sessions (rs_record s))) (dict_set ''fingerprint'' (PStr fp))
        (append_session (new_session (rp_shown p) (rs_record s) q sid now) upd (rs_record s))"
    "i = length (ci_sessions (rs_record s))"
    by (fastforce simp: add_session_def on_world_def record_now_def set_record_eq put_def res_simps split: prod.splits)
  have "session_ids s' = session_ids s @ [PStr sid]"
    unfolding session_ids_def s'
    by (subst put_keeps_ids) (simp_all add: append_session_def ids_of_def new_session_def get_def)
  with Inr s' show ?thesis by (simp add: session_ids_def ids_of_def)
qed

lemma drop_ids: "ids_of (ci_sessions (drop_session i r)) = take i (ids_of (ci_sessions r)) @ drop (Suc i) (ids_of (ci_sessions r))"
  by (simp add: drop_session_def ids_of_def take_map drop_map)

text \<open>A launch keeps the new session or takes it away again.\<close>

definition launched :: "pyval list \<Rightarrow> pyval \<Rightarrow> 'w repair_state \<Rightarrow> bool" where
  "launched xs x s \<longleftrightarrow> session_ids s = xs @ [x] \<or> session_ids s = xs"

interpretation launched: record_frame "launched xs x" for xs x
  by unfold_locales (simp_all add: launched_def session_ids_def put_keeps_ids forget_keeps_ids)

lemma launch_ids:
  assumes s: "session_ids s = xs @ [x]" and run: "launch p q (length xs) s = (r, s')"
  shows "launched xs x s' \<and> (\<forall>i. r = Inr (Created i) \<longrightarrow> i = length xs \<and> session_ids s' = xs @ [x])"
proof -
  let ?i = "length xs" and ?P = "\<lambda>s. session_ids s = xs @ [x]"
  have keep: "keeps ?P m \<Longrightarrow> ?P u \<Longrightarrow> m u = (z, v) \<Longrightarrow> ?P v" for m :: "('a, 'b) repair_prog" and u v z
    by (rule keepsD)
  have dropped: "keeps (launched xs x) (andthen (touch_record p) (andthen (save_record p) (raise (Unsupported m)) :: ('a, unit) repair_prog))" for m
    by (intro keeps_cases launched.keeps_launch_parts)
  show ?thesis
  proof (cases "managed p (rs_record s) \<and> rp_async p")
    case True
    have "keeps ?P (andthen (mark_creation_started p ?i) (andthen (save_record p) (andthen (start_deferred p ?i q) (ret (Created ?i)))))"
      by (intro keeps_cases ids.keeps_launch_parts)
    from keepsD [OF this s, of r s'] True run have "?P s'" by (simp add: launch_def record_now_def)
    moreover from True run have "\<forall>i. r = Inr (Created i) \<longrightarrow> i = ?i"
      by (auto simp: launch_def record_now_def res_simps)
    ultimately show ?thesis by (simp add: launched_def)
  next
    case False
    let ?body = "if managed p (rs_record s) then create_repair_task p ?i q else ret ()"
    have body: "keeps ?P ?body" by (intro keeps_cases ids.keeps_create_any)
    obtain b u where b: "?body s = (b, u)" by fastforce
    with keepsD [OF body s] have u: "?P u" by blast
    have run': "andthen (on_value_error ?body (\<lambda>m. andthen (set_record (drop_session ?i)) (andthen (touch_record p)
        (andthen (save_record p) (raise (Unsupported m)))))) (andthen (save_record p) (ret (Created ?i))) s = (r, s')"
      using run False by (simp add: launch_def record_now_def)
    show ?thesis
    proof (cases "\<exists>m. b = Inl (ValueError m)")
      case True
      then obtain m where m: "b = Inl (ValueError m)" ..
      let ?u = "u\<lparr>rs_record := drop_session ?i (rs_record u)\<rparr>"
      have "session_ids ?u = xs" using u by (simp add: session_ids_def drop_ids)
      then have "launched xs x ?u" by (simp add: launched_def)
      moreover obtain r1 v where v: "andthen (touch_record p) (andthen (save_record p) (raise (Unsupported m))) ?u = (r1 :: repair_error + unit, v)"
        by fastforce
      ultimately have "launched xs x v" using dropped by (rule keepsD [rotated])
      moreover have "\<exists>e. r1 = Inl e" using v by (cases r1) (auto simp: res_simps)
      ultimately show ?thesis using run' b m v
        by (auto simp: andthen_def seq_def on_value_error_def set_record_eq modifies_def split: prod.splits sum.splits)
    next
      case False
      then have "on_value_error ?body h s = (b, u)" for h
        using b by (auto simp: on_value_error_def split: sum.splits repair_error.splits)
      with run' have rest: "(case b of Inl e \<Rightarrow> (Inl e, u) | Inr _ \<Rightarrow> andthen (save_record p) (ret (Created ?i)) u) = (r, s')"
        by (simp add: andthen_def seq_def split: sum.splits)
      have "keeps ?P (andthen (save_record p) (ret (Created ?i)))"
        by (intro keeps_cases ids.keeps_launch_parts)
      with rest u have "?P s'" by (auto split: sum.splits dest: keepsD)
      moreover from rest have "\<forall>i. r = Inr (Created i) \<longrightarrow> i = ?i" by (auto simp: res_simps split: sum.splits)
      ultimately show ?thesis by (simp add: launched_def)
    qed
  qed
qed

definition room_for_one :: "'w repair_ports \<Rightarrow> pyval list \<Rightarrow> bool" where
  "room_for_one p xs = (rp_rate_limit p < 0 \<or> int (length xs) < rp_rate_limit p)"

definition one_more :: "'w repair_ports \<Rightarrow> pyval list \<Rightarrow> 'w repair_state \<Rightarrow> bool" where
  "one_more p xs s \<longleftrightarrow> session_ids s = xs \<or> (room_for_one p xs \<and> (\<exists>x. session_ids s = xs @ [x]))"

lemma keeps_on_value_error: "keeps P m \<Longrightarrow> (\<And>e. keeps P (h e)) \<Longrightarrow> keeps P (on_value_error m h)"
  unfolding keeps_def on_value_error_def by (auto split: prod.split sum.split repair_error.split)

lemma admit_ids:
  assumes "session_ids s = xs" "admit p q fp s = (r, s')"
  shows "one_more p xs s' \<and> (\<forall>i. r = Inr (Created i) \<longrightarrow> i = length xs \<and> room_for_one p xs \<and> (\<exists>x. session_ids s' = xs @ [x]))"
proof (cases "0 \<le> rp_rate_limit p \<and> rp_rate_limit p \<le> int (length (ci_sessions (rs_record s)))")
  case True
  have "raise RateLimit s = (r, s')"
    using assms(2) unfolding admit_def record_now_def seq_reads if_P [OF True] .
  with assms(1) show ?thesis by (auto simp: one_more_def raise_def)
next
  case False
  with assms(1) have room: "room_for_one p xs" by (auto simp: room_for_one_def session_ids_def ids_of_def)
  let ?check = "on_value_error (if managed p (rs_record s) then validate_context p q else ret ()) (\<lambda>m. raise (Unsupported m))"
  have "keeps (\<lambda>s. session_ids s = xs) (if managed p (rs_record s) then validate_context p q else ret ())"
    by (intro keeps_cases ids.keeps_launch_parts)
  then have check: "keeps (\<lambda>s. session_ids s = xs) ?check"
    by (rule keeps_on_value_error) (rule keeps_raise)
  obtain b u where b: "?check s = (b, u)" by fastforce
  with keepsD [OF check assms(1)] have u: "session_ids u = xs" by blast
  have run: "andthen ?check (seq (add_session p q fp) (launch p q)) s = (r, s')"
    using assms(2) unfolding admit_def record_now_def seq_reads if_not_P [OF False] .
  show ?thesis
  proof (cases b)
    case (Inl e)
    have "(Inl e, u) = (r, s')" using run b Inl by (simp only: andthen_eq prod.case sum.case)
    with u show ?thesis by (auto simp: one_more_def)
  next
    case (Inr z)
    obtain a v where a: "add_session p q fp u = (a, v)" by fastforce
    from run b Inr a have rest: "(case a of Inl e \<Rightarrow> (Inl e, v) | Inr i \<Rightarrow> launch p q i v) = (r, s')"
      by (simp add: andthen_def seq_def)
    from add_session_ids [OF a] u consider e where "a = Inl e" "session_ids v = xs"
      | x where "a = Inr (length xs)" "session_ids v = xs @ [x]" by auto
    then show ?thesis
    proof cases
      case 1
      with rest show ?thesis by (auto simp: one_more_def)
    next
      case 2
      with rest have "launch p q (length xs) v = (r, s')" by simp
      from launch_ids [OF 2(2) this] room show ?thesis unfolding one_more_def launched_def by blast
    qed
  qed
qed

lemma create_ids:
  assumes run: "create_fix_session p q s = (r, s')"
  shows "one_more p (session_ids s) s' \<and> (\<forall>i. r = Inr (Created i) \<longrightarrow> i = length (session_ids s)
    \<and> room_for_one p (session_ids s) \<and> (\<exists>x. session_ids s' = session_ids s @ [x]))"
proof (cases "can_create_fix_session (rp_shown p) (rs_record s)")
  case False
  with run show ?thesis by (auto simp: create_fix_session_def record_now_def one_more_def raise_def)
next
  case True
  obtain b u where b: "refresh_repair_sessions p s = (b, u)" by fastforce
  with keepsD [OF ids.keeps_refresh_all refl] have u: "session_ids u = session_ids s" by blast
  show ?thesis
  proof (cases b)
    case (Inl e)
    with True run b u show ?thesis
      by (auto simp: create_fix_session_def record_now_def one_more_def andthen_def seq_def reads_def)
  next
    case (Inr z)
    let ?fp = "repair_fingerprint p (rs_record u) q"
    have run': "(case session_with ''fingerprint'' (PStr ?fp) (ci_sessions (rs_record u)) of
        None \<Rightarrow> admit p q ?fp
      | Some j \<Rightarrow> let se = ci_sessions (rs_record u) ! j in
           if session_passed se then ret (AlreadyGreen j)
           else if \<not> terminal_failed se then ret (AlreadyRunning j)
           else andthen (cancel_live_task p se) (admit p q ?fp)) u = (r, s')"
      using True run b Inr by (auto simp: create_fix_session_def record_now_def andthen_def seq_def reads_def Let_def)
    show ?thesis
    proof (cases "session_with ''fingerprint'' (PStr ?fp) (ci_sessions (rs_record u))")
      case None
      with run' admit_ids [OF u, of p q ?fp r s'] show ?thesis by simp
    next
      case (Some j)
      let ?se = "ci_sessions (rs_record u) ! j"
      consider "session_passed ?se \<or> \<not> terminal_failed ?se" | "\<not> session_passed ?se" "terminal_failed ?se" by blast
      then show ?thesis
      proof cases
        case 1
        with run' Some u show ?thesis by (auto simp: Let_def res_simps one_more_def split: if_splits)
      next
        case 2
        obtain c v where c: "cancel_live_task p ?se u = (c, v)" by fastforce
        with keepsD [OF ids.keeps_launch_parts(1) u] have v: "session_ids v = session_ids s" by blast
        from 2 run' Some c have "(case c of Inl e \<Rightarrow> (Inl e, v) | Inr _ \<Rightarrow> admit p q ?fp v) = (r, s')"
          by (simp add: Let_def andthen_def seq_def)
        with v admit_ids [OF v, of p q ?fp r s'] show ?thesis by (auto simp: one_more_def split: sum.splits)
      qed
    qed
  qed
qed

section \<open>All calls\<close>

text \<open>
  The calls that reach the sessions of a record: a request for a session, a poll of one kind or the
  other, a creation thread, a message, a retry with its materialization.
\<close>

inductive session_step :: "'w repair_ports \<Rightarrow> 'w repair_state \<Rightarrow> 'w repair_state \<Rightarrow> bool" for p where
  requested: "create_fix_session p q s = (r, s') \<Longrightarrow> session_step p s s'"
| polled: "refresh_repair_sessions p s = (r, s') \<Longrightarrow> session_step p s s'"
| summarized: "refresh_session_summaries p s = (r, s') \<Longrightarrow> session_step p s s'"
| thread: "(key, sid, q) \<in> set (rs_threads s) \<Longrightarrow> run_deferred p key sid q s = (r, s') \<Longrightarrow> session_step p s s'"
| message: "append_message sid m now upd (rs_record s) = (found, rec) \<Longrightarrow> session_step p s (s\<lparr>rs_record := rec\<rparr>)"
| retry: "retry_session sid m now upd (rs_record s) = (found, rec) \<Longrightarrow> session_step p s (s\<lparr>rs_record := rec\<rparr>)"
| materialized: "materialize_retry_request p i s = (r, s') \<Longrightarrow> session_step p s s'"

inductive session_runs :: "'w repair_ports \<Rightarrow> 'w repair_state \<Rightarrow> 'w repair_state \<Rightarrow> bool" for p s where
  start: "session_runs p s s"
| onward: "session_runs p s s' \<Longrightarrow> session_step p s' s'' \<Longrightarrow> session_runs p s s''"

lemma said_ids:
  "ids_of (ci_sessions (snd (append_message sid m now upd r))) = ids_of (ci_sessions r)"
  "ids_of (ci_sessions (snd (retry_session sid m' now upd r))) = ids_of (ci_sessions r)"
  by (simp_all add: append_message_def retry_session_def change_keeps_ids with_message_def retried_def Let_def get_dict_set
      split: option.split)

lemma step_ids:
  assumes "session_step p s s'"
  shows "one_more p (session_ids s) s'"
  using assms
proof cases
  case (requested q r)
  with create_ids show ?thesis by blast
next
  case (polled r)
  from keepsD [OF ids.keeps_refresh_all refl polled] show ?thesis by (simp add: one_more_def)
next
  case (summarized r)
  from keepsD [OF ids.keeps_summaries refl summarized] show ?thesis by (simp add: one_more_def)
next
  case (thread key sid q r)
  from keepsD [OF ids.keeps_deferred refl thread(2)] show ?thesis by (simp add: one_more_def)
next
  case (message sid m now upd found rec)
  with said_ids(1) [of sid m now upd "rs_record s"] show ?thesis by (simp add: one_more_def session_ids_def)
next
  case (retry sid m now upd found rec)
  with said_ids(2) [of sid m now upd "rs_record s"] show ?thesis by (simp add: one_more_def session_ids_def)
next
  case (materialized i r)
  from keepsD [OF ids.keeps_materialize_any refl materialized] show ?thesis by (simp add: one_more_def)
qed

text \<open>
  C18: Over all calls of the service (requests, both polls, creation threads, messages,
  retries), the sessions of a record keep their ids and order, new ones only join at the
  end, and their number never exceeds the limit of the check or the number there was.
\<close>

theorem sessions_are_limited:
  assumes "session_runs p s s'"
  shows "(\<exists>new. session_ids s' = session_ids s @ new)
    \<and> (rp_rate_limit p < 0 \<or> int (length (ci_sessions (rs_record s'))) \<le> max (int (length (ci_sessions (rs_record s)))) (rp_rate_limit p))"
  using assms
proof induction
  case start
  show ?case by auto
next
  case (onward s' s'')
  have len: "length (ci_sessions (rs_record u)) = length (session_ids u)" for u :: "'a repair_state"
    by (simp add: session_ids_def ids_of_def)
  from step_ids [OF onward.hyps(2)] onward.IH show ?case
    unfolding len by (auto simp: one_more_def room_for_one_def)
qed

theorem sessions_are_limited_witness:
  "session_runs (sample_repair (quiet_tasks [] []) (sample_handler None None)) (sample_check [failed_session])
      (snd (create_fix_session (sample_repair (quiet_tasks [] []) (sample_handler None None))
        \<lparr>fx_targets = [], fx_context = None\<rparr> (sample_check [failed_session])))
   \<and> int (length (ci_sessions (rs_record (snd (create_fix_session (sample_repair (quiet_tasks [] []) (sample_handler None None))
        \<lparr>fx_targets = [], fx_context = None\<rparr> (sample_check [failed_session])))))) \<le> 5"
proof -
  let ?p = "sample_repair (quiet_tasks [] []) (sample_handler None None)" and ?q = "\<lparr>fx_targets = [], fx_context = None\<rparr>"
  let ?s = "sample_check [failed_session]"
  have "session_step ?p ?s (snd (create_fix_session ?p ?q ?s))"
    by (rule session_step.requested) (rule prod.collapse [symmetric])
  then have runs: "session_runs ?p ?s (snd (create_fix_session ?p ?q ?s))"
    by (rule session_runs.onward [OF session_runs.start])
  moreover have "rp_rate_limit ?p = 5" "length (ci_sessions (rs_record ?s)) = 1"
    by (simp_all add: sample_repair_def sample_check_def)
  ultimately show ?thesis using sessions_are_limited [OF runs] by auto
qed

section \<open>The session a request finds\<close>

lemma session_with_first:
  "i < length ss \<Longrightarrow> get (ss ! i) key = v \<Longrightarrow> (\<And>k. k < i \<Longrightarrow> get (ss ! k) key \<noteq> v) \<Longrightarrow> session_with key v ss = Some i"
proof (induction ss arbitrary: i)
  case (Cons se ss)
  show ?case
  proof (cases i)
    case 0
    with Cons.prems show ?thesis by simp
  next
    case (Suc n)
    have "session_with key v ss = Some n"
    proof (rule Cons.IH)
      show "get (ss ! k) key \<noteq> v" if "k < n" for k
        using Cons.prems(3) [of "Suc k"] that Suc by simp
    qed (use Cons.prems Suc in simp_all)
    with Cons.prems(3) [of 0] Suc show ?thesis by simp
  qed
qed simp

text \<open>The ids of a session that is under way.\<close>

definition under_way :: "pydict \<Rightarrow> bool" where
  "under_way se \<longleftrightarrow> \<not> session_passed se \<and> \<not> terminal_failed se"

text \<open>
  A request is answered by the first session with its fingerprint: passed or under way
  it is returned, failed it is replaced. A later session with the same fingerprint that is
  under way is not looked at, so the request makes a further session (the witness shows the
  third one) where the running one alone would have been returned.
\<close>

theorem failed_session_hides_a_running_one:
  assumes available: "can_create_fix_session (rp_shown p) (rs_record s)"
    and refreshed: "refresh_repair_sessions p s = (Inr (), u)"
    and same: "i < length (ci_sessions (rs_record u))"
      "get (ci_sessions (rs_record u) ! i) ''fingerprint'' = PStr (repair_fingerprint p (rs_record u) q)"
    and first: "\<forall>k < i. get (ci_sessions (rs_record u) ! k) ''fingerprint'' \<noteq> PStr (repair_fingerprint p (rs_record u) q)"
  shows "create_fix_session p q s =
    (if session_passed (ci_sessions (rs_record u) ! i) then (Inr (AlreadyGreen i), u)
     else if under_way (ci_sessions (rs_record u) ! i) then (Inr (AlreadyRunning i), u)
     else andthen (cancel_live_task p (ci_sessions (rs_record u) ! i)) (admit p q (repair_fingerprint p (rs_record u) q)) u)"
proof -
  have "session_with ''fingerprint'' (PStr (repair_fingerprint p (rs_record u) q)) (ci_sessions (rs_record u)) = Some i"
    using same first by (intro session_with_first) auto
  with available refreshed show ?thesis
    by (simp add: create_fix_session_def record_now_def andthen_def seq_def reads_def Let_def under_way_def ret_def)
qed

text \<open>The first session failed, the second is at work on the same request: a third one is made.\<close>

theorem failed_session_hides_a_running_one_witness:
  "under_way running_session
   \<and> fst (create_fix_session (sample_repair (quiet_tasks [] []) (sample_handler None None))
       \<lparr>fx_targets = [], fx_context = None\<rparr> (sample_check [failed_session, running_session])) = Inr (Created 2)
   \<and> fst (create_fix_session (sample_repair (quiet_tasks [] []) (sample_handler None None))
       \<lparr>fx_targets = [], fx_context = None\<rparr> (sample_check [running_session])) = Inr (AlreadyRunning 0)"
proof -
  let ?p = "sample_repair (quiet_tasks [] []) (sample_handler None None)" and ?q = "\<lparr>fx_targets = [], fx_context = None\<rparr>"
  let ?s = "sample_check [failed_session, running_session]" and ?r = "sample_check [running_session]"
  have se: "ci_sessions (rs_record ?s) = [failed_session, running_session]" "ci_sessions (rs_record ?r) = [running_session]"
    by (simp_all add: sample_check_def)
  have can: "can_create_fix_session (rp_shown ?p) (rs_record ?s)" "can_create_fix_session (rp_shown ?p) (rs_record ?r)"
    by code_simp+
  have poll: "refresh_repair_sessions ?p ?s = (Inr (), ?s)" "refresh_repair_sessions ?p ?r = (Inr (), ?r)"
    by code_simp+
  have fp: "repair_fingerprint ?p r ?q = ''fp''" for r by (simp add: repair_fingerprint_def sample_repair_def)
  have same: "get failed_session ''fingerprint'' = PStr ''fp''" "get running_session ''fingerprint'' = PStr ''fp''"
    "\<not> session_passed failed_session" "\<not> under_way failed_session" "\<not> session_passed running_session" "under_way running_session"
    by code_simp+
  have "fst (andthen (cancel_live_task ?p failed_session) (admit ?p ?q ''fp'') ?s) = Inr (Created 2)" by code_simp
  with failed_session_hides_a_running_one [OF can(1) poll(1), of 0 ?q] failed_session_hides_a_running_one [OF can(2) poll(2), of 0 ?q]
  show ?thesis by (simp add: se fp same)
qed

end
