(* ===== verification/SessionEnds.thy ===== *)
theory SessionEnds
  imports SessionSamples EquivalentFacts
begin

text \<open>
  How a repair session ends: the terminal callback goes out once for an outcome, a passed session stays
  passed, a completed repair settles its session, and a failed gate is excused on reviews alone.
\<close>

section \<open>Sessions of a state\<close>

definition session_at :: "'w repair_state \<Rightarrow> nat \<Rightarrow> pydict" where
  "session_at s i = ci_sessions (rs_record s) ! i"

definition holds_session :: "nat \<Rightarrow> 'w repair_state \<Rightarrow> bool" where
  "holds_session i s \<longleftrightarrow> i < length (ci_sessions (rs_record s))"

lemma put_at: "holds_session i s \<Longrightarrow> put i k v s = (r, s') \<Longrightarrow>
    r = Inr () \<and> session_at s' i = dict_set k v (session_at s i)"
  by (auto simp: put_def set_record_eq modifies_def change_session_eq session_at_def holds_session_def)

lemma holds_frame: "whole_frame (\<lambda>s. holds_session i s) j"
  by unfold_locales (simp_all add: holds_session_def change_session_eq)

section \<open>The terminal callback\<close>

text \<open>What is written beside a key leaves the key alone.\<close>

definition key_is :: "nat \<Rightarrow> str \<Rightarrow> pyval \<Rightarrow> 'w repair_state \<Rightarrow> bool" where
  "key_is i k v s \<longleftrightarrow> holds_session i s \<and> get (session_at s i) k = v"

lemma key_frame: "k \<notin> set task_keys \<Longrightarrow> session_frame (key_is i k v) (\<lambda>k'. k' \<noteq> k) i"
  by unfold_locales (auto simp: key_is_def holds_session_def session_at_def change_session_eq get_dict_set get_without_keys)

lemma put_key: "holds_session i s \<Longrightarrow> put i k v s = (r, s') \<Longrightarrow> key_is i k v s'"
  by (auto simp: put_def set_record_eq modifies_def key_is_def holds_session_def session_at_def change_session_eq get_dict_set)

abbreviation reported_key :: str where
  "reported_key \<equiv> ''terminalCallbackReportedKey''"

lemma reported_frame: "session_frame (key_is i reported_key v) (\<lambda>k. k \<noteq> reported_key) i"
  by (rule key_frame) code_simp

lemma callback_key_not_Nil: "callback_key_of given passed summary \<noteq> []"
  by (auto simp: callback_key_of_def terminal_callback_key_def split: option.split list.split)

lemma report_once_reported:
  assumes "holds_session i s" "report_once p i passed summary given s = (Inr (), s')"
  shows "already_reported (rp_shown p) (session_at s' i) (callback_key_of given passed summary)"
proof (cases "already_reported (rp_shown p) (session_at s i) (callback_key_of given passed summary)")
  case True
  with assms show ?thesis by (simp add: report_once_def session_now_def session_at_def Let_def ret_def)
next
  case False
  let ?key = "callback_key_of given passed summary"
  from assms False obtain u v where u: "report_result p passed summary s = (Inr (), u)"
    and v: "put i reported_key (PStr ?key) u = (Inr (), v)"
    and rest: "andthen (stamp p i ''terminalCallbackReportedAt'') (andthen (touch_record p) (save_record p)) v = (Inr (), s')"
    by (simp add: report_once_def session_now_def session_at_def Let_def res_simps) blast
  from keepsD [OF whole_frame.keeps_report(1) [OF holds_frame] assms(1) u] have "holds_session i u" .
  from put_key [OF this v] have key: "key_is i reported_key (PStr ?key) v" .
  have "keeps (key_is i reported_key (PStr ?key)) (andthen (stamp p i ''terminalCallbackReportedAt'') (andthen (touch_record p) (save_record p)))"
    by (intro keeps_cases session_frame.keeps_stamp [OF reported_frame] session_frame.keeps_saving [OF reported_frame]) simp
  from keepsD [OF this key rest] show ?thesis
    by (simp add: key_is_def already_reported_def text_in_def shown_as_def callback_key_not_Nil)
qed

text \<open>
  Once a session has reported an outcome, a report with the same callback key, whatever
  its text, calls no port and changes nothing.
\<close>

theorem callback_goes_out_once:
  assumes "i < length (ci_sessions (rs_record s))"
    and "report_once p i passed summary given s = (Inr (), s')"
    and "callback_key_of given' passed' summary' = callback_key_of given passed summary"
  shows "report_once p i passed' summary' given' s' = (Inr (), s')"
  using report_once_reported [OF _ assms(2)] assms(1,3)
  by (simp add: report_once_def session_now_def session_at_def holds_session_def Let_def ret_def)

section \<open>Passed sessions\<close>

definition lasting_keys :: "str list" where
  "lasting_keys = [''status'', reported_key, ''terminalCallbackReportedAt'', ''equivalenceOverride'']"

lemma lasting_not_forgotten: "k \<in> set lasting_keys \<Longrightarrow> k \<notin> set task_keys"
proof -
  have "list_all (\<lambda>k. k \<notin> set task_keys) lasting_keys" by code_simp
  then show "k \<in> set lasting_keys \<Longrightarrow> k \<notin> set task_keys" unfolding list_all_iff by blast
qed

lemma lasting_not_projected: "k \<in> set lasting_keys \<Longrightarrow>
  list_all (\<lambda>k'. k' \<noteq> k) [''repoTaskStatus'', ''repoTaskStage'', ''repoTaskDetail'', ''repoTaskError'', ''budgetUsed'',
     ''repairIssues'', ''testQuality'', ''rdcContext'']"
  by (auto simp: lasting_keys_def)

lemma other_frame: "i \<noteq> j \<Longrightarrow> whole_frame (key_is i k v) j"
  by unfold_locales (auto simp: key_is_def holds_session_def session_at_def change_session_eq)

lemma passed_not: "session_passed se \<Longrightarrow> get se ''status'' = PStr l \<Longrightarrow> l = ''green'' \<or> l = equivalent_mutants_status"
  by (auto simp: session_passed_def status_of_def)

lemma passed_status:
  assumes "session_passed se"
  shows "\<not> status_of se ''creating_repair_task''" "\<not> status_of se ''retry_requested''" "\<not> status_of se ''repair_failed''"
proof -
  have "equivalent_mutants_status \<noteq> ''creating_repair_task''" "equivalent_mutants_status \<noteq> ''retry_requested''"
    "equivalent_mutants_status \<noteq> ''repair_failed''" by code_simp+
  with passed_not [OF assms] show "\<not> status_of se ''creating_repair_task''" "\<not> status_of se ''retry_requested''"
    "\<not> status_of se ''repair_failed''"
    by (auto simp: status_of_def)
qed

text \<open>A session that is settled in this way is left where it is.\<close>

definition lasting :: "nat \<Rightarrow> pydict \<Rightarrow> 'w repair_state \<Rightarrow> bool" where
  "lasting i se s \<longleftrightarrow> (\<forall>k \<in> set lasting_keys. key_is i k (get se k) s)"

lemma keeps_lasting:
  assumes "\<And>k. k \<in> set lasting_keys \<Longrightarrow> keeps (key_is i k (get se k)) m"
  shows "keeps (lasting i se) m"
  using assms unfolding keeps_def lasting_def by blast

lemma reconcile_passed:
  assumes "session_passed (session_at s i)"
  shows "reconcile p i row s = (Inr (), s)"
  using assms passed_status(3) [OF assms]
  by (simp add: reconcile_def revive_def session_now_def andthen_def seq_def reads_def ret_def session_at_def)

lemma lasting_passed: "session_passed se \<Longrightarrow> lasting i se s \<Longrightarrow> session_passed (session_at s i)"
  by (simp add: lasting_def lasting_keys_def key_is_def session_passed_def status_of_def)

lemma keeps_passed:
  assumes "session_passed se"
  shows "keeps (lasting i se) (refresh_session p t j)"
proof (cases "i = j")
  case False
  show ?thesis
    by (rule keeps_lasting) (rule whole_frame.keeps_session_refresh [OF other_frame [OF False]])
next
  case True
  have reconcile: "keeps (lasting i se) (reconcile p i row)" for row
    using assms by (intro keepsI) (simp add: reconcile_passed lasting_passed)
  have project: "keeps (lasting i se) (project_task p t i n row)" for n row
    by (rule keeps_lasting)
      (rule session_frame.keeps_project(2) [OF key_frame], rule lasting_not_forgotten, assumption, rule lasting_not_projected)
  have reading: "keeps (lasting i se) (on_world m)" "keeps (lasting i se) (session_now i)" "keeps (lasting i se) (task_number v)" for m v
  proof -
    show "keeps (lasting i se) (on_world m)"
      by (rule keeps_lasting) (rule session_frame.keeps_world [OF key_frame], rule lasting_not_forgotten)
  qed (auto simp: session_now_def task_number_def intro: keeps_cases split: option.split)
  have "keeps (lasting i se) (poll_task p t i)"
    unfolding poll_task_def by (intro keeps_cases reading project reconcile)
  moreover have "ensure_deferred p i s = (Inr (), s)" "materialize_retry_request p i s = (Inr (), s)" if "lasting i se s" for s
    using passed_status [OF lasting_passed [OF assms that]]
    by (simp_all add: ensure_deferred_def materialize_retry_request_def session_now_def record_now_def session_at_def ret_def)
  ultimately show ?thesis
    unfolding True [symmetric] keeps_def refresh_session_def by (simp add: andthen_def seq_def)
qed

text \<open>
  Whatever a poll meets, errors included, a session that has passed keeps its status,
  the key and time of its terminal callback and its override.
\<close>

theorem passed_sessions_stay_passed:
  assumes "refresh_repair_sessions p s = (r, s')" "i < length (ci_sessions (rs_record s))"
    and "session_passed (ci_sessions (rs_record s) ! i)" "k \<in> set lasting_keys"
  shows "get (ci_sessions (rs_record s') ! i) k = get (ci_sessions (rs_record s) ! i) k"
proof -
  let ?se = "ci_sessions (rs_record s) ! i"
  have "keeps (lasting i ?se) (refresh_repair_sessions p)"
    using keeps_passed [OF assms(3)]
    by (auto simp: refresh_repair_sessions_def record_now_def intro!: keeps_cases)
  moreover have "lasting i ?se s" using assms(2) by (simp add: lasting_def key_is_def holds_session_def session_at_def)
  ultimately have "lasting i ?se s'" using assms(1) by (rule keepsD)
  with assms(4) show ?thesis by (simp add: lasting_def key_is_def session_at_def)
qed

section \<open>The result of a gate\<close>

context session_frame
begin

lemma keeps_reports:
  assumes "list_all allowed [reported_key, ''terminalCallbackReportedAt'']"
  shows "keeps P (report_once p j passed summary given)"
proof -
  have "keeps P (report_result p passed summary)"
    unfolding report_result_def by (auto intro!: rules keeps_cases)
  with assms show ?thesis unfolding report_once_def Let_def by (auto intro!: rules keeps_cases)
qed

end

lemma status_session_frame: "session_frame (key_is i ''status'' v) (\<lambda>k. k \<noteq> ''status'') i"
  by (rule key_frame) code_simp

lemmas status_kept_by = session_frame.keeps_world [OF status_session_frame] session_frame.keeps_fields [OF status_session_frame]
  session_frame.keeps_put [OF status_session_frame] session_frame.keeps_reading [OF status_session_frame]
  session_frame.keeps_saving [OF status_session_frame] session_frame.keeps_stamp [OF status_session_frame]
  session_frame.keeps_touch [OF status_session_frame] session_frame.keeps_reports [OF status_session_frame] keeps_cases

text \<open>What a check has come to, as the record shows it.\<close>

definition outcome :: "'w repair_state \<Rightarrow> ci_task_status \<times> pydict option \<times> pydict option" where
  "outcome s = (ci_status (rs_record s), ci_gate_override (rs_record s), ci_enforcement (rs_record s))"

lemma outcome_kept_by_fields:
  "(\<And>r. (ci_status (f r), ci_gate_override (f r), ci_enforcement (f r)) = (ci_status r, ci_gate_override r, ci_enforcement r))
    \<Longrightarrow> keeps (\<lambda>s. outcome s = x) (set_record f)"
  by (auto simp: set_record_eq outcome_def intro!: keeps_modifies)

lemma outcome_kept:
  "keeps (\<lambda>s. outcome s = x) (on_world m)" "keeps (\<lambda>s. outcome s = x) (put i k v)"
  "keeps (\<lambda>s. outcome s = x) record_now" "keeps (\<lambda>s. outcome s = x) (session_now i)"
  by (auto simp: keeps_def on_world_def put_def set_record_eq modifies_def change_session_eq outcome_def
      record_now_def session_now_def reads_def split: prod.splits)

lemma outcome_kept_by_saving: "keeps (\<lambda>s. outcome s = x) (touch_record p)" "keeps (\<lambda>s. outcome s = x) (save_record p)"
  unfolding touch_record_def save_record_def by (auto intro!: keeps_cases outcome_kept outcome_kept_by_fields)

lemma outcome_kept_by_report: "keeps (\<lambda>s. outcome s = x) (report_once p i passed summary given)"
proof -
  have "keeps (\<lambda>s. outcome s = x) (report_result p passed summary)"
    unfolding report_result_def by (auto intro!: keeps_cases outcome_kept outcome_kept_by_fields outcome_kept_by_saving)
  then show ?thesis
    unfolding report_once_def stamp_def Let_def by (auto intro!: keeps_cases outcome_kept outcome_kept_by_saving)
qed

lemmas outcome_parts = keeps_cases outcome_kept outcome_kept_by_saving outcome_kept_by_report

lemma andthen_set_record: "andthen (set_record f) n s = n (s\<lparr>rs_record := f (rs_record s)\<rparr>)"
  by (simp add: set_record_eq modifies_def andthen_def seq_def)

lemma seq_on_world: "m (rs_world s) = (Inr x, w) \<Longrightarrow> seq (on_world m) n s = n x (s\<lparr>rs_world := w\<rparr>)"
  by (simp add: on_world_def seq_def)

lemma seq_ret: "seq (ret x) n s = n x s"
  by (simp add: seq_def ret_def)

text \<open>A port that answers.\<close>

lemma on_world_answers:
  assumes "seq (on_world m) n s = (Inr y, s')"
  obtains x w where "m (rs_world s) = (Inr x, w)" "n x (s\<lparr>rs_world := w\<rparr>) = (Inr y, s')"
  using assms by (auto simp: seq_def on_world_def split: prod.splits sum.splits)

lemma seq_session_now: "seq (session_now i) n s = n (session_at s i) s"
  by (simp add: session_now_def session_at_def)

lemma seq_record_now: "seq record_now n s = n (rs_record s) s"
  by (simp add: record_now_def)

text \<open>Running two parts, the second of which keeps what the first brought about.\<close>

lemma after_keeps: "andthen m n s = (Inr x, s') \<Longrightarrow> (\<And>u. m s = (Inr (), u) \<Longrightarrow> P u) \<Longrightarrow> keeps P n \<Longrightarrow> P s'"
  by (auto simp: res_simps dest: keepsD)

lemma set_status_at: "holds_session i s \<Longrightarrow> set_status i l s = (r, s') \<Longrightarrow> key_is i ''status'' (PStr l) s'"
  unfolding set_status_def by (rule put_key)

lemma settle_result_status:
  assumes "holds_session i s" "settle_result p i g s = (Inr (), s')"
  shows "key_is i ''status'' (PStr (if gr_passed g then ''green'' else ''rerun_failed'')) s'
    \<and> outcome s' = (if gr_passed g then CiSuccess else CiFailed, None, ci_enforcement (rs_record s))"
proof -
  let ?l = "if gr_passed g then ''green'' else ''rerun_failed''"
  let ?tail = "andthen (touch_record p) (andthen (report_once p i (gr_passed g) (gr_summary g) None) (save_record p))"
  let ?s = "s\<lparr>rs_record := (rs_record s)\<lparr>ci_gate_override := None, ci_summary := Some (gr_summary g),
     ci_status := (if gr_passed g then CiSuccess else CiFailed)\<rparr>\<rparr>"
  have run: "andthen (set_status i ?l) ?tail ?s = (Inr (), s')"
    using assms(2) unfolding settle_result_def andthen_set_record .
  have holds: "holds_session i ?s" using assms(1) by (simp add: holds_session_def)
  have "key_is i ''status'' (PStr ?l) s'"
    by (rule after_keeps [OF run]) (rule set_status_at [OF holds], assumption, auto intro!: status_kept_by)
  moreover have "outcome s' = outcome ?s"
    by (rule after_keeps [OF run]) (auto simp: set_status_def intro!: outcome_parts dest: keepsD [OF outcome_kept(2) refl])
  ultimately show ?thesis by (simp add: outcome_def)
qed

lemma excuse_status:
  assumes "holds_session i s" "excuse p i reviewed f s = (Inr (), s')"
  shows "key_is i ''status'' (PStr equivalent_mutants_status) s'
    \<and> (\<exists>se. outcome s' = (CiSuccess, Some (gate_override_of se f), ci_enforcement (rs_record s)))"
proof -
  let ?se = "session_at s i"
  let ?text = "override_summary (rp_shown p) ?se f"
  obtain now w where now: "rp_now p (rs_world s) = (Inr now, w)"
    using assms(2) by (auto simp: excuse_def on_world_def res_simps split: prod.splits sum.splits)
  let ?s = "s\<lparr>rs_world := w\<rparr>"
  let ?override = "put i ''equivalenceOverride'' (PDict [(''reviews'', PList (map (review_entry (rp_shown p)) reviewed)),
         (''rawMutationRate'', PFloat (ss_rate f)), (''mutationGate'', PFloat (ss_gate f))])"
  let ?mark = "set_record (\<lambda>r. r\<lparr>ci_gate_override := Some (gate_override_of ?se f), ci_status := CiSuccess, ci_summary := Some ?text\<rparr>)"
  let ?tail = "andthen (touch_record p) (andthen (put i ''updatedAt'' (PStr now))
    (andthen (report_once p i True ?text (Some equivalent_mutants_status)) (save_record p)))"
  have run: "andthen (set_status i equivalent_mutants_status) (andthen ?override (andthen ?mark ?tail)) ?s = (Inr (), s')"
    using assms(2) by (simp add: excuse_def seq_on_world now seq_session_now session_at_def)
  have holds: "holds_session i ?s" using assms(1) by (simp add: holds_session_def)
  have "key_is i ''status'' (PStr equivalent_mutants_status) s'"
    by (rule after_keeps [OF run]) (rule set_status_at [OF holds], assumption, auto intro!: status_kept_by)
  moreover
  from run obtain u where u: "andthen (set_status i equivalent_mutants_status) ?override ?s = (Inr (), u)"
    "andthen ?mark ?tail u = (Inr (), s')"
    by (auto simp: res_simps)
  have "keeps (\<lambda>v. outcome v = outcome s) (andthen (set_status i equivalent_mutants_status) ?override)"
    unfolding set_status_def by (intro outcome_parts)
  from keepsD [OF this _ u(1)] have same: "outcome u = outcome s" by (simp add: outcome_def)
  have tail: "keeps (\<lambda>v. outcome v = x) ?tail" for x by (intro outcome_parts)
  from keepsD [OF tail refl] u(2)
  have "outcome s' = (CiSuccess, Some (gate_override_of ?se f), ci_enforcement (rs_record u))"
    unfolding andthen_set_record by (fastforce simp: outcome_def)
  ultimately show ?thesis using same by (auto simp: outcome_def)
qed

text \<open>The reviews saved with the failing rows of a task.\<close>

definition reviewed_rows :: "'w repair_ports \<Rightarrow> task_row \<Rightarrow> review_decision list \<Rightarrow> bool" where
  "reviewed_rows p row reviews \<longleftrightarrow> (\<exists>t n w w' rows. rp_tasks p = Some t \<and> py_int (get row ''id'') = Some n
     \<and> tp_class_rows t n w = (Inr rows, w') \<and> failing_rows (rp_shown p) rows \<noteq> []
     \<and> map (saved_review p) (failing_rows (rp_shown p) rows) = map (\<lambda>d. Some (Some d)) reviews)"

text \<open>What \<open>decide_grant\<close> asks of the fresh survivors.\<close>

definition explained_by :: "scoring_survivors \<Rightarrow> review_decision list \<Rightarrow> bool" where
  "explained_by f reviews \<longleftrightarrow> (\<forall>d \<in> set reviews. rd_outcome d = AllEquivalent \<and> rd_survivors d \<noteq> None)
     \<and> ss_unreviewed f = 0 \<and> keys_of_survivors f = \<Union> (keys_of_survivors ` set (reviewed_survivors reviews))
     \<and> same_dict (ss_fingerprints f) (reviewed_fingerprints (reviewed_survivors reviews))"

lemma granted_explained: "grant_decision reviews (Some f) fl \<Longrightarrow> explained_by f reviews"
  by (auto simp: grant_decision_def decide_grant_def explained_by_def Let_def split: if_splits)

lemma judge_grant_excuses:
  assumes "holds_session i s" "judge_grant p i g row failing reviews s = (Inr True, s')"
  shows "\<exists>f se. explained_by f reviews \<and> key_is i ''status'' (PStr equivalent_mutants_status) s'
    \<and> outcome s' = (CiSuccess, Some (gate_override_of se f), ci_enforcement (rs_record s))"
proof -
  obtain h where h: "rp_handler p (rs_record s) = Some h"
    using assms(2) by (cases "rp_handler p (rs_record s)") (auto simp: judge_grant_def seq_record_now ret_def)
  with assms(2) obtain answer w where
    run: "(case answer of None \<Rightarrow> ret False | Some fl \<Rightarrow> seq (on_world (rh_survivors h (rs_record s) g (row_path p row))) (\<lambda>fresh.
         if \<not> grant_decision reviews fresh fl then ret False
         else (case fresh of None \<Rightarrow> raise (AttributeError ''mutants'')
           | Some f \<Rightarrow> andthen (excuse p i (zip failing reviews) f) (ret True)))) (s\<lparr>rs_world := w\<rparr>) = (Inr True, s')"
    by (auto simp: judge_grant_def seq_record_now elim!: on_world_answers)
  then obtain fl where fl: "answer = Some fl" by (cases answer) (auto simp: ret_def)
  from run [unfolded fl] obtain fresh w2 where
    run2: "(if \<not> grant_decision reviews fresh fl then ret False
         else (case fresh of None \<Rightarrow> raise (AttributeError ''mutants'')
           | Some f \<Rightarrow> andthen (excuse p i (zip failing reviews) f) (ret True))) (s\<lparr>rs_world := w2\<rparr>) = (Inr True, s')"
    by (auto elim!: on_world_answers)
  then obtain f where f: "fresh = Some f" "grant_decision reviews (Some f) fl"
    by (cases fresh) (auto simp: ret_def raise_def split: if_splits)
  let ?u = "s\<lparr>rs_world := w2\<rparr>"
  have u: "rs_record ?u = rs_record s" "grant_decision reviews (Some f) fl" "excuse p i (zip failing reviews) f ?u = (Inr (), s')"
    using run2 f by (auto simp: res_simps)
  from excuse_status [OF _ u(3)] assms(1) u(1) granted_explained [OF u(2)] show ?thesis
    by (auto simp: holds_session_def)
qed

lemma try_grant_excuses:
  assumes "holds_session i s" "try_grant p i g row s = (Inr True, s')"
  shows "\<exists>reviews f se. reviewed_rows p row reviews \<and> explained_by f reviews
    \<and> key_is i ''status'' (PStr equivalent_mutants_status) s'
    \<and> outcome s' = (CiSuccess, Some (gate_override_of se f), ci_enforcement (rs_record s))"
proof -
  obtain t where t: "rp_tasks p = Some t"
    using assms(2) by (cases "rp_tasks p") (auto simp: try_grant_def raise_def)
  obtain n where n: "py_int (get row ''id'') = Some n"
    using assms(2) by (cases "py_int (get row ''id'')") (auto simp: try_grant_def t task_number_def res_simps)
  from assms(2) obtain rows w where rows: "tp_class_rows t n (rs_world s) = (Inr rows, w)"
    and inner: "(case all_some (map (saved_review p) (failing_rows (rp_shown p) rows)) of
          None \<Rightarrow> raise (OtherError ''review'')
        | Some reviews \<Rightarrow>
            if failing_rows (rp_shown p) rows = [] then ret False
            else (case all_some reviews of None \<Rightarrow> ret False
              | Some ds \<Rightarrow> judge_grant p i g row (failing_rows (rp_shown p) rows) ds)) (s\<lparr>rs_world := w\<rparr>) = (Inr True, s')"
    by (auto simp: try_grant_def t task_number_def n seq_ret Let_def elim!: on_world_answers)
  obtain ys where ys: "all_some (map (saved_review p) (failing_rows (rp_shown p) rows)) = Some ys"
    "failing_rows (rp_shown p) rows \<noteq> []"
    using inner by (auto simp: raise_def ret_def split: option.splits if_splits)
  obtain reviews where reviews: "all_some ys = Some reviews"
    using inner ys by (cases "all_some ys") (auto simp: ret_def)
  note r = t n rows ys(2) ys(1) reviews
  have judged: "judge_grant p i g row (failing_rows (rp_shown p) rows) reviews (s\<lparr>rs_world := w\<rparr>) = (Inr True, s')"
    using inner ys reviews by simp
  from r(5,6) have "map (saved_review p) (failing_rows (rp_shown p) rows) = map (\<lambda>d. Some (Some d)) reviews"
    by (simp add: all_some_iff)
  with r have "reviewed_rows p row reviews" unfolding reviewed_rows_def by blast
  with judge_grant_excuses [OF _ judged] assms(1) show ?thesis by (fastforce simp: holds_session_def)
qed

text \<open>Whatever a grant comes to, the raw result stays the evidence of the record.\<close>

definition evidence_is :: "pydict option \<Rightarrow> 'w repair_state \<Rightarrow> bool" where
  "evidence_is x s \<longleftrightarrow> ci_enforcement (rs_record s) = x"

lemma evidence_kept_by_fields: "(\<And>r. ci_enforcement (f r) = ci_enforcement r) \<Longrightarrow> keeps (evidence_is x) (set_record f)"
  by (auto simp: set_record_eq evidence_is_def intro!: keeps_modifies)

lemma evidence_kept:
  "keeps (evidence_is x) (on_world m)" "keeps (evidence_is x) (put i k v)" "keeps (evidence_is x) record_now"
  "keeps (evidence_is x) (session_now i)"
  by (auto simp: keeps_def on_world_def put_def set_record_eq modifies_def change_session_eq evidence_is_def
      record_now_def session_now_def reads_def split: prod.splits)

lemma evidence_kept_by_grant: "keeps (evidence_is x) (try_grant p i g row)"
proof -
  note parts = keeps_cases evidence_kept evidence_kept_by_fields
  have saving: "keeps (evidence_is x) (touch_record p)" "keeps (evidence_is x) (save_record p)"
    unfolding touch_record_def save_record_def by (auto intro!: parts)
  have "keeps (evidence_is x) (report_result p passed summary)" for passed summary
    unfolding report_result_def by (auto intro!: parts saving)
  then have report: "keeps (evidence_is x) (report_once p i passed summary given)" for passed summary given
    unfolding report_once_def stamp_def Let_def by (auto intro!: parts saving)
  have "keeps (evidence_is x) (excuse p i reviewed f)" for reviewed f
    unfolding excuse_def set_status_def by (auto intro!: parts saving report)
  then have "keeps (evidence_is x) (judge_grant p i g row failing ds)" for failing ds
    unfolding judge_grant_def by (auto intro!: parts)
  then show ?thesis
    unfolding try_grant_def task_number_def Let_def by (auto intro!: parts)
qed

text \<open>A result settles the session in one of three ways.\<close>

lemma apply_settles:
  assumes s: "holds_session i s" and run: "apply_enforcement_result p i g row s = (Inr (), s')"
  shows "ci_enforcement (rs_record s') = Some (gr_json g)
    \<and> ((key_is i ''status'' (PStr (if gr_passed g then ''green'' else ''rerun_failed'')) s')
     \<or> (key_is i ''status'' (PStr equivalent_mutants_status) s' \<and> \<not> gr_passed g
        \<and> (\<exists>t reviews f se. row = Some t \<and> reviewed_rows p t reviews \<and> explained_by f reviews
             \<and> outcome s' = (CiSuccess, Some (gate_override_of se f), Some (gr_json g)))))"
proof -
  let ?grant = "case row of Some t \<Rightarrow> if gr_passed g \<or> t = [] then ret False else grant_equivalent_mutants p i g t | None \<Rightarrow> ret False"
  from run obtain u where u: "andthen (put i ''rerunEnforcement'' (PDict (gr_json g))) (stamp p i ''updatedAt'') s = (Inr (), u)"
    "seq ?grant (\<lambda>granted. if granted then ret () else settle_result p i g)
       (u\<lparr>rs_record := (rs_record u)\<lparr>ci_enforcement := Some (gr_json g)\<rparr>\<rparr>) = (Inr (), s')"
    unfolding apply_enforcement_result_def andthen_Inr by (auto simp: andthen_set_record set_record_eq res_simps)
  let ?u = "u\<lparr>rs_record := (rs_record u)\<lparr>ci_enforcement := Some (gr_json g)\<rparr>\<rparr>"
  have "keeps (\<lambda>s. holds_session i s) (andthen (put i ''rerunEnforcement'' (PDict (gr_json g))) (stamp p i ''updatedAt''))"
    by (intro keeps_cases session_frame.keeps_put [OF whole_frame.axioms [OF holds_frame]]
        session_frame.keeps_stamp [OF whole_frame.axioms [OF holds_frame]]) simp_all
  from keepsD [OF this s u(1)] have holds: "holds_session i ?u" by (simp add: holds_session_def)
  obtain b v where grant: "?grant ?u = (Inr b, v)" "(if b then ret () else settle_result p i g) v = (Inr (), s')"
    using u(2) by (auto simp: res_simps)
  have v: "holds_session i v \<and> ci_enforcement (rs_record v) = Some (gr_json g)
    \<and> (b \<longrightarrow> \<not> gr_passed g \<and> (\<exists>t reviews f se. row = Some t \<and> reviewed_rows p t reviews \<and> explained_by f reviews
        \<and> key_is i ''status'' (PStr equivalent_mutants_status) v
        \<and> outcome v = (CiSuccess, Some (gate_override_of se f), Some (gr_json g))))"
  proof (cases "\<exists>t. row = Some t \<and> \<not> gr_passed g \<and> t \<noteq> []")
    case False
    with grant(1) holds show ?thesis by (auto simp: ret_def split: option.splits if_splits)
  next
    case True
    then obtain t where t: "row = Some t" "\<not> gr_passed g" "t \<noteq> []" by blast
    with grant(1) have grant': "grant_equivalent_mutants p i g t ?u = (Inr b, v)" by simp
    obtain c v' where c: "try_grant p i g t ?u = (c, v')" by fastforce
    with grant' have v': "v = v'" "b \<longleftrightarrow> c = Inr True"
      by (auto simp: grant_equivalent_mutants_def split: sum.splits)
    show ?thesis
    proof (cases b)
      case True
      with v' c try_grant_excuses [OF holds, of p g t v] t show ?thesis
        by (fastforce simp: outcome_def key_is_def)
    next
      case False
      from keepsD [OF evidence_kept_by_grant _ c, of "Some (gr_json g)"] have "ci_enforcement (rs_record v) = Some (gr_json g)"
        unfolding v' by (simp add: evidence_is_def)
      moreover have "holds_session i v"
        using keepsD [OF whole_frame.keeps_grant [OF holds_frame] holds grant'] .
      ultimately show ?thesis using False by simp
    qed
  qed
  show ?thesis
  proof (cases b)
    case True
    with v grant(2) show ?thesis by (auto simp: ret_def outcome_def)
  next
    case False
    with grant(2) have "settle_result p i g v = (Inr (), s')" by simp
    with settle_result_status v show ?thesis by (fastforce simp: outcome_def)
  qed
qed


section \<open>A completed repair settles its session\<close>

definition settled_statuses :: "str list" where
  "settled_statuses = [''green'', equivalent_mutants_status, ''rerun_failed'', ''rerun_unavailable'', ''repair_stale'']"

definition settled :: "nat \<Rightarrow> 'w repair_state \<Rightarrow> bool" where
  "settled i s \<longleftrightarrow> holds_session i s \<and> list_ex (status_of (session_at s i)) settled_statuses"

lemma settledI: "key_is i ''status'' (PStr l) s \<Longrightarrow> l \<in> set settled_statuses \<Longrightarrow> settled i s"
  by (auto simp: settled_def key_is_def status_of_def list_ex_iff)

lemma apply_settled: "holds_session i s \<Longrightarrow> apply_enforcement_result p i g row s = (Inr (), s') \<Longrightarrow> settled i s'"
  using apply_settles [of i s p g row s'] by (auto simp: settled_statuses_def intro: settledI split: if_splits)

text \<open>Nobody else holds the lock file.\<close>

definition lock_free :: "'w repair_ports \<Rightarrow> bool" where
  "lock_free p \<longleftrightarrow> (\<forall>path w. \<exists>w'. fs_create (rp_fs p) path w = (Inr True, w'))"

lemma acquire_free:
  assumes "lock_free p" "acquire_lock (rp_fs p) repo task sid w = (Inr b, w')"
  shows b
proof -
  let ?path = "lock_path repo task sid"
  obtain v where "fs_create (rp_fs p) ?path w = (Inr True, v)" using assms(1) unfolding lock_free_def by blast
  then have "take_lock (rp_fs p) ?path w = (Inr True, v)" by (simp add: take_lock_def seq_def ret_def)
  with assms(2) show b
    by (auto simp: acquire_lock_def seq_def andthen_def ret_def split: prod.splits sum.splits)
qed

lemma finally_do_Inr: "finally_do m n s = (Inr x, s') \<Longrightarrow> \<exists>u. m s = (Inr x, u) \<and> n u = (Inr (), s')"
  by (auto simp: finally_do_def split: prod.splits sum.splits)

lemma rerun_settles:
  assumes free: "lock_free p" and s: "holds_session i s" and run: "rerun_enforcement p i row s = (Inr (), s')"
  shows "settled i s'"
proof (cases "rp_runner p (rs_record s)")
  case None
  let ?l = "''rerun_unavailable''"
  have "andthen (set_status i ?l) (andthen (touch_and_save p i) (report_once p i False ''repair session ended (rerun_unavailable)'' None)) s
      = (Inr (), s')"
    using run None by (simp add: rerun_enforcement_def seq_record_now)
  then have "key_is i ''status'' (PStr ?l) s'"
    by (rule after_keeps) (rule set_status_at [OF s], assumption, auto intro!: status_kept_by)
  then show ?thesis by (rule settledI) (simp add: settled_statuses_def)
next
  case (Some f)
  let ?r = "rs_record s" and ?sid = "session_id p (session_at s i)"
  from run Some obtain got w where
    lock: "acquire_lock (rp_fs p) (row_path p row) (ci_task_id ?r) ?sid (rs_world s) = (Inr got, w)"
    and body: "(if \<not> got then ret ()
       else finally_do
         (andthen (start_rerun p i) (seq (on_world (f (row_path p row))) (\<lambda>g. apply_enforcement_result p i g (Some row))))
         (on_world (release_lock (rp_fs p) (row_path p row) (ci_task_id ?r) ?sid))) (s\<lparr>rs_world := w\<rparr>) = (Inr (), s')"
    by (auto simp: rerun_enforcement_def rerun_locked_def seq_record_now seq_session_now Let_def elim!: on_world_answers)
  have "got" using acquire_free [OF free lock] .
  with body obtain v where v: "andthen (start_rerun p i) (seq (on_world (f (row_path p row)))
      (\<lambda>g. apply_enforcement_result p i g (Some row))) (s\<lparr>rs_world := w\<rparr>) = (Inr (), v)"
    "on_world (release_lock (rp_fs p) (row_path p row) (ci_task_id ?r) ?sid) v = (Inr (), s')"
    by (auto dest: finally_do_Inr)
  then obtain u g u' where u: "start_rerun p i (s\<lparr>rs_world := w\<rparr>) = (Inr (), u)"
    "on_world (f (row_path p row)) u = (Inr g, u')" "apply_enforcement_result p i g (Some row) u' = (Inr (), v)"
    by (auto simp: res_simps)
  have "holds_session i (s\<lparr>rs_world := w\<rparr>)" using s by (simp add: holds_session_def)
  from keepsD [OF whole_frame.keeps_start_rerun [OF holds_frame] this u(1)] u(2) have "holds_session i u'"
    by (auto simp: on_world_def holds_session_def split: prod.splits)
  from apply_settled [OF this u(3)] v(2) show ?thesis
    by (auto simp: settled_def on_world_def holds_session_def session_at_def split: prod.splits)
qed

text \<open>The session waits for a rerun that is still alive.\<close>

definition waits :: "nat \<Rightarrow> 'w repair_state \<Rightarrow> bool" where
  "waits i s \<longleftrightarrow> key_is i ''status'' (PStr ''rerun_running'') s"

lemma completed_settles:
  assumes free: "lock_free p" and s: "holds_session i s" and run: "completed_task p i row s = (Inr (), s')"
  shows "settled i s' \<or> (waits i s \<and> waits i s')"
proof -
  from run obtain answer u where u: "task_result p row s = (Inr answer, u)" and
    rest: "(case answer of
     Some g \<Rightarrow> apply_enforcement_result p i g (Some row)
   | None \<Rightarrow> seq (session_now i) (\<lambda>se.
       if failed_rerun se then ret ()
       else if status_of se ''rerun_running''
       then seq (rerun_is_stale p se) (\<lambda>stale. if stale then rerun_enforcement p i row else ret ())
       else rerun_enforcement p i row)) u = (Inr (), s')"
    by (auto simp: completed_task_def res_simps)
  have same: "rs_record u = rs_record s"
    using u by (auto simp: task_result_def seq_record_now on_world_def ret_def split: option.splits prod.splits)
  then have holds: "holds_session i u" using s by (simp add: holds_session_def)
  show ?thesis
  proof (cases answer)
    case (Some g)
    with apply_settled [OF holds] rest show ?thesis by auto
  next
    case None
    let ?se = "session_at u i"
    consider "failed_rerun ?se" "s' = u"
      | "status_of ?se ''rerun_running''" "seq (rerun_is_stale p ?se) (\<lambda>stale. if stale then rerun_enforcement p i row else ret ()) u = (Inr (), s')"
      | "rerun_enforcement p i row u = (Inr (), s')"
      using rest None by (auto simp: seq_session_now ret_def split: if_splits)
    then show ?thesis
    proof cases
      case 1
      with holds show ?thesis by (auto simp: settled_def failed_rerun_def settled_statuses_def)
    next
      case 2
      then obtain stale v where v: "rerun_is_stale p ?se u = (Inr stale, v)"
        "(if stale then rerun_enforcement p i row else ret ()) v = (Inr (), s')" by (auto simp: res_simps)
      then have "rs_record v = rs_record u"
        by (auto simp: rerun_is_stale_def Let_def ret_def on_world_def split: if_splits prod.splits)
      with holds 2(1) same have "holds_session i v" "waits i v" "waits i s"
        by (auto simp: holds_session_def waits_def key_is_def session_at_def status_of_def)
      with v(2) rerun_settles [OF free] show ?thesis by (auto simp: ret_def split: if_splits)
    next
      case 3
      with rerun_settles [OF free holds] show ?thesis by blast
    qed
  qed
qed

lemma revive_status:
  assumes "holds_session i s" "revive p i row s = (Inr (), s')"
  shows "holds_session i s' \<and> (waits i s' \<longrightarrow> waits i s)"
proof (cases "status_of (session_at s i) ''repair_failed'' \<and> \<not> row_status row failed_repo_statuses")
  case False
  with assms show ?thesis by (auto simp: revive_def seq_session_now ret_def)
next
  case True
  let ?l = "if row_status row [''COMPLETED''] then ''repair_completed'' else ''repairing''"
  have "andthen (set_status i ?l) (touch_and_save p i) s = (Inr (), s')"
    using assms(2) True by (simp add: revive_def seq_session_now)
  then have "key_is i ''status'' (PStr ?l) s'"
    by (rule after_keeps) (rule set_status_at [OF assms(1)], assumption, auto intro!: status_kept_by)
  then show ?thesis by (auto simp: waits_def key_is_def split: if_splits)
qed

lemma reconcile_settles:
  assumes free: "lock_free p" and s: "holds_session i s" and row: "get row ''status'' = PStr ''COMPLETED''"
    and run: "reconcile p i row s = (Inr (), s')"
  shows "settled i s' \<or> (waits i s \<and> waits i s')"
proof -
  have status: "\<not> row_status row failed_repo_statuses" "row_status row [''COMPLETED'']"
    by (simp_all add: row_status_def row failed_repo_statuses_def)
  have flip: "(if \<not> row_status row [''COMPLETED''] then a else b) = b" for a b :: "('a, unit) repair_prog"
    using status(2) by simp
  from run obtain u where u: "revive p i row s = (Inr (), u)"
    "(if session_passed (session_at u i) then ret () else completed_task p i row) u = (Inr (), s')"
    unfolding reconcile_def if_not_P [OF status(1)] flip
    by (auto simp: res_simps seq_session_now)
  from revive_status [OF s u(1)] have holds: "holds_session i u" "waits i u \<longrightarrow> waits i s" by blast+
  show ?thesis
  proof (cases "session_passed (session_at u i)")
    case True
    with u(2) holds show ?thesis
      by (auto simp: settled_def settled_statuses_def session_passed_def ret_def)
  next
    case False
    with u(2) completed_settles [OF free holds(1)] holds(2) show ?thesis by auto
  qed
qed

lemma project_keeps_status: "keeps (key_is i ''status'' v) (project_task p t i n row)"
  by (rule session_frame.keeps_project(2) [OF status_session_frame]) simp

lemma refresh_of_task:
  assumes task: "py_int (get (session_at s i) ''repoTaskId'') = Some n" "truthy (get (session_at s i) ''repoTaskId'')"
    and no_retry: "get (session_at s i) ''status'' \<noteq> PStr ''retry_requested''"
    and row: "tp_get t n (rs_world s) = (Inr row, w)" "row \<noteq> []"
  shows "refresh_session p t i s = andthen (project_task p t i n row) (reconcile p i row) (s\<lparr>rs_world := w\<rparr>)"
proof -
  have "ensure_deferred p i s = (Inr (), s)"
    using task by (simp add: ensure_deferred_def seq_session_now has_task_def ret_def)
  moreover have "materialize_retry_request p i s = (Inr (), s)"
    using no_retry by (simp add: materialize_retry_request_def seq_session_now seq_record_now status_of_def ret_def)
  moreover have "poll_task p t i s = andthen (project_task p t i n row) (reconcile p i row) (s\<lparr>rs_world := w\<rparr>)"
    using task row by (simp add: poll_task_def seq_session_now task_number_def seq_ret seq_on_world)
  ultimately show ?thesis by (simp add: refresh_session_def andthen_run)
qed


section \<open>Witnesses\<close>

definition polling :: "gate_result \<Rightarrow> unit repair_ports" where
  "polling g = sample_repair (quiet_tasks (sample_row ''COMPLETED'') []) (sample_handler (Some g) None)"

definition projected_session :: "str \<Rightarrow> pydict" where
  "projected_session status = held_session status @
     [(''repoTaskStatus'', PStr ''COMPLETED''), (''repoTaskStage'', PNone), (''repoTaskDetail'', PNone), (''repoTaskError'', PNone),
      (''budgetUsed'', PDict []), (''repairIssues'', PList [])]"

lemma sample_project:
  "project_task (polling passing_gate) (quiet_tasks (sample_row ''COMPLETED'') []) 0 5 (sample_row ''COMPLETED'') (sample_check [held_session ''repairing''])
     = (Inr (), sample_check [projected_session ''repairing''])"
  by code_simp

lemma sample_reconcile:
  "fst (reconcile (polling passing_gate) 0 (sample_row ''COMPLETED'') (sample_check [projected_session ''repairing''])) = Inr ()"
  by code_simp


theorem callback_goes_out_once_witness:
  "\<exists>s'. report_once (polling failing_gate) 0 False ''tests fail'' None (sample_check [failed_session]) = (Inr (), s')
    \<and> report_once (polling failing_gate) 0 False ''mutants live'' None s' = (Inr (), s')"
proof -
  have "fst (report_once (polling failing_gate) 0 False ''tests fail'' None (sample_check [failed_session])) = Inr ()"
    by code_simp
  then obtain s' where s': "report_once (polling failing_gate) 0 False ''tests fail'' None (sample_check [failed_session]) = (Inr (), s')"
    by (metis prod.collapse)
  have "callback_key_of None False ''mutants live'' = callback_key_of None False ''tests fail''" by code_simp
  from callback_goes_out_once [OF _ s' this] s' show ?thesis by (simp add: sample_check_def)
qed

theorem passed_sessions_stay_passed_witness:
  "\<exists>r s'. refresh_repair_sessions (polling failing_gate) (sample_check [held_session ''green'']) = (r, s')
    \<and> get (ci_sessions (rs_record s') ! 0) ''status'' = PStr ''green''"
proof -
  obtain r s' where run: "refresh_repair_sessions (polling failing_gate) (sample_check [held_session ''green'']) = (r, s')"
    by fastforce
  have "session_passed (held_session ''green'')" "''status'' \<in> set lasting_keys" "get (held_session ''green'') ''status'' = PStr ''green''"
    by code_simp+
  with passed_sessions_stay_passed [OF run, of 0 "''status''"] run show ?thesis by (simp add: sample_check_def)
qed

text \<open>A failing row with a saved review of its one survivor, and a gate that finds that survivor again.\<close>

definition reviewed_row :: pydict where
  "reviewed_row = [(''class_fqn'', PStr ''A''), (''status'', PStr ''FAIL''),
     (''equivalence_review_json'', PDict (decision_to_dict sample_decision))]"

definition excusing :: "unit repair_ports" where
  "excusing = sample_repair (quiet_tasks (sample_row ''COMPLETED'') [reviewed_row])
     (sample_handler None (Some (survivors_of [sample_mutant] [(''A.java'', ''d'')])))"


end
