(* ===== verification/CiQueue.thy ===== *)
theory CiQueue
  imports RepairSessions
begin

text \<open>
  The queue of CI checks, the half of \<open>uta/app/service.py\<close> that is no repair: submission, claims
  under the parallel limit, the worker that runs a check and drains the queue, stop, and the recovery
  of orphaned checks. A step is what the code does under its queue lock, or between two locks. The
  checkout, the gate and the protocol answer from outside; one process serves the queue, and the
  record store holds what the process holds.
\<close>

section \<open>Checks and the queue\<close>

text \<open>The fields of \<open>CiTaskRecord\<close> that the queue reads and writes; \<open>cc_runner\<close>: its language has a runner.\<close>

record ci_check =
  cc_id :: str
  cc_status :: ci_task_status
  cc_created :: rat
  cc_summary :: str
  cc_result :: "gate_result option"
  cc_runner :: bool

datatype work_point =
    Entering
  | Announcing
  | Preparing
  | Checking
  | Testing
  | Judging gate_result
  | Reporting
  | Breaking str
  | Unmarking
  | Closing
  | Draining
  | Over

text \<open>\<open>cq_marks\<close>: the checks with a marker file of a live process, kept when \<open>cq_marking\<close> is on.\<close>

record ci_queue =
  cq_checks :: "ci_check list"
  cq_active :: "str set"
  cq_stop :: "str set"
  cq_marking :: bool
  cq_marks :: "str set"
  cq_limit :: int
  cq_workers :: "(str \<times> work_point) list"

definition check_named :: "ci_queue \<Rightarrow> str \<Rightarrow> ci_check option" where
  "check_named q i = List.find (\<lambda>c. cc_id c = i) (cq_checks q)"

definition change_check :: "str \<Rightarrow> (ci_check \<Rightarrow> ci_check) \<Rightarrow> ci_queue \<Rightarrow> ci_queue" where
  "change_check i f q = q\<lparr>cq_checks := map (\<lambda>c. if cc_id c = i then f c else c) (cq_checks q)\<rparr>"

definition become :: "ci_task_status \<Rightarrow> str \<Rightarrow> ci_check \<Rightarrow> ci_check" where
  "become status summary c = c\<lparr>cc_status := status, cc_summary := summary\<rparr>"

definition waits_in_queue :: "ci_check \<Rightarrow> bool" where
  "waits_in_queue c = (cc_status c = CiPending \<or> cc_status c = CiQueued)"

definition is_live :: "ci_check \<Rightarrow> bool" where
  "is_live c = (waits_in_queue c \<or> cc_status c = CiRunning)"

definition pending_summary :: str where
  "pending_summary = ''CI test-enforcement report task is pending; another report task is running.''"

definition running_summary :: str where
  "running_summary = ''CI test-enforcement report task is running.''"

section \<open>Claims\<close>

definition takes_a_slot :: "ci_queue \<Rightarrow> str option \<Rightarrow> ci_check \<Rightarrow> bool" where
  "takes_a_slot q excluded c =
     (excluded \<noteq> Some (cc_id c)
      \<and> (cc_id c \<in> cq_active q \<or> (cc_status c = CiRunning \<and> (\<not> cq_marking q \<or> cc_id c \<in> cq_marks q))))"

text \<open>A set of ids in the code; the ids of the checks are distinct.\<close>

definition active_count :: "ci_queue \<Rightarrow> str option \<Rightarrow> nat" where
  "active_count q excluded = length (remdups (map cc_id (filter (takes_a_slot q excluded) (cq_checks q))))"

definition limit_reached :: "ci_queue \<Rightarrow> str option \<Rightarrow> bool" where
  "limit_reached q excluded = (0 < cq_limit q \<and> cq_limit q \<le> int (active_count q excluded))"

definition mark_pending :: "str \<Rightarrow> ci_queue \<Rightarrow> ci_queue" where
  "mark_pending i q = change_check i (become CiPending pending_summary) q"

definition mark_claimed :: "str \<Rightarrow> ci_queue \<Rightarrow> ci_queue" where
  "mark_claimed i q = (change_check i (become CiRunning running_summary) q)\<lparr>cq_active := insert i (cq_active q)\<rparr>"

definition claim_check :: "ci_check \<Rightarrow> ci_queue \<Rightarrow> bool \<times> ci_queue" where
  "claim_check c q =
     (if \<not> is_live c then (False, q)
      else if limit_reached q (Some (cc_id c)) then (False, mark_pending (cc_id c) q)
      else (True, mark_claimed (cc_id c) q))"

definition oldest_waiting :: "ci_queue \<Rightarrow> ci_check option" where
  "oldest_waiting q = (case sort_key cc_created (filter waits_in_queue (cq_checks q)) of [] \<Rightarrow> None | c # _ \<Rightarrow> Some c)"

definition claim_next :: "ci_queue \<Rightarrow> ci_check option \<times> ci_queue" where
  "claim_next q =
     (if limit_reached q None then (None, q)
      else (case oldest_waiting q of None \<Rightarrow> (None, q) | Some c \<Rightarrow> (Some c, mark_claimed (cc_id c) q)))"

section \<open>Requests\<close>

definition add_worker :: "str \<Rightarrow> ci_queue \<Rightarrow> ci_queue" where
  "add_worker i q = q\<lparr>cq_workers := cq_workers q @ [(i, Entering)]\<rparr>"

definition submit :: "str \<Rightarrow> rat \<Rightarrow> bool \<Rightarrow> ci_queue \<Rightarrow> ci_queue" where
  "submit i created runner q = q\<lparr>cq_checks := cq_checks q @
     [\<lparr>cc_id = i, cc_status = CiQueued, cc_created = created, cc_summary = [], cc_result = None, cc_runner = runner\<rparr>]\<rparr>"

definition run_check :: "str \<Rightarrow> ci_queue \<Rightarrow> ci_queue" where
  "run_check i q = (case check_named q i of
     None \<Rightarrow> q
   | Some c \<Rightarrow> if \<not> cc_runner c then q
       else (case claim_check c q of (claimed, q') \<Rightarrow> if claimed then add_worker i q' else q'))"

text \<open>A check whose language has no runner goes back to the queue.\<close>

definition start_pending :: "ci_queue \<Rightarrow> ci_queue" where
  "start_pending q = (case claim_next q of
     (None, q') \<Rightarrow> q'
   | (Some c, q') \<Rightarrow> if cc_runner c then add_worker (cc_id c) q'
       else mark_pending (cc_id c) (q'\<lparr>cq_active := cq_active q' - {cc_id c}\<rparr>))"

definition stopped_summary :: str where
  "stopped_summary = ''CI test-enforcement report task was stopped by an operator.''"

text \<open>\<open>None\<close>: the check is unknown or has ended.\<close>

definition stop_check :: "str \<Rightarrow> ci_queue \<Rightarrow> ci_queue option" where
  "stop_check i q = (case check_named q i of
     None \<Rightarrow> None
   | Some c \<Rightarrow> if \<not> is_live c then None
       else Some ((change_check i (become CiStopped stopped_summary) q)
         \<lparr>cq_stop := insert i (cq_stop q), cq_active := cq_active q - {i}\<rparr>))"

definition retry_check :: "str \<Rightarrow> str \<Rightarrow> rat \<Rightarrow> ci_queue \<Rightarrow> ci_queue option" where
  "retry_check i new created q = (case check_named q i of
     None \<Rightarrow> None | Some c \<Rightarrow> if is_live c then None else Some (submit new created (cc_runner c) q))"

definition interrupted_summary :: str where
  "interrupted_summary = ''CI test-enforcement report task was interrupted before completion.''"

text \<open>A running check that nobody works on is taken for interrupted when somebody looks at it.\<close>

definition mark_orphan :: "str \<Rightarrow> ci_queue \<Rightarrow> ci_queue" where
  "mark_orphan i q = (case check_named q i of
     None \<Rightarrow> q
   | Some c \<Rightarrow> if cc_status c \<noteq> CiRunning \<or> i \<in> cq_active q \<or> (cq_marking q \<and> i \<in> cq_marks q) then q
       else change_check i (become CiFailed interrupted_summary) q)"

section \<open>The worker\<close>

text \<open>What comes back from outside: it works, it raises, or the gate has a result.\<close>

datatype answer = Fine | Raises str | Result gate_result

definition verdict_of :: "gate_result \<Rightarrow> ci_check \<Rightarrow> ci_check" where
  "verdict_of g c = (become (if gr_passed g then CiSuccess else CiFailed) (gr_summary g) c)\<lparr>cc_result := Some g\<rparr>"

fun work :: "answer \<Rightarrow> str \<Rightarrow> work_point \<Rightarrow> ci_queue \<Rightarrow> str \<times> work_point \<times> ci_queue" where
  "work a i Entering q =
     (let q' = (if cq_marking q then q\<lparr>cq_marks := insert i (cq_marks q)\<rparr> else q) in
      (i, (if i \<in> cq_stop q then Unmarking else Announcing), q'))"
| "work a i Announcing q = (i, Preparing, change_check i (become CiRunning running_summary) q)"
| "work a i Preparing q = (i, (case a of Raises e \<Rightarrow> Breaking e | _ \<Rightarrow> Checking), q)"
| "work a i Checking q = (i, (if i \<in> cq_stop q then Unmarking else Testing), q)"
| "work a i Testing q = (i, (case a of Result g \<Rightarrow> Judging g | Raises e \<Rightarrow> Breaking e | Fine \<Rightarrow> Testing), q)"
| "work a i (Judging g) q =
     (if i \<in> cq_stop q then (i, Unmarking, q) else (i, Reporting, change_check i (verdict_of g) q))"
| "work a i Reporting q = (i, (case a of Raises e \<Rightarrow> Breaking e | _ \<Rightarrow> Unmarking), q)"
| "work a i (Breaking e) q =
     (if i \<in> cq_stop q then (i, Unmarking, q)
      else (i, Unmarking, change_check i (become CiFailed (''UTA API trigger failed unexpectedly: '' @ e)) q))"
| "work a i Unmarking q = (i, Closing, q\<lparr>cq_marks := cq_marks q - {i}\<rparr>)"
| "work a i Closing q = (i, Draining, q\<lparr>cq_active := cq_active q - {i}, cq_stop := cq_stop q - {i}\<rparr>)"
| "work a i Draining q = (case claim_next q of
     (None, q') \<Rightarrow> (i, Over, q') | (Some c, q') \<Rightarrow> (cc_id c, Entering, q'))"
| "work a i Over q = (i, Over, q)"

definition work_on :: "answer \<Rightarrow> nat \<Rightarrow> ci_queue \<Rightarrow> ci_queue" where
  "work_on a n q = (case cq_workers q ! n of (i, pt) \<Rightarrow> (case work a i pt q of
     (i', pt', q') \<Rightarrow> q'\<lparr>cq_workers := (cq_workers q)[n := (i', pt')]\<rparr>))"

section \<open>Runs\<close>

inductive queue_step :: "ci_queue \<Rightarrow> ci_queue \<Rightarrow> bool" where
  submitted: "check_named q i = None \<Longrightarrow> queue_step q (submit i created runner q)"
| asked: "queue_step q (run_check i q)"
| started: "queue_step q (start_pending q)"
| stopped: "stop_check i q = Some q' \<Longrightarrow> queue_step q q'"
| retried: "check_named q new = None \<Longrightarrow> retry_check i new created q = Some q' \<Longrightarrow> queue_step q q'"
| looked: "queue_step q (mark_orphan i q)"
| worked: "n < length (cq_workers q) \<Longrightarrow> queue_step q (work_on a n q)"

inductive queue_runs :: "ci_queue \<Rightarrow> ci_queue \<Rightarrow> bool" for q where
  start: "queue_runs q q"
| onward: "queue_runs q q' \<Longrightarrow> queue_step q' q'' \<Longrightarrow> queue_runs q q''"

definition empty_queue :: "bool \<Rightarrow> int \<Rightarrow> ci_queue" where
  "empty_queue marking limit = \<lparr>cq_checks = [], cq_active = {}, cq_stop = {}, cq_marking = marking, cq_marks = {},
     cq_limit = limit, cq_workers = []\<rparr>"

end
