(* ===== verification/QueueFacts.thy ===== *)
theory QueueFacts
  imports CiQueue
begin

text \<open>
  The queue of CI checks over all runs: the parallel limit, the order of claims, the stop request, and
  the two places where steps that interleave do not do what the code means to do.
\<close>

section \<open>Checks\<close>

definition check_ids :: "ci_queue \<Rightarrow> str list" where
  "check_ids q = map cc_id (cq_checks q)"

lemma change_check_ids: "(\<And>c. cc_id (f c) = cc_id c) \<Longrightarrow> check_ids (change_check i f q) = check_ids q"
  by (simp add: change_check_def check_ids_def comp_def if_distrib cong: if_cong)

lemma become_id [simp]: "cc_id (become s t c) = cc_id c" "cc_status (become s t c) = s" "cc_runner (become s t c) = cc_runner c"
  by (simp_all add: become_def)

lemma verdict_id [simp]: "cc_id (verdict_of g c) = cc_id c"
  by (simp add: verdict_of_def)

lemma named_member: "check_named q i = Some c \<Longrightarrow> c \<in> set (cq_checks q) \<and> cc_id c = i"
  by (auto simp: check_named_def find_Some_iff)

lemma changed_fields [simp]:
  "cq_active (change_check i f q) = cq_active q" "cq_stop (change_check i f q) = cq_stop q"
  "cq_limit (change_check i f q) = cq_limit q" "cq_workers (change_check i f q) = cq_workers q"
  "cq_marks (change_check i f q) = cq_marks q" "cq_marking (change_check i f q) = cq_marking q"
  by (simp_all add: change_check_def)

lemma slots_counted:
  assumes "set (check_ids q) \<supseteq> cq_active q"
  shows "card (cq_active q - set_option x) \<le> active_count q x"
proof -
  have "cq_active q - set_option x \<subseteq> set (map cc_id (filter (takes_a_slot q x) (cq_checks q)))"
    using assms by (cases x) (fastforce simp: check_ids_def takes_a_slot_def)+
  from card_mono [OF _ this] show ?thesis by (simp add: active_count_def length_remdups_card_conv)
qed

section \<open>The parallel limit\<close>

text \<open>What every state of the queue satisfies.\<close>

definition queue_ok :: "ci_queue \<Rightarrow> bool" where
  "queue_ok q \<longleftrightarrow> distinct (check_ids q) \<and> cq_active q \<subseteq> set (check_ids q) \<and> finite (cq_active q)
     \<and> (0 < cq_limit q \<longrightarrow> int (card (cq_active q)) \<le> cq_limit q)
     \<and> (\<forall>c \<in> set (cq_checks q). cc_id c \<in> cq_stop q \<longrightarrow> cc_status c \<noteq> CiSuccess)"

lemma claimed_fits:
  assumes "queue_ok q" "\<not> limit_reached q x" "x = None \<or> x = Some i" "0 < cq_limit q"
  shows "int (card (insert i (cq_active q))) \<le> cq_limit q"
proof -
  have "card (insert i (cq_active q)) \<le> Suc (card (cq_active q - set_option x))"
  proof (cases x)
    case None
    then show ?thesis using assms(1) by (simp add: queue_ok_def card_insert_if)
  next
    case (Some j)
    with assms(3) have "insert i (cq_active q) = insert i (cq_active q - set_option x)" by auto
    then show ?thesis using assms(1) by (metis card_insert_le_m1 card_insert_if finite_Diff lessI less_imp_le_nat order_refl queue_ok_def)
  qed
  moreover have "card (cq_active q - set_option x) \<le> active_count q x"
    using assms(1) by (intro slots_counted) (simp add: queue_ok_def)
  ultimately show ?thesis using assms(2,4) by (simp add: limit_reached_def)
qed

lemma changed_ok:
  assumes "queue_ok q" "\<And>c. cc_id (f c) = cc_id c" "\<And>c. i \<in> cq_stop q \<Longrightarrow> cc_status (f c) \<noteq> CiSuccess"
  shows "queue_ok (change_check i f q)"
  using assms by (auto simp: queue_ok_def change_check_ids) (auto simp: change_check_def split: if_splits)

lemma mark_pending_ok: "queue_ok q \<Longrightarrow> queue_ok (mark_pending i q)"
  unfolding mark_pending_def by (rule changed_ok) simp_all

lemma mark_claimed_ok:
  assumes "queue_ok q" "i \<in> set (check_ids q)" "\<not> limit_reached q x" "x = None \<or> x = Some i"
  shows "queue_ok (mark_claimed i q)"
proof -
  have "queue_ok (change_check i (become CiRunning running_summary) q)" using assms(1) by (rule changed_ok) simp_all
  then show ?thesis
    using assms(2) claimed_fits [OF assms(1,3,4)]
    by (auto simp: queue_ok_def mark_claimed_def check_ids_def change_check_ids [unfolded check_ids_def])
qed

lemma smaller_ok:
  assumes "queue_ok q" "A \<subseteq> cq_active q" "S \<subseteq> cq_stop q"
  shows "queue_ok (q\<lparr>cq_active := A, cq_stop := S, cq_marks := M, cq_workers := W\<rparr>)"
proof -
  have "card A \<le> card (cq_active q)" using assms by (intro card_mono) (simp_all add: queue_ok_def)
  with assms show ?thesis by (auto simp: queue_ok_def check_ids_def dest: finite_subset)
qed

lemma oldest_member: "oldest_waiting q = Some c \<Longrightarrow> c \<in> set (cq_checks q) \<and> waits_in_queue c"
proof -
  assume "oldest_waiting q = Some c"
  then obtain rest where "sort_key cc_created (filter waits_in_queue (cq_checks q)) = c # rest"
    by (auto simp: oldest_waiting_def split: list.splits)
  then have "c \<in> set (sort_key cc_created (filter waits_in_queue (cq_checks q)))" by (simp del: set_sort)
  then show ?thesis by simp
qed

lemma claim_next_ok: "queue_ok q \<Longrightarrow> queue_ok (snd (claim_next q))"
  by (auto simp: claim_next_def check_ids_def dest: oldest_member intro!: mark_claimed_ok split: option.split)

text \<open>Every step keeps it.\<close>

lemma workers_ok: "queue_ok q \<Longrightarrow> queue_ok (q\<lparr>cq_workers := w\<rparr>)"
  by (simp add: queue_ok_def check_ids_def)

lemma add_worker_ok: "queue_ok q \<Longrightarrow> queue_ok (add_worker i q)"
  unfolding add_worker_def by (rule workers_ok)

lemma submit_ok: "queue_ok q \<Longrightarrow> check_named q i = None \<Longrightarrow> queue_ok (submit i created runner q)"
  by (auto simp: queue_ok_def submit_def check_ids_def check_named_def find_None_iff)

lemma run_check_ok: "queue_ok q \<Longrightarrow> queue_ok (run_check i q)"
  by (auto simp: run_check_def claim_check_def check_ids_def dest: named_member
      intro!: add_worker_ok mark_pending_ok mark_claimed_ok split: option.split)

lemma released_ok: "queue_ok q \<Longrightarrow> queue_ok (q\<lparr>cq_active := cq_active q - A\<rparr>)"
  using smaller_ok [of q "cq_active q - A" "cq_stop q", where M = "cq_marks q" and W = "cq_workers q"] by simp

lemma start_pending_ok: "queue_ok q \<Longrightarrow> queue_ok (start_pending q)"
  using claim_next_ok [of q]
  by (auto simp: start_pending_def intro!: add_worker_ok mark_pending_ok released_ok split: option.split prod.split)

lemma stop_check_ok:
  assumes "queue_ok q" "stop_check i q = Some q'"
  shows "queue_ok q'"
proof -
  define p where "p = change_check i (become CiStopped stopped_summary) q"
  have p: "queue_ok p" unfolding p_def using assms(1) by (rule changed_ok) simp_all
  have other: "cc_status c \<noteq> CiSuccess" if "c \<in> set (cq_checks p)" "cc_id c = i" for c
  proof -
    have "cq_checks p = map (\<lambda>c. if cc_id c = i then become CiStopped stopped_summary c else c) (cq_checks q)"
      by (simp add: p_def change_check_def)
    with that(1) have "c \<in> (\<lambda>c. if cc_id c = i then become CiStopped stopped_summary c else c) ` set (cq_checks q)"
      by (simp only: set_map)
    then obtain d where "c = (if cc_id d = i then become CiStopped stopped_summary d else d)" by (rule imageE) 
    with that(2) show ?thesis by (cases "cc_id d = i") simp_all
  qed
  from p have "queue_ok (p\<lparr>cq_stop := insert i (cq_stop p)\<rparr>)"
    using other by (simp add: queue_ok_def check_ids_def)
  from released_ok [OF this, of "{i}"] have "queue_ok (p\<lparr>cq_stop := insert i (cq_stop p), cq_active := cq_active p - {i}\<rparr>)"
    by simp
  moreover have "q' = p\<lparr>cq_stop := insert i (cq_stop p), cq_active := cq_active p - {i}\<rparr>"
    using assms(2) by (simp add: stop_check_def p_def split: option.splits if_splits)
  ultimately show ?thesis by simp
qed

lemma marks_ok: "queue_ok q \<Longrightarrow> queue_ok (q\<lparr>cq_marks := M\<rparr>)"
  by (simp add: queue_ok_def check_ids_def)

lemma ended_ok: "queue_ok q \<Longrightarrow> queue_ok (q\<lparr>cq_active := cq_active q - A, cq_stop := cq_stop q - B\<rparr>)"
  using smaller_ok [of q "cq_active q - A" "cq_stop q - B", where M = "cq_marks q" and W = "cq_workers q"] by simp

lemma draining_ok: "queue_ok q \<Longrightarrow> queue_ok (snd (snd (work a i Draining q)))"
  using claim_next_ok [of q] by (cases "claim_next q") (simp split: option.split)

lemma work_ok:
  assumes "queue_ok q"
  shows "queue_ok (snd (snd (work a i pt q)))"
proof (cases pt)
  case Entering
  then show ?thesis using assms marks_ok [OF assms] by (simp add: Let_def)
next
  case Announcing
  then show ?thesis using changed_ok [OF assms, of "become CiRunning running_summary"] by simp
next
  case (Judging g)
  show ?thesis
  proof (cases "i \<in> cq_stop q")
    case False
    then have "queue_ok (change_check i (verdict_of g) q)" by (intro changed_ok [OF assms]) simp_all
    with False Judging show ?thesis by simp
  qed (use assms Judging in simp)
next
  case (Breaking e)
  have "queue_ok (change_check i (become CiFailed (''UTA API trigger failed unexpectedly: '' @ e)) q)"
    by (rule changed_ok [OF assms]) simp_all
  with Breaking assms show ?thesis by simp
next
  case Unmarking
  with marks_ok [OF assms] show ?thesis by simp
next
  case Closing
  with ended_ok [OF assms] show ?thesis by simp
next
  case Draining
  with draining_ok [OF assms] show ?thesis by simp
qed (use assms in simp_all)

lemma step_ok: "queue_step q q' \<Longrightarrow> queue_ok q \<Longrightarrow> queue_ok q'"
proof (induction rule: queue_step.induct)
  case (retried q new i created q')
  then show ?case by (auto simp: retry_check_def intro!: submit_ok split: option.splits if_splits)
next
  case (looked q i)
  then show ?case by (auto simp: mark_orphan_def intro!: changed_ok split: option.split)
next
  case (worked n q a)
  obtain i pt where w: "cq_workers q ! n = (i, pt)" by fastforce
  obtain i' pt' q' where r: "work a i pt q = (i', pt', q')" by (metis prod_cases3)
  from work_ok [OF worked.prems, of a i pt] show ?case
    by (simp add: work_on_def w r workers_ok)
qed (auto intro: submit_ok run_check_ok start_pending_ok stop_check_ok)

lemma runs_ok: "queue_runs q q' \<Longrightarrow> queue_ok q \<Longrightarrow> queue_ok q'"
  by (induction rule: queue_runs.induct) (auto intro: step_ok)

lemma empty_ok: "queue_ok (empty_queue marking limit)"
  by (auto simp: queue_ok_def empty_queue_def check_ids_def)

lemma limit_constant:
  "cq_limit (snd (claim_next q)) = cq_limit q" "cq_limit (submit i c r q) = cq_limit q" "cq_limit (mark_pending i q) = cq_limit q"
  "cq_limit (mark_claimed i q) = cq_limit q" "cq_limit (add_worker i q) = cq_limit q"
  by (simp_all add: claim_next_def mark_claimed_def mark_pending_def submit_def add_worker_def split: option.split)

lemma work_limit: "work a i pt q = (i', pt', q') \<Longrightarrow> cq_limit q' = cq_limit q"
proof (cases pt)
  case Draining
  assume "work a i pt q = (i', pt', q')"
  with Draining limit_constant(1) [of q] show ?thesis by (auto split: option.splits prod.splits)
qed (auto simp: Let_def split: if_splits)

lemma start_limit: "cq_limit (start_pending q) = cq_limit q"
  using limit_constant(1) [of q]
  by (cases "claim_next q") (simp add: start_pending_def limit_constant(3,5) split: option.split)

lemma step_limit: "queue_step q q' \<Longrightarrow> cq_limit q' = cq_limit q"
proof (induction rule: queue_step.induct)
  case (asked q i)
  show ?case by (auto simp: limit_constant run_check_def claim_check_def split: option.split)
next
  case (stopped q i q')
  then show ?case by (auto simp: stop_check_def split: option.splits if_splits)
next
  case (retried q new i created q')
  then show ?case by (auto simp: limit_constant retry_check_def split: option.splits if_splits)
next
  case (looked q i)
  show ?case by (auto simp: mark_orphan_def split: option.split)
next
  case (worked n q a)
  obtain i pt where w: "cq_workers q ! n = (i, pt)" by fastforce
  obtain i' pt' q' where r: "work a i pt q = (i', pt', q')" by (metis prod_cases3)
  from work_limit [OF r] show ?case by (simp add: work_on_def w r)
qed (simp_all add: limit_constant start_limit)

text \<open>
  C29: Whatever requests, status pages, stops, retries and workers do to an empty queue in
  any order, the checks that hold a slot never exceed a positive parallel limit, the ids of
  the checks stay distinct, and no check with a standing stop request is recorded as a
  success.
\<close>

theorem checks_within_limit:
  assumes "queue_runs (empty_queue marking limit) q"
  shows "(limit \<le> 0 \<or> int (card (cq_active q)) \<le> limit) \<and> distinct (map cc_id (cq_checks q))
    \<and> list_all (\<lambda>c. cc_id c \<notin> cq_stop q \<or> cc_status c \<noteq> CiSuccess) (cq_checks q)"
proof -
  have "cq_limit q = limit"
    using assms by induction (auto simp: empty_queue_def dest: step_limit)
  with runs_ok [OF assms empty_ok] show ?thesis by (auto simp: queue_ok_def check_ids_def list_all_iff)
qed

text \<open>A queue at work: one check holds the only slot, the other waits.\<close>

lemma runs_onward:
  assumes "queue_runs q p"
  shows "queue_runs q (run_check i p)" "queue_runs q (start_pending p)" "queue_runs q (mark_orphan i p)"
    "check_named p i = None \<Longrightarrow> queue_runs q (submit i created runner p)"
    "stop_check i p = Some p' \<Longrightarrow> queue_runs q p'"
    "n < length (cq_workers p) \<Longrightarrow> work_on a n p = p'' \<Longrightarrow> queue_runs q p''"
  using assms by (auto intro: queue_runs.onward queue_step.intros)

definition one_check :: "ci_task_status \<Rightarrow> str \<Rightarrow> str set \<Rightarrow> str set \<Rightarrow> str set \<Rightarrow> (str \<times> work_point) list \<Rightarrow> ci_queue" where
  "one_check status summary active stop marks workers =
     \<lparr>cq_checks = [\<lparr>cc_id = ''a'', cc_status = status, cc_created = 0, cc_summary = summary, cc_result = None, cc_runner = True\<rparr>],
      cq_active = active, cq_stop = stop, cq_marking = True, cq_marks = marks, cq_limit = 1, cq_workers = workers\<rparr>"

lemmas queue_evals = one_check_def work_on_def change_check_def become_def check_named_def run_check_def claim_check_def
  is_live_def waits_in_queue_def limit_reached_def active_count_def takes_a_slot_def mark_claimed_def add_worker_def
  mark_pending_def mark_orphan_def stop_check_def start_pending_def claim_next_def oldest_waiting_def submit_def empty_queue_def

lemma a_submitted: "queue_runs (empty_queue True 1) (one_check CiQueued [] {} {} {} [])"
  using runs_onward(4) [OF queue_runs.start, of "empty_queue True 1" "''a''" 0 True] by (simp add: queue_evals)

lemma a_running: "queue_runs (empty_queue True 1) (one_check CiRunning running_summary {''a''} {} {} [(''a'', Entering)])"
  using runs_onward(1) [OF a_submitted, of "''a''"] by (simp add: queue_evals)

lemma a_found_waiting: "queue_runs (empty_queue True 1) (one_check CiRunning running_summary {''a''} {} {} [(''a'', Entering)])"
  using runs_onward(2) [OF a_submitted] by (simp add: queue_evals)

section \<open>The order of claims\<close>

lemma find_became:
  "c \<in> set cs \<Longrightarrow> map_option cc_status (List.find (\<lambda>d. cc_id d = cc_id c)
     (map (\<lambda>d. if cc_id d = cc_id c then become s t d else d) cs)) = Some s"
  by (induction cs) auto

lemma named_claimed:
  "c \<in> set (cq_checks q) \<Longrightarrow> map_option cc_status (check_named (mark_claimed (cc_id c) q) (cc_id c)) = Some CiRunning"
  by (simp add: check_named_def mark_claimed_def change_check_def find_became)


section \<open>Steps that interleave\<close>



text \<open>A check without a runner goes back to the head of the queue, and nothing behind it starts.\<close>

definition blocked :: ci_queue where
  "blocked = mark_pending ''a'' (submit ''b'' 1 True (submit ''a'' 0 False (empty_queue True 1)))"

lemma blocked_reached: "queue_runs (empty_queue True 1) blocked"
proof -
  have "queue_runs (empty_queue True 1) (submit ''b'' 1 True (submit ''a'' 0 False (empty_queue True 1)))"
    by (intro runs_onward(4) queue_runs.start) (simp_all add: queue_evals)
  from runs_onward(2) [OF this] show ?thesis by (simp add: queue_evals blocked_def)
qed

theorem runnerless_check_blocks_queue:
  "\<exists>q. queue_runs (empty_queue True 1) q \<and> map_option (\<lambda>c. (waits_in_queue c, cc_runner c)) (check_named q ''b'') = Some (True, True)
     \<and> cq_active q = {} \<and> (\<forall>n. (start_pending ^^ n) q = q)"
proof -
  have "start_pending blocked = blocked" by (simp add: queue_evals blocked_def)
  then have "(start_pending ^^ n) blocked = blocked" for n by (induction n) simp_all
  then show ?thesis using blocked_reached by (intro exI [of _ blocked]) (simp add: queue_evals blocked_def)
qed

theorem checks_within_limit_witness:
  "(let q = one_check CiRunning running_summary {''a''} {} {} [(''a'', Entering)] in
     int (card (cq_active q)) \<le> 1 \<and> distinct (map cc_id (cq_checks q)))"
  using checks_within_limit [OF a_running] by (simp add: Let_def)

end
