(* ===== verification/PyRegex.thy ===== *)
theory PyRegex
  imports PyValue
begin

text \<open>
  Python's \<open>re\<close> as far as the readers of Maven's output use it: patterns as a datatype, the
  backtracking matcher with its order of choices (greedy before lazy, left before right), \<open>search\<close>
  and \<open>finditer\<close>. A matcher gets the rest of the pattern as a continuation, so the first success of
  the search is the match Python reports.
\<close>

section \<open>Patterns\<close>

text \<open>
  \<open>Symbol\<close> reads one character of a class; \<open>Many\<close> is \<open>*\<close>, \<open>Few n\<close> is \<open>{0,n}?\<close>, \<open>Whole n\<close> the
  group with number \<open>n\<close>, \<open>Edge\<close> is \<open>\b\<close>; \<open>Line_start\<close> and \<open>Line_end\<close> are \<open>^\<close> and \<open>$\<close> under
  \<open>MULTILINE\<close>, \<open>Text_end\<close> is \<open>\Z\<close>.
\<close>

datatype rx =
    Nothing
  | Symbol "char \<Rightarrow> bool"
  | Then rx rx
  | Or rx rx
  | Many rx
  | Lazy rx
  | Few nat rx
  | Whole nat rx
  | Edge
  | Line_start
  | Line_end
  | Text_end

text \<open>Where a match stands: the character before, the text to come, and the groups it has closed.\<close>

record spot =
  sp_prev :: "char option"
  sp_rest :: str
  sp_groups :: "(nat \<times> str) list"

section \<open>Classes of characters\<close>

text \<open>\<open>\w\<close>, as \<open>str.isalnum\<close> has it on code points below 256.\<close>

definition is_word :: "char \<Rightarrow> bool" where
  "is_word c = (is_alnum c \<or> c = CHR 0x5F \<or> (let n = code c in
     n \<in> {170, 178, 179, 181, 185, 186, 188, 189, 190} \<or> (192 \<le> n \<and> n \<noteq> 215 \<and> n \<noteq> 247)))"

definition any_but_newline :: "char \<Rightarrow> bool" where
  "any_but_newline c = (code c \<noteq> 10)"

text \<open>A character and its other case, for \<open>IGNORECASE\<close>.\<close>

definition same_letter :: "char \<Rightarrow> char \<Rightarrow> bool" where
  "same_letter c d = (lower_char c = lower_char d)"

fun literal :: "str \<Rightarrow> rx" where
  "literal [] = Nothing"
| "literal (c # cs) = Then (Symbol (\<lambda>d. d = c)) (literal cs)"

fun caseless :: "str \<Rightarrow> rx" where
  "caseless [] = Nothing"
| "caseless (c # cs) = Then (Symbol (same_letter c)) (caseless cs)"

fun rx_seq :: "rx list \<Rightarrow> rx" where
  "rx_seq [] = Nothing"
| "rx_seq [r] = r"
| "rx_seq (r # rs) = Then r (rx_seq rs)"

fun rx_or :: "rx list \<Rightarrow> rx" where
  "rx_or [] = Symbol (\<lambda>_. False)"
| "rx_or [r] = r"
| "rx_or (r # rs) = Or r (rx_or rs)"

definition some_of :: "(char \<Rightarrow> bool) \<Rightarrow> rx" where
  "some_of p = Then (Symbol p) (Many (Symbol p))"

definition maybe :: "rx \<Rightarrow> rx" where
  "maybe r = Or r Nothing"

abbreviation "blank \<equiv> Symbol py_isspace"

definition blanks :: rx where
  "blanks = some_of py_isspace"

definition maybe_blanks :: rx where
  "maybe_blanks = Many (Symbol py_isspace)"

definition digits :: rx where
  "digits = some_of py_isdigit"

text \<open>\<open>[0-9]+(?:\.[0-9]+)?\<close>\<close>

definition numeral :: rx where
  "numeral = Then digits (maybe (Then (literal ''.'') digits))"

section \<open>Matching\<close>

text \<open>A round of a repetition that reads nothing ends it.\<close>

fun greedily :: "((spot \<Rightarrow> spot option) \<Rightarrow> spot \<Rightarrow> spot option) \<Rightarrow> nat \<Rightarrow> (spot \<Rightarrow> spot option) \<Rightarrow> spot \<Rightarrow> spot option" where
  "greedily m 0 k p = k p"
| "greedily m (Suc n) k p =
     (case m (\<lambda>q. if length (sp_rest q) < length (sp_rest p) then greedily m n k q else None) p of
        None \<Rightarrow> k p | Some q \<Rightarrow> Some q)"

fun lazily :: "((spot \<Rightarrow> spot option) \<Rightarrow> spot \<Rightarrow> spot option) \<Rightarrow> nat \<Rightarrow> (spot \<Rightarrow> spot option) \<Rightarrow> spot \<Rightarrow> spot option" where
  "lazily m 0 k p = k p"
| "lazily m (Suc n) k p = (case k p of
     None \<Rightarrow> m (\<lambda>q. if length (sp_rest q) < length (sp_rest p) then lazily m n k q else None) p
   | Some q \<Rightarrow> Some q)"

definition word_edge :: "char option \<Rightarrow> str \<Rightarrow> bool" where
  "word_edge prev rest = ((case prev of None \<Rightarrow> False | Some c \<Rightarrow> is_word c)
     \<noteq> (case rest of [] \<Rightarrow> False | c # _ \<Rightarrow> is_word c))"

definition closed :: "nat \<Rightarrow> spot \<Rightarrow> spot \<Rightarrow> spot" where
  "closed n p q = q\<lparr>sp_groups := (n, take (length (sp_rest p) - length (sp_rest q)) (sp_rest p)) # sp_groups q\<rparr>"

primrec matching :: "rx \<Rightarrow> (spot \<Rightarrow> spot option) \<Rightarrow> spot \<Rightarrow> spot option" where
  "matching Nothing k p = k p"
| "matching (Symbol f) k p = (case sp_rest p of
     [] \<Rightarrow> None
   | c # cs \<Rightarrow> if f c then k (p\<lparr>sp_prev := Some c, sp_rest := cs\<rparr>) else None)"
| "matching (Then r s) k p = matching r (matching s k) p"
| "matching (Or r s) k p = (case matching r k p of None \<Rightarrow> matching s k p | Some q \<Rightarrow> Some q)"
| "matching (Many r) k p = greedily (matching r) (length (sp_rest p)) k p"
| "matching (Lazy r) k p = lazily (matching r) (length (sp_rest p)) k p"
| "matching (Few n r) k p = lazily (matching r) n k p"
| "matching (Whole n r) k p = matching r (\<lambda>q. k (closed n p q)) p"
| "matching Edge k p = (if word_edge (sp_prev p) (sp_rest p) then k p else None)"
| "matching Line_start k p = (if sp_prev p = None \<or> sp_prev p = Some newline then k p else None)"
| "matching Line_end k p = (if sp_rest p = [] \<or> hd (sp_rest p) = newline then k p else None)"
| "matching Text_end k p = (if sp_rest p = [] then k p else None)"

definition start_spot :: "char option \<Rightarrow> str \<Rightarrow> spot" where
  "start_spot prev s = \<lparr>sp_prev = prev, sp_rest = s, sp_groups = []\<rparr>"

definition match_at :: "rx \<Rightarrow> char option \<Rightarrow> str \<Rightarrow> spot option" where
  "match_at r prev s = matching r Some (start_spot prev s)"

text \<open>\<open>re.match\<close>, \<open>re.fullmatch\<close> and \<open>re.search\<close>; a result holds the groups and what follows.\<close>

definition rx_match :: "rx \<Rightarrow> str \<Rightarrow> spot option" where
  "rx_match r s = match_at r None s"

definition rx_full :: "rx \<Rightarrow> str \<Rightarrow> spot option" where
  "rx_full r s = match_at (Then r Text_end) None s"

fun search_from :: "rx \<Rightarrow> char option \<Rightarrow> str \<Rightarrow> spot option" where
  "search_from r prev [] = match_at r prev []"
| "search_from r prev (c # cs) = (case match_at r prev (c # cs) of
     None \<Rightarrow> search_from r (Some c) cs | Some p \<Rightarrow> Some p)"

definition found_in :: "rx \<Rightarrow> str \<Rightarrow> bool" where
  "found_in r s = (search_from r None s \<noteq> None)"

text \<open>A group that took no part is the empty text.\<close>

definition group :: "nat \<Rightarrow> spot \<Rightarrow> str" where
  "group n p = (case map_of (sp_groups p) n of None \<Rightarrow> [] | Some t \<Rightarrow> t)"

section \<open>What a match leaves\<close>

definition shortens :: "nat \<Rightarrow> (spot \<Rightarrow> spot option) \<Rightarrow> bool" where
  "shortens n k = (\<forall>p q. length (sp_rest p) \<le> n \<longrightarrow> k p = Some q \<longrightarrow> length (sp_rest q) \<le> n)"

lemma shortensD: "shortens n k \<Longrightarrow> k p = Some q \<Longrightarrow> length (sp_rest p) \<le> n \<Longrightarrow> length (sp_rest q) \<le> n"
  by (simp add: shortens_def)

lemma shortensI: "(\<And>p q. length (sp_rest p) \<le> n \<Longrightarrow> k p = Some q \<Longrightarrow> length (sp_rest q) \<le> n) \<Longrightarrow> shortens n k"
  by (simp add: shortens_def)

lemma shortens_guarded:
  "shortens n k \<Longrightarrow> shortens n (\<lambda>q. if P q then k q else None)"
  by (simp add: shortens_def)

lemma shortens_greedily:
  assumes m: "\<And>k. shortens n k \<Longrightarrow> shortens n (m k)" and k: "shortens n k"
  shows "shortens n (greedily m i k)"
proof (induction i)
  case (Suc i)
  show ?case
  proof (rule shortensI)
    fix p q assume p: "length (sp_rest p) \<le> n" "greedily m (Suc i) k p = Some q"
    let ?k = "\<lambda>q. if length (sp_rest q) < length (sp_rest p) then greedily m i k q else None"
    have "shortens n (m ?k)" using Suc by (intro m shortens_guarded)
    with p k show "length (sp_rest q) \<le> n" by (cases "m ?k p") (auto dest: shortensD)
  qed
qed (use k in \<open>simp add: shortens_def\<close>)

lemma shortens_lazily:
  assumes m: "\<And>k. shortens n k \<Longrightarrow> shortens n (m k)" and k: "shortens n k"
  shows "shortens n (lazily m i k)"
proof (induction i)
  case (Suc i)
  show ?case
  proof (rule shortensI)
    fix p q assume p: "length (sp_rest p) \<le> n" "lazily m (Suc i) k p = Some q"
    have "shortens n (m (\<lambda>q. if length (sp_rest q) < length (sp_rest p) then lazily m i k q else None))"
      using Suc by (intro m shortens_guarded)
    with p k show "length (sp_rest q) \<le> n" by (cases "k p") (auto dest: shortensD)
  qed
qed (use k in \<open>simp add: shortens_def\<close>)

lemma shortens_matching: "shortens n k \<Longrightarrow> shortens n (matching r k)"
proof (induction r arbitrary: k)
  case (Symbol f)
  show ?case
  proof (rule shortensI)
    fix p q assume "length (sp_rest p) \<le> n" "matching (Symbol f) k p = Some q"
    with Symbol show "length (sp_rest q) \<le> n"
      by (cases "sp_rest p") (auto split: if_splits dest: shortensD)
  qed
next
  case (Or r s)
  show ?case
  proof (rule shortensI)
    fix p q assume p: "length (sp_rest p) \<le> n" "matching (Or r s) k p = Some q"
    show "length (sp_rest q) \<le> n"
      using p shortensD [OF Or(1) [OF Or(3)]] shortensD [OF Or(2) [OF Or(3)]] by (cases "matching r k p") auto
  qed
next
  case (Many r)
  have "shortens n (greedily (matching r) i k)" for i using Many by (intro shortens_greedily)
  then show ?case by (auto intro!: shortensI dest: shortensD)
next
  case (Lazy r)
  have "shortens n (lazily (matching r) i k)" for i using Lazy by (intro shortens_lazily)
  then show ?case by (auto intro!: shortensI dest: shortensD)
next
  case (Few m r)
  have "shortens n (lazily (matching r) m k)" using Few by (intro shortens_lazily)
  then show ?case by (auto intro!: shortensI dest: shortensD)
next
  case (Whole i r)
  have "shortens n (\<lambda>q. k (closed i p q))" for p
    by (rule shortensI, erule shortensD [OF Whole(2)]) (simp add: closed_def)
  from Whole(1) [OF this] show ?case by (auto intro!: shortensI dest: shortensD)
next
  case (Then r s)
  from Then(1) [OF Then(2) [OF Then(3)]] show ?case by (auto intro!: shortensI dest: shortensD)
qed (auto intro!: shortensI dest: shortensD split: if_splits)

lemma match_at_rest: "match_at r prev s = Some p \<Longrightarrow> length (sp_rest p) \<le> length s"
  using shortensD [OF shortens_matching [of "length s" Some r], of "start_spot prev s" p]
  by (simp add: match_at_def start_spot_def shortens_def)

lemma search_from_rest: "search_from r prev s = Some p \<Longrightarrow> length (sp_rest p) \<le> length s"
  by (induction r prev s rule: search_from.induct)
    (auto dest: match_at_rest split: option.splits intro: le_SucI)

text \<open>\<open>re.finditer\<close>: an empty match is followed by a step of one character.\<close>

function matches_from :: "rx \<Rightarrow> char option \<Rightarrow> str \<Rightarrow> spot list" where
  "matches_from r prev s = (case search_from r prev s of
     None \<Rightarrow> []
   | Some p \<Rightarrow> p # (if length (sp_rest p) < length s then matches_from r (sp_prev p) (sp_rest p)
       else case s of [] \<Rightarrow> [] | c # cs \<Rightarrow> matches_from r (Some c) cs))"
  by pat_completeness auto
termination by (relation "measure (\<lambda>(r, prev, s). length s)") auto

declare matches_from.simps [simp del]

definition find_matches :: "rx \<Rightarrow> str \<Rightarrow> spot list" where
  "find_matches r s = matches_from r None s"

text \<open>\<open>re.sub\<close> with a function of the matched text; the first argument counts what is left of a match.\<close>

fun replace_from :: "(str \<Rightarrow> str) \<Rightarrow> rx \<Rightarrow> nat \<Rightarrow> char option \<Rightarrow> str \<Rightarrow> str" where
  "replace_from f r skip prev [] = []"
| "replace_from f r (Suc skip) prev (c # cs) = replace_from f r skip (Some c) cs"
| "replace_from f r 0 prev (c # cs) = (case match_at r prev (c # cs) of
     None \<Rightarrow> c # replace_from f r 0 (Some c) cs
   | Some p \<Rightarrow> (if length (sp_rest p) \<le> length cs
       then f (take (Suc (length cs) - length (sp_rest p)) (c # cs)) @ replace_from f r (length cs - length (sp_rest p)) (Some c) cs
       else c # replace_from f r 0 (Some c) cs))"

definition replaced_all :: "(str \<Rightarrow> str) \<Rightarrow> rx \<Rightarrow> str \<Rightarrow> str" where
  "replaced_all f r s = replace_from f r 0 None s"

definition removed_all :: "rx \<Rightarrow> str \<Rightarrow> str" where
  "removed_all r s = replaced_all (\<lambda>_. []) r s"

section \<open>Decimal numbers\<close>

definition decimal_value :: "str \<Rightarrow> rat" where
  "decimal_value s = (let whole = takeWhile py_isdigit s; part = drop (Suc (length whole)) s in
     of_nat (digits_value whole) + of_nat (digits_value part) / 10 ^ length part)"

end
