(* ===== verification/MavenOutput.thy ===== *)
theory MavenOutput
  imports PyRegex "HOL-Library.List_Lexorder" "HOL-Library.Char_ord"
begin

text \<open>
  Reading what Maven, the test-enforcer plugin, PIT and Surefire print
  (\<open>uta/language/java/enforcement_runner/parsing.py\<close>), with the patterns of the source, and the
  reports of Surefire on disk. A report is what parsing the file gives: the attributes of its root.
\<close>

section \<open>Evidence of the gates\<close>

text \<open>\<open>\bdiff(?:\s+line)?\s+coverage\s*:?\s+([0-9]+(?:\.[0-9]+)?)%\<close>\<close>

definition diff_coverage :: rx where
  "diff_coverage = rx_seq [Edge, caseless ''diff'', maybe (Then blanks (caseless ''line'')), blanks,
     caseless ''coverage'', maybe_blanks, maybe (literal '':''), blanks, Whole 1 numeral, literal ''%'']"

definition not_blank :: rx where
  "not_blank = some_of (\<lambda>c. \<not> py_isspace c)"

text \<open>Words with white space between them.\<close>

fun spaced :: "str list \<Rightarrow> rx" where
  "spaced [] = Nothing"
| "spaced [w] = caseless w"
| "spaced (w # ws) = rx_seq [caseless w, blanks, spaced ws]"

definition passed_score :: rx where
  "passed_score = rx_seq [Edge, spaced [''diff'', ''mutation'', ''score''], blanks, numeral, literal ''%'', blanks,
     spaced [''passed'', ''for''], blanks, not_blank, blanks, literal ''('', digits, literal ''/'', digits, blanks,
     caseless ''detected;'', blanks, digits, blanks, caseless ''survived;'', blanks, digits, blanks,
     spaced [''no'', ''coverage'', ''excluded''], literal '')'']"

definition nothing_scored :: rx where
  "nothing_scored = rx_seq [Edge, spaced [''no'', ''scored'', ''pit'', ''mutations'', ''on'', ''changed'', ''lines'', ''for''],
     blanks, not_blank, blanks, literal ''(0/0'', blanks, caseless ''scored;'', blanks, digits, blanks,
     spaced [''no'', ''coverage'', ''excluded''], literal '')'']"

definition has_required_evidence :: "str \<Rightarrow> bool" where
  "has_required_evidence out = (found_in diff_coverage out \<and> (found_in passed_score out \<or> found_in nothing_scored out))"

definition scored_percentage :: rx where
  "scored_percentage = rx_seq [Edge, spaced [''diff'', ''mutation'', ''score''], blanks, Whole 1 numeral, literal ''%'', blanks,
     caseless ''passed'', Edge]"

definition diff_mutation_scores :: "str \<Rightarrow> rat list" where
  "diff_mutation_scores out = map (\<lambda>p. decimal_value (group 1 p)) (find_matches scored_percentage out)"

definition diff_coverage_rates :: "str \<Rightarrow> rat list" where
  "diff_coverage_rates out = map (\<lambda>p. decimal_value (group 1 p)) (find_matches diff_coverage out)"

definition pitest_targets :: rx where
  "pitest_targets = rx_seq [Edge, caseless ''pitest.targets='', Whole 1 digits, blanks, literal ''['',
     Whole 2 (Many (Symbol (\<lambda>c. c \<noteq> CHR '']''))), literal '']'']"

definition has_scoped_pitest_targets :: "str \<Rightarrow> bool" where
  "has_scoped_pitest_targets out =
     list_ex (\<lambda>p. 0 < digits_value (group 1 p) \<and> strip (group 2 p) \<noteq> []) (find_matches pitest_targets out)"

definition listed :: "str \<Rightarrow> str list" where
  "listed s = filter (\<lambda>v. v \<noteq> []) (map strip (split_on (CHR '','') s))"

definition pitest_target_patterns :: "str \<Rightarrow> str list" where
  "pitest_target_patterns out = dedup (concat (map (\<lambda>p. listed (group 2 p)) (find_matches pitest_targets out)))"

definition normal_pattern :: "str \<Rightarrow> str" where
  "normal_pattern pattern = strip_chars ''.'' (rev (dropWhile (\<lambda>c. c = CHR ''*'') (rev (strip pattern))))"

definition classes_of_pattern :: "str list \<Rightarrow> str \<Rightarrow> str list" where
  "classes_of_pattern changed pattern = (let p = normal_pattern pattern in
     if p = [] then [] else if CHR ''.'' \<in> set p then [p]
     else filter (\<lambda>c. c = p \<or> endswith c (CHR ''.'' # p)) changed)"

definition filtered_classes :: "str list \<Rightarrow> str list \<Rightarrow> str list" where
  "filtered_classes patterns changed =
     dedup (concat (map (classes_of_pattern (filter (\<lambda>c. c \<noteq> []) changed)) patterns))"

section \<open>What the run looks like\<close>

definition mentions :: "str list \<Rightarrow> str \<Rightarrow> bool" where
  "mentions markers text = list_ex (contains text) markers"

definition looks_skipped :: "str \<Rightarrow> bool" where
  "looks_skipped out = mentions [''skip test enforcement'', ''test-enforcement skipped''] (lower out)"

definition looks_no_enforceable_lines :: "str \<Rightarrow> bool" where
  "looks_no_enforceable_lines out = (\<not> has_scoped_pitest_targets out
     \<and> list_all (contains (lower out)) [''test-enforcer'', ''no changed java source lines'', ''build success''])"

definition gate_failure_markers :: "str list" where
  "gate_failure_markers = [''test-enforcement failed'', ''test enforcement failed'', ''diff coverage failed'',
     ''diff coverage check failed'', ''coverage gate failed'', ''mutation gate failed'', ''mutation coverage failed'',
     ''mutation score is below'', ''test-strength failed'', ''test strength failed'', ''test strength score'',
     ''test-enforcer check-coverage failed'', ''test-enforcer check-mutation failed'', ''check-coverage failed'',
     ''check-mutation failed'']"

definition looks_gate_failed :: "str \<Rightarrow> bool" where
  "looks_gate_failed out = (let l = lower out in
     mentions gate_failure_markers l
     \<or> (contains l ''diff line coverage'' \<and> contains l ''below required'')
     \<or> (contains l ''test strength'' \<and> contains l ''below threshold''))"

definition looks_baseline_failed :: "str \<Rightarrow> bool" where
  "looks_baseline_failed out = mentions [''mutation testing requires a green suite'',
     ''tests failing without mutation'', ''tests did not pass without mutation''] (lower out)"

definition build_break_markers :: "str list" where
  "build_break_markers = [''dependencyresolutionexception'', ''could not resolve dependencies'', ''could not find artifact'',
     ''could not collect dependencies'', ''failed to collect dependencies'', ''compilation failure'', ''compilation error'',
     ''fatal error compiling'', ''maven-compiler-plugin'', ''cannot find symbol'']"

definition looks_build_broken :: "str \<Rightarrow> bool" where
  "looks_build_broken out = (let l = lower out in
     mentions build_break_markers l \<or> (contains l ''package '' \<and> contains l '' does not exist''))"

definition has_enforcer_marker :: "str \<Rightarrow> bool" where
  "has_enforcer_marker out = contains (lower out) ''[test-enforcer]''"

section \<open>PIT over no evidence\<close>

definition skip_failing_applied :: rx where
  "skip_failing_applied = rx_seq [caseless ''[uta-pit-compat]'', Many (Symbol any_but_newline), Edge,
     caseless ''skipFailingTests=true'', Edge]"

definition pit_statistics :: rx where
  "pit_statistics = rx_seq [caseless ''generated'', blanks, Whole 1 digits, blanks, spaced [''mutations'', ''killed''], blanks,
     Whole 2 digits, blanks, literal ''('', numeral, literal ''%)'', Few 200 (Symbol (\<lambda>_. True)),
     caseless ''mutations with no coverage'', blanks, Whole 3 digits, literal ''.'']"

definition modules_without_covered_mutants :: "str \<Rightarrow> nat list" where
  "modules_without_covered_mutants out =
     (if \<not> found_in skip_failing_applied out then []
      else List.map_filter (\<lambda>p. let generated = digits_value (group 1 p) in
        if 0 < generated \<and> generated \<le> digits_value (group 3 p) then Some generated else None)
        (find_matches pit_statistics out))"

section \<open>Versions and modules of the reactor\<close>

definition surefire_goal :: rx where
  "surefire_goal = rx_seq [literal ''---'', blanks, maybe (literal ''maven-''), literal ''surefire'', maybe (literal ''-plugin''),
     literal '':'', Whole 1 (rx_seq [digits, Many (Then (literal ''.'') digits),
       Many (Symbol (\<lambda>c. \<not> py_isspace c \<and> c \<noteq> CHR '':''))]), literal '':test'', Edge]"

definition surefire_versions :: "str \<Rightarrow> str list" where
  "surefire_versions out = sort (remdups (map (group 1) (find_matches surefire_goal out)))"

fun version_parts :: "str list \<Rightarrow> nat list" where
  "version_parts [] = []"
| "version_parts (chunk # chunks) = (let ds = takeWhile py_isdigit chunk in
     if ds = [] then [] else digits_value ds # version_parts chunks)"

definition version_tuple :: "str \<Rightarrow> nat list" where
  "version_tuple v = version_parts (split_on (CHR ''.'') v)"

text \<open>An unknown version answers no.\<close>

definition every_version_from :: "nat list \<Rightarrow> str \<Rightarrow> bool" where
  "every_version_from low out = (let vs = surefire_versions out in
     vs \<noteq> [] \<and> list_all (\<lambda>v. low \<le> version_tuple v) vs)"

definition supports_includes_file :: "str \<Rightarrow> bool" where
  "supports_includes_file out = every_version_from [2, 13] out"

definition defaults_include_tests_suffix :: "str \<Rightarrow> bool" where
  "defaults_include_tests_suffix out = every_version_from [3, 0] out"

definition reactor_skipped :: rx where
  "reactor_skipped = rx_seq [Line_start, literal ''[INFO]'', blanks, Symbol (\<lambda>c. \<not> py_isspace c), Many (Symbol any_but_newline),
     Edge, literal ''SKIPPED'', maybe_blanks, Line_end]"

definition reactor_left_modules_unbuilt :: "str \<Rightarrow> bool" where
  "reactor_left_modules_unbuilt out = found_in reactor_skipped out"

definition reactor_skipped_module :: rx where
  "reactor_skipped_module = rx_seq [Line_start, literal ''[INFO]'', blanks,
     Whole 1 (Then (Symbol (\<lambda>c. \<not> py_isspace c)) (Lazy (Symbol any_but_newline))), blanks, some_of (\<lambda>c. c = CHR ''.''),
     blanks, literal ''SKIPPED'', maybe_blanks, Line_end]"

definition reactor_skipped_modules :: "str \<Rightarrow> str list" where
  "reactor_skipped_modules out = dedup (map (\<lambda>p. strip (group 1 p)) (find_matches reactor_skipped_module out))"

section \<open>A test that does not end\<close>

text \<open>The escape sequences of colours, and the level at the start of a line.\<close>

definition colour :: rx where
  "colour = rx_seq [literal [CHR 0x1B, CHR ''[''], Many (Symbol (\<lambda>c. py_isdigit c \<or> c = CHR '';'')), literal ''m'']"

definition log_level :: rx where
  "log_level = rx_seq [Line_start, literal ''['', rx_or [literal ''INFO'', literal ''WARNING'', literal ''ERROR''], literal '']'', maybe_blanks]"

definition class_char :: "char \<Rightarrow> bool" where
  "class_char c = (is_word c \<or> c = CHR ''.'' \<or> c = CHR ''$'')"

definition running_class :: rx where
  "running_class = rx_seq [literal ''Running'', blanks, Whole 1 (some_of class_char)]"

definition named_class :: rx where
  "named_class = rx_seq [Or (literal ''- in'') (literal ''-- in''), blanks, Whole 1 (some_of class_char)]"

definition lifecycle_line :: "str \<Rightarrow> str" where
  "lifecycle_line raw = removed_all log_level (strip (removed_all colour raw))"

definition pair_line :: "str list \<Rightarrow> str \<Rightarrow> str list" where
  "pair_line pending raw = (let line = lifecycle_line raw in
     case rx_full running_class line of
       Some p \<Rightarrow> pending @ [group 1 p]
     | None \<Rightarrow> if \<not> startswith line ''Tests run:'' then pending
         else (case search_from named_class None line of
             Some p \<Rightarrow> remove1 (group 1 p) pending
           | None \<Rightarrow> butlast pending))"

definition unfinished_class :: "str \<Rightarrow> str option" where
  "unfinished_class out = (case foldl pair_line [] (splitlines out) of [] \<Rightarrow> None | ps \<Rightarrow> Some (last ps))"

section \<open>The reasons of a miss\<close>

definition coverage_miss :: rx where
  "coverage_miss = rx_seq [caseless ''diff'', blanks, maybe (Then (caseless ''line'') blanks), caseless ''coverage'', blanks,
     Whole 1 numeral, literal ''%'', blanks, spaced [''is'', ''below'', ''required''], blanks, Whole 2 numeral, literal ''%'',
     maybe (rx_seq [maybe_blanks, literal ''('', Whole 3 digits, literal ''/'', Whole 4 digits, literal '')''])]"

definition mutation_miss_detailed :: rx where
  "mutation_miss_detailed = rx_seq [spaced [''diff'', ''mutation'', ''score''], blanks, Whole 1 numeral, literal ''%'', blanks,
     caseless ''for'', blanks, not_blank, blanks, literal ''('', Whole 2 digits, literal ''/'', Whole 3 digits, blanks,
     caseless ''detected'', maybe (Then (literal '';'') (Many (Symbol (\<lambda>c. c \<noteq> CHR '')'')))), literal '')'', blanks,
     spaced [''is'', ''below'', ''required''], blanks, Whole 4 numeral, literal ''%'']"

definition mutation_miss :: rx where
  "mutation_miss = rx_seq [Or (spaced [''mutation'', ''score'']) (spaced [''test'', ''strength'']), blanks, Whole 1 numeral, literal ''%'',
     blanks, maybe (Then (caseless ''is'') blanks), caseless ''below'', blanks,
     rx_or [caseless ''required'', caseless ''threshold'', caseless ''gate''], blanks, Whole 2 numeral, literal ''%'']"

definition mutation_miss_bare :: rx where
  "mutation_miss_bare = rx_seq [Or (spaced [''test'', ''strength'']) (caseless ''mutation''), blanks, spaced [''score'', ''of''], blanks,
     Whole 1 numeral, blanks, spaced [''is'', ''below'', ''threshold'', ''of''], blanks, Whole 2 numeral]"

definition coverage_reason :: "spot \<Rightarrow> str" where
  "coverage_reason p = ''Coverage gate failed: '' @ group 1 p @ ''% < '' @ group 2 p @ ''%''
     @ (if group 3 p = [] then [] else '' ('' @ group 3 p @ ''/'' @ group 4 p @ '')'')"

definition coverage_gate_miss_reasons :: "str \<Rightarrow> str list" where
  "coverage_gate_miss_reasons out = dedup (map coverage_reason (find_matches coverage_miss out))"

definition detailed_reason :: "spot \<Rightarrow> (str \<times> str) \<times> str" where
  "detailed_reason p = ((group 1 p, group 4 p),
     ''Mutation gate failed: '' @ group 1 p @ ''% < '' @ group 4 p @ ''% ('' @ group 2 p @ ''/'' @ group 3 p @ '' detected)'')"

definition plain_reason :: "spot \<Rightarrow> (str \<times> str) \<times> str" where
  "plain_reason p = ((group 1 p, group 2 p), ''Mutation gate failed: '' @ group 1 p @ ''% < '' @ group 2 p @ ''%'')"

text \<open>A dictionary: a detailed sentence replaces one with the same key, a plain one does not.\<close>

fun put_reason :: "('k \<times> 'v) \<Rightarrow> ('k \<times> 'v) list \<Rightarrow> ('k \<times> 'v) list" where
  "put_reason (k, v) [] = [(k, v)]"
| "put_reason (k, v) ((k', v') # rs) = (if k = k' then (k, v) # rs else (k', v') # put_reason (k, v) rs)"

definition keep_reason :: "('k \<times> 'v) \<Rightarrow> ('k \<times> 'v) list \<Rightarrow> ('k \<times> 'v) list" where
  "keep_reason r rs = (if fst r \<in> fst ` set rs then rs else rs @ [r])"

definition mutation_gate_miss_reasons :: "str \<Rightarrow> str list" where
  "mutation_gate_miss_reasons out =
     (let detailed = fold (\<lambda>p. put_reason (detailed_reason p)) (find_matches mutation_miss_detailed out) []
      in map snd (fold (\<lambda>p. keep_reason (plain_reason p))
           (find_matches mutation_miss out @ find_matches mutation_miss_bare out) detailed))"

definition gate_miss_reasons :: "str \<Rightarrow> str list" where
  "gate_miss_reasons out = coverage_gate_miss_reasons out @ mutation_gate_miss_reasons out"

text \<open>\<open>"%.nf" % q\<close> of a number that is not negative.\<close>

definition fixed_point :: "nat \<Rightarrow> rat \<Rightarrow> str" where
  "fixed_point n q = (let m = nat (round_half_even (q * 10 ^ n)); part = nat_str (m mod 10 ^ n) in
     nat_str (m div 10 ^ n) @ ''.'' @ replicate (n - length part) (CHR ''0'') @ part)"

definition measured_gate_details :: "str \<Rightarrow> rat \<Rightarrow> str list" where
  "measured_gate_details out gate =
     (case diff_coverage_rates out of [] \<Rightarrow> [] | r # rs \<Rightarrow> [''diff line coverage '' @ fixed_point 2 (fold min rs r) @ ''%''])
     @ (case diff_mutation_scores out of [] \<Rightarrow> [] | r # rs \<Rightarrow>
         [''mutation score '' @ fixed_point 2 (fold min rs r) @ ''%''
           @ (if 0 < gate then '' (gate '' @ fixed_point 2 gate @ ''%)'' else [])])"

text \<open>The reasons that fit, the first in any case.\<close>

fun kept_reasons :: "nat \<Rightarrow> str list \<Rightarrow> str list \<Rightarrow> str list" where
  "kept_reasons bound kept [] = kept"
| "kept_reasons bound kept (r # rs) =
     (if kept \<noteq> [] \<and> bound < length (join_with ''; '' (kept @ [r])) + 12 then kept
      else kept_reasons bound (kept @ [r]) rs)"

definition bounded_reasons :: "nat \<Rightarrow> str list \<Rightarrow> str" where
  "bounded_reasons bound reasons = (let text = join_with ''; '' reasons in
     if length text \<le> bound then text
     else let kept = kept_reasons bound [] reasons; text = join_with ''; '' kept; remaining = length reasons - length kept in
       (if bound < length text then rstrip (take (bound - 3) text) @ ''...'' else text)
         @ (if 0 < remaining then '', +'' @ nat_str remaining @ '' more'' else []))"

section \<open>Reports on disk\<close>

text \<open>\<open>sr_stat\<close>: time and size, \<open>None\<close> when the file is gone; \<open>sr_root\<close>: name, errors and failures, \<open>None\<close>
when the file does not parse; a count is \<open>None\<close> when it is no integer.\<close>

record surefire_report =
  sr_path :: str
  sr_module :: str
  sr_stat :: "(int \<times> int) option"
  sr_root :: "(str \<times> int option \<times> int option) option"

text \<open>Paths are ordered by their components.\<close>

definition by_path :: "surefire_report list \<Rightarrow> surefire_report list" where
  "by_path rs = sort_key (\<lambda>r. split_on (CHR ''/'') (sr_path r)) rs"

definition report_snapshot :: "surefire_report list \<Rightarrow> (str \<times> int \<times> int) list" where
  "report_snapshot rs = List.map_filter (\<lambda>r. map_option (Pair (sr_path r)) (sr_stat r)) rs"

text \<open>A report with a name that is new or has changed since the snapshot.\<close>

definition fresh_name :: "(str \<times> int \<times> int) list option \<Rightarrow> surefire_report \<Rightarrow> str option" where
  "fresh_name previous r = (case sr_stat r of None \<Rightarrow> None | Some stat \<Rightarrow>
     if previous \<noteq> None \<and> map_of (the previous) (sr_path r) = Some stat then None
     else (case sr_root r of None \<Rightarrow> None | Some (name, _) \<Rightarrow> if strip name = [] then None else Some (strip name)))"

definition report_broken :: "surefire_report \<Rightarrow> bool option" where
  "report_broken r = (case sr_root r of Some (_, Some e, Some f) \<Rightarrow> Some (0 < e + f) | _ \<Rightarrow> None)"

definition record_result :: "(str \<times> int \<times> int) list option \<Rightarrow> surefire_report \<Rightarrow> (str \<times> bool) list \<Rightarrow> (str \<times> bool) list" where
  "record_result previous r results = (case (fresh_name previous r, report_broken r) of
     (Some name, Some broken) \<Rightarrow> dict_set name ((case map_of results name of Some b \<Rightarrow> b | None \<Rightarrow> False) \<or> broken) results
   | _ \<Rightarrow> results)"

definition test_class_results :: "surefire_report list \<Rightarrow> (str \<times> int \<times> int) list option \<Rightarrow> (str \<times> bool) list" where
  "test_class_results rs previous = fold (record_result previous) (by_path rs) []"

definition failed_test_classes :: "(str \<times> bool) list \<Rightarrow> str list" where
  "failed_test_classes results = map fst (filter snd results)"

text \<open>Test classes by module: the list of a module stands for a set.\<close>

definition add_class :: "str \<Rightarrow> str list \<Rightarrow> (str \<times> str list) list \<Rightarrow> (str \<times> str list) list" where
  "add_class m names inventory = (let old = (case map_of inventory m of Some ns \<Rightarrow> ns | None \<Rightarrow> []) in
     dict_set m (old @ filter (\<lambda>n. n \<notin> set old) names) inventory)"

definition classes_by_module ::
  "surefire_report list \<Rightarrow> (str \<times> int \<times> int) list option \<Rightarrow> (str \<times> str list) list" where
  "classes_by_module rs previous = fold (\<lambda>r inventory. case fresh_name previous r of
     None \<Rightarrow> inventory | Some name \<Rightarrow> add_class (if sr_module r = ''.'' then [] else sr_module r) [name] inventory)
     (by_path rs) []"

end
