(* ===== verification/MavenTooling.thy ===== *)
theory MavenTooling
  imports MavenOutput
begin

text \<open>
  Does Maven resolve the test-enforcer plugin in the version the gate needs
  (\<open>uta/language/java/maven_project.py\<close>, \<open>enforcement_versions.py\<close>)? A parsed POM is an element
  with its tag, the text before its first child, and its children. The run of \<open>help:effective-pom\<close> is a port of its caller.
\<close>

section \<open>XML\<close>

datatype element = Element (el_tag: str) (el_text: str) (el_children: "element list")

text \<open>\<open>tag.rsplit("}", 1)[-1]\<close>: the part of a tag after its namespace.\<close>

definition strip_namespace :: "str \<Rightarrow> str" where
  "strip_namespace tag = last (split_on (CHR ''}'') tag)"

definition has_tag :: "str \<Rightarrow> element \<Rightarrow> bool" where
  "has_tag name e = (strip_namespace (el_tag e) = name)"

definition find_child :: "element \<Rightarrow> str \<Rightarrow> element option" where
  "find_child e name = List.find (has_tag name) (el_children e)"

definition child_text :: "element \<Rightarrow> str \<Rightarrow> str" where
  "child_text e name = (case find_child e name of None \<Rightarrow> [] | Some c \<Rightarrow> strip (el_text c))"

text \<open>\<open>element.iter()\<close>: the element itself, then what is below it.\<close>

fun all_elements :: "element \<Rightarrow> element list" where
  "all_elements (Element t x cs) = Element t x cs # concat (map all_elements cs)"

definition project_roots :: "element \<Rightarrow> element list" where
  "project_roots doc = (if has_tag ''project'' doc then [doc]
     else if has_tag ''projects'' doc then filter (has_tag ''project'') (el_children doc) else [])"

definition build_plugins :: "element \<Rightarrow> element list" where
  "build_plugins doc = (case Option.bind (find_child doc ''build'') (\<lambda>b. find_child b ''plugins'') of
     None \<Rightarrow> [] | Some ps \<Rightarrow> filter (has_tag ''plugin'') (el_children ps))"

section \<open>Versions\<close>

definition test_enforcer_version :: str where "test_enforcer_version = ''1.0.16''"
definition parent_generic_version :: str where "parent_generic_version = ''1.0.22''"
definition parent_root_version :: str where "parent_root_version = ''1.3.97''"

text \<open>\<open>re.findall(r"\d+", version)\<close>, the first four.\<close>

definition numbers_in :: "str \<Rightarrow> nat list" where
  "numbers_in v = map digits_value (filter (\<lambda>w. w \<noteq> []) (split_on (CHR '' '') (map (\<lambda>c. if py_isdigit c then c else CHR '' '') v)))"

definition comparable_version :: "str \<Rightarrow> nat list" where
  "comparable_version v = take 4 (numbers_in v)"

definition version_at_least :: "str \<Rightarrow> str \<Rightarrow> bool" where
  "version_at_least v minimum = (comparable_version v \<noteq> [] \<and> comparable_version minimum \<le> comparable_version v)"

section \<open>The status of the tooling\<close>

record tooling =
  tl_available :: bool
  tl_reason :: str
  tl_artifact :: str
  tl_version :: str
  tl_required :: str

definition unavailable :: "str \<Rightarrow> tooling" where
  "unavailable reason = \<lparr>tl_available = False, tl_reason = reason, tl_artifact = [], tl_version = [], tl_required = []\<rparr>"

definition or_unknown :: "str \<Rightarrow> str" where
  "or_unknown v = (if v = [] then ''unknown'' else v)"

definition add_property :: "element \<Rightarrow> (str \<times> str) list \<Rightarrow> (str \<times> str) list" where
  "add_property c props = (let key = strip_namespace (el_tag c); v = strip (el_text c) in
     if key \<noteq> [] \<and> v \<noteq> [] then dict_set key v props else props)"

definition collect_properties :: "element \<Rightarrow> (str \<times> str) list" where
  "collect_properties doc = (case find_child doc ''properties'' of
     None \<Rightarrow> [] | Some ps \<Rightarrow> fold add_property (el_children ps) [])"

text \<open>\<open>\$\{([^}]+)\}\<close>, the whole of the value.\<close>

definition property_reference :: rx where
  "property_reference = rx_seq [literal ''${'', Whole 1 (some_of (\<lambda>c. c \<noteq> CHR ''}'')), literal ''}'']"

definition resolve_version :: "str \<Rightarrow> (str \<times> str) list \<Rightarrow> str" where
  "resolve_version raw props = (let v = strip raw in case rx_full property_reference v of
     None \<Rightarrow> v | Some p \<Rightarrow> (case map_of props (group 1 p) of None \<Rightarrow> v | Some w \<Rightarrow> w))"

definition status_for :: "str \<Rightarrow> str \<Rightarrow> str \<Rightarrow> tooling" where
  "status_for artifact version minimum = (let ok = version_at_least version minimum in
     \<lparr>tl_available = ok,
      tl_reason = artifact @ '' '' @ or_unknown version @ '' '' @ (if ok then ''meets'' else ''is below'') @ '' required '' @ minimum,
      tl_artifact = artifact, tl_version = version, tl_required = minimum\<rparr>)"

definition parent_hint :: "str \<Rightarrow> str \<Rightarrow> str \<Rightarrow> tooling" where
  "parent_hint artifact version minimum =
     \<lparr>tl_available = False,
      tl_reason = artifact @ '' '' @ or_unknown version @
        (if version_at_least version minimum
         then '' is present, but Maven did not resolve test-enforcer; verify the test-enforcement profile is active''
         else '' is below the rollout version that introduces test-enforcer''),
      tl_artifact = artifact, tl_version = version, tl_required = minimum\<rparr>"

definition parent_hints :: "element \<Rightarrow> (str \<times> str) list \<Rightarrow> tooling list" where
  "parent_hints doc props = (case find_child doc ''parent'' of None \<Rightarrow> [] | Some parent \<Rightarrow>
     (let artifact = child_text parent ''artifactId''; version = resolve_version (child_text parent ''version'') props in
      if artifact = ''example-parent-generic'' then [parent_hint artifact version parent_generic_version]
      else if artifact = ''example-root'' then [parent_hint artifact version parent_root_version] else []))"

definition enforcer_plugins :: "element \<Rightarrow> element list" where
  "enforcer_plugins doc = filter (\<lambda>p. child_text p ''artifactId'' = ''test-enforcer'') (build_plugins doc)"

definition plugin_version :: "element \<Rightarrow> element \<Rightarrow> str" where
  "plugin_version doc p = resolve_version (child_text p ''version'') (collect_properties doc)"

definition plugin_statuses :: "element \<Rightarrow> tooling list" where
  "plugin_statuses doc =
     map (\<lambda>p. status_for (child_text p ''artifactId'') (plugin_version doc p) test_enforcer_version) (enforcer_plugins doc)"

text \<open>Every plugin has to meet the floor; the first that does not is the one reported.\<close>

definition chosen_status :: "tooling list \<Rightarrow> tooling list \<Rightarrow> tooling" where
  "chosen_status candidates hints =
     (case filter (\<lambda>t. \<not> tl_available t) candidates of
        t # _ \<Rightarrow> t\<lparr>tl_available := False\<rparr>
      | [] \<Rightarrow> (case candidates of t # _ \<Rightarrow> t
          | [] \<Rightarrow> (case hints of h # _ \<Rightarrow> h | [] \<Rightarrow> unavailable ''No resolved test-enforcer Maven plugin was found'')))"

definition tooling_from_roots :: "element list \<Rightarrow> tooling" where
  "tooling_from_roots roots = chosen_status (concat (map plugin_statuses roots))
     (concat (map (\<lambda>r. parent_hints r (collect_properties r)) roots))"

definition version_mismatch :: "tooling \<Rightarrow> bool" where
  "version_mismatch t = (\<not> tl_available t \<and> tl_artifact t \<noteq> [] \<and> tl_version t \<noteq> [] \<and> tl_required t \<noteq> []
     \<and> contains (lower (tl_reason t)) ''below'')"

text \<open>The POM Maven resolved: \<open>None\<close> when the run raised or failed, or wrote none that parses.\<close>

definition effective_status :: "element option \<Rightarrow> tooling" where
  "effective_status pom = (case map_option project_roots pom of
     Some (r # rs) \<Rightarrow> tooling_from_roots (r # rs)
   | _ \<Rightarrow> unavailable ''Unable to resolve Maven effective POM; active test-enforcer version is unverified'')"

text \<open>The declared POMs, those that parse.\<close>

definition raw_status :: "element option list \<Rightarrow> tooling" where
  "raw_status poms = (case concat (map (\<lambda>p. case p of None \<Rightarrow> [] | Some e \<Rightarrow> project_roots e) poms) of
     [] \<Rightarrow> unavailable ''No readable Maven POM was found'' | roots \<Rightarrow> tooling_from_roots roots)"

section \<open>Profiles and the context of a command\<close>

definition has_profile_selector :: "str list \<Rightarrow> bool" where
  "has_profile_selector cmd = list_ex (\<lambda>a. startswith a ''-P'' \<or> startswith a ''-Dprofile.active='') cmd"

definition profile_ids :: "element option \<Rightarrow> str list" where
  "profile_ids pom = (case pom of None \<Rightarrow> [] | Some doc \<Rightarrow>
     filter (\<lambda>i. i \<noteq> []) (map (\<lambda>p. child_text p ''id'') (filter (has_tag ''profile'') (all_elements doc))))"

definition default_profile :: "str list \<Rightarrow> str" where
  "default_profile ids = (case List.find (\<lambda>p. p \<in> set ids) [''dev'', ''local'', ''beta'', ''prod''] of
     Some p \<Rightarrow> p | None \<Rightarrow> (case ids of [] \<Rightarrow> [] | i # _ \<Rightarrow> i))"

text \<open>The texts of the root POM and of the POMs one level below, and the parsed root POM.\<close>

definition with_default_profile :: "str list \<Rightarrow> element option \<Rightarrow> str list \<Rightarrow> str list" where
  "with_default_profile texts top_pom cmd =
     (if has_profile_selector cmd \<or> \<not> list_ex (\<lambda>t. contains t ''${profile.active}'') texts then cmd
      else let p = default_profile (profile_ids top_pom) in if p = [] then cmd else cmd @ [''-P'' @ p])"

definition options_with_value :: "str list" where
  "options_with_value = [''-P'', ''--activate-profiles'', ''-s'', ''--settings'', ''-gs'', ''--global-settings'', ''-f'', ''--file'',
     ''-pl'', ''--projects'', ''-rf'', ''--resume-from'', ''-D'']"

definition context_option :: "str \<Rightarrow> bool" where
  "context_option a = (list_ex (startswith a) [''-D'', ''-P'', ''--activate-profiles='', ''--settings='', ''--global-settings='',
       ''--file='', ''--projects='', ''--resume-from='', ''-pl'', ''-rf'']
     \<or> (startswith a ''-f'' \<and> a \<notin> set [''-fae'', ''-ff'', ''-fn''])
     \<or> a \<in> set [''-am'', ''--also-make'', ''-amd'', ''--also-make-dependents'', ''-N'', ''--non-recursive''])"

fun maven_context_args :: "str list \<Rightarrow> str list" where
  "maven_context_args [] = []"
| "maven_context_args [a] = (if a \<in> set options_with_value \<or> context_option a then [a] else [])"
| "maven_context_args (a # b # rest) =
     (if a \<in> set options_with_value then a # b # maven_context_args rest
      else if context_option a then a # maven_context_args (b # rest) else maven_context_args (b # rest))"

definition effective_pom_command :: "str \<Rightarrow> str list \<Rightarrow> str list \<Rightarrow> element option \<Rightarrow> str \<Rightarrow> str list" where
  "effective_pom_command maven texts source top_pom output = with_default_profile texts top_pom
     ([maven, ''-q'', ''help:effective-pom''] @ maven_context_args source) @ [''-Doutput='' @ output]"

section \<open>Facts\<close>

lemma chosen_available:
  assumes "\<forall>h \<in> set hs. \<not> tl_available h"
  shows "tl_available (chosen_status cs hs) \<longleftrightarrow> cs \<noteq> [] \<and> (\<forall>t \<in> set cs. tl_available t)"
proof (cases "filter (\<lambda>t. \<not> tl_available t) cs")
  case Nil
  then have "\<forall>t \<in> set cs. tl_available t" by (simp only: filter_empty_conv not_not)
  then have "chosen_status cs hs = (case cs of t # _ \<Rightarrow> t | [] \<Rightarrow> chosen_status [] hs)"
    by (simp add: chosen_status_def split: list.split)
  moreover have "\<not> tl_available (chosen_status [] hs)"
    using assms by (simp add: chosen_status_def unavailable_def split: list.split)
  ultimately show ?thesis using \<open>\<forall>t \<in> set cs. tl_available t\<close> by (simp split: list.split)
next
  case (Cons t ts)
  then have "t \<in> set (filter (\<lambda>t. \<not> tl_available t) cs)" by (simp only: list.set) simp
  then have "t \<in> set cs" "\<not> tl_available t" by simp_all
  moreover have "\<not> tl_available (chosen_status cs hs)" by (simp add: chosen_status_def Cons)
  ultimately show ?thesis by blast
qed

lemma hints_unavailable: "h \<in> set (parent_hints r ps) \<Longrightarrow> \<not> tl_available h"
  by (auto simp: parent_hints_def parent_hint_def Let_def split: option.splits if_splits)

lemma tooling_candidates:
  "tl_available (tooling_from_roots roots) \<longleftrightarrow>
     concat (map plugin_statuses roots) \<noteq> [] \<and> (\<forall>t \<in> set (concat (map plugin_statuses roots)). tl_available t)"
  unfolding tooling_from_roots_def by (rule chosen_available) (auto dest: hints_unavailable)

text \<open>
  C23: The tooling counts as available exactly when Maven resolved a POM in which some
  project declares the test-enforcer plugin and every plugin of every project, with the
  version its own properties give, is at least the required version. No hint of a parent and
  no other module makes up for one.
\<close>

theorem tooling_floor_holds_everywhere:
  "tl_available (effective_status pom) \<longleftrightarrow>
     (\<exists>doc. pom = Some doc \<and> concat (map enforcer_plugins (project_roots doc)) \<noteq> []
       \<and> list_all (\<lambda>r. list_all (\<lambda>p. version_at_least (plugin_version r p) test_enforcer_version) (enforcer_plugins r))
           (project_roots doc))"
proof (cases "map_option project_roots pom")
  case (Some roots)
  then obtain doc where doc: "pom = Some doc" "project_roots doc = roots" by auto
  show ?thesis
  proof (cases roots)
    case (Cons r rs)
    have "tl_available (effective_status pom) \<longleftrightarrow> tl_available (tooling_from_roots roots)"
      by (simp only: effective_status_def Some option.case Cons list.case)
    also have "\<dots> \<longleftrightarrow> concat (map enforcer_plugins roots) \<noteq> []
        \<and> (\<forall>r \<in> set roots. \<forall>p \<in> set (enforcer_plugins r). version_at_least (plugin_version r p) test_enforcer_version)"
      by (simp add: tooling_candidates plugin_statuses_def status_for_def Let_def)
    finally show ?thesis using doc by (simp add: list_all_iff)
  qed (use doc in \<open>simp add: effective_status_def unavailable_def\<close>)
qed (simp add: effective_status_def unavailable_def)

end
