(* ===== verification/MavenPlanning.thy ===== *)
theory MavenPlanning
  imports MavenTooling
begin

text \<open>
  What Maven is asked to enforce (\<open>uta/language/java/enforcement_runner/planning.py\<close>): changed sources,
  modules and tests of a diff, and the argument vector. A checkout is its files, paths relative to the
  repository; the pattern of a \<open>glob\<close> becomes a condition on the components of a path.
\<close>

section \<open>The checkout\<close>

text \<open>\<open>co_files\<close>: path and text, \<open>None\<close> when it cannot be read; \<open>co_poms\<close>: the POMs that parse.\<close>

record checkout =
  co_files :: "(str \<times> str option) list"
  co_poms :: "(str \<times> element) list"
  co_reports :: "surefire_report list"

definition components :: "str \<Rightarrow> str list" where
  "components path = split_on (CHR ''/'') path"

definition file_name :: "str \<Rightarrow> str" where
  "file_name path = last (components path)"

text \<open>\<open>Path.suffix\<close> and \<open>Path.stem\<close>: a dot at the start or the end of a name is no suffix.\<close>

definition has_suffix :: "str \<Rightarrow> bool" where
  "has_suffix name = (let parts = split_on (CHR ''.'') name in
     1 < length parts \<and> last parts \<noteq> [] \<and> join_with ''.'' (butlast parts) \<noteq> [])"

definition path_stem :: "str \<Rightarrow> str" where
  "path_stem path = (let name = file_name path in
     if has_suffix name then join_with ''.'' (butlast (split_on (CHR ''.'') name)) else name)"

definition text_after :: "str \<Rightarrow> str \<Rightarrow> str" where
  "text_after sep s = drop (length (text_before sep s) + length sep) s"

definition swap_char :: "char \<Rightarrow> char \<Rightarrow> str \<Rightarrow> str" where
  "swap_char a b s = map (\<lambda>c. if c = a then b else c) s"

definition class_path :: "str \<Rightarrow> str" where
  "class_path fqn = swap_char (CHR ''.'') (CHR ''/'') fqn"

definition test_root_marker :: str where "test_root_marker = ''src/test/java/''"
definition main_root_marker :: str where "main_root_marker = ''src/main/java/''"

definition fqn_from_path :: "str \<Rightarrow> str \<Rightarrow> str option" where
  "fqn_from_path marker path =
     (if \<not> contains path marker \<or> \<not> endswith path ''.java'' then None
      else let p = text_after marker path in
        Some (strip_chars ''.'' (swap_char (CHR ''/'') (CHR ''.'') (take (length p - 5) p))))"

text \<open>A test class of a path that is one: the name, unless it is empty.\<close>

definition test_fqn_of :: "str \<Rightarrow> str option" where
  "test_fqn_of path = (case fqn_from_path test_root_marker path of
     None \<Rightarrow> None | Some f \<Rightarrow> if f = [] then None else Some f)"

section \<open>The diff\<close>

definition changed_java_files :: "int \<Rightarrow> str \<Rightarrow> str list option" where
  "changed_java_files rc out =
     (if rc \<noteq> 0 then None else Some (filter (\<lambda>l. endswith l ''.java'') (map strip (splitlines out))))"

definition changed_production_files :: "str list option \<Rightarrow> str list option" where
  "changed_production_files changed = map_option (filter (\<lambda>p. contains p main_root_marker)) changed"

section \<open>Modules\<close>

text \<open>The nearest directory above a path, below the repository itself, that holds a POM.\<close>

fun nearest_pom :: "str list \<Rightarrow> str list \<Rightarrow> str option" where
  "nearest_pom files [] = None"
| "nearest_pom files (d # ds) = (let dir = join_with ''/'' (rev (d # ds)) in
     if dir @ ''/pom.xml'' \<in> set files then Some dir else nearest_pom files ds)"

definition module_for_path :: "checkout \<Rightarrow> str \<Rightarrow> str option" where
  "module_for_path co path = (let parts = rev (components path) in
     nearest_pom (map fst (co_files co)) (if has_suffix (file_name path) then tl parts else parts))"

definition modules_for_files :: "checkout \<Rightarrow> str list \<Rightarrow> str list" where
  "modules_for_files co paths = dedup (List.map_filter (\<lambda>p. case module_for_path co p of
     None \<Rightarrow> None | Some m \<Rightarrow> if m = [] then None else Some m) paths)"

section \<open>Tests of a type\<close>

definition line_comment :: rx where
  "line_comment = Then (literal ''//'') (Many (Symbol (\<lambda>c. code c \<noteq> 10 \<and> code c \<noteq> 13)))"

definition block_comment :: rx where
  "block_comment = rx_seq [literal ''/*'', Lazy (Symbol (\<lambda>_. True)), literal ''*/'']"

definition quote_mark :: char where "quote_mark = CHR 0x22"
definition backslash :: char where "backslash = CHR 0x5C"

definition quoted :: "char \<Rightarrow> rx" where
  "quoted q = rx_seq [literal [q], Many (Or (Then (literal [backslash]) (Symbol any_but_newline))
     (Symbol (\<lambda>c. c \<noteq> q \<and> c \<noteq> backslash))), literal [q]]"

definition text_block :: rx where
  "text_block = rx_seq [literal [quote_mark, quote_mark, quote_mark], Lazy (Symbol (\<lambda>_. True)),
     literal [quote_mark, quote_mark, quote_mark]]"

definition non_code :: rx where
  "non_code = rx_or [text_block, block_comment, line_comment, quoted quote_mark, quoted (CHR 0x27)]"

definition java_code :: "str \<Rightarrow> str" where
  "java_code source = replaced_all (filter (\<lambda>c. c = newline)) non_code source"

definition name_start :: "char \<Rightarrow> bool" where
  "name_start c = (c = CHR ''_'' \<or> c = CHR ''$'' \<or> (is_alnum c \<and> \<not> py_isdigit c))"

definition name_part :: "char \<Rightarrow> bool" where
  "name_part c = (is_word c \<or> c = CHR ''$'')"

definition target_patterns :: "str \<Rightarrow> rx list" where
  "target_patterns name =
     [rx_seq [Edge, literal ''new'', blanks, literal name, Edge],
      rx_seq [Edge, literal name, maybe_blanks, literal ''.class'', Edge],
      rx_seq [Edge, rx_or [literal ''extends'', literal ''implements'', literal ''instanceof''], blanks, literal name, Edge],
      rx_seq [Edge, literal name, maybe_blanks,
        maybe (rx_seq [literal ''<'', Many (Symbol (\<lambda>c. c \<notin> set '';=(){}'')), literal ''>'']), blanks,
        Symbol name_start, Many (Symbol name_part), Edge],
      rx_seq [Edge, literal name, maybe_blanks, literal ''.'']]"

definition test_targets_type :: "checkout \<Rightarrow> str \<Rightarrow> str \<Rightarrow> bool" where
  "test_targets_type co path name =
     (contains (path_stem path) name \<or> (case map_of (co_files co) path of
        Some (Some source) \<Rightarrow> (let c = java_code source in list_ex (\<lambda>r. found_in r c) (target_patterns name))
      | _ \<Rightarrow> False))"

text \<open>The rule \<open>**/src/test/java/**/*<name>*Test.java\<close> on a path.\<close>

fun below_test_root :: "str list \<Rightarrow> bool" where
  "below_test_root (a # b # c # d # rest) = ((a = ''src'' \<and> b = ''test'' \<and> c = ''java'') \<or> below_test_root (b # c # d # rest))"
| "below_test_root _ = False"

definition is_named_test :: "str \<Rightarrow> str \<Rightarrow> bool" where
  "is_named_test name path = (let f = file_name path in
     below_test_root (components path) \<and> endswith f ''Test.java'' \<and> contains (take (length f - 9) f) name)"

definition changed_tests :: "str list option \<Rightarrow> (str \<times> str) list" where
  "changed_tests changed = List.map_filter (\<lambda>p. map_option (Pair p) (test_fqn_of p))
     (case changed of None \<Rightarrow> [] | Some ps \<Rightarrow> ps)"

definition tests_of_file :: "checkout \<Rightarrow> (str \<times> str) list \<Rightarrow> str \<Rightarrow> str list" where
  "tests_of_file co tests path =
     (let name = path_stem path; m = module_for_path co path;
          matched = filter (\<lambda>(p, fqn). module_for_path co p = m \<and> test_targets_type co p name) tests in
      if matched \<noteq> [] then map snd matched
      else List.map_filter test_fqn_of (filter (\<lambda>p. is_named_test name p \<and> module_for_path co p = m) (map fst (co_files co))))"

definition pitest_target_tests :: "checkout \<Rightarrow> str list option \<Rightarrow> str list \<Rightarrow> str list" where
  "pitest_target_tests co changed production =
     sort (remdups (concat (map (tests_of_file co (changed_tests changed)) production)))"

text \<open>The rule \<open>**/src/test/java/<class>.java\<close> on a path.\<close>

definition test_paths_for :: "checkout \<Rightarrow> str \<Rightarrow> str list" where
  "test_paths_for co fqn = (let suffix = test_root_marker @ class_path fqn @ ''.java'' in
     dedup (filter (\<lambda>p. p = suffix \<or> endswith p (CHR ''/'' # suffix)) (map fst (co_files co))))"

section \<open>Declared test classes\<close>

definition default_test_class :: "bool \<Rightarrow> rx" where
  "default_test_class tests_suffix = (let word = Many (Symbol is_word) in rx_or
     ([Then (literal ''Test'') word, Then word (literal ''Test'')]
      @ (if tests_suffix then [Then word (literal ''Tests'')] else []) @ [Then word (literal ''TestCase'')]))"

definition non_module_dirs :: "str list" where
  "non_module_dirs = [''target'', ''node_modules'', ''.git'', ''.uta_cache'', ''src'']"

definition walked :: "str \<Rightarrow> bool" where
  "walked path = list_all (\<lambda>d. d \<notin> set non_module_dirs \<and> \<not> startswith d ''.'') (butlast (components path))"

fun replace_text :: "str \<Rightarrow> str \<Rightarrow> nat \<Rightarrow> str \<Rightarrow> str" where
  "replace_text old new skip [] = []"
| "replace_text old new (Suc skip) (c # cs) = replace_text old new skip cs"
| "replace_text old new 0 (c # cs) =
     (if startswith (c # cs) old then new @ replace_text old new (length old - 1) cs else c # replace_text old new 0 cs)"

definition display_name :: "element \<Rightarrow> str" where
  "display_name pom = (let artifact = child_text pom ''artifactId'';
       shown = replace_text ''${project.artifactId}'' artifact 0 (child_text pom ''name'') in
     if shown = [] then artifact else shown)"

definition dir_of :: "str \<Rightarrow> str" where
  "dir_of path = join_with ''/'' (butlast (components path))"

text \<open>A list of directories for each name stands for a set.\<close>

definition dirs_by_name :: "checkout \<Rightarrow> (str \<times> str list) list" where
  "dirs_by_name co = fold (\<lambda>(path, pom) dirs. let d = display_name pom in
     if file_name path = ''pom.xml'' \<and> walked path \<and> d \<noteq> [] \<and> \<not> contains d ''${''
     then add_class d [dir_of path] dirs else dirs) (co_poms co) []"

definition candidate_dirs :: "(str \<times> str list) list \<Rightarrow> str \<Rightarrow> str list" where
  "candidate_dirs dirs name = (let found = (\<lambda>n. case map_of dirs n of Some ds \<Rightarrow> ds | None \<Rightarrow> []) in
     if found name = [] \<and> CHR '' '' \<in> set name
     then found (join_with '' '' (butlast (split_on (CHR '' '') name))) else found name)"

definition declared_classes :: "checkout \<Rightarrow> bool \<Rightarrow> str \<Rightarrow> str list" where
  "declared_classes co tests_suffix dir = (let src = (if dir = [] then [] else dir @ ''/'') @ test_root_marker in
     dedup (List.map_filter test_fqn_of (filter (\<lambda>p. startswith p src \<and> endswith p ''.java''
       \<and> rx_full (default_test_class tests_suffix) (path_stem p) \<noteq> None) (map fst (co_files co)))))"

fun declare_modules :: "checkout \<Rightarrow> bool \<Rightarrow> (str \<times> str list) list \<Rightarrow> str list \<Rightarrow> (str \<times> str list) list
    \<Rightarrow> (str \<times> str list) list option" where
  "declare_modules co suffix dirs [] acc = Some acc"
| "declare_modules co suffix dirs (name # names) acc = (case candidate_dirs dirs name of
     [dir] \<Rightarrow> declare_modules co suffix dirs names (dict_set dir (declared_classes co suffix dir) acc)
   | _ \<Rightarrow> None)"

definition declared_test_classes :: "checkout \<Rightarrow> str list \<Rightarrow> bool \<Rightarrow> (str \<times> str list) list option" where
  "declared_test_classes co names suffix = (let ns = filter (\<lambda>n. n \<noteq> []) names in
     if ns = [] then None else declare_modules co suffix (dirs_by_name co) ns [])"

section \<open>The argument vector\<close>

type_synonym command = "str list"

definition has_prefix :: "str \<Rightarrow> command \<Rightarrow> bool" where
  "has_prefix p cmd = list_ex (\<lambda>a. startswith a p) cmd"

definition unless_given :: "str \<Rightarrow> str \<Rightarrow> command \<Rightarrow> command" where
  "unless_given prefix v cmd = (if has_prefix prefix cmd then cmd else cmd @ [prefix @ v])"

datatype command_error = PlainMavenTest | NoEnforcement

definition validate_command :: "command \<Rightarrow> command_error option" where
  "validate_command cmd =
     (if strip (join_with '' '' cmd) = ''mvn test'' then Some PlainMavenTest
      else if list_ex (\<lambda>a. contains a ''test.enforcement.enabled=true'' \<or> contains a ''test-enforcement'' \<or> contains a ''test.enforcer'') cmd
      then None else Some NoEnforcement)"

fun skip_value_of :: "(str \<Rightarrow> bool) \<Rightarrow> (str \<Rightarrow> bool) \<Rightarrow> command \<Rightarrow> command" where
  "skip_value_of takes_value drops [] = []"
| "skip_value_of takes_value drops (a # cmd) =
     (if takes_value a then skip_value_of takes_value drops (tl cmd)
      else if drops a then skip_value_of takes_value drops cmd
      else a # skip_value_of takes_value drops cmd)"

definition without_property :: "str \<Rightarrow> command \<Rightarrow> command" where
  "without_property p cmd = skip_value_of (\<lambda>a. a = ''-D'' @ p) (\<lambda>a. startswith a (''-D'' @ p @ ''='')) cmd"

definition without_project_selector :: "command \<Rightarrow> command" where
  "without_project_selector cmd = skip_value_of (\<lambda>a. a \<in> set [''-pl'', ''--projects''])
     (\<lambda>a. startswith a ''-pl='' \<or> startswith a ''--projects='') cmd"

definition property_value :: "command \<Rightarrow> str \<Rightarrow> str" where
  "property_value cmd p = (let prefix = ''-D'' @ p @ ''='' in
     case List.find (\<lambda>a. startswith a prefix) cmd of None \<Rightarrow> [] | Some a \<Rightarrow> drop (length prefix) a)"

definition simple_of :: "str \<Rightarrow> str" where
  "simple_of fqn = last (split_on (CHR ''.'') fqn)"

definition surefire_selector :: "str list \<Rightarrow> str list" where
  "surefire_selector tests = dedup (filter (\<lambda>s. s \<noteq> []) (map (\<lambda>t. strip (simple_of t)) tests))"

definition csv :: "str list \<Rightarrow> str" where
  "csv xs = join_with '','' xs"

definition with_target_tests :: "command \<Rightarrow> str list \<Rightarrow> command" where
  "with_target_tests cmd tests =
     (let cmd = unless_given ''-DtargetTests='' (csv tests) cmd;
          selector = csv (surefire_selector tests);
          cmd = (if selector = [] then cmd else unless_given ''-Dtest='' selector cmd) in
      if has_prefix ''-Dtest='' cmd
      then unless_given ''-Dsurefire.failIfNoSpecifiedTests='' ''false'' (unless_given ''-DfailIfNoTests='' ''false'' cmd)
      else cmd)"

definition java_name :: rx where
  "java_name = (let name = Then (Symbol name_start) (Many (Symbol name_part)) in
     Then name (Many (Then (literal ''.'') name)))"

definition is_excludable :: "str \<Rightarrow> bool" where
  "is_excludable name = (rx_full java_name (strip name) \<noteq> None)"

definition excludables :: "str list \<Rightarrow> str list" where
  "excludables names = map strip (filter is_excludable names)"

definition merged_csv :: "str \<Rightarrow> str list \<Rightarrow> str" where
  "merged_csv existing additions = (let old = listed existing in
     csv (fold (\<lambda>a vs. if a \<in> set vs then vs else vs @ [a]) additions old))"

definition with_excluded_tests :: "str list \<Rightarrow> command \<Rightarrow> command" where
  "with_excluded_tests drops cmd = without_property ''excludedTestClasses'' cmd
     @ [''-DexcludedTestClasses='' @ merged_csv (property_value cmd ''excludedTestClasses'') drops]"

definition max_selector_bytes :: nat where
  "max_selector_bytes = 96 * 1024"

definition utf8_length :: "str \<Rightarrow> nat" where
  "utf8_length s = sum_list (map (\<lambda>c. if code c < 128 then 1 else 2) s)"

definition with_selected_classes :: "command \<Rightarrow> str list \<Rightarrow> str list \<Rightarrow> command" where
  "with_selected_classes cmd kept excluded =
     (let keep = excludables kept; drops = excludables excluded; selector = ''-Dtest='' @ csv (surefire_selector keep) in
      if keep = [] \<or> drops = [] \<or> max_selector_bytes < utf8_length selector then cmd
      else unless_given ''-DfailIfNoTests='' ''false''
        (with_excluded_tests drops (without_property ''test'' cmd @ [selector])))"

definition with_selected_file :: "command \<Rightarrow> str \<Rightarrow> str list \<Rightarrow> command" where
  "with_selected_file cmd inventory excluded =
     (let drops = excludables excluded in
      if drops = [] then cmd
      else unless_given ''-Dsurefire.failIfNoSpecifiedTests='' ''false'' (unless_given ''-DfailIfNoTests='' ''false''
        (with_excluded_tests drops
          (without_property ''surefire.includesFile'' (without_property ''surefire.includes'' (without_property ''test'' cmd))
           @ [''-Dsurefire.includes=__uta_no_test_matches__'', ''-Dsurefire.includesFile='' @ inventory]))))"

definition with_changed_modules :: "command \<Rightarrow> str list \<Rightarrow> command" where
  "with_changed_modules cmd modules =
     (if modules = [] then cmd
      else let cmd = without_project_selector cmd @ [''-pl'', csv modules] in
        if list_ex (\<lambda>a. a \<in> set [''-am'', ''--also-make'']) cmd then cmd else cmd @ [''-am''])"

definition with_target_sources :: "command \<Rightarrow> str list \<Rightarrow> command" where
  "with_target_sources cmd sources =
     (if sources = [] then cmd
      else without_property ''test.enforcement.targetSources'' (without_property ''test.enforcement.targetSource'' cmd)
        @ [''-Dtest.enforcement.targetSources='' @ csv sources])"

definition sources_in :: "str \<Rightarrow> str list" where
  "sources_in a = (let many = ''-Dtest.enforcement.targetSources=''; one = ''-Dtest.enforcement.targetSource='' in
     if startswith a many then listed (drop (length many) a)
     else if startswith a one then listed (drop (length one) a) else [])"

definition explicit_target_sources :: "command \<Rightarrow> str list" where
  "explicit_target_sources cmd = dedup (concat (map sources_in cmd))"

definition plain_path :: "str \<Rightarrow> str" where
  "plain_path p = swap_char backslash (CHR ''/'') p"

definition changed_files_matching :: "str list \<Rightarrow> str list \<Rightarrow> str list" where
  "changed_files_matching changed explicit =
     (let wanted = map (\<lambda>v. dropWhile (\<lambda>c. c \<in> set ''./'') (plain_path v)) explicit in
      filter (\<lambda>p. list_ex (\<lambda>v. endswith (plain_path p) v \<or> endswith v (plain_path p)) wanted) changed)"

definition scoped_production :: "command \<Rightarrow> str list \<Rightarrow> str list" where
  "scoped_production cmd changed = (let explicit = explicit_target_sources cmd;
       scoped = (if explicit = [] then [] else changed_files_matching changed explicit) in
     if scoped = [] then changed else scoped)"

section \<open>The gates on the command line\<close>

text \<open>\<open>f"{value:g}"\<close> of a number that is no integer is a parameter.\<close>

definition gate_percent_value :: "(rat \<Rightarrow> str) \<Rightarrow> rat \<Rightarrow> str" where
  "gate_percent_value show_g v = (if of_int \<lfloor>v\<rfloor> = v then int_str \<lfloor>v\<rfloor> else show_g v)"

definition drop_trailing :: "char \<Rightarrow> str \<Rightarrow> str" where
  "drop_trailing c s = rev (dropWhile (\<lambda>d. d = c) (rev s))"

definition coverage_gate_ratio_value :: "rat \<Rightarrow> str" where
  "coverage_gate_ratio_value gate = drop_trailing (CHR ''.'') (drop_trailing (CHR ''0'')
     (fixed_point 4 (if 1 < gate then gate / 100 else gate)))"

definition coverage_gate_property :: str where
  "coverage_gate_property = ''test.enforcement.diff.coverage.minLines''"

definition mutation_gate_property :: str where
  "mutation_gate_property = ''test.enforcement.pitest.testStrengthThreshold''"

definition with_gate_properties :: "(rat \<Rightarrow> str) \<Rightarrow> rat \<Rightarrow> rat \<Rightarrow> command \<Rightarrow> command" where
  "with_gate_properties show_g coverage mutation cmd =
     without_property mutation_gate_property (without_property coverage_gate_property cmd)
     @ [''-D'' @ coverage_gate_property @ ''='' @ coverage_gate_ratio_value coverage,
        ''-D'' @ mutation_gate_property @ ''='' @ gate_percent_value show_g mutation]"

end
