(* ===== verification/FailingTests.thy ===== *)
theory FailingTests
  imports MavenPlanning
begin

text \<open>
  Which failing tests a change is answerable for, and which leave both gates
  (\<open>uta/language/java/enforcement_runner/failing_test_scope.py\<close>). An inventory lists the test classes of
  every module; the lists stand for sets.
\<close>

section \<open>The partition\<close>

record partition =
  pt_excluded :: "str list"
  pt_collateral :: "str list"
  pt_retained :: "str list"
  pt_reason :: str

type_synonym inventory = "(str \<times> str list) list"

definition all_excluded :: "partition \<Rightarrow> str list" where
  "all_excluded p = pt_excluded p @ pt_collateral p"

definition references_any :: "checkout \<Rightarrow> str \<Rightarrow> str list \<Rightarrow> bool" where
  "references_any co fqn names = list_ex (\<lambda>path. list_ex (test_targets_type co path) names) (test_paths_for co fqn)"

definition changed_test_classes :: "str list \<Rightarrow> str list" where
  "changed_test_classes changed = List.map_filter test_fqn_of changed"

text \<open>A class that cannot be named to Maven, was changed or generated, or names a changed type.\<close>

definition related :: "checkout \<Rightarrow> str list \<Rightarrow> str list \<Rightarrow> str list \<Rightarrow> str \<Rightarrow> bool" where
  "related co changed production generated fqn =
     (\<not> is_excludable fqn \<or> fqn \<in> set (changed_test_classes changed)
      \<or> fqn \<in> set (filter (\<lambda>g. g \<noteq> []) (map strip generated))
      \<or> references_any co fqn (map path_stem production))"

definition partition_failing ::
  "checkout \<Rightarrow> str list option \<Rightarrow> str list option \<Rightarrow> str list \<Rightarrow> str list \<Rightarrow> partition" where
  "partition_failing co changed production generated failing =
     (if failing = [] then \<lparr>pt_excluded = [], pt_collateral = [], pt_retained = [], pt_reason = ''no-failures''\<rparr>
      else (case changed of
          None \<Rightarrow> \<lparr>pt_excluded = [], pt_collateral = [], pt_retained = failing, pt_reason = ''no-diff-available''\<rparr>
        | Some ps \<Rightarrow>
            (let names = filter (\<lambda>f. f \<noteq> []) (map strip failing);
                 mine = related co ps (case production of None \<Rightarrow> [] | Some qs \<Rightarrow> qs) generated;
                 excluded = filter (\<lambda>f. \<not> mine f) names; retained = filter mine names in
             \<lparr>pt_excluded = excluded, pt_collateral = [], pt_retained = retained,
              pt_reason = (if excluded = [] then ''all-failures-related'' else [])\<rparr>)))"

definition without_exclusions :: "partition \<Rightarrow> str \<Rightarrow> partition" where
  "without_exclusions p reason = p\<lparr>pt_excluded := [], pt_collateral := [],
     pt_retained := pt_retained p @ pt_excluded p, pt_reason := reason\<rparr>"

section \<open>Names that Surefire cannot tell apart\<close>

definition known_classes :: "inventory \<Rightarrow> str list" where
  "known_classes iv = remdups (concat (map snd iv))"

definition named_like :: "inventory \<Rightarrow> str \<Rightarrow> str list" where
  "named_like iv name = filter (\<lambda>c. simple_of c = name) (known_classes iv)"

definition ambiguous :: "inventory \<Rightarrow> str \<Rightarrow> bool" where
  "ambiguous iv name = (1 < length (named_like iv name))"

definition expanded_names :: "inventory \<Rightarrow> str list \<Rightarrow> str list" where
  "expanded_names iv excluded = filter (\<lambda>c. ambiguous iv (simple_of c) \<and> simple_of c \<in> simple_of ` set excluded) (known_classes iv)"

definition expand_collisions :: "inventory \<Rightarrow> partition \<Rightarrow> partition" where
  "expand_collisions iv p =
     (if all_excluded p = [] then p
      else let expanded = expanded_names iv (pt_excluded p);
               added = sort (filter (\<lambda>c. c \<notin> set (pt_excluded p)) expanded) in
        if added = [] then p
        else p\<lparr>pt_collateral := pt_collateral p @ added,
               pt_retained := filter (\<lambda>c. c \<notin> set expanded) (pt_retained p),
               pt_reason := ''simple-name-collision-expanded''\<rparr>)"

section \<open>Modules that would have no tests\<close>

definition forced :: "inventory \<Rightarrow> str list \<Rightarrow> str \<Rightarrow> bool" where
  "forced iv excluded name = (ambiguous iv name \<and> set (named_like iv name) \<subseteq> set excluded)"

definition emptied :: "str list \<Rightarrow> str list \<Rightarrow> bool" where
  "emptied excluded classes = (classes \<noteq> [] \<and> set classes \<subseteq> set excluded)"

definition protected_classes :: "inventory \<Rightarrow> str list \<Rightarrow> str list" where
  "protected_classes iv excluded = concat (map (\<lambda>(m, cs).
     if emptied excluded cs then filter (\<lambda>c. \<not> forced iv excluded (simple_of c)) cs else []) iv)"

definition keep_modules_tested :: "inventory \<Rightarrow> partition \<Rightarrow> partition" where
  "keep_modules_tested iv p =
     (if all_excluded p = [] then p
      else let guarded = protected_classes iv (all_excluded p) in
        if guarded = [] then p
        else let kept = filter (\<lambda>c. c \<notin> set guarded) (pt_excluded p);
                 collateral = filter (\<lambda>c. c \<notin> set guarded) (pt_collateral p);
                 q = p\<lparr>pt_excluded := kept, pt_collateral := collateral,
                       pt_retained := pt_retained p @ filter (\<lambda>c. c \<in> set guarded) (pt_excluded p)\<rparr> in
          if kept = [] \<and> collateral = [] then q\<lparr>pt_reason := ''would-empty-module-suite''\<rparr> else q)"

definition narrowed :: "inventory \<Rightarrow> partition \<Rightarrow> partition" where
  "narrowed iv p = keep_modules_tested iv (expand_collisions iv p)"

section \<open>Facts\<close>

lemma known_iff: "c \<in> set (known_classes iv) \<longleftrightarrow> (\<exists>(m, cs) \<in> set iv. c \<in> set cs)"
  by (force simp: known_classes_def)

lemma named_iff: "c \<in> set (named_like iv n) \<longleftrightarrow> c \<in> set (known_classes iv) \<and> simple_of c = n"
  by (auto simp: named_like_def)

lemma distinct_named: "distinct (named_like iv n)"
  by (simp add: named_like_def known_classes_def)

lemma ambiguousI: "c \<in> set (known_classes iv) \<Longrightarrow> d \<in> set (known_classes iv) \<Longrightarrow> c \<noteq> d \<Longrightarrow> simple_of c = simple_of d
    \<Longrightarrow> ambiguous iv (simple_of d)"
proof -
  assume "c \<in> set (known_classes iv)" "d \<in> set (known_classes iv)" "c \<noteq> d" "simple_of c = simple_of d"
  then have "{c, d} \<subseteq> set (named_like iv (simple_of d))" "card {c, d} = 2" by (auto simp: named_iff)
  then show ?thesis unfolding ambiguous_def
    by (metis One_nat_def card_length card_mono distinct_card distinct_named finite_set less_le_trans lessI numeral_2_eq_2)
qed

text \<open>Only collateral is added, whole names at a time.\<close>

lemma expand_excluded: "pt_excluded (expand_collisions iv p) = pt_excluded p"
  by (simp add: expand_collisions_def Let_def)

lemma expand_all:
  assumes "all_excluded p \<noteq> []" "pt_collateral p = []"
  shows "set (all_excluded (expand_collisions iv p)) = set (pt_excluded p) \<union> set (expanded_names iv (pt_excluded p))"
proof (cases "filter (\<lambda>c. c \<notin> set (pt_excluded p)) (expanded_names iv (pt_excluded p)) = []")
  case True
  then have "set (expanded_names iv (pt_excluded p)) \<subseteq> set (pt_excluded p)" by (auto simp: filter_empty_conv)
  with True assms show ?thesis by (auto simp: expand_collisions_def all_excluded_def Let_def)
next
  case False
  then have "sort (filter (\<lambda>c. c \<notin> set (pt_excluded p)) (expanded_names iv (pt_excluded p))) \<noteq> []"
    by (metis set_empty set_sort)
  with assms show ?thesis by (auto simp: expand_collisions_def all_excluded_def Let_def)
qed

text \<open>The set of excluded classes holds a name wholly or not at all.\<close>

definition name_closed :: "inventory \<Rightarrow> str set \<Rightarrow> bool" where
  "name_closed iv A \<longleftrightarrow> (\<forall>c \<in> set (known_classes iv). \<forall>e \<in> A. simple_of c = simple_of e \<longrightarrow> c \<in> A)"

lemma expand_closed:
  assumes "set (pt_excluded p) \<subseteq> set (known_classes iv)" "pt_collateral p = []"
  shows "name_closed iv (set (all_excluded (expand_collisions iv p)))"
proof (cases "all_excluded p = []")
  case True
  then show ?thesis by (simp add: name_closed_def expand_collisions_def)
next
  case False
  let ?A = "set (pt_excluded p) \<union> set (expanded_names iv (pt_excluded p))"
  have "c \<in> ?A" if c: "c \<in> set (known_classes iv)" "e \<in> ?A" "simple_of c = simple_of e" for c e
  proof -
    obtain x where x: "x \<in> set (pt_excluded p)" "simple_of x = simple_of e"
      using c(2) by (auto simp: expanded_names_def)
    show ?thesis
    proof (cases "c = x")
      case False
      with x c assms have "ambiguous iv (simple_of c)" by (metis ambiguousI subsetD)
      with x c show ?thesis by (auto simp: expanded_names_def)
    qed (use x in simp)
  qed
  then show ?thesis using expand_all [OF False assms(2)] by (auto simp: name_closed_def)
qed

lemma kept_tested_all:
  "set (all_excluded (keep_modules_tested iv p)) = set (all_excluded p) - set (protected_classes iv (all_excluded p))"
proof (cases "all_excluded p = [] \<or> protected_classes iv (all_excluded p) = []")
  case True
  then show ?thesis by (auto simp: keep_modules_tested_def)
next
  case False
  define G where "G = set (protected_classes iv (all_excluded p))"
  have "all_excluded (keep_modules_tested iv p) = filter (\<lambda>c. c \<notin> G) (pt_excluded p) @ filter (\<lambda>c. c \<notin> G) (pt_collateral p)"
    using False unfolding keep_modules_tested_def G_def by (simp add: Let_def all_excluded_def)
  then show ?thesis by (auto simp: G_def all_excluded_def)
qed

lemma keep_closed:
  assumes "name_closed iv (set (all_excluded p))" "set (all_excluded p) \<subseteq> set (known_classes iv)"
  shows "name_closed iv (set (all_excluded (keep_modules_tested iv p)))"
proof -
  let ?A = "set (all_excluded p)" and ?G = "set (protected_classes iv (all_excluded p))"
  have "c \<in> ?A - ?G" if c: "c \<in> set (known_classes iv)" "e \<in> ?A - ?G" "simple_of c = simple_of e" for c e
  proof -
    have A: "c \<in> ?A" using assms(1) c by (auto simp: name_closed_def)
    moreover have "c \<notin> ?G"
    proof
      assume g: "c \<in> ?G"
      then have free: "\<not> forced iv (all_excluded p) (simple_of c)"
        by (auto simp: protected_classes_def split: if_splits)
      have "c \<noteq> e" using g c by auto
      then have "ambiguous iv (simple_of c)" using c assms(2) by (metis DiffD1 ambiguousI subsetD)
      moreover have "set (named_like iv (simple_of c)) \<subseteq> ?A"
        using assms(1) A unfolding name_closed_def subset_iff named_iff by blast
      ultimately show False using free by (simp add: forced_def)
    qed
    ultimately show ?thesis by simp
  qed
  then show ?thesis unfolding name_closed_def kept_tested_all by blast
qed

lemma expand_known:
  assumes "set (pt_excluded p) \<subseteq> set (known_classes iv)" "pt_collateral p = []"
  shows "set (all_excluded (expand_collisions iv p)) \<subseteq> set (known_classes iv)"
proof (cases "all_excluded p = []")
  case False
  from expand_all [OF this assms(2)] assms(1) show ?thesis by (auto simp: expanded_names_def)
qed (simp add: expand_collisions_def)

text \<open>What is kept never shares a name with what is excluded, and no module is emptied but by such names.\<close>

lemma narrowed_closed:
  assumes "set (pt_excluded p) \<subseteq> set (known_classes iv)" "pt_collateral p = []"
  shows "name_closed iv (set (all_excluded (narrowed iv p)))"
  unfolding narrowed_def by (rule keep_closed [OF expand_closed [OF assms] expand_known [OF assms]])

lemma narrowed_tested:
  assumes "(m, cs) \<in> set iv" "emptied (all_excluded (narrowed iv p)) cs"
  shows "list_all (\<lambda>c. ambiguous iv (simple_of c)) cs"
proof -
  let ?p = "expand_collisions iv p"
  have sub: "set cs \<subseteq> set (all_excluded ?p) - set (protected_classes iv (all_excluded ?p))" "cs \<noteq> []"
    using assms(2) kept_tested_all [of iv ?p] by (auto simp: emptied_def narrowed_def)
  then have "emptied (all_excluded ?p) cs" by (auto simp: emptied_def)
  then have "\<forall>c \<in> set cs. forced iv (all_excluded ?p) (simple_of c)"
    using sub(1) assms(1) by (fastforce simp: protected_classes_def)
  then show ?thesis by (simp add: list_all_iff forced_def)
qed

text \<open>The partition itself accounts for every failing class.\<close>

lemma partition_accounts:
  assumes "changed = Some ps" "failing \<noteq> []"
  shows "set (pt_excluded (partition_failing co changed production generated failing))
       \<union> set (pt_retained (partition_failing co changed production generated failing)) = strip ` set failing - {[]}"
  using assms by (auto simp: partition_failing_def Let_def)

lemma partition_keeps_related:
  "c \<in> set (pt_excluded (partition_failing co (Some ps) production generated failing)) \<Longrightarrow>
     \<not> related co ps (case production of None \<Rightarrow> [] | Some qs \<Rightarrow> qs) generated c"
  by (auto simp: partition_failing_def Let_def split: if_splits)

end
