(* ===== verification/MavenLauncher.thy ===== *)
theory MavenLauncher
  imports MavenPlanning
begin

text \<open>
  The launcher of a Maven run (\<open>uta/language/java/maven_compat/launcher.py\<close>) and what
  \<open>enforcement_runner/execution.py\<close> adds to the command: the extension that makes PIT's completion
  checkable, a fresh nonce for every run, and the check of the evidence file afterwards. Paths compare
  as texts; directories, hashes and the environment answer from outside.
\<close>

section \<open>Faults\<close>

record completed =
  cp_args :: "command option"
  cp_code :: int
  cp_out :: str
  cp_err :: str

record pit_failure =
  pf_text :: str
  pf_modules :: "pydict list"
  pf_completed :: "completed option"
  pf_diagnostics :: pydict

definition pit_failure_of :: "str \<Rightarrow> pit_failure" where
  "pit_failure_of msg = \<lparr>pf_text = msg, pf_modules = [], pf_completed = None, pf_diagnostics = []\<rparr>"

definition compat_lines :: "str \<Rightarrow> str list" where
  "compat_lines out = filter (\<lambda>l. contains l ''[uta-pit-compat]'' \<and> \<not> contains l ''verified module='') (splitlines out)"

definition compatibility_failure :: "str \<Rightarrow> pit_failure option" where
  "compatibility_failure out = (case compat_lines out of [] \<Rightarrow> None
     | ls \<Rightarrow> Some (pit_failure_of (take 2000 (last ls))))"

section \<open>Properties on a command line\<close>

text \<open>Both spellings, \<open>-Dkey=value\<close> and \<open>-D key=value\<close>; the last one counts.\<close>

fun given_values :: "command \<Rightarrow> str list" where
  "given_values [] = []"
| "given_values (a # cmd) = (if a = ''-D'' \<and> cmd \<noteq> [] then hd cmd else if startswith a ''-D'' then drop 2 a else [])
     # given_values cmd"

definition given :: "command \<Rightarrow> str \<Rightarrow> str option" where
  "given cmd key = (case filter (\<lambda>v. startswith v (key @ ''='')) (given_values cmd) of
     [] \<Rightarrow> None | vs \<Rightarrow> Some (drop (Suc (length key)) (last vs)))"

definition ext_key :: str where "ext_key = ''maven.ext.class.path''"
definition evidence_key :: str where "evidence_key = ''uta.pit.compat.evidence''"
definition invocation_key :: str where "invocation_key = ''uta.pit.compat.invocation''"

definition other_paths :: "str \<Rightarrow> str \<Rightarrow> str list" where
  "other_paths jar paths = filter (\<lambda>p. p \<noteq> [] \<and> p \<noteq> jar) (split_on (CHR '':'') paths)"

definition path_list :: "str list \<Rightarrow> str" where
  "path_list ps = join_with '':'' ps"

text \<open>A command that does not verify must not inherit the extension of a run that did.\<close>

definition kept_property :: "str \<Rightarrow> str \<Rightarrow> command \<Rightarrow> command" where
  "kept_property jar v as_given =
     (if startswith v ''uta.pit.compat.'' then []
      else if startswith v (ext_key @ ''='') then
        (let ps = other_paths jar (drop (Suc (length ext_key)) v) in
         if ps = [] then [] else [''-D'' @ ext_key @ ''='' @ path_list ps])
      else as_given)"

fun metadata_command :: "str \<Rightarrow> command \<Rightarrow> command" where
  "metadata_command jar [] = []"
| "metadata_command jar [a] = kept_property jar (if startswith a ''-D'' then drop 2 a else []) [a]"
| "metadata_command jar (a # b # cmd) =
     (if a = ''-D'' then kept_property jar b [a, b] @ metadata_command jar cmd
      else kept_property jar (if startswith a ''-D'' then drop 2 a else []) [a] @ metadata_command jar (b # cmd))"

fun without_extension :: "command \<Rightarrow> command" where
  "without_extension [] = []"
| "without_extension [a] =
     (if startswith a (''-D'' @ ext_key @ ''='') \<or> startswith a ''-Duta.pit.compat.'' then [] else [a])"
| "without_extension (a # b # cmd) =
     (if a = ''-D'' \<and> startswith b (ext_key @ ''='') then without_extension cmd
      else if startswith a (''-D'' @ ext_key @ ''='') \<or> startswith a ''-Duta.pit.compat.'' then without_extension (b # cmd)
      else a # without_extension (b # cmd))"

definition unless_property :: "str \<Rightarrow> str \<Rightarrow> command \<Rightarrow> command" where
  "unless_property key v cmd = (if given cmd key = None then cmd @ [''-D'' @ key @ ''='' @ v] else cmd)"

text \<open>
  What the launcher finds around it: the artifact (its jar, and why it cannot be used), whether a JVM
  variable or a file under \<open>.mvn\<close> configures extensions, and the directory made for the nonce.
\<close>

record launch_site =
  ls_jar :: str
  ls_artifact_fault :: "str option"
  ls_jvm_extension :: bool
  ls_mvn_extension :: bool
  ls_nonce :: str
  ls_directory :: "str + str"

definition enforcing_command :: "launch_site \<Rightarrow> command \<Rightarrow> str + command" where
  "enforcing_command site cmd =
     ebind (case ls_artifact_fault site of Some e \<Rightarrow> Inl e | None \<Rightarrow> Inr ()) (\<lambda>_.
     ebind (check_that (\<not> ls_jvm_extension site)
       ''Move existing JVM extension configuration to Maven -Dmaven.ext.class.path before enforcement'') (\<lambda>_.
     ebind (check_that (\<not> ls_mvn_extension site) ''Move existing .mvn extension classpath to the enforcement command'') (\<lambda>_.
     ebind (eforeach (\<lambda>k. check_that (given cmd k = None) (''Reserved diff-enforcement scope property: '' @ k))
       [''skipPitest'', ''targetClasses'', ''excludedMethods'']) (\<lambda>_.
     ebind (ls_directory site) (\<lambda>dir.
       let paths = other_paths (ls_jar site) (case given cmd ext_key of None \<Rightarrow> [] | Some v \<Rightarrow> v) @ [ls_jar site];
           cmd = without_extension cmd
             @ [''-D'' @ ext_key @ ''='' @ path_list paths, ''-Duta.pit.compat.intent=diff-enforcement'',
                ''-D'' @ invocation_key @ ''='' @ ls_nonce site, ''-D'' @ evidence_key @ ''='' @ dir @ ''/completion.xml'',
                ''-Dtest.enforcement.enabled=true'']
       in Inr (unless_property ''skipFailingTests'' ''true'' (unless_property mutation_gate_property ''100''
            (unless_property ''targetTests'' ''*'' cmd))))))))"

definition prepared_command :: "launch_site \<Rightarrow> command \<Rightarrow> pit_failure + command" where
  "prepared_command site cmd =
     (if ''verify'' \<notin> set cmd then Inr (metadata_command (ls_jar site) cmd)
      else (case enforcing_command site cmd of Inl e \<Rightarrow> Inl (pit_failure_of e) | Inr c \<Rightarrow> Inr c))"

section \<open>The evidence of completion\<close>

text \<open>\<open>Inl\<close>: the file cannot be read, with the state, the detail and the entries of its directory.\<close>

record completion =
  cn_tag :: str
  cn_invocation :: "str option"
  cn_complete :: "str option"
  cn_modules :: "pydict list"

type_synonym completion_file = "(str \<times> str \<times> str list option) + completion"

definition or_none :: "str option \<Rightarrow> pyval" where
  "or_none x = (case x of None \<Rightarrow> PNone | Some s \<Rightarrow> PStr s)"

definition unreadable_evidence :: "str \<Rightarrow> str \<times> str \<times> str list option \<Rightarrow> pit_failure" where
  "unreadable_evidence path = (\<lambda>(state, detail, entries).
     (pit_failure_of (''Missing or invalid PIT compatibility completion evidence ('' @ state @ '') -- '' @ detail))
       \<lparr>pf_diagnostics := [(''evidencePath'', PStr path), (''evidenceState'', PStr state), (''detail'', PStr detail)]
          @ (case entries of None \<Rightarrow> [] | Some es \<Rightarrow> [(''directoryEntries'', PList (map PStr (take 50 es)))])\<rparr>)"

definition module_settled :: "pydict \<Rightarrow> bool" where
  "module_settled m = (get m ''state'' \<in> {PStr ''skipped'', PStr ''completed''})"

definition module_id :: "pydict \<Rightarrow> str" where
  "module_id m = (case get m ''id'' of PStr i \<Rightarrow> if i = [] then ''?'' else i | _ \<Rightarrow> ''?'')"

definition incomplete_evidence :: "str \<Rightarrow> pydict list \<Rightarrow> str \<Rightarrow> pit_failure" where
  "incomplete_evidence msg modules path =
     (let open_modules = map module_id (filter (\<lambda>m. \<not> module_settled m) modules);
          text = msg @ (if open_modules = [] then [] else '': '' @ join_with '', '' open_modules) in
      \<lparr>pf_text = text, pf_modules = modules, pf_completed = None,
       pf_diagnostics = [(''evidencePath'', PStr path), (''evidenceState'', PStr ''parsed''), (''modules'', PList (map PDict modules))]\<rparr>)"

definition invocation_mismatch :: "str \<Rightarrow> str option \<Rightarrow> str option \<Rightarrow> pit_failure" where
  "invocation_mismatch path recorded expected =
     (pit_failure_of ''PIT compatibility completion invocation mismatch'')
       \<lparr>pf_diagnostics := [(''evidencePath'', PStr path), (''evidenceState'', PStr ''invocation-mismatch''),
          (''recorded'', or_none recorded), (''expected'', or_none expected)]\<rparr>"

definition checked_completion :: "str \<Rightarrow> str option \<Rightarrow> completion_file \<Rightarrow> pit_failure + pydict" where
  "checked_completion path expected file = (case file of
     Inl u \<Rightarrow> Inl (unreadable_evidence path u)
   | Inr c \<Rightarrow>
       if cn_tag c \<noteq> ''pitCompatibility'' \<or> cn_invocation c \<noteq> expected
       then Inl (invocation_mismatch path (cn_invocation c) expected)
       else if cn_complete c \<noteq> Some ''true''
       then Inl (incomplete_evidence ''PIT compatibility did not verify every obligated module'' (cn_modules c) path)
       else if \<not> list_all module_settled (cn_modules c)
       then Inl (incomplete_evidence ''PIT compatibility module completion is missing'' (cn_modules c) path)
       else Inr [(''invocation'', or_none (cn_invocation c)), (''modules'', PList (map PDict (cn_modules c))),
                 (''artifactVersion'', PStr ''1.0.0'')])"

text \<open>A command without an evidence file has nothing to check.\<close>

definition validate_completion :: "(str \<Rightarrow> completion_file) \<Rightarrow> command \<Rightarrow> pit_failure + pydict" where
  "validate_completion read cmd = (case given cmd evidence_key of
     None \<Rightarrow> Inr []
   | Some path \<Rightarrow> if path = [] then Inr [] else checked_completion path (given cmd invocation_key) (read path))"

section \<open>What the runner adds to the command\<close>

definition without_global_settings :: "command \<Rightarrow> command" where
  "without_global_settings cmd = skip_value_of (\<lambda>a. a \<in> set [''-gs'', ''--global-settings''])
     (\<lambda>a. startswith a ''--global-settings='') cmd"

definition with_central_mirror :: "str \<Rightarrow> str \<Rightarrow> command \<Rightarrow> command" where
  "with_central_mirror url settings cmd =
     (if url = [] then cmd else without_global_settings cmd @ [''-gs'', settings])"

fun inner_text :: "element \<Rightarrow> str" where
  "inner_text (Element t x cs) = x @ concat (map inner_text cs)"

definition early_argline :: "element \<Rightarrow> bool" where
  "early_argline pom = list_ex (\<lambda>e. has_tag ''argLine'' e \<and> contains (inner_text e) ''${argLine}''
     \<and> \<not> contains (inner_text e) (CHR ''@'' # ''{argLine}'')) (all_elements pom)"

definition uses_early_argline :: "checkout \<Rightarrow> bool" where
  "uses_early_argline co = list_ex (\<lambda>(path, pom). file_name path = ''pom.xml''
     \<and> list_all (\<lambda>d. d \<notin> set [''.git'', ''target'']) (components path) \<and> early_argline pom) (co_poms co)"

text \<open>The agent is the newest one in a local repository.\<close>

definition with_jacoco_bridge :: "checkout \<Rightarrow> (command \<Rightarrow> str option) \<Rightarrow> command \<Rightarrow> command" where
  "with_jacoco_bridge co agent cmd =
     (if ''verify'' \<notin> set cmd \<or> ''-Dtest.enforcement.enabled=true'' \<notin> set cmd \<or> has_prefix ''-DargLine='' cmd
         \<or> \<not> uses_early_argline co then cmd
      else (case agent cmd of None \<Rightarrow> cmd
        | Some a \<Rightarrow> cmd @ [''-DargLine=-javaagent:'' @ a @ ''=destfile=target/jacoco.exec,append=true'']))"

section \<open>Facts\<close>

lemma given_values_append:
  "xs \<noteq> [] \<Longrightarrow> last xs \<noteq> ''-D'' \<Longrightarrow> given_values (xs @ ys) = given_values xs @ given_values ys"
proof (induction xs)
  case (Cons a xs)
  then show ?case by (cases xs) auto
qed simp

text \<open>A run that verified completely has evidence of this very invocation.\<close>

lemma validated_completion:
  assumes "validate_completion read cmd = Inr d" "given cmd evidence_key = Some path" "path \<noteq> []"
  shows "\<exists>c. read path = Inr c \<and> cn_invocation c = given cmd invocation_key \<and> cn_complete c = Some ''true''
    \<and> list_all module_settled (cn_modules c)"
  using assms by (auto simp: validate_completion_def checked_completion_def split: sum.splits if_splits)

end
