(* ===== verification/MavenGate.thy ===== *)
theory MavenGate
  imports FailingTests MavenLauncher
begin

text \<open>
  The Java gate: \<open>MavenEnforcementRunner\<close> with its evidence, its verdict over one completed run, its
  handling of hanging tests and the rerun without unrelated failures
  (\<open>uta/language/java/enforcement_runner/\<close>: \<open>__init__.py\<close>, \<open>evidence.py\<close>, \<open>classification.py\<close>,
  \<open>hanging.py\<close>). Maven, git, the clock, the file system and the quarantine store are ports on a
  world; a run of Maven changes the world. The settings file of the mirror can be written. \<open>gw_runs\<close> lists the runs for the statements and is never read.
\<close>

section \<open>Results and ports\<close>

datatype gate_status = GatePassed | GateFailed | GateTimeout | GateCommandError | GateMissingEvidence | GateSkipped

record gate_verdict =
  gv_status :: gate_status
  gv_passed :: bool
  gv_command :: command
  gv_code :: "int option"
  gv_out :: str
  gv_err :: str
  gv_summary :: str
  gv_evidence :: "pydict option"

datatype maven_fault = TimedOut str str | CannotStart str | PitIncompatible pit_failure

text \<open>What leaves \<open>run\<close> as an exception.\<close>

datatype gate_fault = BadCommand command_error | RerunTimedOut

record 'w maven_ports =
  mp_checkout :: "'w \<Rightarrow> checkout"
  mp_diff :: "'w \<Rightarrow> int \<times> str"
  mp_words :: "str \<Rightarrow> str list"
  mp_now :: "'w \<Rightarrow> rat"
  mp_site :: "'w \<Rightarrow> launch_site \<times> 'w"
  mp_settings :: "'w \<Rightarrow> str \<times> 'w"
  mp_agent :: "'w \<Rightarrow> command \<Rightarrow> str option"
  mp_maven :: "command \<Rightarrow> rat \<Rightarrow> 'w \<Rightarrow> (maven_fault + completed) \<times> 'w"
  mp_completion :: "'w \<Rightarrow> str \<Rightarrow> completion_file"
  mp_effective_pom :: "'w \<Rightarrow> element option"
  mp_pom_output :: "'w \<Rightarrow> str"
  mp_quality :: "'w \<Rightarrow> str list \<Rightarrow> pydict option"
  mp_failed_tests :: "'w \<Rightarrow> pydict list"
  mp_inventory :: "str list \<Rightarrow> 'w \<Rightarrow> str option \<times> 'w"
  mp_clear :: "str list \<Rightarrow> 'w \<Rightarrow> 'w"
  mp_quarantined :: "'w \<Rightarrow> str list"
  mp_observe :: "str \<Rightarrow> str \<Rightarrow> 'w \<Rightarrow> 'w"
  mp_show_g :: "rat \<Rightarrow> str"

record 'w gate_world =
  gw_env :: 'w
  gw_runs :: "(command \<times> (maven_fault + completed)) list"

type_synonym ('w, 'a) gate = "('w gate_world, gate_fault, 'a) prog"

record runner =
  rn_command :: str
  rn_timeout :: int
  rn_base_ref :: str
  rn_coverage_gate :: rat
  rn_mutation_gate :: rat
  rn_mirror :: str
  rn_full_run :: bool
  rn_exclude_unrelated :: bool
  rn_stall_detection :: bool
  rn_stall_seconds :: int
  rn_stall_retries :: nat
  rn_quarantine :: bool
  rn_store :: bool
  rn_generated :: "str list"

text \<open>The constructor clamps what it is given.\<close>

definition clamped_stall :: "int \<Rightarrow> int \<Rightarrow> int" where
  "clamped_stall stall timeout = min (max 1 stall) timeout"

definition clamped_retries :: "int \<Rightarrow> nat" where
  "clamped_retries n = nat (min (max 0 n) 3)"

definition reading :: "('w \<Rightarrow> 'a) \<Rightarrow> ('w, 'a) gate" where
  "reading f = reads (\<lambda>s. f (gw_env s))"

definition acting :: "('w \<Rightarrow> 'a \<times> 'w) \<Rightarrow> ('w, 'a) gate" where
  "acting f s = (case f (gw_env s) of (x, w) \<Rightarrow> (Inr x, s\<lparr>gw_env := w\<rparr>))"

section \<open>One run of Maven\<close>

text \<open>\<open>_run_command\<close>: prepare, run, and see whether PIT's bookkeeping allows the outcome.\<close>

definition full_command :: "runner \<Rightarrow> 'w maven_ports \<Rightarrow> command \<Rightarrow> ('w, pit_failure + command) gate" where
  "full_command rn p cmd =
     seq (if rn_mirror rn = [] then ret cmd
          else seq (acting (mp_settings p)) (\<lambda>path. ret (with_central_mirror (rn_mirror rn) path cmd))) (\<lambda>cmd.
     seq (reading (\<lambda>w. with_jacoco_bridge (mp_checkout p w) (mp_agent p w) cmd)) (\<lambda>cmd.
     seq (if ''verify'' \<in> set cmd then acting (mp_site p) else reading (\<lambda>w. fst (mp_site p w))) (\<lambda>site.
     ret (prepared_command site cmd))))"

definition logged_run :: "'w maven_ports \<Rightarrow> command \<Rightarrow> rat \<Rightarrow> ('w, maven_fault + completed) gate" where
  "logged_run p cmd timeout s = (case mp_maven p cmd timeout (gw_env s) of
     (r, w) \<Rightarrow> (Inr r, s\<lparr>gw_env := w, gw_runs := gw_runs s @ [(cmd, r)]\<rparr>))"

definition judged_run :: "(str \<Rightarrow> completion_file) \<Rightarrow> command \<Rightarrow> completed \<Rightarrow> maven_fault + completed" where
  "judged_run read cmd c =
     (if cp_code c \<noteq> 0 then
        (case compatibility_failure (cp_out c @ newline # cp_err c) of
           None \<Rightarrow> Inr c | Some f \<Rightarrow> Inl (PitIncompatible (f\<lparr>pf_completed := Some c\<rparr>)))
      else (case validate_completion read cmd of
           Inr _ \<Rightarrow> Inr c | Inl f \<Rightarrow> Inl (PitIncompatible (f\<lparr>pf_completed := Some c\<rparr>))))"

definition run_command :: "runner \<Rightarrow> 'w maven_ports \<Rightarrow> command \<Rightarrow> rat option \<Rightarrow> ('w, maven_fault + completed) gate" where
  "run_command rn p cmd timeout =
     seq (full_command rn p cmd) (\<lambda>r. case r of
         Inl f \<Rightarrow> ret (Inl (PitIncompatible f))
       | Inr cmd \<Rightarrow> seq (logged_run p cmd (case timeout of None \<Rightarrow> of_int (rn_timeout rn) | Some t \<Rightarrow> t)) (\<lambda>r. case r of
             Inl f \<Rightarrow> ret (Inl f)
           | Inr c \<Rightarrow> reading (\<lambda>w. judged_run (mp_completion p w) cmd c)))"

section \<open>Evidence\<close>

definition texts_value :: "str list \<Rightarrow> pyval" where
  "texts_value xs = PList (map PStr xs)"

definition classes_of_files :: "str list \<Rightarrow> str list" where
  "classes_of_files paths = dedup (List.map_filter (\<lambda>p. case fqn_from_path main_root_marker p of
     None \<Rightarrow> None | Some f \<Rightarrow> if f = [] then None else Some f) paths)"

definition diff_evidence ::
  "str \<Rightarrow> str list option \<Rightarrow> str list option \<Rightarrow> str list \<Rightarrow> str list \<Rightarrow> str list \<Rightarrow> str list \<Rightarrow> pydict" where
  "diff_evidence base changed production tests modules sources filtered =
     (case (changed, production) of
        (Some cs, Some ps) \<Rightarrow>
          [(''baseRef'', PStr base), (''changedJavaFiles'', texts_value cs), (''changedProductionFiles'', texts_value ps),
           (''changedClasses'', texts_value (classes_of_files ps)), (''targetTests'', texts_value tests),
           (''changedModules'', texts_value modules), (''targetSources'', texts_value sources),
           (''filteredChangedProductionFiles'', texts_value filtered)]
      | _ \<Rightarrow> [])"

definition tooling_evidence :: "tooling \<Rightarrow> pyval" where
  "tooling_evidence t = PDict [(''available'', PBool (tl_available t)), (''artifactId'', PStr (tl_artifact t)),
     (''version'', PStr (tl_version t)),
     (''requiredVersion'', PStr (if tl_required t = [] then test_enforcer_version else tl_required t)),
     (''reason'', PStr (tl_reason t))]"

definition rollout_path :: str where
  "rollout_path = ''The normal rollout path is example-parent-generic >= '' @ parent_generic_version
     @ '' or example-root >= '' @ parent_root_version @ '' for Platform-family projects.''"

definition missing_evidence_text :: str where
  "missing_evidence_text = ''Missing UTA test-enforcement plugin/profile: Maven completed but no coverage/mutation evidence was produced. Required Maven plugin: resolved test-enforcer >= ''
     @ test_enforcer_version @ ''. '' @ rollout_path"

definition missing_evidence_summary :: "tooling \<Rightarrow> str" where
  "missing_evidence_summary t = (let declared = strip (tl_version t); artifact = strip (tl_artifact t); required = strip (tl_required t) in
     if declared = [] then missing_evidence_text
     else ''UTA test-enforcement plugin is below the required version: '' @ (if artifact = [] then ''test-enforcer'' else artifact)
       @ '' declares '' @ declared @ '', but '' @ (if required = [] then test_enforcer_version else required)
       @ '' or newer is required. '' @ rollout_path)"

definition zero_gates :: pydict where
  "zero_gates = [(''coverage'', PDict [(''covered'', PInt 0), (''total'', PInt 0), (''rate'', PFloat 0), (''passed'', PBool False)]),
     (''mutation'', PDict [(''generated'', PInt 0), (''killed'', PInt 0), (''rate'', PFloat 0), (''passed'', PBool False)])]"

definition texts_at :: "pydict \<Rightarrow> str \<Rightarrow> str list" where
  "texts_at d k = List.map_filter text_of (as_list (get d k))"

definition with_filtered_targets :: "str \<Rightarrow> pydict option \<Rightarrow> pydict option" where
  "with_filtered_targets out ev = (let patterns = pitest_target_patterns out in
     case ev of None \<Rightarrow> None | Some d \<Rightarrow>
       if d = [] \<or> patterns = [] then ev
       else let cs = filtered_classes patterns (if texts_at d ''changedClasses'' = [] then texts_at d ''changed_classes'' else texts_at d ''changedClasses'') in
         if cs = [] then ev
         else Some (dict_set ''filteredTargetClasses'' (texts_value cs) (dict_set ''filteredTargetPatterns'' (texts_value patterns) d)))"

definition with_surefire_failures :: "pydict list \<Rightarrow> pydict option \<Rightarrow> pydict option" where
  "with_surefire_failures failures ev = (if failures = [] then ev
     else Some (dict_set ''failedSurefireTests'' (PList (map PDict failures)) (case ev of None \<Rightarrow> [] | Some d \<Rightarrow> d)))"

definition with_scope_evidence :: "partition \<Rightarrow> pydict \<Rightarrow> pydict" where
  "with_scope_evidence q d = dict_update d
     [(''excludedFailingTestClasses'', texts_value (pt_excluded q)), (''excludedCollidingTestClasses'', texts_value (pt_collateral q)),
      (''retainedFailingTestClasses'', texts_value (pt_retained q)), (''exclusionReason'', PStr (pt_reason q))]"

definition with_test_quality :: "'w maven_ports \<Rightarrow> pydict \<Rightarrow> ('w, pydict) gate" where
  "with_test_quality p d = reading (\<lambda>w. let tests = filter (\<lambda>t. t \<noteq> []) (map strip (texts_at d ''targetTests''));
       paths = concat (map (test_paths_for (mp_checkout p w)) tests) in
     if paths = [] then d
     else (case mp_quality p w paths of None \<Rightarrow> d | Some q \<Rightarrow> if q = [] then d else dict_set ''testQuality'' (PDict q) d))"

text \<open>The scope the plugin names, not the one the diff suggests.\<close>

definition class_of_file :: "str \<Rightarrow> (str \<times> str) option" where
  "class_of_file path = (case fqn_from_path main_root_marker path of
     None \<Rightarrow> None | Some f \<Rightarrow> if f = [] then None else Some (f, path))"

definition with_plugin_scope ::
  "checkout \<Rightarrow> str \<Rightarrow> str list option \<Rightarrow> str list \<Rightarrow> pydict \<Rightarrow> pydict" where
  "with_plugin_scope co out changed production d =
     (let by_class = List.map_filter class_of_file production; patterns = pitest_target_patterns out;
          cs = filter (\<lambda>c. c \<in> fst ` set by_class) (filtered_classes patterns (dedup (map fst by_class)));
          files = map (\<lambda>c. the (map_of by_class c)) cs in
      dict_update d [(''pitestTargetPatterns'', texts_value patterns), (''filteredTargetClasses'', texts_value cs),
        (''filteredChangedProductionFiles'', texts_value files), (''targetTests'', texts_value (pitest_target_tests co changed files))])"

section \<open>The verdict over one run\<close>

definition output_of :: "completed \<Rightarrow> str" where
  "output_of c = cp_out c @ newline # cp_err c"

definition score_below_gate :: "str \<Rightarrow> rat \<Rightarrow> bool" where
  "score_below_gate out gate = (0 < gate \<and> (case diff_mutation_scores out of [] \<Rightarrow> False | x # xs \<Rightarrow> fold min xs x < gate))"

definition gate_failure_summary :: "pydict option \<Rightarrow> str \<Rightarrow> rat \<Rightarrow> str" where
  "gate_failure_summary ev out gate =
     (let details = (if gate_miss_reasons out = [] then measured_gate_details out gate else gate_miss_reasons out);
          text = ''UTA test-enforcement failed'' @ (if details = [] then [] else '': '' @ bounded_reasons 700 details);
          excluded = as_list (get (case ev of None \<Rightarrow> [] | Some d \<Rightarrow> d) ''excludedFailingTestClasses'') in
      if excluded = [] then text
      else text @ ''; '' @ nat_str (length excluded) @ '' failing test class(es) unrelated to this change were excluded from both gates, so lines only they reached no longer count as covered'')"

definition verdict_on :: "command \<Rightarrow> completed \<Rightarrow> gate_status \<Rightarrow> str \<Rightarrow> pydict option \<Rightarrow> gate_verdict" where
  "verdict_on cmd c status summary ev = \<lparr>gv_status = status, gv_passed = (status = GatePassed), gv_command = cmd,
     gv_code = Some (cp_code c), gv_out = cp_out c, gv_err = cp_err c, gv_summary = summary, gv_evidence = ev\<rparr>"

definition killed_by_signal :: "completed \<Rightarrow> bool" where
  "killed_by_signal c = (cp_code c < 0 \<or> cp_code c = 137 \<or> cp_code c = 143)"

definition signal_of :: "completed \<Rightarrow> int" where
  "signal_of c = (if cp_code c < 0 then - cp_code c else cp_code c - 128)"

definition terminated_evidence :: "completed \<Rightarrow> pydict option \<Rightarrow> pydict" where
  "terminated_evidence c ev = dict_update (case ev of None \<Rightarrow> [] | Some d \<Rightarrow> d)
     [(''repairEligible'', PBool False), (''terminationSignal'', PInt (signal_of c))]"

definition vacuous_summary :: "nat list \<Rightarrow> str" where
  "vacuous_summary ns = ''UTA test-enforcement failed because PIT scored '' @ nat_str (sum_list ns)
     @ '' mutation(s) with no covering test, so its test strength is 100% of nothing''"

text \<open>Status, summary, whether the tooling has to be looked up for the evidence, and the evidence.\<close>

definition classified :: "rat \<Rightarrow> bool \<Rightarrow> pydict option \<Rightarrow> completed \<Rightarrow> gate_status \<times> str \<times> bool \<times> pydict option" where
  "classified gate detect ev c =
     (let out = output_of c; uncovered = modules_without_covered_mutants out in
      if looks_skipped out then (GateSkipped, ''UTA test-enforcement was skipped'', False, ev)
      else if looks_gate_failed out then (GateFailed, gate_failure_summary ev out gate, False, ev)
      else if score_below_gate out gate then (GateFailed, gate_failure_summary ev out gate, False, ev)
      else if uncovered \<noteq> [] then (GateFailed, vacuous_summary uncovered, False, ev)
      else if detect \<and> killed_by_signal c then
        (GateCommandError, ''UTA test-enforcement was terminated by a signal before evidence was produced'', False, Some (terminated_evidence c ev))
      else if looks_build_broken out then
        (GateFailed, ''UTA test-enforcement failed because Maven build did not compile or resolve'', True, ev)
      else if looks_baseline_failed out then
        (GateFailed, ''UTA test-enforcement failed because PIT baseline tests were not green'', False, ev)
      else if has_required_evidence out then
        (GatePassed, (if cp_code c \<noteq> 0 then ''UTA test-enforcement passed; Maven exited non-zero after gate evidence''
           else ''UTA test-enforcement passed''), False, ev)
      else if cp_code c = 0 \<and> looks_no_enforceable_lines out then
        (GatePassed, ''UTA test-enforcement passed; no changed Java source lines after filtering'', False, ev)
      else if cp_code c \<noteq> 0 then (GateFailed, ''UTA test-enforcement failed before evidence was produced'', False, ev)
      else (GateMissingEvidence, missing_evidence_text, True, ev))"

section \<open>The tooling\<close>

definition pom_texts :: "checkout \<Rightarrow> str list" where
  "pom_texts co = List.map_filter (\<lambda>(path, t). if file_name path = ''pom.xml'' \<and> length (components path) \<le> 2 then t else None) (co_files co)"

definition profiled :: "checkout \<Rightarrow> command \<Rightarrow> command" where
  "profiled co cmd = with_default_profile (pom_texts co) (map_of (co_poms co) ''pom.xml'') cmd"

definition tooling_status :: "runner \<Rightarrow> 'w maven_ports \<Rightarrow> command \<Rightarrow> ('w, tooling) gate" where
  "tooling_status rn p cmd =
     seq (reading (\<lambda>w. effective_pom_command (case cmd of [] \<Rightarrow> ''mvn'' | m # _ \<Rightarrow> m) (pom_texts (mp_checkout p w)) cmd
            (map_of (co_poms (mp_checkout p w)) ''pom.xml'') (mp_pom_output p w))) (\<lambda>query.
     seq (run_command rn p query None) (\<lambda>r. case r of
         Inl _ \<Rightarrow> ret (effective_status None)
       | Inr c \<Rightarrow> if cp_code c \<noteq> 0 then ret (effective_status None)
           else reading (\<lambda>w. effective_status (mp_effective_pom p w))))"

text \<open>Evidence that has its tooling keeps it; here the required version is the one of the status.\<close>

definition resolved_tooling :: "tooling \<Rightarrow> pyval" where
  "resolved_tooling t = PDict [(''available'', PBool (tl_available t)), (''artifactId'', PStr (tl_artifact t)),
     (''version'', PStr (tl_version t)), (''requiredVersion'', PStr (tl_required t)), (''reason'', PStr (tl_reason t))]"

definition with_tooling :: "runner \<Rightarrow> 'w maven_ports \<Rightarrow> command \<Rightarrow> pydict option \<Rightarrow> ('w, pydict option) gate" where
  "with_tooling rn p cmd ev = (let d = (case ev of None \<Rightarrow> [] | Some d \<Rightarrow> d) in
     if is_dict (get d ''tooling'') then ret (Some d)
     else seq (tooling_status rn p cmd) (\<lambda>t. ret (Some (dict_set ''tooling'' (resolved_tooling t) d))))"

definition classify_completed :: "runner \<Rightarrow> 'w maven_ports \<Rightarrow> command \<Rightarrow> completed \<Rightarrow> pydict \<Rightarrow> ('w, gate_verdict) gate" where
  "classify_completed rn p cmd c d =
     seq (reading (\<lambda>w. let ev = with_filtered_targets (output_of c) (Some d) in
            if cp_code c \<noteq> 0 \<or> looks_baseline_failed (output_of c) then with_surefire_failures (mp_failed_tests p w) ev else ev)) (\<lambda>ev.
     case classified (rn_mutation_gate rn) (rn_stall_detection rn \<or> rn_quarantine rn) ev c of
       (status, summary, ask, ev) \<Rightarrow>
         seq (if ask then with_tooling rn p cmd ev else ret ev) (\<lambda>ev. ret (verdict_on cmd c status summary ev)))"

text \<open>An incomplete completion file is a note on a miss, and the end of a pass.\<close>

definition pit_update :: "pit_failure \<Rightarrow> gate_verdict \<Rightarrow> gate_verdict" where
  "pit_update f r =
     (let d = dict_set ''failureKind'' (PStr ''pit_compatibility_failed'') (case gv_evidence r of None \<Rightarrow> [] | Some d \<Rightarrow> d);
          d = (if pf_modules f = [] then d else dict_set ''pitCompatibilityModules'' (PList (map PDict (pf_modules f))) d);
          d = (if pf_diagnostics f = [] then d else dict_set ''pitCompatibilityDiagnostics'' (PDict (pf_diagnostics f)) d) in
      if \<not> gv_passed r then r\<lparr>gv_summary := gv_summary r @ '' (PIT completion evidence incomplete: '' @ pf_text f @ '')'', gv_evidence := Some d\<rparr>
      else r\<lparr>gv_passed := False, gv_status := GateMissingEvidence,
             gv_summary := ''UTA test-enforcement gates passed, but the run cannot be trusted: '' @ pf_text f,
             gv_evidence := Some (dict_set ''repairEligible'' (PBool False) d)\<rparr>)"

definition executed :: "command \<Rightarrow> completed \<Rightarrow> command" where
  "executed cmd c = (case cp_args c of None \<Rightarrow> cmd | Some a \<Rightarrow> a)"

section \<open>Selecting the tests of a rerun\<close>

definition excluding_classes ::
  "'w maven_ports \<Rightarrow> command \<Rightarrow> str list \<Rightarrow> str \<Rightarrow> inventory \<Rightarrow> ('w, command \<times> str) gate" where
  "excluding_classes p cmd excluded first_output classes =
     (let kept = sort (filter (\<lambda>c. c \<notin> set excluded) (known_classes classes)) in
      if kept = [] then ret (cmd, ''empty-positive-test-inventory'')
      else if supports_includes_file first_output then
        seq (acting (mp_inventory p (map (\<lambda>c. ''**/'' @ simple_of c @ ''.java'') kept))) (\<lambda>file. case file of
            None \<Rightarrow> ret (cmd, ''positive-test-inventory-write-failed'')
          | Some path \<Rightarrow> ret (with_selected_file cmd path excluded, []))
      else (let selected = with_selected_classes cmd kept excluded in
        ret (selected, if selected \<noteq> cmd then [] else ''positive-test-selector-too-large'')))"

section \<open>Hanging tests\<close>

record hanging =
  hg_named :: "str list"
  hg_quarantined :: "str list"
  hg_retained :: "str list"
  hg_pre :: "str list"
  hg_retries :: nat
  hg_reason :: str

definition no_hanging :: hanging where
  "no_hanging = \<lparr>hg_named = [], hg_quarantined = [], hg_retained = [], hg_pre = [], hg_retries = 0, hg_reason = []\<rparr>"

definition stalled :: "completed \<Rightarrow> bool" where
  "stalled c = contains (cp_err c) ''UTA_ENFORCEMENT_STALLED stalled-after=''"

definition hanging_evidence :: "runner \<Rightarrow> hanging \<Rightarrow> pydict \<Rightarrow> pydict" where
  "hanging_evidence rn h d =
     (if \<not> (rn_stall_detection rn \<or> rn_quarantine rn) then d
      else dict_update d [(''hangingTestClasses'', texts_value (hg_named h)), (''quarantinedTestClasses'', texts_value (hg_quarantined h)),
        (''retainedHangingTestClasses'', texts_value (hg_retained h)), (''preQuarantinedTestClasses'', texts_value (hg_pre h)),
        (''stallSeconds'', PInt (rn_stall_seconds rn)), (''stallRetries'', PInt (int (hg_retries h))), (''stallReason'', PStr (hg_reason h))])"

definition hanging_partition :: "runner \<Rightarrow> checkout \<Rightarrow> str list option \<Rightarrow> str list option \<Rightarrow> str list \<Rightarrow> partition" where
  "hanging_partition rn co changed production names = partition_failing co changed production (rn_generated rn) names"

definition test_module :: "str \<Rightarrow> str" where
  "test_module path = drop_trailing (CHR ''/'') (text_before test_root_marker path)"

fun add_hanging :: "checkout \<Rightarrow> str list \<Rightarrow> inventory \<Rightarrow> inventory option" where
  "add_hanging co [] classes = Some classes"
| "add_hanging co (n # ns) classes = (let paths = test_paths_for co n in
     if paths = [] then None
     else add_hanging co ns (fold (\<lambda>path. add_class (test_module path) [n]) paths classes))"

definition merged_inventory :: "inventory \<Rightarrow> inventory \<Rightarrow> inventory" where
  "merged_inventory extra classes = fold (\<lambda>(m, cs). add_class m cs) extra classes"

text \<open>The command without some classes, what it leaves out, and why it leaves out nothing.\<close>

definition hanging_command ::
  "runner \<Rightarrow> 'w maven_ports \<Rightarrow> str list option \<Rightarrow> str list option \<Rightarrow> command \<Rightarrow> str list \<Rightarrow> str \<Rightarrow> ('w, command \<times> str list \<times> str) gate" where
  "hanging_command rn p changed production cmd names out =
     seq (reading (mp_checkout p)) (\<lambda>co.
       case declared_test_classes co (map fst (dirs_by_name co)) (defaults_include_tests_suffix out) of
         None \<Rightarrow> ret (cmd, [], ''incomplete-test-inventory'')
       | Some declared \<Rightarrow>
           (case add_hanging co names (merged_inventory (classes_by_module (co_reports co) None) declared) of
              None \<Rightarrow> ret (cmd, [], ''test-source-unavailable'')
            | Some classes \<Rightarrow>
                let q = narrowed classes (hanging_partition rn co changed production names) in
                if all_excluded q = [] then ret (cmd, [], pt_reason q)
                else seq (excluding_classes p cmd (all_excluded q) out classes) (\<lambda>(selected, reason).
                  ret (selected, if selected \<noteq> cmd then all_excluded q else [], reason))))"

definition preexclude ::
  "runner \<Rightarrow> 'w maven_ports \<Rightarrow> str list option \<Rightarrow> str list option \<Rightarrow> command \<Rightarrow> ('w, command \<times> hanging) gate" where
  "preexclude rn p changed production cmd =
     (if \<not> rn_quarantine rn \<or> \<not> rn_store rn then ret (cmd, no_hanging)
      else seq (reading (mp_quarantined p)) (\<lambda>names.
        if names = [] then ret (cmd, no_hanging)
        else seq (hanging_command rn p changed production cmd names []) (\<lambda>(selected, excluded, _).
          ret (selected, no_hanging\<lparr>hg_pre := excluded\<rparr>))))"

definition detect :: "runner \<Rightarrow> checkout \<Rightarrow> str list option \<Rightarrow> str list option \<Rightarrow> completed \<Rightarrow> hanging \<Rightarrow> str option \<times> hanging" where
  "detect rn co changed production c h = (case unfinished_class (cp_out c) of
     None \<Rightarrow> (None, h\<lparr>hg_reason := ''no-unfinished-test''\<rparr>)
   | Some name \<Rightarrow>
       (let repeated = (name \<in> set (hg_named h) \<or> name \<in> set (hg_pre h));
            h' = (if name \<in> set (hg_named h) then h else h\<lparr>hg_named := hg_named h @ [name]\<rparr>) in
        (Some name,
         if name \<in> set (pt_retained (hanging_partition rn co changed production [name]))
         then h'\<lparr>hg_retained := hg_retained h' @ [name], hg_reason := ''related-to-change''\<rparr>
         else if repeated then h'\<lparr>hg_reason := ''repeated-hanging-class''\<rparr>
         else if rn_stall_retries rn \<le> hg_retries h' then h'\<lparr>hg_reason := ''stall-retries-exhausted''\<rparr>
         else h'\<lparr>hg_reason := []\<rparr>)))"

definition observe :: "runner \<Rightarrow> 'w maven_ports \<Rightarrow> str \<Rightarrow> ('w, unit) gate" where
  "observe rn p name =
     (if \<not> rn_quarantine rn \<or> \<not> rn_store rn then ret ()
      else seq (reading (\<lambda>w. test_paths_for (mp_checkout p w) name)) (\<lambda>paths. case paths of
          [] \<Rightarrow> ret () | path # _ \<Rightarrow> acting (\<lambda>w. ((), mp_observe p name (test_module path) w))))"

definition hanging_summary :: "runner \<Rightarrow> hanging \<Rightarrow> str" where
  "hanging_summary rn h =
     (let seconds = int_str (rn_stall_seconds rn) in
      if hg_reason h = ''related-to-change'' then
        ''UTA test-enforcement stopped because test class '' @ last (hg_retained h) @ '' did not terminate within '' @ seconds
          @ ''s; it is related to this change, so it was not excluded''
      else if hg_named h = [] then ''UTA test-enforcement stopped after '' @ seconds @ ''s without output''
      else ''UTA test-enforcement stopped: '' @ hg_reason h @ ''; hanging test classes: '' @ join_with '', '' (hg_named h))
     @ (if hg_quarantined h = [] \<and> hg_pre h = [] then []
        else ''; quarantined: '' @ join_with '', '' (hg_pre h @ hg_quarantined h))"

definition hanging_failure :: "runner \<Rightarrow> command \<Rightarrow> completed \<Rightarrow> hanging \<Rightarrow> pydict \<Rightarrow> gate_verdict" where
  "hanging_failure rn cmd c h d =
     (let details = dict_set ''repairEligible'' (PBool False) (hanging_evidence rn h d);
          details = (if killed_by_signal c then dict_set ''terminationSignal'' (PInt (signal_of c)) details else details) in
      verdict_on cmd c GateCommandError (hanging_summary rn h) (Some details))"

definition annotate :: "runner \<Rightarrow> hanging \<Rightarrow> gate_verdict \<Rightarrow> gate_verdict" where
  "annotate rn h r =
     (if \<not> (rn_stall_detection rn \<or> rn_quarantine rn) then r
      else r\<lparr>gv_evidence := Some (hanging_evidence rn h (case gv_evidence r of None \<Rightarrow> [] | Some d \<Rightarrow> d)),
             gv_summary := gv_summary r
               @ (if hg_quarantined h = [] then []
                  else ''; test class '' @ join_with '', '' (hg_quarantined h) @ '' was excluded because it did not terminate within ''
                    @ int_str (rn_stall_seconds rn) @ ''s; lines only it reached no longer count as covered'')
               @ (if hg_pre h = [] then [] else ''; previously hanging test classes pre-excluded: '' @ join_with '', '' (hg_pre h))\<rparr>)"

end
