(* ===== verification/MavenRun.thy ===== *)
theory MavenRun
  imports MavenGate
begin

text \<open>
  \<open>MavenEnforcementRunner.run\<close>: plan the command from the diff, run it, answer stalls, take the verdict
  again without the failures that are not the change's own, and classify
  (\<open>uta/language/java/enforcement_runner/__init__.py\<close>).
\<close>

section \<open>The loop over stalled runs\<close>

text \<open>After a run of Maven: it stands, it has to be reported, or another run follows.\<close>

datatype after_run = Stands completed | Reports gate_verdict | RunsAgain command hanging

definition gate_result :: "gate_status \<Rightarrow> command \<Rightarrow> str \<Rightarrow> str \<Rightarrow> str \<Rightarrow> pydict \<Rightarrow> gate_verdict" where
  "gate_result status cmd out err summary d = \<lparr>gv_status = status, gv_passed = (status = GatePassed), gv_command = cmd,
     gv_code = None, gv_out = out, gv_err = err, gv_summary = summary, gv_evidence = Some d\<rparr>"

definition answer_stall ::
  "runner \<Rightarrow> 'w maven_ports \<Rightarrow> str list option \<Rightarrow> str list option \<Rightarrow> str list \<Rightarrow> pydict \<Rightarrow> command \<Rightarrow> completed \<Rightarrow> hanging
     \<Rightarrow> ('w, after_run) gate" where
  "answer_stall rn p changed production modules d cmd c h =
     (if \<not> rn_stall_detection rn \<or> \<not> stalled c then ret (Stands c)
      else seq (reading (\<lambda>w. detect rn (mp_checkout p w) changed production c h)) (\<lambda>(found, h). case found of
          None \<Rightarrow> ret (Reports (hanging_failure rn cmd c h d))
        | Some name \<Rightarrow>
            if hg_reason h \<noteq> [] then ret (Reports (hanging_failure rn cmd c h d))
            else seq (hanging_command rn p changed production cmd (hg_pre h @ hg_quarantined h @ [name]) (cp_out c))
              (\<lambda>(selected, excluded, reason).
                if excluded = [] then ret (Reports (hanging_failure rn cmd c
                  (h\<lparr>hg_reason := (if reason = [] then ''test-could-not-be-quarantined'' else reason)\<rparr>) d))
                else andthen (observe rn p name) (andthen (acting (\<lambda>w. ((), mp_clear p modules w)))
                  (ret (RunsAgain selected (h\<lparr>hg_quarantined := hg_quarantined h @ [name], hg_retries := Suc (hg_retries h)\<rparr>)))))))"

definition pit_result :: "runner \<Rightarrow> 'w maven_ports \<Rightarrow> command \<Rightarrow> pydict \<Rightarrow> pit_failure \<Rightarrow> completed \<Rightarrow> ('w, gate_verdict) gate" where
  "pit_result rn p cmd d f c =
     seq (classify_completed rn p (executed cmd c) c d) (\<lambda>r. ret (pit_update f r))"

definition fault_result ::
  "runner \<Rightarrow> 'w maven_ports \<Rightarrow> command \<Rightarrow> hanging \<Rightarrow> pydict \<Rightarrow> maven_fault \<Rightarrow> ('w, gate_verdict) gate" where
  "fault_result rn p cmd h d fault = (case fault of
     TimedOut out err \<Rightarrow> ret (gate_result GateTimeout cmd out err ''UTA test-enforcement timed out'' (hanging_evidence rn h d))
   | CannotStart msg \<Rightarrow> ret (gate_result GateCommandError cmd [] msg ''UTA test-enforcement command failed to start'' (hanging_evidence rn h d))
   | PitIncompatible f \<Rightarrow> (case pf_completed f of
         Some c \<Rightarrow> pit_result rn p cmd d f c
       | None \<Rightarrow> ret (gate_result GateCommandError cmd [] (pf_text f) (pf_text f) (hanging_evidence rn h (dict_update d
           [(''repairEligible'', PBool False), (''failureKind'', PStr ''pit_compatibility_failed'')])))))"

text \<open>One run under the deadline, and what follows.\<close>

definition maven_round ::
  "runner \<Rightarrow> 'w maven_ports \<Rightarrow> str list option \<Rightarrow> str list option \<Rightarrow> str list \<Rightarrow> pydict \<Rightarrow> rat \<Rightarrow> command \<Rightarrow> hanging
     \<Rightarrow> ('w, after_run) gate" where
  "maven_round rn p changed production modules d deadline cmd h =
     seq (reading (\<lambda>w. max (1/1000) (deadline - mp_now p w))) (\<lambda>remaining.
     seq (run_command rn p cmd (Some remaining)) (\<lambda>r. case r of
         Inl fault \<Rightarrow> seq (fault_result rn p cmd h d fault) (\<lambda>v. ret (Reports v))
       | Inr c \<Rightarrow> answer_stall rn p changed production modules d cmd c h))"

lemma answer_stall_retries:
  assumes "answer_stall rn p changed production modules d cmd c h s = (Inr (RunsAgain cmd' h'), s')"
  shows "hg_retries h' = Suc (hg_retries h) \<and> hg_retries h < rn_stall_retries rn"
proof -
  obtain found h1 where d: "detect rn (mp_checkout p (gw_env s)) changed production c h = (found, h1)"
    by fastforce
  have "hg_retries h1 = hg_retries h" "hg_reason h1 = [] \<longrightarrow> found \<noteq> None \<longrightarrow> hg_retries h < rn_stall_retries rn"
    using d by (auto simp: detect_def Let_def split: option.splits if_splits)
  then show ?thesis
    using assms d
    by (auto simp: answer_stall_def reading_def res_simps split: if_splits option.splits prod.splits)
qed

lemma maven_round_retries:
  assumes "maven_round rn p changed production modules d deadline cmd h s = (Inr (RunsAgain cmd' h'), s')"
  shows "hg_retries h' = Suc (hg_retries h) \<and> hg_retries h < rn_stall_retries rn"
  using assms by (auto simp: maven_round_def res_simps dest: answer_stall_retries split: sum.splits)

text \<open>\<open>while True\<close>: another round needs a retry that is left.\<close>

function maven_loop ::
  "runner \<Rightarrow> 'w maven_ports \<Rightarrow> str list option \<Rightarrow> str list option \<Rightarrow> str list \<Rightarrow> pydict \<Rightarrow> rat \<Rightarrow> command \<Rightarrow> hanging
     \<Rightarrow> ('w, command \<times> hanging \<times> (gate_verdict + completed)) gate" where
  "maven_loop rn p changed production modules d deadline cmd h s =
     (case maven_round rn p changed production modules d deadline cmd h s of
        (Inl e, s') \<Rightarrow> (Inl e, s')
      | (Inr (Stands c), s') \<Rightarrow> (Inr (cmd, h, Inr c), s')
      | (Inr (Reports v), s') \<Rightarrow> (Inr (cmd, h, Inl v), s')
      | (Inr (RunsAgain cmd' h'), s') \<Rightarrow> maven_loop rn p changed production modules d deadline cmd' h' s')"
  by pat_completeness auto
termination
  by (relation "measure (\<lambda>(rn, p, changed, production, modules, d, deadline, cmd, h, s). rn_stall_retries rn - hg_retries h)")
    (auto dest!: maven_round_retries [OF sym])

declare maven_loop.simps [simp del]

section \<open>The rerun without unrelated failures\<close>

definition obligated_files :: "pydict \<Rightarrow> str list option \<Rightarrow> str list option" where
  "obligated_files d production = (case get d ''filteredChangedProductionFiles'' of
     PList vs \<Rightarrow> Some (List.map_filter text_of vs) | _ \<Rightarrow> production)"

type_synonym reported = "(str \<times> int \<times> int) list option"

definition rerun_evidence :: "str \<Rightarrow> str list \<Rightarrow> pydict \<Rightarrow> pydict" where
  "rerun_evidence first_out sources d =
     (let d = (case diff_coverage_rates first_out of [] \<Rightarrow> d | r # rs \<Rightarrow> dict_set ''coverageBeforeExclusion'' (PFloat (fold min rs r)) d) in
      if sources = [] then d else dict_set ''sourceInventoriedModules'' (texts_value sources) d)"

text \<open>The second run replaces the first unless it lost the evidence the first one had.\<close>

definition take_rerun ::
  "runner \<Rightarrow> 'w maven_ports \<Rightarrow> str list \<Rightarrow> command \<Rightarrow> command \<Rightarrow> completed \<Rightarrow> partition \<Rightarrow> str list \<Rightarrow> pydict
     \<Rightarrow> ('w, command \<times> completed \<times> pydict) gate" where
  "take_rerun rn p modules cmd selected c q sources d =
     andthen (acting (\<lambda>w. ((), mp_clear p modules w)))
     (seq (run_command rn p selected None) (\<lambda>r. case r of
         Inl (TimedOut _ _) \<Rightarrow> raise RerunTimedOut
       | Inl (PitIncompatible f) \<Rightarrow> ret (selected, \<lparr>cp_args = Some selected, cp_code = 2, cp_out = [], cp_err = pf_text f\<rparr>,
           dict_update d [(''repairEligible'', PBool False), (''failureKind'', PStr ''pit_compatibility_failed'')])
       | Inl (CannotStart _) \<Rightarrow> ret (cmd, c, d)
       | Inr again \<Rightarrow>
           if has_required_evidence (output_of c) \<and> \<not> has_required_evidence (output_of again)
           then ret (cmd, c, with_scope_evidence (without_exclusions q ''rerun-produced-no-evidence'') d)
           else ret (selected, again, rerun_evidence (output_of c) sources d)))"

text \<open>The tests of modules a fail-fast reactor did not reach are named from their sources.\<close>

definition completed_inventory :: "checkout \<Rightarrow> reported \<Rightarrow> str \<Rightarrow> (inventory \<times> str list) option" where
  "completed_inventory co previous out =
     (let classes = classes_by_module (co_reports co) previous in
      if \<not> reactor_left_modules_unbuilt out then Some (classes, [])
      else map_option (\<lambda>declared. (merged_inventory declared classes, sort (map fst declared)))
        (declared_test_classes co (reactor_skipped_modules out) (defaults_include_tests_suffix out)))"

definition failing_partition :: "checkout \<Rightarrow> str list option \<Rightarrow> str list option \<Rightarrow> reported \<Rightarrow> partition" where
  "failing_partition co changed production previous =
     partition_failing co changed production [] (failed_test_classes (test_class_results (co_reports co) previous))"

definition rerun_without_unrelated ::
  "runner \<Rightarrow> 'w maven_ports \<Rightarrow> str list option \<Rightarrow> str list option \<Rightarrow> str list \<Rightarrow> reported \<Rightarrow> command \<Rightarrow> completed \<Rightarrow> pydict
     \<Rightarrow> ('w, command \<times> completed \<times> pydict) gate" where
  "rerun_without_unrelated rn p changed production modules previous cmd c d =
     (if \<not> rn_exclude_unrelated rn then ret (cmd, c, d)
      else seq (reading (mp_checkout p)) (\<lambda>co.
        let q0 = failing_partition co changed (obligated_files d production) previous; d0 = with_scope_evidence q0 d in
        if pt_excluded q0 = [] then ret (cmd, c, d0)
        else (case completed_inventory co previous (output_of c) of
            None \<Rightarrow> ret (cmd, c, with_scope_evidence (without_exclusions q0 ''incomplete-test-inventory'') d0)
          | Some (classes, sources) \<Rightarrow>
              let q1 = expand_collisions classes q0; d1 = with_scope_evidence q1 d0 in
              if all_excluded q1 = [] then ret (cmd, c, d1)
              else let q2 = keep_modules_tested classes q1; d2 = with_scope_evidence q2 d1 in
                if all_excluded q2 = [] then ret (cmd, c, d2)
                else seq (excluding_classes p cmd (all_excluded q2) (output_of c) classes) (\<lambda>(selected, reason).
                  if selected = cmd
                  then ret (cmd, c, with_scope_evidence (without_exclusions q2
                    (if reason = [] then ''no-usable-test-selector'' else reason)) d2)
                  else take_rerun rn p modules cmd selected c q2 sources d2))))"

section \<open>The plan\<close>

record gate_plan =
  pl_command :: command
  pl_evidence :: pydict
  pl_modules :: "str list"
  pl_tests :: "str list option"

definition full_plan :: "runner \<Rightarrow> checkout \<Rightarrow> str list option \<Rightarrow> str list \<Rightarrow> command \<Rightarrow> gate_plan" where
  "full_plan rn co changed production cmd =
     (let modules = modules_for_files co production in
      \<lparr>pl_command = with_changed_modules cmd modules,
       pl_evidence = diff_evidence (rn_base_ref rn) changed (Some production) [] modules [] [],
       pl_modules = modules, pl_tests = None\<rparr>)"

definition targeted_plan :: "runner \<Rightarrow> checkout \<Rightarrow> str list option \<Rightarrow> str list \<Rightarrow> command \<Rightarrow> gate_plan" where
  "targeted_plan rn co changed production cmd =
     (let scoped = scoped_production cmd production; tests = pitest_target_tests co changed scoped;
          modules = modules_for_files co scoped;
          with_tests = (if tests = [] then cmd else with_target_tests cmd tests) in
      \<lparr>pl_command = with_changed_modules (with_target_sources with_tests scoped) modules,
       pl_evidence = diff_evidence (rn_base_ref rn) changed (Some production) tests modules scoped scoped,
       pl_modules = modules, pl_tests = Some tests\<rparr>)"

definition planned :: "runner \<Rightarrow> 'w maven_ports \<Rightarrow> str list option \<Rightarrow> str list option \<Rightarrow> command \<Rightarrow> ('w, gate_plan) gate" where
  "planned rn p changed production cmd = (case production of
     None \<Rightarrow> ret \<lparr>pl_command = cmd, pl_evidence = diff_evidence (rn_base_ref rn) changed None [] [] [] [], pl_modules = [], pl_tests = None\<rparr>
   | Some ps \<Rightarrow>
       if rn_full_run rn then reading (\<lambda>w. full_plan rn (mp_checkout p w) changed ps cmd)
       else seq (reading (\<lambda>w. targeted_plan rn (mp_checkout p w) changed ps cmd)) (\<lambda>pl.
         seq (with_test_quality p (pl_evidence pl)) (\<lambda>d. ret (pl\<lparr>pl_evidence := d\<rparr>))))"

section \<open>The run\<close>

definition missing_result :: "command \<Rightarrow> str \<Rightarrow> pydict \<Rightarrow> gate_verdict" where
  "missing_result cmd summary d = gate_result GateMissingEvidence cmd [] [] summary (dict_update d zero_gates)"

text \<open>A pass has to have its completion file; the failure of one takes it back.\<close>

definition confirmed :: "'w maven_ports \<Rightarrow> command \<Rightarrow> gate_verdict \<Rightarrow> ('w, gate_verdict) gate" where
  "confirmed p cmd r =
     (if \<not> gv_passed r then ret r
      else seq (reading (\<lambda>w. validate_completion (mp_completion p w) cmd)) (\<lambda>v. case v of
          Inl f \<Rightarrow> ret (pit_update f r)
        | Inr checked \<Rightarrow> ret (if checked = [] then r
            else r\<lparr>gv_evidence := Some (dict_set ''pitCompatibility'' (PDict checked) (case gv_evidence r of None \<Rightarrow> [] | Some d \<Rightarrow> d))\<rparr>)))"

definition judged :: "runner \<Rightarrow> 'w maven_ports \<Rightarrow> hanging \<Rightarrow> command \<Rightarrow> completed \<Rightarrow> pydict \<Rightarrow> ('w, gate_verdict) gate" where
  "judged rn p h cmd c d =
     seq (classify_completed rn p (executed cmd c) c d) (\<lambda>r. confirmed p (executed cmd c) (annotate rn h r))"

definition full_run_judged ::
  "runner \<Rightarrow> 'w maven_ports \<Rightarrow> str list option \<Rightarrow> str list option \<Rightarrow> str list \<Rightarrow> reported \<Rightarrow> hanging \<Rightarrow> command \<Rightarrow> completed \<Rightarrow> pydict
     \<Rightarrow> ('w, gate_verdict) gate" where
  "full_run_judged rn p changed production modules previous h cmd c d =
     (let out = cp_out c @ cp_err c in
      if cp_code c = 0 \<and> \<not> has_enforcer_marker out
      then ret (verdict_on cmd c GateMissingEvidence missing_evidence_text (Some (dict_update d zero_gates)))
      else seq (reading (\<lambda>w. with_plugin_scope (mp_checkout p w) out changed (case production of None \<Rightarrow> [] | Some ps \<Rightarrow> ps) d)) (\<lambda>d.
        seq (with_test_quality p d) (\<lambda>d.
        seq (rerun_without_unrelated rn p changed production modules previous cmd c d) (\<lambda>(cmd, c, d).
        judged rn p h cmd c d))))"

definition after_loop ::
  "runner \<Rightarrow> 'w maven_ports \<Rightarrow> str list option \<Rightarrow> str list option \<Rightarrow> str list \<Rightarrow> reported \<Rightarrow> pydict
     \<Rightarrow> command \<times> hanging \<times> (gate_verdict + completed) \<Rightarrow> ('w, gate_verdict) gate" where
  "after_loop rn p changed production modules previous d = (\<lambda>(cmd, h, r). case r of
     Inl v \<Rightarrow> ret v
   | Inr c \<Rightarrow> if rn_full_run rn then full_run_judged rn p changed production modules previous h cmd c d
       else judged rn p h cmd c d)"

definition run_planned ::
  "runner \<Rightarrow> 'w maven_ports \<Rightarrow> str list option \<Rightarrow> str list option \<Rightarrow> str list \<Rightarrow> command \<Rightarrow> pydict \<Rightarrow> ('w, gate_verdict) gate" where
  "run_planned rn p changed production modules cmd d =
     seq (preexclude rn p changed production cmd) (\<lambda>(cmd, h).
     seq (reading (\<lambda>w. if rn_full_run rn \<and> (rn_exclude_unrelated rn \<or> rn_stall_detection rn)
            then Some (report_snapshot (co_reports (mp_checkout p w))) else None)) (\<lambda>previous.
     seq (reading (\<lambda>w. mp_now p w + of_int (rn_timeout rn))) (\<lambda>deadline.
     seq (maven_loop rn p changed production modules d deadline cmd h) (after_loop rn p changed production modules previous d))))"

definition run_if_tooled ::
  "runner \<Rightarrow> 'w maven_ports \<Rightarrow> str list option \<Rightarrow> str list option \<Rightarrow> gate_plan \<Rightarrow> command \<Rightarrow> tooling \<Rightarrow> ('w, gate_verdict) gate" where
  "run_if_tooled rn p changed production pl cmd t =
     (let d = dict_set ''tooling'' (tooling_evidence t) (pl_evidence pl) in
      if \<not> tl_available t then ret (missing_result cmd (missing_evidence_summary t) d)
      else if pl_tests pl = Some [] then
        ret (missing_result cmd ''UTA test-enforcement cannot run PIT safely because no related targetTests were found for changed production Java files'' d)
      else run_planned rn p changed production (pl_modules pl) cmd d)"

definition run_gate :: "runner \<Rightarrow> 'w maven_ports \<Rightarrow> ('w, gate_verdict) gate" where
  "run_gate rn p =
     (let cmd = mp_words p (rn_command rn) in
      case validate_command cmd of Some e \<Rightarrow> raise (BadCommand e) | None \<Rightarrow>
      seq (reading (mp_diff p)) (\<lambda>(rc, out).
        let changed = changed_java_files rc out; production = changed_production_files changed in
        if production = Some [] then
          ret (gate_result GatePassed cmd ''No changed production Java files under origin/master...HEAD.'' []
            ''UTA test-enforcement passed; no changed production Java files''
            (diff_evidence (rn_base_ref rn) changed production [] [] [] []))
        else seq (planned rn p changed production cmd) (\<lambda>pl.
          seq (reading (\<lambda>w. profiled (mp_checkout p w)
            (with_gate_properties (mp_show_g p) (rn_coverage_gate rn) (rn_mutation_gate rn) (pl_command pl)))) (\<lambda>cmd.
          seq (tooling_status rn p cmd) (run_if_tooled rn p changed production pl cmd)))))"

end
