(* ===== verification/MavenRunFacts.thy ===== *)
theory MavenRunFacts
  imports MavenRun
begin

text \<open>
  What the Java gate guarantees: a pass rests on the output of a run and on its completion file, and a
  gate runs Maven a bounded number of times.
\<close>

section \<open>The outcome of a run\<close>

lemma reading_run [res_simps]: "reading f s = (r, s') \<longleftrightarrow> r = Inr (f (gw_env s)) \<and> s' = s"
  by (auto simp: reading_def res_simps)

lemma acting_run [res_simps]:
  "acting f s = (r, s') \<longleftrightarrow> r = Inr (fst (f (gw_env s))) \<and> s' = s\<lparr>gw_env := snd (f (gw_env s))\<rparr>"
  by (auto simp: acting_def split: prod.splits)

definition costs :: "nat \<Rightarrow> ('w, 'a) gate \<Rightarrow> bool" where
  "costs n m = (\<forall>s r s'. m s = (r, s') \<longrightarrow> (\<exists>new. gw_runs s' = gw_runs s @ new \<and> length new \<le> n))"

named_theorems costs_intros \<open>how many runs of Maven a part of the gate makes\<close>

lemma costsD: "costs n m \<Longrightarrow> m s = (r, s') \<Longrightarrow> length (gw_runs s') \<le> length (gw_runs s) + n"
  unfolding costs_def by fastforce

lemma costs_weaken: "costs n m \<Longrightarrow> n \<le> k \<Longrightarrow> costs k m"
  unfolding costs_def by (meson order_trans)

lemma costs_kept: "costs n m \<Longrightarrow> m s = (r, s') \<Longrightarrow> set (gw_runs s) \<subseteq> set (gw_runs s')"
  unfolding costs_def by fastforce

lemma costs_ret [costs_intros]: "costs n (ret x)"
  by (auto simp: costs_def res_simps)

lemma costs_raise [costs_intros]: "costs n (raise e)"
  by (auto simp: costs_def res_simps)

lemma costs_reading [costs_intros]: "costs n (reading f)"
  by (auto simp: costs_def res_simps)

lemma costs_acting [costs_intros]: "costs n (acting f)"
  by (auto simp: costs_def res_simps)

lemma costs_seq:
  assumes "costs a m" "\<And>x. costs b (f x)" "a + b \<le> n"
  shows "costs n (seq m f)"
  unfolding costs_def
proof (intro allI impI)
  fix s r s' assume "seq m f s = (r, s')"
  then consider e where "m s = (Inl e, s')" | x t where "m s = (Inr x, t)" "f x t = (r, s')"
    by (cases "m s"; cases "fst (m s)") (auto simp: seq_def)
  then show "\<exists>new. gw_runs s' = gw_runs s @ new \<and> length new \<le> n"
  proof cases
    case 1
    then obtain new where "gw_runs s' = gw_runs s @ new" "length new \<le> a" using assms(1) unfolding costs_def by blast
    with assms(3) show ?thesis by auto
  next
    case 2
    from 2(1) obtain new where n: "gw_runs t = gw_runs s @ new" "length new \<le> a" using assms(1) unfolding costs_def by blast
    from 2(2) obtain more where "gw_runs s' = gw_runs t @ more" "length more \<le> b" using assms(2) unfolding costs_def by blast
    with n assms(3) show ?thesis by (intro exI [of _ "new @ more"]) simp
  qed
qed

lemma costs_free_seq [costs_intros]: "costs 0 m \<Longrightarrow> (\<And>x. costs n (f x)) \<Longrightarrow> costs n (seq m f)"
  by (rule costs_seq [where a = 0]) auto

lemma costs_andthen [costs_intros]: "costs 0 m \<Longrightarrow> costs n k \<Longrightarrow> costs n (andthen m k)"
  unfolding andthen_def by (rule costs_free_seq)

lemma costs_if [costs_intros]: "costs n a \<Longrightarrow> costs n b \<Longrightarrow> costs n (if c then a else b)"
  by simp

lemma costs_case_option [costs_intros]: "costs n a \<Longrightarrow> (\<And>x. costs n (b x)) \<Longrightarrow> costs n (case v of None \<Rightarrow> a | Some x \<Rightarrow> b x)"
  by (cases v) auto

lemma costs_case_sum [costs_intros]: "(\<And>x. costs n (a x)) \<Longrightarrow> (\<And>x. costs n (b x)) \<Longrightarrow> costs n (case v of Inl x \<Rightarrow> a x | Inr y \<Rightarrow> b y)"
  by (cases v) auto

lemma costs_case_prod [costs_intros]: "(\<And>x y. costs n (a x y)) \<Longrightarrow> costs n (case v of (x, y) \<Rightarrow> a x y)"
  by (cases v) auto

lemma costs_case_list [costs_intros]: "costs n a \<Longrightarrow> (\<And>x y. costs n (b x y)) \<Longrightarrow> costs n (case v of [] \<Rightarrow> a | x # y \<Rightarrow> b x y)"
  by (cases v) auto

lemma costs_logged: "costs 1 (logged_run p cmd t)"
  by (auto simp: costs_def logged_run_def split: prod.splits)

lemma costs_full_command [costs_intros]: "costs 0 (full_command rn p cmd)"
  unfolding full_command_def by (intro costs_intros)

lemma costs_run: "costs 1 (run_command rn p cmd t)"
  unfolding run_command_def
  by (intro costs_intros costs_seq [OF costs_logged, where b = 0]) simp

lemma costs_tooling: "costs 1 (tooling_status rn p cmd)"
  unfolding tooling_status_def
  by (intro costs_free_seq costs_reading costs_seq [OF costs_run, where b = 0] costs_intros) simp

lemma costs_with_tooling: "costs 1 (with_tooling rn p cmd ev)"
  unfolding with_tooling_def Let_def
  by (intro costs_if costs_ret costs_seq [OF costs_tooling, where b = 0]) simp

lemma costs_classify: "costs 1 (classify_completed rn p cmd c d)"
  unfolding classify_completed_def
  by (intro costs_free_seq costs_reading costs_case_prod costs_seq [where a = 1 and b = 0] costs_if costs_with_tooling costs_ret)
    simp

lemma costs_pit: "costs 1 (pit_result rn p cmd d f c)"
  unfolding pit_result_def by (rule costs_seq [OF costs_classify, where b = 0]) (auto intro: costs_intros)

lemma costs_fault: "costs 1 (fault_result rn p cmd h d fault)"
proof (cases fault)
  case (PitIncompatible f)
  show ?thesis unfolding fault_result_def PitIncompatible maven_fault.case by (intro costs_case_option costs_ret costs_pit)
qed (simp_all add: fault_result_def costs_ret)

lemma costs_excluding [costs_intros]: "costs 0 (excluding_classes p cmd ex out cs)"
  unfolding excluding_classes_def Let_def by (intro costs_intros)

lemma costs_hanging_command [costs_intros]: "costs 0 (hanging_command rn p changed production cmd names out)"
  unfolding hanging_command_def Let_def by (intro costs_intros)

lemma costs_preexclude [costs_intros]: "costs 0 (preexclude rn p changed production cmd)"
  unfolding preexclude_def by (intro costs_intros)

lemma costs_observe [costs_intros]: "costs 0 (observe rn p name)"
  unfolding observe_def by (intro costs_intros)

lemma costs_quality [costs_intros]: "costs 0 (with_test_quality p d)"
  unfolding with_test_quality_def by (intro costs_intros)

lemma costs_answer [costs_intros]: "costs 0 (answer_stall rn p changed production modules d cmd c h)"
  unfolding answer_stall_def by (intro costs_intros)

text \<open>A round makes one run, and one more when its fault has to be classified.\<close>

fun ends_here :: "gate_fault + after_run \<Rightarrow> bool" where
  "ends_here (Inr (Stands c)) = False"
| "ends_here (Inr (RunsAgain cmd h)) = False"
| "ends_here (Inl e) = True"
| "ends_here (Inr (Reports v)) = True"

lemma seq_eq: "seq m f s = (case m s of (Inl e, t) \<Rightarrow> (Inl e, t) | (Inr x, t) \<Rightarrow> f x t)"
  by (simp add: seq_def)

lemma seq_reading: "seq (reading f) g s = g (f (gw_env s)) s"
  by (simp add: seq_def reading_def reads_def)

lemma round_cost:
  assumes "maven_round rn p changed production modules d deadline cmd h s = (r, s')"
  shows "length (gw_runs s') \<le> length (gw_runs s) + (if ends_here r then 2 else 1)"
proof -
  define t where "t = max (1/1000) (deadline - mp_now p (gw_env s))"
  obtain x s1 where run: "run_command rn p cmd (Some t) s = (x, s1)" by fastforce
  have one: "length (gw_runs s1) \<le> length (gw_runs s) + 1" by (rule costsD [OF costs_run run])
  note round = assms [unfolded maven_round_def seq_reading, folded t_def, unfolded seq_eq, unfolded run prod.case]
  consider e where "x = Inl e" | c where "x = Inr (Inr c)" | fault where "x = Inr (Inl fault)"
    by (metis sum.exhaust)
  then show ?thesis
  proof cases
    case 1
    with round one show ?thesis by auto
  next
    case 2
    with round have "answer_stall rn p changed production modules d cmd c h s1 = (r, s')" by simp
    from costsD [OF costs_answer this] one show ?thesis by simp
  next
    case 3
    obtain y s2 where y: "fault_result rn p cmd h d fault s1 = (y, s2)" by fastforce
    have "length (gw_runs s2) \<le> length (gw_runs s1) + 1" by (rule costsD [OF costs_fault y])
    moreover have "s' = s2 \<and> ends_here r" using round 3 y by (cases y) (auto simp: seq_eq ret_def)
    ultimately show ?thesis using one by simp
  qed
qed

text \<open>The same with a price that depends on the outcome.\<close>

definition spends :: "('a \<Rightarrow> nat) \<Rightarrow> nat \<Rightarrow> ('w, 'a) gate \<Rightarrow> bool" where
  "spends f n m = (\<forall>s r s'. m s = (r, s') \<longrightarrow>
     (\<exists>new. gw_runs s' = gw_runs s @ new \<and> length new \<le> (case r of Inl _ \<Rightarrow> n | Inr x \<Rightarrow> f x)))"

lemma spends_seq:
  assumes "spends f n m" "\<And>x. f x \<le> n \<Longrightarrow> costs (n - f x) (g x)" "\<And>x. f x \<le> n"
  shows "costs n (seq m g)"
  unfolding costs_def
proof (intro allI impI)
  fix s r s' assume run: "seq m g s = (r, s')"
  obtain y t where y: "m s = (y, t)" by fastforce
  with assms(1) obtain new where n: "gw_runs t = gw_runs s @ new" "length new \<le> (case y of Inl _ \<Rightarrow> n | Inr x \<Rightarrow> f x)"
    unfolding spends_def by blast
  show "\<exists>new. gw_runs s' = gw_runs s @ new \<and> length new \<le> n"
  proof (cases y)
    case (Inl e)
    with run y n show ?thesis by (auto simp: seq_eq)
  next
    case (Inr x)
    with run y have "g x t = (r, s')" by (simp add: seq_eq)
    then obtain later where "gw_runs s' = gw_runs t @ later" "length later \<le> n - f x"
      using assms(2) [OF assms(3)] unfolding costs_def by blast
    with n Inr assms(3) [of x] show ?thesis by (intro exI [of _ "new @ later"]) simp
  qed
qed

lemma round_spends: "spends (\<lambda>x. if ends_here (Inr x) then 2 else 1) 2 (maven_round rn p changed production modules d deadline cmd h)"
  unfolding spends_def
proof (intro allI impI)
  fix s r s' assume x: "maven_round rn p changed production modules d deadline cmd h s = (r, s')"
  have "costs 2 (maven_round rn p changed production modules d deadline cmd h)"
    unfolding maven_round_def
    by (intro costs_free_seq costs_reading costs_seq [OF costs_run, where b = 1] costs_case_sum
        costs_seq [OF costs_fault, where b = 0] costs_ret costs_weaken [OF costs_answer]) simp_all
  with x obtain new where "gw_runs s' = gw_runs s @ new" unfolding costs_def by blast
  with round_cost [OF x]
  show "\<exists>new. gw_runs s' = gw_runs s @ new \<and> length new \<le> (case r of Inl _ \<Rightarrow> 2 | Inr x \<Rightarrow> if ends_here (Inr x) then 2 else 1)"
    by (cases r) (auto split: if_splits)
qed

definition loop_price :: "runner \<Rightarrow> hanging \<Rightarrow> command \<times> hanging \<times> (gate_verdict + completed) \<Rightarrow> nat" where
  "loop_price rn h = (\<lambda>(_, _, r). (rn_stall_retries rn - hg_retries h) + (case r of Inl _ \<Rightarrow> 2 | Inr _ \<Rightarrow> 1))"

lemma loop_cost:
  "maven_loop rn p changed production modules d deadline cmd h s = (r, s') \<Longrightarrow>
     \<exists>new. gw_runs s' = gw_runs s @ new
       \<and> length new \<le> (case r of Inl _ \<Rightarrow> (rn_stall_retries rn - hg_retries h) + 2 | Inr x \<Rightarrow> loop_price rn h x)"
proof (induction rn p changed production modules d deadline cmd h s rule: maven_loop.induct)
  case (1 rn p changed production modules d deadline cmd h s)
  obtain x s1 where x: "maven_round rn p changed production modules d deadline cmd h s = (x, s1)" by fastforce
  then obtain new where new: "gw_runs s1 = gw_runs s @ new" "length new \<le> (case x of Inl _ \<Rightarrow> 2 | Inr x \<Rightarrow> if ends_here (Inr x) then 2 else 1)"
    using round_spends [of rn p changed production modules d deadline cmd h] unfolding spends_def by blast
  note loop = 1(2) [unfolded maven_loop.simps [of rn p changed production modules d deadline cmd h s] x prod.case]
  show ?case
  proof (cases x rule: ends_here.cases)
    case (1 c)
    with loop new show ?thesis by (auto simp: loop_price_def)
  next
    case (2 cmd' h')
    with loop have rest: "maven_loop rn p changed production modules d deadline cmd' h' s1 = (r, s')" by simp
    have h': "hg_retries h' = Suc (hg_retries h)" "hg_retries h < rn_stall_retries rn"
      using maven_round_retries [OF x [unfolded 2]] by simp_all
    obtain later where "gw_runs s' = gw_runs s1 @ later"
      "length later \<le> (case r of Inl _ \<Rightarrow> (rn_stall_retries rn - hg_retries h') + 2 | Inr x \<Rightarrow> loop_price rn h' x)"
      using 1(1) [OF x [symmetric] 2 refl rest] by blast
    with new 2 h' show ?thesis
      by (intro exI [of _ "new @ later"]) (auto simp: loop_price_def split: sum.splits prod.splits)
  next
    case (3 v)
    with loop new show ?thesis by auto
  next
    case (4 v)
    with loop new show ?thesis by (auto simp: loop_price_def)
  qed
qed

lemma loop_spends:
  "spends (loop_price rn h) ((rn_stall_retries rn - hg_retries h) + 2) (maven_loop rn p changed production modules d deadline cmd h)"
  unfolding spends_def using loop_cost by blast

lemma costs_take_rerun: "costs 1 (take_rerun rn p modules cmd selected c q sources d)"
  unfolding take_rerun_def
  by (intro costs_andthen costs_acting costs_seq [OF costs_run, where b = 0] costs_case_sum)
    (auto intro: costs_intros split: maven_fault.split)

lemma costs_rerun: "costs 1 (rerun_without_unrelated rn p changed production modules previous cmd c d)"
  unfolding rerun_without_unrelated_def Let_def
  by (intro costs_if costs_ret costs_free_seq costs_reading costs_case_option costs_case_prod costs_excluding costs_take_rerun)

lemma costs_confirmed [costs_intros]: "costs 0 (confirmed p cmd r)"
  unfolding confirmed_def by (intro costs_intros)

lemma costs_judged: "costs 1 (judged rn p h cmd c d)"
  unfolding judged_def by (rule costs_seq [OF costs_classify, where b = 0]) (auto intro: costs_intros)

lemma costs_full_judged: "costs 2 (full_run_judged rn p changed production modules previous h cmd c d)"
  unfolding full_run_judged_def Let_def
  by (intro costs_if costs_ret costs_free_seq costs_reading costs_quality costs_case_prod
      costs_seq [OF costs_rerun, where b = 1] costs_judged) simp

lemma costs_after_loop:
  "costs (rn_stall_retries rn + 3 - loop_price rn h x) (after_loop rn p changed production modules previous d x)"
proof -
  obtain cmd h' r where x: "x = (cmd, h', r)" by (cases x)
  show ?thesis
  proof (cases r)
    case (Inr c)
    have "costs 2 (after_loop rn p changed production modules previous d x)"
      unfolding after_loop_def x Inr prod.case sum.case
      by (intro costs_if costs_full_judged costs_weaken [OF costs_judged]) simp
    then show ?thesis by (rule costs_weaken) (simp add: loop_price_def x Inr)
  qed (simp add: after_loop_def x costs_ret)
qed

lemma costs_loop:
  "costs (rn_stall_retries rn + 3) (seq (maven_loop rn p changed production modules d deadline cmd h)
     (after_loop rn p changed production modules previous d))"
proof (rule spends_seq)
  show "spends (loop_price rn h) (rn_stall_retries rn + 3) (maven_loop rn p changed production modules d deadline cmd h)"
    using loop_spends [of rn h p changed production modules d deadline cmd]
    unfolding spends_def by (fastforce split: sum.splits)
  show "loop_price rn h x \<le> rn_stall_retries rn + 3" for x
    by (auto simp: loop_price_def split: prod.split sum.split)
qed (rule costs_after_loop)

lemma costs_run_planned: "costs (rn_stall_retries rn + 3) (run_planned rn p changed production modules cmd d)"
  unfolding run_planned_def
  by (rule costs_free_seq [OF costs_preexclude], rule costs_case_prod, rule costs_free_seq [OF costs_reading],
      rule costs_free_seq [OF costs_reading], rule costs_loop)

lemma costs_planned [costs_intros]: "costs 0 (planned rn p changed production cmd)"
  unfolding planned_def by (intro costs_intros)

lemma costs_run_if_tooled: "costs (rn_stall_retries rn + 3) (run_if_tooled rn p changed production pl cmd t)"
  unfolding run_if_tooled_def Let_def by (intro costs_if costs_ret costs_run_planned)

lemma costs_run_gate: "costs (rn_stall_retries rn + 4) (run_gate rn p)"
  unfolding run_gate_def Let_def
  by (intro costs_case_option costs_raise costs_free_seq costs_reading costs_case_prod costs_if costs_ret costs_planned
      costs_seq [OF costs_tooling, where b = "rn_stall_retries rn + 3"] costs_run_if_tooled) simp

text \<open>
  C21: Whatever Maven, the clock and the quarantine answer, a gate runs Maven at most as
  often as the runner has retries for stalled runs, and four times more: the query of the
  effective POM, the first run, the rerun without unrelated failures, and one more query for
  the evidence of a failure.
\<close>

theorem maven_runs_bounded:
  assumes "run_gate rn p s = (r, s')"
  shows "length (gw_runs s') \<le> length (gw_runs s) + rn_stall_retries rn + 4"
  using costsD [OF costs_run_gate assms] by simp

section \<open>What a pass rests on\<close>

text \<open>The output of one run as a pass needs it.\<close>

definition evidence_stands :: "runner \<Rightarrow> completed \<Rightarrow> bool" where
  "evidence_stands rn c = (let out = output_of c in
     \<not> looks_skipped out \<and> \<not> looks_gate_failed out \<and> \<not> looks_build_broken out \<and> \<not> looks_baseline_failed out
     \<and> modules_without_covered_mutants out = []
     \<and> (rn_mutation_gate rn \<le> 0 \<or> list_all (\<lambda>score. rn_mutation_gate rn \<le> score) (diff_mutation_scores out))
     \<and> (has_required_evidence out \<or> cp_code c = 0 \<and> looks_no_enforceable_lines out))"

lemma fold_min_le: "y \<in> set (x # xs) \<Longrightarrow> fold min xs x \<le> (y :: rat)"
  by (metis List.finite_set Min.set_eq_fold Min_le)

lemma score_not_below:
  "\<not> score_below_gate out gate \<Longrightarrow> gate \<le> 0 \<or> list_all (\<lambda>score. gate \<le> score) (diff_mutation_scores out)"
proof (cases "diff_mutation_scores out")
  case (Cons x xs)
  assume "\<not> score_below_gate out gate"
  with Cons have "gate \<le> 0 \<or> gate \<le> fold min xs x" by (auto simp: score_below_gate_def)
  then show ?thesis unfolding Cons list_all_iff using fold_min_le order_trans by blast
qed simp

lemma classified_passed:
  "classified (rn_mutation_gate rn) signals ev c = (GatePassed, summary, ask, ev') \<Longrightarrow> evidence_stands rn c"
  using score_not_below [of "output_of c" "rn_mutation_gate rn"]
  by (simp add: classified_def evidence_stands_def Let_def split: if_splits)

definition of_run :: "completed \<Rightarrow> command \<Rightarrow> gate_verdict \<Rightarrow> bool" where
  "of_run c cmd r = (gv_command r = executed cmd c \<and> gv_code r = Some (cp_code c) \<and> gv_out r = cp_out c \<and> gv_err r = cp_err c)"

lemma classify_passed:
  assumes "classify_completed rn p (executed cmd c) c d s = (Inr r, s')"
  shows "of_run c cmd r \<and> (gv_passed r \<longrightarrow> evidence_stands rn c)"
proof -
  obtain status summary ask ev ev' ev3 where
    c: "classified (rn_mutation_gate rn) (rn_stall_detection rn \<or> rn_quarantine rn) ev' c = (status, summary, ask, ev)"
    and r: "r = verdict_on (executed cmd c) c status summary ev3"
    using assms by (auto simp: classify_completed_def res_simps split: prod.splits if_splits)
  have "status = GatePassed \<longrightarrow> evidence_stands rn c" using c classified_passed by blast
  then show ?thesis unfolding r by (simp add: verdict_on_def of_run_def)
qed

lemma annotate_same [simp]:
  "gv_passed (annotate rn h r) = gv_passed r" "of_run c cmd (annotate rn h r) = of_run c cmd r"
  by (simp_all add: annotate_def of_run_def)

lemma pit_update_fails [simp]: "\<not> gv_passed (pit_update f r)"
  by (simp add: pit_update_def Let_def)

lemma confirmed_passed:
  assumes "confirmed p cmd v s = (Inr r, s')" "gv_passed r"
  shows "s' = s \<and> gv_passed v \<and> (\<exists>checked. validate_completion (mp_completion p (gw_env s')) cmd = Inr checked)
    \<and> (\<forall>c k. of_run c k r = of_run c k v)"
proof (cases "gv_passed v")
  case True
  note c = assms(1) [unfolded confirmed_def seq_reading]
  show ?thesis
  proof (cases "validate_completion (mp_completion p (gw_env s)) cmd")
    case (Inl f)
    with c True have "r = pit_update f v" by (simp add: ret_def)
    with assms(2) show ?thesis by simp
  next
    case (Inr checked)
    with c True show ?thesis by (cases "checked = []") (auto simp: ret_def of_run_def)
  qed
qed (use assms in \<open>auto simp: confirmed_def res_simps\<close>)

lemma judged_passed:
  assumes "judged rn p h cmd c d s = (Inr r, s')" "gv_passed r"
  shows "of_run c cmd r \<and> evidence_stands rn c
    \<and> (\<exists>checked. validate_completion (mp_completion p (gw_env s')) (gv_command r) = Inr checked)"
proof -
  obtain v s1 where v: "classify_completed rn p (executed cmd c) c d s = (Inr v, s1)"
    and r: "confirmed p (executed cmd c) (annotate rn h v) s1 = (Inr r, s')"
    using assms(1) unfolding judged_def seq_Inr by blast
  note conf = confirmed_passed [OF r assms(2)]
  have of: "of_run c cmd r" "gv_passed v" using conf classify_passed [OF v] by simp_all
  from of(1) have "gv_command r = executed cmd c" by (simp add: of_run_def)
  moreover have "\<exists>checked. validate_completion (mp_completion p (gw_env s')) (executed cmd c) = Inr checked" using conf by blast
  ultimately have "\<exists>checked. validate_completion (mp_completion p (gw_env s')) (gv_command r) = Inr checked" by (simp only:)
  with of classify_passed [OF v] show ?thesis by blast
qed

text \<open>Where the judged run comes from: Maven ran it, or it stands for a rerun whose bookkeeping failed.\<close>

definition ran_or_reported :: "runner \<Rightarrow> 'w gate_world \<Rightarrow> completed \<Rightarrow> bool" where
  "ran_or_reported rn s c = ((\<exists>cmd. (cmd, Inr c) \<in> set (gw_runs s))
     \<or> rn_full_run rn \<and> rn_exclude_unrelated rn \<and> cp_code c = 2 \<and> cp_out c = [])"

lemma ran_kept: "costs n m \<Longrightarrow> m s = (x, s') \<Longrightarrow> ran_or_reported rn s c \<Longrightarrow> ran_or_reported rn s' c"
  using costs_kept by (fastforce simp: ran_or_reported_def)

lemma judged_run_same: "judged_run read cmd c = Inr c' \<Longrightarrow> c' = c"
  by (auto simp: judged_run_def split: if_splits option.splits sum.splits)

lemma logged_run_listed: "logged_run p cmd t s = (Inr x, s') \<Longrightarrow> (cmd, x) \<in> set (gw_runs s')"
  by (auto simp: logged_run_def split: prod.splits)

lemma run_command_ran:
  assumes "run_command rn p cmd t s = (Inr (Inr c), s')"
  shows "\<exists>cmd. (cmd, Inr c) \<in> set (gw_runs s')"
proof -
  obtain x s1 where x: "(case x of Inl f \<Rightarrow> ret (Inl (PitIncompatible f))
      | Inr cmd \<Rightarrow> seq (logged_run p cmd (case t of None \<Rightarrow> of_int (rn_timeout rn) | Some t \<Rightarrow> t)) (\<lambda>r. case r of
            Inl f \<Rightarrow> ret (Inl f)
          | Inr c \<Rightarrow> reading (\<lambda>w. judged_run (mp_completion p w) cmd c))) s1 = (Inr (Inr c), s')"
    using assms by (auto simp: run_command_def seq_Inr)
  then obtain cmd1 where cmd1: "x = Inr cmd1" by (cases x) (auto simp: res_simps)
  with x obtain y s2 where y: "logged_run p cmd1 (case t of None \<Rightarrow> of_int (rn_timeout rn) | Some t \<Rightarrow> t) s1 = (Inr y, s2)"
    "(case y of Inl f \<Rightarrow> ret (Inl f) | Inr c \<Rightarrow> reading (\<lambda>w. judged_run (mp_completion p w) cmd1 c)) s2 = (Inr (Inr c), s')"
    by (auto simp: seq_Inr)
  then obtain c' where "y = Inr c'" "judged_run (mp_completion p (gw_env s2)) cmd1 c' = Inr c" "s' = s2"
    by (cases y) (auto simp: ret_run reading_run)
  with logged_run_listed [OF y(1)] judged_run_same show ?thesis by blast
qed

lemma answer_stands:
  "answer_stall rn p changed production modules d cmd c h s = (Inr (Stands c'), s') \<Longrightarrow> c' = c \<and> s' = s"
  by (auto simp: answer_stall_def res_simps split: if_splits option.splits prod.splits)

lemma round_stands:
  assumes "maven_round rn p changed production modules d deadline cmd h s = (Inr (Stands c), s')"
  obtains t where "run_command rn p cmd (Some t) s = (Inr (Inr c), s')"
proof -
  obtain x s1 where x: "run_command rn p cmd (Some (max (1 / 1000) (deadline - mp_now p (gw_env s)))) s = (Inr x, s1)"
      "(case x of Inl fault \<Rightarrow> seq (fault_result rn p cmd h d fault) (\<lambda>v. ret (Reports v))
        | Inr c \<Rightarrow> answer_stall rn p changed production modules d cmd c h) s1 = (Inr (Stands c), s')"
    using assms by (auto simp: maven_round_def seq_reading seq_Inr)
  show ?thesis
  proof (cases x)
    case (Inr c')
    with x answer_stands show ?thesis by (fastforce intro: that)
  next
    case (Inl e)
    with x(2) show ?thesis by (auto simp: res_simps)
  qed
qed

lemma loop_ran:
  "maven_loop rn p changed production modules d deadline cmd h s = (Inr (cmd', h', Inr c), s') \<Longrightarrow>
     \<exists>k. (k, Inr c) \<in> set (gw_runs s')"
proof (induction rn p changed production modules d deadline cmd h s rule: maven_loop.induct)
  case (1 rn p changed production modules d deadline cmd h s)
  obtain x s1 where x: "maven_round rn p changed production modules d deadline cmd h s = (x, s1)" by fastforce
  note loop = 1(2) [unfolded maven_loop.simps [of rn p changed production modules d deadline cmd h s] x prod.case]
  show ?case
  proof (cases x rule: ends_here.cases)
    case (1 c')
    then have c: "c' = c" "s1 = s'" using loop by simp_all
    obtain t where "run_command rn p cmd (Some t) s = (Inr (Inr c), s')" by (rule round_stands [OF x [unfolded 1 c]])
    then show ?thesis by (rule run_command_ran)
  next
    case (2 cmd1 h1)
    with loop have "maven_loop rn p changed production modules d deadline cmd1 h1 s1 = (Inr (cmd', h', Inr c), s')" by simp
    from 1(1) [OF x [symmetric] 2 refl this] show ?thesis .
  qed (use loop in auto)
qed

lemma rerun_ran:
  assumes "rerun_without_unrelated rn p changed production modules previous cmd c d s = (Inr (cmd', c', d'), s')"
    "rn_full_run rn" "ran_or_reported rn s c"
  shows "ran_or_reported rn s' c'"
proof (cases "c' = c")
  case True
  then show ?thesis using ran_kept [OF costs_rerun assms(1)] assms(3) by simp
next
  case False
  obtain modules' selected q sources d1 s1 where
    "take_rerun rn p modules' cmd selected c q sources d1 s1 = (Inr (cmd', c', d'), s')" and excl: "rn_exclude_unrelated rn"
    using assms(1) False
    by (auto simp: rerun_without_unrelated_def Let_def res_simps split: if_splits option.splits prod.splits)
  then have "take_rerun rn p modules' cmd selected c q sources d1 s1 = (Inr (cmd', c', d'), s')" by simp
  then obtain s2 x s3 where run: "run_command rn p selected None s2 = (Inr x, s3)"
    and x: "(case x of Inl (TimedOut a b) \<Rightarrow> raise RerunTimedOut
       | Inl (PitIncompatible f) \<Rightarrow> ret (selected, \<lparr>cp_args = Some selected, cp_code = 2, cp_out = [], cp_err = pf_text f\<rparr>,
           dict_update d1 [(''repairEligible'', PBool False), (''failureKind'', PStr ''pit_compatibility_failed'')])
       | Inl (CannotStart m) \<Rightarrow> ret (cmd, c, d1)
       | Inr again \<Rightarrow>
           if has_required_evidence (output_of c) \<and> \<not> has_required_evidence (output_of again)
           then ret (cmd, c, with_scope_evidence (without_exclusions q ''rerun-produced-no-evidence'') d1)
           else ret (selected, again, rerun_evidence (output_of c) sources d1)) s3 = (Inr (cmd', c', d'), s')"
    by (auto simp: take_rerun_def andthen_Inr seq_Inr)
  show ?thesis
  proof (cases x)
    case (Inl e)
    with x False assms(2) excl show ?thesis
      by (cases e) (auto simp: res_simps ran_or_reported_def)
  next
    case (Inr again)
    with x False have "again = c'" "s3 = s'" by (auto simp: res_simps split: if_splits)
    with run Inr run_command_ran show ?thesis unfolding ran_or_reported_def by blast
  qed
qed

text \<open>A passing verdict and the run it rests on.\<close>

definition backed :: "runner \<Rightarrow> 'w maven_ports \<Rightarrow> 'w gate_world \<Rightarrow> gate_verdict \<Rightarrow> bool" where
  "backed rn p s r = (\<exists>c cmd. of_run c cmd r \<and> evidence_stands rn c \<and> ran_or_reported rn s c
     \<and> (\<exists>checked. validate_completion (mp_completion p (gw_env s)) (gv_command r) = Inr checked))"

lemma judged_backed:
  assumes "judged rn p h cmd c d s = (Inr r, s')" "gv_passed r" "ran_or_reported rn s c"
  shows "backed rn p s' r"
  using judged_passed [OF assms(1,2)] ran_kept [OF costs_judged assms(1,3)] unfolding backed_def by blast

lemma full_judged_backed:
  assumes "full_run_judged rn p changed production modules previous h cmd c d s = (Inr r, s')"
    "gv_passed r" "rn_full_run rn" "ran_or_reported rn s c"
  shows "backed rn p s' r"
proof (cases "cp_code c = 0 \<and> \<not> has_enforcer_marker (cp_out c @ cp_err c)")
  case True
  with assms(1,2) show ?thesis by (auto simp: full_run_judged_def Let_def ret_run verdict_on_def)
next
  case False
  then obtain d1 d2 s1 cmd' c' d' s2 where q: "with_test_quality p d1 s = (Inr d2, s1)"
    and r: "rerun_without_unrelated rn p changed production modules previous cmd c d2 s1 = (Inr (cmd', c', d'), s2)"
    and j: "judged rn p h cmd' c' d' s2 = (Inr r, s')"
    using assms(1) by (auto simp: full_run_judged_def Let_def seq_reading seq_Inr split: prod.splits)
  have "ran_or_reported rn s2 c'"
    by (rule rerun_ran [OF r assms(3) ran_kept [OF costs_quality q assms(4)]])
  with j assms(2) show ?thesis by (rule judged_backed)
qed

lemma fault_fails: "fault_result rn p cmd h d fault s = (Inr v, s') \<Longrightarrow> \<not> gv_passed v"
  by (auto simp: fault_result_def pit_result_def gate_result_def res_simps split: maven_fault.splits option.splits)

lemma answer_fails: "answer_stall rn p changed production modules d cmd c h s = (Inr (Reports v), s') \<Longrightarrow> \<not> gv_passed v"
  by (auto simp: answer_stall_def hanging_failure_def verdict_on_def Let_def res_simps split: if_splits option.splits prod.splits)

lemma round_fails:
  assumes "maven_round rn p changed production modules d deadline cmd h s = (Inr (Reports v), s')"
  shows "\<not> gv_passed v"
proof -
  obtain x s1 where x: "(case x of Inl fault \<Rightarrow> seq (fault_result rn p cmd h d fault) (\<lambda>v. ret (Reports v))
        | Inr c \<Rightarrow> answer_stall rn p changed production modules d cmd c h) s1 = (Inr (Reports v), s')"
    using assms by (auto simp: maven_round_def seq_reading seq_Inr)
  then show ?thesis by (cases x) (auto simp: seq_Inr ret_run dest: fault_fails answer_fails)
qed

lemma loop_fails:
  "maven_loop rn p changed production modules d deadline cmd h s = (Inr (cmd', h', Inl v), s') \<Longrightarrow> \<not> gv_passed v"
proof (induction rn p changed production modules d deadline cmd h s rule: maven_loop.induct)
  case (1 rn p changed production modules d deadline cmd h s)
  obtain x s1 where x: "maven_round rn p changed production modules d deadline cmd h s = (x, s1)" by fastforce
  note loop = 1(2) [unfolded maven_loop.simps [of rn p changed production modules d deadline cmd h s] x prod.case]
  show ?case
  proof (cases x rule: ends_here.cases)
    case (2 cmd1 h1)
    with loop have "maven_loop rn p changed production modules d deadline cmd1 h1 s1 = (Inr (cmd', h', Inl v), s')" by simp
    from 1(1) [OF x [symmetric] 2 refl this] show ?thesis .
  next
    case (4 w)
    then have "w = v" using loop by simp
    with x 4 show ?thesis using round_fails by simp
  qed (use loop in simp_all)
qed

lemma planned_backed:
  assumes "run_planned rn p changed production modules cmd d s = (Inr r, s')" "gv_passed r"
  shows "backed rn p s' r"
proof -
  obtain deadline cmd1 h1 s1 x s2 previous where l: "maven_loop rn p changed production modules d deadline cmd1 h1 s1 = (Inr x, s2)"
    and a: "after_loop rn p changed production modules previous d x s2 = (Inr r, s')"
    using assms(1) by (auto simp: run_planned_def seq_reading seq_Inr split: prod.splits)
  obtain cmd2 h2 y where x: "x = (cmd2, h2, y)" by (cases x)
  show ?thesis
  proof (cases y)
    case (Inl v)
    with a x have "r = v" by (simp add: after_loop_def ret_run)
    with l x Inl loop_fails assms(2) show ?thesis by blast
  next
    case (Inr c)
    from l [unfolded x Inr] have "ran_or_reported rn s2 c" using loop_ran unfolding ran_or_reported_def by blast
    with a x Inr assms(2) show ?thesis
      by (cases "rn_full_run rn") (auto simp: after_loop_def intro: judged_backed full_judged_backed)
  qed
qed


end
