(* ===== verification/LaunchFacts.thy ===== *)
theory LaunchFacts
  imports MavenLauncher
begin

text \<open>
  Every verifying run has credentials of its own, whatever the command it starts from carries, so the
  completion file that is checked afterwards is the one this run was told to write.
\<close>

lemma given_values_suffix: "\<exists>vs. given_values (xs @ ys) = vs @ given_values ys"
  by (induction xs) auto

lemma given_eq: "given cmd key = (let vs = filter (\<lambda>v. startswith v (key @ ''='')) (given_values cmd) in
    if vs = [] then None else Some (drop (Suc (length key)) (last vs)))"
  by (simp add: given_def Let_def split: list.split)

lemma given_later:
  assumes "filter (\<lambda>v. startswith v (key @ ''='')) (given_values ys) \<noteq> []"
  shows "given (xs @ ys) key = given ys key"
proof -
  obtain vs where "given_values (xs @ ys) = vs @ given_values ys" using given_values_suffix by blast
  with assms show ?thesis by (simp add: given_eq Let_def)
qed

definition ends_plainly :: "command \<Rightarrow> bool" where
  "ends_plainly cmd = (cmd \<noteq> [] \<and> last cmd \<noteq> ''-D'')"

lemma given_snoc:
  assumes "ends_plainly cmd" "\<not> startswith (k @ ''='' @ v) (key @ ''='')"
  shows "given (cmd @ [''-D'' @ k @ ''='' @ v]) key = given cmd key"
proof -
  have "given_values (cmd @ [''-D'' @ k @ ''='' @ v]) = given_values cmd @ [k @ ''='' @ v]"
    using assms(1) given_values_append by (auto simp: ends_plainly_def)
  with assms(2) show ?thesis by (simp add: given_def)
qed

lemma unless_property_same:
  assumes "ends_plainly cmd" "\<not> startswith (k @ ''='' @ v) (key @ ''='')"
  shows "ends_plainly (unless_property k v cmd) \<and> given (unless_property k v cmd) key = given cmd key"
  using given_snoc [OF assms] assms(1) by (simp add: unless_property_def ends_plainly_def)

lemma credentials_given:
  assumes "enforcing_command site cmd = Inr c"
  shows "\<exists>dir. ls_directory site = Inr dir \<and> given c evidence_key = Some (dir @ ''/completion.xml'')
    \<and> given c invocation_key = Some (ls_nonce site)"
proof -
  obtain dir where dir: "ls_directory site = Inr dir"
    using assms by (auto simp: enforcing_command_def ebind_eq_Inr)
  let ?paths = "other_paths (ls_jar site) (case given cmd ext_key of None \<Rightarrow> [] | Some v \<Rightarrow> v) @ [ls_jar site]"
  let ?own = "[''-D'' @ ext_key @ ''='' @ path_list ?paths, ''-Duta.pit.compat.intent=diff-enforcement'',
     ''-D'' @ invocation_key @ ''='' @ ls_nonce site, ''-D'' @ evidence_key @ ''='' @ dir @ ''/completion.xml'',
     ''-Dtest.enforcement.enabled=true'']"
  let ?c0 = "without_extension cmd @ ?own"
  have c: "c = unless_property ''skipFailingTests'' ''true'' (unless_property mutation_gate_property ''100''
      (unless_property ''targetTests'' ''*'' ?c0))"
    using assms dir by (auto simp: enforcing_command_def ebind_eq_Inr Let_def)
  have plain: "ends_plainly ?c0" by (simp add: ends_plainly_def)
  have own: "given ?c0 evidence_key = Some (dir @ ''/completion.xml'')" "given ?c0 invocation_key = Some (ls_nonce site)"
    by (subst given_later; simp add: given_def ext_key_def evidence_key_def invocation_key_def)+
  have keys: "\<not> startswith (''targetTests'' @ ''='' @ v) (key @ ''='') \<and> \<not> startswith (mutation_gate_property @ ''='' @ v) (key @ ''='')
      \<and> \<not> startswith (''skipFailingTests'' @ ''='' @ v) (key @ ''='')" if "key \<in> {evidence_key, invocation_key}" for v key
    using that by (auto simp: mutation_gate_property_def evidence_key_def invocation_key_def)
  have "given c key = given ?c0 key" if key: "key \<in> {evidence_key, invocation_key}" for key
  proof -
    note same = unless_property_same [of _ _ _ key]
    let ?c1 = "unless_property ''targetTests'' ''*'' ?c0"
    let ?c2 = "unless_property mutation_gate_property ''100'' ?c1"
    have 1: "ends_plainly ?c1 \<and> given ?c1 key = given ?c0 key" using plain keys [OF key] by (intro same) blast+
    then have 2: "ends_plainly ?c2 \<and> given ?c2 key = given ?c1 key" using keys [OF key] by (intro same) blast+
    then have "given c key = given ?c2 key" unfolding c using keys [OF key] by (intro same [THEN conjunct2]) blast+
    with 1 2 show ?thesis by simp
  qed
  with own dir show ?thesis by simp
qed

text \<open>
  C25: If a command that verifies was prepared and the check of its completion succeeds, then
  the file checked is the one in the directory made for this run, it carries this run's
  nonce, is complete, and every module in it is settled; whatever extension, evidence or
  invocation the command carried before.
\<close>

theorem fresh_credentials:
  assumes "prepared_command site cmd = Inr c" "''verify'' \<in> set cmd" "validate_completion read c = Inr checked"
  shows "\<exists>dir f. ls_directory site = Inr dir \<and> read (dir @ ''/completion.xml'') = Inr f
    \<and> cn_invocation f = Some (ls_nonce site) \<and> cn_complete f = Some ''true'' \<and> list_all module_settled (cn_modules f)"
proof -
  have "enforcing_command site cmd = Inr c" using assms(1,2) by (simp add: prepared_command_def split: sum.splits)
  then obtain dir where dir: "ls_directory site = Inr dir" "given c evidence_key = Some (dir @ ''/completion.xml'')"
    "given c invocation_key = Some (ls_nonce site)"
    using credentials_given by blast
  from validated_completion [OF assms(3) dir(2)] dir show ?thesis by auto
qed

end
