(* ===== verification/MavenSamples.thy ===== *)
theory MavenSamples
  imports MavenRunFacts LaunchFacts
begin

text \<open>A repository with one module, a Maven that passes, and the values of the readers on its output.\<close>

definition sample_output :: str where
  "sample_output = ''[test-enforcer] diff coverage 96%'' @ newline #
     ''diff mutation score 100% passed for A (3/3 detected; 0 survived; 0 no coverage excluded)''"

definition sample_completed :: completed where
  "sample_completed = \<lparr>cp_args = None, cp_code = 0, cp_out = sample_output, cp_err = []\<rparr>"

definition sample_pom :: element where
  "sample_pom = Element ''project'' [] [Element ''build'' [] [Element ''plugins'' [] [Element ''plugin'' []
     [Element ''artifactId'' ''test-enforcer'' [], Element ''version'' ''1.0.16'' []]]]]"

definition sample_checkout :: checkout where
  "sample_checkout = \<lparr>co_files = [(''m/pom.xml'', Some []), (''m/src/main/java/A.java'', Some [])],
     co_poms = [], co_reports = []\<rparr>"

definition sample_site :: launch_site where
  "sample_site = \<lparr>ls_jar = ''compat.jar'', ls_artifact_fault = None, ls_jvm_extension = False, ls_mvn_extension = False,
     ls_nonce = ''n1'', ls_directory = Inr ''cache/n1''\<rparr>"

definition sample_completion :: completion where
  "sample_completion = \<lparr>cn_tag = ''pitCompatibility'', cn_invocation = Some ''n1'', cn_complete = Some ''true'', cn_modules = []\<rparr>"

definition sample_maven :: "unit maven_ports" where
  "sample_maven = \<lparr>mp_checkout = \<lambda>w. sample_checkout, mp_diff = \<lambda>w. (0, ''m/src/main/java/A.java''),
     mp_words = split_on (CHR '' ''), mp_now = \<lambda>w. 0, mp_site = \<lambda>w. (sample_site, w), mp_settings = \<lambda>w. (''settings.xml'', w),
     mp_agent = \<lambda>w cmd. None, mp_maven = \<lambda>cmd t w. (Inr sample_completed, w), mp_completion = \<lambda>w path. Inr sample_completion,
     mp_effective_pom = \<lambda>w. Some sample_pom, mp_pom_output = \<lambda>w. ''pom.xml'', mp_quality = \<lambda>w ps. None, mp_failed_tests = \<lambda>w. [],
     mp_inventory = \<lambda>ps w. (None, w), mp_clear = \<lambda>ms w. w, mp_quarantined = \<lambda>w. [], mp_observe = \<lambda>n m w. w, mp_show_g = \<lambda>q. []\<rparr>"

definition sample_runner :: runner where
  "sample_runner = \<lparr>rn_command = ''mvn verify -Dtest.enforcement.enabled=true'', rn_timeout = 1800, rn_base_ref = ''origin/master'',
     rn_coverage_gate = 95, rn_mutation_gate = 100, rn_mirror = [], rn_full_run = True, rn_exclude_unrelated = False,
     rn_stall_detection = False, rn_stall_seconds = 600, rn_stall_retries = 1, rn_quarantine = False, rn_store = False, rn_generated = []\<rparr>"

definition sample_world :: "unit gate_world" where
  "sample_world = \<lparr>gw_env = (), gw_runs = []\<rparr>"

definition sample_lower :: str where
  "sample_lower = ''[test-enforcer] diff coverage 96%'' @ newline #
     ''diff mutation score 100% passed for a (3/3 detected; 0 survived; 0 no coverage excluded)'' @ [newline]"

section \<open>What the readers see in its output\<close>

lemma sample_lowered: "lower (output_of sample_completed) = sample_lower"
  by code_simp

lemma sample_not_skipped: "\<not> looks_skipped (output_of sample_completed)"
  unfolding looks_skipped_def sample_lowered by code_simp

lemma sample_gate_held: "\<not> looks_gate_failed (output_of sample_completed)"
proof -
  have "\<not> mentions gate_failure_markers sample_lower" by code_simp
  moreover have "\<not> contains sample_lower ''diff line coverage''" "\<not> contains sample_lower ''test strength''" by code_simp+
  ultimately show ?thesis by (simp add: looks_gate_failed_def sample_lowered)
qed

lemma sample_builds: "\<not> looks_build_broken (output_of sample_completed)"
proof -
  have "\<not> mentions build_break_markers sample_lower" "\<not> contains sample_lower ''package ''" by code_simp+
  then show ?thesis by (simp add: looks_build_broken_def sample_lowered)
qed

lemma sample_baseline: "\<not> looks_baseline_failed (output_of sample_completed)"
  unfolding looks_baseline_failed_def sample_lowered by code_simp

lemma sample_scores: "diff_mutation_scores (output_of sample_completed) = [100]"
  by code_simp

lemma sample_covered: "found_in diff_coverage (output_of sample_completed)"
  by code_simp

lemma sample_killed: "found_in passed_score (output_of sample_completed)"
  by code_simp

lemma sample_pit: "modules_without_covered_mutants (output_of sample_completed) = []"
proof -
  have "\<not> found_in skip_failing_applied (output_of sample_completed)" by code_simp
  then show ?thesis by (simp add: modules_without_covered_mutants_def)
qed

lemma sample_targets: "pitest_target_patterns (output_of sample_completed) = []"
  by code_simp

lemma sample_marked: "has_enforcer_marker (cp_out sample_completed @ cp_err sample_completed)"
  by code_simp

lemma sample_code [simp]: "cp_code sample_completed = 0" "cp_args sample_completed = None"
  by (simp_all add: sample_completed_def)

lemma sample_classified:
  "classified 100 False ev sample_completed = (GatePassed, ''UTA test-enforcement passed'', False, ev)"
  by (simp add: classified_def Let_def sample_not_skipped sample_gate_held sample_builds sample_baseline sample_scores
      sample_pit score_below_gate_def has_required_evidence_def sample_covered sample_killed)

section \<open>The run\<close>

definition sample_query :: command where
  "sample_query = [''mvn'', ''-q'', ''help:effective-pom'', ''-Dtest.enforcement.enabled=true'', ''-pl'', ''m'', ''-am'',
     ''-Dtest.enforcement.diff.coverage.minLines=0.95'', ''-Dtest.enforcement.pitest.testStrengthThreshold=100'',
     ''-Doutput=pom.xml'']"

definition sample_command :: command where
  "sample_command = [''mvn'', ''verify'', ''-Dtest.enforcement.enabled=true'', ''-pl'', ''m'', ''-am'',
     ''-Dtest.enforcement.diff.coverage.minLines=0.95'', ''-Dtest.enforcement.pitest.testStrengthThreshold=100'']"

lemma sample_run_command:
  assumes "prepared_command sample_site cmd = Inr c" "validate_completion (\<lambda>path. Inr sample_completion) c = Inr checked"
    "\<not> uses_early_argline sample_checkout"
  shows "\<exists>s'. run_command sample_runner sample_maven cmd t s = (Inr (Inr sample_completed), s')"
  using assms
  by (auto simp: run_command_def full_command_def sample_runner_def sample_maven_def seq_eq ret_def reading_def reads_def
      acting_def logged_run_def judged_run_def with_jacoco_bridge_def)

lemma sample_no_argline: "\<not> uses_early_argline sample_checkout"
  by code_simp

lemma sample_queried: "\<exists>s'. run_command sample_runner sample_maven sample_query t s = (Inr (Inr sample_completed), s')"
proof -
  have "prepared_command sample_site sample_query = Inr sample_query"
    "validate_completion (\<lambda>path. Inr sample_completion) sample_query = Inr []" by code_simp+
  with sample_no_argline show ?thesis by (intro sample_run_command)
qed

lemma sample_verified: "\<exists>s'. run_command sample_runner sample_maven sample_command t s = (Inr (Inr sample_completed), s')"
proof -
  have "(case prepared_command sample_site sample_command of Inl f \<Rightarrow> False
      | Inr c \<Rightarrow> (case validate_completion (\<lambda>path. Inr sample_completion) c of Inl f \<Rightarrow> False | Inr d \<Rightarrow> True))"
    by code_simp
  with sample_no_argline show ?thesis
    by (cases "prepared_command sample_site sample_command") (auto intro!: sample_run_command split: sum.splits)
qed

section \<open>The stages of the gate on it\<close>


definition sample_evidence :: pydict where
  "sample_evidence = diff_evidence ''origin/master'' (Some [''m/src/main/java/A.java'']) (Some [''m/src/main/java/A.java'']) [] [''m''] [] []"

lemma sample_changed:
  "changed_java_files 0 ''m/src/main/java/A.java'' = Some [''m/src/main/java/A.java'']"
  "changed_production_files (Some [''m/src/main/java/A.java'']) = Some [''m/src/main/java/A.java'']"
  by code_simp+

lemma sample_planned:
  "planned sample_runner sample_maven (Some [''m/src/main/java/A.java'']) (Some [''m/src/main/java/A.java''])
     [''mvn'', ''verify'', ''-Dtest.enforcement.enabled=true''] s
   = (Inr \<lparr>pl_command = [''mvn'', ''verify'', ''-Dtest.enforcement.enabled=true'', ''-pl'', ''m'', ''-am''],
       pl_evidence = sample_evidence, pl_modules = [''m''], pl_tests = None\<rparr>, s)"
proof -
  have "modules_for_files sample_checkout [''m/src/main/java/A.java''] = [''m'']"
    "with_changed_modules [''mvn'', ''verify'', ''-Dtest.enforcement.enabled=true''] [''m'']
       = [''mvn'', ''verify'', ''-Dtest.enforcement.enabled=true'', ''-pl'', ''m'', ''-am'']" by code_simp+
  then show ?thesis
    by (simp add: planned_def sample_runner_def sample_maven_def full_plan_def reading_def reads_def Let_def sample_evidence_def)
qed

lemma sample_tooling: "\<exists>t s'. tooling_status sample_runner sample_maven sample_command s = (Inr t, s') \<and> tl_available t"
proof -
  have q: "effective_pom_command ''mvn'' (pom_texts sample_checkout) sample_command (map_of (co_poms sample_checkout) ''pom.xml'') ''pom.xml'' = sample_query"
    and t: "tl_available (effective_status (Some sample_pom))" by code_simp+
  obtain s1 where "run_command sample_runner sample_maven sample_query None s = (Inr (Inr sample_completed), s1)"
    using sample_queried by blast
  moreover have "mp_checkout sample_maven (gw_env s) = sample_checkout" "mp_pom_output sample_maven (gw_env s) = ''pom.xml''"
    "mp_effective_pom sample_maven (gw_env s1) = Some sample_pom" for s s1 by (simp_all add: sample_maven_def)
  moreover have "(case sample_command of [] \<Rightarrow> ''mvn'' | m # _ \<Rightarrow> m) = ''mvn''" by (simp add: sample_command_def)
  ultimately show ?thesis using q t by (simp add: tooling_status_def seq_reading seq_eq reading_def reads_def)
qed

lemma sample_classify:
  "\<exists>ev. classify_completed sample_runner sample_maven cmd sample_completed d s = (Inr (verdict_on cmd sample_completed GatePassed ''UTA test-enforcement passed'' ev), s)"
proof -
  have filtered: "with_filtered_targets (output_of sample_completed) (Some d) = Some d"
    by (simp add: with_filtered_targets_def sample_targets)
  have "rn_mutation_gate sample_runner = 100" "\<not> (rn_stall_detection sample_runner \<or> rn_quarantine sample_runner)"
    by (simp_all add: sample_runner_def)
  then show ?thesis
    by (intro exI [of _ "Some d"]) (simp add: classify_completed_def seq_reading Let_def filtered sample_baseline sample_classified seq_eq ret_def reading_def reads_def)
qed

lemma sample_judged: "\<exists>r s'. judged sample_runner sample_maven h sample_command sample_completed d s = (Inr r, s') \<and> gv_passed r"
proof -
  have valid: "validate_completion (mp_completion sample_maven w) sample_command = Inr []" for w
  proof -
    have "given sample_command evidence_key = None" by code_simp
    then show ?thesis by (simp add: validate_completion_def)
  qed
  obtain ev where "classify_completed sample_runner sample_maven sample_command sample_completed d s
      = (Inr (verdict_on sample_command sample_completed GatePassed ''UTA test-enforcement passed'' ev), s)"
    using sample_classify by blast
  moreover have "\<not> (rn_stall_detection sample_runner \<or> rn_quarantine sample_runner)" by (simp add: sample_runner_def)
  ultimately show ?thesis
    by (simp add: judged_def executed_def seq_eq annotate_def confirmed_def verdict_on_def seq_reading valid ret_def reading_def reads_def)
qed

lemma sample_full_judged:
  "\<exists>r s'. full_run_judged sample_runner sample_maven changed production modules previous h sample_command sample_completed d s = (Inr r, s')
     \<and> gv_passed r"
proof -
  have "rn_exclude_unrelated sample_runner = False" by (simp add: sample_runner_def)
  then show ?thesis using sample_judged sample_marked
    by (simp add: full_run_judged_def Let_def with_test_quality_def rerun_without_unrelated_def seq_eq ret_def reading_def reads_def)
qed

lemma sample_loop:
  "\<exists>s'. maven_loop sample_runner sample_maven changed production modules d deadline sample_command h s
     = (Inr (sample_command, h, Inr sample_completed), s')"
proof -
  obtain s1 where "run_command sample_runner sample_maven sample_command (Some (max (1/1000) (deadline - mp_now sample_maven (gw_env s)))) s
      = (Inr (Inr sample_completed), s1)" using sample_verified by blast
  moreover have "\<not> rn_stall_detection sample_runner" by (simp add: sample_runner_def)
  ultimately show ?thesis
    by (subst maven_loop.simps) (simp add: maven_round_def seq_eq answer_stall_def ret_def reading_def reads_def)
qed

lemma sample_run_planned:
  "\<exists>r s'. run_planned sample_runner sample_maven changed production modules sample_command d s = (Inr r, s') \<and> gv_passed r"
proof -
  let ?previous = "if rn_full_run sample_runner \<and> (rn_exclude_unrelated sample_runner \<or> rn_stall_detection sample_runner)
     then Some (report_snapshot (co_reports (mp_checkout sample_maven (gw_env s)))) else None"
  let ?deadline = "mp_now sample_maven (gw_env s) + of_int (rn_timeout sample_runner)"
  have pre: "preexclude sample_runner sample_maven changed production sample_command s = (Inr (sample_command, no_hanging), s)"
    by (simp add: preexclude_def sample_runner_def ret_def)
  obtain s1 where l: "maven_loop sample_runner sample_maven changed production modules d ?deadline sample_command no_hanging s
      = (Inr (sample_command, no_hanging, Inr sample_completed), s1)" using sample_loop by blast
  obtain r s' where "full_run_judged sample_runner sample_maven changed production modules ?previous no_hanging sample_command sample_completed d s1
      = (Inr r, s')" "gv_passed r" using sample_full_judged by blast
  moreover have "rn_full_run sample_runner" by (simp add: sample_runner_def)
  ultimately show ?thesis
    unfolding run_planned_def seq_eq [of "preexclude _ _ _ _ _"] pre prod.case sum.case seq_reading
      seq_eq [of "maven_loop _ _ _ _ _ _ _ _ _"] l after_loop_def
    by (simp add: if_P)
qed

lemma sample_coverage_gate: "coverage_gate_ratio_value 95 = ''0.95''"
proof -
  have m: "nat (round_half_even (95 / 100 * 10 ^ 4)) = 9500" by (simp add: round_half_even_def)
  have digits: "digit_char 9 = CHR ''9''" "digit_char 5 = CHR ''5''" "digit_char 0 = CHR ''0''" by code_simp+
  have s: "nat_str (9500 mod 10 ^ 4) = ''9500''" "nat_str (9500 div 10 ^ 4) = ''0''" by (simp_all add: nat_str.simps digits)
  have d: "drop_trailing (CHR ''.'') (drop_trailing (CHR ''0'') ''0.9500'') = ''0.95''" by code_simp
  have "fixed_point 4 (95 / 100) = ''0.9500''"
    unfolding fixed_point_def Let_def m s by simp
  then show ?thesis using d by (simp add: coverage_gate_ratio_value_def)
qed
lemma sample_mutation_gate: "gate_percent_value (\<lambda>q. []) 100 = ''100''"
proof -
  have "int_str 100 = ''100''" by code_simp
  then show ?thesis by (simp add: gate_percent_value_def)
qed
lemma sample_gated: "with_gate_properties (\<lambda>q. []) 95 100 [''mvn'', ''verify'', ''-Dtest.enforcement.enabled=true'', ''-pl'', ''m'', ''-am''] = sample_command"
  unfolding with_gate_properties_def sample_coverage_gate sample_mutation_gate sample_command_def by code_simp
lemma sample_profiled: "profiled sample_checkout sample_command = sample_command" by code_simp

lemma sample_passes: "\<exists>r s'. run_gate sample_runner sample_maven sample_world = (Inr r, s') \<and> gv_passed r"
proof -
  let ?files = "Some [''m/src/main/java/A.java'']"
  let ?words = "[''mvn'', ''verify'', ''-Dtest.enforcement.enabled=true'']"
  let ?plan = "\<lparr>pl_command = ?words @ [''-pl'', ''m'', ''-am''], pl_evidence = sample_evidence, pl_modules = [''m''], pl_tests = None\<rparr>"
  have words: "mp_words sample_maven (rn_command sample_runner) = ?words" "validate_command ?words = None" by code_simp+
  have diff: "mp_diff sample_maven w = (0, ''m/src/main/java/A.java'')" for w by (simp add: sample_maven_def)
  have cmd: "profiled (mp_checkout sample_maven w) (with_gate_properties (mp_show_g sample_maven) (rn_coverage_gate sample_runner)
      (rn_mutation_gate sample_runner) (pl_command ?plan)) = sample_command" for w
    using sample_gated sample_profiled by (simp add: sample_maven_def sample_runner_def)
  have plan: "planned sample_runner sample_maven ?files ?files ?words sample_world = (Inr ?plan, sample_world)"
    using sample_planned by simp
  obtain t s1 where t: "tooling_status sample_runner sample_maven sample_command sample_world = (Inr t, s1)" "tl_available t"
    using sample_tooling by blast
  obtain r s' where r: "run_planned sample_runner sample_maven ?files ?files [''m''] sample_command
      (dict_set ''tooling'' (tooling_evidence t) sample_evidence) s1 = (Inr r, s')" "gv_passed r"
    using sample_run_planned by blast
  have "run_if_tooled sample_runner sample_maven ?files ?files ?plan sample_command t s1 = (Inr r, s')"
    using r(1) t(2) by (simp add: run_if_tooled_def Let_def)
  then have "run_gate sample_runner sample_maven sample_world = (Inr r, s')"
    unfolding run_gate_def Let_def words option.case seq_reading diff prod.case sample_changed option.inject list.distinct if_False
      seq_eq [of "planned _ _ _ _ _"] plan sum.case cmd seq_eq [of "tooling_status _ _ _"] t(1)
    by (simp add: plan [simplified] cmd [simplified] t(1))
  with r(2) show ?thesis by blast
qed

section \<open>The witnesses\<close>

theorem maven_runs_bounded_witness: "\<exists>r s'. run_gate sample_runner sample_maven sample_world = (Inr r, s') \<and> length (gw_runs s') \<le> 5"
proof -
  obtain r s' where r: "run_gate sample_runner sample_maven sample_world = (Inr r, s')" using sample_passes by blast
  moreover have "length (gw_runs s') \<le> 5"
    using maven_runs_bounded [OF r] by (simp add: sample_runner_def sample_world_def)
  ultimately show ?thesis by blast
qed


theorem fresh_credentials_witness:
  "cn_invocation sample_completion = Some (ls_nonce sample_site) \<and> cn_complete sample_completion = Some ''true''"
proof -
  have "(case prepared_command sample_site sample_command of Inl f \<Rightarrow> False
      | Inr c \<Rightarrow> (case validate_completion (\<lambda>path. Inr sample_completion) c of Inl f \<Rightarrow> False | Inr d \<Rightarrow> True))"
    by code_simp
  then obtain c d where c: "prepared_command sample_site sample_command = Inr c"
    "validate_completion (\<lambda>path. Inr sample_completion) c = Inr d"
    by (auto split: sum.splits)
  have "''verify'' \<in> set sample_command" by (simp add: sample_command_def)
  from fresh_credentials [OF c(1) this c(2)] show ?thesis by auto
qed

end
