(* ===== verification/RerunTests.thy ===== *)
theory RerunTests
  imports MavenRun
begin

text \<open>
  The tests of a rerun: Surefire and PIT get simple names, so the selection has to tell apart by name what
  it runs from what it leaves out, and no module may be left without a test.
\<close>

section \<open>The failing classes are known classes\<close>

lemma strip_fresh: "fresh_name previous r = Some n \<Longrightarrow> strip n = n \<and> n \<noteq> []"
  by (auto simp: fresh_name_def split: option.splits if_splits)

definition reported_names :: "reported \<Rightarrow> surefire_report list \<Rightarrow> str set" where
  "reported_names previous rs = {n. \<exists>r \<in> set rs. fresh_name previous r = Some n}"

lemma set_by_path [simp]: "set (by_path rs) = set rs"
  by (simp add: by_path_def)

lemma record_names:
  "set (keys_of (record_result previous r acc)) \<subseteq> set (keys_of acc) \<union> set_option (fresh_name previous r)"
  by (cases "fresh_name previous r"; cases "report_broken r") (auto simp: record_result_def keys_of_def keys_dict_set simp del: set_map)

lemma results_names:
  "set (keys_of (fold (record_result previous) rs acc)) \<subseteq> set (keys_of acc) \<union> reported_names previous rs"
proof (induction rs arbitrary: acc)
  case (Cons r rs)
  have "set (keys_of (fold (record_result previous) (r # rs) acc))
      \<subseteq> set (keys_of (record_result previous r acc)) \<union> reported_names previous rs"
    using Cons.IH by simp
  also have "\<dots> \<subseteq> set (keys_of acc) \<union> reported_names previous (r # rs)"
    using record_names [of previous r acc] by (auto simp: reported_names_def)
  finally show ?case .
qed simp

lemma known_add [simp]: "set (known_classes (add_class m ns ivt)) \<supseteq> set (known_classes ivt) \<union> set ns"
proof -
  have sub: "set (known_classes (dict_set m v ivt)) \<supseteq> set (known_classes ivt) \<union> set v"
    if "set (case map_of ivt m of Some ns \<Rightarrow> ns | None \<Rightarrow> []) \<subseteq> set v" for v
    using that
  proof (induction ivt)
    case (Cons e ivt)
    then show ?case by (cases e) (fastforce simp: known_classes_def split: if_splits)
  qed (simp add: known_classes_def)
  show ?thesis unfolding add_class_def Let_def by (rule order_trans [OF _ sub]) auto
qed

lemma known_fold:
  "(\<And>x ivt. set (known_classes ivt) \<subseteq> set (known_classes (f x ivt))) \<Longrightarrow>
     set (known_classes ivt) \<subseteq> set (known_classes (fold f xs ivt))"
proof (induction xs arbitrary: ivt)
  case (Cons x xs)
  have "set (known_classes ivt) \<subseteq> set (known_classes (f x ivt))" by (rule Cons.prems)
  also have "\<dots> \<subseteq> set (known_classes (fold f xs (f x ivt)))" by (rule Cons.IH) (rule Cons.prems)
  finally show ?case by simp
qed simp

definition add_report :: "reported \<Rightarrow> surefire_report \<Rightarrow> inventory \<Rightarrow> inventory" where
  "add_report previous r ivt = (case fresh_name previous r of
     None \<Rightarrow> ivt | Some name \<Rightarrow> add_class (if sr_module r = ''.'' then [] else sr_module r) [name] ivt)"

lemma add_report_keeps: "set (known_classes ivt) \<subseteq> set (known_classes (add_report previous r ivt))"
  using known_add unfolding add_report_def by (auto split: option.split)

lemma reported_known: "reported_names previous rs \<subseteq> set (known_classes (fold (add_report previous) rs ivt))"
proof (induction rs arbitrary: ivt)
  case (Cons r rs)
  have "reported_names previous [r] \<subseteq> set (known_classes (add_report previous r ivt))"
  proof
    fix n assume "n \<in> reported_names previous [r]"
    then have "fresh_name previous r = Some n" by (simp add: reported_names_def)
    then show "n \<in> set (known_classes (add_report previous r ivt))"
      using known_add [of ivt "[n]" "if sr_module r = ''.'' then [] else sr_module r"] by (simp add: add_report_def)
  qed
  also have "\<dots> \<subseteq> set (known_classes (fold (add_report previous) rs (add_report previous r ivt)))"
    by (rule known_fold) (rule add_report_keeps)
  finally show ?case using Cons.IH [of "add_report previous r ivt"] by (auto simp: reported_names_def)
qed (simp add: reported_names_def)

lemma classes_by_module_eq: "classes_by_module rs previous = fold (add_report previous) (by_path rs) []"
  by (simp add: classes_by_module_def add_report_def [abs_def])

lemma merged_keeps: "set (known_classes ivt) \<subseteq> set (known_classes (merged_inventory extra ivt))"
  unfolding merged_inventory_def by (rule known_fold) (use known_add in \<open>auto split: prod.split\<close>)

lemma failing_known:
  assumes "completed_inventory co previous out = Some (classes, sources)"
  shows "set (pt_excluded (failing_partition co changed production previous)) \<subseteq> set (known_classes classes)"
proof
  fix c assume "c \<in> set (pt_excluded (failing_partition co changed production previous))"
  then obtain n where n: "n \<in> set (failed_test_classes (test_class_results (co_reports co) previous))" "c = strip n"
    by (auto simp: failing_partition_def partition_failing_def Let_def split: if_splits option.splits)
  then have "n \<in> set (keys_of (fold (record_result previous) (by_path (co_reports co)) []))"
    by (auto simp: failed_test_classes_def test_class_results_def keys_of_def)
  then have rep: "n \<in> reported_names previous (by_path (co_reports co))"
    using results_names [of previous "by_path (co_reports co)" "[]"] by (auto simp: keys_of_def)
  then have "c = n" using n strip_fresh by (auto simp: reported_names_def)
  moreover have "n \<in> set (known_classes (classes_by_module (co_reports co) previous))"
    using rep reported_known unfolding classes_by_module_eq by blast
  ultimately show "c \<in> set (known_classes classes)"
    using assms merged_keeps by (auto simp: completed_inventory_def Let_def split: if_splits)
qed

section \<open>The selection\<close>

text \<open>
  C33: The classes that a rerun leaves out and those it runs differ in their simple names,
  which is all Surefire and PIT select by; and a module loses all its tests only if each of
  them shares its simple name with another class.
\<close>

theorem rerun_tells_tests_apart:
  assumes "completed_inventory co previous out = Some (classes, sources)"
    "q = narrowed classes (failing_partition co changed production previous)"
  shows "list_all (\<lambda>c. list_all (\<lambda>e. c \<in> set (all_excluded q) \<or> simple_of c \<noteq> simple_of e) (all_excluded q)) (known_classes classes)
    \<and> list_all (\<lambda>(m, cs). emptied (all_excluded q) cs \<longrightarrow> list_all (\<lambda>c. ambiguous classes (simple_of c)) cs) classes"
proof -
  have none: "pt_collateral (failing_partition co changed production previous) = []"
    by (simp add: failing_partition_def partition_failing_def Let_def split: option.split)
  from narrowed_closed [OF failing_known [OF assms(1)] none]
  have "name_closed classes (set (all_excluded q))" by (simp add: assms(2))
  moreover have "list_all (\<lambda>c. ambiguous classes (simple_of c)) cs" if "(m, cs) \<in> set classes" "emptied (all_excluded q) cs" for m cs
    using narrowed_tested that unfolding assms(2) by blast
  ultimately show ?thesis by (auto simp: name_closed_def list_all_iff)
qed

text \<open>A failure of the change itself leaves with an unrelated one of the same name.\<close>

theorem related_failure_leaves_with_its_namesake:
  assumes "r \<in> set (pt_retained q)" "r \<in> set (known_classes classes)" "r \<notin> set (pt_excluded q)"
    "e \<in> set (pt_excluded q)" "e \<in> set (known_classes classes)" "simple_of r = simple_of e" "pt_collateral q = []"
  shows "r \<in> set (all_excluded (expand_collisions classes q)) \<and> r \<notin> set (pt_retained (expand_collisions classes q))"
proof -
  have "r \<in> set (expanded_names classes (pt_excluded q))"
    using assms ambiguousI [of e classes r] by (force simp: expanded_names_def)
  moreover from this have "sort (filter (\<lambda>c. c \<notin> set (pt_excluded q)) (expanded_names classes (pt_excluded q))) \<noteq> []"
    using assms(3) by (metis (mono_tags, lifting) filter_empty_conv set_empty set_sort)
  moreover have "all_excluded q \<noteq> []" using assms(4) by (auto simp: all_excluded_def)
  ultimately show ?thesis using assms(3) by (simp add: expand_collisions_def Let_def all_excluded_def)
qed

section \<open>A repository with a namesake\<close>

text \<open>A failing test of another package, a passing test of the same simple name, and a third test.\<close>

definition namesake_checkout :: checkout where
  "namesake_checkout = \<lparr>co_files = [], co_poms = [], co_reports =
     [\<lparr>sr_path = ''m/target/surefire-reports/TEST-a.FooTest.xml'', sr_module = ''m'', sr_stat = Some (1, 1),
        sr_root = Some (''a.FooTest'', Some 0, Some 1)\<rparr>,
      \<lparr>sr_path = ''m/target/surefire-reports/TEST-b.FooTest.xml'', sr_module = ''m'', sr_stat = Some (1, 1),
        sr_root = Some (''b.FooTest'', Some 0, Some 0)\<rparr>,
      \<lparr>sr_path = ''m/target/surefire-reports/TEST-c.BarTest.xml'', sr_module = ''m'', sr_stat = Some (1, 1),
        sr_root = Some (''c.BarTest'', Some 0, Some 0)\<rparr>]\<rparr>"

definition namesake_classes :: inventory where
  "namesake_classes = [(''m'', [''a.FooTest'', ''b.FooTest'', ''c.BarTest''])]"

lemma namesake_inventory: "completed_inventory namesake_checkout None ''[ERROR] There are test failures.'' = Some (namesake_classes, [])"
  by code_simp

lemma namesake_partition:
  "failing_partition namesake_checkout (Some []) (Some []) None
     = \<lparr>pt_excluded = [''a.FooTest''], pt_collateral = [], pt_retained = [], pt_reason = []\<rparr>"
  by code_simp

definition namesake_selection :: partition where
  "namesake_selection = \<lparr>pt_excluded = [''a.FooTest''], pt_collateral = [''b.FooTest''], pt_retained = [],
     pt_reason = ''simple-name-collision-expanded''\<rparr>"

lemma namesake_narrowed:
  "namesake_selection = narrowed namesake_classes (failing_partition namesake_checkout (Some []) (Some []) None)"
  unfolding namesake_partition by code_simp

theorem rerun_tells_tests_apart_witness:
  "\<not> emptied (all_excluded namesake_selection) [''a.FooTest'', ''b.FooTest'', ''c.BarTest'']
   \<and> simple_of ''c.BarTest'' \<noteq> simple_of ''a.FooTest''"
proof -
  have "\<not> ambiguous namesake_classes (simple_of ''c.BarTest'')" "''c.BarTest'' \<notin> set (all_excluded namesake_selection)"
    "''c.BarTest'' \<in> set (known_classes namesake_classes)" "''a.FooTest'' \<in> set (all_excluded namesake_selection)" by code_simp+
  moreover have "(''m'', [''a.FooTest'', ''b.FooTest'', ''c.BarTest'']) \<in> set namesake_classes"
    by (simp add: namesake_classes_def)
  ultimately show ?thesis
    using rerun_tells_tests_apart [OF namesake_inventory namesake_narrowed] unfolding list_all_iff by fastforce
qed

theorem related_failure_leaves_with_its_namesake_witness:
  "''b.FooTest'' \<in> set (all_excluded (expand_collisions namesake_classes
      \<lparr>pt_excluded = [''a.FooTest''], pt_collateral = [], pt_retained = [''b.FooTest''], pt_reason = []\<rparr>))"
proof -
  have "simple_of ''b.FooTest'' = simple_of ''a.FooTest''" "list_all (\<lambda>c. c \<in> set (known_classes namesake_classes)) [''a.FooTest'', ''b.FooTest'']"
    by code_simp+
  then show ?thesis
    by (intro related_failure_leaves_with_its_namesake [where e = "''a.FooTest''", THEN conjunct1]) simp_all
qed

end
