(* ===== verification/Spec2Isabelle.thy ===== *)
theory Spec2Isabelle
  imports Prelude PyValue DiffLines StoreFacts ReconciliationFacts BatchingFacts GenerationBatchFacts RepairFacts CycleFacts EquivalentFacts PythonSafety
    LedgerRefinement ScoringFacts MutationScoringFacts RepairContext GuardFacts SessionRuns SessionEnds QueueFacts
    MavenSamples RerunTests
begin

text \<open>
  A verification development for the Unit Test Agent.

  \<^bold>\<open>The program.\<close> The agent is two products over one contract. Enforcement is a deterministic
  gate: given a diff, are the changed production lines covered by tests, and do the tests kill
  their mutants? Generation is a loop around a language model that plans, writes and repairs
  tests until the gate accepts them. A model may write tests; only deterministic evidence may
  accept them. Around both there is a task system on SQLite (tasks, targets, events, controls,
  heartbeats, an operation ledger), and a crash of the process is answered by reconciling that
  ledger with the artifacts on disk.

  The parts below follow the way of a request: a task is created and claimed (tasks), cut into
  units (batches), each unit runs the generation cycle on a language backend (cycle, phases),
  every step of which is an operation of the ledger (operations), a repair round is judged by its
  progress (repair) and attacks the mutants worth it (scoring), surviving mutants may be excused as
  equivalent after a review (equivalence), and the gate has the last word (enforcement). Before the
  tasks stands the service of a CI system: it queues checks of a branch (queue) and turns a failed
  check into repair sessions (sessions), which create tasks and run the gate again after them.

  \<^bold>\<open>Common ground.\<close> \<open>Prelude\<close> has the result type (a sum), the state-and-error monad
  \<open>('s, 'e, 'a) prog\<close> with \<open>seq\<close>, \<open>andthen\<close> and \<open>transaction\<close>, the predicate \<open>keeps\<close> with its
  introduction rules, tables as lists of rows with \<open>find_row\<close> and \<open>update_rows\<close>, and the text
  functions of Python. \<open>PyValue\<close> has Python's dynamic values (None, Booleans, integers, floats,
  strings, lists, dictionaries), their truth values and conversions; \<open>DictFacts\<close> says how reading a
  dictionary evaluates.

  \<^bold>\<open>Tasks\<close> (\<open>uta/tasks\<close>). \<open>TaskStore\<close> is the store: rows of \<open>storage/schema.py\<close> as records, the
  SQL of the repositories as functions on the tables, constraints and foreign keys as errors.
  \<open>TaskLifecycle\<close> is \<open>lifecycle/state.py\<close>, \<open>recovery.py\<close> and \<open>stages.py\<close>, the claim of
  \<open>scheduler.py\<close> and the worker's control checks. \<open>TaskInvariant\<close> states the integrity of the
  store and that each operation keeps it; \<open>TaskRuns\<close> closes it over all calls by rule induction.
  \<open>LifecycleFacts\<close> and \<open>StoreFacts\<close> have the behaviour of single operations: claims, terminal
  events, cancel, stop, resume, orphans, counters, progress caps and fresh branch names. The search
  for a branch name runs on the fuel \<open>branch_fuel\<close>, one more than there are branches, and is proved
  to find one.

  \<^bold>\<open>Operations\<close> (\<open>uta/testgen/operations\<close>, \<open>uta/tasks/storage/operation_repository.py\<close>).
  \<open>OperationLedger\<close> has the ledger with its transactions and the cost gate, \<open>Reconciliation\<close> the
  classification of a row after a crash, artifacts, envelopes and recording. \<open>OperationFacts\<close> states
  the contract \<open>final_log\<close> as a locale and interprets it on operations and on cost rows;
  \<open>LedgerRefinement\<close> states refinement as the locale \<open>refined_by\<close> and shows that every run of the
  ledger refines a machine of three states per operation; \<open>ReconciliationFacts\<close> shows that a
  reused result is sound and that an operation runs a bounded number of times.

  \<^bold>\<open>Units\<close> (\<open>uta/testgen/batches.py\<close>, \<open>uta/app/persistence.py\<close>): \<open>GenerationBatches\<close> and
  \<open>GenerationBatchFacts\<close>; membership is decided once and recovered from stored keys.

  \<^bold>\<open>The cycle\<close> (\<open>uta/testgen/graph\<close>): \<open>GenerationCycle\<close> has the nodes and edges of
  \<open>generation-cycle.yaml\<close> and the selectors of \<open>cycle.py\<close> as a step function and a step relation;
  \<open>JavaTools\<close>, \<open>JavaPrecheck\<close> and \<open>JavaPhases\<close> are the Java phases over port records, as in
  \<open>phases/ports.py\<close>. \<open>CycleBounds\<close> states what the end of the cycle needs of a backend as a
  locale, \<open>JavaCycle\<close> interprets it on the Java backend, and \<open>CycleFacts\<close> concludes: the run of an
  uninterrupted unit ends after at most 15 steps for each attempt its state still allows, plus 34,
  where 15 bounds the steps between two attempts and 34 the way in and out.

  \<^bold>\<open>Repair\<close> (\<open>uta/testgen/repair_progress.py\<close>, \<open>uta/language/repair_attempts.py\<close>,
  \<open>uta/enforcement/mutation_repair.py\<close>): \<open>RepairProgress\<close>, \<open>RepairFacts\<close> (a loop ends by lack of
  progress alone), \<open>MutationRepair\<close> (which groups a round may work on) and \<open>RepairContext\<close> (the
  artifacts a round reads, and which group a file ends up with).

  \<^bold>\<open>Scoring\<close> (\<open>uta/language/java/scoring\<close>, \<open>uta/language/java/maven/pitest.py\<close>,
  \<open>uta/enforcement/mutation_roi.py\<close>): \<open>JavaScoring\<close> and \<open>ScoringFacts\<close> rank the methods of a class
  (the depth-first walk has a termination proof and computes the transitive closure);
  \<open>MutationScoring\<close> and \<open>MutationScoringFacts\<close> rank the surviving mutants.

  \<^bold>\<open>Equivalence\<close> (\<open>uta/enforcement/equivalent_mutants.py\<close>, \<open>uta/testgen/equivalence_review.py\<close>):
  \<open>EquivalentMutants\<close>, \<open>EquivalenceReview\<close>, \<open>EquivalentFacts\<close>.

  \<^bold>\<open>Enforcement\<close> (\<open>tools/python-enforcement\<close>). \<open>DiffLines\<close> parses a diff; \<open>MutationBatching\<close> and
  \<open>BatchingFacts\<close> pack the lines to mutate into batches; \<open>EnforceEvidence\<close>, \<open>CandidatePlans\<close> and
  \<open>EnforceDispatch\<close> are the language-neutral core, \<open>PythonLane\<close>, \<open>PythonPolicy\<close>,
  \<open>PythonMutation\<close> and \<open>PythonGate\<close> the Python binding: commands on a lane with a file system,
  coverage, the mutmut run with its passes and the workspace it puts back, and the verdict.
  \<open>DispatchFacts\<close> states the contract of a binding as a locale and \<open>PythonGateFacts\<close> interprets it;
  \<open>PythonEvidence\<close> has the types and totals of the evidence and \<open>PythonSafety\<close> what a passing
  verdict certifies.

  \<^bold>\<open>The Java gate\<close> (\<open>uta/language/java/enforcement_runner\<close>, \<open>maven_project.py\<close>,
  \<open>maven_compat/launcher.py\<close>). \<open>PyRegex\<close> is the part of Python's \<open>re\<close> that the readers of
  Maven's output use: patterns as a datatype and a backtracking matcher, whose repetitions run on
  the length of the text that is left and read something in every round. \<open>MavenOutput\<close> has the
  readers, \<open>MavenTooling\<close> the version of the plugin Maven resolved, \<open>MavenPlanning\<close> the modules and
  tests of a diff and the argument vector, \<open>MavenLauncher\<close> the credentials of a run and the check of
  its completion file, \<open>FailingTests\<close> the failures that are not the change's own, \<open>MavenGate\<close> one run
  with its evidence, its verdict and the answer to a test that hangs, and \<open>MavenRun\<close> the whole gate;
  its loop over stalled runs ends because every further run spends a retry. \<open>MavenRunFacts\<close> shows
  what a pass rests on and how often Maven runs, \<open>LaunchFacts\<close> that a completion file is the one of
  this run, \<open>RerunTests\<close> that a rerun tells its tests apart, \<open>MavenSamples\<close> has a repository that
  passes.

  \<^bold>\<open>The guard of a turn\<close> (\<open>uta/testgen/task_guard.py\<close>, \<open>uta/shared/workspace_policy.py\<close> and the
  policies in \<open>uta/language/java/workspace.py\<close> and \<open>uta/language/python/workspace.py\<close>):
  \<open>WorkspaceGuard\<close> has the path rules and the checks before and after a turn of the model,
  \<open>GuardFacts\<close> states what a path policy protects as the locale \<open>path_policy\<close>, interprets it on both
  languages and shows that a turn that passes has left production code alone.

  \<^bold>\<open>Sessions\<close> (\<open>uta/app/repair\<close>, \<open>uta/shared/fix_sessions.py\<close>, \<open>uta/shared/ci_models.py\<close>):
  \<open>FixSessions\<close> has the record of a check with its sessions, \<open>RepairProjections\<close> what a reader
  sees of one, \<open>RepairSessions\<close> the rerun, the excuse and the callback, \<open>RepairTasks\<close> the creation of
  tasks in requests and in threads, and \<open>RepairAdmission\<close> the admission and both polls.
  \<open>SessionFacts\<close> states what a call may do to the sessions of a record as the locales
  \<open>session_frame\<close>, \<open>whole_frame\<close> and \<open>record_frame\<close> and interprets them on the ids, on all sessions
  but one and on what a passed session keeps; \<open>SessionRuns\<close> bounds the sessions over all calls and
  \<open>SessionEnds\<close> says how a session ends. \<open>SessionSamples\<close> has the ports and records of the
  witnesses. \<open>RerunLock\<close> is the lock file of a rerun as a program over file system calls whose
  calls interleave: it excludes while no lock is six hours old, and no longer when one is.

  \<^bold>\<open>The queue\<close> (\<open>uta/app/service.py\<close>): \<open>CiQueue\<close> has the requests, the claims and the worker as
  steps, each what the code does under its queue lock or between two locks; \<open>QueueFacts\<close> shows over
  all runs that the slots respect the limit, and two interleavings that go wrong. One process serves
  the queue, and the record store holds what that process holds.

  \<^bold>\<open>How the code is translated.\<close> Statements become functions in the order of the source; an
  exception is an \<open>Inl\<close> or \<open>None\<close>; a loop is a recursion, structural or with a measure. Floats are
  exact rationals and \<open>round\<close> rounds half to even, so a result is the one of the code up to the
  rounding of IEEE arithmetic. Characters are code points below 256; the long dash of two prompts is
  written by its UTF-8 bytes or an argument. Paths are texts that are taken as resolved. The clock,
  fresh ids, hashes, JSON, XML parsing, processes, git and the file system are parameters: fields
  of a port record or arguments. Where a statement needs a law of a parameter it is a hypothesis of
  the theorem, and the theorem has a witness at a concrete port.

  \<^bold>\<open>Not modelled.\<close> The HTTP routes, the daemon, the command lines and the protocols of code hosts
  are input and output around the task store; of \<open>uta/app\<close> the store port of the units, the repair
  sessions and the queue of checks are modelled. The
  Python generation backend (\<open>uta/language/python\<close>) and the Python enforcement inside the product
  repeat the standalone client that is modelled, over processes. Context building, prompts,
  parsing with tree-sitter, project summaries, learning, delivery and reports produce texts for a
  model or a reader. The Maven and JaCoCo adapters of the generation phases, the excerpts of failed
  tests from Surefire's text reports, the baseline of the CI report, the mutmut adapter and its import
  hooks, dependency overlays and the mutation workspace drive third-party tools. The collection of
  mutation opportunities from Python syntax trees, the cost estimator and the scripts are left for
  later; the manifest lists every part with its reason.
\<close>

end
